(* ===== verification/Prelude.thy ===== *)
theory Prelude
  imports Main "HOL-Library.Word" "HOL-Library.Monad_Syntax"
begin

unbundle bit_operations_syntax

text \<open>
  Shared vocabulary of the development: the machine integers of the C++ sources, memory cells,
  the option monad in which a definition yields \<open>None\<close> exactly where the source has undefined
  behaviour, fails an \<open>assert\<close> or never returns, and generic lemmas on words and lists that the
  component theories use through the collections declared here.

  Error results of the source (\<open>return false\<close>, \<open>return -1\<close>, \<open>return nullptr\<close>) are ordinary values
  of the model and are never represented by \<open>None\<close> of this monad.
\<close>

named_theorems word_arith
  \<comment> \<open>moving 32 bit and 16 bit word arithmetic to the naturals\<close>
named_theorems blit_simps
  \<comment> \<open>reading back what \<open>memcpy\<close> wrote\<close>

type_synonym u8 = "8 word"
type_synonym u16 = "16 word"
type_synonym u32 = "32 word"
type_synonym u64 = "64 word"
type_synonym i32 = "32 word"

type_synonym cell = "u8 option"
  \<comment> \<open>one byte of memory; \<open>None\<close> is an uninitialised byte\<close>

abbreviation cells :: "u8 list \<Rightarrow> cell list" where
  "cells \<equiv> map Some"

abbreviation require :: "bool \<Rightarrow> unit option" where
  "require P \<equiv> (if P then Some () else None)"

section \<open>C strings\<close>

text \<open>What a function that takes a C string sees of a string: it ends at the first null character.\<close>

definition cstr :: "string \<Rightarrow> string" where
  "cstr s = takeWhile (\<lambda>c. c \<noteq> CHR 0x00) s"

lemma cstr_plain: "CHR 0x00 \<notin> set s \<Longrightarrow> cstr s = s"
  by (auto simp: cstr_def takeWhile_eq_all_conv)

section \<open>Words\<close>

lemma unat_minus_u32 [word_arith]: "b \<le> a \<Longrightarrow> unat (a - b) = unat a - unat b" for a b :: "'a::len word"
  by (rule unat_sub)

lemma unat_plus_fits [word_arith]:
  "unat a + unat b \<le> unat c \<Longrightarrow> unat (a + b) = unat a + unat b" for a b c :: "'a::len word"
  by (rule unat_add_lem [THEN iffD1]) (rule le_less_trans [OF _ unsigned_less])

lemma le_room:
  "w \<le> l \<Longrightarrow> n \<le> l - w \<longleftrightarrow> unat w + unat n \<le> unat l" for w l n :: "'a::len word"
  by (simp add: word_le_nat_alt unat_sub add.commute le_diff_conv2)

lemma unat_of_nat_fits [word_arith]:
  "n < 2 ^ LENGTH('a) \<Longrightarrow> unat (of_nat n :: 'a::len word) = n"
  by (simp add: unat_of_nat take_bit_nat_eq_self)

lemma uint_of_nat_fits [word_arith]:
  "n < 2 ^ LENGTH('a) \<Longrightarrow> uint (of_nat n :: 'a::len word) = int n"
  by (simp add: unsigned_of_nat take_bit_nat_eq_self)

lemma uint_diff_less [word_arith]:
  "uint a - uint b < uint c \<longleftrightarrow> unat a < unat b + unat c" for a b c :: "'a::len word"
  unfolding uint_nat by linarith

lemma uint_diff_greater [word_arith]:
  "uint b \<le> uint a \<Longrightarrow> uint c > uint a - uint b \<longleftrightarrow> unat a < unat b + unat c" for a b c :: "'a::len word"
  unfolding uint_nat by linarith

lemma uint_le_unat: "uint a \<le> uint b \<longleftrightarrow> unat a \<le> unat b" for a b :: "'a::len word"
  unfolding uint_nat by linarith

lemma unat_u16_less: "unat w < 2 ^ 16" for w :: u16
  using unsigned_less [of w, where 'a = nat] by simp

lemma unat_ucast_up [simp]: "unat (ucast w :: u32) = unat w" for w :: u16
  using unat_u16_less [of w] by (simp add: unsigned_ucast_eq take_bit_nat_eq_self)

lemma word_of_unat_eq [simp]: "(of_nat (unat w) :: 'a::len word) = w"
  by simp

section \<open>Overwriting part of a block\<close>

definition blit :: "'a list \<Rightarrow> nat \<Rightarrow> 'a list \<Rightarrow> 'a list" where
  "blit xs off ys = take off xs @ ys @ drop (off + length ys) xs"

lemma length_blit [simp]: "off + length ys \<le> length xs \<Longrightarrow> length (blit xs off ys) = length xs"
  by (simp add: blit_def)

lemma blit_Nil [simp]: "blit xs off [] = xs"
  by (simp add: blit_def)

lemma take_drop_blit_below [blit_simps]:
  "r + n \<le> off \<Longrightarrow> off \<le> length xs \<Longrightarrow> take n (drop r (blit xs off ys)) = take n (drop r xs)"
  by (simp add: blit_def drop_take)

lemma take_drop_blit_append [blit_simps]:
  "r \<le> off \<Longrightarrow> off + length ys \<le> length xs \<Longrightarrow>
   take (off - r + length ys) (drop r (blit xs off ys)) = take (off - r) (drop r xs) @ ys"
  by (simp add: blit_def drop_take)

lemma take_blit_front [blit_simps]: "length ys \<le> length xs \<Longrightarrow> take (length ys) (blit xs 0 ys) = ys"
  by (simp add: blit_def)

lemma blit_blit_append:
  "off + length ys + length zs \<le> length xs \<Longrightarrow>
   blit (blit xs off ys) (off + length ys) zs = blit xs off (ys @ zs)"
  by (simp add: blit_def ac_simps)

section \<open>The option monad\<close>

lemma bind_SomeI: "m = Some x \<Longrightarrow> f x = r \<Longrightarrow> Option.bind m f = r"
  by simp

lemma require_bind [simp]: "Option.bind (require P) f = (if P then f () else None)"
  by simp

lemma bind_NoneD: "Option.bind m f = None \<Longrightarrow> m = None \<or> (\<exists>x. m = Some x \<and> f x = None)"
  by (cases m) auto

end
