(* ===== verification/Memory.thy ===== *)
theory Memory
  imports Prelude
begin

text \<open>
  The heap the buffer classes work on, and the allocation functions of
  \<open>libjmy/jmy_mem.cpp\<close>. A heap maps the address of an allocated block to its bytes; address 0 is
  the null pointer. Blocks that come from the allocator are uninitialised. Reading or writing
  outside a block, through a dangling pointer, or freeing a block twice has no result. The
  allocator is modelled as never running out of memory: no call site of \<open>jmy_mem_malloc\<close> tests
  the pointer it returns.
\<close>

type_synonym addr = nat

abbreviation (input) NULL_PTR :: addr where
  "NULL_PTR \<equiv> 0"

record heap =
  blocks :: "addr \<Rightarrow> cell list option"
  fresh :: addr

definition empty_heap :: heap where
  "empty_heap = \<lparr>blocks = Map.empty, fresh = 1\<rparr>"

definition jmy_mem_malloc :: "heap \<Rightarrow> nat \<Rightarrow> addr \<times> heap" where
  "jmy_mem_malloc h n =
     (fresh h, h\<lparr>blocks := (blocks h)(fresh h \<mapsto> replicate n None), fresh := Suc (fresh h)\<rparr>)"

definition jmy_mem_free :: "heap \<Rightarrow> addr \<Rightarrow> heap option" where
  "jmy_mem_free h a =
     (if a = NULL_PTR then Some h
      else case blocks h a of
        None \<Rightarrow> None
      | Some _ \<Rightarrow> Some (h\<lparr>blocks := (blocks h)(a := None)\<rparr>))"

definition mem_read :: "heap \<Rightarrow> addr \<Rightarrow> nat \<Rightarrow> nat \<Rightarrow> cell list option" where
  "mem_read h a off n =
     (if n = 0 then Some []
      else case blocks h a of
        None \<Rightarrow> None
      | Some b \<Rightarrow> if off + n \<le> length b then Some (take n (drop off b)) else None)"

definition mem_write :: "heap \<Rightarrow> addr \<Rightarrow> nat \<Rightarrow> cell list \<Rightarrow> heap option" where
  "mem_write h a off cs =
     (if cs = [] then Some h
      else case blocks h a of
        None \<Rightarrow> None
      | Some b \<Rightarrow> if off + length cs \<le> length b
                  then Some (h\<lparr>blocks := (blocks h)(a \<mapsto> blit b off cs)\<rparr>) else None)"

definition mem_copy :: "heap \<Rightarrow> addr \<Rightarrow> nat \<Rightarrow> addr \<Rightarrow> nat \<Rightarrow> nat \<Rightarrow> heap option" where
  "mem_copy h dst doff src soff n = do {
     cs \<leftarrow> mem_read h src soff n;
     mem_write h dst doff cs
   }"

definition heap_wf :: "heap \<Rightarrow> bool" where
  "heap_wf h \<longleftrightarrow> 0 < fresh h \<and> (\<forall>a \<in> dom (blocks h). 0 < a \<and> a < fresh h)"

section \<open>Laws of the heap\<close>

lemma heap_wf_empty [simp]: "heap_wf empty_heap"
  by (simp add: heap_wf_def empty_heap_def)

lemma malloc_blocks:
  "jmy_mem_malloc h n = (a, h') \<Longrightarrow> blocks h' = (blocks h)(a \<mapsto> replicate n None)"
  by (auto simp: jmy_mem_malloc_def)

lemma malloc_fresh:
  "heap_wf h \<Longrightarrow> jmy_mem_malloc h n = (a, h') \<Longrightarrow> a \<noteq> NULL_PTR \<and> blocks h a = None \<and> heap_wf h'"
  by (auto simp: jmy_mem_malloc_def heap_wf_def domIff)
     (metis domI less_Suc_eq less_irrefl)+

lemma free_wf: "heap_wf h \<Longrightarrow> jmy_mem_free h a = Some h' \<Longrightarrow> heap_wf h'"
  by (auto simp: jmy_mem_free_def heap_wf_def split: if_splits option.splits)

lemma free_other: "jmy_mem_free h a = Some h' \<Longrightarrow> b \<noteq> a \<Longrightarrow> blocks h' b = blocks h b"
  by (auto simp: jmy_mem_free_def split: if_splits option.splits)

lemma free_allocated: "blocks h a = Some b \<Longrightarrow> jmy_mem_free h a \<noteq> None"
  by (auto simp: jmy_mem_free_def)

lemma mem_read_block:
  "blocks h a = Some b \<Longrightarrow> off + n \<le> length b \<Longrightarrow> mem_read h a off n = Some (take n (drop off b))"
  by (simp add: mem_read_def)

lemma mem_write_block:
  "blocks h a = Some b \<Longrightarrow> off + length cs \<le> length b \<Longrightarrow>
   mem_write h a off cs = Some (h\<lparr>blocks := (blocks h)(a \<mapsto> blit b off cs)\<rparr>)"
  by (auto simp: mem_write_def map_upd_triv)

lemma mem_write_wf: "heap_wf h \<Longrightarrow> mem_write h a off cs = Some h' \<Longrightarrow> heap_wf h'"
  by (auto simp: mem_write_def heap_wf_def split: if_splits option.splits)

lemma mem_write_other: "mem_write h a off cs = Some h' \<Longrightarrow> b \<noteq> a \<Longrightarrow> blocks h' b = blocks h b"
  by (auto simp: mem_write_def split: if_splits option.splits)

lemma mem_copy_block:
  "blocks h src = Some s \<Longrightarrow> soff + n \<le> length s \<Longrightarrow>
   blocks h dst = Some d \<Longrightarrow> doff + n \<le> length d \<Longrightarrow>
   mem_copy h dst doff src soff n =
     Some (h\<lparr>blocks := (blocks h)(dst \<mapsto> blit d doff (take n (drop soff s)))\<rparr>)"
  by (simp add: mem_copy_def mem_read_block mem_write_block)

end
