(* ===== verification/Datatypes.thy ===== *)
theory Datatypes
  imports Memory
begin

text \<open>
  The constants of \<open>libjmy/jmy_const.h\<close> and the message, event and configuration structures of
  \<open>libjmy/jmy_datatype.h\<close>. Function pointers to message and event handlers are numbers
  (0 is \<open>nullptr\<close>); what they do is a parameter of the definitions that call them.
\<close>

abbreviation (input) JMY_MAX_MSG_SIZE :: nat where "JMY_MAX_MSG_SIZE \<equiv> 65536"
abbreviation (input) DEFAULT_SEND_BUFFER_SIZE :: u32 where "DEFAULT_SEND_BUFFER_SIZE \<equiv> 4096"
abbreviation (input) MAX_SEND_BUFFER_SIZE :: u32 where "MAX_SEND_BUFFER_SIZE \<equiv> 655360"
abbreviation (input) DEFAULT_RECV_BUFFER_SIZE :: u32 where "DEFAULT_RECV_BUFFER_SIZE \<equiv> 4096"
abbreviation (input) MAX_RECV_BUFFER_SIZE :: u32 where "MAX_RECV_BUFFER_SIZE \<equiv> 655360"
abbreviation (input) DEFAULT_MAX_SEND_BUFFER_COUNT :: int where "DEFAULT_MAX_SEND_BUFFER_COUNT \<equiv> 100"
abbreviation (input) DEFAULT_MAX_RECV_BUFFER_COUNT :: int where "DEFAULT_MAX_RECV_BUFFER_COUNT \<equiv> 100"

datatype JmyConnType = JMY_CONN_TYPE_NONE | JMY_CONN_TYPE_ACTIVE | JMY_CONN_TYPE_PASSIVE

datatype JmyConnState =
    JMY_CONN_STATE_NOT_USE
  | JMY_CONN_STATE_NOT_CONNECT
  | JMY_CONN_STATE_CONNECTING
  | JMY_CONN_STATE_CONNECTED
  | JMY_CONN_STATE_DISCONNECTING
  | JMY_CONN_STATE_DISCONNECTED

abbreviation (input) JMY_EVENT_NONE :: int where "JMY_EVENT_NONE \<equiv> 0"
abbreviation (input) JMY_EVENT_CONNECT :: int where "JMY_EVENT_CONNECT \<equiv> 1"
abbreviation (input) JMY_EVENT_DISCONNECT :: int where "JMY_EVENT_DISCONNECT \<equiv> 2"
abbreviation (input) JMY_EVENT_TICK :: int where "JMY_EVENT_TICK \<equiv> 3"
abbreviation (input) JMY_EVENT_TIMER :: int where "JMY_EVENT_TIMER \<equiv> 4"
abbreviation (input) JMY_EVENT_MAX_COUNT :: int where "JMY_EVENT_MAX_COUNT \<equiv> 5"

abbreviation (input) JMY_MIN_MESSAGE_ID :: int where "JMY_MIN_MESSAGE_ID \<equiv> 1"
abbreviation (input) JMY_MAX_MESSAGE_ID :: int where "JMY_MAX_MESSAGE_ID \<equiv> 65535"
abbreviation (input) JMY_ACTIVE_CLOSE_CONNECTION_TIMEOUT :: int where
  "JMY_ACTIVE_CLOSE_CONNECTION_TIMEOUT \<equiv> 30"

type_synonym fptr = nat

abbreviation (input) nullptr :: fptr where "nullptr \<equiv> 0"

text \<open>
  A \<open>char*\<close> is \<open>None\<close> when null and otherwise the cells from the pointer to the end of its block.
  \<open>JmyData\<close> is such a pointer with a length; \<open>char_cells\<close> is what \<open>memcpy\<close> reads through it.
\<close>

type_synonym cptr = "cell list option"

definition char_cells :: "cptr \<Rightarrow> nat \<Rightarrow> cell list option" where
  "char_cells p n =
     (case p of
        None \<Rightarrow> if n = 0 then Some [] else None
      | Some cs \<Rightarrow> if n \<le> length cs then Some (take n cs) else None)"

record JmyData =
  jd_data :: cptr
  jd_len :: u32

definition JmyData_cells :: "JmyData \<Rightarrow> cell list option" where
  "JmyData_cells d = char_cells (jd_data d) (unat (jd_len d))"

text \<open>
  \<open>JmyMsgInfo\<close>: \<open>data\<close> is the payload the pointer addresses, \<open>param\<close> the connection manager the
  message came in on. User and message identifiers are C \<open>int\<close>s.
\<close>

record JmyMsgInfo =
  mi_user_id :: i32
  mi_msg_id :: int
  mi_data :: "cell list"
  mi_len :: u32
  mi_conn_id :: int
  mi_param :: nat

record JmyEventInfo =
  ei_event_id :: int
  ei_conn_id :: int
  ei_param :: nat
  ei_param_l :: int

record JmyId2MsgHandler =
  ih_msg_id :: int
  ih_handler :: fptr

record JmyId2EventHandler =
  ie_event_id :: int
  ie_handler :: fptr

record JmyBaseEventHandlers =
  conn_handler :: fptr
  disconn_handler :: fptr
  tick_handler :: fptr
  timer_handler :: fptr

record JmyBufferConfig =
  recv_buff_size :: u32
  send_buff_size :: u32
  recv_buff_list_size :: u32
  send_buff_list_size :: u32
  use_recv_buff_list :: bool
  use_send_buff_list :: bool

record JmyConnectionConfig =
  buff_conf :: JmyBufferConfig
  handlers :: "JmyId2MsgHandler list"
  default_msg_handler :: fptr
  base_event_handlers :: JmyBaseEventHandlers
  other_event_handlers :: "JmyId2EventHandler list"
  no_delay :: bool

record JmyServerConfig =
  sc_conn_conf :: JmyConnectionConfig
  sc_listen_ip :: string
  sc_listen_port :: u16
  sc_max_conn :: u32

record JmyTotalReconnInfo =
  send_count :: u16
  recv_count :: u16

lemma char_cells_Some: "char_cells p n = Some cs \<Longrightarrow> length cs = n"
  by (auto simp: char_cells_def split: option.splits if_splits)

lemma JmyData_cells_Some: "JmyData_cells d = Some cs \<Longrightarrow> length cs = unat (jd_len d)"
  by (simp add: JmyData_cells_def char_cells_Some)

end
