(* ===== verification/Wire.thy ===== *)
theory Wire
  imports Datatypes
begin

unbundle bit_operations_syntax

text \<open>
  The big-endian packing macros that \<open>libjmy/jmy_net_proto.cpp\<close> and \<open>libjmy/jmy_net_proto2.cpp\<close>
  share, and byte access through \<open>char*\<close>. Reading past the end of a
  block, or an uninitialised byte, has no result. \<open>char\<close> is signed: a byte is sign extended when it is promoted to \<open>int\<close>.
\<close>

definition poke :: "cell list \<Rightarrow> nat \<Rightarrow> u8 list \<Rightarrow> cell list option" where
  "poke buf off bs = (if off + length bs \<le> length buf then Some (blit buf off (cells bs)) else None)"

definition peek :: "cell list \<Rightarrow> nat \<Rightarrow> u8 option" where
  "peek buf i = (if i < length buf then buf ! i else None)"

definition PACK_INT16_TO_BUFF :: "i32 \<Rightarrow> u8 list" where
  "PACK_INT16_TO_BUFF x = [ucast (signed_drop_bit 8 x AND 0xff), ucast (x AND 0xff)]"

definition UNPACK_INT16_FROM_BUFF :: "cell list \<Rightarrow> nat \<Rightarrow> i32 option" where
  "UNPACK_INT16_FROM_BUFF buf off = do {
     b0 \<leftarrow> peek buf off;
     b1 \<leftarrow> peek buf (off + 1);
     Some ((push_bit 8 (scast b0) AND 0xff00) + (scast b1 AND 0xff))
   }"

definition PACK_INT32_TO_BUFF :: "'a::len word \<Rightarrow> u8 list" where
  "PACK_INT32_TO_BUFF x =
     [ucast (signed_drop_bit 24 x AND 0xff), ucast (signed_drop_bit 16 x AND 0xff),
      ucast (signed_drop_bit 8 x AND 0xff), ucast (x AND 0xff)]"

definition UNPACK_INT32_FROM_BUFF :: "cell list \<Rightarrow> nat \<Rightarrow> u32 option" where
  "UNPACK_INT32_FROM_BUFF buf off = do {
     b0 \<leftarrow> peek buf off;
     b1 \<leftarrow> peek buf (off + 1);
     b2 \<leftarrow> peek buf (off + 2);
     b3 \<leftarrow> peek buf (off + 3);
     Some ((push_bit 24 (scast b0) AND 0xff000000) + (push_bit 16 (scast b1) AND 0xff0000) +
           (push_bit 8 (scast b2) AND 0xff00) + (scast b3 AND 0xff))
   }"

text \<open>The value a 16 bit big-endian field denotes, as the reference for the unpacking macros.\<close>

definition be16 :: "u8 \<Rightarrow> u8 \<Rightarrow> nat" where
  "be16 a b = 256 * unat a + unat b"

section \<open>Access laws\<close>

lemma poke_Some:
  "off + length bs \<le> length buf \<Longrightarrow> poke buf off bs = Some (blit buf off (cells bs))"
  by (simp add: poke_def)

lemma peek_cells [simp]: "i < length bs \<Longrightarrow> peek (cells bs @ rest) i = Some (bs ! i)"
  by (simp add: peek_def nth_append)

lemma peek_None: "length buf \<le> i \<Longrightarrow> peek buf i = None"
  by (simp add: peek_def)

lemma length_PACK_INT16 [simp]: "length (PACK_INT16_TO_BUFF x) = 2"
  by (simp add: PACK_INT16_TO_BUFF_def)

lemma length_PACK_INT32 [simp]: "length (PACK_INT32_TO_BUFF x) = 4"
  by (simp add: PACK_INT32_TO_BUFF_def)

section \<open>Round trips of the macros\<close>

lemma disjoint_add_or: "a AND b = 0 \<Longrightarrow> a + b = a OR b" for a b :: "'a::len word"
  by (rule disjunctive_add) (metis bit_and_iff bit_0_eq bot_apply bot_bool_def)

lemma byte_masks:
  "(0xff :: 'a::len word) = mask 8" "(0xffff :: i32) = mask 16"
  "(0xff00 :: i32) = push_bit 8 (mask 8)" "(0xff0000 :: i32) = push_bit 16 (mask 8)"
  "(0xff000000 :: i32) = push_bit 24 (mask 8)"
  by (simp_all add: mask_eq_exp_minus_1)

lemma bit_byte: "bit b n \<Longrightarrow> n < 8" for b :: u8
  using bit_imp_le_length [of b n] by simp

lemma min_byte: "n < 8 \<Longrightarrow> min 7 n = n" for n :: nat
  by simp

lemma bit_min_byte: "bit b n \<Longrightarrow> bit b (min 7 n)" for b :: u8
  using bit_byte [of b n] by (simp add: min_byte)

lemma promote_byte: "push_bit k (scast b :: i32) AND push_bit k (mask 8) = push_bit k (ucast b)" for b :: u8
  by (rule bit_word_eqI) (auto simp: bit_simps min_byte intro: bit_min_byte dest: bit_byte)

lemmas promote_bytes =
  promote_byte [of 8, folded byte_masks] promote_byte [of 16, folded byte_masks]
  promote_byte [of 24, folded byte_masks] promote_byte [of 0, simplified, folded byte_masks]

lemma nth_byte: "n + 8 \<le> LENGTH('a) \<Longrightarrow> (ucast (signed_drop_bit n x) :: u8) = ucast (drop_bit n x)"
  for x :: "'a::len word"
  by (rule bit_word_eqI) (auto simp: bit_simps)

lemma low_byte: "(ucast (x AND 0xff) :: u8) = ucast x" for x :: "'a::len word"
  by (rule bit_word_eqI) (auto simp: byte_masks(1) bit_simps dest: bit_imp_le_length)

lemma join_bytes16:
  "push_bit 8 (ucast (ucast (drop_bit 8 x) :: u8)) + ucast (ucast x :: u8) = x AND 0xffff" for x :: i32
  unfolding byte_masks
  by (subst disjoint_add_or; rule bit_word_eqI) (auto simp: bit_simps)

lemma join_bytes32:
  "push_bit 24 (ucast (ucast (drop_bit 24 x) :: u8)) + push_bit 16 (ucast (ucast (drop_bit 16 x) :: u8)) +
   push_bit 8 (ucast (ucast (drop_bit 8 x) :: u8)) + ucast (ucast x :: u8) = x" for x :: i32
proof -
  let ?b = "\<lambda>n. push_bit n (ucast (ucast (drop_bit n x) :: u8)) :: i32"
  have 1: "?b 24 + ?b 16 = ?b 24 OR ?b 16"
    by (rule disjoint_add_or, rule bit_word_eqI) (auto simp: bit_simps)
  have 2: "(?b 24 OR ?b 16) + ?b 8 = (?b 24 OR ?b 16) OR ?b 8"
    by (rule disjoint_add_or, rule bit_word_eqI) (auto simp: bit_simps)
  have 3: "((?b 24 OR ?b 16) OR ?b 8) + ?b 0 = ((?b 24 OR ?b 16) OR ?b 8) OR ?b 0"
    by (rule disjoint_add_or, rule bit_word_eqI) (auto simp: bit_simps)
  have "((?b 24 OR ?b 16) OR ?b 8) OR ?b 0 = x"
  proof (rule bit_word_eqI)
    fix n
    show "bit (((?b 24 OR ?b 16) OR ?b 8) OR ?b 0) n \<longleftrightarrow> bit x n"
      by (cases "n < 8"; cases "n < 16"; cases "n < 24") (auto simp: bit_simps dest: bit_imp_le_length)
  qed
  then show ?thesis using 1 2 3 by simp
qed

lemma unpack16_pack16:
  "UNPACK_INT16_FROM_BUFF (cells (PACK_INT16_TO_BUFF x) @ rest) 0 = Some (x AND 0xffff)"
  by (simp add: UNPACK_INT16_FROM_BUFF_def PACK_INT16_TO_BUFF_def peek_def nth_byte low_byte
      promote_bytes join_bytes16)

lemma unpack32_pack32:
  "UNPACK_INT32_FROM_BUFF (cells (PACK_INT32_TO_BUFF x) @ rest) 0 = Some x" for x :: i32
  by (simp add: UNPACK_INT32_FROM_BUFF_def PACK_INT32_TO_BUFF_def peek_def nth_byte low_byte
      promote_bytes join_bytes32)

lemma unpack16_value:
  "UNPACK_INT16_FROM_BUFF (cells [a, b] @ rest) 0 = Some (of_nat (be16 a b))"
proof -
  have "push_bit 8 (ucast a :: i32) = of_nat (256 * unat a)"
    by (simp add: push_bit_eq_mult)
  then show ?thesis
    by (simp add: UNPACK_INT16_FROM_BUFF_def peek_def promote_bytes be16_def)
qed

end
