(* ===== verification/Net_Proto2.thy ===== *)
theory Net_Proto2
  imports Wire
begin

unbundle bit_operations_syntax

text \<open>
  The wire format of \<open>libjmy/jmy_net_proto2.h\<close> and \<open>libjmy/jmy_net_proto2.cpp\<close>, the protocol the
  servers are built with (\<open>USE_NET_PROTO2\<close>): a two byte length, a one byte packet type and a body.
  Packet types are C \<open>int\<close>s (a signed \<open>char\<close> cast to the enumeration). The packing functions write
  into a caller's array and return the number of bytes or -1; the unpacking function fills a
  \<open>JmyPacketUnpackData2\<close>.
\<close>

abbreviation (input) JMY_PACKET2_NONE :: int where "JMY_PACKET2_NONE \<equiv> 0"
abbreviation (input) JMY_PACKET2_USER_DATA :: int where "JMY_PACKET2_USER_DATA \<equiv> 5"
abbreviation (input) JMY_PACKET2_ACK :: int where "JMY_PACKET2_ACK \<equiv> 6"
abbreviation (input) JMY_PACKET2_HEARTBEAT :: int where "JMY_PACKET2_HEARTBEAT \<equiv> 7"
abbreviation (input) JMY_PACKET2_DISCONNECT :: int where "JMY_PACKET2_DISCONNECT \<equiv> 8"
abbreviation (input) JMY_PACKET2_DISCONNECT_ACK :: int where "JMY_PACKET2_DISCONNECT_ACK \<equiv> 9"
abbreviation (input) JMY_PACKET2_USER_ID_DATA :: int where "JMY_PACKET2_USER_ID_DATA \<equiv> 10"

datatype JmyUnpackResultType2 =
    JMY_UNPACK2_RESULT_NO_ERROR
  | JMY_UNPACK2_RESULT_DATA_NOT_ENOUGH
  | JMY_UNPACK2_RESULT_USER_DATA_NOT_ENOUGH
  | JMY_UNPACK2_RESULT_MSG_LEN_INVALID

abbreviation (input) JMY_PACKET2_LEN_HEAD :: int where "JMY_PACKET2_LEN_HEAD \<equiv> 2"
abbreviation (input) JMY_PACKET2_LEN_TYPE :: int where "JMY_PACKET2_LEN_TYPE \<equiv> 1"
abbreviation (input) JMY_PACKET2_LEN_USER_ID :: int where "JMY_PACKET2_LEN_USER_ID \<equiv> 4"
abbreviation (input) JMY_PACKET2_LEN_MSG_ID :: int where "JMY_PACKET2_LEN_MSG_ID \<equiv> 2"
abbreviation (input) JMY_PACKET2_LEN_TIMESTAMP :: int where "JMY_PACKET2_LEN_TIMESTAMP \<equiv> 4"

record JmyPacketUnpackData2 =
  ud_type :: int
  ud_param :: int
  ud_data :: int
  ud_result :: JmyUnpackResultType2
  ud_msg_info :: JmyMsgInfo

definition empty_msg_info :: JmyMsgInfo where
  "empty_msg_info = \<lparr>mi_user_id = 0, mi_msg_id = 0, mi_data = [], mi_len = 0, mi_conn_id = 0, mi_param = 0\<rparr>"

definition new_unpack_data2 :: JmyPacketUnpackData2 where
  "new_unpack_data2 = \<lparr>ud_type = JMY_PACKET2_NONE, ud_param = 0, ud_data = 0,
     ud_result = JMY_UNPACK2_RESULT_NO_ERROR, ud_msg_info = empty_msg_info\<rparr>"

section \<open>Packet lengths\<close>

definition jmy_net_proto2_disconnect_pack_len :: int where
  "jmy_net_proto2_disconnect_pack_len = JMY_PACKET2_LEN_HEAD + JMY_PACKET2_LEN_TYPE"

definition jmy_net_proto2_disconnect_ack_pack_len :: int where
  "jmy_net_proto2_disconnect_ack_pack_len = JMY_PACKET2_LEN_HEAD + JMY_PACKET2_LEN_TYPE"

definition jmy_net_proto2_user_data_pack_len :: int where
  "jmy_net_proto2_user_data_pack_len =
     JMY_PACKET2_LEN_HEAD + JMY_PACKET2_LEN_TYPE + JMY_PACKET2_LEN_MSG_ID"

definition jmy_net_proto2_user_data_pack_len_of :: "u16 \<Rightarrow> int" where
  "jmy_net_proto2_user_data_pack_len_of data_len = jmy_net_proto2_user_data_pack_len + uint data_len"

definition jmy_net_proto2_user_id_data_pack_len :: int where
  "jmy_net_proto2_user_id_data_pack_len =
     JMY_PACKET2_LEN_HEAD + JMY_PACKET2_LEN_TYPE + JMY_PACKET2_LEN_USER_ID + JMY_PACKET2_LEN_MSG_ID"

definition jmy_net_proto2_user_id_data_pack_len_of :: "u16 \<Rightarrow> int" where
  "jmy_net_proto2_user_id_data_pack_len_of data_len =
     jmy_net_proto2_user_id_data_pack_len + uint data_len"

definition jmy_net_proto2_heartbeat_pack_len :: int where
  "jmy_net_proto2_heartbeat_pack_len =
     JMY_PACKET2_LEN_HEAD + JMY_PACKET2_LEN_TYPE + JMY_PACKET2_LEN_TIMESTAMP"

lemmas pack_len_defs =
  jmy_net_proto2_disconnect_pack_len_def jmy_net_proto2_disconnect_ack_pack_len_def
  jmy_net_proto2_user_data_pack_len_def jmy_net_proto2_user_data_pack_len_of_def
  jmy_net_proto2_user_id_data_pack_len_def jmy_net_proto2_user_id_data_pack_len_of_def
  jmy_net_proto2_heartbeat_pack_len_def

section \<open>Packing\<close>

definition jmy_net_proto2_get_packet_len_type ::
    "cell list \<Rightarrow> u16 \<Rightarrow> int \<Rightarrow> int \<Rightarrow> (bool \<times> int \<times> int) option" where
  "jmy_net_proto2_get_packet_len_type buf buf_len type len =
     (if uint buf_len < JMY_PACKET2_LEN_HEAD + JMY_PACKET2_LEN_TYPE then Some (False, type, len)
      else do {
        l \<leftarrow> UNPACK_INT16_FROM_BUFF buf 0;
        t \<leftarrow> peek buf 2;
        Some (True, sint t, sint l)
      })"

definition pack_type_only :: "cptr \<Rightarrow> u8 \<Rightarrow> int \<Rightarrow> u8 \<Rightarrow> (int \<times> cptr) option" where
  "pack_type_only buf len pack_len type =
     (case buf of
        None \<Rightarrow> Some (- 1, buf)
      | Some b \<Rightarrow>
          if uint len < pack_len then Some (- 1, buf)
          else do {
            b \<leftarrow> poke b 0 (PACK_INT16_TO_BUFF (word_of_int JMY_PACKET2_LEN_TYPE));
            b \<leftarrow> poke b 2 [type];
            Some (pack_len, Some b)
          })"

definition jmy_net_proto2_pack_disconnect :: "cptr \<Rightarrow> u8 \<Rightarrow> (int \<times> cptr) option" where
  "jmy_net_proto2_pack_disconnect buf len =
     pack_type_only buf len jmy_net_proto2_disconnect_pack_len (word_of_int JMY_PACKET2_DISCONNECT)"

definition jmy_net_proto2_pack_disconnect_ack :: "cptr \<Rightarrow> u8 \<Rightarrow> (int \<times> cptr) option" where
  "jmy_net_proto2_pack_disconnect_ack buf len =
     pack_type_only buf len jmy_net_proto2_disconnect_ack_pack_len
       (word_of_int JMY_PACKET2_DISCONNECT_ACK)"

definition jmy_net_proto2_pack_user_data_head ::
    "cptr \<Rightarrow> u8 \<Rightarrow> i32 \<Rightarrow> u16 \<Rightarrow> (int \<times> cptr) option" where
  "jmy_net_proto2_pack_user_data_head buf len msg_id data_len =
     (let pack_len = jmy_net_proto2_user_data_pack_len_of data_len in
      case buf of
        None \<Rightarrow> Some (- 1, buf)
      | Some b \<Rightarrow>
          if uint len < pack_len - uint data_len then Some (- 1, buf)
          else do {
            b \<leftarrow> poke b 0 (PACK_INT16_TO_BUFF (word_of_int (pack_len - JMY_PACKET2_LEN_HEAD)));
            b \<leftarrow> poke b 2 [word_of_int JMY_PACKET2_USER_DATA];
            b \<leftarrow> poke b 3 (PACK_INT16_TO_BUFF msg_id);
            Some (jmy_net_proto2_user_data_pack_len, Some b)
          })"

definition jmy_net_proto2_pack_user_id_data_head ::
    "cptr \<Rightarrow> u8 \<Rightarrow> i32 \<Rightarrow> i32 \<Rightarrow> u16 \<Rightarrow> (int \<times> cptr) option" where
  "jmy_net_proto2_pack_user_id_data_head buf len user_id msg_id data_len =
     (let pack_len = jmy_net_proto2_user_id_data_pack_len_of data_len in
      case buf of
        None \<Rightarrow> Some (- 1, buf)
      | Some b \<Rightarrow>
          if uint len < pack_len - uint data_len then Some (- 1, buf)
          else do {
            b \<leftarrow> poke b 0 (PACK_INT16_TO_BUFF (word_of_int (pack_len - JMY_PACKET2_LEN_HEAD)));
            b \<leftarrow> poke b 2 [word_of_int JMY_PACKET2_USER_ID_DATA];
            b \<leftarrow> poke b 3 (PACK_INT32_TO_BUFF user_id);
            b \<leftarrow> poke b (3 + 4) (PACK_INT16_TO_BUFF msg_id);
            Some (jmy_net_proto2_user_id_data_pack_len, Some b)
          })"

text \<open>The current time is the parameter \<open>now\<close> (\<open>std::time_t\<close>).\<close>

definition jmy_net_proto2_pack_heartbeat :: "u64 \<Rightarrow> cptr \<Rightarrow> u8 \<Rightarrow> (int \<times> cptr) option" where
  "jmy_net_proto2_pack_heartbeat now buf len =
     (let pack_len = jmy_net_proto2_heartbeat_pack_len in
      case buf of
        None \<Rightarrow> Some (- 1, buf)
      | Some b \<Rightarrow>
          if uint len < pack_len then Some (- 1, buf)
          else do {
            b \<leftarrow> poke b 0 (PACK_INT16_TO_BUFF (word_of_int (pack_len - JMY_PACKET2_LEN_HEAD)));
            b \<leftarrow> poke b 2 [word_of_int JMY_PACKET2_HEARTBEAT];
            b \<leftarrow> poke b 3 (PACK_INT32_TO_BUFF now);
            Some (pack_len, Some b)
          })"

section \<open>Unpacking\<close>

definition unpack_user_data ::
    "int \<Rightarrow> cell list \<Rightarrow> u16 \<Rightarrow> nat \<Rightarrow> i32 \<Rightarrow> JmyPacketUnpackData2 \<Rightarrow> int \<Rightarrow> nat \<Rightarrow>
     (int \<times> JmyPacketUnpackData2) option" where
  "unpack_user_data packet_type buf len offset user_id data conn_id param = do {
     m \<leftarrow> UNPACK_INT16_FROM_BUFF buf offset;
     let data = data\<lparr>ud_param := sint m\<rparr>;
     let offset = offset + 2;
     let mlen = (word_of_int (uint len - int offset) :: u32);
     let data = data\<lparr>ud_msg_info :=
       \<lparr>mi_user_id = user_id, mi_msg_id = ud_param data, mi_data = drop offset buf,
        mi_len = mlen, mi_conn_id = conn_id, mi_param = param\<rparr>\<rparr>;
     Some (sint (word_of_int (int offset) + mlen),
           data\<lparr>ud_result := JMY_UNPACK2_RESULT_NO_ERROR\<rparr>)
   }"

definition jmy_net_proto2_unpack_data ::
    "int \<Rightarrow> cptr \<Rightarrow> u16 \<Rightarrow> JmyPacketUnpackData2 \<Rightarrow> int \<Rightarrow> nat \<Rightarrow>
     (int \<times> JmyPacketUnpackData2) option" where
  "jmy_net_proto2_unpack_data packet_type buf len data conn_id param =
     (case buf of
        None \<Rightarrow> Some (0, data)
      | Some b \<Rightarrow>
          if len = 0 then Some (0, data)
          else if packet_type = JMY_PACKET2_USER_DATA then
            unpack_user_data packet_type b len 0 0 data conn_id param
          else if packet_type = JMY_PACKET2_USER_ID_DATA then
            (if uint len - 0 < 4
             then Some (0, data\<lparr>ud_result := JMY_UNPACK2_RESULT_DATA_NOT_ENOUGH\<rparr>)
             else do {
               user_id \<leftarrow> UNPACK_INT32_FROM_BUFF b 0;
               unpack_user_data packet_type b len 4 user_id data conn_id param
             })
          else if packet_type = JMY_PACKET2_HEARTBEAT then
            (if uint len < JMY_PACKET2_LEN_TIMESTAMP
             then Some (0, data\<lparr>ud_result := JMY_UNPACK2_RESULT_DATA_NOT_ENOUGH\<rparr>)
             else do {
               t \<leftarrow> UNPACK_INT32_FROM_BUFF b 0;
               Some (JMY_PACKET2_LEN_TIMESTAMP,
                     data\<lparr>ud_param := uint t, ud_result := JMY_UNPACK2_RESULT_NO_ERROR\<rparr>)
             })
          else if packet_type = JMY_PACKET2_DISCONNECT \<or> packet_type = JMY_PACKET2_DISCONNECT_ACK then
            Some (0, data\<lparr>ud_result := JMY_UNPACK2_RESULT_NO_ERROR\<rparr>)
          else Some (- 1, data))"

section \<open>The packets, as byte strings\<close>

text \<open>What a sender puts on the wire, written without reference to the packing functions.\<close>

definition be16_bytes :: "nat \<Rightarrow> u8 list" where
  "be16_bytes n = [of_nat (n div 256), of_nat n]"

definition user_data_head :: "i32 \<Rightarrow> u16 \<Rightarrow> u8 list" where
  "user_data_head msg_id n =
     be16_bytes (unat n + 3) @ [5] @ be16_bytes (unat msg_id)"

definition user_id_data_head :: "i32 \<Rightarrow> i32 \<Rightarrow> u16 \<Rightarrow> u8 list" where
  "user_id_data_head user_id msg_id n =
     be16_bytes (unat n + 7) @ [10] @ be16_bytes (unat user_id div 65536) @ be16_bytes (unat user_id) @
     be16_bytes (unat msg_id)"

definition heartbeat_packet :: "u64 \<Rightarrow> u8 list" where
  "heartbeat_packet now = [0, 5, 7] @ be16_bytes (unat now div 65536) @ be16_bytes (unat now)"

definition disconnect_packet :: "u8 list" where
  "disconnect_packet = [0, 1, 8]"

definition disconnect_ack_packet :: "u8 list" where
  "disconnect_ack_packet = [0, 1, 9]"

lemmas packet_defs =
  user_data_head_def user_id_data_head_def heartbeat_packet_def disconnect_packet_def
  disconnect_ack_packet_def

lemma length_heads [simp]:
  "length (be16_bytes k) = 2" "length (user_data_head m n) = 5" "length (user_id_data_head u m n) = 9"
  "length (heartbeat_packet t) = 7" "length disconnect_packet = 3" "length disconnect_ack_packet = 3"
  by (simp_all add: be16_bytes_def packet_defs)

lemma ucast_drop_bit: "(ucast (drop_bit k x) :: u8) = of_nat (unat x div 2 ^ k)" for x :: "'a::len word"
  by (metis drop_bit_eq_div of_nat_unat unat_drop_bit_eq)

lemma PACK_INT16_bytes: "PACK_INT16_TO_BUFF x = be16_bytes (unat x)"
  by (simp add: PACK_INT16_TO_BUFF_def be16_bytes_def low_byte nth_byte ucast_drop_bit)

lemma PACK_INT32_bytes:
  "32 \<le> LENGTH('a) \<Longrightarrow>
   PACK_INT32_TO_BUFF x = be16_bytes (unat x div 65536) @ be16_bytes (unat x)" for x :: "'a::len word"
  by (simp add: PACK_INT32_TO_BUFF_def be16_bytes_def low_byte nth_byte ucast_drop_bit div_mult2_eq [symmetric])

section \<open>Packing writes exactly the packet\<close>

lemma pack_type_only_ok:
  assumes "length b = 3"
  shows "pack_type_only (Some b) 3 3 t = Some (3, Some (cells [0, 1, t]))"
proof -
  from assms obtain x0 x1 x2 where "b = [x0, x1, x2]"
    by (auto simp: numeral_eq_Suc length_Suc_conv)
  then show ?thesis
    by (simp add: pack_type_only_def poke_def blit_def PACK_INT16_bytes be16_bytes_def)
qed

lemma pack_disconnect_ok:
  "length b = 3 \<Longrightarrow> jmy_net_proto2_pack_disconnect (Some b) 3 = Some (3, Some (cells disconnect_packet))"
  by (simp add: jmy_net_proto2_pack_disconnect_def pack_len_defs pack_type_only_ok packet_defs)

lemma pack_disconnect_ack_ok:
  "length b = 3 \<Longrightarrow>
   jmy_net_proto2_pack_disconnect_ack (Some b) 3 = Some (3, Some (cells disconnect_ack_packet))"
  by (simp add: jmy_net_proto2_pack_disconnect_ack_def pack_len_defs pack_type_only_ok packet_defs)

lemma unat_head_len: "k < 65536 \<Longrightarrow> unat (of_nat k + ucast n :: i32) = unat n + k" for n :: u16
proof -
  assume "k < 65536"
  moreover have "unat n < 2 ^ LENGTH(16)"
    by (rule unsigned_less)
  ultimately have "unat n + k < 2 ^ 32"
    by simp
  moreover have "(of_nat k + ucast n :: i32) = of_nat (unat n + k)"
    by simp
  ultimately show ?thesis
    by (simp add: unat_of_nat_fits del: of_nat_add)
qed

lemma pack_user_data_head_ok:
  assumes "length b = 5"
  shows "jmy_net_proto2_pack_user_data_head (Some b) 5 m n = Some (5, Some (cells (user_data_head m n)))"
proof -
  from assms obtain x0 x1 x2 x3 x4 where "b = [x0, x1, x2, x3, x4]"
    by (auto simp: numeral_eq_Suc length_Suc_conv)
  moreover have "unat (3 + ucast n :: i32) = unat n + 3"
    using unat_head_len [of 3 n] by simp
  ultimately show ?thesis
    by (simp add: jmy_net_proto2_pack_user_data_head_def pack_len_defs poke_def blit_def
        PACK_INT16_bytes packet_defs)
qed

lemma pack_user_id_data_head_ok:
  assumes "length b = 9"
  shows "jmy_net_proto2_pack_user_id_data_head (Some b) 9 u m n =
           Some (9, Some (cells (user_id_data_head u m n)))"
proof -
  from assms obtain x0 x1 x2 x3 x4 x5 x6 x7 x8 where "b = [x0, x1, x2, x3, x4, x5, x6, x7, x8]"
    by (auto simp: numeral_eq_Suc length_Suc_conv)
  moreover have "unat (7 + ucast n :: i32) = unat n + 7"
    using unat_head_len [of 7 n] by simp
  ultimately show ?thesis
    by (simp add: jmy_net_proto2_pack_user_id_data_head_def pack_len_defs poke_def blit_def
        PACK_INT16_bytes PACK_INT32_bytes packet_defs)
qed

lemma pack_heartbeat_ok:
  assumes "length b = 7"
  shows "jmy_net_proto2_pack_heartbeat now (Some b) 7 = Some (7, Some (cells (heartbeat_packet now)))"
proof -
  from assms obtain x0 x1 x2 x3 x4 x5 x6 where "b = [x0, x1, x2, x3, x4, x5, x6]"
    by (auto simp: numeral_eq_Suc length_Suc_conv)
  then show ?thesis
    by (simp add: jmy_net_proto2_pack_heartbeat_def pack_len_defs poke_def blit_def
        PACK_INT16_bytes PACK_INT32_bytes be16_bytes_def packet_defs)
qed

section \<open>Unpacking inverts packing\<close>

lemma be16_be16_bytes: "be16 (of_nat (n div 256)) (of_nat n) = n mod 65536"
  by (simp add: be16_def unat_of_nat take_bit_eq_mod mod_mult2_eq [of n 256 256, simplified] add.commute)

lemma unpack16_at:
  "off = length pre \<Longrightarrow>
   UNPACK_INT16_FROM_BUFF (pre @ cells (be16_bytes n) @ rest) off = Some (of_nat (n mod 65536))"
  using unpack16_value [of "of_nat (n div 256)" "of_nat n" rest] be16_be16_bytes [of n]
  by (simp add: UNPACK_INT16_FROM_BUFF_def peek_def nth_append be16_bytes_def)

lemma sint_small: "n < 65536 \<Longrightarrow> sint (of_nat n :: i32) = int n"
  by (simp add: signed_of_nat signed_take_bit_int_eq_self)

lemma get_packet_len_type_ok:
  "jmy_net_proto2_get_packet_len_type (cells (be16_bytes n @ [t])) 3 ty l =
     Some (True, sint t, int (n mod 65536))"
  using unpack16_at [of 0 "[]" n "cells [t]"]
  by (simp add: jmy_net_proto2_get_packet_len_type_def peek_def nth_append sint_small)

text \<open>The message information a receiver is handed for a user packet.\<close>

definition msg_info_of :: "i32 \<Rightarrow> i32 \<Rightarrow> u8 list \<Rightarrow> int \<Rightarrow> nat \<Rightarrow> JmyMsgInfo" where
  "msg_info_of user_id msg_id d conn_id param =
     \<lparr>mi_user_id = user_id, mi_msg_id = int (unat msg_id mod 65536), mi_data = cells d,
      mi_len = of_nat (length d), mi_conn_id = conn_id, mi_param = param\<rparr>"

lemma unpack_user_data_body:
  assumes "length pre + 2 + length d < 65536" "off = length pre"
  shows "unpack_user_data ty (pre @ cells (be16_bytes (unat m) @ d)) (of_nat (length pre + 2 + length d))
           off u ud cid p =
         Some (int (length pre + 2 + length d),
               ud\<lparr>ud_param := int (unat m mod 65536), ud_result := JMY_UNPACK2_RESULT_NO_ERROR,
                  ud_msg_info := msg_info_of u m d cid p\<rparr>)"
proof -
  let ?n = "length pre + 2 + length d"
  have len: "uint (of_nat ?n :: u16) = int ?n"
    using assms(1) by (intro uint_of_nat_fits) simp
  have mlen: "(word_of_int (uint (of_nat ?n :: u16) - int (length pre + 2)) :: u32) = of_nat (length d)"
    unfolding len by simp
  have "(word_of_int (int (length pre + 2)) + of_nat (length d) :: i32) = of_nat ?n"
    by simp
  then have tot: "sint (word_of_int (int (length pre + 2)) + of_nat (length d) :: i32) = int ?n"
    using assms(1) by (simp only: sint_small)
  have m: "sint (of_nat (unat m mod 65536) :: i32) = int (unat m mod 65536)"
    by (rule sint_small) simp
  have body: "drop (length pre + 2) (pre @ cells (be16_bytes (unat m)) @ cells d) = cells d"
    by simp
  show ?thesis
    unfolding unpack_user_data_def assms(2) map_append unpack16_at [OF refl] Let_def mlen tot m body
    by (simp add: msg_info_of_def m del: of_nat_add)
qed

lemma of_nat_u16_nonzero: "0 < n \<Longrightarrow> n < 65536 \<Longrightarrow> (of_nat n :: u16) \<noteq> 0"
  using unat_of_nat_fits [of n, where 'a = 16] by fastforce

lemma unpack_user_data_ok:
  assumes "2 + length d < 65536"
  shows "jmy_net_proto2_unpack_data JMY_PACKET2_USER_DATA (Some (cells (be16_bytes (unat m) @ d)))
           (of_nat (2 + length d)) ud cid p =
         Some (int (2 + length d),
               ud\<lparr>ud_param := int (unat m mod 65536), ud_result := JMY_UNPACK2_RESULT_NO_ERROR,
                  ud_msg_info := msg_info_of 0 m d cid p\<rparr>)"
  using unpack_user_data_body [of "[]" d 0] of_nat_u16_nonzero [of "2 + length d"] assms
  by (simp add: jmy_net_proto2_unpack_data_def del: of_nat_add)

lemma unpack32_be16_bytes:
  "UNPACK_INT32_FROM_BUFF (cells (be16_bytes (unat u div 65536) @ be16_bytes (unat u)) @ rest) 0 = Some u"
  for u :: i32
  using unpack32_pack32 [of u rest] by (simp add: PACK_INT32_bytes)

lemma unpack_user_id_data_ok:
  assumes "6 + length d < 65536"
  shows "jmy_net_proto2_unpack_data JMY_PACKET2_USER_ID_DATA
           (Some (cells (be16_bytes (unat u div 65536) @ be16_bytes (unat u) @ be16_bytes (unat m) @ d)))
           (of_nat (6 + length d)) ud cid p =
         Some (int (6 + length d),
               ud\<lparr>ud_param := int (unat m mod 65536), ud_result := JMY_UNPACK2_RESULT_NO_ERROR,
                  ud_msg_info := msg_info_of u m d cid p\<rparr>)"
proof -
  let ?u = "cells (be16_bytes (unat u div 65536) @ be16_bytes (unat u))"
  let ?n = "length ?u + 2 + length d"
  have n: "6 + length d = ?n" by simp
  have len: "uint (of_nat ?n :: u16) = int ?n"
    using assms by (intro uint_of_nat_fits) simp
  have "unpack_user_data JMY_PACKET2_USER_ID_DATA (?u @ cells (be16_bytes (unat m) @ d)) (of_nat ?n) 4 u ud cid p
        = Some (int ?n, ud\<lparr>ud_param := int (unat m mod 65536), ud_result := JMY_UNPACK2_RESULT_NO_ERROR,
                  ud_msg_info := msg_info_of u m d cid p\<rparr>)"
    by (rule unpack_user_data_body) (use assms in simp_all)
  moreover have "(of_nat ?n :: u16) \<noteq> 0"
    using of_nat_u16_nonzero [of ?n] assms by (simp del: of_nat_add)
  moreover have "UNPACK_INT32_FROM_BUFF (?u @ cells (be16_bytes (unat m) @ d)) 0 = Some u"
    by (rule unpack32_be16_bytes)
  moreover have "\<not> uint (of_nat ?n :: u16) - 0 < 4"
    unfolding len by simp
  ultimately show ?thesis
    unfolding n jmy_net_proto2_unpack_data_def by (simp del: of_nat_add)
qed

lemma peek_cells_eq: "peek (cells d) i = (if i < length d then Some (d ! i) else None)"
  by (simp add: peek_def)

lemma unpack16_defined: "UNPACK_INT16_FROM_BUFF (cells d) off = None \<longleftrightarrow> length d < off + 2"
  by (auto simp: UNPACK_INT16_FROM_BUFF_def peek_cells_eq)

lemma unpack32_defined: "UNPACK_INT32_FROM_BUFF (cells d) off = None \<longleftrightarrow> length d < off + 4"
  by (auto simp: UNPACK_INT32_FROM_BUFF_def peek_cells_eq)

lemma unpack_user_data_defined:
  "unpack_user_data ty (cells d) len off u ud cid p = None \<longleftrightarrow> length d < off + 2"
  using unpack16_defined [of d off]
  by (cases "UNPACK_INT16_FROM_BUFF (cells d) off") (auto simp: unpack_user_data_def Let_def)

text \<open>
  C26. Unpacking a received body never reads outside it, except for user packets whose body is too
  short for the message id: one byte in a user data packet, four or five in a user id packet. For
  those, and only those, the read runs past the buffer.
\<close>

theorem unpack_data_reads_out_of_bounds_iff:
  assumes "0 < length d" "length d < 65536"
  shows "jmy_net_proto2_unpack_data ty (Some (cells d)) (of_nat (length d)) ud cid p = None \<longleftrightarrow>
         (ty = JMY_PACKET2_USER_DATA \<and> length d = 1) \<or>
         (ty = JMY_PACKET2_USER_ID_DATA \<and> (length d = 4 \<or> length d = 5))"
proof -
  have "(of_nat (length d) :: u16) \<noteq> 0"
    using assms by (intro of_nat_u16_nonzero)
  moreover have "uint (of_nat (length d) :: u16) = int (length d)"
    using assms by (intro uint_of_nat_fits) simp
  moreover obtain u where "4 \<le> length d \<Longrightarrow> UNPACK_INT32_FROM_BUFF (cells d) 0 = Some u"
    using unpack32_defined [of d 0] by (cases "UNPACK_INT32_FROM_BUFF (cells d) 0") auto
  ultimately show ?thesis
    using assms(1)
    by (auto simp: jmy_net_proto2_unpack_data_def unpack_user_data_defined less_Suc_eq)
qed

theorem unpack_data_reads_out_of_bounds_iff_witness:
  "jmy_net_proto2_unpack_data 5 (Some (cells [7])) 1 new_unpack_data2 3 0 = None \<and>
   jmy_net_proto2_unpack_data 10 (Some (cells [0, 0, 0, 9, 1])) 5 new_unpack_data2 3 0 = None \<and>
   jmy_net_proto2_unpack_data 10 (Some (cells [0, 0, 9])) 3 new_unpack_data2 3 0 \<noteq> None"
  using unpack_data_reads_out_of_bounds_iff [of "[7]" 5 new_unpack_data2 3 0]
    unpack_data_reads_out_of_bounds_iff [of "[0, 0, 0, 9, 1]" 10 new_unpack_data2 3 0]
    unpack_data_reads_out_of_bounds_iff [of "[0, 0, 9]" 10 new_unpack_data2 3 0]
  by simp

end
