(* ===== verification/Send_Buffer.thy ===== *)
theory Send_Buffer
  imports Datatypes
begin

text \<open>
  The contract that the template parameter \<open>Buffer\<close> of \<open>JmyDataHandler2\<close> has to satisfy, and what
  \<open>JmyTcpConnection\<close> relies on when it hands the content of a send buffer to the socket: a buffer is
  a stream of bytes, a write appends all of its data or nothing, a read gives a prefix of the
  stream that is empty only if the stream is, and consuming bytes removes them from the front.
  Whether a write of \<open>n\<close> bytes succeeds is decided by \<open>accepts\<close>.
  \<open>JmyDoubleSessionBuffer\<close> and \<open>JmySessionBufferList\<close> are its two interpretations.
\<close>

datatype send_op = Write JmyData | WriteAll "JmyData list" | Sent u32

text \<open>The bytes an operation asks the buffer to take, when its pointers are valid.\<close>

fun op_cells :: "send_op \<Rightarrow> cell list option" where
  "op_cells (Write d) = JmyData_cells d"
| "op_cells (WriteAll ds) = (if ds = [] then None else map_option concat (those (map JmyData_cells ds)))"
| "op_cells (Sent n) = Some []"

locale send_buffer =
  fixes writeData :: "'s \<Rightarrow> JmyData \<Rightarrow> (bool \<times> 's) option"
    and writeDatas :: "'s \<Rightarrow> JmyData list \<Rightarrow> (bool \<times> 's) option"
    and chunk :: "'s \<Rightarrow> cell list option"
    and consume :: "'s \<Rightarrow> u32 \<Rightarrow> 's"
    and stream :: "'s \<Rightarrow> cell list"
    and inv :: "'s \<Rightarrow> bool"
    and accepts :: "'s \<Rightarrow> nat \<Rightarrow> bool"
  assumes write_ok: "inv s \<Longrightarrow> JmyData_cells d = Some cs \<Longrightarrow> length cs < 2 ^ 16 \<Longrightarrow>
        \<exists>r s'. writeData s d = Some (r, s') \<and> inv s' \<and> stream s' = (if r then stream s @ cs else stream s) \<and>
          (cs \<noteq> [] \<longrightarrow> (r \<longleftrightarrow> accepts s (length cs)))"
    and writes_ok: "inv s \<Longrightarrow> ds \<noteq> [] \<Longrightarrow> those (map JmyData_cells ds) = Some css \<Longrightarrow> length (concat css) < 2 ^ 16 \<Longrightarrow>
        \<exists>r s'. writeDatas s ds = Some (r, s') \<and> inv s' \<and>
          stream s' = (if r then stream s @ concat css else stream s) \<and>
          ([] \<notin> set css \<longrightarrow> (r \<longleftrightarrow> accepts s (length (concat css))))"
    and chunk_ok: "inv s \<Longrightarrow> \<exists>c rest. chunk s = Some c \<and> stream s = c @ rest \<and> (c = [] \<longrightarrow> rest = []) \<and> length c < 2 ^ 32"
    and consume_ok: "inv s \<Longrightarrow> chunk s = Some c \<Longrightarrow> unat n \<le> length c \<Longrightarrow>
        inv (consume s n) \<and> stream (consume s n) = drop (unat n) (stream s)"
begin

text \<open>A history keeps the bytes accepted so far and the bytes the socket has taken.\<close>

fun step :: "'s \<times> cell list \<times> cell list \<Rightarrow> send_op \<Rightarrow> ('s \<times> cell list \<times> cell list) option" where
  "step (s, acc, out) (Write d) = do {
     (r, s') \<leftarrow> writeData s d;
     cs \<leftarrow> op_cells (Write d);
     Some (s', if r then acc @ cs else acc, out)
   }"
| "step (s, acc, out) (WriteAll ds) = do {
     (r, s') \<leftarrow> writeDatas s ds;
     cs \<leftarrow> op_cells (WriteAll ds);
     Some (s', if r then acc @ cs else acc, out)
   }"
| "step (s, acc, out) (Sent n) = do {
     c \<leftarrow> chunk s;
     let n' = (of_nat (min (unat n) (length c)) :: u32);
     Some (consume s n', acc, out @ take (unat n') c)
   }"

fun run :: "'s \<times> cell list \<times> cell list \<Rightarrow> send_op list \<Rightarrow> ('s \<times> cell list \<times> cell list) option" where
  "run x [] = Some x"
| "run x (c # cs) = do { y \<leftarrow> step x c; run y cs }"

definition op_fits :: "send_op \<Rightarrow> bool" where
  "op_fits c \<longleftrightarrow> (\<exists>cs. op_cells c = Some cs \<and> length cs < 2 ^ 16)"

lemma step_fifo:
  assumes "inv s" "acc = out @ stream s" "op_fits c"
  shows "\<exists>s' acc' out'. step (s, acc, out) c = Some (s', acc', out') \<and> inv s' \<and> acc' = out' @ stream s'"
proof (cases c)
  case (Write d)
  then obtain cs where "JmyData_cells d = Some cs" "length cs < 2 ^ 16"
    using assms(3) by (auto simp: op_fits_def)
  with write_ok [OF assms(1) this] obtain r s' where "writeData s d = Some (r, s')" "inv s'"
    "stream s' = (if r then stream s @ cs else stream s)" by blast
  with \<open>JmyData_cells d = Some cs\<close> assms(2) Write show ?thesis by simp
next
  case (WriteAll ds)
  then obtain css where "ds \<noteq> []" "those (map JmyData_cells ds) = Some css" "length (concat css) < 2 ^ 16"
    using assms(3) by (auto simp: op_fits_def split: if_splits)
  with writes_ok [OF assms(1) this] obtain r s' where "writeDatas s ds = Some (r, s')" "inv s'"
    "stream s' = (if r then stream s @ concat css else stream s)" by blast
  with \<open>ds \<noteq> []\<close> \<open>those (map JmyData_cells ds) = Some css\<close> assms(2) WriteAll show ?thesis by simp
next
  case (Sent n)
  obtain c' rest where c: "chunk s = Some c'" "stream s = c' @ rest" "length c' < 2 ^ 32"
    using chunk_ok [OF assms(1)] by auto
  let ?n = "of_nat (min (unat n) (length c')) :: u32"
  have n: "unat ?n = min (unat n) (length c')"
    using c(3) by (intro unat_of_nat_fits) simp
  then have "inv (consume s ?n) \<and> stream (consume s ?n) = drop (unat ?n) (stream s)"
    by (intro consume_ok [OF assms(1) c(1)]) simp
  with c n assms(2) Sent show ?thesis by (simp add: min_def)
qed

lemma run_fifo:
  assumes "inv s" "acc = out @ stream s" "\<forall>c \<in> set cs. op_fits c"
  shows "\<exists>s' acc' out'. run (s, acc, out) cs = Some (s', acc', out') \<and> inv s' \<and> acc' = out' @ stream s'"
  using assms
proof (induction cs arbitrary: s acc out)
  case (Cons c cs)
  from step_fifo [OF Cons.prems(1,2), of c] Cons.prems(3)
  obtain s1 acc1 out1 where s1: "step (s, acc, out) c = Some (s1, acc1, out1)" "inv s1" "acc1 = out1 @ stream s1"
    by auto
  with Cons.IH [OF s1(2,3)] Cons.prems(3) show ?case by simp
qed simp

text \<open>Sending whole chunks until none is left empties the buffer and puts the stream on the wire.\<close>

fun drain :: "nat \<Rightarrow> 's \<Rightarrow> cell list \<Rightarrow> ('s \<times> cell list) option" where
  "drain 0 s out = None"
| "drain (Suc k) s out = do {
     c \<leftarrow> chunk s;
     if c = [] then Some (s, out)
     else drain k (consume s (of_nat (length c))) (out @ c)
   }"

lemma drain_all:
  "inv s \<Longrightarrow> length (stream s) < k \<Longrightarrow>
   \<exists>s'. drain k s out = Some (s', out @ stream s) \<and> inv s' \<and> stream s' = []"
proof (induction k arbitrary: s out)
  case (Suc k)
  obtain c rest where c: "chunk s = Some c" "stream s = c @ rest" "c = [] \<longrightarrow> rest = []" "length c < 2 ^ 32"
    using chunk_ok [OF Suc.prems(1)] by auto
  show ?case
  proof (cases "c = []")
    case False
    let ?s = "consume s (of_nat (length c))"
    have "unat (of_nat (length c) :: u32) = length c"
      using c(4) by (intro unat_of_nat_fits) simp
    with consume_ok [OF Suc.prems(1) c(1), of "of_nat (length c)"] c(2)
    have s: "inv ?s" "stream ?s = rest" by auto
    have "length (stream ?s) < k" using Suc.prems(2) False c(2) s(2) by (cases c) auto
    from Suc.IH [OF s(1) this, of "out @ c"] False c s(2) show ?thesis by simp
  qed (use Suc.prems c in simp)
qed simp

end

end
