(* ===== verification/Free_List.thy ===== *)
theory Free_List
  imports Prelude "HOL-Library.Multiset"
begin

text \<open>
  The contract of the free-list allocators of the code base: a finite stock of resources, each of
  them either available or held. \<open>alloc\<close> hands out an available resource, \<open>release\<close> takes back a held
  one and refuses anything else. The consequences are proved once here; the buffer pool and the
  client table are interpretations of it.
\<close>

datatype 'r pool_op = Alloc | Release 'r

locale free_list_pool =
  fixes alloc :: "'s \<Rightarrow> ('r \<times> 's) option"
    and release :: "'s \<Rightarrow> 'r \<Rightarrow> bool \<times> 's"
    and avail :: "'s \<Rightarrow> 'r list"
    and held :: "'s \<Rightarrow> 'r set"
    and inv :: "'s \<Rightarrow> bool"
  assumes disjoint: "inv s \<Longrightarrow> distinct (avail s) \<and> set (avail s) \<inter> held s = {}"
    and alloc_none: "inv s \<Longrightarrow> alloc s = None \<longleftrightarrow> avail s = []"
    and alloc_some: "inv s \<Longrightarrow> alloc s = Some (r, s') \<Longrightarrow>
        avail s = r # avail s' \<and> held s' = insert r (held s) \<and> inv s'"
    and release_held: "inv s \<Longrightarrow> r \<in> held s \<Longrightarrow> release s r = (b, s') \<Longrightarrow>
        b \<and> mset (avail s') = add_mset r (mset (avail s)) \<and> held s' = held s - {r} \<and> inv s'"
    and release_other: "inv s \<Longrightarrow> r \<notin> held s \<Longrightarrow> release s r = (False, s)"
begin

definition step :: "'s \<Rightarrow> 'r pool_op \<Rightarrow> 's" where
  "step s c = (case c of
      Alloc \<Rightarrow> (case alloc s of None \<Rightarrow> s | Some (_, s') \<Rightarrow> s')
    | Release r \<Rightarrow> snd (release s r))"

definition stock :: "'s \<Rightarrow> 'r set" where
  "stock s = set (avail s) \<union> held s"

lemma alloc_exclusive: "inv s \<Longrightarrow> alloc s = Some (r, s') \<Longrightarrow> r \<notin> held s \<and> r \<in> held s'"
  using disjoint [of s] alloc_some [of s r s'] by auto

lemma release_stock: "inv s \<Longrightarrow> inv (snd (release s r)) \<and> stock (snd (release s r)) = stock s"
proof (cases "r \<in> held s")
  case True
  assume "inv s"
  with True show ?thesis
    using release_held [of s r "fst (release s r)" "snd (release s r)"] mset_eq_setD [of "avail (snd (release s r))" "r # avail s"]
    by (auto simp: stock_def)
next
  case False
  assume "inv s"
  with False show ?thesis by (simp add: release_other)
qed

lemma alloc_stock: "inv s \<Longrightarrow> alloc s = Some (r, s') \<Longrightarrow> inv s' \<and> stock s' = stock s"
  using alloc_some [of s r s'] by (auto simp: stock_def)

lemma step_inv: "inv s \<Longrightarrow> inv (step s c) \<and> stock (step s c) = stock s"
  by (auto simp: step_def alloc_stock release_stock split: pool_op.split option.split)

lemma run_inv: "inv s \<Longrightarrow> inv (foldl step s cs) \<and> stock (foldl step s cs) = stock s"
  by (induction cs arbitrary: s) (auto simp: step_inv)

lemma release_cases:
  assumes "inv s" "r \<in> held s"
  obtains s' where "release s r = (True, s')" "inv s'" "held s' = held s - {r}"
    "mset (avail s') = add_mset r (mset (avail s))"
proof -
  obtain b s' where rel: "release s r = (b, s')" by (cases "release s r")
  note post = release_held [OF assms rel]
  with rel have "release s r = (True, s')" by simp
  then show thesis using post by (intro that [of s']) simp_all
qed

lemma double_release:
  "inv s \<Longrightarrow> r \<in> held s \<Longrightarrow> release (snd (release s r)) r = (False, snd (release s r))"
  by (erule (1) release_cases) (simp add: release_other)

lemma alloc_after_release: "inv s \<Longrightarrow> r \<in> held s \<Longrightarrow> alloc (snd (release s r)) \<noteq> None"
proof (erule (1) release_cases)
  fix s' assume "release s r = (True, s')" "inv s'" "mset (avail s') = add_mset r (mset (avail s))"
  then show ?thesis by (cases "avail s'") (simp_all add: alloc_none)
qed

lemma held_available:
  "inv s \<Longrightarrow> finite (held s) \<Longrightarrow> length (avail s) + card (held s) = card (stock s)"
  using disjoint [of s] by (simp add: stock_def card_Un_disjoint distinct_card)

end

end
