(* ===== verification/Buffer_Pool.thy ===== *)
theory Buffer_Pool
  imports Datatypes Free_List
begin

text \<open>
  \<open>FixedSizeBufferPool\<close> and \<open>JmySessionBufferPool\<close> of \<open>libjmy/jmy_session_buffer_pool.h\<close> and
  \<open>libjmy/jmy_session_buffer_pool.cpp\<close>: a free list and a used set of equally sized blocks, and
  four such pools for send, receive, large send and large receive buffers. The locale
  \<open>free_list_pool\<close> is interpreted on the fixed size pool.
\<close>

record FixedSizeBufferPool =
  free_buffer_list :: "addr list"
  used_buffer_set :: "addr set"
  max_length :: int
  fixed_size :: u32

definition new_pool :: FixedSizeBufferPool where
  "new_pool = \<lparr>free_buffer_list = [], used_buffer_set = {}, max_length = 0, fixed_size = 0\<rparr>"

text \<open>The loop of \<open>init\<close>: \<open>n\<close> more blocks are allocated and appended to the free list.\<close>

fun pool_fill :: "nat \<Rightarrow> heap \<Rightarrow> u32 \<Rightarrow> addr list \<Rightarrow> heap \<times> addr list" where
  "pool_fill 0 h sz frees = (h, frees)"
| "pool_fill (Suc n) h sz frees =
     (let (a, h') = jmy_mem_malloc h (unat sz) in pool_fill n h' sz (frees @ [a]))"

definition FixedSizeBufferPool_init ::
    "heap \<Rightarrow> FixedSizeBufferPool \<Rightarrow> int \<Rightarrow> u32 \<Rightarrow> bool \<times> heap \<times> FixedSizeBufferPool" where
  "FixedSizeBufferPool_init h p max_len sz =
     (let (h', frees) = pool_fill (nat max_len) h sz (free_buffer_list p)
      in (True, h', p\<lparr>free_buffer_list := frees, max_length := max_len, fixed_size := sz\<rparr>))"

fun free_all :: "heap \<Rightarrow> addr list \<Rightarrow> heap option" where
  "free_all h [] = Some h"
| "free_all h (a # as) = do { h' \<leftarrow> jmy_mem_free h a; free_all h' as }"

text \<open>
  \<open>clear\<close>: the second loop walks the used set but dereferences the list iterator of the first loop,
  which is at the end of a list that has just been emptied.
\<close>

definition FixedSizeBufferPool_clear ::
    "heap \<Rightarrow> FixedSizeBufferPool \<Rightarrow> (heap \<times> FixedSizeBufferPool) option" where
  "FixedSizeBufferPool_clear h p = do {
     h' \<leftarrow> free_all h (free_buffer_list p);
     require (used_buffer_set p = {});
     Some (h', p\<lparr>free_buffer_list := [], used_buffer_set := {}\<rparr>)
   }"

definition FixedSizeBufferPool_malloc :: "FixedSizeBufferPool \<Rightarrow> addr \<times> FixedSizeBufferPool" where
  "FixedSizeBufferPool_malloc p =
     (case free_buffer_list p of
        [] \<Rightarrow> (NULL_PTR, p)
      | a # as \<Rightarrow> (a, p\<lparr>free_buffer_list := as, used_buffer_set := insert a (used_buffer_set p)\<rparr>))"

definition FixedSizeBufferPool_free :: "FixedSizeBufferPool \<Rightarrow> addr \<Rightarrow> bool \<times> FixedSizeBufferPool" where
  "FixedSizeBufferPool_free p a =
     (if a \<notin> used_buffer_set p then (False, p)
      else (True, p\<lparr>free_buffer_list := free_buffer_list p @ [a],
                   used_buffer_set := used_buffer_set p - {a}\<rparr>))"

record JmySessionBufferPool =
  send_buffer_pool :: FixedSizeBufferPool
  recv_buffer_pool :: FixedSizeBufferPool
  max_send_buffer_pool :: FixedSizeBufferPool
  max_recv_buffer_pool :: FixedSizeBufferPool
  max_session_size :: int

definition new_session_pool :: JmySessionBufferPool where
  "new_session_pool = \<lparr>send_buffer_pool = new_pool, recv_buffer_pool = new_pool,
     max_send_buffer_pool = new_pool, max_recv_buffer_pool = new_pool, max_session_size = 0\<rparr>"

text \<open>The size classes of \<open>init\<close>: half of the limit, the limit, or an error above it.\<close>

definition buff_size_class :: "u32 \<Rightarrow> u32 \<Rightarrow> u32 option" where
  "buff_size_class limit sz =
     (if sz \<le> limit div 2 then Some (limit div 2) else if sz \<le> limit then Some limit else None)"

definition JmySessionBufferPool_init ::
    "heap \<Rightarrow> JmySessionBufferPool \<Rightarrow> int \<Rightarrow> u32 \<Rightarrow> u32 \<Rightarrow> u32 \<Rightarrow> u32 \<Rightarrow>
     bool \<times> heap \<times> JmySessionBufferPool" where
  "JmySessionBufferPool_init h p session_size min_send min_recv max_send max_recv =
     (case buff_size_class DEFAULT_SEND_BUFFER_SIZE min_send of None \<Rightarrow> (False, h, p) | Some min_send \<Rightarrow>
      case buff_size_class DEFAULT_RECV_BUFFER_SIZE min_recv of None \<Rightarrow> (False, h, p) | Some min_recv \<Rightarrow>
      case buff_size_class MAX_SEND_BUFFER_SIZE max_send of None \<Rightarrow> (False, h, p) | Some max_send \<Rightarrow>
      case buff_size_class MAX_RECV_BUFFER_SIZE max_recv of None \<Rightarrow> (False, h, p) | Some max_recv \<Rightarrow>
      let (_, h, sp) = FixedSizeBufferPool_init h (send_buffer_pool p) session_size min_send;
          (_, h, rp) = FixedSizeBufferPool_init h (recv_buffer_pool p) session_size min_recv;
          (_, h, lsp) = FixedSizeBufferPool_init h (max_send_buffer_pool p) DEFAULT_MAX_SEND_BUFFER_COUNT max_send;
          (_, h, lrp) = FixedSizeBufferPool_init h (max_recv_buffer_pool p) DEFAULT_MAX_RECV_BUFFER_COUNT max_recv
      in (True, h, \<lparr>send_buffer_pool = sp, recv_buffer_pool = rp, max_send_buffer_pool = lsp,
                    max_recv_buffer_pool = lrp, max_session_size = session_size\<rparr>))"

definition JmySessionBufferPool_clear ::
    "heap \<Rightarrow> JmySessionBufferPool \<Rightarrow> (heap \<times> JmySessionBufferPool) option" where
  "JmySessionBufferPool_clear h p = do {
     (h, sp) \<leftarrow> FixedSizeBufferPool_clear h (send_buffer_pool p);
     (h, rp) \<leftarrow> FixedSizeBufferPool_clear h (recv_buffer_pool p);
     (h, lsp) \<leftarrow> FixedSizeBufferPool_clear h (max_send_buffer_pool p);
     (h, lrp) \<leftarrow> FixedSizeBufferPool_clear h (max_recv_buffer_pool p);
     Some (h, p\<lparr>send_buffer_pool := sp, recv_buffer_pool := rp,
                max_send_buffer_pool := lsp, max_recv_buffer_pool := lrp\<rparr>)
   }"

text \<open>The allocation functions return the pointer, the reported size and the pool.\<close>

definition mallocSendBuffer :: "JmySessionBufferPool \<Rightarrow> u32 \<Rightarrow> addr \<times> u32 \<times> JmySessionBufferPool" where
  "mallocSendBuffer p sz =
     (let (a, q) = FixedSizeBufferPool_malloc (send_buffer_pool p)
      in (a, if a \<noteq> NULL_PTR then fixed_size q else sz, p\<lparr>send_buffer_pool := q\<rparr>))"

definition freeSendBuffer :: "JmySessionBufferPool \<Rightarrow> addr \<Rightarrow> bool \<times> JmySessionBufferPool" where
  "freeSendBuffer p a =
     (let (r, q) = FixedSizeBufferPool_free (send_buffer_pool p) a in (r, p\<lparr>send_buffer_pool := q\<rparr>))"

definition mallocRecvBuffer :: "JmySessionBufferPool \<Rightarrow> u32 \<Rightarrow> addr \<times> u32 \<times> JmySessionBufferPool" where
  "mallocRecvBuffer p sz =
     (let (a, q) = FixedSizeBufferPool_malloc (recv_buffer_pool p)
      in (a, if a \<noteq> NULL_PTR then fixed_size q else sz, p\<lparr>recv_buffer_pool := q\<rparr>))"

definition freeRecvBuffer :: "JmySessionBufferPool \<Rightarrow> addr \<Rightarrow> bool \<times> JmySessionBufferPool" where
  "freeRecvBuffer p a =
     (let (r, q) = FixedSizeBufferPool_free (recv_buffer_pool p) a in (r, p\<lparr>recv_buffer_pool := q\<rparr>))"

text \<open>The large buffer functions report the block size of the pool for the other direction.\<close>

definition mallocLargeSendBuffer :: "JmySessionBufferPool \<Rightarrow> u32 \<Rightarrow> addr \<times> u32 \<times> JmySessionBufferPool" where
  "mallocLargeSendBuffer p sz =
     (let (a, q) = FixedSizeBufferPool_malloc (max_send_buffer_pool p)
      in (a, if a \<noteq> NULL_PTR then fixed_size (max_recv_buffer_pool p) else sz,
          p\<lparr>max_send_buffer_pool := q\<rparr>))"

definition freeLargeSendBuffer :: "JmySessionBufferPool \<Rightarrow> addr \<Rightarrow> bool \<times> JmySessionBufferPool" where
  "freeLargeSendBuffer p a =
     (let (r, q) = FixedSizeBufferPool_free (max_send_buffer_pool p) a
      in (r, p\<lparr>max_send_buffer_pool := q\<rparr>))"

definition mallocLargeRecvBuffer :: "JmySessionBufferPool \<Rightarrow> u32 \<Rightarrow> addr \<times> u32 \<times> JmySessionBufferPool" where
  "mallocLargeRecvBuffer p sz =
     (let (a, q) = FixedSizeBufferPool_malloc (max_recv_buffer_pool p)
      in (a, if a \<noteq> NULL_PTR then fixed_size (max_send_buffer_pool p) else sz,
          p\<lparr>max_recv_buffer_pool := q\<rparr>))"

definition freeLargeRecvBuffer :: "JmySessionBufferPool \<Rightarrow> addr \<Rightarrow> bool \<times> JmySessionBufferPool" where
  "freeLargeRecvBuffer p a =
     (let (r, q) = FixedSizeBufferPool_free (max_recv_buffer_pool p) a
      in (r, p\<lparr>max_recv_buffer_pool := q\<rparr>))"

lemmas pool_alloc_defs = mallocSendBuffer_def mallocRecvBuffer_def mallocLargeSendBuffer_def
  mallocLargeRecvBuffer_def freeSendBuffer_def freeRecvBuffer_def freeLargeSendBuffer_def
  freeLargeRecvBuffer_def

section \<open>The fixed size pool\<close>

definition pool_inv :: "FixedSizeBufferPool \<Rightarrow> bool" where
  "pool_inv p \<longleftrightarrow> distinct (free_buffer_list p) \<and> NULL_PTR \<notin> set (free_buffer_list p) \<and>
     NULL_PTR \<notin> used_buffer_set p \<and> set (free_buffer_list p) \<inter> used_buffer_set p = {}"

definition pool_blocks :: "FixedSizeBufferPool \<Rightarrow> addr set" where
  "pool_blocks p = set (free_buffer_list p) \<union> used_buffer_set p"

definition block_of_size :: "heap \<Rightarrow> addr \<Rightarrow> nat \<Rightarrow> bool" where
  "block_of_size h a n \<longleftrightarrow> (\<exists>b. blocks h a = Some b \<and> length b = n)"

definition pool_ok :: "heap \<Rightarrow> FixedSizeBufferPool \<Rightarrow> bool" where
  "pool_ok h p \<longleftrightarrow> pool_inv p \<and> (\<forall>a \<in> pool_blocks p. block_of_size h a (unat (fixed_size p)))"

definition pool_alloc :: "FixedSizeBufferPool \<Rightarrow> (addr \<times> FixedSizeBufferPool) option" where
  "pool_alloc p = (let (a, q) = FixedSizeBufferPool_malloc p in if a = NULL_PTR then None else Some (a, q))"

lemma malloc_cases:
  "FixedSizeBufferPool_malloc p =
     (if free_buffer_list p = [] then (NULL_PTR, p)
      else (hd (free_buffer_list p),
            p\<lparr>free_buffer_list := tl (free_buffer_list p),
              used_buffer_set := insert (hd (free_buffer_list p)) (used_buffer_set p)\<rparr>))"
  by (simp add: FixedSizeBufferPool_malloc_def split: list.split)

interpretation fp: free_list_pool pool_alloc FixedSizeBufferPool_free free_buffer_list used_buffer_set pool_inv
proof unfold_locales
  fix s :: FixedSizeBufferPool and r s' b
  assume inv: "pool_inv s"
  then show "distinct (free_buffer_list s) \<and> set (free_buffer_list s) \<inter> used_buffer_set s = {}"
    by (simp add: pool_inv_def)
  show "(pool_alloc s = None) = (free_buffer_list s = [])"
    using inv by (cases "free_buffer_list s") (auto simp: pool_alloc_def malloc_cases pool_inv_def)
  show "free_buffer_list s = r # free_buffer_list s' \<and> used_buffer_set s' = insert r (used_buffer_set s) \<and> pool_inv s'"
    if "pool_alloc s = Some (r, s')"
    using that inv
    by (cases "free_buffer_list s") (auto simp: pool_alloc_def malloc_cases pool_inv_def split: if_splits)
  show "b \<and> mset (free_buffer_list s') = add_mset r (mset (free_buffer_list s)) \<and>
        used_buffer_set s' = used_buffer_set s - {r} \<and> pool_inv s'"
    if "r \<in> used_buffer_set s" "FixedSizeBufferPool_free s r = (b, s')"
    using that inv by (auto simp: FixedSizeBufferPool_free_def pool_inv_def)
  show "FixedSizeBufferPool_free s r = (False, s)" if "r \<notin> used_buffer_set s"
    using that by (simp add: FixedSizeBufferPool_free_def)
qed

lemma pool_malloc_alloc:
  "FixedSizeBufferPool_malloc p = (a, q) \<Longrightarrow> a \<noteq> NULL_PTR \<Longrightarrow> pool_alloc p = Some (a, q)"
  by (simp add: pool_alloc_def)

lemma pool_malloc_null: "FixedSizeBufferPool_malloc p = (NULL_PTR, q) \<Longrightarrow> pool_inv p \<Longrightarrow> q = p"
  by (cases "free_buffer_list p") (auto simp: FixedSizeBufferPool_malloc_def pool_inv_def)

lemma fixed_size_kept:
  "FixedSizeBufferPool_malloc p = (a, q) \<Longrightarrow> fixed_size q = fixed_size p"
  "FixedSizeBufferPool_free p a = (b, q) \<Longrightarrow> fixed_size q = fixed_size p"
  by (auto simp: malloc_cases FixedSizeBufferPool_free_def split: if_splits)

lemma pool_malloc_ok:
  assumes "pool_ok h p" "FixedSizeBufferPool_malloc p = (a, q)"
  shows "pool_ok h q" "pool_blocks q = pool_blocks p"
    "a \<noteq> NULL_PTR \<Longrightarrow> a \<notin> used_buffer_set p \<and> a \<in> used_buffer_set q \<and> block_of_size h a (unat (fixed_size p))"
  using assms
  by (cases "free_buffer_list p";
      auto simp: FixedSizeBufferPool_malloc_def pool_ok_def pool_inv_def pool_blocks_def)+

lemma pool_free_ok:
  assumes "pool_ok h p" "FixedSizeBufferPool_free p a = (r, q)"
  shows "pool_ok h q" "pool_blocks q = pool_blocks p"
  using assms
  by (auto simp: FixedSizeBufferPool_free_def pool_ok_def pool_inv_def pool_blocks_def split: if_splits)

lemma block_of_size_malloc:
  "heap_wf h \<Longrightarrow> jmy_mem_malloc h n = (a, h') \<Longrightarrow> block_of_size h b k \<Longrightarrow> block_of_size h' b k"
  using malloc_fresh [of h n a h'] malloc_blocks [of h n a h'] by (auto simp: block_of_size_def)

definition filled :: "nat \<Rightarrow> heap \<Rightarrow> u32 \<Rightarrow> addr list \<Rightarrow> heap \<Rightarrow> addr list \<Rightarrow> bool" where
  "filled n h sz as h' as' \<longleftrightarrow>
     heap_wf h' \<and> distinct as' \<and> NULL_PTR \<notin> set as' \<and> length as' = length as + n \<and>
     (\<forall>a \<in> set as'. block_of_size h' a (unat sz)) \<and>
     (\<forall>b k. block_of_size h b k \<longrightarrow> block_of_size h' b k) \<and>
     set as' \<inter> dom (blocks h) \<subseteq> set as"

lemma pool_fill_spec:
  assumes "heap_wf h" "distinct as" "NULL_PTR \<notin> set as" "\<forall>a \<in> set as. block_of_size h a (unat sz)"
    and "pool_fill n h sz as = (h', as')"
  shows "filled n h sz as h' as'"
  using assms
proof (induction n arbitrary: h as)
  case 0
  then show ?case by (auto simp: filled_def)
next
  case (Suc n)
  obtain a h1 where m: "jmy_mem_malloc h (unat sz) = (a, h1)" by (cases "jmy_mem_malloc h (unat sz)")
  note new = malloc_fresh [OF Suc.prems(1) m] malloc_blocks [OF m]
  have notin: "a \<notin> set as"
    using new Suc.prems(4) by (auto simp: block_of_size_def)
  have blk: "\<forall>b \<in> set (as @ [a]). block_of_size h1 b (unat sz)"
    using new Suc.prems(4) by (auto simp: block_of_size_def)
  have "filled n h1 sz (as @ [a]) h' as'"
    using Suc.prems m new notin by (intro Suc.IH blk) auto
  then show ?case
    using block_of_size_malloc [OF Suc.prems(1) m] new by (auto simp: filled_def)
qed

lemma pool_init_ok:
  assumes "heap_wf h" "FixedSizeBufferPool_init h new_pool n sz = (r, h', q)"
  shows "r \<and> heap_wf h' \<and> pool_ok h' q \<and> length (free_buffer_list q) = nat n \<and> used_buffer_set q = {} \<and>
         fixed_size q = sz \<and> (\<forall>b k. block_of_size h b k \<longrightarrow> block_of_size h' b k) \<and>
         pool_blocks q \<inter> dom (blocks h) = {}"
proof -
  obtain as' where "pool_fill (nat n) h sz [] = (h', as')" "r" "free_buffer_list q = as'"
    "used_buffer_set q = {}" "fixed_size q = sz"
    using assms(2) by (auto simp: FixedSizeBufferPool_init_def new_pool_def split: prod.splits)
  with pool_fill_spec [of h "[]" sz "nat n" h' as'] assms(1) show ?thesis
    by (auto simp: filled_def pool_ok_def pool_inv_def pool_blocks_def)
qed

text \<open>A history of calls on one pool.\<close>

fun pool_step :: "FixedSizeBufferPool \<Rightarrow> addr pool_op \<Rightarrow> FixedSizeBufferPool" where
  "pool_step p Alloc = snd (FixedSizeBufferPool_malloc p)"
| "pool_step p (Release a) = snd (FixedSizeBufferPool_free p a)"

lemma pool_step_eq: "pool_inv p \<Longrightarrow> pool_step p c = fp.step p c"
  by (cases c) (auto simp: fp.step_def pool_alloc_def dest: pool_malloc_null split: option.split prod.split)

lemma pool_run_eq: "pool_inv p \<Longrightarrow> foldl pool_step p cs = foldl fp.step p cs"
  by (induction cs arbitrary: p) (simp_all add: pool_step_eq fp.step_inv)

lemma pool_run_fixed_size: "fixed_size (foldl pool_step p cs) = fixed_size p"
proof (induction cs arbitrary: p)
  case (Cons c cs)
  have "fixed_size (pool_step p c) = fixed_size p"
    by (cases c) (auto simp: malloc_cases FixedSizeBufferPool_free_def)
  with Cons show ?case by simp
qed simp

lemma pool_stock_eq: "fp.stock p = pool_blocks p"
  by (simp add: fp.stock_def pool_blocks_def)

text \<open>
  C30. However a freshly initialised pool has been used, an allocation hands out a block of the
  pool's size that nobody holds, and every block is always either free or held: the free list and
  the used set together account for exactly the blocks made by \<open>init\<close>.
\<close>

theorem pool_history_exclusive:
  assumes "heap_wf h" "FixedSizeBufferPool_init h new_pool n sz = (r, h', p)"
    and "s = foldl pool_step p cs" "FixedSizeBufferPool_malloc s = (a, q)"
  shows "length (free_buffer_list s) + card (used_buffer_set s) = nat n \<and>
    (a = NULL_PTR \<longleftrightarrow> card (used_buffer_set s) = nat n) \<and>
    (a \<noteq> NULL_PTR \<longrightarrow> a \<notin> used_buffer_set s \<and> block_of_size h' a (unat sz))"
proof -
  note init = pool_init_ok [OF assms(1,2)]
  then have inv: "pool_inv s" and stock: "pool_blocks s = pool_blocks p"
    using fp.run_inv [of p cs] by (auto simp: assms(3) pool_run_eq pool_ok_def pool_stock_eq)
  have sz: "fixed_size s = sz"
    using init by (simp add: assms(3) pool_run_fixed_size)
  have ok: "pool_ok h' s"
    using init inv stock sz by (auto simp: pool_ok_def)
  have fin: "finite (used_buffer_set s)"
    using init stock by (metis List.finite_set finite_Un pool_blocks_def sup_bot_right)
  have cnt: "length (free_buffer_list s) + card (used_buffer_set s) = nat n"
    using fp.held_available [OF inv fin] init
    by (simp add: pool_stock_eq stock) (simp add: pool_blocks_def pool_ok_def pool_inv_def distinct_card)
  moreover have "a = NULL_PTR \<longleftrightarrow> card (used_buffer_set s) = nat n"
    using assms(4) inv cnt by (cases "free_buffer_list s") (auto simp: FixedSizeBufferPool_malloc_def pool_inv_def)
  moreover have "a \<noteq> NULL_PTR \<longrightarrow> a \<notin> used_buffer_set s \<and> block_of_size h' a (unat sz)"
    using pool_malloc_ok(3) [OF ok assms(4)] sz by simp
  ultimately show ?thesis by simp
qed

theorem pool_history_exclusive_witness:
  "let (_, h', p) = FixedSizeBufferPool_init empty_heap new_pool 1 16;
       s = foldl pool_step p [Alloc, Alloc, Release 1];
       (a, q) = FixedSizeBufferPool_malloc s
   in a = 1 \<and> used_buffer_set s = {} \<and> a \<notin> used_buffer_set s \<and> block_of_size h' a 16"
  using pool_history_exclusive [of empty_heap 1 16 True
      "fst (snd (FixedSizeBufferPool_init empty_heap new_pool 1 16))"
      "snd (snd (FixedSizeBufferPool_init empty_heap new_pool 1 16))"
      _ "[Alloc, Alloc, Release 1]", OF heap_wf_empty _ refl]
  by (simp add: FixedSizeBufferPool_init_def new_pool_def jmy_mem_malloc_def empty_heap_def
      FixedSizeBufferPool_malloc_def FixedSizeBufferPool_free_def block_of_size_def Let_def)

section \<open>The four pools of a server\<close>

definition session_pool_ok :: "heap \<Rightarrow> JmySessionBufferPool \<Rightarrow> bool" where
  "session_pool_ok h p \<longleftrightarrow>
     pool_ok h (send_buffer_pool p) \<and> pool_ok h (recv_buffer_pool p) \<and>
     pool_ok h (max_send_buffer_pool p) \<and> pool_ok h (max_recv_buffer_pool p)"

lemma block_of_size_unique: "block_of_size h a m \<Longrightarrow> block_of_size h a n \<longleftrightarrow> n = m"
  by (auto simp: block_of_size_def)

lemma pool_ok_mono:
  "pool_ok h p \<Longrightarrow> (\<And>b k. block_of_size h b k \<Longrightarrow> block_of_size h' b k) \<Longrightarrow> pool_ok h' p"
  by (auto simp: pool_ok_def)

lemma session_pool_init_ok:
  assumes wf: "heap_wf h" and init: "JmySessionBufferPool_init h new_session_pool n a b c d = (True, h', p)"
  shows "heap_wf h' \<and> session_pool_ok h' p \<and>
         Some (fixed_size (max_send_buffer_pool p)) = buff_size_class MAX_SEND_BUFFER_SIZE c \<and>
         Some (fixed_size (max_recv_buffer_pool p)) = buff_size_class MAX_RECV_BUFFER_SIZE d \<and>
         length (free_buffer_list (max_send_buffer_pool p)) = 100 \<and>
         length (free_buffer_list (max_recv_buffer_pool p)) = 100"
proof -
  from init obtain a' b' c' d' h1 h2 h3 sp rp lsp lrp r1 r2 r3 r4 where
    cls: "buff_size_class MAX_SEND_BUFFER_SIZE c = Some c'" "buff_size_class MAX_RECV_BUFFER_SIZE d = Some d'"
    and i1: "FixedSizeBufferPool_init h new_pool n a' = (r1, h1, sp)"
    and i2: "FixedSizeBufferPool_init h1 new_pool n b' = (r2, h2, rp)"
    and i3: "FixedSizeBufferPool_init h2 new_pool 100 c' = (r3, h3, lsp)"
    and i4: "FixedSizeBufferPool_init h3 new_pool 100 d' = (r4, h', lrp)"
    and p: "p = \<lparr>send_buffer_pool = sp, recv_buffer_pool = rp, max_send_buffer_pool = lsp,
                 max_recv_buffer_pool = lrp, max_session_size = n\<rparr>"
    by (auto simp: JmySessionBufferPool_init_def new_session_pool_def Let_def split: option.splits prod.splits)
  note p1 = pool_init_ok [OF wf i1]
  then have p2: "heap_wf h2 \<and> pool_ok h2 rp \<and> (\<forall>b k. block_of_size h1 b k \<longrightarrow> block_of_size h2 b k)"
    using pool_init_ok [OF _ i2] by blast
  then have p3: "heap_wf h3 \<and> pool_ok h3 lsp \<and> fixed_size lsp = c' \<and> length (free_buffer_list lsp) = 100 \<and>
      (\<forall>b k. block_of_size h2 b k \<longrightarrow> block_of_size h3 b k)"
    using pool_init_ok [OF _ i3] by auto
  then have p4: "heap_wf h' \<and> pool_ok h' lrp \<and> fixed_size lrp = d' \<and> length (free_buffer_list lrp) = 100 \<and>
      (\<forall>b k. block_of_size h3 b k \<longrightarrow> block_of_size h' b k)"
    using pool_init_ok [OF _ i4] by auto
  have "pool_ok h' sp" by (rule pool_ok_mono [of h1]) (use p1 p2 p3 p4 in blast)+
  moreover have "pool_ok h' rp" by (rule pool_ok_mono [of h2]) (use p2 p3 p4 in blast)+
  moreover have "pool_ok h' lsp" by (rule pool_ok_mono [of h3]) (use p3 p4 in blast)+
  ultimately show ?thesis using p3 p4 cls by (simp add: p session_pool_ok_def)
qed

text \<open>
  A large buffer handed out by an initialised pool has the size that is reported with it exactly
  when the large send and the large receive buffers were configured into the same size class:
  \<open>mallocLargeSendBuffer\<close> and \<open>mallocLargeRecvBuffer\<close> report each other's block size.
\<close>

theorem large_buffer_size_reported:
  assumes "heap_wf h" "JmySessionBufferPool_init h new_session_pool n a b c d = (True, h', p)"
    and "mallocLargeSendBuffer p s = (x, xn, q)" "x \<noteq> NULL_PTR"
    and "mallocLargeRecvBuffer p s = (y, yn, q')" "y \<noteq> NULL_PTR"
  shows "(block_of_size h' x (unat xn) \<longleftrightarrow>
            buff_size_class MAX_SEND_BUFFER_SIZE c = buff_size_class MAX_RECV_BUFFER_SIZE d) \<and>
         (block_of_size h' y (unat yn) \<longleftrightarrow>
            buff_size_class MAX_SEND_BUFFER_SIZE c = buff_size_class MAX_RECV_BUFFER_SIZE d)"
proof -
  note ok = session_pool_init_ok [OF assms(1,2)]
  obtain qs where ms: "FixedSizeBufferPool_malloc (max_send_buffer_pool p) = (x, qs)"
    and xn: "xn = fixed_size (max_recv_buffer_pool p)"
    using assms(3,4) by (auto simp: pool_alloc_defs Let_def split: prod.splits)
  obtain qr where mr: "FixedSizeBufferPool_malloc (max_recv_buffer_pool p) = (y, qr)"
    and yn: "yn = fixed_size (max_send_buffer_pool p)"
    using assms(5,6) by (auto simp: pool_alloc_defs Let_def split: prod.splits)
  have "block_of_size h' x (unat (fixed_size (max_send_buffer_pool p)))"
    using pool_malloc_ok(3) [OF _ ms assms(4)] ok by (simp add: session_pool_ok_def)
  moreover have "block_of_size h' y (unat (fixed_size (max_recv_buffer_pool p)))"
    using pool_malloc_ok(3) [OF _ mr assms(6)] ok by (simp add: session_pool_ok_def)
  moreover have "fixed_size (max_send_buffer_pool p) = fixed_size (max_recv_buffer_pool p) \<longleftrightarrow>
      buff_size_class MAX_SEND_BUFFER_SIZE c = buff_size_class MAX_RECV_BUFFER_SIZE d"
    using ok by (metis option.inject)
  ultimately show ?thesis
    unfolding xn yn by (metis block_of_size_unique word_unat_eq_iff)
qed

lemma session_pool_init_result:
  "fst (JmySessionBufferPool_init h p n a b c d) \<longleftrightarrow>
     buff_size_class DEFAULT_SEND_BUFFER_SIZE a \<noteq> None \<and> buff_size_class DEFAULT_RECV_BUFFER_SIZE b \<noteq> None \<and>
     buff_size_class MAX_SEND_BUFFER_SIZE c \<noteq> None \<and> buff_size_class MAX_RECV_BUFFER_SIZE d \<noteq> None"
  by (auto simp: JmySessionBufferPool_init_def Let_def split: option.splits prod.splits)

theorem large_buffer_size_reported_witness:
  "let (r, h', p) = JmySessionBufferPool_init empty_heap new_session_pool 1 0 0 1 400000;
       (x, xn, q) = mallocLargeSendBuffer p 0;
       (y, yn, q') = mallocLargeRecvBuffer p 0
   in r \<and> x \<noteq> NULL_PTR \<and> y \<noteq> NULL_PTR \<and> \<not> block_of_size h' x (unat xn) \<and> \<not> block_of_size h' y (unat yn)"
proof -
  obtain r h' p where init: "JmySessionBufferPool_init empty_heap new_session_pool 1 0 0 1 400000 = (r, h', p)"
    by (metis surj_pair)
  obtain x xn q where ms: "mallocLargeSendBuffer p 0 = (x, xn, q)" by (metis surj_pair)
  obtain y yn q' where mr: "mallocLargeRecvBuffer p 0 = (y, yn, q')" by (metis surj_pair)
  have cls: "buff_size_class 655360 1 \<noteq> buff_size_class 655360 400000"
    by (simp add: buff_size_class_def)
  have r: "r"
    using session_pool_init_result [of empty_heap new_session_pool 1 0 0 1 400000] init
    by (simp add: buff_size_class_def)
  note ok = session_pool_init_ok [OF heap_wf_empty, of 1 0 0 1 400000 h' p] init r
  have x: "x \<noteq> NULL_PTR"
    using ms ok by (cases "free_buffer_list (max_send_buffer_pool p)")
      (auto simp: pool_alloc_defs FixedSizeBufferPool_malloc_def session_pool_ok_def pool_ok_def pool_inv_def)
  have y: "y \<noteq> NULL_PTR"
    using mr ok by (cases "free_buffer_list (max_recv_buffer_pool p)")
      (auto simp: pool_alloc_defs FixedSizeBufferPool_malloc_def session_pool_ok_def pool_ok_def pool_inv_def)
  have i: "JmySessionBufferPool_init empty_heap new_session_pool 1 0 0 1 400000 = (True, h', p)"
    using init r by simp
  note main = large_buffer_size_reported [OF heap_wf_empty i ms x mr y]
  show ?thesis
    unfolding init ms mr Let_def prod.case using main cls r x y by blast
qed

lemma free_all_blocks:
  assumes "distinct as" "NULL_PTR \<notin> set as" "\<forall>a \<in> set as. \<exists>b. blocks h a = Some b"
  shows "\<exists>h'. free_all h as = Some h' \<and> (\<forall>a. blocks h' a = (if a \<in> set as then None else blocks h a))"
  using assms
proof (induction as arbitrary: h)
  case (Cons a as)
  let ?h = "h\<lparr>blocks := (blocks h)(a := None)\<rparr>"
  have "jmy_mem_free h a = Some ?h"
    using Cons.prems by (auto simp: jmy_mem_free_def)
  moreover have "\<forall>x \<in> set as. \<exists>b. blocks ?h x = Some b"
    using Cons.prems by auto
  then obtain h' where "free_all ?h as = Some h'"
    "\<forall>x. blocks h' x = (if x \<in> set as then None else ((blocks h)(a := None)) x)"
    using Cons.IH [of ?h] Cons.prems by auto
  ultimately show ?case by simp
qed simp

text \<open>
  Clearing a pool frees every block once and leaves it empty when no block is held; while any
  block is held the call has undefined behaviour, because the loop over the used set dereferences
  the exhausted iterator of the free list.
\<close>

theorem pool_clear_defined_iff:
  assumes "pool_ok h p"
  shows "(FixedSizeBufferPool_clear h p = None \<longleftrightarrow> used_buffer_set p \<noteq> {}) \<and>
         (\<forall>h' q. FixedSizeBufferPool_clear h p = Some (h', q) \<longrightarrow>
            pool_blocks q = {} \<and> (\<forall>a. blocks h' a = (if a \<in> set (free_buffer_list p) then None else blocks h a)))"
proof -
  have "\<forall>a \<in> set (free_buffer_list p). \<exists>b. blocks h a = Some b"
    using assms by (auto simp: pool_ok_def pool_blocks_def block_of_size_def)
  then obtain h' where
    "free_all h (free_buffer_list p) = Some h'"
    "\<forall>a. blocks h' a = (if a \<in> set (free_buffer_list p) then None else blocks h a)"
    using free_all_blocks [of "free_buffer_list p" h] assms by (auto simp: pool_ok_def pool_inv_def)
  then show ?thesis
    by (auto simp: FixedSizeBufferPool_clear_def pool_blocks_def split: if_splits)
qed

theorem pool_clear_defined_iff_witness:
  "let h = fst (snd (FixedSizeBufferPool_init empty_heap new_pool 1 16));
       p = snd (snd (FixedSizeBufferPool_init empty_heap new_pool 1 16))
   in pool_ok h p \<and> FixedSizeBufferPool_clear h p \<noteq> None \<and>
      pool_ok h (pool_step p Alloc) \<and> FixedSizeBufferPool_clear h (pool_step p Alloc) = None"
proof -
  let ?i = "FixedSizeBufferPool_init empty_heap new_pool 1 16"
  have ok: "pool_ok (fst (snd ?i)) (snd (snd ?i))"
    using pool_init_ok [OF heap_wf_empty, of 1 16 "fst ?i" "fst (snd ?i)" "snd (snd ?i)"] by simp
  moreover have ok': "pool_ok (fst (snd ?i)) (pool_step (snd (snd ?i)) Alloc)"
    using pool_malloc_ok(1) [OF ok, of "fst (FixedSizeBufferPool_malloc (snd (snd ?i)))"] by simp
  ultimately show ?thesis
    using pool_clear_defined_iff [OF ok] pool_clear_defined_iff [OF ok']
    by (simp add: Let_def FixedSizeBufferPool_init_def new_pool_def jmy_mem_malloc_def empty_heap_def
        FixedSizeBufferPool_malloc_def)
qed

end
