(* ===== verification/Session_Buffer.thy ===== *)
theory Session_Buffer
  imports Buffer_Pool Send_Buffer
begin

text \<open>
  \<open>JmySessionBuffer\<close> and \<open>JmyDoubleSessionBuffer\<close> of \<open>libjmy/jmy_session_buffer.h\<close> and
  \<open>libjmy/jmy_session_buffer.cpp\<close>: a byte buffer with a read and a write offset over one heap
  block, and a pair of a normal and a large buffer backed by a \<open>JmySessionBufferPool\<close>. Offsets and
  lengths are 32 bit and wrap around as \<open>unsigned int\<close> does. Operations take and return the heap
  (and the pool) they work on.
\<close>

datatype SessionBufferType =
  SESSION_BUFFER_TYPE_NONE | SESSION_BUFFER_TYPE_RECV | SESSION_BUFFER_TYPE_SEND

record JmySessionBuffer =
  sb_proxy :: bool
  sb_buff :: addr
  sb_len :: u32
  sb_type :: SessionBufferType
  sb_write_offset :: u32
  sb_read_offset :: u32

definition new_session_buffer :: JmySessionBuffer where
  "new_session_buffer = \<lparr>sb_proxy = False, sb_buff = NULL_PTR, sb_len = 0,
     sb_type = SESSION_BUFFER_TYPE_NONE, sb_write_offset = 0, sb_read_offset = 0\<rparr>"

definition JmySessionBuffer_destroy :: "heap \<Rightarrow> JmySessionBuffer \<Rightarrow> (heap \<times> JmySessionBuffer) option" where
  "JmySessionBuffer_destroy h b = do {
     h' \<leftarrow> (if \<not> sb_proxy b \<and> sb_buff b \<noteq> NULL_PTR then jmy_mem_free h (sb_buff b) else Some h);
     Some (h', b\<lparr>sb_buff := NULL_PTR, sb_len := 0, sb_write_offset := 0, sb_read_offset := 0\<rparr>)
   }"

definition JmySessionBuffer_init ::
    "heap \<Rightarrow> JmySessionBuffer \<Rightarrow> u32 \<Rightarrow> SessionBufferType \<Rightarrow> (bool \<times> heap \<times> JmySessionBuffer) option" where
  "JmySessionBuffer_init h b sz ty = do {
     (h, b) \<leftarrow> JmySessionBuffer_destroy h b;
     let (a, h) = jmy_mem_malloc h (unat sz);
     Some (True, h, b\<lparr>sb_buff := a, sb_len := sz, sb_type := ty, sb_proxy := False\<rparr>)
   }"

definition JmySessionBuffer_init_proxy ::
    "heap \<Rightarrow> JmySessionBuffer \<Rightarrow> addr \<Rightarrow> u32 \<Rightarrow> SessionBufferType \<Rightarrow> (bool \<times> heap \<times> JmySessionBuffer) option" where
  "JmySessionBuffer_init_proxy h b a sz ty = do {
     (h, b) \<leftarrow> JmySessionBuffer_destroy h b;
     Some (True, h, b\<lparr>sb_buff := a, sb_len := sz, sb_type := ty, sb_proxy := True\<rparr>)
   }"

definition JmySessionBuffer_clear :: "JmySessionBuffer \<Rightarrow> JmySessionBuffer" where
  "JmySessionBuffer_clear b = b\<lparr>sb_write_offset := 0, sb_read_offset := 0\<rparr>"

text \<open>\<open>assign\<close> copies from the source's write offset, not from its read offset.\<close>

definition JmySessionBuffer_assign ::
    "heap \<Rightarrow> JmySessionBuffer \<Rightarrow> JmySessionBuffer \<Rightarrow> (bool \<times> heap \<times> JmySessionBuffer) option" where
  "JmySessionBuffer_assign h b buffer =
     (let w = sb_write_offset buffer - sb_read_offset buffer;
          b' = b\<lparr>sb_write_offset := w, sb_read_offset := 0\<rparr>
      in if w > 0 then do {
           h' \<leftarrow> mem_copy h (sb_buff b) 0 (sb_buff buffer) (unat (sb_write_offset buffer)) (unat w);
           Some (True, h', b')
         } else Some (True, h, b'))"

definition JmySessionBuffer_isInited :: "JmySessionBuffer \<Rightarrow> bool" where
  "JmySessionBuffer_isInited b \<longleftrightarrow> sb_buff b \<noteq> NULL_PTR \<and> sb_len b > 0"

definition JmySessionBuffer_isEmpty :: "JmySessionBuffer \<Rightarrow> bool" where
  "JmySessionBuffer_isEmpty b \<longleftrightarrow> sb_write_offset b = sb_read_offset b"

definition JmySessionBuffer_getWriteLen :: "JmySessionBuffer \<Rightarrow> u32" where
  "JmySessionBuffer_getWriteLen b = sb_len b - sb_write_offset b"

definition JmySessionBuffer_getReadLen :: "JmySessionBuffer \<Rightarrow> u32" where
  "JmySessionBuffer_getReadLen b = sb_write_offset b - sb_read_offset b"

text \<open>What \<open>getReadBuff\<close> and \<open>getReadLen\<close> give a caller that reads through them.\<close>

definition JmySessionBuffer_getReadBuff :: "heap \<Rightarrow> JmySessionBuffer \<Rightarrow> cell list option" where
  "JmySessionBuffer_getReadBuff h b =
     mem_read h (sb_buff b) (unat (sb_read_offset b)) (unat (JmySessionBuffer_getReadLen b))"

definition JmySessionBuffer_moveDataToFront :: "heap \<Rightarrow> JmySessionBuffer \<Rightarrow> (heap \<times> JmySessionBuffer) option" where
  "JmySessionBuffer_moveDataToFront h b =
     (let left_read = JmySessionBuffer_getReadLen b in do {
        h' \<leftarrow> mem_copy h (sb_buff b) 0 (sb_buff b) (unat (sb_read_offset b)) (unat left_read);
        Some (h', b\<lparr>sb_read_offset := 0, sb_write_offset := left_read\<rparr>)
      })"

definition JmySessionBuffer_checkWriteLen ::
    "heap \<Rightarrow> JmySessionBuffer \<Rightarrow> u32 \<Rightarrow> (bool \<times> heap \<times> JmySessionBuffer) option" where
  "JmySessionBuffer_checkWriteLen h b len =
     (if JmySessionBuffer_getWriteLen b < len then do {
        (h', b') \<leftarrow> JmySessionBuffer_moveDataToFront h b;
        Some (JmySessionBuffer_getWriteLen b' \<ge> len, h', b')
      } else Some (JmySessionBuffer_getWriteLen b \<ge> len, h, b))"

definition JmySessionBuffer_writeLen :: "JmySessionBuffer \<Rightarrow> u32 \<Rightarrow> bool \<times> JmySessionBuffer" where
  "JmySessionBuffer_writeLen b len =
     (if JmySessionBuffer_getWriteLen b < len then (False, b)
      else (True, b\<lparr>sb_write_offset := sb_write_offset b + len\<rparr>))"

definition JmySessionBuffer_readLen :: "JmySessionBuffer \<Rightarrow> u32 \<Rightarrow> bool \<times> JmySessionBuffer" where
  "JmySessionBuffer_readLen b len =
     (if JmySessionBuffer_getReadLen b < len then (False, b)
      else (True, b\<lparr>sb_read_offset := sb_read_offset b + len\<rparr>))"

definition JmySessionBuffer_writeData ::
    "heap \<Rightarrow> JmySessionBuffer \<Rightarrow> JmyData \<Rightarrow> (bool \<times> heap \<times> JmySessionBuffer) option" where
  "JmySessionBuffer_writeData h b d =
     (if JmySessionBuffer_getWriteLen b < jd_len d then Some (False, h, b)
      else do {
        cs \<leftarrow> JmyData_cells d;
        h' \<leftarrow> mem_write h (sb_buff b) (unat (sb_write_offset b)) cs;
        Some (True, h', b\<lparr>sb_write_offset := sb_write_offset b + jd_len d\<rparr>)
      })"

fun total_len :: "u32 \<Rightarrow> JmyData list \<Rightarrow> u32" where
  "total_len n [] = n"
| "total_len n (d # ds) = total_len (n + jd_len d) ds"

fun copy_datas :: "heap \<Rightarrow> JmySessionBuffer \<Rightarrow> JmyData list \<Rightarrow> (heap \<times> JmySessionBuffer) option" where
  "copy_datas h b [] = Some (h, b)"
| "copy_datas h b (d # ds) = do {
     cs \<leftarrow> JmyData_cells d;
     h' \<leftarrow> mem_write h (sb_buff b) (unat (sb_write_offset b)) cs;
     copy_datas h' (b\<lparr>sb_write_offset := sb_write_offset b + jd_len d\<rparr>) ds
   }"

definition JmySessionBuffer_writeDatas ::
    "heap \<Rightarrow> JmySessionBuffer \<Rightarrow> JmyData list \<Rightarrow> (bool \<times> heap \<times> JmySessionBuffer) option" where
  "JmySessionBuffer_writeDatas h b datas =
     (if datas = [] then Some (False, h, b)
      else if total_len 0 datas > JmySessionBuffer_getWriteLen b then Some (False, h, b)
      else do {
        (h', b') \<leftarrow> copy_datas h b datas;
        Some (True, h', b')
      })"

section \<open>The buffer as a queue of bytes\<close>

definition sb_ok :: "heap \<Rightarrow> JmySessionBuffer \<Rightarrow> bool" where
  "sb_ok h b \<longleftrightarrow> sb_read_offset b \<le> sb_write_offset b \<and> sb_write_offset b \<le> sb_len b \<and>
     block_of_size h (sb_buff b) (unat (sb_len b))"

definition sb_data :: "heap \<Rightarrow> JmySessionBuffer \<Rightarrow> cell list" where
  "sb_data h b =
     (case blocks h (sb_buff b) of None \<Rightarrow> []
      | Some blk \<Rightarrow> take (unat (sb_write_offset b) - unat (sb_read_offset b)) (drop (unat (sb_read_offset b)) blk))"

lemma sb_ok_block:
  assumes "sb_ok h b"
  obtains blk where "blocks h (sb_buff b) = Some blk" "length blk = unat (sb_len b)"
    "unat (sb_read_offset b) \<le> unat (sb_write_offset b)" "unat (sb_write_offset b) \<le> unat (sb_len b)"
  using assms by (auto simp: sb_ok_def block_of_size_def word_le_nat_alt)

lemma sb_getWriteLen: "sb_ok h b \<Longrightarrow> unat (JmySessionBuffer_getWriteLen b) = unat (sb_len b) - unat (sb_write_offset b)"
  by (simp add: JmySessionBuffer_getWriteLen_def sb_ok_def unat_sub)

lemma sb_getReadLen: "sb_ok h b \<Longrightarrow> unat (JmySessionBuffer_getReadLen b) = length (sb_data h b)"
  by (erule sb_ok_block) (simp add: JmySessionBuffer_getReadLen_def sb_data_def word_le_nat_alt unat_sub)

text \<open>Only the block of the buffer changes, and it keeps its size.\<close>

definition same_but :: "addr \<Rightarrow> heap \<Rightarrow> heap \<Rightarrow> bool" where
  "same_but a h h' \<longleftrightarrow> (\<forall>x. x \<noteq> a \<longrightarrow> blocks h' x = blocks h x) \<and>
     (\<forall>n. block_of_size h a n \<longrightarrow> block_of_size h' a n)"

lemma same_but_refl [simp]: "same_but a h h"
  by (simp add: same_but_def)

lemma same_but_trans: "same_but a h h' \<Longrightarrow> same_but a h' h'' \<Longrightarrow> same_but a h h''"
  by (auto simp: same_but_def)

lemma sb_write_step:
  assumes ok: "sb_ok h b" and n: "length cs = unat n" and room: "unat (sb_write_offset b) + unat n \<le> unat (sb_len b)"
  obtains h' where "mem_write h (sb_buff b) (unat (sb_write_offset b)) cs = Some h'"
    "sb_ok h' (b\<lparr>sb_write_offset := sb_write_offset b + n\<rparr>)"
    "sb_data h' (b\<lparr>sb_write_offset := sb_write_offset b + n\<rparr>) = sb_data h b @ cs"
    "same_but (sb_buff b) h h'"
proof -
  from ok obtain blk where blk: "blocks h (sb_buff b) = Some blk" "length blk = unat (sb_len b)"
    and le: "unat (sb_read_offset b) \<le> unat (sb_write_offset b)" "unat (sb_write_offset b) \<le> unat (sb_len b)"
    by (rule sb_ok_block)
  let ?h = "h\<lparr>blocks := (blocks h)(sb_buff b \<mapsto> blit blk (unat (sb_write_offset b)) cs)\<rparr>"
  let ?b = "b\<lparr>sb_write_offset := sb_write_offset b + n\<rparr>"
  have w: "unat (sb_write_offset b + n) = unat (sb_write_offset b) + unat n"
    using room by (rule unat_plus_fits)
  have fits: "unat (sb_write_offset b) + length cs \<le> length blk"
    using room n blk by simp
  have "mem_write h (sb_buff b) (unat (sb_write_offset b)) cs = Some ?h"
    using blk(1) fits by (rule mem_write_block)
  moreover have "sb_ok ?h ?b"
    using le room fits blk(2) w by (simp add: sb_ok_def block_of_size_def word_le_nat_alt)
  moreover have "sb_data ?h ?b = sb_data h b @ cs"
    using take_drop_blit_append [OF le(1) fits] le n blk(1) w by (simp add: sb_data_def)
  moreover have "same_but (sb_buff b) h ?h"
    using fits blk by (auto simp: same_but_def block_of_size_def)
  ultimately show thesis by (rule that)
qed

lemma sb_writeData_full:
  "JmySessionBuffer_getWriteLen b < jd_len d \<Longrightarrow> JmySessionBuffer_writeData h b d = Some (False, h, b)"
  by (simp add: JmySessionBuffer_writeData_def)

lemma sb_room: "sb_ok h b \<Longrightarrow> \<not> JmySessionBuffer_getWriteLen b < n \<Longrightarrow> unat (sb_write_offset b) + unat n \<le> unat (sb_len b)"
  using sb_getWriteLen [of h b] by (auto simp: word_less_nat_alt sb_ok_def word_le_nat_alt)

lemma sb_writeData_ok:
  assumes "sb_ok h b" "JmyData_cells d = Some cs" "\<not> JmySessionBuffer_getWriteLen b < jd_len d"
  obtains h' b' where "JmySessionBuffer_writeData h b d = Some (True, h', b')"
    "sb_ok h' b'" "sb_data h' b' = sb_data h b @ cs" "same_but (sb_buff b) h h'" "sb_buff b' = sb_buff b"
proof -
  obtain h' where "mem_write h (sb_buff b) (unat (sb_write_offset b)) cs = Some h'"
    "sb_ok h' (b\<lparr>sb_write_offset := sb_write_offset b + jd_len d\<rparr>)"
    "sb_data h' (b\<lparr>sb_write_offset := sb_write_offset b + jd_len d\<rparr>) = sb_data h b @ cs"
    "same_but (sb_buff b) h h'"
    using sb_write_step [OF assms(1) JmyData_cells_Some [OF assms(2)] sb_room [OF assms(1,3)]] .
  with assms show thesis
    by (intro that [of h' "b\<lparr>sb_write_offset := sb_write_offset b + jd_len d\<rparr>"])
       (simp_all add: JmySessionBuffer_writeData_def)
qed

lemma total_len_sum:
  "unat n + sum_list (map (unat \<circ> jd_len) ds) < 2 ^ 32 \<Longrightarrow>
   unat (total_len n ds) = unat n + sum_list (map (unat \<circ> jd_len) ds)"
proof (induction ds arbitrary: n)
  case (Cons d ds)
  then have "unat n + unat (jd_len d) < 2 ^ LENGTH(32)" by simp
  then have "unat (n + jd_len d) = unat n + unat (jd_len d)"
    by (simp only: unat_add_lem [symmetric])
  with Cons show ?case by simp
qed simp

lemma copy_datas_ok:
  assumes "sb_ok h b" "those (map JmyData_cells ds) = Some css"
    and "unat (sb_write_offset b) + sum_list (map (unat \<circ> jd_len) ds) \<le> unat (sb_len b)"
  shows "\<exists>h' b'. copy_datas h b ds = Some (h', b') \<and> sb_ok h' b' \<and>
    sb_data h' b' = sb_data h b @ concat css \<and> same_but (sb_buff b) h h' \<and> sb_buff b' = sb_buff b"
  using assms
proof (induction ds arbitrary: h b css)
  case (Cons d ds)
  from Cons.prems(2) obtain cs css' where cs: "JmyData_cells d = Some cs" "those (map JmyData_cells ds) = Some css'"
    "css = cs # css'"
    by (auto split: option.splits)
  let ?b = "b\<lparr>sb_write_offset := sb_write_offset b + jd_len d\<rparr>"
  have room: "unat (sb_write_offset b) + unat (jd_len d) \<le> unat (sb_len b)"
    using Cons.prems(3) by simp
  obtain h1 where w: "mem_write h (sb_buff b) (unat (sb_write_offset b)) cs = Some h1" "sb_ok h1 ?b"
    "sb_data h1 ?b = sb_data h b @ cs" "same_but (sb_buff b) h h1"
    using sb_write_step [OF Cons.prems(1) JmyData_cells_Some [OF cs(1)] room] .
  have "unat (sb_write_offset ?b) + sum_list (map (unat \<circ> jd_len) ds) \<le> unat (sb_len ?b)"
    using Cons.prems(3) unat_plus_fits [OF room] by (simp add: comp_def)
  from Cons.IH [OF w(2) cs(2) this] obtain h' b' where "copy_datas h1 ?b ds = Some (h', b')" "sb_ok h' b'"
    "sb_data h' b' = sb_data h1 ?b @ concat css'" "same_but (sb_buff b) h1 h'" "sb_buff b' = sb_buff b"
    by auto
  with w cs show ?case by (auto intro: same_but_trans)
qed simp

lemma datas_len:
  "those (map JmyData_cells ds) = Some css \<Longrightarrow> sum_list (map (unat \<circ> jd_len) ds) = length (concat css)"
proof (induction ds arbitrary: css)
  case (Cons d ds)
  then obtain cs css' where "JmyData_cells d = Some cs" "those (map JmyData_cells ds) = Some css'" "css = cs # css'"
    by (auto split: option.splits)
  with Cons.IH [of css'] JmyData_cells_Some [of d cs] show ?case by simp
qed simp

lemma sb_writeDatas_ok:
  assumes ok: "sb_ok h b" and css: "those (map JmyData_cells ds) = Some css" and ne: "ds \<noteq> []"
    and small: "length (concat css) < 2 ^ 32"
  shows "(JmySessionBuffer_writeDatas h b ds = Some (False, h, b) \<and>
            unat (JmySessionBuffer_getWriteLen b) < length (concat css)) \<or>
         (\<exists>h' b'. JmySessionBuffer_writeDatas h b ds = Some (True, h', b') \<and> sb_ok h' b' \<and>
            sb_data h' b' = sb_data h b @ concat css \<and> same_but (sb_buff b) h h' \<and> sb_buff b' = sb_buff b \<and>
            length (concat css) \<le> unat (JmySessionBuffer_getWriteLen b))"
proof -
  have tot: "unat (total_len 0 ds) = length (concat css)"
    using total_len_sum [of 0 ds] small datas_len [OF css] by simp
  show ?thesis
  proof (cases "total_len 0 ds > JmySessionBuffer_getWriteLen b")
    case True
    then show ?thesis using tot ne by (simp add: JmySessionBuffer_writeDatas_def word_less_nat_alt)
  next
    case False
    then have "unat (sb_write_offset b) + sum_list (map (unat \<circ> jd_len) ds) \<le> unat (sb_len b)"
      using sb_room [OF ok False] tot datas_len [OF css] by simp
    moreover have "length (concat css) \<le> unat (JmySessionBuffer_getWriteLen b)"
      using False tot by (simp add: word_less_nat_alt)
    ultimately show ?thesis using copy_datas_ok [OF ok css] False ne
      by (simp add: JmySessionBuffer_writeDatas_def) fastforce
  qed
qed

lemma sb_readLen_ok:
  assumes "sb_ok h b" "unat n \<le> length (sb_data h b)"
  shows "\<exists>b'. JmySessionBuffer_readLen b n = (True, b') \<and> sb_ok h b' \<and> sb_data h b' = drop (unat n) (sb_data h b)"
proof -
  from assms(1) obtain blk where blk: "blocks h (sb_buff b) = Some blk" "length blk = unat (sb_len b)"
    and le: "unat (sb_read_offset b) \<le> unat (sb_write_offset b)" "unat (sb_write_offset b) \<le> unat (sb_len b)"
    by (rule sb_ok_block)
  have room: "unat (sb_read_offset b) + unat n \<le> unat (sb_write_offset b)"
    using assms(2) blk le by (simp add: sb_data_def)
  have r: "unat (sb_read_offset b + n) = unat (sb_read_offset b) + unat n"
    using room by (rule unat_plus_fits)
  have "\<not> JmySessionBuffer_getReadLen b < n"
    using sb_getReadLen [OF assms(1)] assms(2) by (simp add: word_less_nat_alt)
  moreover have "sb_ok h (b\<lparr>sb_read_offset := sb_read_offset b + n\<rparr>)"
    using assms(1) room r by (simp add: sb_ok_def word_le_nat_alt)
  moreover have "sb_data h (b\<lparr>sb_read_offset := sb_read_offset b + n\<rparr>) = drop (unat n) (sb_data h b)"
    using blk le room r by (simp add: sb_data_def drop_take add.commute)
  ultimately show ?thesis by (simp add: JmySessionBuffer_readLen_def)
qed

lemma sb_readLen_short:
  "sb_ok h b \<Longrightarrow> length (sb_data h b) < unat n \<Longrightarrow> JmySessionBuffer_readLen b n = (False, b)"
  using sb_getReadLen [of h b] by (simp add: JmySessionBuffer_readLen_def word_less_nat_alt)

lemma sb_moveDataToFront_ok:
  assumes ok: "sb_ok h b"
  shows "\<exists>h' b'. JmySessionBuffer_moveDataToFront h b = Some (h', b') \<and> sb_ok h' b' \<and>
     sb_data h' b' = sb_data h b \<and> sb_buff b' = sb_buff b \<and> sb_len b' = sb_len b \<and>
     unat (JmySessionBuffer_getWriteLen b') = unat (sb_len b) - length (sb_data h b) \<and> same_but (sb_buff b) h h'"
proof -
  from ok obtain blk where blk: "blocks h (sb_buff b) = Some blk" "length blk = unat (sb_len b)"
    and le: "unat (sb_read_offset b) \<le> unat (sb_write_offset b)" "unat (sb_write_offset b) \<le> unat (sb_len b)"
    by (rule sb_ok_block)
  let ?n = "JmySessionBuffer_getReadLen b" and ?r = "unat (sb_read_offset b)"
  have n: "unat ?n = unat (sb_write_offset b) - ?r"
    using sb_getReadLen [OF ok] blk le by (simp add: sb_data_def)
  let ?cs = "take (unat ?n) (drop ?r blk)"
  let ?h = "h\<lparr>blocks := (blocks h)(sb_buff b \<mapsto> blit blk 0 ?cs)\<rparr>"
  let ?b = "b\<lparr>sb_read_offset := 0, sb_write_offset := ?n\<rparr>"
  have data: "sb_data h b = ?cs" using blk n by (simp add: sb_data_def)
  have len: "length ?cs = unat ?n" using n le blk by simp
  have "mem_copy h (sb_buff b) 0 (sb_buff b) ?r (unat ?n) = Some ?h"
    using blk le n by (intro mem_copy_block) auto
  then have "JmySessionBuffer_moveDataToFront h b = Some (?h, ?b)"
    by (simp add: JmySessionBuffer_moveDataToFront_def Let_def)
  moreover have okb: "sb_ok ?h ?b"
    using le n len blk by (simp add: sb_ok_def block_of_size_def word_le_nat_alt)
  moreover have "sb_data ?h ?b = ?cs"
    using take_blit_front [of ?cs blk] len le blk by (simp add: sb_data_def)
  moreover have "unat (JmySessionBuffer_getWriteLen ?b) = unat (sb_len b) - length (sb_data h b)"
    using sb_getWriteLen [OF okb] len data by simp
  moreover have "same_but (sb_buff b) h ?h"
    using len n le blk by (auto simp: same_but_def block_of_size_def)
  ultimately show ?thesis using data by auto
qed

lemma sb_checkWriteLen_ok:
  assumes ok: "sb_ok h b"
  shows "\<exists>h' b'. JmySessionBuffer_checkWriteLen h b n =
       Some (unat n + length (sb_data h b) \<le> unat (sb_len b), h', b') \<and> sb_ok h' b' \<and> sb_data h' b' = sb_data h b"
proof (cases "JmySessionBuffer_getWriteLen b < n")
  case True
  from sb_moveDataToFront_ok [OF ok] obtain h' b' where m:
    "JmySessionBuffer_moveDataToFront h b = Some (h', b')" "sb_ok h' b'" "sb_data h' b' = sb_data h b"
    "unat (JmySessionBuffer_getWriteLen b') = unat (sb_len b) - length (sb_data h b)" by blast
  have "length (sb_data h b) \<le> unat (sb_len b)"
    using ok by (rule sb_ok_block) (simp add: sb_data_def)
  then have "n \<le> JmySessionBuffer_getWriteLen b' \<longleftrightarrow> unat n + length (sb_data h b) \<le> unat (sb_len b)"
    using m(4) by (auto simp: word_le_nat_alt)
  with True m show ?thesis by (simp add: JmySessionBuffer_checkWriteLen_def)
next
  case False
  have "length (sb_data h b) \<le> unat (sb_write_offset b)"
    using ok by (rule sb_ok_block) (simp add: sb_data_def)
  then have "unat n + length (sb_data h b) \<le> unat (sb_len b)"
    using sb_room [OF ok False] by simp
  moreover have "JmySessionBuffer_checkWriteLen h b n = Some (True, h, b)"
    using False by (simp add: JmySessionBuffer_checkWriteLen_def)
  ultimately show ?thesis using ok by simp
qed

section \<open>Histories of a buffer\<close>

text \<open>A caller of one buffer, with the bytes accepted and the bytes consumed so far.\<close>

datatype sb_op = SbWrite "u8 list" | SbRead u32 | SbMove | SbCheck u32

type_synonym sb_history = "heap \<times> JmySessionBuffer \<times> cell list \<times> cell list"

definition data_of :: "u8 list \<Rightarrow> JmyData" where
  "data_of bs = \<lparr>jd_data = Some (cells bs), jd_len = of_nat (length bs)\<rparr>"

fun sb_step :: "sb_history \<Rightarrow> sb_op \<Rightarrow> sb_history option" where
  "sb_step (h, b, w, c) (SbWrite bs) = do {
     (r, h', b') \<leftarrow> JmySessionBuffer_writeData h b (data_of bs);
     Some (h', b', if r then w @ cells bs else w, c)
   }"
| "sb_step (h, b, w, c) (SbRead n) = do {
     cs \<leftarrow> JmySessionBuffer_getReadBuff h b;
     let (r, b') = JmySessionBuffer_readLen b n;
     Some (h, b', w, if r then c @ take (unat n) cs else c)
   }"
| "sb_step (h, b, w, c) SbMove = do {
     (h', b') \<leftarrow> JmySessionBuffer_moveDataToFront h b;
     Some (h', b', w, c)
   }"
| "sb_step (h, b, w, c) (SbCheck n) = do {
     (r, h', b') \<leftarrow> JmySessionBuffer_checkWriteLen h b n;
     Some (h', b', w, c)
   }"

fun sb_run :: "sb_history \<Rightarrow> sb_op list \<Rightarrow> sb_history option" where
  "sb_run s [] = Some s"
| "sb_run s (x # xs) = do { s' \<leftarrow> sb_step s x; sb_run s' xs }"

fun sb_fits :: "sb_op \<Rightarrow> bool" where
  "sb_fits (SbWrite bs) = (length bs < 2 ^ 32)"
| "sb_fits _ = True"

definition sb_consistent :: "sb_history \<Rightarrow> bool" where
  "sb_consistent = (\<lambda>(h, b, w, c). sb_ok h b \<and> w = c @ sb_data h b)"

lemma data_of_cells: "length bs < 2 ^ 32 \<Longrightarrow> JmyData_cells (data_of bs) = Some (cells bs)"
  using unat_of_nat_fits [of "length bs", where 'a = 32] by (simp add: JmyData_cells_def char_cells_def data_of_def)

lemma sb_getReadBuff:
  assumes "sb_ok h b"
  shows "JmySessionBuffer_getReadBuff h b = Some (sb_data h b)"
  using assms sb_getReadLen [OF assms]
  by (elim sb_ok_block) (simp add: JmySessionBuffer_getReadBuff_def mem_read_block sb_data_def)

lemma sb_step_consistent:
  assumes "sb_consistent s" "sb_fits x"
  shows "\<exists>s'. sb_step s x = Some s' \<and> sb_consistent s'"
proof -
  obtain h b w c where s: "s = (h, b, w, c)" by (cases s)
  from assms(1) s have ok: "sb_ok h b" and w: "w = c @ sb_data h b" by (simp_all add: sb_consistent_def)
  show ?thesis
  proof (cases x)
    case (SbWrite bs)
    show ?thesis
    proof (cases "JmySessionBuffer_getWriteLen b < jd_len (data_of bs)")
      case True
      with SbWrite s ok w show ?thesis by (simp add: sb_writeData_full sb_consistent_def)
    next
      case False
      have "JmyData_cells (data_of bs) = Some (cells bs)" using assms(2) SbWrite by (simp add: data_of_cells)
      then obtain h' b' where "JmySessionBuffer_writeData h b (data_of bs) = Some (True, h', b')"
        "sb_ok h' b'" "sb_data h' b' = sb_data h b @ cells bs"
        using sb_writeData_ok [OF ok _ False] by blast
      with SbWrite s w show ?thesis by (simp add: sb_consistent_def)
    qed
  next
    case (SbRead n)
    show ?thesis
    proof (cases "unat n \<le> length (sb_data h b)")
      case True
      from sb_readLen_ok [OF ok True] SbRead s w show ?thesis
        by (auto simp: sb_getReadBuff [OF ok] sb_consistent_def)
    next
      case False
      then show ?thesis using SbRead s ok w sb_readLen_short [OF ok, of n]
        by (simp add: sb_getReadBuff sb_consistent_def)
    qed
  next
    case SbMove
    with sb_moveDataToFront_ok [OF ok] s w show ?thesis by (auto simp: sb_consistent_def)
  next
    case (SbCheck n)
    with sb_checkWriteLen_ok [OF ok, of n] s w show ?thesis by (auto simp: sb_consistent_def)
  qed
qed

lemma sb_run_consistent:
  "sb_consistent s \<Longrightarrow> list_all sb_fits xs \<Longrightarrow> \<exists>s'. sb_run s xs = Some s' \<and> sb_consistent s'"
proof (induction xs arbitrary: s)
  case (Cons x xs)
  then have "sb_consistent s" "sb_fits x" "list_all sb_fits xs" by simp_all
  moreover from this(1,2) obtain s' where "sb_step s x = Some s'" "sb_consistent s'"
    using sb_step_consistent by blast
  ultimately show ?case using Cons.IH [of s'] by simp
qed simp



section \<open>Assigning one buffer to another\<close>

text \<open>
  Assigning a buffer to another one takes over the number of unread bytes of the source but not
  the bytes: the destination ends up holding the bytes that follow the source's write offset. The
  copy leaves the source block when fewer bytes than that follow the write offset, and leaves the
  destination block when the destination is too small.
\<close>

theorem assign_copies_past_write_offset:
  assumes "sb_ok h src" "sb_ok h dst" "sb_buff src \<noteq> sb_buff dst" "blocks h (sb_buff src) = Some blk"
  shows "(JmySessionBuffer_assign h dst src = None \<longleftrightarrow> sb_data h src \<noteq> [] \<and>
            (unat (sb_len src) < unat (sb_write_offset src) + length (sb_data h src) \<or>
             unat (sb_len dst) < length (sb_data h src))) \<and>
         (\<forall>r h' dst'. JmySessionBuffer_assign h dst src = Some (r, h', dst') \<longrightarrow> r \<and>
            sb_data h' dst' = take (length (sb_data h src)) (drop (unat (sb_write_offset src)) blk))"
proof -
  let ?n = "sb_write_offset src - sb_read_offset src" and ?w = "unat (sb_write_offset src)"
  obtain d where d: "blocks h (sb_buff dst) = Some d" "length d = unat (sb_len dst)"
    using assms(2) by (rule sb_ok_block)
  have blk: "length blk = unat (sb_len src)"
    using assms(1,4) by (auto elim: sb_ok_block)
  have n: "unat ?n = length (sb_data h src)"
    using sb_getReadLen [OF assms(1)] by (simp add: JmySessionBuffer_getReadLen_def)
  have pos: "?n > 0 \<longleftrightarrow> sb_data h src \<noteq> []"
    using n by (metis length_0_conv unat_eq_zero word_gt_0)
  show ?thesis
  proof (cases "sb_data h src = []")
    case True
    then show ?thesis using pos n d
      by (simp add: JmySessionBuffer_assign_def Let_def sb_data_def)
  next
    case False
    then have "unat ?n \<noteq> 0" using n by simp
    show ?thesis
    proof (cases "?w + unat ?n \<le> length blk \<and> unat ?n \<le> length d")
      case True
      let ?cs = "take (unat ?n) (drop ?w blk)"
      have "mem_copy h (sb_buff dst) 0 (sb_buff src) ?w (unat ?n) =
          Some (h\<lparr>blocks := (blocks h)(sb_buff dst \<mapsto> blit d 0 ?cs)\<rparr>)"
        using True assms(4) d by (intro mem_copy_block) auto
      moreover have "length ?cs = unat ?n" using True by (auto simp: min_def)
      then have "take (unat ?n) (blit d 0 ?cs) = ?cs"
        using take_blit_front [of ?cs d] True by metis
      ultimately show ?thesis
        using False pos True blk d n by (simp add: JmySessionBuffer_assign_def Let_def sb_data_def)
    next
      case no: False
      then have "mem_copy h (sb_buff dst) 0 (sb_buff src) ?w (unat ?n) = None"
        using \<open>unat ?n \<noteq> 0\<close> assms(4) d by (auto simp: mem_copy_def mem_read_def mem_write_def)
      with no False pos blk d n show ?thesis
        by (auto simp: JmySessionBuffer_assign_def Let_def)
    qed
  qed
qed

theorem assign_copies_past_write_offset_witness:
  "let h = \<lparr>blocks = [1 \<mapsto> cells [1, 2, 9, 8], 2 \<mapsto> replicate 4 None], fresh = 3\<rparr>;
       b = \<lparr>sb_proxy = False, sb_buff = 1, sb_len = 4, sb_type = SESSION_BUFFER_TYPE_SEND,
            sb_write_offset = 2, sb_read_offset = 0\<rparr>;
       e = b\<lparr>sb_buff := 2, sb_write_offset := 0\<rparr>
   in \<exists>h' e'. JmySessionBuffer_assign h e b = Some (True, h', e') \<and>
        sb_data h b = cells [1, 2] \<and> sb_data h' e' = cells [9, 8]"
proof -
  define h where "h = \<lparr>blocks = [1 \<mapsto> cells [1, 2, 9, 8], 2 \<mapsto> replicate 4 None], fresh = 3\<rparr>"
  define b where "b = \<lparr>sb_proxy = False, sb_buff = 1, sb_len = 4, sb_type = SESSION_BUFFER_TYPE_SEND,
            sb_write_offset = 2, sb_read_offset = 0\<rparr>"
  let ?e = "b\<lparr>sb_buff := 2, sb_write_offset := 0\<rparr>"
  have ok: "sb_ok h b" "sb_ok h ?e" "sb_buff b \<noteq> sb_buff ?e"
    "blocks h (sb_buff b) = Some (cells [1, 2, 9, 8])"
    by (simp_all add: h_def b_def sb_ok_def block_of_size_def)
  have data: "sb_data h b = cells [1, 2]" by (simp add: h_def b_def sb_data_def)
  note main = assign_copies_past_write_offset [OF ok]
  then have "JmySessionBuffer_assign h ?e b \<noteq> None"
    unfolding data by (simp add: b_def)
  then obtain r h' e' where run: "JmySessionBuffer_assign h ?e b = Some (r, h', e')" by auto
  with main have "r \<and> sb_data h' e' = take (length (sb_data h b)) (drop (unat (sb_write_offset b)) (cells [1, 2, 9, 8]))"
    by blast
  then have "r" "sb_data h' e' = cells [9, 8]"
    unfolding data by (simp_all add: b_def)
  with run data show ?thesis unfolding Let_def h_def [symmetric] b_def [symmetric] by auto
qed

section \<open>The double buffer\<close>

text \<open>
  \<open>db_pool\<close> records whether \<open>buff_pool_\<close> is set. \<open>getWriteBuff\<close> and \<open>getReadBuff\<close> are pointers into
  the active block and appear through the reads and writes that use them.
\<close>

record JmyDoubleSessionBuffer =
  db_use_large :: bool
  db_buff :: JmySessionBuffer
  db_large_buff :: JmySessionBuffer
  db_pool :: bool

type_synonym dbuf_state = "heap \<times> JmySessionBufferPool \<times> JmyDoubleSessionBuffer"

definition new_double_buffer :: JmyDoubleSessionBuffer where
  "new_double_buffer = \<lparr>db_use_large = False, db_buff = new_session_buffer,
     db_large_buff = new_session_buffer, db_pool = False\<rparr>"

definition JmyDoubleSessionBuffer_init ::
    "heap \<Rightarrow> JmyDoubleSessionBuffer \<Rightarrow> u32 \<Rightarrow> SessionBufferType \<Rightarrow> (bool \<times> heap \<times> JmyDoubleSessionBuffer) option" where
  "JmyDoubleSessionBuffer_init h d sz ty = do {
     require (sz > 0);
     (r, h, b) \<leftarrow> JmySessionBuffer_init h (db_buff d) sz ty;
     Some (r, h, d\<lparr>db_buff := b\<rparr>)
   }"

definition JmyDoubleSessionBuffer_init_pool ::
    "dbuf_state \<Rightarrow> SessionBufferType \<Rightarrow> (bool \<times> dbuf_state) option" where
  "JmyDoubleSessionBuffer_init_pool = (\<lambda>(h, pool, d) ty. do {
     let (p, s, pool) = (if ty = SESSION_BUFFER_TYPE_RECV then mallocRecvBuffer pool 0 else mallocSendBuffer pool 0);
     require (p \<noteq> NULL_PTR);
     require (s > 0);
     (r, h, b) \<leftarrow> JmySessionBuffer_init_proxy h (db_buff d) p s ty;
     Some (r, h, pool, d\<lparr>db_buff := b, db_pool := True\<rparr>)
   })"

definition JmyDoubleSessionBuffer_destroy ::
    "heap \<Rightarrow> JmyDoubleSessionBuffer \<Rightarrow> (heap \<times> JmyDoubleSessionBuffer) option" where
  "JmyDoubleSessionBuffer_destroy h d = do {
     (h, b) \<leftarrow> JmySessionBuffer_destroy h (db_buff d);
     (h, l) \<leftarrow> JmySessionBuffer_destroy h (db_large_buff d);
     Some (h, d\<lparr>db_buff := b, db_large_buff := l\<rparr>)
   }"

text \<open>With a pool, \<open>clear\<close> gives the blocks back but keeps pointing at them.\<close>

definition JmyDoubleSessionBuffer_clear ::
    "JmySessionBufferPool \<Rightarrow> JmyDoubleSessionBuffer \<Rightarrow> JmySessionBufferPool \<times> JmyDoubleSessionBuffer" where
  "JmyDoubleSessionBuffer_clear pool d =
     (if db_pool d then
        let pool = (if sb_buff (db_buff d) = NULL_PTR then pool
                    else if sb_type (db_buff d) = SESSION_BUFFER_TYPE_RECV
                    then snd (freeRecvBuffer pool (sb_buff (db_buff d)))
                    else snd (freeSendBuffer pool (sb_buff (db_buff d))));
            pool = (if sb_buff (db_large_buff d) = NULL_PTR then pool
                    else if sb_type (db_large_buff d) = SESSION_BUFFER_TYPE_RECV
                    then snd (freeLargeRecvBuffer pool (sb_buff (db_large_buff d)))
                    else snd (freeLargeSendBuffer pool (sb_buff (db_large_buff d))))
        in (pool, d)
      else (pool, d\<lparr>db_buff := JmySessionBuffer_clear (db_buff d),
                    db_large_buff := JmySessionBuffer_clear (db_large_buff d)\<rparr>))"

definition db_active :: "JmyDoubleSessionBuffer \<Rightarrow> JmySessionBuffer" where
  "db_active d = (if db_use_large d then db_large_buff d else db_buff d)"

definition db_set_active :: "JmyDoubleSessionBuffer \<Rightarrow> JmySessionBuffer \<Rightarrow> JmyDoubleSessionBuffer" where
  "db_set_active d b = (if db_use_large d then d\<lparr>db_large_buff := b\<rparr> else d\<lparr>db_buff := b\<rparr>)"

definition JmyDoubleSessionBuffer_isEmpty :: "JmyDoubleSessionBuffer \<Rightarrow> bool" where
  "JmyDoubleSessionBuffer_isEmpty d = JmySessionBuffer_isEmpty (db_active d)"

definition JmyDoubleSessionBuffer_getWriteLen :: "JmyDoubleSessionBuffer \<Rightarrow> u32" where
  "JmyDoubleSessionBuffer_getWriteLen d = JmySessionBuffer_getWriteLen (db_active d)"

definition JmyDoubleSessionBuffer_getReadLen :: "JmyDoubleSessionBuffer \<Rightarrow> u32" where
  "JmyDoubleSessionBuffer_getReadLen d = JmySessionBuffer_getReadLen (db_active d)"

definition JmyDoubleSessionBuffer_checkWriteLen ::
    "heap \<Rightarrow> JmyDoubleSessionBuffer \<Rightarrow> u32 \<Rightarrow> (bool \<times> heap \<times> JmyDoubleSessionBuffer) option" where
  "JmyDoubleSessionBuffer_checkWriteLen h d len = do {
     (r, h, b) \<leftarrow> JmySessionBuffer_checkWriteLen h (db_active d) len;
     Some (r, h, db_set_active d b)
   }"

definition JmyDoubleSessionBuffer_writeLen ::
    "JmyDoubleSessionBuffer \<Rightarrow> u32 \<Rightarrow> bool \<times> JmyDoubleSessionBuffer" where
  "JmyDoubleSessionBuffer_writeLen d len =
     (let (r, b) = JmySessionBuffer_writeLen (db_active d) len in (r, db_set_active d b))"

definition JmyDoubleSessionBuffer_readLen ::
    "JmyDoubleSessionBuffer \<Rightarrow> u32 \<Rightarrow> bool \<times> JmyDoubleSessionBuffer" where
  "JmyDoubleSessionBuffer_readLen d len =
     (let (r, b) = JmySessionBuffer_readLen (db_active d) len in (r, db_set_active d b))"

text \<open>\<open>moveDataToFront\<close> has no \<open>else\<close>: the large buffer is always compacted.\<close>

definition JmyDoubleSessionBuffer_moveDataToFront ::
    "heap \<Rightarrow> JmyDoubleSessionBuffer \<Rightarrow> (heap \<times> JmyDoubleSessionBuffer) option" where
  "JmyDoubleSessionBuffer_moveDataToFront h d = do {
     (h, b) \<leftarrow> (if \<not> db_use_large d then JmySessionBuffer_moveDataToFront h (db_buff d) else Some (h, db_buff d));
     (h, l) \<leftarrow> JmySessionBuffer_moveDataToFront h (db_large_buff d);
     Some (h, d\<lparr>db_buff := b, db_large_buff := l\<rparr>)
   }"

definition JmyDoubleSessionBuffer_writeData ::
    "heap \<times> JmyDoubleSessionBuffer \<Rightarrow> JmyData \<Rightarrow> (bool \<times> heap \<times> JmyDoubleSessionBuffer) option" where
  "JmyDoubleSessionBuffer_writeData = (\<lambda>(h, d) x. do {
     (r, h, b) \<leftarrow> JmySessionBuffer_writeData h (db_active d) x;
     Some (r, h, db_set_active d b)
   })"

definition JmyDoubleSessionBuffer_writeDatas ::
    "heap \<times> JmyDoubleSessionBuffer \<Rightarrow> JmyData list \<Rightarrow> (bool \<times> heap \<times> JmyDoubleSessionBuffer) option" where
  "JmyDoubleSessionBuffer_writeDatas = (\<lambda>(h, d) xs. do {
     (r, h, b) \<leftarrow> JmySessionBuffer_writeDatas h (db_active d) xs;
     Some (r, h, db_set_active d b)
   })"

definition JmyDoubleSessionBuffer_switchToLarge :: "dbuf_state \<Rightarrow> (bool \<times> dbuf_state) option" where
  "JmyDoubleSessionBuffer_switchToLarge = (\<lambda>(h, pool, d).
     if db_use_large d then Some (True, h, pool, d)
     else do {
       (ok, h, pool, d) \<leftarrow>
         (if \<not> JmySessionBuffer_isInited (db_large_buff d) then do {
            require (db_pool d);
            let (p, s, pool) = (if sb_type (db_buff d) = SESSION_BUFFER_TYPE_SEND
                                then mallocLargeSendBuffer pool 0 else mallocLargeRecvBuffer pool 0);
            if p = NULL_PTR then Some (False, h, pool, d)
            else do {
              (r, h, l) \<leftarrow> JmySessionBuffer_init_proxy h (db_large_buff d) p s (sb_type (db_buff d));
              Some (r, h, pool, d\<lparr>db_large_buff := l\<rparr>)
            }
          } else Some (True, h, pool, d));
       if \<not> ok then Some (False, h, pool, d)
       else do {
         (r, h, l) \<leftarrow> JmySessionBuffer_assign h (db_large_buff d) (db_buff d);
         Some (True, h, pool, d\<lparr>db_large_buff := l, db_use_large := True\<rparr>)
       }
     })"

definition JmyDoubleSessionBuffer_backToNormal :: "dbuf_state \<Rightarrow> (bool \<times> dbuf_state) option" where
  "JmyDoubleSessionBuffer_backToNormal = (\<lambda>(h, pool, d).
     if \<not> db_use_large d then Some (True, h, pool, d)
     else do {
       (r, h, b) \<leftarrow> JmySessionBuffer_assign h (db_buff d) (db_large_buff d);
       require (db_pool d);
       let pool = snd (if sb_type (db_large_buff d) = SESSION_BUFFER_TYPE_SEND
                       then freeLargeSendBuffer pool (sb_buff (db_large_buff d))
                       else freeLargeRecvBuffer pool (sb_buff (db_large_buff d)));
       (h, l) \<leftarrow> JmySessionBuffer_destroy h (db_large_buff d);
       Some (True, h, pool, d\<lparr>db_buff := b, db_large_buff := l, db_use_large := False\<rparr>)
     })"

section \<open>The double buffer as a send buffer\<close>

definition db_ok :: "heap \<times> JmyDoubleSessionBuffer \<Rightarrow> bool" where
  "db_ok = (\<lambda>(h, d). sb_ok h (db_active d))"

definition db_stream :: "heap \<times> JmyDoubleSessionBuffer \<Rightarrow> cell list" where
  "db_stream = (\<lambda>(h, d). sb_data h (db_active d))"

definition JmyDoubleSessionBuffer_getReadBuff :: "heap \<times> JmyDoubleSessionBuffer \<Rightarrow> cell list option" where
  "JmyDoubleSessionBuffer_getReadBuff = (\<lambda>(h, d). JmySessionBuffer_getReadBuff h (db_active d))"

definition db_consume :: "heap \<times> JmyDoubleSessionBuffer \<Rightarrow> u32 \<Rightarrow> heap \<times> JmyDoubleSessionBuffer" where
  "db_consume = (\<lambda>(h, d) n. (h, snd (JmyDoubleSessionBuffer_readLen d n)))"

lemma db_active_set [simp]: "db_active (db_set_active d b) = b"
  by (simp add: db_active_def db_set_active_def)

definition db_accepts :: "heap \<times> JmyDoubleSessionBuffer \<Rightarrow> nat \<Rightarrow> bool" where
  "db_accepts = (\<lambda>(h, d) n. n \<le> unat (JmyDoubleSessionBuffer_getWriteLen d))"

lemmas db_view = db_ok_def db_stream_def db_accepts_def JmyDoubleSessionBuffer_getWriteLen_def

lemma db_writeData_ok:
  assumes "db_ok (h, d)" "JmyData_cells x = Some cs"
  shows "\<exists>r s'. JmyDoubleSessionBuffer_writeData (h, d) x = Some (r, s') \<and> db_ok s' \<and>
    db_stream s' = (if r then db_stream (h, d) @ cs else db_stream (h, d)) \<and>
    (r \<longleftrightarrow> db_accepts (h, d) (length cs))"
proof (cases "JmySessionBuffer_getWriteLen (db_active d) < jd_len x")
  case True
  with assms JmyData_cells_Some [OF assms(2)] show ?thesis
    by (auto simp: JmyDoubleSessionBuffer_writeData_def sb_writeData_full db_view word_less_nat_alt)
next
  case False
  have "sb_ok h (db_active d)" using assms(1) by (simp add: db_ok_def)
  from sb_writeData_ok [OF this assms(2) False] obtain h' b' where
    "JmySessionBuffer_writeData h (db_active d) x = Some (True, h', b')" "sb_ok h' b'"
    "sb_data h' b' = sb_data h (db_active d) @ cs" by metis
  with False JmyData_cells_Some [OF assms(2)] show ?thesis
    by (auto simp: JmyDoubleSessionBuffer_writeData_def db_view word_less_nat_alt)
qed

lemma db_writeDatas_ok:
  assumes "db_ok (h, d)" "those (map JmyData_cells xs) = Some css" "xs \<noteq> []" "length (concat css) < 2 ^ 32"
  shows "\<exists>r s'. JmyDoubleSessionBuffer_writeDatas (h, d) xs = Some (r, s') \<and> db_ok s' \<and>
    db_stream s' = (if r then db_stream (h, d) @ concat css else db_stream (h, d)) \<and>
    (r \<longleftrightarrow> db_accepts (h, d) (length (concat css)))"
proof -
  have "sb_ok h (db_active d)" using assms(1) by (simp add: db_ok_def)
  from sb_writeDatas_ok [OF this assms(2-4)] show ?thesis
  proof (elim disjE exE conjE)
    assume "JmySessionBuffer_writeDatas h (db_active d) xs = Some (False, h, db_active d)"
      "unat (JmySessionBuffer_getWriteLen (db_active d)) < length (concat css)"
    then show ?thesis using assms(1) by (auto simp: JmyDoubleSessionBuffer_writeDatas_def db_view)
  next
    fix h' b'
    assume "JmySessionBuffer_writeDatas h (db_active d) xs = Some (True, h', b')" "sb_ok h' b'"
      "sb_data h' b' = sb_data h (db_active d) @ concat css"
      "length (concat css) \<le> unat (JmySessionBuffer_getWriteLen (db_active d))"
    then show ?thesis by (auto simp: JmyDoubleSessionBuffer_writeDatas_def db_view)
  qed
qed

interpretation db: send_buffer JmyDoubleSessionBuffer_writeData JmyDoubleSessionBuffer_writeDatas
    JmyDoubleSessionBuffer_getReadBuff db_consume db_stream db_ok db_accepts
proof (unfold_locales, goal_cases)
  case (1 s d cs)
  with db_writeData_ok [of "fst s" "snd s" d cs] show ?case by auto
next
  case (2 s ds css)
  then show ?case using db_writeDatas_ok [of "fst s" "snd s" ds css] by auto
next
  case (3 s)
  obtain h d where s: "s = (h, d)" by (cases s)
  then have ok: "sb_ok h (db_active d)" using 3 by (simp add: db_ok_def)
  have "length (sb_data h (db_active d)) < 2 ^ 32"
    using unsigned_less [of "JmySessionBuffer_getReadLen (db_active d)", where 'a = nat] sb_getReadLen [OF ok] by simp
  then show ?case using s sb_getReadBuff [OF ok]
    by (simp add: JmyDoubleSessionBuffer_getReadBuff_def db_stream_def)
next
  case (4 s c n)
  obtain h d where s: "s = (h, d)" by (cases s)
  then have ok: "sb_ok h (db_active d)" using 4 by (simp add: db_ok_def)
  then have "c = sb_data h (db_active d)"
    using 4(2) s sb_getReadBuff [OF ok] by (simp add: JmyDoubleSessionBuffer_getReadBuff_def)
  with sb_readLen_ok [OF ok, of n] 4(3) s show ?case
    by (auto simp: db_consume_def JmyDoubleSessionBuffer_readLen_def db_view)
qed

end
