(* ===== verification/Buffer_List.thy ===== *)
theory Buffer_List
  imports Send_Buffer Session_Buffer
begin

text \<open>
  \<open>JmySessionBufferList\<close> of \<open>libjmy/jmy_session_buffer.h\<close> and \<open>.cpp\<close>: a list of nodes, each owning
  one block with 16 bit length and offsets. The block of a node is moved with the node and never
  shared, so it is part of the node's value. The same class carries the bytes to send and, with
  the packet type in place of the write offset, the packets received.
\<close>

record buffer_node =
  nb_data :: cptr
  nb_len :: u16
  nb_roffset :: u16
  nb_woffset :: u16

definition new_buffer :: buffer_node where
  "new_buffer = \<lparr>nb_data = None, nb_len = 0, nb_roffset = 0, nb_woffset = 0\<rparr>"

definition buffer_init_data :: "buffer_node \<Rightarrow> cptr \<Rightarrow> u16 \<Rightarrow> (bool \<times> buffer_node) option" where
  "buffer_init_data b data len =
     (if data = None \<or> len = 0 then Some (False, b)
      else do {
        cs \<leftarrow> char_cells data (unat len);
        Some (True, \<lparr>nb_data = Some cs, nb_len = len, nb_roffset = 0, nb_woffset = len\<rparr>)
      })"

definition buffer_init :: "buffer_node \<Rightarrow> u16 \<Rightarrow> bool \<times> buffer_node" where
  "buffer_init b len =
     (if len = 0 then (False, b)
      else (True, \<lparr>nb_data = Some (replicate (unat len) None), nb_len = len, nb_roffset = 0, nb_woffset = 0\<rparr>))"

definition buffer_write :: "buffer_node \<Rightarrow> cptr \<Rightarrow> u16 \<Rightarrow> (bool \<times> buffer_node) option" where
  "buffer_write b data len =
     (if data = None \<or> len = 0 then Some (False, b)
      else if uint (nb_len b) - uint (nb_woffset b) < uint len then Some (False, b)
      else do {
        cs \<leftarrow> char_cells data (unat len);
        d \<leftarrow> nb_data b;
        require (unat (nb_woffset b) + unat len \<le> length d);
        Some (True, b\<lparr>nb_data := Some (blit d (unat (nb_woffset b)) cs), nb_woffset := nb_woffset b + len\<rparr>)
      })"

definition buffer_read_len :: "buffer_node \<Rightarrow> u16" where
  "buffer_read_len b = (if nb_woffset b < nb_roffset b then 0 else nb_woffset b - nb_roffset b)"

definition buffer_read_buff :: "buffer_node \<Rightarrow> cell list option" where
  "buffer_read_buff b =
     char_cells (map_option (drop (unat (nb_roffset b))) (nb_data b)) (unat (buffer_read_len b))"

definition buffer_read :: "buffer_node \<Rightarrow> u16 \<Rightarrow> bool \<times> buffer_node" where
  "buffer_read b len =
     (if uint len > uint (nb_woffset b) - uint (nb_roffset b) then (False, b)
      else (True, b\<lparr>nb_roffset := nb_roffset b + len\<rparr>))"

definition buffer_is_read_out :: "buffer_node \<Rightarrow> bool" where
  "buffer_is_read_out b \<longleftrightarrow> \<not> nb_roffset b < nb_woffset b"

record JmySessionBufferList =
  bl_using :: "buffer_node list"
  bl_max_bytes :: u32
  bl_curr_used_bytes :: u32
  bl_max_count :: u32
  bl_curr_count :: u32

definition new_buffer_list :: JmySessionBufferList where
  "new_buffer_list = \<lparr>bl_using = [], bl_max_bytes = 0, bl_curr_used_bytes = 0, bl_max_count = 0, bl_curr_count = 0\<rparr>"

definition JmySessionBufferList_init :: "JmySessionBufferList \<Rightarrow> u32 \<Rightarrow> u32 \<Rightarrow> bool \<times> JmySessionBufferList" where
  "JmySessionBufferList_init l max_bytes max_count = (True, l\<lparr>bl_max_bytes := max_bytes, bl_max_count := max_count\<rparr>)"

definition JmySessionBufferList_clear :: "JmySessionBufferList \<Rightarrow> JmySessionBufferList" where
  "JmySessionBufferList_clear l = l\<lparr>bl_using := [], bl_curr_used_bytes := 0, bl_curr_count := 0\<rparr>"

text \<open>Both limits are only enforced, and the counters only advanced, when they are set.\<close>

definition bl_over_limit :: "JmySessionBufferList \<Rightarrow> u32 \<Rightarrow> bool" where
  "bl_over_limit l n \<longleftrightarrow> (bl_max_count l > 0 \<and> bl_curr_count l + 1 > bl_max_count l) \<or>
     (bl_max_bytes l > 0 \<and> bl_curr_used_bytes l + n > bl_max_bytes l)"

definition bl_push :: "JmySessionBufferList \<Rightarrow> buffer_node \<Rightarrow> u32 \<Rightarrow> JmySessionBufferList" where
  "bl_push l b n = l\<lparr>bl_using := bl_using l @ [b],
     bl_curr_count := (if bl_max_count l > 0 then bl_curr_count l + 1 else bl_curr_count l),
     bl_curr_used_bytes := (if bl_max_bytes l > 0 then bl_curr_used_bytes l + n else bl_curr_used_bytes l)\<rparr>"

definition JmySessionBufferList_writeData ::
    "JmySessionBufferList \<Rightarrow> cptr \<Rightarrow> u16 \<Rightarrow> (bool \<times> JmySessionBufferList) option" where
  "JmySessionBufferList_writeData l data len =
     (if bl_over_limit l (ucast len) then Some (False, l)
      else do {
        (r, b) \<leftarrow> buffer_init_data new_buffer data len;
        if \<not> r then Some (False, l) else Some (True, bl_push l b (ucast len))
      })"

fun buffer_write_all :: "buffer_node \<Rightarrow> JmyData list \<Rightarrow> (bool \<times> buffer_node) option" where
  "buffer_write_all b [] = Some (True, b)"
| "buffer_write_all b (d # ds) = do {
     (r, b') \<leftarrow> buffer_write b (jd_data d) (ucast (jd_len d));
     if \<not> r then Some (False, b') else buffer_write_all b' ds
   }"

text \<open>The 32 bit total is cut to 16 bits by \<open>buffer::init\<close>, and so is each length by \<open>buffer::write\<close>.\<close>

definition JmySessionBufferList_writeDatas ::
    "JmySessionBufferList \<Rightarrow> JmyData list \<Rightarrow> (bool \<times> JmySessionBufferList) option" where
  "JmySessionBufferList_writeDatas l datas =
     (if datas = [] then Some (False, l)
      else
        let total = total_len 0 datas in
        if bl_over_limit l total then Some (False, l)
        else
          let (r, b) = buffer_init new_buffer (ucast total) in
          if \<not> r then Some (False, l)
          else do {
            (r, b) \<leftarrow> buffer_write_all b datas;
            if \<not> r then Some (False, l) else Some (True, bl_push l b total)
          })"

definition JmySessionBufferList_writeData_param ::
    "JmySessionBufferList \<Rightarrow> u16 \<Rightarrow> cptr \<Rightarrow> u16 \<Rightarrow> (bool \<times> JmySessionBufferList) option" where
  "JmySessionBufferList_writeData_param l param data len = do {
     (r, b) \<leftarrow> buffer_init_data new_buffer data len;
     if \<not> r then Some (False, l)
     else Some (True, l\<lparr>bl_using := bl_using l @ [b\<lparr>nb_woffset := param\<rparr>]\<rparr>)
   }"

definition JmySessionBufferList_getReadLen :: "JmySessionBufferList \<Rightarrow> u32" where
  "JmySessionBufferList_getReadLen l = (case bl_using l of [] \<Rightarrow> 0 | b # _ \<Rightarrow> ucast (buffer_read_len b))"

text \<open>What a caller reads through \<open>getReadBuff\<close> and \<open>getReadLen\<close>.\<close>

definition JmySessionBufferList_getReadBuff :: "JmySessionBufferList \<Rightarrow> cell list option" where
  "JmySessionBufferList_getReadBuff l = (case bl_using l of [] \<Rightarrow> Some [] | b # _ \<Rightarrow> buffer_read_buff b)"

definition JmySessionBufferList_readLen :: "JmySessionBufferList \<Rightarrow> u32 \<Rightarrow> int \<times> JmySessionBufferList" where
  "JmySessionBufferList_readLen l len =
     (case bl_using l of
        [] \<Rightarrow> (0, l)
      | b # bs \<Rightarrow>
          let (r, b') = buffer_read b (ucast len) in
          if \<not> r then (0, l)
          else if buffer_is_read_out b' then (sint len, l\<lparr>bl_using := bs\<rparr>)
          else (sint len, l\<lparr>bl_using := b' # bs\<rparr>))"

definition JmySessionBufferList_getUsingSize :: "JmySessionBufferList \<Rightarrow> nat" where
  "JmySessionBufferList_getUsingSize l = length (bl_using l)"

definition JmySessionBufferList_getUsedBytes :: "JmySessionBufferList \<Rightarrow> u32" where
  "JmySessionBufferList_getUsedBytes l = bl_curr_used_bytes l"

section \<open>The list as a stream of bytes\<close>

definition node_ok :: "buffer_node \<Rightarrow> bool" where
  "node_ok b \<longleftrightarrow> nb_roffset b < nb_woffset b \<and> nb_woffset b \<le> nb_len b \<and>
     (\<exists>d. nb_data b = Some d \<and> length d = unat (nb_len b))"

definition node_bytes :: "buffer_node \<Rightarrow> cell list" where
  "node_bytes b = (case nb_data b of None \<Rightarrow> []
     | Some d \<Rightarrow> take (unat (nb_woffset b) - unat (nb_roffset b)) (drop (unat (nb_roffset b)) d))"

definition bl_ok :: "JmySessionBufferList \<Rightarrow> bool" where
  "bl_ok l \<longleftrightarrow> (\<forall>b \<in> set (bl_using l). node_ok b)"

definition bl_stream :: "JmySessionBufferList \<Rightarrow> cell list" where
  "bl_stream l = concat (map node_bytes (bl_using l))"

definition bl_writeData :: "JmySessionBufferList \<Rightarrow> JmyData \<Rightarrow> (bool \<times> JmySessionBufferList) option" where
  "bl_writeData l d = JmySessionBufferList_writeData l (jd_data d) (ucast (jd_len d))"

lemma bl_ok_new [simp]: "bl_ok new_buffer_list" "bl_stream new_buffer_list = []"
  by (simp_all add: new_buffer_list_def bl_ok_def bl_stream_def)

lemma bl_ok_clear [simp]: "bl_ok (JmySessionBufferList_clear l)" "bl_stream (JmySessionBufferList_clear l) = []"
  by (simp_all add: JmySessionBufferList_clear_def bl_ok_def bl_stream_def)

lemma bl_push_ok:
  "bl_ok l \<Longrightarrow> node_ok b \<Longrightarrow> bl_ok (bl_push l b n) \<and> bl_stream (bl_push l b n) = bl_stream l @ node_bytes b"
  by (simp add: bl_push_def bl_ok_def bl_stream_def)

lemma node_ok_unat:
  "node_ok b \<Longrightarrow> unat (nb_roffset b) < unat (nb_woffset b) \<and> unat (nb_woffset b) \<le> unat (nb_len b)"
  by (simp add: node_ok_def word_le_nat_alt word_less_nat_alt)

lemma length_node_bytes: "node_ok b \<Longrightarrow> length (node_bytes b) = unat (nb_woffset b) - unat (nb_roffset b)"
  using node_ok_unat [of b] by (auto simp: node_ok_def node_bytes_def)

lemma node_bytes_ne: "node_ok b \<Longrightarrow> node_bytes b \<noteq> []"
  using length_node_bytes [of b] node_ok_unat [of b] by auto

lemma buffer_read_len_ok: "node_ok b \<Longrightarrow> unat (buffer_read_len b) = length (node_bytes b)"
  using node_ok_unat [of b]
  by (simp add: length_node_bytes buffer_read_len_def word_less_nat_alt unat_sub word_le_nat_alt)

lemma buffer_read_buff_ok: "node_ok b \<Longrightarrow> buffer_read_buff b = Some (node_bytes b)"
  using node_ok_unat [of b]
  by (auto simp: buffer_read_buff_def buffer_read_len_ok length_node_bytes char_cells_def node_bytes_def node_ok_def)

lemma buffer_init_data_ok:
  assumes "char_cells data (unat len) = Some cs" "data \<noteq> None" "len \<noteq> 0"
  shows "\<exists>b. buffer_init_data b0 data len = Some (True, b) \<and> node_ok b \<and> node_bytes b = cs"
  using assms char_cells_Some [OF assms(1)]
  by (auto simp: buffer_init_data_def node_ok_def node_bytes_def word_gt_0)

lemma bl_writeData_ok:
  assumes "bl_ok l" "char_cells data (unat len) = Some cs"
  shows "\<exists>r l'. JmySessionBufferList_writeData l data len = Some (r, l') \<and> bl_ok l' \<and>
     bl_stream l' = (if r then bl_stream l @ cs else bl_stream l) \<and>
     (r \<longleftrightarrow> \<not> bl_over_limit l (ucast len) \<and> data \<noteq> None \<and> len \<noteq> 0)"
proof (cases "bl_over_limit l (ucast len) \<or> data = None \<or> len = 0")
  case True
  then show ?thesis using assms(1)
    by (auto simp: JmySessionBufferList_writeData_def buffer_init_data_def)
next
  case False
  then obtain b where "buffer_init_data new_buffer data len = Some (True, b)" "node_ok b" "node_bytes b = cs"
    using buffer_init_data_ok [OF assms(2)] by blast
  then show ?thesis using False bl_push_ok [OF assms(1)]
    by (auto simp: JmySessionBufferList_writeData_def)
qed

text \<open>Filling a node: the first \<open>woffset_\<close> bytes of its block are the data written so far.\<close>

definition node_filled :: "buffer_node \<Rightarrow> cell list \<Rightarrow> bool" where
  "node_filled b cs \<longleftrightarrow> nb_roffset b = 0 \<and> unat (nb_woffset b) = length cs \<and> length cs \<le> unat (nb_len b) \<and>
     (\<exists>d. nb_data b = Some d \<and> length d = unat (nb_len b) \<and> take (length cs) d = cs)"

lemma node_filled_ok: "node_filled b cs \<Longrightarrow> cs \<noteq> [] \<Longrightarrow> node_ok b \<and> node_bytes b = cs"
  by (auto simp: node_filled_def node_ok_def node_bytes_def word_le_nat_alt word_less_nat_alt)

lemma buffer_write_ok:
  assumes fill: "node_filled b pre" and cs: "char_cells data (unat len) = Some cs" and ne: "data \<noteq> None" "len \<noteq> 0"
    and room: "length pre + length cs \<le> unat (nb_len b)"
  shows "\<exists>b'. buffer_write b data len = Some (True, b') \<and> node_filled b' (pre @ cs) \<and> nb_len b' = nb_len b"
proof -
  from fill obtain d where d: "nb_data b = Some d" "length d = unat (nb_len b)" "take (length pre) d = pre"
    "nb_roffset b = 0" "unat (nb_woffset b) = length pre" by (auto simp: node_filled_def)
  have len: "unat len = length cs" using char_cells_Some [OF cs] by simp
  have w: "unat (nb_woffset b + len) = length pre + length cs"
    using unat_plus_fits [of "nb_woffset b" len "nb_len b"] d(5) len room by simp
  let ?b = "b\<lparr>nb_data := Some (blit d (length pre) cs), nb_woffset := nb_woffset b + len\<rparr>"
  have "\<not> uint (nb_len b) - uint (nb_woffset b) < uint len"
    using room d(5) len by (simp add: uint_diff_less)
  then have "buffer_write b data len = Some (True, ?b)"
    using ne cs d len room by (simp add: buffer_write_def)
  moreover have "take (length (pre @ cs)) (blit d (length pre) cs) = pre @ cs"
    using d room by (simp add: blit_def)
  then have "node_filled ?b (pre @ cs)"
    using d w room by (simp add: node_filled_def)
  ultimately show ?thesis by simp
qed

definition data_present :: "JmyData \<Rightarrow> bool" where
  "data_present d \<longleftrightarrow> jd_data d \<noteq> None \<and> jd_len d \<noteq> 0"

lemma unat_ucast16: "unat x < 2 ^ 16 \<Longrightarrow> unat (ucast x :: u16) = unat x" for x :: u32
  by (simp add: unsigned_ucast_eq take_bit_nat_eq_self)

lemma ucast16_eq_0: "unat x < 2 ^ 16 \<Longrightarrow> (ucast x :: u16) = 0 \<longleftrightarrow> x = 0" for x :: u32
  using unat_ucast16 [of x] by (metis unat_eq_zero)

lemma buffer_write_absent: "\<not> data_present d \<Longrightarrow> buffer_write b (jd_data d) (ucast (jd_len d)) = Some (False, b)"
  by (auto simp: buffer_write_def data_present_def)

lemma buffer_write_all_ok:
  assumes "node_filled b pre" "those (map JmyData_cells ds) = Some css"
    and "length pre + length (concat css) \<le> unat (nb_len b)"
  shows "\<exists>r b'. buffer_write_all b ds = Some (r, b') \<and> (r \<longleftrightarrow> (\<forall>d \<in> set ds. data_present d)) \<and>
     (r \<longrightarrow> node_filled b' (pre @ concat css))"
  using assms
proof (induction ds arbitrary: b pre css)
  case (Cons d ds)
  from Cons.prems(2) obtain cs css' where cs: "JmyData_cells d = Some cs" "those (map JmyData_cells ds) = Some css'"
    "css = cs # css'"
    by (auto split: option.splits)
  show ?case
  proof (cases "data_present d")
    case True
    have "unat (jd_len d) < 2 ^ 16"
      using Cons.prems(3) cs(3) JmyData_cells_Some [OF cs(1)] unat_u16_less [of "nb_len b"] by simp
    note small = unat_ucast16 [OF this] ucast16_eq_0 [OF this]
    have "char_cells (jd_data d) (unat (ucast (jd_len d) :: u16)) = Some cs"
      using cs(1) small by (simp add: JmyData_cells_def)
    from buffer_write_ok [OF Cons.prems(1) this] True small Cons.prems(3) cs(3)
    obtain b' where b': "buffer_write b (jd_data d) (ucast (jd_len d)) = Some (True, b')"
      "node_filled b' (pre @ cs)" "nb_len b' = nb_len b"
      by (auto simp: data_present_def)
    from Cons.IH [OF b'(2) cs(2)] b' Cons.prems(3) cs(3) True show ?thesis by auto
  qed (auto simp: buffer_write_absent)
qed auto

lemma bl_writeDatas_ok:
  assumes ok: "bl_ok l" and css: "those (map JmyData_cells ds) = Some css" and small: "length (concat css) < 2 ^ 16"
    and ne: "ds \<noteq> []"
  shows "\<exists>r l'. JmySessionBufferList_writeDatas l ds = Some (r, l') \<and> bl_ok l' \<and>
     bl_stream l' = (if r then bl_stream l @ concat css else bl_stream l) \<and>
     (r \<longleftrightarrow> \<not> bl_over_limit l (of_nat (length (concat css))) \<and> (\<forall>d \<in> set ds. data_present d))"
proof -
  have tot: "unat (total_len 0 ds) = length (concat css)"
    using total_len_sum [of 0 ds] small datas_len [OF css] by simp
  then have tot': "total_len 0 ds = of_nat (length (concat css))" by (metis word_of_unat_eq)
  show ?thesis
  proof (cases "bl_over_limit l (total_len 0 ds) \<or> concat css = []")
    case True
    then have "JmySessionBufferList_writeDatas l ds = Some (False, l)"
    proof
      assume "concat css = []"
      then have "total_len 0 ds = 0" using tot by (metis list.size(3) unat_eq_zero)
      then show ?thesis using ne by (simp add: JmySessionBufferList_writeDatas_def buffer_init_def)
    qed (use ne in \<open>simp add: JmySessionBufferList_writeDatas_def\<close>)
    moreover have "\<exists>d \<in> set ds. \<not> data_present d" if "concat css = []"
    proof -
      have "sum_list (map (unat \<circ> jd_len) ds) = 0" using datas_len [OF css] that by simp
      then show ?thesis using ne by (cases ds) (auto simp: data_present_def unat_eq_zero)
    qed
    ultimately show ?thesis using True ok tot' by auto
  next
    case False
    let ?b = "\<lparr>nb_data = Some (replicate (unat (ucast (total_len 0 ds) :: u16)) None),
      nb_len = ucast (total_len 0 ds), nb_roffset = 0, nb_woffset = 0\<rparr>"
    have len: "unat (ucast (total_len 0 ds) :: u16) = length (concat css)"
      using unat_ucast16 [of "total_len 0 ds"] tot small by simp
    then have "(ucast (total_len 0 ds) :: u16) \<noteq> 0" using False by (metis length_0_conv unat_eq_zero)
    then have init: "buffer_init new_buffer (ucast (total_len 0 ds)) = (True, ?b)"
      by (simp add: buffer_init_def)
    have "node_filled ?b []" by (simp add: node_filled_def)
    from buffer_write_all_ok [OF this css] len obtain r b' where b':
      "buffer_write_all ?b ds = Some (r, b')" "r \<longleftrightarrow> (\<forall>d \<in> set ds. data_present d)" "r \<longrightarrow> node_filled b' (concat css)"
      by auto
    from b' init False ne have run: "JmySessionBufferList_writeDatas l ds =
        Some (r, if r then bl_push l b' (total_len 0 ds) else l)"
      by (simp add: JmySessionBufferList_writeDatas_def Let_def)
    have "r \<Longrightarrow> node_ok b' \<and> node_bytes b' = concat css"
      using b'(3) False node_filled_ok by blast
    with bl_push_ok [OF ok] ok have
      "bl_ok (if r then bl_push l b' (total_len 0 ds) else l)"
      "bl_stream (if r then bl_push l b' (total_len 0 ds) else l) = (if r then bl_stream l @ concat css else bl_stream l)"
      by auto
    then show ?thesis using run b'(2) False tot' by auto
  qed
qed

lemma bl_getReadBuff_ok:
  assumes "bl_ok l"
  shows "\<exists>c rest. JmySessionBufferList_getReadBuff l = Some c \<and> bl_stream l = c @ rest \<and>
    (c = [] \<longrightarrow> bl_using l = [] \<and> rest = []) \<and> length c = unat (JmySessionBufferList_getReadLen l) \<and> length c < 2 ^ 16"
proof (cases "bl_using l")
  case (Cons b bs)
  then have b: "node_ok b" using assms by (simp add: bl_ok_def)
  have "unat (ucast (buffer_read_len b) :: u32) = unat (buffer_read_len b)"
    by (simp add: unsigned_ucast_eq take_bit_nat_eq_self order.strict_trans [OF unsigned_less])
  moreover have "unat (buffer_read_len b) < 2 ^ 16" by (rule unat_u16_less)
  ultimately show ?thesis using Cons b node_bytes_ne [OF b] buffer_read_len_ok [OF b]
    by (simp add: JmySessionBufferList_getReadBuff_def JmySessionBufferList_getReadLen_def bl_stream_def buffer_read_buff_ok)
qed (simp add: JmySessionBufferList_getReadBuff_def JmySessionBufferList_getReadLen_def bl_stream_def)

lemma buffer_read_ok:
  assumes ok: "node_ok b" and n: "unat n \<le> length (node_bytes b)"
  shows "\<exists>b'. buffer_read b n = (True, b') \<and>
    (if unat n = length (node_bytes b) then buffer_is_read_out b'
     else \<not> buffer_is_read_out b' \<and> node_ok b' \<and> node_bytes b' = drop (unat n) (node_bytes b))"
proof -
  have le: "unat (nb_roffset b) < unat (nb_woffset b)" "unat (nb_woffset b) \<le> unat (nb_len b)"
    using node_ok_unat [OF ok] by auto
  have room: "unat (nb_roffset b) + unat n \<le> unat (nb_woffset b)"
    using n length_node_bytes [OF ok] le by simp
  have r: "unat (nb_roffset b + n) = unat (nb_roffset b) + unat n"
    using room by (rule unat_plus_fits)
  have "uint (nb_roffset b) \<le> uint (nb_woffset b)" using le by (simp add: uint_le_unat)
  then have "\<not> uint n > uint (nb_woffset b) - uint (nb_roffset b)"
    using room by (simp add: uint_diff_greater)
  then have "buffer_read b n = (True, b\<lparr>nb_roffset := nb_roffset b + n\<rparr>)"
    by (simp add: buffer_read_def)
  moreover have "node_bytes (b\<lparr>nb_roffset := nb_roffset b + n\<rparr>) = drop (unat n) (node_bytes b)"
    using ok r by (auto simp: node_bytes_def node_ok_def drop_take add.commute)
  ultimately show ?thesis
    using ok r n room length_node_bytes [OF ok] le
    by (auto simp: buffer_is_read_out_def word_less_nat_alt node_ok_def)
qed

lemma bl_readLen_ok:
  assumes "bl_ok l" "JmySessionBufferList_getReadBuff l = Some c" "unat n \<le> length c"
  shows "bl_ok (snd (JmySessionBufferList_readLen l n)) \<and>
    bl_stream (snd (JmySessionBufferList_readLen l n)) = drop (unat n) (bl_stream l)"
proof (cases "bl_using l")
  case Nil
  then show ?thesis using assms by (simp add: JmySessionBufferList_readLen_def bl_stream_def)
next
  case (Cons b bs)
  then have b: "node_ok b" "\<forall>b \<in> set bs. node_ok b" and c: "c = node_bytes b"
    using assms(1,2) by (auto simp: bl_ok_def JmySessionBufferList_getReadBuff_def buffer_read_buff_ok)
  have "length (node_bytes b) < 2 ^ 16"
    using length_node_bytes [OF b(1)] unat_u16_less [of "nb_woffset b"] by simp
  with assms(3) c have n: "unat (ucast n :: u16) = unat n" by (intro unat_ucast16) simp
  from buffer_read_ok [OF b(1), of "ucast n"] assms(3) c n obtain b' where
    "buffer_read b (ucast n) = (True, b')"
    "if unat n = length (node_bytes b) then buffer_is_read_out b'
     else \<not> buffer_is_read_out b' \<and> node_ok b' \<and> node_bytes b' = drop (unat n) (node_bytes b)" by auto
  then show ?thesis using Cons b assms(3) c
    by (auto simp: JmySessionBufferList_readLen_def bl_ok_def bl_stream_def split: if_splits)
qed

definition bl_accepts :: "JmySessionBufferList \<Rightarrow> nat \<Rightarrow> bool" where
  "bl_accepts l n \<longleftrightarrow> \<not> bl_over_limit l (of_nat n)"

lemma cells_present:
  "JmyData_cells d = Some cs \<Longrightarrow> cs \<noteq> [] \<Longrightarrow> data_present d"
  by (auto simp: data_present_def JmyData_cells_def char_cells_def split: option.splits if_splits)

lemma all_cells_present:
  "those (map JmyData_cells ds) = Some css \<Longrightarrow> [] \<notin> set css \<Longrightarrow> \<forall>d \<in> set ds. data_present d"
  by (induction ds arbitrary: css) (auto split: option.splits intro: cells_present)

interpretation bl: send_buffer bl_writeData JmySessionBufferList_writeDatas JmySessionBufferList_getReadBuff
    "\<lambda>l n. snd (JmySessionBufferList_readLen l n)" bl_stream bl_ok bl_accepts
proof (unfold_locales, goal_cases)
  case (1 s d cs)
  then have "unat (jd_len d) < 2 ^ 16" using JmyData_cells_Some [of d cs] by simp
  then have u: "unat (ucast (jd_len d) :: u16) = unat (jd_len d)" by (rule unat_ucast16)
  then have "unat (ucast (ucast (jd_len d) :: u16) :: u32) = unat (jd_len d)" by (simp only: unat_ucast_up)
  then have "(ucast (ucast (jd_len d) :: u16) :: u32) = jd_len d" by (rule word_unat_eq_iff [THEN iffD2])
  note small = u this
  then obtain r l' where "bl_writeData s d = Some (r, l')" "bl_ok l'"
    "bl_stream l' = (if r then bl_stream s @ cs else bl_stream s)"
    "r \<longleftrightarrow> \<not> bl_over_limit s (jd_len d) \<and> jd_data d \<noteq> None \<and> (ucast (jd_len d) :: u16) \<noteq> 0"
    using bl_writeData_ok [of s "jd_data d" "ucast (jd_len d)" cs] 1 by (auto simp: bl_writeData_def JmyData_cells_def)
  moreover have "cs \<noteq> [] \<Longrightarrow> jd_data d \<noteq> None \<and> (ucast (jd_len d) :: u16) \<noteq> 0"
    using cells_present [OF 1(2)] small(1) by (auto simp: data_present_def unat_eq_zero)
  ultimately show ?case using JmyData_cells_Some [OF 1(2)] by (auto simp: bl_accepts_def)
next
  case (2 s ds css)
  from bl_writeDatas_ok [OF 2(1,3,4,2)] obtain r l' where "JmySessionBufferList_writeDatas s ds = Some (r, l')"
    "bl_ok l'" "bl_stream l' = (if r then bl_stream s @ concat css else bl_stream s)"
    "r \<longleftrightarrow> \<not> bl_over_limit s (of_nat (length (concat css))) \<and> (\<forall>d \<in> set ds. data_present d)" by blast
  then show ?case using all_cells_present [OF 2(3)] unfolding bl_accepts_def by blast
next
  case (3 s)
  from bl_getReadBuff_ok [OF this] show ?case by fastforce
next
  case (4 s c n)
  then show ?case by (rule bl_readLen_ok)
qed

lemma bl_writes_keep_limits:
  "JmySessionBufferList_writeDatas l ds = Some (r, l') \<Longrightarrow> bl_max_count l' = bl_max_count l \<and> bl_max_bytes l' = bl_max_bytes l"
  "JmySessionBufferList_writeData l p n = Some (r, l') \<Longrightarrow> bl_max_count l' = bl_max_count l \<and> bl_max_bytes l' = bl_max_bytes l"
  by (auto simp: JmySessionBufferList_writeDatas_def JmySessionBufferList_writeData_def Let_def bl_push_def
      split: if_splits prod.splits bind_splits)

text \<open>
  The servers set no limits. For such a list the same contract holds with \<open>unlimited\<close> as part of
  the invariant, and every write is accepted.
\<close>

definition unlimited :: "JmySessionBufferList \<Rightarrow> bool" where
  "unlimited l \<longleftrightarrow> bl_max_count l = 0 \<and> bl_max_bytes l = 0"

lemma unlimited_accepts: "unlimited l \<Longrightarrow> bl_accepts l k"
  by (simp add: unlimited_def bl_accepts_def bl_over_limit_def)

lemma bl_keeps_unlimited:
  "unlimited l \<Longrightarrow> JmySessionBufferList_writeDatas l ds = Some (r, l') \<Longrightarrow> unlimited l'"
  "unlimited l \<Longrightarrow> bl_writeData l d = Some (r, l') \<Longrightarrow> unlimited l'"
  "unlimited l \<Longrightarrow> unlimited (snd (JmySessionBufferList_readLen l n))"
  using bl_writes_keep_limits [of l]
  by (auto simp: unlimited_def bl_writeData_def JmySessionBufferList_readLen_def Let_def split: list.split prod.split)

interpretation ubl: send_buffer bl_writeData JmySessionBufferList_writeDatas JmySessionBufferList_getReadBuff
    "\<lambda>l n. snd (JmySessionBufferList_readLen l n)" bl_stream "\<lambda>l. bl_ok l \<and> unlimited l" "\<lambda>_ _. True"
proof (unfold_locales, goal_cases)
  case (1 s d cs)
  then obtain r l' where l': "bl_writeData s d = Some (r, l')" "bl_ok l'"
    "bl_stream l' = (if r then bl_stream s @ cs else bl_stream s)" "cs \<noteq> [] \<longrightarrow> (r \<longleftrightarrow> bl_accepts s (length cs))"
    using bl.write_ok [of s d cs] by auto
  then show ?case using 1 bl_keeps_unlimited(2) [OF _ l'(1)] unlimited_accepts [of s "length cs"] by auto
next
  case (2 s ds css)
  then obtain r l' where l': "JmySessionBufferList_writeDatas s ds = Some (r, l')" "bl_ok l'"
    "bl_stream l' = (if r then bl_stream s @ concat css else bl_stream s)"
    "[] \<notin> set css \<longrightarrow> (r \<longleftrightarrow> bl_accepts s (length (concat css)))"
    using bl.writes_ok [of s ds css] by auto
  then show ?case using 2(1) bl_keeps_unlimited(1) [OF _ l'(1)] unlimited_accepts [of s "length (concat css)"] by auto
next
  case (3 s)
  then show ?case using bl.chunk_ok [of s] by simp
next
  case (4 s c n)
  then show ?case using bl.consume_ok [of s c n] bl_keeps_unlimited(3) [of s n] by simp
qed

section \<open>Properties of the list\<close>



text \<open>
  C29. Handing the front node to the socket and consuming it, over and over, ends after at most as many
  rounds as there are queued bytes, leaves the list empty, and has put exactly the queued bytes, in
  order, on the wire.
\<close>

theorem buffer_list_drains:
  "bl_ok l \<Longrightarrow> \<exists>l'. bl.drain (Suc (length (bl_stream l))) l [] = Some (l', bl_stream l) \<and> bl_stream l' = []"
  using bl.drain_all [of l "Suc (length (bl_stream l))" "[]"] by auto

theorem buffer_list_drains_witness:
  "\<exists>l'. bl.drain 4 (bl_push (bl_push new_buffer_list
       \<lparr>nb_data = Some (cells [7, 8]), nb_len = 2, nb_roffset = 0, nb_woffset = 2\<rparr> 2)
       \<lparr>nb_data = Some (cells [9]), nb_len = 1, nb_roffset = 0, nb_woffset = 1\<rparr> 1) [] =
     Some (l', cells [7, 8, 9]) \<and> bl_stream l' = []"
proof -
  let ?l = "bl_push (bl_push new_buffer_list
       \<lparr>nb_data = Some (cells [7, 8]), nb_len = 2, nb_roffset = 0, nb_woffset = 2\<rparr> 2)
       \<lparr>nb_data = Some (cells [9]), nb_len = 1, nb_roffset = 0, nb_woffset = 1\<rparr> 1"
  have "bl_ok ?l" by (simp add: bl_ok_def bl_push_def new_buffer_list_def node_ok_def)
  note main = buffer_list_drains [OF this]
  have "bl_stream ?l = cells [7, 8, 9]"
    by (simp add: bl_stream_def bl_push_def new_buffer_list_def node_bytes_def)
  moreover have "Suc (length (cells [7, 8, 9])) = 4" by simp
  ultimately show ?thesis using main by (simp only:)
qed

lemma bl_readLen_keeps_limits:
  "bl_curr_count (snd (JmySessionBufferList_readLen l n)) = bl_curr_count l \<and>
   bl_max_count (snd (JmySessionBufferList_readLen l n)) = bl_max_count l"
  by (simp add: JmySessionBufferList_readLen_def Let_def split: list.split prod.split)

lemma bl_count_full:
  assumes "bl_max_count l > 0" "bl_curr_count l = bl_max_count l" "bl_max_count l \<noteq> - 1"
  shows "JmySessionBufferList_writeData l p n = Some (False, l) \<and> JmySessionBufferList_writeDatas l ds = Some (False, l)"
proof -
  have "bl_max_count l < bl_max_count l + 1"
    using assms(3) unatSuc [of "bl_max_count l"]
    by (simp add: word_less_nat_alt add.commute eq_neg_iff_add_eq_0)
  then show ?thesis
    using assms by (simp add: JmySessionBufferList_writeData_def JmySessionBufferList_writeDatas_def bl_over_limit_def Let_def)
qed

text \<open>
  The count limit of a buffer list is never released: once as many writes as the limit allows
  have succeeded, every later write is refused, whatever part of the queued data, or all of it, has
  been sent in between.
\<close>

theorem buffer_list_limit_permanent:
  assumes "bl_max_count l > 0" "bl_curr_count l = bl_max_count l" "bl_max_count l \<noteq> - 1"
  shows "let l' = foldl (\<lambda>l n. snd (JmySessionBufferList_readLen l n)) l ns
    in JmySessionBufferList_writeData l' p n = Some (False, l') \<and> JmySessionBufferList_writeDatas l' ds = Some (False, l')"
proof -
  let ?l = "foldl (\<lambda>l n. snd (JmySessionBufferList_readLen l n)) l ns"
  have "bl_curr_count ?l = bl_curr_count l \<and> bl_max_count ?l = bl_max_count l"
    by (induction ns arbitrary: l) (simp_all add: bl_readLen_keeps_limits)
  then show ?thesis using bl_count_full [of ?l] assms by (simp add: Let_def)
qed

theorem buffer_list_limit_permanent_witness:
  "let l = bl_push (snd (JmySessionBufferList_init new_buffer_list 0 1))
         \<lparr>nb_data = Some (cells [7]), nb_len = 1, nb_roffset = 0, nb_woffset = 1\<rparr> 1;
       l' = foldl (\<lambda>l n. snd (JmySessionBufferList_readLen l n)) l [1]
   in bl_using l' = [] \<and> JmySessionBufferList_writeData l' (Some (cells [8])) 1 = Some (False, l')"
  using buffer_list_limit_permanent [of "bl_push (snd (JmySessionBufferList_init new_buffer_list 0 1))
         \<lparr>nb_data = Some (cells [7]), nb_len = 1, nb_roffset = 0, nb_woffset = 1\<rparr> 1" "[1]" "Some (cells [8])" 1]
  by (simp add: Let_def bl_push_def JmySessionBufferList_init_def new_buffer_list_def
      JmySessionBufferList_readLen_def buffer_read_def buffer_is_read_out_def)

end
