(* ===== verification/Data_Handler2.thy ===== *)
theory Data_Handler2
  imports Net_Proto2 Buffer_List
begin

text \<open>
  \<open>JmyDataHandler2\<close> of \<open>libjmy/jmy_data_handler2.h\<close> and \<open>.cpp\<close>: the table of message handlers, the
  functions that write packets into a send buffer, and the dispatch of a received message. The
  writing functions are templates over the buffer class, so they take its \<open>writeData\<close> operations as
  arguments; what they write is proved once from the contract of Send\_Buffer and holds for both
  buffer classes. The part that reaches back into connections is in Tcp\_Connection.
\<close>

record JmyDataHandler2 =
  dh_msg_handler_map :: "int \<Rightarrow> fptr option"
  dh_default_msg_handler :: fptr
  dh_unpack_data :: JmyPacketUnpackData2

definition new_data_handler2 :: JmyDataHandler2 where
  "new_data_handler2 = \<lparr>dh_msg_handler_map = Map.empty, dh_default_msg_handler = nullptr,
     dh_unpack_data = new_unpack_data2\<rparr>"

definition registerMsgHandle :: "JmyDataHandler2 \<Rightarrow> JmyId2MsgHandler \<Rightarrow> (bool \<times> JmyDataHandler2) option" where
  "registerMsgHandle dh x = do {
     require (JMY_MIN_MESSAGE_ID \<le> ih_msg_id x \<and> ih_msg_id x \<le> JMY_MAX_MESSAGE_ID);
     require (ih_handler x \<noteq> nullptr);
     if dh_msg_handler_map dh (ih_msg_id x) \<noteq> None then Some (False, dh)
     else Some (True, dh\<lparr>dh_msg_handler_map := (dh_msg_handler_map dh)(ih_msg_id x \<mapsto> ih_handler x)\<rparr>)
   }"

text \<open>\<open>std::unordered_map::insert\<close> keeps the entry that is already there.\<close>

definition map_insert :: "('k \<Rightarrow> 'v option) \<Rightarrow> 'k \<Rightarrow> 'v \<Rightarrow> 'k \<Rightarrow> 'v option" where
  "map_insert m k v = (if m k = None then m(k \<mapsto> v) else m)"

fun load_handlers :: "(int \<Rightarrow> fptr option) \<Rightarrow> JmyId2MsgHandler list \<Rightarrow> int \<Rightarrow> fptr option" where
  "load_handlers m [] = m"
| "load_handlers m (x # xs) = load_handlers (map_insert m (ih_msg_id x) (ih_handler x)) xs"

definition loadMsgHandle :: "JmyDataHandler2 \<Rightarrow> JmyId2MsgHandler list \<Rightarrow> bool \<times> JmyDataHandler2" where
  "loadMsgHandle dh xs =
     (if xs = [] then (False, dh)
      else (True, dh\<lparr>dh_msg_handler_map := load_handlers (dh_msg_handler_map dh) xs\<rparr>))"

definition setDefaultMsgHandler :: "JmyDataHandler2 \<Rightarrow> fptr \<Rightarrow> JmyDataHandler2" where
  "setDefaultMsgHandler dh f = dh\<lparr>dh_default_msg_handler := f\<rparr>"

text \<open>
  A message goes to the handler registered for its id, or to the default handler. The result is -1
  for a failed handler, 0 for a message nobody took, and the payload length otherwise. \<open>call\<close> is the
  code behind the function pointers.
\<close>

definition handleMsg ::
    "(fptr \<Rightarrow> JmyMsgInfo \<Rightarrow> 'n \<Rightarrow> (int \<times> 'n) option) \<Rightarrow> JmyDataHandler2 \<Rightarrow> JmyMsgInfo \<Rightarrow> 'n \<Rightarrow> (int \<times> 'n) option" where
  "handleMsg call dh info n =
     (case dh_msg_handler_map dh (mi_msg_id info) of
        None \<Rightarrow>
          if dh_default_msg_handler dh \<noteq> nullptr then do {
            (res, n) \<leftarrow> call (dh_default_msg_handler dh) info n;
            if res = 0 then Some (0, n)
            else if res < 0 then Some (- 1, n)
            else Some (sint (mi_len info), n)
          } else Some (0, n)
      | Some f \<Rightarrow> do {
          require (f \<noteq> nullptr);
          (res, n) \<leftarrow> call f info n;
          if res < 0 then Some (- 1, n) else Some (sint (mi_len info), n)
        })"

section \<open>Writing packets\<close>

definition write_packet ::
    "('s \<Rightarrow> JmyData \<Rightarrow> (bool \<times> 's) option) \<Rightarrow> 's \<Rightarrow> int \<times> cptr \<Rightarrow> u32 \<Rightarrow> (int \<times> 's) option" where
  "write_packet writeData s = (\<lambda>(res, buf) size.
     if res < 0 then Some (- 1, s)
     else do {
       (ok, s) \<leftarrow> writeData s \<lparr>jd_data = buf, jd_len = size\<rparr>;
       if \<not> ok then Some (- 1, s) else Some (res, s)
     })"

definition writeUserData ::
    "('s \<Rightarrow> JmyData \<Rightarrow> (bool \<times> 's) option) \<Rightarrow> ('s \<Rightarrow> JmyData list \<Rightarrow> (bool \<times> 's) option) \<Rightarrow>
     's \<Rightarrow> i32 \<Rightarrow> cptr \<Rightarrow> u32 \<Rightarrow> (int \<times> 's) option" where
  "writeUserData writeData writeDatas s msg_id data len = do {
     let size = nat jmy_net_proto2_user_data_pack_len;
     (res, head_buf) \<leftarrow> jmy_net_proto2_pack_user_data_head (Some (replicate size None)) (of_nat size) msg_id (ucast len);
     if res < 0 then Some (- 1, s)
     else if len = 0 then do {
       (ok, s) \<leftarrow> writeData s \<lparr>jd_data = head_buf, jd_len = word_of_int res\<rparr>;
       if \<not> ok then Some (- 1, s) else Some (sint len, s)
     } else do {
       (ok, s) \<leftarrow> writeDatas s [\<lparr>jd_data = head_buf, jd_len = word_of_int res\<rparr>, \<lparr>jd_data = data, jd_len = len\<rparr>];
       if \<not> ok then Some (- 1, s) else Some (sint (word_of_int res + len), s)
     }
   }"

text \<open>\<open>writeUserIdAndData\<close> goes on when the header could not be packed.\<close>

definition writeUserIdAndData ::
    "('s \<Rightarrow> JmyData \<Rightarrow> (bool \<times> 's) option) \<Rightarrow> ('s \<Rightarrow> JmyData list \<Rightarrow> (bool \<times> 's) option) \<Rightarrow>
     's \<Rightarrow> i32 \<Rightarrow> i32 \<Rightarrow> cptr \<Rightarrow> u16 \<Rightarrow> (int \<times> 's) option" where
  "writeUserIdAndData writeData writeDatas s user_id msg_id data len = do {
     let size = nat jmy_net_proto2_user_id_data_pack_len;
     (res, head_buf) \<leftarrow> jmy_net_proto2_pack_user_id_data_head (Some (replicate size None)) (of_nat size) user_id msg_id len;
     if len = 0 then do {
       (ok, s) \<leftarrow> writeData s \<lparr>jd_data = head_buf, jd_len = word_of_int res\<rparr>;
       if \<not> ok then Some (- 1, s) else Some (uint len, s)
     } else do {
       (ok, s) \<leftarrow> writeDatas s [\<lparr>jd_data = head_buf, jd_len = word_of_int res\<rparr>, \<lparr>jd_data = data, jd_len = ucast len\<rparr>];
       if \<not> ok then Some (- 1, s) else Some (res + uint len, s)
     }
   }"

definition writeHeartbeat ::
    "('s \<Rightarrow> JmyData \<Rightarrow> (bool \<times> 's) option) \<Rightarrow> u64 \<Rightarrow> 's \<Rightarrow> (int \<times> 's) option" where
  "writeHeartbeat writeData now s = do {
     let size = nat jmy_net_proto2_heartbeat_pack_len;
     r \<leftarrow> jmy_net_proto2_pack_heartbeat now (Some (replicate size None)) (of_nat size);
     write_packet writeData s r (of_nat size)
   }"

definition writeDisconnect ::
    "('s \<Rightarrow> JmyData \<Rightarrow> (bool \<times> 's) option) \<Rightarrow> 's \<Rightarrow> (int \<times> 's) option" where
  "writeDisconnect writeData s = do {
     let size = nat jmy_net_proto2_disconnect_pack_len;
     r \<leftarrow> jmy_net_proto2_pack_disconnect (Some (replicate size None)) (of_nat size);
     write_packet writeData s r (of_nat size)
   }"

definition writeDisconnectAck ::
    "('s \<Rightarrow> JmyData \<Rightarrow> (bool \<times> 's) option) \<Rightarrow> 's \<Rightarrow> (int \<times> 's) option" where
  "writeDisconnectAck writeData s = do {
     let size = nat jmy_net_proto2_disconnect_ack_pack_len;
     r \<leftarrow> jmy_net_proto2_pack_disconnect_ack (Some (replicate size None)) (of_nat size);
     write_packet writeData s r (of_nat size)
   }"

text \<open>For a \<open>JmySessionBufferList\<close> the non-template overloads are chosen; they refuse a null payload.\<close>

definition writeUserData_list ::
    "JmySessionBufferList \<Rightarrow> i32 \<Rightarrow> cptr \<Rightarrow> u32 \<Rightarrow> (int \<times> JmySessionBufferList) option" where
  "writeUserData_list l msg_id data len =
     (if data = None then Some (0, l)
      else writeUserData bl_writeData JmySessionBufferList_writeDatas l msg_id data len)"

definition writeUserIdAndData_list ::
    "JmySessionBufferList \<Rightarrow> i32 \<Rightarrow> i32 \<Rightarrow> cptr \<Rightarrow> u16 \<Rightarrow> (int \<times> JmySessionBufferList) option" where
  "writeUserIdAndData_list l user_id msg_id data len =
     (if data = None then Some (0, l)
      else writeUserIdAndData bl_writeData JmySessionBufferList_writeDatas l user_id msg_id data len)"

section \<open>What the writers put into a send buffer\<close>

lemmas writer_sizes [simp] =
  jmy_net_proto2_user_data_pack_len_def jmy_net_proto2_user_id_data_pack_len_def
  jmy_net_proto2_heartbeat_pack_len_def jmy_net_proto2_disconnect_pack_len_def
  jmy_net_proto2_disconnect_ack_pack_len_def

lemma packets_nonempty [simp]:
  "heartbeat_packet now \<noteq> []" "disconnect_packet \<noteq> []" "disconnect_ack_packet \<noteq> []"
  "user_data_head m k \<noteq> []" "user_id_data_head u m k \<noteq> []"
  by (simp_all add: packet_defs be16_bytes_def)

lemma packet_cells: "length bs < 2 ^ 32 \<Longrightarrow> n = of_nat (length bs) \<Longrightarrow>
    JmyData_cells \<lparr>jd_data = Some (cells bs), jd_len = n\<rparr> = Some (cells bs)"
  using data_of_cells [of bs] by (simp add: data_of_def)

context send_buffer
begin

definition wrote :: "'s \<Rightarrow> (int \<times> 's) option \<Rightarrow> cell list \<Rightarrow> int \<Rightarrow> bool" where
  "wrote s m cs ret \<longleftrightarrow> (\<exists>r s'. m = Some (r, s') \<and> inv s' \<and>
     (if accepts s (length cs) then r = ret \<and> stream s' = stream s @ cs else r = - 1 \<and> stream s' = stream s))"

lemma write_packet_ok:
  assumes "inv s" "length bs < 2 ^ 16" "0 \<le> res" "bs \<noteq> []"
  shows "wrote s (write_packet writeData s (res, Some (cells bs)) (of_nat (length bs))) (cells bs) res"
proof -
  have "JmyData_cells \<lparr>jd_data = Some (cells bs), jd_len = of_nat (length bs)\<rparr> = Some (cells bs)"
    using assms(2) by (intro packet_cells) simp_all
  from write_ok [OF assms(1) this] assms(2,4) obtain r s' where
    "writeData s \<lparr>jd_data = Some (cells bs), jd_len = of_nat (length bs)\<rparr> = Some (r, s')" "inv s'"
    "stream s' = (if r then stream s @ cells bs else stream s)" "r \<longleftrightarrow> accepts s (length bs)" by auto
  with assms(3) show ?thesis by (simp add: write_packet_def wrote_def)
qed

lemma writeHeartbeat_ok: "inv s \<Longrightarrow> wrote s (writeHeartbeat writeData now s) (cells (heartbeat_packet now)) 7"
  using write_packet_ok [of s "heartbeat_packet now" 7] pack_heartbeat_ok [of "replicate 7 None" now]
  by (simp add: writeHeartbeat_def)

lemma writeDisconnect_ok: "inv s \<Longrightarrow> wrote s (writeDisconnect writeData s) (cells disconnect_packet) 3"
  using write_packet_ok [of s disconnect_packet 3] pack_disconnect_ok [of "replicate 3 None"]
  by (simp add: writeDisconnect_def)

lemma writeDisconnectAck_ok: "inv s \<Longrightarrow> wrote s (writeDisconnectAck writeData s) (cells disconnect_ack_packet) 3"
  using write_packet_ok [of s disconnect_ack_packet 3] pack_disconnect_ack_ok [of "replicate 3 None"]
  by (simp add: writeDisconnectAck_def)

lemma writeUserData_ok:
  assumes "inv s" "char_cells data (unat len) = Some cs" "5 + unat len < 2 ^ 16"
  shows "wrote s (writeUserData writeData writeDatas s msg_id data len)
    (cells (user_data_head msg_id (ucast len)) @ cs) (if len = 0 then 0 else 5 + int (unat len))"
proof -
  let ?hd = "\<lparr>jd_data = Some (cells (user_data_head msg_id (ucast len))), jd_len = 5\<rparr>"
  have pack: "jmy_net_proto2_pack_user_data_head (Some (replicate 5 None)) 5 msg_id (ucast len) =
      Some (5, Some (cells (user_data_head msg_id (ucast len))))"
    by (rule pack_user_data_head_ok) simp
  have hd: "JmyData_cells ?hd = Some (cells (user_data_head msg_id (ucast len)))"
    by (rule packet_cells) simp_all
  show ?thesis
  proof (cases "len = 0")
    case True
    then have "cs = []" using assms(2) by (auto dest: char_cells_Some)
    from write_ok [OF assms(1) hd] obtain r s' where "writeData s ?hd = Some (r, s')" "inv s'"
      "stream s' = (if r then stream s @ cells (user_data_head msg_id (ucast len)) else stream s)"
      "r \<longleftrightarrow> accepts s 5" by auto
    with pack True \<open>cs = []\<close> show ?thesis by (simp add: writeUserData_def wrote_def)
  next
    case False
    have "those (map JmyData_cells [?hd, \<lparr>jd_data = data, jd_len = len\<rparr>]) =
        Some [cells (user_data_head msg_id (ucast len)), cs]"
      using hd assms(2) by (simp add: JmyData_cells_def)
    note w = writes_ok [OF assms(1) _ this]
    have "cs \<noteq> []" using char_cells_Some [OF assms(2)] False by (auto simp: unat_eq_zero)
    with w assms(3) char_cells_Some [OF assms(2)]
    obtain r s' where "writeDatas s [?hd, \<lparr>jd_data = data, jd_len = len\<rparr>] = Some (r, s')" "inv s'"
      "stream s' = (if r then stream s @ cells (user_data_head msg_id (ucast len)) @ cs else stream s)"
      "r \<longleftrightarrow> accepts s (5 + length cs)"
      by auto
    moreover have "sint (5 + len) = 5 + int (unat len)"
      using sint_small [of "5 + unat len"] assms(3) by simp
    ultimately show ?thesis using False pack by (simp add: writeUserData_def wrote_def)
  qed
qed

lemma writeUserIdAndData_ok:
  assumes "inv s" "char_cells data (unat len) = Some cs" "9 + unat len < 2 ^ 16"
  shows "wrote s (writeUserIdAndData writeData writeDatas s user_id msg_id data len)
    (cells (user_id_data_head user_id msg_id len) @ cs) (if len = 0 then 0 else 9 + int (unat len))"
proof -
  let ?hd = "\<lparr>jd_data = Some (cells (user_id_data_head user_id msg_id len)), jd_len = 9\<rparr>"
  have pack: "jmy_net_proto2_pack_user_id_data_head (Some (replicate 9 None)) 9 user_id msg_id len =
      Some (9, Some (cells (user_id_data_head user_id msg_id len)))"
    by (rule pack_user_id_data_head_ok) simp
  have hd: "JmyData_cells ?hd = Some (cells (user_id_data_head user_id msg_id len))"
    by (rule packet_cells) simp_all
  show ?thesis
  proof (cases "len = 0")
    case True
    then have "cs = []" using assms(2) by (auto dest: char_cells_Some)
    from write_ok [OF assms(1) hd] obtain r s' where "writeData s ?hd = Some (r, s')" "inv s'"
      "stream s' = (if r then stream s @ cells (user_id_data_head user_id msg_id len) else stream s)"
      "r \<longleftrightarrow> accepts s 9" by auto
    with pack True \<open>cs = []\<close> show ?thesis by (simp add: writeUserIdAndData_def wrote_def)
  next
    case False
    have "those (map JmyData_cells [?hd, \<lparr>jd_data = data, jd_len = ucast len\<rparr>]) =
        Some [cells (user_id_data_head user_id msg_id len), cs]"
      using hd assms(2) by (simp add: JmyData_cells_def)
    note w = writes_ok [OF assms(1) _ this]
    have "cs \<noteq> []" using char_cells_Some [OF assms(2)] False by (auto simp: unat_eq_zero)
    with w assms(3) char_cells_Some [OF assms(2)]
    obtain r s' where "writeDatas s [?hd, \<lparr>jd_data = data, jd_len = ucast len\<rparr>] = Some (r, s')" "inv s'"
      "stream s' = (if r then stream s @ cells (user_id_data_head user_id msg_id len) @ cs else stream s)"
      "r \<longleftrightarrow> accepts s (9 + length cs)"
      by auto
    moreover have "uint len = int (unat len)" by (rule uint_nat)
    ultimately show ?thesis using False pack by (simp add: writeUserIdAndData_def wrote_def del: of_nat_unat)
  qed
qed

end

section \<open>Messages longer than the format allows\<close>

lemma unat_ucast16_mod: "unat (ucast x :: u16) = unat x mod 65536" for x :: u32
  by (simp add: unsigned_ucast_eq take_bit_eq_mod)

text \<open>
  A message of 65536 bytes or more whose length is, modulo 65536, positive and less than 65531 is
  queued truncated: the send buffer list receives a well-formed packet with the first length modulo
  65536 bytes of the payload, and the writer reports the full length as written.
\<close>

theorem long_message_truncated:
  assumes l: "bl_ok l" "bl_max_count l = 0" "bl_max_bytes l = 0" and d: "length d = unat len" and "unat len \<ge> 65536"
    and m: "m = unat len mod 65536" "0 < m" "m < 65531" and small: "unat len + 5 < 2 ^ 32"
  shows "\<exists>l'. writeUserData_list l msg_id (Some d) len = Some (sint (5 + len), l') \<and>
    bl_stream l' = bl_stream l @ cells (user_data_head msg_id (of_nat m)) @ take m d"
proof -
  let ?hd = "\<lparr>jd_data = Some (cells (user_data_head msg_id (ucast len))), jd_len = 5\<rparr>"
  let ?n = "ucast (5 + len) :: u16"
  have ml: "unat (ucast len :: u16) = m" using m(1) by (simp add: unat_ucast16_mod)
  then have lm: "(ucast len :: u16) = of_nat m" by (metis word_of_unat_eq)
  have "5 + len = of_nat (5 + unat len)" by simp
  moreover have "unat (of_nat (5 + unat len) :: u32) = 5 + unat len"
    using small by (intro unat_of_nat_fits) simp
  ultimately have "unat (5 + len) = 5 + unat len" by (simp only:)
  then have "unat ?n = (5 + unat len) mod 65536" by (simp only: unat_ucast16_mod)
  also have "\<dots> = (5 + m) mod 65536" unfolding m(1) by (simp only: mod_add_right_eq)
  finally have n: "unat ?n = 5 + m" using m(3) by simp
  let ?b = "\<lparr>nb_data = Some (replicate (unat ?n) None), nb_len = ?n, nb_roffset = 0, nb_woffset = 0\<rparr>"
  have init: "buffer_init new_buffer ?n = (True, ?b)" using n by (auto simp: buffer_init_def)
  have "node_filled ?b []" by (simp add: node_filled_def)
  then obtain b1 where b1: "buffer_write ?b (jd_data ?hd) (ucast (jd_len ?hd)) = Some (True, b1)"
    "node_filled b1 (cells (user_data_head msg_id (ucast len)))" "nb_len b1 = ?n"
    using buffer_write_ok [of ?b "[]" "jd_data ?hd" 5 "cells (user_data_head msg_id (ucast len))"] n
    by (auto simp: char_cells_def)
  have "char_cells (Some d) (unat (ucast len :: u16)) = Some (take m d)"
    using d ml m(1) by (simp add: char_cells_def)
  moreover have "(ucast len :: u16) \<noteq> 0" using ml m(2) by auto
  ultimately obtain b2 where b2: "buffer_write b1 (Some d) (ucast len) = Some (True, b2)"
    "node_filled b2 (cells (user_data_head msg_id (ucast len)) @ take m d)"
    using buffer_write_ok [OF b1(2), of "Some d" "ucast len" "take m d"] b1(3) n by auto
  have ok: "node_ok b2 \<and> node_bytes b2 = cells (user_data_head msg_id (ucast len)) @ take m d"
    using node_filled_ok [OF b2(2)] by (metis append_is_Nil_conv length_heads(2) length_map list.size(3) zero_neq_numeral)
  have "JmySessionBufferList_writeDatas l [?hd, \<lparr>jd_data = Some d, jd_len = len\<rparr>] =
      Some (True, bl_push l b2 (5 + len))"
    using l(2,3) init b1(1) b2(1) by (simp add: JmySessionBufferList_writeDatas_def bl_over_limit_def)
  moreover have "jmy_net_proto2_pack_user_data_head (Some (replicate 5 None)) 5 msg_id (ucast len) =
      Some (5, Some (cells (user_data_head msg_id (ucast len))))"
    by (rule pack_user_data_head_ok) simp
  moreover have "len \<noteq> 0" using assms(5) by auto
  ultimately show ?thesis
    using bl_push_ok [OF l(1), of b2 "5 + len"] ok lm by (simp add: writeUserData_list_def writeUserData_def)
qed

theorem long_message_truncated_witness:
  "\<exists>l'. writeUserData_list new_buffer_list 1 (Some (replicate 65537 (Some 7))) 65537 = Some (65542, l') \<and>
     bl_stream l' = cells (user_data_head 1 1) @ [Some 7]"
proof -
  have "length (replicate 65537 (Some (7 :: u8))) = unat (65537 :: u32)" by (simp only: length_replicate) simp
  from long_message_truncated [OF _ _ _ this, of new_buffer_list 1 1] show ?thesis
    by (simp add: new_buffer_list_def bl_ok_def bl_stream_def)
qed

end
