(* ===== verification/Connection_Buffer.thy ===== *)
theory Connection_Buffer
  imports Buffer_List
begin

text \<open>
  \<open>JmyConnectionBuffer\<close> and \<open>JmyConnectionBufferMgr\<close> of \<open>libjmy/jmy_connection_buffer.h\<close> and \<open>.cpp\<close>,
  in the configuration with \<open>USE_NET_PROTO2\<close>. A \<open>shared_ptr\<close> to a connection buffer is its key in a
  store; key 0 is the null pointer. The manager owns the buffers it creates by \<open>init\<close>.
\<close>

datatype JmyConnectionBufferState =
    JMY_CONN_BUFFER_STATE_IDLE
  | JMY_CONN_BUFFER_STATE_USING
  | JMY_CONN_BUFFER_STATE_SUSPEND

record JmyConnectionBuffer =
  cb_id :: int
  cb_state :: JmyConnectionBufferState
  cb_send_buff :: JmyDoubleSessionBuffer
  cb_send_buff_list :: JmySessionBufferList
  cb_recv_buff_list :: JmySessionBufferList
  cb_use_send_list :: bool
  cb_total_reconn_info :: JmyTotalReconnInfo

definition new_connection_buffer :: JmyConnectionBuffer where
  "new_connection_buffer = \<lparr>cb_id = 0, cb_state = JMY_CONN_BUFFER_STATE_IDLE, cb_send_buff = new_double_buffer,
     cb_send_buff_list = new_buffer_list, cb_recv_buff_list = new_buffer_list, cb_use_send_list = False,
     cb_total_reconn_info = \<lparr>send_count = 0, recv_count = 0\<rparr>\<rparr>"

type_synonym cbuf_state = "heap \<times> JmySessionBufferPool \<times> JmyConnectionBuffer"

text \<open>\<open>init\<close> with a pool and without one; with the send list only the limits of the list are set.\<close>

definition JmyConnectionBuffer_init_pool :: "cbuf_state \<Rightarrow> JmyBufferConfig \<Rightarrow> cbuf_state option" where
  "JmyConnectionBuffer_init_pool = (\<lambda>(h, pool, b) config. do {
     let b = b\<lparr>cb_use_send_list := use_send_buff_list config\<rparr>;
     (h, pool, b) \<leftarrow>
       (if \<not> cb_use_send_list b then do {
          (r, h, pool, d) \<leftarrow> JmyDoubleSessionBuffer_init_pool (h, pool, cb_send_buff b) SESSION_BUFFER_TYPE_SEND;
          Some (h, pool, b\<lparr>cb_send_buff := d\<rparr>)
        } else Some (h, pool, b\<lparr>cb_send_buff_list := snd (JmySessionBufferList_init (cb_send_buff_list b) 0 0)\<rparr>));
     Some (h, pool, b\<lparr>cb_total_reconn_info := \<lparr>send_count = 0, recv_count = 0\<rparr>\<rparr>)
   })"

definition JmyConnectionBuffer_init ::
    "heap \<times> JmyConnectionBuffer \<Rightarrow> JmyBufferConfig \<Rightarrow> (heap \<times> JmyConnectionBuffer) option" where
  "JmyConnectionBuffer_init = (\<lambda>(h, b) config. do {
     let b = b\<lparr>cb_use_send_list := use_send_buff_list config\<rparr>;
     if \<not> cb_use_send_list b then do {
       (r, h, d) \<leftarrow> JmyDoubleSessionBuffer_init h (cb_send_buff b) (send_buff_size config) SESSION_BUFFER_TYPE_SEND;
       Some (h, b\<lparr>cb_send_buff := d\<rparr>)
     } else Some (h, b\<lparr>cb_send_buff_list := snd (JmySessionBufferList_init (cb_send_buff_list b) 0 0)\<rparr>)
   })"

definition JmyConnectionBuffer_destroy ::
    "heap \<times> JmyConnectionBuffer \<Rightarrow> (heap \<times> JmyConnectionBuffer) option" where
  "JmyConnectionBuffer_destroy = (\<lambda>(h, b). do {
     (h, d) \<leftarrow> JmyDoubleSessionBuffer_destroy h (cb_send_buff b);
     Some (h, b\<lparr>cb_send_buff := d, cb_total_reconn_info := \<lparr>send_count = 0, recv_count = 0\<rparr>\<rparr>)
   })"

definition JmyConnectionBuffer_clear ::
    "JmySessionBufferPool \<times> JmyConnectionBuffer \<Rightarrow> JmySessionBufferPool \<times> JmyConnectionBuffer" where
  "JmyConnectionBuffer_clear = (\<lambda>(pool, b).
     let (pool, d) = JmyDoubleSessionBuffer_clear pool (cb_send_buff b)
     in (pool, b\<lparr>cb_send_buff_list := JmySessionBufferList_clear (cb_send_buff_list b),
                 cb_recv_buff_list := JmySessionBufferList_clear (cb_recv_buff_list b),
                 cb_send_buff := d, cb_total_reconn_info := \<lparr>send_count = 0, recv_count = 0\<rparr>\<rparr>))"

section \<open>The buffer manager\<close>

type_synonym buf_store = "nat \<Rightarrow> JmyConnectionBuffer"

record JmyConnectionBufferMgr =
  bm_max_size :: int
  bm_conn_buff_vec :: "nat list"
  bm_free_queue :: "nat list"

definition new_buffer_mgr :: JmyConnectionBufferMgr where
  "new_buffer_mgr = \<lparr>bm_max_size = 0, bm_conn_buff_vec = [], bm_free_queue = []\<rparr>"

text \<open>\<open>base\<close> is the first unused key of the store; buffer number \<open>i\<close> gets the id \<open>i + 1\<close>.\<close>

definition JmyConnectionBufferMgr_init ::
    "nat \<Rightarrow> buf_store \<Rightarrow> JmyConnectionBufferMgr \<Rightarrow> int \<Rightarrow> bool \<times> buf_store \<times> JmyConnectionBufferMgr" where
  "JmyConnectionBufferMgr_init base st m max_size =
     (let ps = map (\<lambda>i. base + i) [0..<nat max_size];
          st = (\<lambda>p. if p \<in> set ps then new_connection_buffer\<lparr>cb_id := int (p - base) + 1\<rparr> else st p)
      in (True, st, m\<lparr>bm_conn_buff_vec := ps, bm_free_queue := bm_free_queue m @ ps, bm_max_size := max_size\<rparr>))"

definition JmyConnectionBufferMgr_clear :: "JmyConnectionBufferMgr \<Rightarrow> JmyConnectionBufferMgr" where
  "JmyConnectionBufferMgr_clear m = m\<lparr>bm_free_queue := []\<rparr>"

definition getOneBuffer ::
    "buf_store \<times> JmyConnectionBufferMgr \<Rightarrow> nat option \<times> buf_store \<times> JmyConnectionBufferMgr" where
  "getOneBuffer = (\<lambda>(st, m).
     case bm_free_queue m of
       [] \<Rightarrow> (None, st, m)
     | p # ps \<Rightarrow> (Some p, st(p := (st p)\<lparr>cb_state := JMY_CONN_BUFFER_STATE_USING\<rparr>), m\<lparr>bm_free_queue := ps\<rparr>))"

text \<open>\<open>getBuffer\<close> indexes the vector with the id itself and refuses the last two ids.\<close>

definition getBuffer :: "JmyConnectionBufferMgr \<Rightarrow> int \<Rightarrow> nat option option" where
  "getBuffer m bid =
     (if bid \<ge> bm_max_size m - 1 then Some None
      else if 0 \<le> bid \<and> nat bid < length (bm_conn_buff_vec m) then Some (Some (bm_conn_buff_vec m ! nat bid))
      else None)"

definition freeBuffer :: "buf_store \<Rightarrow> JmyConnectionBufferMgr \<Rightarrow> int \<Rightarrow> (bool \<times> JmyConnectionBufferMgr) option" where
  "freeBuffer st m bid =
     (if bid < 1 \<or> bid > bm_max_size m then Some (False, m)
      else if \<not> nat (bid - 1) < length (bm_conn_buff_vec m) then None
      else
        let p = bm_conn_buff_vec m ! nat (bid - 1) in
        if cb_state (st p) = JMY_CONN_BUFFER_STATE_IDLE then Some (False, m)
        else Some (True, m\<lparr>bm_free_queue := p # bm_free_queue m\<rparr>))"

section \<open>Properties of the manager\<close>

text \<open>The buffers the manager created are numbered from 1 in the order of the vector.\<close>

definition bm_ok :: "buf_store \<Rightarrow> JmyConnectionBufferMgr \<Rightarrow> bool" where
  "bm_ok st m \<longleftrightarrow> bm_max_size m = int (length (bm_conn_buff_vec m)) \<and> distinct (bm_conn_buff_vec m) \<and>
     (\<forall>i < length (bm_conn_buff_vec m). cb_id (st (bm_conn_buff_vec m ! i)) = int i + 1) \<and>
     set (bm_free_queue m) \<subseteq> set (bm_conn_buff_vec m)"

lemma bm_init_ok:
  assumes "0 \<le> k" "JmyConnectionBufferMgr_init base st new_buffer_mgr k = (r, st', m)"
  shows "bm_ok st' m \<and> distinct (bm_free_queue m) \<and> length (bm_free_queue m) = nat k \<and>
    (\<forall>p \<in> set (bm_free_queue m). base \<le> p \<and> cb_state (st' p) = JMY_CONN_BUFFER_STATE_IDLE)"
  using assms
  by (auto simp: JmyConnectionBufferMgr_init_def Let_def bm_ok_def new_buffer_mgr_def distinct_map inj_on_def
      new_connection_buffer_def)

lemma getOneBuffer_ok:
  assumes "bm_ok st m" "getOneBuffer (st, m) = (Some p, st', m')"
  shows "bm_ok st' m' \<and> bm_free_queue m = p # bm_free_queue m' \<and> cb_state (st' p) = JMY_CONN_BUFFER_STATE_USING \<and>
    bm_conn_buff_vec m' = bm_conn_buff_vec m \<and> (\<forall>q. cb_id (st' q) = cb_id (st q)) \<and> (\<forall>q. q \<noteq> p \<longrightarrow> st' q = st q)"
  using assms by (auto simp: getOneBuffer_def bm_ok_def split: list.splits)

lemma freeBuffer_ok:
  assumes ok: "bm_ok st m" and p: "p \<in> set (bm_conn_buff_vec m)" and st: "cb_state (st p) \<noteq> JMY_CONN_BUFFER_STATE_IDLE"
  shows "freeBuffer st m (cb_id (st p)) = Some (True, m\<lparr>bm_free_queue := p # bm_free_queue m\<rparr>)"
proof -
  from p obtain i where i: "i < length (bm_conn_buff_vec m)" "bm_conn_buff_vec m ! i = p"
    by (auto simp: in_set_conv_nth)
  then have "cb_id (st p) = int i + 1" using ok by (auto simp: bm_ok_def)
  with i ok st show ?thesis by (auto simp: freeBuffer_def bm_ok_def Let_def)
qed

text \<open>
  A buffer given back twice is queued twice: \<open>freeBuffer\<close> only refuses buffers that were never
  handed out, so after two releases of the same buffer the next two connections are given the same
  buffer.
\<close>

theorem double_free_shares_buffer:
  assumes "bm_ok st m" "getOneBuffer (st, m) = (Some p, st1, m1)"
    and "freeBuffer st1 m1 (cb_id (st1 p)) = Some (r2, m2)" "freeBuffer st1 m2 (cb_id (st1 p)) = Some (r3, m3)"
  shows "r2 \<and> r3 \<and> (\<exists>st4 m4 st5 m5. getOneBuffer (st1, m3) = (Some p, st4, m4) \<and> getOneBuffer (st4, m4) = (Some p, st5, m5))"
proof -
  have "bm_ok st1 m1" "cb_state (st1 p) \<noteq> JMY_CONN_BUFFER_STATE_IDLE" "bm_free_queue m = p # bm_free_queue m1"
    and "bm_conn_buff_vec m1 = bm_conn_buff_vec m"
    using getOneBuffer_ok [OF assms(1,2)] by auto
  moreover from this(3,4) assms(1) have p: "p \<in> set (bm_conn_buff_vec m1)" by (auto simp: bm_ok_def)
  ultimately have m2: "r2" "m2 = m1\<lparr>bm_free_queue := p # bm_free_queue m1\<rparr>"
    using freeBuffer_ok [of st1 m1 p] assms(3) by auto
  then have "bm_ok st1 m2" using \<open>bm_ok st1 m1\<close> p by (simp add: bm_ok_def)
  with m2 p \<open>cb_state (st1 p) \<noteq> _\<close> assms(4) have "r3" "m3 = m2\<lparr>bm_free_queue := p # p # bm_free_queue m1\<rparr>"
    using freeBuffer_ok [of st1 m2 p] by auto
  then show ?thesis using m2 by (simp add: getOneBuffer_def)
qed

theorem double_free_shares_buffer_witness:
  "\<exists>st m st1 m1 m2 m3. JmyConnectionBufferMgr_init 1 (\<lambda>_. new_connection_buffer) new_buffer_mgr 2 = (True, st, m) \<and>
     getOneBuffer (st, m) = (Some 1, st1, m1) \<and> freeBuffer st1 m1 1 = Some (True, m2) \<and>
     freeBuffer st1 m2 1 = Some (True, m3) \<and>
     (\<exists>st4 m4 st5 m5. getOneBuffer (st1, m3) = (Some 1, st4, m4) \<and> getOneBuffer (st4, m4) = (Some 1, st5, m5))"
proof -
  obtain st m where init: "JmyConnectionBufferMgr_init 1 (\<lambda>_. new_connection_buffer) new_buffer_mgr 2 = (True, st, m)"
    by (simp add: JmyConnectionBufferMgr_init_def Let_def)
  have vec: "bm_conn_buff_vec m = [1, 2]" "bm_free_queue m = [1, 2]" "bm_max_size m = 2" "cb_id (st 1) = 1"
    using init by (auto simp: JmyConnectionBufferMgr_init_def Let_def new_buffer_mgr_def upt_rec)
  have ok: "bm_ok st m" using bm_init_ok [OF _ init] by simp
  define st1 where "st1 = st(1 := (st 1)\<lparr>cb_state := JMY_CONN_BUFFER_STATE_USING\<rparr>)"
  define m1 where "m1 = m\<lparr>bm_free_queue := [2]\<rparr>"
  have g: "getOneBuffer (st, m) = (Some 1, st1, m1)" using vec by (simp add: getOneBuffer_def st1_def m1_def)
  have f: "freeBuffer st1 m1 (cb_id (st1 1)) = Some (True, m1\<lparr>bm_free_queue := [1, 2]\<rparr>)"
    "freeBuffer st1 (m1\<lparr>bm_free_queue := [1, 2]\<rparr>) (cb_id (st1 1)) = Some (True, m1\<lparr>bm_free_queue := [1, 1, 2]\<rparr>)"
    "cb_id (st1 1) = 1"
    using vec by (simp_all add: freeBuffer_def st1_def m1_def Let_def)
  show ?thesis using init g f double_free_shares_buffer [OF ok g f(1,2)] by auto
qed

end
