(* ===== verification/Event_Handler.thy ===== *)
theory Event_Handler
  imports Datatypes
begin

text \<open>
  \<open>JmyEventHandlerManager\<close> of \<open>libjmy/jmy_event_handler.h\<close>: an array of event handlers indexed by the
  event id, and the dispatch of an event to its handler or to the default that returns 0. \<open>call\<close> is
  the code behind the function pointers.
\<close>

record JmyEventHandlerManager =
  eh_handlers :: "int \<Rightarrow> fptr"

definition new_event_handler_mgr :: JmyEventHandlerManager where
  "new_event_handler_mgr = \<lparr>eh_handlers = (\<lambda>_. nullptr)\<rparr>"

definition eh_set :: "JmyEventHandlerManager \<Rightarrow> int \<Rightarrow> fptr \<Rightarrow> JmyEventHandlerManager" where
  "eh_set m event_id f = m\<lparr>eh_handlers := (eh_handlers m)(event_id := f)\<rparr>"

definition setHandler :: "JmyEventHandlerManager \<Rightarrow> int \<Rightarrow> fptr \<Rightarrow> JmyEventHandlerManager option" where
  "setHandler m event_id f = do {
     require (JMY_EVENT_NONE < event_id \<and> event_id < JMY_EVENT_MAX_COUNT);
     Some (eh_set m event_id f)
   }"

fun eh_init :: "JmyEventHandlerManager \<Rightarrow> JmyId2EventHandler list \<Rightarrow> JmyEventHandlerManager option" where
  "eh_init m [] = Some m"
| "eh_init m (x # xs) = do { m' \<leftarrow> setHandler m (ie_event_id x) (ie_handler x); eh_init m' xs }"

definition setBaseHandlers :: "JmyEventHandlerManager \<Rightarrow> JmyBaseEventHandlers \<Rightarrow> JmyEventHandlerManager" where
  "setBaseHandlers m hs =
     eh_set (eh_set (eh_set (eh_set m JMY_EVENT_CONNECT (conn_handler hs))
       JMY_EVENT_DISCONNECT (disconn_handler hs)) JMY_EVENT_TICK (tick_handler hs)) JMY_EVENT_TIMER (timer_handler hs)"

definition hasTickHandler :: "JmyEventHandlerManager \<Rightarrow> bool" where
  "hasTickHandler m \<longleftrightarrow> eh_handlers m JMY_EVENT_TICK \<noteq> nullptr"

definition hasConnectHandler :: "JmyEventHandlerManager \<Rightarrow> bool" where
  "hasConnectHandler m \<longleftrightarrow> eh_handlers m JMY_EVENT_CONNECT \<noteq> nullptr"

definition hasDisconnectHandler :: "JmyEventHandlerManager \<Rightarrow> bool" where
  "hasDisconnectHandler m \<longleftrightarrow> eh_handlers m JMY_EVENT_DISCONNECT \<noteq> nullptr"

definition hasTimerHandler :: "JmyEventHandlerManager \<Rightarrow> bool" where
  "hasTimerHandler m \<longleftrightarrow> eh_handlers m JMY_EVENT_TIMER \<noteq> nullptr"

definition hasEventHandler :: "JmyEventHandlerManager \<Rightarrow> int \<Rightarrow> bool option" where
  "hasEventHandler m event_id = do {
     require (JMY_EVENT_NONE < event_id \<and> event_id < JMY_EVENT_MAX_COUNT);
     Some (eh_handlers m event_id \<noteq> nullptr)
   }"

definition setConnectHandler :: "JmyEventHandlerManager \<Rightarrow> fptr \<Rightarrow> JmyEventHandlerManager" where
  "setConnectHandler m f = eh_set m JMY_EVENT_CONNECT f"

definition setDisconnectHandler :: "JmyEventHandlerManager \<Rightarrow> fptr \<Rightarrow> JmyEventHandlerManager" where
  "setDisconnectHandler m f = eh_set m JMY_EVENT_DISCONNECT f"

definition setTickHandler :: "JmyEventHandlerManager \<Rightarrow> fptr \<Rightarrow> JmyEventHandlerManager" where
  "setTickHandler m f = eh_set m JMY_EVENT_TICK f"

definition setTimerHandler :: "JmyEventHandlerManager \<Rightarrow> fptr \<Rightarrow> JmyEventHandlerManager" where
  "setTimerHandler m f = eh_set m JMY_EVENT_TIMER f"

definition eh_dispatch ::
    "(fptr \<Rightarrow> JmyEventInfo \<Rightarrow> 'n \<Rightarrow> (int \<times> 'n) option) \<Rightarrow> JmyEventHandlerManager \<Rightarrow> int \<Rightarrow> JmyEventInfo \<Rightarrow> 'n \<Rightarrow>
     (int \<times> 'n) option" where
  "eh_dispatch call m event_id info n =
     (if eh_handlers m event_id \<noteq> nullptr then call (eh_handlers m event_id) info n else Some (0, n))"

definition onConnect ::
    "(fptr \<Rightarrow> JmyEventInfo \<Rightarrow> 'n \<Rightarrow> (int \<times> 'n) option) \<Rightarrow> JmyEventHandlerManager \<Rightarrow> JmyEventInfo \<Rightarrow> 'n \<Rightarrow> (int \<times> 'n) option" where
  "onConnect call m info n = eh_dispatch call m JMY_EVENT_CONNECT info n"

definition onDisconnect ::
    "(fptr \<Rightarrow> JmyEventInfo \<Rightarrow> 'n \<Rightarrow> (int \<times> 'n) option) \<Rightarrow> JmyEventHandlerManager \<Rightarrow> JmyEventInfo \<Rightarrow> 'n \<Rightarrow> (int \<times> 'n) option" where
  "onDisconnect call m info n = eh_dispatch call m JMY_EVENT_DISCONNECT info n"

definition onTick ::
    "(fptr \<Rightarrow> JmyEventInfo \<Rightarrow> 'n \<Rightarrow> (int \<times> 'n) option) \<Rightarrow> JmyEventHandlerManager \<Rightarrow> JmyEventInfo \<Rightarrow> 'n \<Rightarrow> (int \<times> 'n) option" where
  "onTick call m info n = eh_dispatch call m JMY_EVENT_TICK info n"

definition onTimer ::
    "(fptr \<Rightarrow> JmyEventInfo \<Rightarrow> 'n \<Rightarrow> (int \<times> 'n) option) \<Rightarrow> JmyEventHandlerManager \<Rightarrow> JmyEventInfo \<Rightarrow> 'n \<Rightarrow> (int \<times> 'n) option" where
  "onTimer call m info n = eh_dispatch call m JMY_EVENT_TIMER info n"

definition onEvent ::
    "(fptr \<Rightarrow> JmyEventInfo \<Rightarrow> 'n \<Rightarrow> (int \<times> 'n) option) \<Rightarrow> JmyEventHandlerManager \<Rightarrow> JmyEventInfo \<Rightarrow> 'n \<Rightarrow> (int \<times> 'n) option" where
  "onEvent call m info n = do {
     require (JMY_EVENT_NONE < ei_event_id info \<and> ei_event_id info < JMY_EVENT_MAX_COUNT);
     eh_dispatch call m (ei_event_id info) info n
   }"

lemma setHandler_lookup:
  "setHandler m e f = Some m' \<Longrightarrow> eh_handlers m' e' = (if e' = e then f else eh_handlers m e')"
  by (auto simp: setHandler_def eh_set_def split: if_splits)

text \<open>The base handlers fill the whole table, so later entries of \<open>init\<close> replace them.\<close>

lemma eh_init_last:
  "eh_init m (xs @ [x]) = Some m' \<Longrightarrow> eh_handlers m' (ie_event_id x) = ie_handler x"
  by (induction xs arbitrary: m)
     (auto simp: setHandler_def eh_set_def split: if_splits bind_splits)

end
