(* ===== verification/Tcp_Connection.thy ===== *)
theory Tcp_Connection
  imports Data_Handler2 Connection_Buffer Event_Handler
begin

text \<open>
  \<open>JmyTcpConnection\<close> and \<open>JmyTcpConnectionMgr\<close> of \<open>libjmy/jmy_tcp_connection.h\<close> and \<open>.cpp\<close>, with the
  part of \<open>JmyDataHandler2\<close> that processes received packets, for \<open>USE_NET_PROTO2\<close>.

  The objects of a process are a store \<open>net\<close>: the heap, the buffer pool, the connection buffers, data
  handlers, event handlers and connections by address (0 is null), the connection manager, and the
  state of the application, on which the message and event handlers registered by the application
  act. The handlers are the parameter \<open>env\<close>. An asynchronous operation that has been started on the
  socket is an entry of \<open>tc_pending\<close>; its completion handler (the lambda passed to asio) is an
  operation of its own that the socket layer invokes with the error or the bytes transferred.
  Times are in microseconds.
\<close>

datatype pending_op =
    ReadHead
  | ReadBody int u16 addr
  | SendBuff nat
  | SendList nat
  | Connecting

record JmyTcpConnection =
  tc_id :: int
  tc_sock_open :: bool
  tc_conn_type :: JmyConnType
  tc_state :: JmyConnState
  tc_sending_data :: bool
  tc_buff_send_count :: u16
  tc_active_close_start :: int
  tc_data_handler :: nat
  tc_event_handler :: nat
  tc_buffer :: nat
  tc_event_info :: JmyEventInfo
  tc_last_run_tick :: int
  tc_pending :: "pending_op list"

definition new_connection :: "JmyConnType \<Rightarrow> JmyTcpConnection" where
  "new_connection conn_type = \<lparr>tc_id = 0, tc_sock_open = False, tc_conn_type = conn_type, tc_state = JMY_CONN_STATE_NOT_USE,
     tc_sending_data = False, tc_buff_send_count = 0, tc_active_close_start = 0, tc_data_handler = 0,
     tc_event_handler = 0, tc_buffer = 0,
     tc_event_info = \<lparr>ei_event_id = 0, ei_conn_id = 0, ei_param = 0, ei_param_l = 0\<rparr>, tc_last_run_tick = 0,
     tc_pending = []\<rparr>"

record JmyTcpConnectionMgr =
  cm_used_map :: "int \<Rightarrow> nat option"
  cm_free_list :: "nat list"
  cm_size :: int

abbreviation (input) MGR_PTR :: nat where "MGR_PTR \<equiv> 1"

record 'a net =
  nt_heap :: heap
  nt_pool :: JmySessionBufferPool
  nt_bufs :: "nat \<Rightarrow> JmyConnectionBuffer"
  nt_handlers :: "nat \<Rightarrow> JmyDataHandler2"
  nt_events :: "nat \<Rightarrow> JmyEventHandlerManager"
  nt_conns :: "nat \<Rightarrow> JmyTcpConnection"
  nt_mgr :: JmyTcpConnectionMgr
  nt_app :: 'a

record 'a env =
  msg_code :: "fptr \<Rightarrow> JmyMsgInfo \<Rightarrow> 'a net \<Rightarrow> (int \<times> 'a net) option"
  event_code :: "fptr \<Rightarrow> JmyEventInfo \<Rightarrow> 'a net \<Rightarrow> (int \<times> 'a net) option"

definition conn_of :: "'a net \<Rightarrow> nat \<Rightarrow> JmyTcpConnection" where
  "conn_of n c = nt_conns n c"

definition upd_conn :: "'a net \<Rightarrow> nat \<Rightarrow> (JmyTcpConnection \<Rightarrow> JmyTcpConnection) \<Rightarrow> 'a net" where
  "upd_conn n c f = n\<lparr>nt_conns := (nt_conns n)(c := f (nt_conns n c))\<rparr>"

definition buf_of :: "'a net \<Rightarrow> nat \<Rightarrow> JmyConnectionBuffer" where
  "buf_of n c = nt_bufs n (tc_buffer (nt_conns n c))"

definition upd_buf :: "'a net \<Rightarrow> nat \<Rightarrow> (JmyConnectionBuffer \<Rightarrow> JmyConnectionBuffer) \<Rightarrow> 'a net" where
  "upd_buf n c f = n\<lparr>nt_bufs := (nt_bufs n)(tc_buffer (nt_conns n c) := f (buf_of n c))\<rparr>"

lemma conn_of_upd_conn [simp]: "conn_of (upd_conn n c f) c' = (if c' = c then f (conn_of n c) else conn_of n c')"
  by (simp add: conn_of_def upd_conn_def)

lemma conn_of_other [simp]:
  "conn_of (upd_buf n c g) c' = conn_of n c'" "conn_of (n\<lparr>nt_heap := h\<rparr>) c' = conn_of n c'"
  "conn_of (n\<lparr>nt_pool := p\<rparr>) c' = conn_of n c'" "conn_of (n\<lparr>nt_app := a\<rparr>) c' = conn_of n c'"
  "conn_of (n\<lparr>nt_mgr := m\<rparr>) c' = conn_of n c'" "conn_of (n\<lparr>nt_handlers := hs\<rparr>) c' = conn_of n c'"
  "conn_of (n\<lparr>nt_bufs := bs\<rparr>) c' = conn_of n c'"
  by (simp_all add: conn_of_def upd_buf_def)

lemma buf_of_upd_buf [simp]: "buf_of (upd_buf n c g) c = g (buf_of n c)"
  by (simp add: buf_of_def upd_buf_def)

lemma upd_buf_cong: "f (buf_of n c) = g (buf_of n c) \<Longrightarrow> upd_buf n c f = upd_buf n c g"
  by (simp add: upd_buf_def)

lemma buf_of_other [simp]:
  "buf_of (n\<lparr>nt_heap := h\<rparr>) c = buf_of n c" "buf_of (n\<lparr>nt_pool := p\<rparr>) c = buf_of n c"
  "buf_of (n\<lparr>nt_app := a\<rparr>) c = buf_of n c" "buf_of (n\<lparr>nt_mgr := m\<rparr>) c = buf_of n c"
  "buf_of (n\<lparr>nt_handlers := hs\<rparr>) c = buf_of n c"
  by (simp_all add: buf_of_def)

lemma buf_of_upd_conn [simp]:
  "tc_buffer (f (conn_of n c)) = tc_buffer (conn_of n c) \<Longrightarrow> buf_of (upd_conn n c f) c' = buf_of n c'"
  by (simp add: buf_of_def upd_conn_def conn_of_def)

lemma net_fields_upd [simp]:
  "nt_heap (upd_conn n c f) = nt_heap n" "nt_pool (upd_conn n c f) = nt_pool n" "nt_bufs (upd_conn n c f) = nt_bufs n"
  "nt_handlers (upd_conn n c f) = nt_handlers n" "nt_events (upd_conn n c f) = nt_events n"
  "nt_mgr (upd_conn n c f) = nt_mgr n" "nt_app (upd_conn n c f) = nt_app n"
  "nt_heap (upd_buf n c g) = nt_heap n" "nt_pool (upd_buf n c g) = nt_pool n" "nt_conns (upd_buf n c g) = nt_conns n"
  "nt_handlers (upd_buf n c g) = nt_handlers n" "nt_events (upd_buf n c g) = nt_events n"
  "nt_mgr (upd_buf n c g) = nt_mgr n" "nt_app (upd_buf n c g) = nt_app n"
  by (simp_all add: upd_conn_def upd_buf_def)

section \<open>The connection manager\<close>

definition new_conn_mgr :: JmyTcpConnectionMgr where
  "new_conn_mgr = \<lparr>cm_used_map = Map.empty, cm_free_list = [], cm_size = 0\<rparr>"

definition JmyTcpConnectionMgr_clear :: "JmyTcpConnectionMgr \<Rightarrow> JmyTcpConnectionMgr" where
  "JmyTcpConnectionMgr_clear m = m\<lparr>cm_free_list := [], cm_used_map := Map.empty\<rparr>"

text \<open>\<open>base\<close> is the first unused address of the connection store.\<close>

definition JmyTcpConnectionMgr_init :: "nat \<Rightarrow> 'a net \<Rightarrow> int \<Rightarrow> JmyConnType \<Rightarrow> 'a net" where
  "JmyTcpConnectionMgr_init base n conn_size conn_type =
     (let ps = map (\<lambda>i. base + i) [0..<nat conn_size]
      in n\<lparr>nt_conns := (\<lambda>p. if p \<in> set ps then new_connection conn_type else nt_conns n p),
           nt_mgr := (nt_mgr n)\<lparr>cm_free_list := cm_free_list (nt_mgr n) @ ps, cm_size := conn_size\<rparr>\<rparr>)"

definition getFree :: "'a net \<Rightarrow> int \<Rightarrow> nat option \<times> 'a net" where
  "getFree n cid =
     (if cm_used_map (nt_mgr n) cid \<noteq> None then (None, n)
      else case cm_free_list (nt_mgr n) of
        [] \<Rightarrow> (None, n)
      | c # cs \<Rightarrow>
          (Some c, (upd_conn n c (\<lambda>x. x\<lparr>tc_id := cid\<rparr>))\<lparr>nt_mgr := (nt_mgr n)
             \<lparr>cm_free_list := cs, cm_used_map := (cm_used_map (nt_mgr n))(cid \<mapsto> c)\<rparr>\<rparr>))"

definition mgr_get :: "'a net \<Rightarrow> int \<Rightarrow> nat option" where
  "mgr_get n cid = cm_used_map (nt_mgr n) cid"

definition conn_reset :: "JmyTcpConnection \<Rightarrow> JmyTcpConnection" where
  "conn_reset x = x\<lparr>tc_state := JMY_CONN_STATE_NOT_CONNECT\<rparr>"

definition mgr_free :: "'a net \<Rightarrow> nat \<Rightarrow> bool \<times> 'a net" where
  "mgr_free n c =
     (if c = 0 then (False, n)
      else
        let cid = tc_id (conn_of n c) in
        if cm_used_map (nt_mgr n) cid = None then (False, n)
        else (True, (upd_conn n c conn_reset)\<lparr>nt_mgr := (nt_mgr n)
               \<lparr>cm_used_map := (cm_used_map (nt_mgr n))(cid := None), cm_free_list := c # cm_free_list (nt_mgr n)\<rparr>\<rparr>))"

section \<open>Events and closing\<close>

definition handle_event :: "'a env \<Rightarrow> 'a net \<Rightarrow> nat \<Rightarrow> int \<Rightarrow> int \<Rightarrow> (int \<times> 'a net) option" where
  "handle_event E n c event_id param = do {
     let info = \<lparr>ei_event_id = event_id, ei_conn_id = tc_id (conn_of n c), ei_param = MGR_PTR, ei_param_l = param\<rparr>;
     let n = upd_conn n c (\<lambda>x. x\<lparr>tc_event_info := info\<rparr>);
     require (tc_event_handler (conn_of n c) \<noteq> 0);
     let m = nt_events n (tc_event_handler (conn_of n c));
     if event_id = JMY_EVENT_CONNECT then onConnect (event_code E) m info n
     else if event_id = JMY_EVENT_DISCONNECT then onDisconnect (event_code E) m info n
     else if event_id = JMY_EVENT_TICK then onTick (event_code E) m info n
     else if event_id = JMY_EVENT_TIMER then onTimer (event_code E) m info n
     else onEvent (event_code E) m info n
   }"

definition clear_buffer :: "'a net \<Rightarrow> nat \<Rightarrow> 'a net" where
  "clear_buffer n c =
     (let (pool, b) = JmyConnectionBuffer_clear (nt_pool n, buf_of n c)
      in (upd_buf n c (\<lambda>_. b))\<lparr>nt_pool := pool\<rparr>)"

definition force_close :: "'a env \<Rightarrow> 'a net \<Rightarrow> nat \<Rightarrow> 'a net option" where
  "force_close E n c =
     (if tc_state (conn_of n c) = JMY_CONN_STATE_DISCONNECTED then Some n
      else do {
        let n = upd_conn n c (\<lambda>x. x\<lparr>tc_sock_open := False\<rparr>);
        let n = (if tc_buffer (conn_of n c) \<noteq> 0 then clear_buffer n c else n);
        let n = upd_conn n c (\<lambda>x. x\<lparr>tc_state := JMY_CONN_STATE_DISCONNECTED, tc_sending_data := False\<rparr>);
        (r, n) \<leftarrow> handle_event E n c JMY_EVENT_DISCONNECT 0;
        Some n
      })"

section \<open>Sending\<close>

text \<open>A packet is written into the send buffer list or into the double buffer of the connection.\<close>

definition write_to_send_buffer ::
    "'a net \<Rightarrow> nat \<Rightarrow> (JmySessionBufferList \<Rightarrow> (int \<times> JmySessionBufferList) option) \<Rightarrow>
     (heap \<times> JmyDoubleSessionBuffer \<Rightarrow> (int \<times> heap \<times> JmyDoubleSessionBuffer) option) \<Rightarrow> (int \<times> 'a net) option" where
  "write_to_send_buffer n c write_list write_double = do {
     require (tc_buffer (conn_of n c) \<noteq> 0 \<and> tc_data_handler (conn_of n c) \<noteq> 0);
     if \<not> cb_use_send_list (buf_of n c) then do {
       (res, h, d) \<leftarrow> write_double (nt_heap n, cb_send_buff (buf_of n c));
       Some (res, (upd_buf n c (\<lambda>b. b\<lparr>cb_send_buff := d\<rparr>))\<lparr>nt_heap := h\<rparr>)
     } else do {
       (res, l) \<leftarrow> write_list (cb_send_buff_list (buf_of n c));
       Some (res, upd_buf n c (\<lambda>b. b\<lparr>cb_send_buff_list := l\<rparr>))
     }
   }"

definition send :: "'a net \<Rightarrow> nat \<Rightarrow> i32 \<Rightarrow> cptr \<Rightarrow> u32 \<Rightarrow> (int \<times> 'a net) option" where
  "send n c msg_id data len =
     (if tc_state (conn_of n c) \<noteq> JMY_CONN_STATE_CONNECTED then Some (- 1, n)
      else do {
        (res, n) \<leftarrow> write_to_send_buffer n c (\<lambda>l. writeUserData_list l msg_id data len)
          (\<lambda>d. writeUserData JmyDoubleSessionBuffer_writeData JmyDoubleSessionBuffer_writeDatas d msg_id data len);
        if res < 0 then Some (- 1, n) else Some (sint len, n)
      })"

definition send_user :: "'a net \<Rightarrow> nat \<Rightarrow> i32 \<Rightarrow> i32 \<Rightarrow> cptr \<Rightarrow> u16 \<Rightarrow> (int \<times> 'a net) option" where
  "send_user n c user_id msg_id data len =
     (if tc_state (conn_of n c) \<noteq> JMY_CONN_STATE_CONNECTED then Some (- 1, n)
      else do {
        (res, n) \<leftarrow> write_to_send_buffer n c (\<lambda>l. writeUserIdAndData_list l user_id msg_id data len)
          (\<lambda>d. writeUserIdAndData JmyDoubleSessionBuffer_writeData JmyDoubleSessionBuffer_writeDatas d user_id msg_id data len);
        if res < 0 then Some (- 1, n) else Some (uint len, n)
      })"

definition sendHeartbeat :: "'a net \<Rightarrow> nat \<Rightarrow> u64 \<Rightarrow> (int \<times> 'a net) option" where
  "sendHeartbeat n c now =
     (if tc_state (conn_of n c) \<noteq> JMY_CONN_STATE_CONNECTED then Some (- 1, n)
      else do {
        (res, n) \<leftarrow> write_to_send_buffer n c (writeHeartbeat bl_writeData now)
          (writeHeartbeat JmyDoubleSessionBuffer_writeData now);
        if res < 0 then Some (- 1, n) else Some (0, n)
      })"

definition sendDisconnect :: "'a net \<Rightarrow> nat \<Rightarrow> (int \<times> 'a net) option" where
  "sendDisconnect n c = do {
     (res, n) \<leftarrow> write_to_send_buffer n c (writeDisconnect bl_writeData) (writeDisconnect JmyDoubleSessionBuffer_writeData);
     if res < 0 then Some (- 1, n) else Some (0, n)
   }"

definition sendDisconnectAck :: "'a net \<Rightarrow> nat \<Rightarrow> (int \<times> 'a net) option" where
  "sendDisconnectAck n c = do {
     (res, n) \<leftarrow> write_to_send_buffer n c (writeDisconnectAck bl_writeData)
       (writeDisconnectAck JmyDoubleSessionBuffer_writeData);
     if res < 0 then Some (- 1, n) else Some (0, n)
   }"

text \<open>\<open>close\<close> starts the closing handshake; \<open>now\<close> is the current time.\<close>

definition conn_close :: "'a net \<Rightarrow> nat \<Rightarrow> int \<Rightarrow> 'a net option" where
  "conn_close n c now =
     (if tc_state (conn_of n c) \<noteq> JMY_CONN_STATE_CONNECTED then Some n
      else do {
        (res, n) \<leftarrow> sendDisconnect n c;
        if res < 0 then Some n
        else Some (upd_conn n c (\<lambda>x. x\<lparr>tc_active_close_start := now, tc_state := JMY_CONN_STATE_DISCONNECTING\<rparr>))
      })"

definition handleHeartbeat :: "'a net \<Rightarrow> nat \<Rightarrow> (int \<times> 'a net) option" where
  "handleHeartbeat n c = Some (0, n)"

definition handleDisconnect :: "'a net \<Rightarrow> nat \<Rightarrow> (int \<times> 'a net) option" where
  "handleDisconnect n c =
     (if tc_state (conn_of n c) = JMY_CONN_STATE_DISCONNECTING then Some (0, n) else sendDisconnectAck n c)"

definition handleDisconnectAck :: "'a env \<Rightarrow> 'a net \<Rightarrow> nat \<Rightarrow> (int \<times> 'a net) option" where
  "handleDisconnectAck E n c =
     (if tc_state (conn_of n c) \<noteq> JMY_CONN_STATE_DISCONNECTING then Some (0, n)
      else do { n \<leftarrow> force_close E n c; Some (1, n) })"

text \<open>
  The asynchronous sends offer the readable bytes to the socket; their completion consumes what was
  transferred. The list version goes on with the next node until the list is empty or a hundred
  nodes have been sent. \<open>err\<close> is whether the operation failed.
\<close>

definition add_pending :: "'a net \<Rightarrow> nat \<Rightarrow> pending_op \<Rightarrow> 'a net" where
  "add_pending n c p = upd_conn n c (\<lambda>x. x\<lparr>tc_pending := tc_pending x @ [p]\<rparr>)"

definition buffer_send :: "'a net \<Rightarrow> nat \<Rightarrow> 'a net" where
  "buffer_send n c = add_pending n c (SendBuff (unat (JmyDoubleSessionBuffer_getReadLen (cb_send_buff (buf_of n c)))))"

definition on_buffer_sent :: "'a env \<Rightarrow> 'a net \<Rightarrow> nat \<Rightarrow> bool \<Rightarrow> u32 \<Rightarrow> 'a net option" where
  "on_buffer_sent E n c err bytes_transferred =
     (if err then force_close E n c
      else if bytes_transferred > 0 then
        (let (r, d) = JmyDoubleSessionBuffer_readLen (cb_send_buff (buf_of n c)) bytes_transferred in
         if \<not> r then Some n
         else Some (upd_conn (upd_buf n c (\<lambda>b. b\<lparr>cb_send_buff := d\<rparr>)) c (\<lambda>x. x\<lparr>tc_sending_data := False\<rparr>)))
      else Some (upd_conn n c (\<lambda>x. x\<lparr>tc_sending_data := False\<rparr>)))"

definition buffer_list_send :: "'a net \<Rightarrow> nat \<Rightarrow> 'a net" where
  "buffer_list_send n c =
     add_pending n c (SendList (unat (JmySessionBufferList_getReadLen (cb_send_buff_list (buf_of n c)))))"

definition on_buffer_list_sent :: "'a env \<Rightarrow> 'a net \<Rightarrow> nat \<Rightarrow> bool \<Rightarrow> u32 \<Rightarrow> 'a net option" where
  "on_buffer_list_sent E n c err bytes_transferred =
     (if err then force_close E n c
      else
        let n = upd_buf n c (\<lambda>b. b\<lparr>cb_send_buff_list := snd (JmySessionBufferList_readLen (cb_send_buff_list b) bytes_transferred)\<rparr>);
            n = upd_conn n c (\<lambda>x. x\<lparr>tc_buff_send_count := tc_buff_send_count x + 1\<rparr>)
        in if 100 \<le> sint (tc_buff_send_count (conn_of n c)) \<or>
              JmySessionBufferList_getUsingSize (cb_send_buff_list (buf_of n c)) = 0
           then Some (upd_conn n c (\<lambda>x. x\<lparr>tc_buff_send_count := 0, tc_sending_data := False\<rparr>))
           else Some (buffer_list_send n c))"

definition start_send :: "'a net \<Rightarrow> nat \<Rightarrow> (int \<times> 'a net) option" where
  "start_send n c =
     (if tc_state (conn_of n c) \<noteq> JMY_CONN_STATE_CONNECTED then Some (- 1, n)
      else if tc_sending_data (conn_of n c) then Some (0, n)
      else do {
        require (tc_buffer (conn_of n c) \<noteq> 0);
        let read_len = (if cb_use_send_list (buf_of n c) then JmySessionBufferList_getReadLen (cb_send_buff_list (buf_of n c))
                        else JmyDoubleSessionBuffer_getReadLen (cb_send_buff (buf_of n c)));
        if read_len = 0 then Some (0, n)
        else
          let n = (if \<not> cb_use_send_list (buf_of n c) then buffer_send n c else buffer_list_send n c)
          in Some (1, upd_conn n c (\<lambda>x. x\<lparr>tc_sending_data := True\<rparr>))
      })"

section \<open>Receiving\<close>

definition start_recv :: "'a net \<Rightarrow> nat \<Rightarrow> 'a net" where
  "start_recv n c =
     (if tc_conn_type (conn_of n c) = JMY_CONN_TYPE_ACTIVE \<and> tc_state (conn_of n c) \<noteq> JMY_CONN_STATE_CONNECTED then n
      else if tc_data_handler (conn_of n c) = 0 \<or> tc_buffer (conn_of n c) = 0 then n
      else
        let n = add_pending n c ReadHead in
        if tc_conn_type (conn_of n c) = JMY_CONN_TYPE_PASSIVE \<and> tc_state (conn_of n c) \<noteq> JMY_CONN_STATE_CONNECTED
        then upd_conn n c (\<lambda>x. x\<lparr>tc_state := JMY_CONN_STATE_CONNECTED\<rparr>) else n)"

definition handle_packet_type :: "'a env \<Rightarrow> 'a net \<Rightarrow> nat \<Rightarrow> int \<Rightarrow> (int \<times> 'a net) option" where
  "handle_packet_type E n c packet_type =
     (if packet_type = JMY_PACKET2_DISCONNECT then do { (r, n) \<leftarrow> handleDisconnect n c; Some (0, n) }
      else if packet_type = JMY_PACKET2_DISCONNECT_ACK then do { (r, n) \<leftarrow> handleDisconnectAck E n c; Some (0, n) }
      else if packet_type = JMY_PACKET2_HEARTBEAT then do { (r, n) \<leftarrow> handleHeartbeat n c; Some (0, n) }
      else if packet_type = JMY_PACKET2_USER_DATA then Some (1, n)
      else if packet_type = JMY_PACKET2_USER_ID_DATA then Some (1, n)
      else Some (0, n))"

definition recv_packet :: "'a net \<Rightarrow> nat \<Rightarrow> int \<Rightarrow> u16 \<Rightarrow> 'a net" where
  "recv_packet n c type pack_len =
     (let (buf, h) = jmy_mem_malloc (nt_heap n) (unat pack_len)
      in add_pending (n\<lparr>nt_heap := h\<rparr>) c (ReadBody type pack_len buf))"

text \<open>Whatever the error code, it is logged and the connection is closed.\<close>

definition handle_recv_error :: "'a env \<Rightarrow> 'a net \<Rightarrow> nat \<Rightarrow> 'a net option" where
  "handle_recv_error E n c = force_close E n c"

definition on_read_head :: "'a env \<Rightarrow> 'a net \<Rightarrow> nat \<Rightarrow> bool \<Rightarrow> u8 list \<Rightarrow> 'a net option" where
  "on_read_head E n c err tmp =
     (if err then handle_recv_error E n c
      else if int (length tmp) \<noteq> JMY_PACKET2_LEN_HEAD + JMY_PACKET2_LEN_TYPE then force_close E n c
      else do {
        (ok, type, len) \<leftarrow> jmy_net_proto2_get_packet_len_type (cells tmp) (of_nat (length tmp)) JMY_PACKET2_NONE 0;
        if \<not> ok then force_close E n c
        else do {
          (r, n) \<leftarrow> handle_packet_type E n c type;
          if r = 0 then Some (start_recv n c)
          else Some (recv_packet n c type (word_of_int (len - JMY_PACKET2_LEN_TYPE)))
        }
      })"

definition on_read_body :: "'a env \<Rightarrow> 'a net \<Rightarrow> nat \<Rightarrow> int \<Rightarrow> u16 \<Rightarrow> addr \<Rightarrow> bool \<Rightarrow> u8 list \<Rightarrow> 'a net option" where
  "on_read_body E n c type pack_len buf err bytes = do {
     h \<leftarrow> mem_write (nt_heap n) buf 0 (cells bytes);
     let n = n\<lparr>nt_heap := h\<rparr>;
     if err then do {
       h \<leftarrow> jmy_mem_free (nt_heap n) buf;
       handle_recv_error E (n\<lparr>nt_heap := h\<rparr>) c
     } else if length bytes \<noteq> unat pack_len then force_close E n c
     else do {
       require (tc_buffer (conn_of n c) \<noteq> 0);
       cs \<leftarrow> mem_read (nt_heap n) buf 0 (unat pack_len);
       (r, l) \<leftarrow> JmySessionBufferList_writeData_param (cb_recv_buff_list (buf_of n c)) (word_of_int type) (Some cs) pack_len;
       Some (start_recv (upd_buf n c (\<lambda>b. b\<lparr>cb_recv_buff_list := l\<rparr>)) c)
     }
   }"

section \<open>Connecting\<close>

text \<open>\<open>ok\<close> is whether the blocking connect succeeded.\<close>

definition conn_connect :: "'a env \<Rightarrow> 'a net \<Rightarrow> nat \<Rightarrow> bool \<Rightarrow> (bool \<times> 'a net) option" where
  "conn_connect E n c ok =
     (if tc_conn_type (conn_of n c) \<noteq> JMY_CONN_TYPE_ACTIVE then Some (False, n)
      else if tc_state (conn_of n c) = JMY_CONN_STATE_CONNECTED then Some (False, n)
      else if \<not> ok then Some (False, n)
      else do {
        let n = upd_conn n c (\<lambda>x. x\<lparr>tc_sock_open := True, tc_state := JMY_CONN_STATE_CONNECTED\<rparr>);
        (r, n) \<leftarrow> handle_event E n c JMY_EVENT_CONNECT 0;
        Some (True, n)
      })"

definition asynConnect :: "'a net \<Rightarrow> nat \<Rightarrow> 'a net" where
  "asynConnect n c =
     (if tc_conn_type (conn_of n c) \<noteq> JMY_CONN_TYPE_ACTIVE then n
      else if tc_state (conn_of n c) = JMY_CONN_STATE_CONNECTED then n
      else upd_conn (add_pending n c Connecting) c (\<lambda>x. x\<lparr>tc_state := JMY_CONN_STATE_CONNECTING\<rparr>))"

datatype connect_result = ConnectOk | ConnectInProgress | ConnectFailed

definition on_connected :: "'a env \<Rightarrow> 'a net \<Rightarrow> nat \<Rightarrow> connect_result \<Rightarrow> 'a net option" where
  "on_connected E n c res =
     (case res of
        ConnectInProgress \<Rightarrow> Some n
      | ConnectFailed \<Rightarrow> Some (upd_conn n c (\<lambda>x. x\<lparr>tc_state := JMY_CONN_STATE_NOT_CONNECT\<rparr>))
      | ConnectOk \<Rightarrow> do {
          let n = upd_conn n c (\<lambda>x. x\<lparr>tc_sock_open := True, tc_state := JMY_CONN_STATE_CONNECTED\<rparr>);
          let n = start_recv n c;
          (r, n) \<leftarrow> handle_event E n c JMY_EVENT_CONNECT 0;
          Some n
        })"

section \<open>Processing received packets\<close>

definition set_unpack_data :: "'a net \<Rightarrow> nat \<Rightarrow> JmyPacketUnpackData2 \<Rightarrow> 'a net" where
  "set_unpack_data n dh ud = n\<lparr>nt_handlers := (nt_handlers n)(dh := (nt_handlers n dh)\<lparr>dh_unpack_data := ud\<rparr>)\<rparr>"

definition on_conn_id ::
    "'a net \<Rightarrow> int \<Rightarrow> ('a net \<Rightarrow> nat \<Rightarrow> (int \<times> 'a net) option) \<Rightarrow> (int \<times> 'a net) option" where
  "on_conn_id n conn_id f = (case mgr_get n conn_id of None \<Rightarrow> Some (- 1, n) | Some c \<Rightarrow> f n c)"

definition handleOne :: "'a env \<Rightarrow> 'a net \<Rightarrow> nat \<Rightarrow> buffer_node \<Rightarrow> int \<Rightarrow> (int \<times> 'a net) option" where
  "handleOne E n dh buff conn_id = do {
     let type = uint (nb_woffset buff);
     let user = (type = JMY_PACKET2_USER_DATA \<or> type = JMY_PACKET2_USER_ID_DATA);
     (r, ud) \<leftarrow> jmy_net_proto2_unpack_data type (nb_data buff) (nb_len buff) (dh_unpack_data (nt_handlers n dh)) conn_id MGR_PTR;
     let n = set_unpack_data n dh ud;
     if r < 0 then Some (- 1, n)
     else if r = 0 \<and> \<not> user then Some (0, n)
     else do {
       (res, n) \<leftarrow>
         (if user then handleMsg (msg_code E) (nt_handlers n dh) (ud_msg_info ud) n
          else if type = JMY_PACKET2_HEARTBEAT then on_conn_id n conn_id handleHeartbeat
          else if type = JMY_PACKET2_DISCONNECT then on_conn_id n conn_id handleDisconnect
          else if type = JMY_PACKET2_DISCONNECT_ACK then on_conn_id n conn_id (handleDisconnectAck E)
          else Some (- 1, n));
       if res < 0 then Some (- 1, n) else Some (r, n)
     }
   }"

text \<open>
  The loop of \<open>processData\<close> walks the list of received packets by an iterator, here the index \<open>i\<close>. A
  handler that makes the list drop the node the iterator stands on (by closing the connection)
  leaves the iterator dangling, and the loop has no result. A packet that makes a handler fail
  ends the loop with -1, the list left as it is.
\<close>

partial_function (option) processData_loop ::
    "'a env \<Rightarrow> 'a net \<Rightarrow> nat \<Rightarrow> nat \<Rightarrow> int \<Rightarrow> nat \<Rightarrow> int \<Rightarrow> (int \<times> 'a net) option" where
  "processData_loop E n dh buf conn_id i cnt =
     (let l = bl_using (cb_recv_buff_list (nt_bufs n buf)) in
      if length l \<le> i then
        Some (cnt, n\<lparr>nt_bufs := (nt_bufs n)(buf := (nt_bufs n buf)\<lparr>cb_recv_buff_list :=
          JmySessionBufferList_clear (cb_recv_buff_list (nt_bufs n buf))\<rparr>)\<rparr>)
      else do {
        (res, n) \<leftarrow> handleOne E n dh (l ! i) conn_id;
        if res < 0 then Some (- 1, n)
        else do {
          require (i < length (bl_using (cb_recv_buff_list (nt_bufs n buf))));
          let type = ud_type (dh_unpack_data (nt_handlers n dh));
          processData_loop E n dh buf conn_id (Suc i)
            (if type = JMY_PACKET2_USER_DATA \<or> type = JMY_PACKET2_USER_ID_DATA then cnt + 1 else cnt)
        }
      })"

definition processData :: "'a env \<Rightarrow> 'a net \<Rightarrow> nat \<Rightarrow> nat \<Rightarrow> int \<Rightarrow> (int \<times> 'a net) option" where
  "processData E n dh buf conn_id = processData_loop E n dh buf conn_id 0 0"

definition handle_recv :: "'a env \<Rightarrow> 'a net \<Rightarrow> nat \<Rightarrow> (int \<times> 'a net) option" where
  "handle_recv E n c = do {
     require (tc_data_handler (conn_of n c) \<noteq> 0 \<and> tc_buffer (conn_of n c) \<noteq> 0);
     (cnt, n) \<leftarrow> processData E n (tc_data_handler (conn_of n c)) (tc_buffer (conn_of n c)) (tc_id (conn_of n c));
     if cnt < 0 then Some (- 1, n) else Some (cnt, n)
   }"

section \<open>One turn of a connection\<close>

abbreviation (input) MICROS :: int where "MICROS \<equiv> 1000000"

definition conn_tick :: "'a env \<Rightarrow> 'a net \<Rightarrow> nat \<Rightarrow> int \<Rightarrow> 'a net option" where
  "conn_tick E n c now = do {
     require (tc_event_handler (conn_of n c) \<noteq> 0);
     if hasTickHandler (nt_events n (tc_event_handler (conn_of n c))) then do {
       (r, n) \<leftarrow> handle_event E n c JMY_EVENT_TICK (now - tc_last_run_tick (conn_of n c));
       Some (upd_conn n c (\<lambda>x. x\<lparr>tc_last_run_tick := now\<rparr>))
     } else Some n
   }"

definition conn_run :: "'a env \<Rightarrow> 'a net \<Rightarrow> nat \<Rightarrow> int \<Rightarrow> (int \<times> 'a net) option" where
  "conn_run E n c now = do {
     n \<leftarrow> conn_tick E n c now;
     if tc_state (conn_of n c) = JMY_CONN_STATE_DISCONNECTING \<and>
        JMY_ACTIVE_CLOSE_CONNECTION_TIMEOUT \<le> (now - tc_active_close_start (conn_of n c)) div MICROS
     then do { n \<leftarrow> force_close E n c; Some (0, n) }
     else if tc_state (conn_of n c) \<noteq> JMY_CONN_STATE_CONNECTED then Some (0, n)
     else do {
       (res, n) \<leftarrow> handle_recv E n c;
       if res < 0 then do { n \<leftarrow> force_close E n c; Some (- 1, n) }
       else start_send n c
     }
   }"

section \<open>A connected pair of objects\<close>

text \<open>
  A process with a connection that is connected, waits for a packet header and has a send buffer
  list, as \<open>accept_new\<close> leaves it; the concrete inputs of the witnesses are built from it.
\<close>

definition connected_net :: "JmyConnType \<Rightarrow> fptr \<Rightarrow> 'a \<Rightarrow> 'a net" where
  "connected_net ty handler app =
     \<lparr>nt_heap = empty_heap, nt_pool = new_session_pool,
      nt_bufs = (\<lambda>_. new_connection_buffer\<lparr>cb_use_send_list := True\<rparr>),
      nt_handlers = (\<lambda>_. new_data_handler2\<lparr>dh_default_msg_handler := handler\<rparr>),
      nt_events = (\<lambda>_. new_event_handler_mgr\<lparr>eh_handlers := (\<lambda>_. nullptr)(JMY_EVENT_DISCONNECT := handler)\<rparr>),
      nt_conns = (\<lambda>_. (new_connection ty)\<lparr>tc_id := 3, tc_sock_open := True, tc_state := JMY_CONN_STATE_CONNECTED,
        tc_data_handler := 1, tc_event_handler := 1, tc_buffer := 1, tc_pending := [ReadHead]\<rparr>),
      nt_mgr = new_conn_mgr\<lparr>cm_used_map := [3 \<mapsto> 1]\<rparr>, nt_app = app\<rparr>"

lemmas connected_net_defs = connected_net_def conn_of_def buf_of_def new_connection_def new_connection_buffer_def
  new_data_handler2_def new_unpack_data2_def new_event_handler_mgr_def new_conn_mgr_def new_buffer_list_def

end
