(* ===== verification/Message_Delivery.thy ===== *)
theory Message_Delivery
  imports Tcp_Connection
begin

text \<open>
  Delivery of messages from one connection to another: what \<open>send\<close> queues, what the completion
  handlers of the reading side make of the bytes, and which handler calls \<open>processData\<close> makes. The
  socket between the two is a byte stream.
\<close>

section \<open>Messages and their packets\<close>

datatype message = Msg i32 "u8 list" | UserMsg i32 i32 "u8 list"

fun payload :: "message \<Rightarrow> u8 list" where
  "payload (Msg m d) = d"
| "payload (UserMsg u m d) = d"

fun body :: "message \<Rightarrow> u8 list" where
  "body (Msg m d) = be16_bytes (unat m) @ d"
| "body (UserMsg u m d) = be16_bytes (unat u div 65536) @ be16_bytes (unat u) @ be16_bytes (unat m) @ d"

fun packet_type :: "message \<Rightarrow> nat" where
  "packet_type (Msg m d) = 5"
| "packet_type (UserMsg u m d) = 10"

definition packet :: "message \<Rightarrow> u8 list" where
  "packet x = be16_bytes (length (body x) + 1) @ [of_nat (packet_type x)] @ body x"

fun info :: "int \<Rightarrow> message \<Rightarrow> JmyMsgInfo" where
  "info cid (Msg m d) = msg_info_of 0 m d cid MGR_PTR"
| "info cid (UserMsg u m d) = msg_info_of u m d cid MGR_PTR"

text \<open>The longest payloads the send buffer list takes: the packet has to be shorter than 65536 bytes.\<close>

definition msg_fits :: "message \<Rightarrow> bool" where
  "msg_fits x \<longleftrightarrow> length (packet x) < 65536"

fun send_msg :: "'a net \<Rightarrow> nat \<Rightarrow> message \<Rightarrow> (int \<times> 'a net) option" where
  "send_msg n c (Msg m d) = send n c m (Some (cells d)) (of_nat (length d))"
| "send_msg n c (UserMsg u m d) = send_user n c u m (Some (cells d)) (of_nat (length d))"

fun send_all :: "'a net \<Rightarrow> nat \<Rightarrow> message list \<Rightarrow> (int list \<times> 'a net) option" where
  "send_all n c [] = Some ([], n)"
| "send_all n c (x # xs) = do {
     (r, n) \<leftarrow> send_msg n c x;
     (rs, n) \<leftarrow> send_all n c xs;
     Some (r # rs, n)
   }"

section \<open>The sending side\<close>

definition sender_ready :: "'a net \<Rightarrow> nat \<Rightarrow> bool" where
  "sender_ready n c \<longleftrightarrow> tc_state (conn_of n c) = JMY_CONN_STATE_CONNECTED \<and> tc_buffer (conn_of n c) \<noteq> 0 \<and>
     tc_data_handler (conn_of n c) \<noteq> 0 \<and> cb_use_send_list (buf_of n c) \<and> bl_ok (cb_send_buff_list (buf_of n c)) \<and>
     bl_max_count (cb_send_buff_list (buf_of n c)) = 0 \<and> bl_max_bytes (cb_send_buff_list (buf_of n c)) = 0"

definition queued :: "'a net \<Rightarrow> nat \<Rightarrow> cell list" where
  "queued n c = bl_stream (cb_send_buff_list (buf_of n c))"

lemma packet_heads:
  assumes "length d < 65536"
  shows "packet (Msg m d) = user_data_head m (of_nat (length d)) @ d"
    and "packet (UserMsg u m d) = user_id_data_head u m (of_nat (length d)) @ d"
proof -
  have u: "unat (of_nat (length d) :: u16) = length d" using assms by (intro unat_of_nat_fits) simp
  have b: "length (body (Msg m d)) + 1 = length d + 3" "length (body (UserMsg u m d)) + 1 = length d + 7" by simp_all
  show "packet (Msg m d) = user_data_head m (of_nat (length d)) @ d"
    unfolding packet_def user_data_head_def u b by simp
  show "packet (UserMsg u m d) = user_id_data_head u m (of_nat (length d)) @ d"
    unfolding packet_def user_id_data_head_def u b by simp
qed

lemma msg_fits_simps [simp]:
  "msg_fits (Msg m d) \<longleftrightarrow> length d < 65531" "msg_fits (UserMsg u m d) \<longleftrightarrow> length d < 65527"
  by (auto simp: msg_fits_def packet_def)

lemma char_cells_all: "char_cells (Some (cells d)) (length d) = Some (cells d)"
  by (simp add: char_cells_def)

lemma cast_len: "k < 65536 \<Longrightarrow> (ucast (of_nat k :: u32) :: u16) = of_nat k"
  by (simp add: unsigned_of_nat take_bit_nat_eq_self)

lemma writeUserData_list_ok:
  assumes "bl_ok l \<and> unlimited l" "length d < 65531"
  shows "\<exists>r l'. writeUserData_list l m (Some (cells d)) (of_nat (length d)) = Some (r, l') \<and> 0 \<le> r \<and>
    (bl_ok l' \<and> unlimited l') \<and> bl_stream l' = bl_stream l @ cells (packet (Msg m d))"
proof -
  have len: "unat (of_nat (length d) :: u32) = length d" using assms(2) by (intro unat_of_nat_fits) simp
  have "char_cells (Some (cells d)) (unat (of_nat (length d) :: u32)) = Some (cells d)"
    by (simp only: len char_cells_all)
  from ubl.writeUserData_ok [OF assms(1) this, of m] len assms(2) show ?thesis
    by (auto simp: ubl.wrote_def writeUserData_list_def packet_heads cast_len)
qed

lemma writeUserIdAndData_list_ok:
  assumes "bl_ok l \<and> unlimited l" "length d < 65527"
  shows "\<exists>r l'. writeUserIdAndData_list l u m (Some (cells d)) (of_nat (length d)) = Some (r, l') \<and> 0 \<le> r \<and>
    (bl_ok l' \<and> unlimited l') \<and> bl_stream l' = bl_stream l @ cells (packet (UserMsg u m d))"
proof -
  have len: "unat (of_nat (length d) :: u16) = length d" using assms(2) by (intro unat_of_nat_fits) simp
  have "char_cells (Some (cells d)) (unat (of_nat (length d) :: u16)) = Some (cells d)"
    by (simp only: len char_cells_all)
  from ubl.writeUserIdAndData_ok [OF assms(1) this, of u m] len assms(2) show ?thesis
    by (auto simp: ubl.wrote_def writeUserIdAndData_list_def packet_heads)
qed

lemma send_msg_ok:
  assumes "sender_ready n c" "msg_fits x"
  shows "\<exists>n'. send_msg n c x = Some (int (length (payload x)), n') \<and> sender_ready n' c \<and>
    queued n' c = queued n c @ cells (packet x)"
proof -
  let ?l = "cb_send_buff_list (buf_of n c)"
  have l: "bl_ok ?l \<and> unlimited ?l" using assms(1) by (simp add: sender_ready_def unlimited_def)
  show ?thesis
  proof (cases x)
    case (Msg m d)
    then have "length d < 65531" using assms(2) by simp
    from writeUserData_list_ok [OF l this, of m] sint_small [of "length d"] this assms(1) Msg show ?thesis
      by (auto simp: send_def write_to_send_buffer_def sender_ready_def queued_def unlimited_def)
  next
    case (UserMsg u m d)
    then have "length d < 65527" using assms(2) by simp
    from writeUserIdAndData_list_ok [OF l this, of u m] uint_of_nat_fits [of "length d", where 'a = 16] this assms(1) UserMsg
    show ?thesis
      by (auto simp: send_user_def write_to_send_buffer_def sender_ready_def queued_def unlimited_def)
  qed
qed

lemma send_all_ok:
  "sender_ready n c \<Longrightarrow> list_all msg_fits xs \<Longrightarrow>
   \<exists>n'. send_all n c xs = Some (map (int \<circ> length \<circ> payload) xs, n') \<and> sender_ready n' c \<and>
     queued n' c = queued n c @ cells (concat (map packet xs))"
proof (induction xs arbitrary: n)
  case (Cons x xs)
  then obtain n1 where n1: "send_msg n c x = Some (int (length (payload x)), n1)" "sender_ready n1 c"
    "queued n1 c = queued n c @ cells (packet x)"
    using send_msg_ok [of n c x] by auto
  from Cons.IH [OF n1(2)] Cons.prems(2) n1 show ?case by auto
qed simp

section \<open>The receiving side\<close>

text \<open>
  The socket completes the pending read as soon as the bytes it asks for have arrived, which is what
  \<open>async_read\<close> with \<open>transfer_all\<close> does; \<open>pump\<close> runs at most \<open>k\<close> completions on the bytes that have
  arrived and returns the bytes nobody has asked for yet.
\<close>

fun is_read :: "pending_op \<Rightarrow> bool" where
  "is_read ReadHead = True"
| "is_read (ReadBody _ _ _) = True"
| "is_read _ = False"

definition reads :: "'a net \<Rightarrow> nat \<Rightarrow> pending_op list" where
  "reads n c = filter is_read (tc_pending (conn_of n c))"

definition complete :: "'a net \<Rightarrow> nat \<Rightarrow> pending_op \<Rightarrow> 'a net" where
  "complete n c p = upd_conn n c (\<lambda>x. x\<lparr>tc_pending := remove1 p (tc_pending x)\<rparr>)"

fun pump :: "nat \<Rightarrow> 'a env \<Rightarrow> 'a net \<Rightarrow> nat \<Rightarrow> u8 list \<Rightarrow> ('a net \<times> u8 list) option" where
  "pump 0 E n c bs = Some (n, bs)"
| "pump (Suc k) E n c bs =
     (case reads n c of
        ReadHead # _ \<Rightarrow>
          if length bs < 3 then Some (n, bs)
          else do {
            n \<leftarrow> on_read_head E (complete n c ReadHead) c False (take 3 bs);
            pump k E n c (drop 3 bs)
          }
      | ReadBody ty len buf # _ \<Rightarrow>
          if length bs < unat len then Some (n, bs)
          else do {
            n \<leftarrow> on_read_body E (complete n c (ReadBody ty len buf)) c ty len buf False (take (unat len) bs);
            pump k E n c (drop (unat len) bs)
          }
      | _ \<Rightarrow> Some (n, bs))"

definition received :: "'a net \<Rightarrow> nat \<Rightarrow> buffer_node list" where
  "received n c = bl_using (cb_recv_buff_list (buf_of n c))"

definition receiver_ready :: "'a net \<Rightarrow> nat \<Rightarrow> bool" where
  "receiver_ready n c \<longleftrightarrow> tc_state (conn_of n c) = JMY_CONN_STATE_CONNECTED \<and> tc_buffer (conn_of n c) \<noteq> 0 \<and>
     tc_data_handler (conn_of n c) \<noteq> 0 \<and> reads n c = [ReadHead]"

text \<open>What receiving leaves alone.\<close>

definition same_app :: "nat \<Rightarrow> 'a net \<Rightarrow> 'a net \<Rightarrow> bool" where
  "same_app c n n' \<longleftrightarrow> nt_handlers n' = nt_handlers n \<and> nt_events n' = nt_events n \<and> nt_app n' = nt_app n \<and>
     nt_mgr n' = nt_mgr n \<and> tc_id (conn_of n' c) = tc_id (conn_of n c) \<and>
     tc_data_handler (conn_of n' c) = tc_data_handler (conn_of n c) \<and>
     tc_event_handler (conn_of n' c) = tc_event_handler (conn_of n c) \<and>
     tc_buffer (conn_of n' c) = tc_buffer (conn_of n c)"

lemma same_app_refl [simp]: "same_app c n n"
  by (simp add: same_app_def)

lemma same_app_trans: "same_app c n1 n2 \<Longrightarrow> same_app c n2 n3 \<Longrightarrow> same_app c n1 n3"
  by (simp add: same_app_def)

definition node_of :: "message \<Rightarrow> buffer_node" where
  "node_of x = \<lparr>nb_data = Some (cells (body x)), nb_len = of_nat (length (body x)), nb_roffset = 0,
     nb_woffset = of_nat (packet_type x)\<rparr>"

lemma packet_type_cases: "packet_type x = 5 \<or> packet_type x = 10"
  by (cases x) simp_all

lemma body_len: "msg_fits x \<Longrightarrow> 2 \<le> length (body x) \<and> length (body x) + 1 < 65536"
  by (cases x) auto

lemma reads_complete: "reads n c = p # ps \<Longrightarrow> reads (complete n c p) c = ps"
  by (simp add: reads_def complete_def filter_remove1)

lemma complete_fields [simp]:
  "tc_state (conn_of (complete n c p) c) = tc_state (conn_of n c)" "tc_buffer (conn_of (complete n c p) c) = tc_buffer (conn_of n c)"
  "tc_data_handler (conn_of (complete n c p) c) = tc_data_handler (conn_of n c)"
  "tc_conn_type (conn_of (complete n c p) c) = tc_conn_type (conn_of n c)" "buf_of (complete n c p) c' = buf_of n c'"
  "nt_heap (complete n c p) = nt_heap n"
  by (simp_all add: complete_def)

lemma same_app_complete: "same_app c n (complete n c p)"
  by (simp add: same_app_def complete_def)

lemma read_head_ok:
  assumes "msg_fits x" "tc_state (conn_of n c) = JMY_CONN_STATE_CONNECTED"
  shows "on_read_head E n c False (take 3 (packet x @ rest)) =
     Some (recv_packet n c (int (packet_type x)) (of_nat (length (body x))))"
proof -
  have t: "sint (of_nat (packet_type x) :: u8) = int (packet_type x)"
    using packet_type_cases [of x] by auto
  have hd: "take 3 (packet x @ rest) = be16_bytes (length (body x) + 1) @ [of_nat (packet_type x)]"
    by (simp add: packet_def)
  have "length (body x) + 1 < 65536" using body_len [OF assms(1)] by simp
  then have l: "int ((length (body x) + 1) mod 65536) - 1 = int (length (body x))" by simp
  have "handle_packet_type E n c (int (packet_type x)) = Some (1, n)"
    using packet_type_cases [of x] by (auto simp: handle_packet_type_def)
  then show ?thesis
    unfolding hd on_read_head_def using get_packet_len_type_ok t l by simp
qed

lemma recv_packet_reads:
  "\<exists>buf h. recv_packet n c ty len = add_pending (n\<lparr>nt_heap := h\<rparr>) c (ReadBody ty len buf) \<and>
     blocks h buf = Some (replicate (unat len) None)"
  by (rule exI [of _ "fresh (nt_heap n)"], rule exI [of _ "snd (jmy_mem_malloc (nt_heap n) (unat len))"])
     (simp add: recv_packet_def jmy_mem_malloc_def)

lemma start_recv_connected:
  "tc_state (conn_of n c) = JMY_CONN_STATE_CONNECTED \<Longrightarrow> tc_buffer (conn_of n c) \<noteq> 0 \<Longrightarrow>
   tc_data_handler (conn_of n c) \<noteq> 0 \<Longrightarrow> start_recv n c = add_pending n c ReadHead"
  by (simp add: start_recv_def Let_def add_pending_def)

lemma of_nat_body: "msg_fits x \<Longrightarrow> unat (of_nat (length (body x)) :: u16) = length (body x)"
  using body_len [of x] by (intro unat_of_nat_fits) simp

lemma read_body_ok:
  assumes fits: "msg_fits x" and ready: "tc_state (conn_of n c) = JMY_CONN_STATE_CONNECTED" "tc_buffer (conn_of n c) \<noteq> 0"
      "tc_data_handler (conn_of n c) \<noteq> 0"
    and blk: "blocks (nt_heap n) buf = Some (replicate (length (body x)) None)"
  shows "\<exists>h. on_read_body E n c (int (packet_type x)) (of_nat (length (body x))) buf False (body x) =
     Some (add_pending (upd_buf (n\<lparr>nt_heap := h\<rparr>) c
       (\<lambda>b. b\<lparr>cb_recv_buff_list := (cb_recv_buff_list b)\<lparr>bl_using := received n c @ [node_of x]\<rparr>\<rparr>)) c ReadHead)"
proof -
  have u: "unat (of_nat (length (body x)) :: u16) = length (body x)" using fits by (rule of_nat_body)
  have ne: "body x \<noteq> []" "(of_nat (length (body x)) :: u16) \<noteq> 0"
    using body_len [OF fits] u by auto
  let ?h = "(nt_heap n)\<lparr>blocks := (blocks (nt_heap n))(buf \<mapsto> cells (body x))\<rparr>"
  have w: "mem_write (nt_heap n) buf 0 (cells (body x)) = Some ?h"
    using blk ne by (simp add: mem_write_def blit_def)
  have r: "mem_read ?h buf 0 (length (body x)) = Some (cells (body x))"
    by (simp add: mem_read_def)
  have b: "JmySessionBufferList_writeData_param l (word_of_int (int (packet_type x))) (Some (cells (body x))) (of_nat (length (body x)))
      = Some (True, l\<lparr>bl_using := bl_using l @ [node_of x]\<rparr>)" for l
    using ne u by (simp add: JmySessionBufferList_writeData_param_def buffer_init_data_def char_cells_def node_of_def)
  show ?thesis
    using w r b u ready
    by (intro exI [of _ ?h]) (simp add: on_read_body_def start_recv_connected received_def upd_buf_def)
qed

lemma pump_packet:
  assumes "receiver_ready n c" "msg_fits x"
  shows "\<exists>n'. pump (Suc (Suc k)) E n c (packet x @ rest) = pump k E n' c rest \<and> receiver_ready n' c \<and>
     received n' c = received n c @ [node_of x] \<and> same_app c n n'"
proof -
  let ?n0 = "complete n c ReadHead" and ?ty = "int (packet_type x)" and ?len = "of_nat (length (body x)) :: u16"
  from assms(1) have rd: "reads n c = [ReadHead]" "tc_state (conn_of n c) = JMY_CONN_STATE_CONNECTED"
    "tc_buffer (conn_of n c) \<noteq> 0" "tc_data_handler (conn_of n c) \<noteq> 0" by (simp_all add: receiver_ready_def)
  obtain buf h where n1: "recv_packet ?n0 c ?ty ?len = add_pending (?n0\<lparr>nt_heap := h\<rparr>) c (ReadBody ?ty ?len buf)"
    "blocks h buf = Some (replicate (length (body x)) None)"
    using recv_packet_reads [of ?n0 c ?ty ?len] of_nat_body [OF assms(2)] by auto
  let ?n1 = "add_pending (?n0\<lparr>nt_heap := h\<rparr>) c (ReadBody ?ty ?len buf)"
  let ?n2 = "complete ?n1 c (ReadBody ?ty ?len buf)"
  have r1: "reads ?n1 c = [ReadBody ?ty ?len buf]"
    using reads_complete [OF rd(1)] by (simp add: reads_def add_pending_def)
  have len: "3 \<le> length (packet x)" "drop 3 (packet x @ rest) = body x @ rest" by (simp_all add: packet_def)
  have "on_read_head E ?n0 c False (take 3 (packet x @ rest)) = Some ?n1"
    using read_head_ok [OF assms(2), of ?n0 c E rest] rd(2) n1(1) by (simp del: take_append)
  then have p1: "pump (Suc (Suc k)) E n c (packet x @ rest) = pump (Suc k) E ?n1 c (body x @ rest)"
    using rd(1) len by simp
  obtain h' where h': "on_read_body E ?n2 c ?ty ?len buf False (body x) =
      Some (add_pending (upd_buf (?n2\<lparr>nt_heap := h'\<rparr>) c
       (\<lambda>b. b\<lparr>cb_recv_buff_list := (cb_recv_buff_list b)\<lparr>bl_using := received ?n2 c @ [node_of x]\<rparr>\<rparr>)) c ReadHead)"
    using read_body_ok [OF assms(2), of ?n2 c buf E] rd n1(2) by (auto simp: add_pending_def)
  let ?n3 = "add_pending (upd_buf (?n2\<lparr>nt_heap := h'\<rparr>) c
       (\<lambda>b. b\<lparr>cb_recv_buff_list := (cb_recv_buff_list b)\<lparr>bl_using := received ?n2 c @ [node_of x]\<rparr>\<rparr>)) c ReadHead"
  have p2: "pump (Suc k) E ?n1 c (body x @ rest) = pump k E ?n3 c rest"
    using r1 h' of_nat_body [OF assms(2)] by simp
  have "receiver_ready ?n3 c"
    using rd reads_complete [OF r1] by (simp add: receiver_ready_def reads_def add_pending_def)
  moreover have "received ?n3 c = received n c @ [node_of x]"
    by (simp add: received_def add_pending_def)
  moreover have "same_app c n ?n3"
    using same_app_complete by (simp add: same_app_def add_pending_def complete_def)
  ultimately show ?thesis using p1 p2 by auto
qed

lemma pump_packets:
  "receiver_ready n c \<Longrightarrow> list_all msg_fits xs \<Longrightarrow>
   \<exists>n'. pump (2 * length xs) E n c (concat (map packet xs) @ rest) = Some (n', rest) \<and> receiver_ready n' c \<and>
     received n' c = received n c @ map node_of xs \<and> same_app c n n'"
proof (induction xs arbitrary: n)
  case (Cons x xs)
  then obtain n1 where n1: "pump (Suc (Suc (2 * length xs))) E n c (packet x @ concat (map packet xs) @ rest) =
      pump (2 * length xs) E n1 c (concat (map packet xs) @ rest)" "receiver_ready n1 c"
    "received n1 c = received n c @ [node_of x]" "same_app c n n1"
    using pump_packet [of n c x "2 * length xs" E "concat (map packet xs) @ rest"] by auto
  moreover have "2 * length (x # xs) = Suc (Suc (2 * length xs))" by simp
  ultimately show ?case using Cons.IH [OF n1(2)] Cons.prems(2) n1 same_app_trans [OF n1(4)]
    by (auto simp del: pump.simps)
qed simp

section \<open>Dispatch to the handlers\<close>

text \<open>
  An application whose message handlers change its own state only: \<open>act f info\<close> is the effect of the
  handler behind \<open>f\<close>. \<open>route\<close> is the handler a message id is dispatched to.
\<close>

definition app_env :: "(fptr \<Rightarrow> JmyMsgInfo \<Rightarrow> 'a \<Rightarrow> 'a) \<Rightarrow> 'a env" where
  "app_env act = \<lparr>msg_code = (\<lambda>f inf n. Some (1, n\<lparr>nt_app := act f inf (nt_app n)\<rparr>)), event_code = (\<lambda>f inf n. Some (0, n))\<rparr>"

definition route :: "JmyDataHandler2 \<Rightarrow> int \<Rightarrow> fptr" where
  "route dh m = (case dh_msg_handler_map dh m of None \<Rightarrow> dh_default_msg_handler dh | Some f \<Rightarrow> f)"

definition deliver :: "(fptr \<Rightarrow> JmyMsgInfo \<Rightarrow> 'a \<Rightarrow> 'a) \<Rightarrow> JmyDataHandler2 \<Rightarrow> int \<Rightarrow> 'a \<Rightarrow> message \<Rightarrow> 'a" where
  "deliver act dh cid a x = act (route dh (mi_msg_id (info cid x))) (info cid x) a"

lemma info_len: "msg_fits x \<Longrightarrow> 0 \<le> sint (mi_len (info cid x))"
  by (cases x) (auto simp: msg_info_of_def sint_small)

lemma handleMsg_app:
  assumes "route dh (mi_msg_id (info cid x)) \<noteq> nullptr" "msg_fits x"
  shows "\<exists>r. handleMsg (msg_code (app_env act)) dh (info cid x) n = Some (r, n\<lparr>nt_app := deliver act dh cid (nt_app n) x\<rparr>) \<and> 0 \<le> r"
  using assms info_len [of x cid]
  by (auto simp: handleMsg_def route_def app_env_def deliver_def split: option.splits)

lemma unpack_body:
  assumes "msg_fits x"
  shows "\<exists>ud'. jmy_net_proto2_unpack_data (int (packet_type x)) (Some (cells (body x))) (of_nat (length (body x))) ud cid MGR_PTR =
     Some (int (length (body x)), ud') \<and> ud_type ud' = ud_type ud \<and> ud_msg_info ud' = info cid x"
proof (cases x)
  case (Msg m d)
  then show ?thesis using assms unpack_user_data_ok [of d m ud cid MGR_PTR] by (simp del: of_nat_add)
next
  case (UserMsg u m d)
  have l: "length (body x) = 6 + length d" using UserMsg by simp
  show ?thesis unfolding l using UserMsg assms unpack_user_id_data_ok [of d u m ud cid MGR_PTR] by (simp del: of_nat_add)
qed

lemma handleOne_app:
  assumes fits: "msg_fits x" and routed: "route (nt_handlers n dh) (mi_msg_id (info cid x)) \<noteq> nullptr"
  shows "\<exists>ud' r. handleOne (app_env act) n dh (node_of x) cid =
      Some (r, (set_unpack_data n dh ud')\<lparr>nt_app := deliver act (nt_handlers n dh) cid (nt_app n) x\<rparr>) \<and>
      0 \<le> r \<and> ud_type ud' = ud_type (dh_unpack_data (nt_handlers n dh))"
proof -
  have ty: "uint (nb_woffset (node_of x)) = int (packet_type x)"
    using packet_type_cases [of x] by (auto simp: node_of_def)
  obtain ud' where ud': "jmy_net_proto2_unpack_data (int (packet_type x)) (Some (cells (body x))) (of_nat (length (body x)))
      (dh_unpack_data (nt_handlers n dh)) cid MGR_PTR = Some (int (length (body x)), ud')"
    "ud_type ud' = ud_type (dh_unpack_data (nt_handlers n dh))" "ud_msg_info ud' = info cid x"
    using unpack_body [OF fits] by blast
  let ?n = "set_unpack_data n dh ud'"
  have rt: "route (nt_handlers ?n dh) = route (nt_handlers n dh)"
    by (rule ext) (simp add: set_unpack_data_def route_def split: option.split)
  have app: "nt_app ?n = nt_app n" by (simp add: set_unpack_data_def)
  obtain r where r: "handleMsg (msg_code (app_env act)) (nt_handlers ?n dh) (info cid x) ?n =
      Some (r, ?n\<lparr>nt_app := deliver act (nt_handlers n dh) cid (nt_app n) x\<rparr>)" "0 \<le> r"
    using handleMsg_app [of "nt_handlers ?n dh" cid x act ?n] routed fits rt app by (auto simp: deliver_def)
  have "handleOne (app_env act) n dh (node_of x) cid =
      Some (int (length (body x)), ?n\<lparr>nt_app := deliver act (nt_handlers n dh) cid (nt_app n) x\<rparr>)"
    unfolding handleOne_def ty Let_def using ud' r packet_type_cases [of x] by (auto simp: node_of_def)
  then show ?thesis using ud'(2) by auto
qed

lemma processData_loop_app:
  assumes "bl_using (cb_recv_buff_list (nt_bufs n buf)) = pre @ map node_of xs" "i = length pre" "list_all msg_fits xs"
    and "\<forall>x \<in> set xs. route (nt_handlers n dh) (mi_msg_id (info cid x)) \<noteq> nullptr"
    and "ud_type (dh_unpack_data (nt_handlers n dh)) = JMY_PACKET2_NONE"
  shows "\<exists>n'. processData_loop (app_env act) n dh buf cid i cnt = Some (cnt, n') \<and>
    nt_app n' = foldl (deliver act (nt_handlers n dh) cid) (nt_app n) xs \<and>
    bl_using (cb_recv_buff_list (nt_bufs n' buf)) = [] \<and> nt_conns n' = nt_conns n \<and>
    (\<forall>b. cb_send_buff_list (nt_bufs n' b) = cb_send_buff_list (nt_bufs n b))"
  using assms
proof (induction xs arbitrary: n i pre)
  case Nil
  then show ?case by (subst processData_loop.simps) (simp add: JmySessionBufferList_clear_def)
next
  case (Cons x xs)
  let ?l = "bl_using (cb_recv_buff_list (nt_bufs n buf))"
  from Cons.prems(1,2) have i: "i < length ?l" "?l ! i = node_of x" by (auto simp: nth_append)
  obtain ud' r where one: "handleOne (app_env act) n dh (node_of x) cid =
      Some (r, (set_unpack_data n dh ud')\<lparr>nt_app := deliver act (nt_handlers n dh) cid (nt_app n) x\<rparr>)"
    "0 \<le> r" "ud_type ud' = ud_type (dh_unpack_data (nt_handlers n dh))"
    using handleOne_app [of x n dh cid act] Cons.prems(3,4) by auto
  let ?n = "(set_unpack_data n dh ud')\<lparr>nt_app := deliver act (nt_handlers n dh) cid (nt_app n) x\<rparr>"
  have rt: "route (nt_handlers ?n dh) = route (nt_handlers n dh)"
    by (rule ext) (simp add: set_unpack_data_def route_def split: option.split)
  then have dl: "deliver act (nt_handlers ?n dh) cid = deliver act (nt_handlers n dh) cid"
    by (intro ext) (simp add: deliver_def)
  have bufs: "nt_bufs ?n = nt_bufs n" "nt_conns ?n = nt_conns n" by (simp_all add: set_unpack_data_def)
  have step: "processData_loop (app_env act) n dh buf cid i cnt = processData_loop (app_env act) ?n dh buf cid (Suc i) cnt"
    using i one Cons.prems(5) by (subst processData_loop.simps) (simp add: Let_def bufs, simp add: set_unpack_data_def)
  have "\<exists>n'. processData_loop (app_env act) ?n dh buf cid (Suc i) cnt = Some (cnt, n') \<and>
      nt_app n' = foldl (deliver act (nt_handlers ?n dh) cid) (nt_app ?n) xs \<and>
      bl_using (cb_recv_buff_list (nt_bufs n' buf)) = [] \<and> nt_conns n' = nt_conns ?n \<and>
      (\<forall>b. cb_send_buff_list (nt_bufs n' b) = cb_send_buff_list (nt_bufs ?n b))"
  proof (rule Cons.IH [of ?n "pre @ [node_of x]"])
    show "\<forall>x \<in> set xs. route (nt_handlers ?n dh) (mi_msg_id (info cid x)) \<noteq> nullptr"
      using Cons.prems(4) rt by simp
    show "ud_type (dh_unpack_data (nt_handlers ?n dh)) = JMY_PACKET2_NONE"
      using Cons.prems(5) one(3) by (simp add: set_unpack_data_def)
  qed (use Cons.prems bufs in simp_all)
  then show ?case unfolding step dl bufs by simp
qed

section \<open>End to end\<close>

text \<open>
  C1. Messages sent over a connection reach the handlers of the other side complete, unchanged and in
  order. If the sending connection is connected and uses an unlimited send buffer list, and every
  message fits the wire format, then every \<open>send\<close> succeeds and returns the payload length; draining
  the send buffer puts a byte string on the wire; the reading side, started on a packet boundary,
  consumes all of it; and processing then calls, once per message and in sending order, the handler
  registered for its id (or the default handler) with the user id, message id and payload that were
  sent, and empties the receive list. The message count returned is 0, not the number of messages.
\<close>

theorem messages_delivered_in_order:
  assumes "sender_ready nA a" "queued nA a = []" "list_all msg_fits xs"
    and "receiver_ready nB b" "received nB b = []"
    and "dh = nt_handlers nB (tc_data_handler (conn_of nB b))" "cid = tc_id (conn_of nB b)"
    and "\<forall>x \<in> set xs. route dh (mi_msg_id (info cid x)) \<noteq> nullptr" "ud_type (dh_unpack_data dh) = JMY_PACKET2_NONE"
  shows "\<exists>nA' wire l nB1 nB2.
    send_all nA a xs = Some (map (int \<circ> length \<circ> payload) xs, nA') \<and>
    bl.drain (Suc (length wire)) (cb_send_buff_list (buf_of nA' a)) [] = Some (l, cells wire) \<and>
    pump (2 * length xs) (app_env act) nB b wire = Some (nB1, []) \<and>
    handle_recv (app_env act) nB1 b = Some (0, nB2) \<and>
    nt_app nB2 = foldl (deliver act dh cid) (nt_app nB) xs \<and> received nB2 b = []"
proof -
  let ?wire = "concat (map packet xs)"
  obtain nA' where A: "send_all nA a xs = Some (map (int \<circ> length \<circ> payload) xs, nA')" "sender_ready nA' a"
    "queued nA' a = cells ?wire"
    using send_all_ok [OF assms(1,3)] assms(2) by auto
  have "bl_ok (cb_send_buff_list (buf_of nA' a))" using A(2) by (simp add: sender_ready_def)
  from bl.drain_all [OF this, of "Suc (length ?wire)" "[]"] A(3)
  obtain l where l: "bl.drain (Suc (length ?wire)) (cb_send_buff_list (buf_of nA' a)) [] = Some (l, cells ?wire)"
    by (auto simp: queued_def)
  obtain nB1 where B1: "pump (2 * length xs) (app_env act) nB b ?wire = Some (nB1, [])" "receiver_ready nB1 b"
    "received nB1 b = map node_of xs" "same_app b nB nB1"
    using pump_packets [OF assms(4,3), of "app_env act" "[]"] assms(5) by auto
  let ?dh = "tc_data_handler (conn_of nB b)" and ?buf = "tc_buffer (conn_of nB b)"
  from B1(4) have same: "nt_handlers nB1 ?dh = dh" "nt_app nB1 = nt_app nB" "tc_id (conn_of nB1 b) = cid"
    "tc_data_handler (conn_of nB1 b) = ?dh" "tc_buffer (conn_of nB1 b) = ?buf"
    using assms(6,7) by (simp_all add: same_app_def)
  have "bl_using (cb_recv_buff_list (nt_bufs nB1 ?buf)) = [] @ map node_of xs"
    using B1(3) same(5) by (simp add: received_def buf_of_def conn_of_def)
  from processData_loop_app [OF this refl assms(3), of ?dh cid act 0] assms(8,9) same
  obtain nB2 where B2: "processData (app_env act) nB1 ?dh ?buf cid = Some (0, nB2)"
    "nt_app nB2 = foldl (deliver act dh cid) (nt_app nB) xs" "bl_using (cb_recv_buff_list (nt_bufs nB2 ?buf)) = []"
    "nt_conns nB2 = nt_conns nB1"
    by (auto simp: processData_def)
  have "handle_recv (app_env act) nB1 b = Some (0, nB2)"
    using B2(1) same B1(2) by (simp add: handle_recv_def receiver_ready_def)
  moreover have "received nB2 b = []"
    using B2(3,4) same(5) by (simp add: received_def buf_of_def conn_of_def)
  ultimately show ?thesis using A(1) l B1(1) B2(2) by blast
qed

lemma connected_net_ready:
  "sender_ready (connected_net ty f app) c" "queued (connected_net ty f app) c = []"
  "receiver_ready (connected_net ty f app) c" "received (connected_net ty f app) c = []"
  by (simp_all add: sender_ready_def receiver_ready_def queued_def received_def reads_def connected_net_defs
      bl_ok_def bl_stream_def)

theorem messages_delivered_in_order_witness:
  "\<exists>nA' wire l nB1 nB2.
    send_all (connected_net JMY_CONN_TYPE_ACTIVE 7 ()) 1 [Msg 9 [1, 2], UserMsg 5 6 []] = Some ([2, 0], nA') \<and>
    bl.drain (Suc (length wire)) (cb_send_buff_list (buf_of nA' 1)) [] = Some (l, cells wire) \<and>
    pump 4 (app_env (\<lambda>f inf a. a @ [(f, mi_msg_id inf, mi_data inf)])) (connected_net JMY_CONN_TYPE_PASSIVE 7 []) 1 wire = Some (nB1, []) \<and>
    handle_recv (app_env (\<lambda>f inf a. a @ [(f, mi_msg_id inf, mi_data inf)])) nB1 1 = Some (0, nB2) \<and>
    nt_app nB2 = [(7, 9, cells [1, 2]), (7, 6, [])] \<and> received nB2 1 = []"
proof -
  let ?nA = "connected_net JMY_CONN_TYPE_ACTIVE 7 ()" and ?nB = "connected_net JMY_CONN_TYPE_PASSIVE 7 []"
  let ?dh = "new_data_handler2\<lparr>dh_default_msg_handler := 7\<rparr>"
  let ?act = "\<lambda>f inf a. a @ [(f, mi_msg_id inf, mi_data inf)]" and ?xs = "[Msg 9 [1, 2], UserMsg 5 6 []]"
  have A: "sender_ready ?nA 1" "queued ?nA 1 = []" and B: "receiver_ready ?nB 1" "received ?nB 1 = []"
    by (rule connected_net_ready)+
  have D: "?dh = nt_handlers ?nB (tc_data_handler (conn_of ?nB 1))" "3 = tc_id (conn_of ?nB 1)"
    by (simp_all add: connected_net_defs)
  have r: "route ?dh k = 7" for k by (simp add: route_def new_data_handler2_def)
  have fits: "list_all msg_fits ?xs" and routed: "\<forall>x \<in> set ?xs. route ?dh (mi_msg_id (info 3 x)) \<noteq> nullptr"
    and ud: "ud_type (dh_unpack_data ?dh) = JMY_PACKET2_NONE"
    by (simp_all add: route_def new_data_handler2_def new_unpack_data2_def)
  have app: "foldl (deliver ?act ?dh 3) (nt_app ?nB) ?xs = [(7, 9, cells [1, 2]), (7, 6, [])]"
    by (simp add: deliver_def r msg_info_of_def connected_net_def)
  have two: "map (int \<circ> length \<circ> payload) ?xs = [2, 0]" "2 * length ?xs = 4" by simp_all
  show ?thesis
    using messages_delivered_in_order [OF A fits B D routed ud, where act = ?act] unfolding app two .
qed

end
