(* ===== verification/Connection_Lifecycle.thy ===== *)
theory Connection_Lifecycle
  imports Message_Delivery
begin

text \<open>
  Closing and sending over the life of a connection: the events a close raises, the closing
  handshake, and the interleaving of \<open>send\<close> calls with the asynchronous sends of the socket as a step
  relation with its invariant.
\<close>

section \<open>Events of a closed connection\<close>

text \<open>An application that records the events it is told of.\<close>

definition log_env :: "JmyEventInfo list env" where
  "log_env = \<lparr>msg_code = (\<lambda>f inf n. Some (1, n)), event_code = (\<lambda>f inf n. Some (0, n\<lparr>nt_app := nt_app n @ [inf]\<rparr>))\<rparr>"

definition disconnect_event :: "int \<Rightarrow> JmyEventInfo" where
  "disconnect_event cid = \<lparr>ei_event_id = JMY_EVENT_DISCONNECT, ei_conn_id = cid, ei_param = MGR_PTR, ei_param_l = 0\<rparr>"

definition listens :: "'a net \<Rightarrow> nat \<Rightarrow> bool" where
  "listens n c \<longleftrightarrow> tc_event_handler (conn_of n c) \<noteq> 0 \<and>
     eh_handlers (nt_events n (tc_event_handler (conn_of n c))) JMY_EVENT_DISCONNECT \<noteq> nullptr"

lemma nt_events_other [simp]:
  "nt_events (clear_buffer n c) = nt_events n" "nt_app (clear_buffer n c) = nt_app n"
  "conn_of (clear_buffer n c) c' = conn_of n c'"
  by (simp_all add: clear_buffer_def split: prod.split)

lemma force_close_log:
  assumes "tc_state (conn_of n c) \<noteq> JMY_CONN_STATE_DISCONNECTED" "listens n c"
  shows "\<exists>n'. force_close log_env n c = Some n' \<and> nt_app n' = nt_app n @ [disconnect_event (tc_id (conn_of n c))] \<and>
    tc_state (conn_of n' c) = JMY_CONN_STATE_DISCONNECTED \<and> \<not> tc_sock_open (conn_of n' c) \<and> \<not> tc_sending_data (conn_of n' c) \<and>
    tc_conn_type (conn_of n' c) = tc_conn_type (conn_of n c) \<and> tc_buffer (conn_of n' c) = tc_buffer (conn_of n c) \<and>
    tc_data_handler (conn_of n' c) = tc_data_handler (conn_of n c) \<and> tc_id (conn_of n' c) = tc_id (conn_of n c) \<and>
    tc_event_handler (conn_of n' c) = tc_event_handler (conn_of n c) \<and> nt_events n' = nt_events n"
  using assms
  by (simp add: force_close_def handle_event_def listens_def onDisconnect_def eh_dispatch_def log_env_def disconnect_event_def Let_def)

text \<open>
  Closing a connection by force tells the application exactly once, however often it is repeated:
  the first call raises one disconnect event, closes the socket and leaves the connection
  disconnected and not sending, and every further call changes nothing.
\<close>

theorem force_close_raises_one_event:
  assumes "tc_state (conn_of n c) \<noteq> JMY_CONN_STATE_DISCONNECTED" "listens n c"
  shows "\<exists>n'. force_close log_env n c = Some n' \<and> nt_app n' = nt_app n @ [disconnect_event (tc_id (conn_of n c))] \<and>
    tc_state (conn_of n' c) = JMY_CONN_STATE_DISCONNECTED \<and> \<not> tc_sock_open (conn_of n' c) \<and> \<not> tc_sending_data (conn_of n' c) \<and>
    ((\<lambda>x. Option.bind x (\<lambda>m. force_close log_env m c)) ^^ k) (Some n') = Some n'"
proof -
  obtain n' where n': "force_close log_env n c = Some n'" "nt_app n' = nt_app n @ [disconnect_event (tc_id (conn_of n c))]"
    "tc_state (conn_of n' c) = JMY_CONN_STATE_DISCONNECTED" "\<not> tc_sock_open (conn_of n' c)" "\<not> tc_sending_data (conn_of n' c)"
    using force_close_log [OF assms] by auto
  then have "((\<lambda>x. Option.bind x (\<lambda>m. force_close log_env m c)) ^^ k) (Some n') = Some n'"
    by (induction k) (simp_all add: force_close_def)
  with n' show ?thesis by blast
qed

theorem force_close_raises_one_event_witness:
  "\<exists>n'. force_close log_env (connected_net JMY_CONN_TYPE_PASSIVE 7 []) 1 = Some n' \<and> nt_app n' = [disconnect_event 3] \<and>
     Option.bind (Some n') (\<lambda>m. force_close log_env m 1) = Some n'"
proof -
  have "listens (connected_net JMY_CONN_TYPE_PASSIVE 7 []) 1"
    "tc_state (conn_of (connected_net JMY_CONN_TYPE_PASSIVE 7 []) 1) \<noteq> JMY_CONN_STATE_DISCONNECTED"
    by (simp_all add: listens_def connected_net_defs)
  from force_close_raises_one_event [OF this(2,1), of 1] show ?thesis by (auto simp: connected_net_defs)
qed

text \<open>
  A passive connection that is closing and receives the acknowledgement of the peer does not stay
  closed: after the forced close the header handler starts another read, which sets the state back to
  connected although the socket is closed. When that read fails, the connection is closed again and
  the application is told of the same disconnect a second time.
\<close>

theorem passive_close_is_undone:
  assumes "tc_state (conn_of n c) = JMY_CONN_STATE_DISCONNECTING" "tc_conn_type (conn_of n c) = JMY_CONN_TYPE_PASSIVE"
    and "tc_buffer (conn_of n c) \<noteq> 0" "tc_data_handler (conn_of n c) \<noteq> 0" "listens n c"
  shows "\<exists>n1 n2. on_read_head log_env n c False disconnect_ack_packet = Some n1 \<and>
    tc_state (conn_of n1 c) = JMY_CONN_STATE_CONNECTED \<and> \<not> tc_sock_open (conn_of n1 c) \<and>
    on_read_head log_env n1 c True [] = Some n2 \<and> tc_state (conn_of n2 c) = JMY_CONN_STATE_DISCONNECTED \<and>
    nt_app n2 = nt_app n @ [disconnect_event (tc_id (conn_of n c)), disconnect_event (tc_id (conn_of n c))]"
proof -
  obtain m where m: "force_close log_env n c = Some m" "nt_app m = nt_app n @ [disconnect_event (tc_id (conn_of n c))]"
    "tc_state (conn_of m c) = JMY_CONN_STATE_DISCONNECTED" "\<not> tc_sock_open (conn_of m c)"
    "tc_conn_type (conn_of m c) = JMY_CONN_TYPE_PASSIVE" "tc_buffer (conn_of m c) \<noteq> 0" "tc_data_handler (conn_of m c) \<noteq> 0"
    "tc_id (conn_of m c) = tc_id (conn_of n c)" "listens m c"
    using force_close_log [of n c] assms by (auto simp: listens_def)
  let ?n1 = "start_recv m c"
  have hd: "jmy_net_proto2_get_packet_len_type (cells disconnect_ack_packet) 3 0 0 = Some (True, 9, 1)"
    using get_packet_len_type_ok [of 1 9 0 0] by (simp add: disconnect_ack_packet_def be16_bytes_def)
  have r1: "on_read_head log_env n c False disconnect_ack_packet = Some ?n1"
    using hd m(1) assms(1) by (simp add: on_read_head_def handle_packet_type_def handleDisconnectAck_def)
  have n1: "tc_state (conn_of ?n1 c) = JMY_CONN_STATE_CONNECTED" "\<not> tc_sock_open (conn_of ?n1 c)"
    "tc_id (conn_of ?n1 c) = tc_id (conn_of n c)" "listens ?n1 c" "nt_app ?n1 = nt_app m"
    using m by (simp_all add: start_recv_def add_pending_def Let_def listens_def)
  then obtain n2 where "force_close log_env ?n1 c = Some n2" "tc_state (conn_of n2 c) = JMY_CONN_STATE_DISCONNECTED"
    "nt_app n2 = nt_app m @ [disconnect_event (tc_id (conn_of n c))]"
    using force_close_log [of ?n1 c] by auto
  then show ?thesis using r1 n1(1,2) m(2) by (auto simp: on_read_head_def handle_recv_error_def)
qed

theorem passive_close_is_undone_witness:
  "\<exists>n n1 n2. conn_close (connected_net JMY_CONN_TYPE_PASSIVE 7 []) 1 0 = Some n \<and>
     on_read_head log_env n 1 False disconnect_ack_packet = Some n1 \<and>
     tc_state (conn_of n1 1) = JMY_CONN_STATE_CONNECTED \<and> \<not> tc_sock_open (conn_of n1 1) \<and>
     on_read_head log_env n1 1 True [] = Some n2 \<and> nt_app n2 = [disconnect_event 3, disconnect_event 3]"
proof -
  let ?n0 = "connected_net JMY_CONN_TYPE_PASSIVE 7 [] :: JmyEventInfo list net"
  have "bl_ok (cb_send_buff_list (buf_of ?n0 1)) \<and> unlimited (cb_send_buff_list (buf_of ?n0 1))"
    by (simp add: connected_net_defs bl_ok_def unlimited_def)
  from ubl.writeDisconnect_ok [OF this] obtain l where
    "writeDisconnect bl_writeData (cb_send_buff_list (buf_of ?n0 1)) = Some (3, l)" by (auto simp: ubl.wrote_def)
  then obtain n where n: "conn_close ?n0 1 0 = Some n" "tc_state (conn_of n 1) = JMY_CONN_STATE_DISCONNECTING"
    "tc_conn_type (conn_of n 1) = JMY_CONN_TYPE_PASSIVE" "tc_buffer (conn_of n 1) \<noteq> 0" "tc_data_handler (conn_of n 1) \<noteq> 0"
    "listens n 1" "tc_id (conn_of n 1) = 3" "nt_app n = []"
    by (auto simp: conn_close_def sendDisconnect_def write_to_send_buffer_def listens_def connected_net_defs
        upd_conn_def upd_buf_def)
  from passive_close_is_undone [OF n(2-6)] n show ?thesis by auto
qed

section \<open>The closing handshake\<close>

fun run_turns :: "'a env \<Rightarrow> 'a net \<Rightarrow> nat \<Rightarrow> int list \<Rightarrow> 'a net option" where
  "run_turns E n c [] = Some n"
| "run_turns E n c (t # ts) = do { (r, n) \<leftarrow> conn_run E n c t; run_turns E n c ts }"

definition no_tick :: "'a net \<Rightarrow> nat \<Rightarrow> bool" where
  "no_tick n c \<longleftrightarrow> tc_event_handler (conn_of n c) \<noteq> 0 \<and> \<not> hasTickHandler (nt_events n (tc_event_handler (conn_of n c)))"

lemma conn_run_closing:
  assumes "no_tick n c" "tc_state (conn_of n c) = JMY_CONN_STATE_DISCONNECTING"
  shows "conn_run E n c t =
    (if JMY_ACTIVE_CLOSE_CONNECTION_TIMEOUT \<le> (t - tc_active_close_start (conn_of n c)) div MICROS
     then do { n \<leftarrow> force_close E n c; Some (0, n) } else Some (0, n))"
  using assms by (simp add: conn_run_def conn_tick_def no_tick_def)

lemma conn_close_ok:
  assumes "sender_ready n c"
  shows "\<exists>n1. conn_close n c now = Some n1 \<and> queued n1 c = queued n c @ cells disconnect_packet \<and>
    tc_pending (conn_of n1 c) = tc_pending (conn_of n c) \<and> tc_state (conn_of n1 c) = JMY_CONN_STATE_DISCONNECTING \<and>
    tc_active_close_start (conn_of n1 c) = now \<and> (no_tick n c \<longrightarrow> no_tick n1 c)"
proof -
  have "bl_ok (cb_send_buff_list (buf_of n c)) \<and> unlimited (cb_send_buff_list (buf_of n c))"
    using assms by (simp add: sender_ready_def unlimited_def)
  from ubl.writeDisconnect_ok [OF this] obtain l where
    "writeDisconnect bl_writeData (cb_send_buff_list (buf_of n c)) = Some (3, l)"
    "bl_stream l = queued n c @ cells disconnect_packet" by (auto simp: ubl.wrote_def queued_def)
  then show ?thesis using assms
    by (simp add: conn_close_def sendDisconnect_def write_to_send_buffer_def sender_ready_def queued_def no_tick_def)
qed

text \<open>
  The closing handshake is never started: \<open>close\<close> queues the disconnect packet and leaves the
  connected state, and from then on the turns of the connection start no send, so on a connection
  with no send under way the packet stays in the buffer and nothing changes, until the first turn
  30 seconds or more after the close shuts the connection by force.
\<close>

theorem close_packet_is_not_sent:
  assumes "sender_ready n c" "no_tick n c" "\<forall>t \<in> set ts. (t - now) div MICROS < 30" "30 \<le> (late - now) div MICROS"
  shows "\<exists>n1. conn_close n c now = Some n1 \<and> queued n1 c = queued n c @ cells disconnect_packet \<and>
    tc_pending (conn_of n1 c) = tc_pending (conn_of n c) \<and> run_turns E n1 c ts = Some n1 \<and>
    conn_run E n1 c late = Option.bind (force_close E n1 c) (\<lambda>n. Some (0, n))"
proof -
  obtain n1 where n1: "conn_close n c now = Some n1" "queued n1 c = queued n c @ cells disconnect_packet"
    "tc_pending (conn_of n1 c) = tc_pending (conn_of n c)" "tc_state (conn_of n1 c) = JMY_CONN_STATE_DISCONNECTING"
    "tc_active_close_start (conn_of n1 c) = now" "no_tick n1 c"
    using conn_close_ok [OF assms(1), of now] assms(2) by auto
  have "run_turns E n1 c ts = Some n1"
    using assms(3) by (induction ts) (auto simp: conn_run_closing [OF n1(6,4)] n1(5))
  moreover have "conn_run E n1 c late = Option.bind (force_close E n1 c) (\<lambda>n. Some (0, n))"
    using assms(4) by (simp add: conn_run_closing [OF n1(6,4)] n1(5))
  ultimately show ?thesis using n1 by blast
qed

theorem close_packet_is_not_sent_witness:
  "\<exists>n1. conn_close (connected_net JMY_CONN_TYPE_ACTIVE 7 []) 1 0 = Some n1 \<and> queued n1 1 = cells disconnect_packet \<and>
     tc_pending (conn_of n1 1) = [ReadHead] \<and> run_turns log_env n1 1 [1000, 29000000] = Some n1 \<and>
     conn_run log_env n1 1 30000000 = Option.bind (force_close log_env n1 1) (\<lambda>n. Some (0, n))"
proof -
  let ?n = "connected_net JMY_CONN_TYPE_ACTIVE 7 [] :: JmyEventInfo list net"
  have "no_tick ?n 1" by (simp add: no_tick_def hasTickHandler_def connected_net_defs)
  moreover have "tc_pending (conn_of ?n 1) = [ReadHead]" by (simp add: connected_net_defs)
  ultimately show ?thesis
    using close_packet_is_not_sent [OF connected_net_ready(1), of JMY_CONN_TYPE_ACTIVE 7 "[]" 1 "[1000, 29000000]" 0 30000000 log_env]
      connected_net_ready(2) [of JMY_CONN_TYPE_ACTIVE 7 "[] :: JmyEventInfo list" 1]
    by simp
qed

section \<open>Sending as a step relation\<close>

text \<open>
  A state of the sending side is the process, the bytes the socket has taken, and the messages
  accepted so far. The steps are a \<open>send\<close> call, the start of sending by a turn of the connection, and
  the completion of the pending send with at most the bytes that were offered.
\<close>

type_synonym 'a send_state = "'a net \<times> cell list \<times> message list"

inductive send_step :: "'a env \<Rightarrow> nat \<Rightarrow> 'a send_state \<Rightarrow> 'a send_state \<Rightarrow> bool" for E c where
  Send: "msg_fits x \<Longrightarrow> send_msg n c x = Some (r, n') \<Longrightarrow>
    send_step E c (n, w, xs) (n', w, if r < 0 then xs else xs @ [x])"
| Start: "start_send n c = Some (r, n') \<Longrightarrow> send_step E c (n, w, xs) (n', w, xs)"
| Done: "SendList k \<in> set (tc_pending (conn_of n c)) \<Longrightarrow> unat b \<le> k \<Longrightarrow>
    JmySessionBufferList_getReadBuff (cb_send_buff_list (buf_of n c)) = Some cs \<Longrightarrow>
    on_buffer_list_sent E (complete n c (SendList k)) c False b = Some n' \<Longrightarrow>
    send_step E c (n, w, xs) (n', w @ take (unat b) cs, xs)"

inductive_cases send_stepE: "send_step E c s s'"

inductive send_reach :: "'a env \<Rightarrow> nat \<Rightarrow> 'a send_state \<Rightarrow> 'a send_state \<Rightarrow> bool" for E c s where
  refl: "send_reach E c s s"
| step: "send_reach E c s t \<Longrightarrow> send_step E c t u \<Longrightarrow> send_reach E c s u"

definition sends :: "'a net \<Rightarrow> nat \<Rightarrow> pending_op list" where
  "sends n c = filter (\<lambda>p. \<not> is_read p) (tc_pending (conn_of n c))"

text \<open>
  The invariant: the bytes taken and the bytes queued are together the packets of the accepted
  messages, and a send is pending exactly while \<open>sending_data_\<close> is set, for the bytes of the front node.
\<close>

definition send_inv :: "nat \<Rightarrow> 'a send_state \<Rightarrow> bool" where
  "send_inv c = (\<lambda>(n, w, xs). sender_ready n c \<and> w @ queued n c = cells (concat (map packet xs)) \<and>
     sends n c = (if tc_sending_data (conn_of n c)
       then [SendList (unat (JmySessionBufferList_getReadLen (cb_send_buff_list (buf_of n c))))] else []) \<and>
     (tc_sending_data (conn_of n c) \<longrightarrow> queued n c \<noteq> []))"

lemma writers_append:
  "JmySessionBufferList_writeDatas l ds = Some (r, l') \<Longrightarrow> \<exists>bs. bl_using l' = bl_using l @ bs"
  "JmySessionBufferList_writeData l p k = Some (r, l') \<Longrightarrow> \<exists>bs. bl_using l' = bl_using l @ bs"
  by (auto simp: JmySessionBufferList_writeDatas_def JmySessionBufferList_writeData_def Let_def bl_push_def
      split: if_splits prod.splits bind_splits)

lemma user_writers_append:
  "writeUserData_list l m p k = Some (r, l') \<Longrightarrow> \<exists>bs. bl_using l' = bl_using l @ bs"
  "writeUserIdAndData_list l u m p k' = Some (r, l') \<Longrightarrow> \<exists>bs. bl_using l' = bl_using l @ bs"
  by (auto simp: writeUserData_list_def writeUserIdAndData_list_def writeUserData_def writeUserIdAndData_def
      bl_writeData_def Let_def dest!: writers_append split: if_splits bind_splits)

lemma getReadLen_append:
  "bl_using l \<noteq> [] \<Longrightarrow> bl_using l' = bl_using l @ bs \<Longrightarrow>
   JmySessionBufferList_getReadLen l' = JmySessionBufferList_getReadLen l"
  by (cases "bl_using l") (simp_all add: JmySessionBufferList_getReadLen_def)

lemma send_msg_frame:
  assumes "sender_ready n c" "send_msg n c x = Some (r, n')"
  shows "conn_of n' c = conn_of n c \<and>
    (\<exists>bs. bl_using (cb_send_buff_list (buf_of n' c)) = bl_using (cb_send_buff_list (buf_of n c)) @ bs)"
proof (cases x)
  case (Msg m d)
  with assms obtain q l' where "writeUserData_list (cb_send_buff_list (buf_of n c)) m (Some (cells d)) (of_nat (length d)) = Some (q, l')"
    "n' = upd_buf n c (\<lambda>b. b\<lparr>cb_send_buff_list := l'\<rparr>)"
    by (auto simp: send_def write_to_send_buffer_def sender_ready_def split: bind_splits if_splits)
  then show ?thesis by (auto dest: user_writers_append)
next
  case (UserMsg u m d)
  with assms obtain q l' where "writeUserIdAndData_list (cb_send_buff_list (buf_of n c)) u m (Some (cells d)) (of_nat (length d)) = Some (q, l')"
    "n' = upd_buf n c (\<lambda>b. b\<lparr>cb_send_buff_list := l'\<rparr>)"
    by (auto simp: send_user_def write_to_send_buffer_def sender_ready_def split: bind_splits if_splits)
  then show ?thesis by (auto dest: user_writers_append)
qed

lemma queued_using: "sender_ready n c \<Longrightarrow> queued n c = [] \<longleftrightarrow> bl_using (cb_send_buff_list (buf_of n c)) = []"
  by (cases "bl_using (cb_send_buff_list (buf_of n c))")
     (auto simp: queued_def bl_stream_def sender_ready_def bl_ok_def dest: node_bytes_ne)

lemma send_inv_Send:
  assumes inv: "send_inv c (n, w, xs)" and "msg_fits x" "send_msg n c x = Some (r, n')"
  shows "send_inv c (n', w, if r < 0 then xs else xs @ [x])"
proof -
  have ready: "sender_ready n c" using inv by (simp add: send_inv_def)
  with send_msg_ok [OF ready assms(2)] assms(3) have r: "r = int (length (payload x))" and
    n': "sender_ready n' c" "queued n' c = queued n c @ cells (packet x)" by auto
  from send_msg_frame [OF ready assms(3)] obtain bs where
    f: "conn_of n' c = conn_of n c" "bl_using (cb_send_buff_list (buf_of n' c)) = bl_using (cb_send_buff_list (buf_of n c)) @ bs"
    by blast
  have "tc_sending_data (conn_of n c) \<Longrightarrow>
      JmySessionBufferList_getReadLen (cb_send_buff_list (buf_of n' c)) = JmySessionBufferList_getReadLen (cb_send_buff_list (buf_of n c))"
    using getReadLen_append [OF _ f(2)] inv queued_using [OF ready] by (auto simp: send_inv_def)
  then show ?thesis using inv r n' f(1) by (auto simp: send_inv_def sends_def)
qed

lemma send_inv_Start:
  assumes inv: "send_inv c (n, w, xs)" and "start_send n c = Some (r, n')"
  shows "send_inv c (n', w, xs)"
proof (cases "tc_sending_data (conn_of n c) \<or> JmySessionBufferList_getReadLen (cb_send_buff_list (buf_of n c)) = 0")
  case True
  then have "n' = n" using assms by (auto simp: start_send_def send_inv_def sender_ready_def split: if_splits)
  then show ?thesis using inv by simp
next
  case False
  let ?l = "cb_send_buff_list (buf_of n c)"
  have ready: "sender_ready n c" using inv by (simp add: send_inv_def)
  have n': "n' = upd_conn (buffer_list_send n c) c (\<lambda>x. x\<lparr>tc_sending_data := True\<rparr>)"
    using False assms(2) ready by (auto simp: start_send_def sender_ready_def Let_def split: if_splits)
  have "queued n c \<noteq> []"
    using False queued_using [OF ready] by (auto simp: JmySessionBufferList_getReadLen_def)
  with n' inv False show ?thesis
    by (simp add: send_inv_def sender_ready_def queued_def sends_def buffer_list_send_def add_pending_def)
qed

lemma send_inv_Done:
  assumes inv: "send_inv c (n, w, xs)" and pend: "SendList k \<in> set (tc_pending (conn_of n c))" and b: "unat b \<le> k"
    and cs: "JmySessionBufferList_getReadBuff (cb_send_buff_list (buf_of n c)) = Some cs"
    and run: "on_buffer_list_sent E (complete n c (SendList k)) c False b = Some n'"
  shows "send_inv c (n', w @ take (unat b) cs, xs)"
proof -
  let ?l = "cb_send_buff_list (buf_of n c)"
  let ?l' = "snd (JmySessionBufferList_readLen ?l b)"
  from inv have ready: "sender_ready n c" and w: "w @ queued n c = cells (concat (map packet xs))" by (simp_all add: send_inv_def)
  have l: "bl_ok ?l \<and> unlimited ?l" using ready by (simp add: sender_ready_def unlimited_def)
  have "SendList k \<in> set (sends n c)" using pend by (simp add: sends_def)
  then have s: "sends n c = [SendList k]" "k = unat (JmySessionBufferList_getReadLen ?l)"
    using inv by (auto simp: send_inv_def split: if_splits)
  have k: "k = length cs" "\<exists>rest. bl_stream ?l = cs @ rest"
    using bl_getReadBuff_ok [of ?l] l cs s(2) by auto
  have l': "bl_ok ?l' \<and> unlimited ?l'" "bl_stream ?l' = drop (unat b) (bl_stream ?l)"
    using ubl.consume_ok [OF l cs, of b] b k(1) by auto
  have w': "(w @ take (unat b) cs) @ bl_stream ?l' = cells (concat (map packet xs))"
  proof -
    obtain rest where rest: "bl_stream ?l = cs @ rest" using k(2) by blast
    then have "take (unat b) cs @ drop (unat b) (bl_stream ?l) = cs @ rest"
      using b k(1) by (simp add: append_assoc [symmetric] del: append_assoc)
    then show ?thesis using w l'(2) rest by (simp add: queued_def)
  qed
  let ?n1 = "upd_conn (upd_buf (complete n c (SendList k)) c (\<lambda>x. x\<lparr>cb_send_buff_list := ?l'\<rparr>)) c
      (\<lambda>x. x\<lparr>tc_buff_send_count := tc_buff_send_count x + 1\<rparr>)"
  let ?done = "100 \<le> sint (tc_buff_send_count (conn_of ?n1 c)) \<or> bl_using ?l' = []"
  have n': "n' = (if ?done then upd_conn ?n1 c (\<lambda>x. x\<lparr>tc_buff_send_count := 0, tc_sending_data := False\<rparr>) else buffer_list_send ?n1 c)"
  proof -
    have "upd_buf (complete n c (SendList k)) c (\<lambda>x. x\<lparr>cb_send_buff_list := snd (JmySessionBufferList_readLen (cb_send_buff_list x) b)\<rparr>)
      = upd_buf (complete n c (SendList k)) c (\<lambda>x. x\<lparr>cb_send_buff_list := ?l'\<rparr>)"
      by (rule upd_buf_cong) simp
    then show ?thesis using run unfolding on_buffer_list_sent_def Let_def
      by (auto simp: JmySessionBufferList_getUsingSize_def split: if_splits)
  qed
  have sd: "filter (\<lambda>p. \<not> is_read p) (remove1 (SendList k) (tc_pending (conn_of n c))) = []"
    using s(1) by (simp add: sends_def filter_remove1)
  have ready1: "sender_ready ?n1 c" using ready l'(1) by (simp add: sender_ready_def unlimited_def)
  have q1: "queued ?n1 c = bl_stream ?l'" by (simp add: queued_def)
  have sending: "tc_sending_data (conn_of ?n1 c)" using s(1) inv by (auto simp: send_inv_def complete_def split: if_splits)
  show ?thesis
  proof (cases ?done)
    case True
    then have n2: "n' = upd_conn ?n1 c (\<lambda>x. x\<lparr>tc_buff_send_count := 0, tc_sending_data := False\<rparr>)" using n' by simp
    have "sender_ready n' c" "queued n' c = bl_stream ?l'" "sends n' c = []" "\<not> tc_sending_data (conn_of n' c)"
      unfolding n2 using ready1 sd by (simp_all add: sender_ready_def queued_def sends_def complete_def)
    then show ?thesis using w' by (simp add: send_inv_def)
  next
    case False
    then have n2: "n' = buffer_list_send ?n1 c" using n' by simp
    have "bl_stream ?l' \<noteq> []" using queued_using [OF ready1] q1 False by simp
    moreover have "sender_ready n' c" "queued n' c = bl_stream ?l'" "tc_sending_data (conn_of n' c)"
      "sends n' c = [SendList (unat (JmySessionBufferList_getReadLen (cb_send_buff_list (buf_of n' c))))]"
      unfolding n2 using ready1 sd sending
      by (simp_all add: sender_ready_def queued_def sends_def complete_def buffer_list_send_def add_pending_def)
    ultimately show ?thesis using w' by (simp add: send_inv_def)
  qed
qed

lemma send_reach_inv: "send_reach E c s t \<Longrightarrow> send_inv c s \<Longrightarrow> send_inv c t"
  by (induction rule: send_reach.induct)
     (auto elim!: send_stepE dest: send_inv_Send send_inv_Start send_inv_Done)

lemma fresh_send_inv:
  "sender_ready n c \<Longrightarrow> queued n c = [] \<Longrightarrow> sends n c = [] \<Longrightarrow> \<not> tc_sending_data (conn_of n c) \<Longrightarrow> send_inv c (n, [], [])"
  by (simp add: send_inv_def)

text \<open>
  C2. Over any interleaving of \<open>send\<close> calls, turns and send completions of any partial length, the bytes
  handed to the socket are an initial part of the packets of the accepted messages in the order of
  the calls, the rest is still queued, and at most one send is pending on the socket, exactly while
  the connection is marked as sending.
\<close>

theorem connection_send_fifo:
  assumes "sender_ready n c" "queued n c = []" "sends n c = []" "\<not> tc_sending_data (conn_of n c)"
    and "send_reach E c (n, [], []) (n', w, xs)"
  shows "w @ queued n' c = cells (concat (map packet xs)) \<and> length (sends n' c) \<le> 1 \<and>
    (tc_sending_data (conn_of n' c) \<longleftrightarrow> sends n' c \<noteq> []) \<and> sender_ready n' c"
proof -
  have "send_inv c (n', w, xs)"
    using send_reach_inv [OF assms(5) fresh_send_inv [OF assms(1-4)]] .
  then show ?thesis by (auto simp: send_inv_def)
qed

theorem connection_send_fifo_witness:
  "\<exists>n'. send_reach log_env 1 (connected_net JMY_CONN_TYPE_ACTIVE 7 [], [], []) (n', [], [Msg 9 [1, 2]]) \<and>
     queued n' 1 = cells (packet (Msg 9 [1, 2])) \<and> sends n' 1 = []"
proof -
  let ?n = "connected_net JMY_CONN_TYPE_ACTIVE 7 [] :: JmyEventInfo list net"
  have fits: "msg_fits (Msg 9 [1, 2])" by simp
  obtain n' where n': "send_msg ?n 1 (Msg 9 [1, 2]) = Some (2, n')"
    using send_msg_ok [OF connected_net_ready(1) [of JMY_CONN_TYPE_ACTIVE 7 "[] :: JmyEventInfo list" 1] fits] by auto
  have "send_reach log_env 1 (?n, [], []) (n', [], if (2 :: int) < 0 then [] else [] @ [Msg 9 [1, 2]])"
    by (rule send_reach.step [OF send_reach.refl Send [OF fits n']])
  then have r: "send_reach log_env 1 (?n, [], []) (n', [], [Msg 9 [1, 2]])" by simp
  have idle: "sends ?n 1 = []" "\<not> tc_sending_data (conn_of ?n 1)" by (simp_all add: sends_def connected_net_defs)
  have "tc_sending_data (conn_of n' 1) = tc_sending_data (conn_of ?n 1)"
    using send_msg_frame [OF connected_net_ready(1) n'] by simp
  with connection_send_fifo [OF connected_net_ready(1,2) idle r] r idle(2) show ?thesis by auto
qed

text \<open>
  A turn of the socket that transfers at most \<open>k\<close> bytes: a pending send completes, and otherwise the
  connection gets a turn to start one.
\<close>

definition socket_turn :: "'a env \<Rightarrow> nat \<Rightarrow> nat \<Rightarrow> 'a net \<times> cell list \<Rightarrow> ('a net \<times> cell list) option" where
  "socket_turn E c k = (\<lambda>(n, w).
     case sends n c of
       SendList j # _ \<Rightarrow> do {
         cs \<leftarrow> JmySessionBufferList_getReadBuff (cb_send_buff_list (buf_of n c));
         n \<leftarrow> on_buffer_list_sent E (complete n c (SendList j)) c False (of_nat (min k j));
         Some (n, w @ take (min k j) cs)
       }
     | _ \<Rightarrow> do { (r, n) \<leftarrow> start_send n c; Some (n, w) })"

fun socket_turns :: "'a env \<Rightarrow> nat \<Rightarrow> nat list \<Rightarrow> 'a net \<times> cell list \<Rightarrow> ('a net \<times> cell list) option" where
  "socket_turns E c [] s = Some s"
| "socket_turns E c (k # ks) s = do { s \<leftarrow> socket_turn E c k s; socket_turns E c ks s }"

definition send_measure :: "'a net \<Rightarrow> nat \<Rightarrow> nat" where
  "send_measure n c = 2 * length (queued n c) + (if tc_sending_data (conn_of n c) then 0 else 1)"

lemma front_bytes:
  assumes "sender_ready n c"
  shows "\<exists>cs. JmySessionBufferList_getReadBuff (cb_send_buff_list (buf_of n c)) = Some cs \<and> length cs < 2 ^ 16 \<and>
    length cs = unat (JmySessionBufferList_getReadLen (cb_send_buff_list (buf_of n c))) \<and> (cs = [] \<longleftrightarrow> queued n c = [])"
  using bl_getReadBuff_ok [of "cb_send_buff_list (buf_of n c)"] assms queued_using [OF assms]
  by (auto simp: sender_ready_def queued_def)

lemma start_send_turn:
  assumes inv: "send_inv c (n, w, xs)" and idle: "\<not> tc_sending_data (conn_of n c)"
  shows "\<exists>r n'. start_send n c = Some (r, n') \<and> queued n' c = queued n c \<and> (queued n c \<noteq> [] \<longrightarrow> tc_sending_data (conn_of n' c))"
proof -
  have ready: "sender_ready n c" using inv by (simp add: send_inv_def)
  have "JmySessionBufferList_getReadLen (cb_send_buff_list (buf_of n c)) = 0 \<longleftrightarrow> queued n c = []"
    using front_bytes [OF ready] by (auto simp: unat_eq_0)
  then show ?thesis using idle ready by (auto simp: start_send_def sender_ready_def queued_def buffer_list_send_def add_pending_def Let_def)
qed

lemma pending_send:
  assumes inv: "send_inv c (n, w, xs)" and "tc_sending_data (conn_of n c)"
  shows "\<exists>cs. JmySessionBufferList_getReadBuff (cb_send_buff_list (buf_of n c)) = Some cs \<and> cs \<noteq> [] \<and>
    sends n c = [SendList (length cs)] \<and> length cs < 2 ^ 16"
  using front_bytes [of n c] inv assms(2) by (auto simp: send_inv_def)

lemma socket_turn_ok:
  assumes inv: "send_inv c (n, w, xs)" and "0 < k"
  shows "\<exists>n' w'. socket_turn E c k (n, w) = Some (n', w') \<and> send_inv c (n', w', xs) \<and>
    (queued n c = [] \<longrightarrow> queued n' c = []) \<and> (queued n c \<noteq> [] \<longrightarrow> send_measure n' c < send_measure n c)"
proof (cases "tc_sending_data (conn_of n c)")
  case False
  then have "sends n c = []" using inv by (simp add: send_inv_def)
  moreover from start_send_turn [OF inv False] obtain r n' where "start_send n c = Some (r, n')" "queued n' c = queued n c"
    "queued n c \<noteq> [] \<Longrightarrow> tc_sending_data (conn_of n' c)" by blast
  ultimately show ?thesis using send_inv_Start [OF inv] False by (auto simp: socket_turn_def send_measure_def)
next
  case True
  from pending_send [OF inv True] obtain cs where cs: "JmySessionBufferList_getReadBuff (cb_send_buff_list (buf_of n c)) = Some cs"
    "cs \<noteq> []" "sends n c = [SendList (length cs)]" "length cs < 2 ^ 16" by blast
  let ?b = "of_nat (min k (length cs)) :: u32"
  have b: "unat ?b = min k (length cs)" using cs(4) by (simp add: unat_of_nat take_bit_nat_eq_self)
  obtain n' where n': "on_buffer_list_sent E (complete n c (SendList (length cs))) c False ?b = Some n'"
    by (cases "on_buffer_list_sent E (complete n c (SendList (length cs))) c False ?b")
       (auto simp: on_buffer_list_sent_def Let_def split: if_splits)
  have "SendList (length cs) \<in> set (sends n c)" using cs(3) by simp
  then have "SendList (length cs) \<in> set (tc_pending (conn_of n c))" by (simp add: sends_def)
  from send_inv_Done [OF inv this _ cs(1) n'] b have inv': "send_inv c (n', w @ take (min k (length cs)) cs, xs)" by simp
  have "w @ queued n c = w @ take (min k (length cs)) cs @ queued n' c" using inv inv' by (simp add: send_inv_def)
  then have "queued n c = take (min k (length cs)) cs @ queued n' c" by simp
  then have "length (queued n c) = min k (length cs) + length (queued n' c)" by simp
  moreover obtain m where "min k (length cs) = Suc m" using cs(2) assms(2) by (cases "min k (length cs)") (auto simp: min_def split: if_splits)
  ultimately have "send_measure n' c < send_measure n c" "queued n c \<noteq> []" using True by (auto simp: send_measure_def)
  then show ?thesis using inv' n' cs(1,3) by (simp add: socket_turn_def)
qed

lemma socket_turns_ok:
  assumes "send_inv c (n, w, xs)" "\<forall>k \<in> set ks. 0 < k"
  shows "\<exists>n' w'. socket_turns E c ks (n, w) = Some (n', w') \<and> send_inv c (n', w', xs) \<and>
    (send_measure n c \<le> length ks \<or> queued n c = [] \<longrightarrow> queued n' c = [])"
  using assms
proof (induction ks arbitrary: n w)
  case Nil
  then show ?case by (auto simp: send_measure_def)
next
  case (Cons k ks)
  from socket_turn_ok [OF Cons.prems(1), of k E] Cons.prems(2) obtain n1 w1 where
    t: "socket_turn E c k (n, w) = Some (n1, w1)" "send_inv c (n1, w1, xs)" "queued n c = [] \<Longrightarrow> queued n1 c = []"
      "queued n c \<noteq> [] \<Longrightarrow> send_measure n1 c < send_measure n c" by auto
  from Cons.IH [OF t(2)] Cons.prems(2) obtain n' w' where
    "socket_turns E c ks (n1, w1) = Some (n', w')" "send_inv c (n', w', xs)"
    "send_measure n1 c \<le> length ks \<or> queued n1 c = [] \<Longrightarrow> queued n' c = []" by auto
  then show ?case using t by fastforce
qed

text \<open>
  C3. Queued bytes are sent. From every state reached by any interleaving of \<open>send\<close> calls, turns and
  completions, let the socket take turns in which it transfers some bytes, however few, at each
  completion. After at most two turns per queued byte and one more, everything that was accepted is
  on the wire and the queue is empty.
\<close>

theorem connection_send_progress:
  assumes "sender_ready n c" "queued n c = []" "sends n c = []" "\<not> tc_sending_data (conn_of n c)"
    and "send_reach E c (n, [], []) (n', w, xs)" "\<forall>k \<in> set ks. 0 < k" "2 * length (queued n' c) + 1 \<le> length ks"
  shows "\<exists>n''. socket_turns E c ks (n', w) = Some (n'', cells (concat (map packet xs))) \<and> queued n'' c = []"
proof -
  have "send_inv c (n', w, xs)"
    using send_reach_inv [OF assms(5) fresh_send_inv [OF assms(1-4)]] .
  moreover have "send_measure n' c \<le> length ks" using assms(7) by (simp add: send_measure_def)
  ultimately obtain n'' w' where "socket_turns E c ks (n', w) = Some (n'', w')" "send_inv c (n'', w', xs)" "queued n'' c = []"
    using socket_turns_ok [OF _ assms(6)] by blast
  then show ?thesis by (simp add: send_inv_def)
qed

theorem connection_send_progress_witness:
  "\<exists>n' n''. send_reach log_env 1 (connected_net JMY_CONN_TYPE_ACTIVE 7 [], [], []) (n', [], [Msg 9 [1, 2]]) \<and>
     socket_turns log_env 1 (replicate 15 1) (n', []) = Some (n'', cells (packet (Msg 9 [1, 2]))) \<and> queued n'' 1 = []"
proof -
  let ?n = "connected_net JMY_CONN_TYPE_ACTIVE 7 [] :: JmyEventInfo list net"
  have fits: "msg_fits (Msg 9 [1, 2])" by simp
  obtain n' where n': "send_msg ?n 1 (Msg 9 [1, 2]) = Some (2, n')" "queued n' 1 = cells (packet (Msg 9 [1, 2]))"
    using send_msg_ok [OF connected_net_ready(1) [of JMY_CONN_TYPE_ACTIVE 7 "[] :: JmyEventInfo list" 1] fits]
      connected_net_ready(2) [of JMY_CONN_TYPE_ACTIVE 7 "[] :: JmyEventInfo list" 1] by auto
  have "send_reach log_env 1 (?n, [], []) (n', [], if (2 :: int) < 0 then [] else [] @ [Msg 9 [1, 2]])"
    by (rule send_reach.step [OF send_reach.refl Send [OF fits n'(1)]])
  then have r: "send_reach log_env 1 (?n, [], []) (n', [], [Msg 9 [1, 2]])" by simp
  have idle: "sends ?n 1 = []" "\<not> tc_sending_data (conn_of ?n 1)" by (simp_all add: sends_def connected_net_defs)
  have "length (queued n' 1) = 7" using n'(2) by (simp add: packet_def)
  with connection_send_progress [OF connected_net_ready(1,2) idle r, of "replicate 15 1"] r show ?thesis by auto
qed

section \<open>Heartbeats\<close>

text \<open>
  A heartbeat from the peer destroys the framing: its header is consumed but its four byte
  timestamp is not, so the next header is read from the timestamp and the rest of the stream is
  shifted by three bytes: the first timestamp bytes are taken as the length of a packet of the type
  given by the third one.
\<close>

theorem heartbeat_shifts_the_stream:
  assumes "receiver_ready n c"
  shows "\<exists>n'. pump 1 E n c (heartbeat_packet now @ rest) = Some (n', drop 3 (heartbeat_packet now) @ rest) \<and>
    receiver_ready n' c \<and> received n' c = received n c \<and> same_app c n n' \<and>
    pump 2 E n c (heartbeat_packet now @ rest) =
      Option.bind (on_read_head E (complete n' c ReadHead) c False (take 3 (drop 3 (heartbeat_packet now))))
        (\<lambda>m. Some (m, drop 6 (heartbeat_packet now) @ rest))"
proof -
  let ?n0 = "complete n c ReadHead"
  let ?n1 = "add_pending ?n0 c ReadHead"
  from assms have rd: "reads n c = [ReadHead]" "tc_state (conn_of n c) = JMY_CONN_STATE_CONNECTED"
    "tc_buffer (conn_of n c) \<noteq> 0" "tc_data_handler (conn_of n c) \<noteq> 0" by (simp_all add: receiver_ready_def)
  have hd: "take 3 (heartbeat_packet now @ rest) = be16_bytes 5 @ [7]" "length (heartbeat_packet now) = 7"
    by (simp_all add: heartbeat_packet_def be16_bytes_def)
  have h: "on_read_head E ?n0 c False (be16_bytes 5 @ [7]) = Some ?n1"
    using get_packet_len_type_ok [of 5 7 0 0] rd
    by (simp add: on_read_head_def handle_packet_type_def handleHeartbeat_def start_recv_connected)
  have r1: "reads ?n1 c = [ReadHead]" using reads_complete [OF rd(1)] by (simp add: reads_def add_pending_def)
  have p1: "pump (Suc k) E n c (heartbeat_packet now @ rest) = pump k E ?n1 c (drop 3 (heartbeat_packet now) @ rest)" for k
    using rd(1) h hd by (simp del: take_append)
  have "receiver_ready ?n1 c" "received ?n1 c = received n c" "same_app c n ?n1"
    using rd r1 by (simp_all add: receiver_ready_def received_def same_app_def add_pending_def complete_def)
  moreover have "pump 2 E n c (heartbeat_packet now @ rest) =
      Option.bind (on_read_head E (complete ?n1 c ReadHead) c False (take 3 (drop 3 (heartbeat_packet now))))
        (\<lambda>m. Some (m, drop 6 (heartbeat_packet now) @ rest))"
    unfolding numeral_2_eq_2 p1 using r1 hd(2) by simp
  ultimately show ?thesis using p1 [of 0] by (intro exI [of _ ?n1]) simp
qed

theorem heartbeat_shifts_the_stream_witness:
  "\<exists>n'. pump 1 log_env (connected_net JMY_CONN_TYPE_PASSIVE 7 []) 1 (heartbeat_packet 0x05000000 @ packet (Msg 9 [])) =
     Some (n', [5, 0, 0, 0] @ packet (Msg 9 []))"
  using heartbeat_shifts_the_stream [OF connected_net_ready(3) [of JMY_CONN_TYPE_PASSIVE 7 "[]" 1],
      of log_env "0x05000000" "packet (Msg 9 [])"]
  by (auto simp: heartbeat_packet_def be16_bytes_def simp del: pump.simps)

end
