(* ===== verification/Id_Generator.thy ===== *)
theory Id_Generator
  imports Prelude
begin

text \<open>
  \<open>JmyIdGenerator<int>\<close> of \<open>libjmy/jmy_util.h\<close>. Ids are C \<open>int\<close>s; incrementing the largest one is
  undefined behaviour and has no result.
\<close>

record JmyIdGenerator =
  ig_curr_id :: int
  ig_min_id :: int
  ig_max_id :: int
  ig_free_list :: "int list"
  ig_used_set :: "int set"

abbreviation (input) INT_MAX :: int where "INT_MAX \<equiv> 2147483647"

text \<open>The constructor uses \<open>MIN_ID\<close> for the minimum whatever the template argument is.\<close>

definition new_id_generator :: "int \<Rightarrow> JmyIdGenerator" where
  "new_id_generator max_id = \<lparr>ig_curr_id = 0, ig_min_id = 1, ig_max_id = max_id, ig_free_list = [], ig_used_set = {}\<rparr>"

definition id_init :: "JmyIdGenerator \<Rightarrow> int \<Rightarrow> int \<Rightarrow> JmyIdGenerator" where
  "id_init g maxid minid = g\<lparr>ig_min_id := minid, ig_max_id := maxid\<rparr>"

definition id_reset :: "JmyIdGenerator \<Rightarrow> JmyIdGenerator" where
  "id_reset g = g\<lparr>ig_curr_id := 0, ig_free_list := [], ig_used_set := {}\<rparr>"

definition id_clear :: "JmyIdGenerator \<Rightarrow> JmyIdGenerator" where
  "id_clear g = id_reset (g\<lparr>ig_min_id := 0, ig_max_id := 0\<rparr>)"

definition id_next :: "JmyIdGenerator \<Rightarrow> int option" where
  "id_next g =
     (if ig_max_id g > 0 \<and> ig_curr_id g \<ge> ig_max_id g then Some (ig_min_id g)
      else do { require (ig_curr_id g < INT_MAX); Some (ig_curr_id g + 1) })"

definition id_get :: "JmyIdGenerator \<Rightarrow> (int \<times> JmyIdGenerator) option" where
  "id_get g =
     (case ig_free_list g of
        i # is \<Rightarrow> Some (i, g\<lparr>ig_free_list := is, ig_used_set := insert i (ig_used_set g)\<rparr>)
      | [] \<Rightarrow> do {
          k \<leftarrow> id_next g;
          let k = (if k \<le> 0 then ig_min_id g else k);
          let g = g\<lparr>ig_curr_id := k\<rparr>;
          if k \<in> ig_used_set g then Some (0, g) else Some (k, g)
        })"

definition id_free :: "JmyIdGenerator \<Rightarrow> int \<Rightarrow> bool \<times> JmyIdGenerator" where
  "id_free g i =
     (if i \<notin> ig_used_set g then (False, g)
      else (True, g\<lparr>ig_used_set := ig_used_set g - {i}, ig_free_list := ig_free_list g @ [i]\<rparr>))"

section \<open>Properties\<close>

text \<open>A generator that has only handed out fresh ids: nothing was ever recorded as used.\<close>

definition id_fresh :: "JmyIdGenerator \<Rightarrow> bool" where
  "id_fresh g \<longleftrightarrow> ig_free_list g = [] \<and> ig_used_set g = {} \<and> 0 \<le> ig_curr_id g"

text \<open>The next \<open>k\<close> ids are below the bounds.\<close>

definition id_room :: "JmyIdGenerator \<Rightarrow> nat \<Rightarrow> bool" where
  "id_room g k \<longleftrightarrow> ig_curr_id g + int k \<le> INT_MAX \<and> (ig_max_id g = 0 \<or> ig_curr_id g + int k \<le> ig_max_id g)"

lemma id_get_fresh:
  assumes "id_fresh g" "id_room g (Suc k)"
  shows "id_get g = Some (ig_curr_id g + 1, g\<lparr>ig_curr_id := ig_curr_id g + 1\<rparr>)"
  using assms by (auto simp: id_get_def id_next_def id_fresh_def id_room_def Let_def)

fun id_gets :: "nat \<Rightarrow> JmyIdGenerator \<Rightarrow> (int list \<times> JmyIdGenerator) option" where
  "id_gets 0 g = Some ([], g)"
| "id_gets (Suc k) g = do { (i, g) \<leftarrow> id_get g; (is, g) \<leftarrow> id_gets k g; Some (i # is, g) }"

lemma id_gets_upto:
  "id_fresh g \<Longrightarrow> id_room g k \<Longrightarrow>
   id_gets k g = Some ([ig_curr_id g + 1..ig_curr_id g + int k], g\<lparr>ig_curr_id := ig_curr_id g + int k\<rparr>)"
proof (induction k arbitrary: g)
  case (Suc k)
  let ?c = "ig_curr_id g" and ?g = "g\<lparr>ig_curr_id := ig_curr_id g + 1\<rparr>"
  have get: "id_get g = Some (?c + 1, ?g)" using Suc.prems by (rule id_get_fresh)
  have "id_fresh ?g" "id_room ?g k" using Suc.prems by (auto simp: id_fresh_def id_room_def)
  from Suc.IH [OF this] have "id_gets k ?g = Some ([?c + 1 + 1..?c + 1 + int k], g\<lparr>ig_curr_id := ?c + 1 + int k\<rparr>)"
    by simp
  moreover have "(?c + 1) # [?c + 1 + 1..?c + 1 + int k] = [?c + 1..?c + 1 + int k]"
    by (simp add: upto_rec1)
  moreover have "?c + 1 + int k = ?c + int (Suc k)" by simp
  ultimately show ?case using get by (simp only: id_gets.simps bind.bind_lunit prod.case)
qed simp

lemma id_free_refused: "ig_used_set g = {} \<Longrightarrow> id_free g i = (False, g)"
  by (simp add: id_free_def)

text \<open>
  The generator of connection ids counts up from 1: the first \<open>k\<close> calls of \<open>get\<close> return 1 to \<open>k\<close>, all
  distinct and none of them 0, as long as \<open>k\<close> is an \<open>int\<close>; afterwards none of them can be given back,
  because a fresh id is never entered into the set of used ids.
\<close>

theorem id_generator_counts_up:
  assumes "int k \<le> INT_MAX"
  shows "\<exists>g. id_gets k (new_id_generator 0) = Some ([1..int k], g) \<and> distinct [1..int k] \<and> 0 \<notin> set [1..int k] \<and>
    (\<forall>i. id_free g i = (False, g))"
proof -
  have "id_fresh (new_id_generator 0)" by (simp add: id_fresh_def new_id_generator_def)
  from id_gets_upto [OF this, of k] assms show ?thesis
    by (simp add: new_id_generator_def id_free_refused id_room_def)
qed

theorem id_generator_counts_up_witness:
  "\<exists>g. id_gets 3 (new_id_generator 0) = Some ([1, 2, 3], g) \<and> (\<forall>i. id_free g i = (False, g))"
  using id_generator_counts_up [of 3] by (simp add: upto_rec1)

text \<open>
  A generator with a maximum hands out ids again that are still in use: after \<open>m\<close> calls that return
  1 to \<open>m\<close>, the next call returns 1, although no id has been given back.
\<close>

theorem id_generator_reissues:
  assumes "0 < m" "m \<le> INT_MAX"
  shows "\<exists>g g'. id_gets (nat m) (new_id_generator m) = Some ([1..m], g) \<and> id_get g = Some (1, g')"
proof -
  have "id_fresh (new_id_generator m)" by (simp add: id_fresh_def new_id_generator_def)
  from id_gets_upto [OF this, of "nat m"] assms show ?thesis
    by (simp add: new_id_generator_def id_get_def id_next_def id_room_def)
qed

theorem id_generator_reissues_witness:
  "\<exists>g g'. id_gets 2 (new_id_generator 2) = Some ([1, 2], g) \<and> id_get g = Some (1, g')"
  using id_generator_reissues [of 2] by (simp add: upto_rec1)

end
