(* ===== verification/Tcp_Server.thy ===== *)
theory Tcp_Server
  imports Tcp_Connection Id_Generator
begin

text \<open>
  \<open>JmyTcpServer\<close> of \<open>libjmy/jmy_tcp_server.h\<close> and \<open>.cpp\<close> without threads: loading the configuration,
  accepting connections, one turn over all connections with the removal of closed ones, and closing.
  The acceptor is represented by the completions it delivers. The server's data handler, event
  handler and connections live in the store of Tcp\_Connection.
\<close>

abbreviation (input) HANDLER_PTR :: nat where "HANDLER_PTR \<equiv> 1"
abbreviation (input) EVENT_PTR :: nat where "EVENT_PTR \<equiv> 1"

record 'a server =
  sv_net :: "'a net"
  sv_buffer_mgr :: JmyConnectionBufferMgr
  sv_id_gene :: JmyIdGenerator
  sv_conns :: "nat list"
  sv_conf :: JmyServerConfig
  sv_inited :: bool

definition new_server :: "heap \<Rightarrow> 'a \<Rightarrow> 'a server" where
  "new_server h app =
     \<lparr>sv_net = \<lparr>nt_heap = h, nt_pool = new_session_pool, nt_bufs = (\<lambda>_. new_connection_buffer),
        nt_handlers = (\<lambda>_. new_data_handler2), nt_events = (\<lambda>_. new_event_handler_mgr),
        nt_conns = (\<lambda>_. new_connection JMY_CONN_TYPE_PASSIVE), nt_mgr = new_conn_mgr, nt_app = app\<rparr>,
      sv_buffer_mgr = new_buffer_mgr, sv_id_gene = new_id_generator 0, sv_conns = [],
      sv_conf = \<lparr>sc_conn_conf = \<lparr>buff_conf = \<lparr>recv_buff_size = 0, send_buff_size = 0, recv_buff_list_size = 0,
          send_buff_list_size = 0, use_recv_buff_list = False, use_send_buff_list = False\<rparr>, handlers = [],
          default_msg_handler = nullptr, base_event_handlers = \<lparr>conn_handler = nullptr, disconn_handler = nullptr,
          tick_handler = nullptr, timer_handler = nullptr\<rparr>, other_event_handlers = [], no_delay = False\<rparr>,
        sc_listen_ip = [], sc_listen_port = 0, sc_max_conn = 0\<rparr>,
      sv_inited = False\<rparr>"

text \<open>
  \<open>loadConfig\<close>: connections are created from address 1 on, buffers from key 1 on. A failing buffer
  pool does not stop the initialisation of the buffer manager, but is the result.
\<close>

definition loadConfig :: "'a server \<Rightarrow> JmyServerConfig \<Rightarrow> (bool \<times> 'a server) option" where
  "loadConfig S conf = do {
     let S = S\<lparr>sv_conf := conf\<rparr>;
     let n = sv_net S;
     let cc = sc_conn_conf conf;
     let (res, dh) = loadMsgHandle (nt_handlers n HANDLER_PTR) (handlers cc);
     if \<not> res then Some (False, S)
     else do {
       let dh = setDefaultMsgHandler dh (default_msg_handler cc);
       let n = n\<lparr>nt_handlers := (nt_handlers n)(HANDLER_PTR := dh)\<rparr>;
       ev \<leftarrow> eh_init (setBaseHandlers (nt_events n EVENT_PTR) (base_event_handlers cc)) (other_event_handlers cc);
       let n = n\<lparr>nt_events := (nt_events n)(EVENT_PTR := ev)\<rparr>;
       let n = JmyTcpConnectionMgr_init 1 n (sint (sc_max_conn conf)) JMY_CONN_TYPE_PASSIVE;
       let (res, h, pool) = JmySessionBufferPool_init (nt_heap n) (nt_pool n) (sint (sc_max_conn conf)) 0 0
         (send_buff_size (buff_conf cc)) (recv_buff_size (buff_conf cc));
       let (r, st, bm) = JmyConnectionBufferMgr_init 1 (nt_bufs n) (sv_buffer_mgr S) (sint (2 * sc_max_conn conf));
       let S = S\<lparr>sv_net := n\<lparr>nt_heap := h, nt_pool := pool, nt_bufs := st\<rparr>, sv_buffer_mgr := bm\<rparr>;
       Some (res, if res then S\<lparr>sv_inited := True\<rparr> else S)
     }
   }"

definition server_close :: "'a server \<Rightarrow> 'a server option" where
  "server_close S = do {
     (h, pool) \<leftarrow> JmySessionBufferPool_clear (nt_heap (sv_net S)) (nt_pool (sv_net S));
     Some (S\<lparr>sv_conns := [],
       sv_net := (sv_net S)\<lparr>nt_heap := h, nt_pool := pool, nt_mgr := JmyTcpConnectionMgr_clear (nt_mgr (sv_net S))\<rparr>\<rparr>)
   }"

text \<open>
  \<open>accept_new\<close>: the second half, from the assignment of the handlers on, works on the connection \<open>c\<close>. A
  connection that cannot be had from the manager is dereferenced all the same.
\<close>

definition accept_attach :: "'a env \<Rightarrow> 'a server \<Rightarrow> nat \<Rightarrow> int \<Rightarrow> (int \<times> 'a server) option" where
  "accept_attach E S c cid = do {
     let n = sv_net S;
     let (b, st, bm) = getOneBuffer (nt_bufs n, sv_buffer_mgr S);
     case b of
       None \<Rightarrow> Some (- 1, S)
     | Some b \<Rightarrow> do {
         (h, pool, buf) \<leftarrow> JmyConnectionBuffer_init_pool (nt_heap n, nt_pool n, st b) (buff_conf (sc_conn_conf (sv_conf S)));
         let n = n\<lparr>nt_heap := h, nt_pool := pool, nt_bufs := st(b := buf)\<rparr>;
         let n = upd_conn n c (\<lambda>x. x\<lparr>tc_buffer := b\<rparr>);
         let n = start_recv n c;
         let evt = \<lparr>ei_event_id = JMY_EVENT_CONNECT, ei_conn_id = cid, ei_param = MGR_PTR, ei_param_l = 0\<rparr>;
         (r, n) \<leftarrow> onConnect (event_code E) (nt_events n EVENT_PTR) evt n;
         Some (cid, S\<lparr>sv_net := n, sv_buffer_mgr := bm, sv_conns := sv_conns S @ [c]\<rparr>)
       }
   }"

definition accept_new :: "'a env \<Rightarrow> 'a server \<Rightarrow> (int \<times> 'a server) option" where
  "accept_new E S = do {
     (cid, g) \<leftarrow> id_get (sv_id_gene S);
     let S = S\<lparr>sv_id_gene := g\<rparr>;
     if cid = 0 then Some (- 1, S)
     else do {
       let (p, n) = getFree (sv_net S) cid;
       c \<leftarrow> p;
       let n = upd_conn n c (\<lambda>x. x\<lparr>tc_sock_open := True, tc_data_handler := HANDLER_PTR, tc_event_handler := EVENT_PTR\<rparr>);
       accept_attach E (S\<lparr>sv_net := n\<rparr>) c cid
     }
   }"

text \<open>
  Starting: the value returned to the caller. The accept itself is pending at the acceptor, which is
  not part of the state.
\<close>

definition do_accept :: "'a server \<Rightarrow> int" where
  "do_accept S = (if \<not> sv_inited S then - 1 else 1)"

definition server_start :: "'a server \<Rightarrow> int" where
  "server_start S = (if \<not> sv_inited S then - 1 else do_accept S)"

definition listenStart :: "'a server \<Rightarrow> int" where
  "listenStart S = (if \<not> sv_inited S then - 1 else server_start S)"

datatype accept_result = AcceptOk | AcceptRetry | AcceptError

text \<open>
  The completion of \<open>async_accept\<close>; the result is whether the next accept is started.
\<close>

definition on_accept :: "'a env \<Rightarrow> 'a server \<Rightarrow> accept_result \<Rightarrow> (bool \<times> 'a server) option" where
  "on_accept E S res =
     (case res of
        AcceptError \<Rightarrow> Some (False, S)
      | AcceptRetry \<Rightarrow> Some (0 < do_accept S, S)
      | AcceptOk \<Rightarrow>
          if unat (sc_max_conn (sv_conf S)) \<le> length (sv_conns S) then Some (0 < do_accept S, S)
          else do {
            (cid, S) \<leftarrow> accept_new E S;
            if cid < 0 then Some (False, S) else Some (0 < do_accept S, S)
          })"

definition remove_conn :: "'a server \<Rightarrow> nat \<Rightarrow> 'a server option" where
  "remove_conn S c =
     (if c = 0 then Some S
      else do {
        let n = snd (mgr_free (sv_net S) c);
        require (tc_buffer (conn_of n c) \<noteq> 0);
        let n = clear_buffer n c;
        (r, bm) \<leftarrow> freeBuffer (nt_bufs n) (sv_buffer_mgr S) (cb_id (buf_of n c));
        Some (S\<lparr>sv_net := n, sv_buffer_mgr := bm\<rparr>)
      })"

text \<open>
  One turn: \<open>todo\<close> are the connections the iterator still has to visit, \<open>kept\<close> those it has passed and
  not erased, \<open>k\<close> the number of connections that ran.
\<close>

fun run_conns_loop :: "'a env \<Rightarrow> int \<Rightarrow> nat list \<Rightarrow> nat list \<Rightarrow> int \<Rightarrow> 'a server \<Rightarrow> (int \<times> 'a server) option" where
  "run_conns_loop E now [] kept k S = Some (k, S\<lparr>sv_conns := kept\<rparr>)"
| "run_conns_loop E now (c # todo) kept k S =
     (if c = 0 \<or> tc_state (conn_of (sv_net S) c) = JMY_CONN_STATE_DISCONNECTED then do {
        S \<leftarrow> remove_conn S c;
        run_conns_loop E now todo kept k S
      } else do {
        (r, n) \<leftarrow> conn_run E (sv_net S) c now;
        run_conns_loop E now todo (kept @ [c]) (if r \<ge> 0 then k + 1 else k) (S\<lparr>sv_net := n\<rparr>)
      })"

definition run_conns :: "'a env \<Rightarrow> 'a server \<Rightarrow> int \<Rightarrow> (int \<times> 'a server) option" where
  "run_conns E S now = run_conns_loop E now (sv_conns S) [] 0 S"

definition server_run :: "'a env \<Rightarrow> 'a server \<Rightarrow> int \<Rightarrow> (int \<times> 'a server) option" where
  "server_run E S now = do {
     (k, S) \<leftarrow> run_conns E S now;
     if k < 0 then Some (- 1, S) else Some (0, S)
   }"

section \<open>What running a connection leaves alone\<close>

definition srv_frame :: "'a net \<Rightarrow> 'a net \<Rightarrow> bool" where
  "srv_frame n n' \<longleftrightarrow> nt_mgr n' = nt_mgr n \<and>
     (\<forall>c. tc_id (conn_of n' c) = tc_id (conn_of n c) \<and> tc_buffer (conn_of n' c) = tc_buffer (conn_of n c)) \<and>
     (\<forall>p. cb_id (nt_bufs n' p) = cb_id (nt_bufs n p) \<and> cb_state (nt_bufs n' p) = cb_state (nt_bufs n p))"

definition env_keeps :: "'a env \<Rightarrow> bool" where
  "env_keeps E \<longleftrightarrow> (\<forall>f i n r n'. msg_code E f i n = Some (r, n') \<longrightarrow> srv_frame n n') \<and>
     (\<forall>f i n r n'. event_code E f i n = Some (r, n') \<longrightarrow> srv_frame n n')"

lemma srv_frame_refl [simp]: "srv_frame n n"
  by (simp add: srv_frame_def)

lemma srv_frame_trans: "srv_frame n1 n2 \<Longrightarrow> srv_frame n2 n3 \<Longrightarrow> srv_frame n1 n3"
  by (simp add: srv_frame_def)

lemma srv_frame_upd_conn [simp]:
  "(\<And>x. tc_id (f x) = tc_id x \<and> tc_buffer (f x) = tc_buffer x) \<Longrightarrow> srv_frame n (upd_conn m c f) \<longleftrightarrow> srv_frame n m"
  by (simp add: srv_frame_def) metis

lemma srv_frame_upd_buf [simp]:
  "(\<And>x. cb_id (g x) = cb_id x \<and> cb_state (g x) = cb_state x) \<Longrightarrow> srv_frame n (upd_buf m c g) \<longleftrightarrow> srv_frame n m"
  by (simp add: srv_frame_def upd_buf_def buf_of_def) metis

lemma srv_frame_heap [simp]:
  "srv_frame n (m\<lparr>nt_heap := h\<rparr>) \<longleftrightarrow> srv_frame n m" "srv_frame n (m\<lparr>nt_pool := p\<rparr>) \<longleftrightarrow> srv_frame n m"
  "srv_frame n (m\<lparr>nt_handlers := hs\<rparr>) \<longleftrightarrow> srv_frame n m"
  by (simp_all add: srv_frame_def conn_of_def)

lemma srv_frame_clear [simp]: "srv_frame n (clear_buffer m c) \<longleftrightarrow> srv_frame n m"
  by (auto simp: srv_frame_def clear_buffer_def JmyConnectionBuffer_clear_def upd_buf_def buf_of_def Let_def split: prod.splits)

lemma eh_dispatch_frame:
  "env_keeps E \<Longrightarrow> eh_dispatch (event_code E) m e i n = Some (r, n') \<Longrightarrow> srv_frame n n'"
  by (auto simp: eh_dispatch_def env_keeps_def split: if_splits)

lemma handle_event_frame:
  assumes "env_keeps E" "handle_event E n c e p = Some (r, n')"
  shows "srv_frame n n'"
proof -
  let ?i = "\<lparr>ei_event_id = e, ei_conn_id = tc_id (conn_of n c), ei_param = MGR_PTR, ei_param_l = p\<rparr>"
  let ?n = "upd_conn n c (\<lambda>x. x\<lparr>tc_event_info := ?i\<rparr>)"
  from assms(2) obtain m e' where "eh_dispatch (event_code E) m e' ?i ?n = Some (r, n')"
    by (auto simp: handle_event_def Let_def onConnect_def onDisconnect_def onTick_def onTimer_def onEvent_def split: if_splits)
  from eh_dispatch_frame [OF assms(1) this] have "srv_frame ?n n'" .
  then show ?thesis by (rule srv_frame_trans [rotated]) simp
qed

lemma force_close_frame:
  assumes "env_keeps E" "force_close E n c = Some n'"
  shows "srv_frame n n'"
proof (cases "tc_state (conn_of n c) = JMY_CONN_STATE_DISCONNECTED")
  case False
  let ?n = "\<lambda>m. upd_conn (if tc_buffer (conn_of m c) \<noteq> 0 then clear_buffer m c else m) c
      (\<lambda>x. x\<lparr>tc_state := JMY_CONN_STATE_DISCONNECTED, tc_sending_data := False\<rparr>)"
  let ?m = "upd_conn n c (\<lambda>x. x\<lparr>tc_sock_open := False\<rparr>)"
  from False assms(2) obtain r where "handle_event E (?n ?m) c JMY_EVENT_DISCONNECT 0 = Some (r, n')"
    unfolding force_close_def by (auto simp: Let_def split: bind_splits)
  from handle_event_frame [OF assms(1) this] have "srv_frame (?n ?m) n'" .
  then show ?thesis by (rule srv_frame_trans [rotated]) simp
qed (use assms in \<open>simp add: force_close_def\<close>)

lemma write_frame: "write_to_send_buffer n c wl wd = Some (r, n') \<Longrightarrow> srv_frame n n'"
  by (auto simp: write_to_send_buffer_def split: if_splits bind_splits)

lemma handleDisconnect_frame: "handleDisconnect n c = Some (r, n') \<Longrightarrow> srv_frame n n'"
  by (auto simp: handleDisconnect_def sendDisconnectAck_def dest: write_frame split: if_splits bind_splits)

lemma handleDisconnectAck_frame: "env_keeps E \<Longrightarrow> handleDisconnectAck E n c = Some (r, n') \<Longrightarrow> srv_frame n n'"
  by (auto simp: handleDisconnectAck_def dest: force_close_frame split: if_splits bind_splits)

lemma handleMsg_frame: "env_keeps E \<Longrightarrow> handleMsg (msg_code E) dh i n = Some (r, n') \<Longrightarrow> srv_frame n n'"
  by (auto simp: handleMsg_def env_keeps_def split: option.splits if_splits bind_splits)

lemma on_conn_id_frame:
  "on_conn_id n cid handleHeartbeat = Some (r, n') \<Longrightarrow> srv_frame n n'"
  "on_conn_id n cid handleDisconnect = Some (r, n') \<Longrightarrow> srv_frame n n'"
  "env_keeps E \<Longrightarrow> on_conn_id n cid (handleDisconnectAck E) = Some (r, n') \<Longrightarrow> srv_frame n n'"
  by (auto simp: on_conn_id_def handleHeartbeat_def dest: handleDisconnect_frame handleDisconnectAck_frame split: option.splits)

lemma handleOne_frame:
  assumes E: "env_keeps E" and run: "handleOne E n dh b cid = Some (r, n')"
  shows "srv_frame n n'"
proof -
  let ?type = "uint (nb_woffset b)"
  from run obtain q ud where ud: "jmy_net_proto2_unpack_data ?type (nb_data b) (nb_len b)
      (dh_unpack_data (nt_handlers n dh)) cid MGR_PTR = Some (q, ud)"
    by (auto simp: handleOne_def Let_def split: bind_splits)
  let ?n = "set_unpack_data n dh ud"
  have "srv_frame ?n n'"
    using run ud E unfolding handleOne_def Let_def
    by (auto split: if_splits bind_splits
        dest: handleMsg_frame on_conn_id_frame)
  moreover have "srv_frame n ?n" by (simp add: set_unpack_data_def)
  ultimately show ?thesis by (rule srv_frame_trans [rotated])
qed

lemma processData_loop_frame:
  assumes "env_keeps E" and run: "processData_loop E n dh buf cid i k = Some (r, n')"
  shows "srv_frame n n'"
proof -
  have "env_keeps E \<longrightarrow> srv_frame n (snd (r, n'))"
  proof (rule processData_loop.raw_induct [where P = "\<lambda>E n dh buf cid i k y. env_keeps E \<longrightarrow> srv_frame n (snd y)", OF _ run])
    fix loop :: "'a env \<Rightarrow> 'a net \<Rightarrow> nat \<Rightarrow> nat \<Rightarrow> int \<Rightarrow> nat \<Rightarrow> int \<Rightarrow> (int \<times> 'a net) option"
      and E :: "'a env" and n :: "'a net" and dh buf :: nat and cid :: int and i :: nat and k :: int and y :: "int \<times> 'a net"
    assume IH: "\<And>E n dh buf cid i k y. loop E n dh buf cid i k = Some y \<Longrightarrow> env_keeps E \<longrightarrow> srv_frame n (snd y)"
      and body: "(let l = bl_using (cb_recv_buff_list (nt_bufs n buf)) in
      if length l \<le> i then
        Some (k, n\<lparr>nt_bufs := (nt_bufs n)(buf := (nt_bufs n buf)\<lparr>cb_recv_buff_list :=
          JmySessionBufferList_clear (cb_recv_buff_list (nt_bufs n buf))\<rparr>)\<rparr>)
      else do {
        (res, n) \<leftarrow> handleOne E n dh (l ! i) cid;
        if res < 0 then Some (- 1, n)
        else do {
          require (i < length (bl_using (cb_recv_buff_list (nt_bufs n buf))));
          let type = ud_type (dh_unpack_data (nt_handlers n dh));
          loop E n dh buf cid (Suc i)
            (if type = JMY_PACKET2_USER_DATA \<or> type = JMY_PACKET2_USER_ID_DATA then k + 1 else k)
        }
      }) = Some y"
    show "env_keeps E \<longrightarrow> srv_frame n (snd y)"
    proof
      assume E: "env_keeps E"
      show "srv_frame n (snd y)"
      proof (cases "length (bl_using (cb_recv_buff_list (nt_bufs n buf))) \<le> i")
      case True
      then show ?thesis using body by (auto simp: Let_def srv_frame_def conn_of_def)
    next
      case False
      from False body obtain res n1 where one:
        "handleOne E n dh (bl_using (cb_recv_buff_list (nt_bufs n buf)) ! i) cid = Some (res, n1)"
        by (auto simp: Let_def split: bind_splits)
      have rest: "y = (- 1, n1) \<or> (\<exists>j k. loop E n1 dh buf cid j k = Some y)"
        using False body one by (auto simp: Let_def split: if_splits)
      have "srv_frame n n1" using handleOne_frame [OF E one] .
      moreover have "srv_frame n1 (snd y)"
        using rest by (elim disjE exE) (simp, rule IH [THEN mp, OF _ E])
      ultimately show ?thesis by (rule srv_frame_trans)
      qed
    qed
  qed
  then show ?thesis using assms(1) by simp
qed

lemma conn_run_frame:
  assumes E: "env_keeps E" and run: "conn_run E n c now = Some (r, n')"
  shows "srv_frame n n'"
proof -
  from run obtain n1 where tick: "conn_tick E n c now = Some n1" by (auto simp: conn_run_def split: bind_splits)
  have 1: "srv_frame n n1"
    using tick handle_event_frame [OF E] by (auto simp: conn_tick_def split: if_splits bind_splits)
  have recv: "handle_recv E n1 c = Some (q, n2) \<Longrightarrow> srv_frame n1 n2" for q n2
    by (auto simp: handle_recv_def processData_def dest: processData_loop_frame [OF E] split: if_splits bind_splits)
  have start: "start_send m c = Some (q, n2) \<Longrightarrow> srv_frame m n2" for q m n2
    by (auto simp: start_send_def buffer_send_def buffer_list_send_def add_pending_def Let_def split: if_splits)
  from run tick have "n' = n1 \<or> force_close E n1 c = Some n' \<or>
      (\<exists>q n2. handle_recv E n1 c = Some (q, n2) \<and> (force_close E n2 c = Some n' \<or> (\<exists>q'. start_send n2 c = Some (q', n'))))"
    by (auto simp: conn_run_def split: if_splits bind_splits)
  then have "srv_frame n1 n'"
    using recv start force_close_frame [OF E] by (blast intro: srv_frame_trans srv_frame_refl)
  with 1 show ?thesis by (rule srv_frame_trans)
qed

section \<open>The books of the server\<close>

text \<open>
  \<open>cs\<close> are the live connections. Every connection object is either live or in the manager's free list,
  the id table holds exactly the live ones, each live connection has a buffer of its own that is in
  use, and every other buffer is in the free queue; there are \<open>mx\<close> connections and twice as many buffers.
\<close>

definition srv_inv :: "nat \<Rightarrow> 'a net \<Rightarrow> JmyConnectionBufferMgr \<Rightarrow> nat list \<Rightarrow> bool" where
  "srv_inv mx n bm cs \<longleftrightarrow>
     distinct (cs @ cm_free_list (nt_mgr n)) \<and> 0 \<notin> set cs \<union> set (cm_free_list (nt_mgr n)) \<and>
     length cs + length (cm_free_list (nt_mgr n)) = mx \<and>
     (\<forall>c \<in> set cs. cm_used_map (nt_mgr n) (tc_id (conn_of n c)) = Some c) \<and>
     (\<forall>i c. cm_used_map (nt_mgr n) i = Some c \<longrightarrow> c \<in> set cs \<and> tc_id (conn_of n c) = i) \<and>
     bm_ok (nt_bufs n) bm \<and> 0 \<notin> set (bm_conn_buff_vec bm) \<and>
     (\<forall>c \<in> set cs. tc_buffer (conn_of n c) \<in> set (bm_conn_buff_vec bm) \<and>
        cb_state (nt_bufs n (tc_buffer (conn_of n c))) \<noteq> JMY_CONN_BUFFER_STATE_IDLE) \<and>
     distinct (map (\<lambda>c. tc_buffer (conn_of n c)) cs @ bm_free_queue bm) \<and>
     length cs + length (bm_free_queue bm) = 2 * mx"

definition srv_ok :: "'a server \<Rightarrow> bool" where
  "srv_ok S \<longleftrightarrow> srv_inv (unat (sc_max_conn (sv_conf S))) (sv_net S) (sv_buffer_mgr S) (sv_conns S) \<and>
     id_fresh (sv_id_gene S) \<and> ig_max_id (sv_id_gene S) = 0 \<and>
     (\<forall>i \<in> dom (cm_used_map (nt_mgr (sv_net S))). i \<le> ig_curr_id (sv_id_gene S)) \<and>
     use_send_buff_list (buff_conf (sc_conn_conf (sv_conf S)))"

lemma srv_invD:
  assumes "srv_inv mx n bm cs"
  shows "distinct (cs @ cm_free_list (nt_mgr n))" "0 \<notin> set cs \<union> set (cm_free_list (nt_mgr n))"
    "length cs + length (cm_free_list (nt_mgr n)) = mx"
    "\<And>c. c \<in> set cs \<Longrightarrow> cm_used_map (nt_mgr n) (tc_id (conn_of n c)) = Some c"
    "\<And>i c. cm_used_map (nt_mgr n) i = Some c \<Longrightarrow> c \<in> set cs \<and> tc_id (conn_of n c) = i"
    "bm_ok (nt_bufs n) bm" "0 \<notin> set (bm_conn_buff_vec bm)"
    "\<And>c. c \<in> set cs \<Longrightarrow> tc_buffer (conn_of n c) \<in> set (bm_conn_buff_vec bm) \<and>
        cb_state (nt_bufs n (tc_buffer (conn_of n c))) \<noteq> JMY_CONN_BUFFER_STATE_IDLE"
    "distinct (map (\<lambda>c. tc_buffer (conn_of n c)) cs @ bm_free_queue bm)" "length cs + length (bm_free_queue bm) = 2 * mx"
  using assms unfolding srv_inv_def by blast+

lemma srv_inv_frame:
  assumes "srv_inv mx n bm cs" "srv_frame n n'"
  shows "srv_inv mx n' bm cs"
proof -
  have "bm_ok (nt_bufs n') bm" using assms by (simp add: srv_inv_def srv_frame_def bm_ok_def)
  then show ?thesis using assms unfolding srv_inv_def srv_frame_def by simp
qed

lemma mgr_free_live:
  assumes "c \<noteq> 0" "cm_used_map (nt_mgr n) (tc_id (conn_of n c)) = Some c"
  shows "snd (mgr_free n c) = (upd_conn n c conn_reset)\<lparr>nt_mgr := (nt_mgr n)
    \<lparr>cm_used_map := (cm_used_map (nt_mgr n))(tc_id (conn_of n c) := None), cm_free_list := c # cm_free_list (nt_mgr n)\<rparr>\<rparr>"
  using assms by (simp add: mgr_free_def Let_def)

lemma remove_conn_ok:
  assumes inv: "srv_inv mx (sv_net S) (sv_buffer_mgr S) (xs @ c # ys)"
  shows "\<exists>n bm. remove_conn S c = Some (S\<lparr>sv_net := n, sv_buffer_mgr := bm\<rparr>) \<and> srv_inv mx n bm (xs @ ys) \<and>
    dom (cm_used_map (nt_mgr n)) \<subseteq> dom (cm_used_map (nt_mgr (sv_net S)))"
proof -
  let ?n = "sv_net S" and ?bm = "sv_buffer_mgr S"
  let ?b = "tc_buffer (conn_of ?n c)" and ?i = "tc_id (conn_of ?n c)"
  note I = srv_invD [OF inv]
  have cin: "c \<in> set (xs @ c # ys)" by simp
  have c: "c \<noteq> 0" "cm_used_map (nt_mgr ?n) ?i = Some c" "?b \<in> set (bm_conn_buff_vec ?bm)" "?b \<noteq> 0"
    "cb_state (nt_bufs ?n ?b) \<noteq> JMY_CONN_BUFFER_STATE_IDLE" "bm_ok (nt_bufs ?n) ?bm"
    using I(2,6,7) I(4) [OF cin] I(8) [OF cin] cin by (auto intro: ccontr)
  define n1 where "n1 = snd (mgr_free ?n c)"
  define n2 where "n2 = clear_buffer n1 c"
  have n1: "n1 = (upd_conn ?n c conn_reset)\<lparr>nt_mgr := (nt_mgr ?n)
      \<lparr>cm_used_map := (cm_used_map (nt_mgr ?n))(?i := None), cm_free_list := c # cm_free_list (nt_mgr ?n)\<rparr>\<rparr>"
    unfolding n1_def using c(1,2) by (rule mgr_free_live)
  have ids: "tc_id (conn_of n1 d) = tc_id (conn_of ?n d)" "tc_buffer (conn_of n1 d) = tc_buffer (conn_of ?n d)"
    "nt_bufs n1 = nt_bufs ?n" for d
    unfolding n1 by (simp_all add: conn_reset_def)
  have fr: "srv_frame n1 n2" by (simp add: n2_def)
  then have st: "cb_state (nt_bufs n2 p) = cb_state (nt_bufs ?n p)" "cb_id (nt_bufs n2 p) = cb_id (nt_bufs ?n p)"
    "tc_buffer (conn_of n2 d) = tc_buffer (conn_of ?n d)" "tc_id (conn_of n2 d) = tc_id (conn_of ?n d)"
    "nt_mgr n2 = nt_mgr n1" for p d
    using ids by (simp_all add: srv_frame_def)
  have bm2: "bm_ok (nt_bufs n2) ?bm" using c(6) st by (simp add: bm_ok_def)
  have "freeBuffer (nt_bufs n2) ?bm (cb_id (nt_bufs n2 ?b)) = Some (True, ?bm\<lparr>bm_free_queue := ?b # bm_free_queue ?bm\<rparr>)"
    using freeBuffer_ok [OF bm2 c(3)] st(1) c(5) by simp
  then have "remove_conn S c = Some (S\<lparr>sv_net := n2, sv_buffer_mgr := ?bm\<lparr>bm_free_queue := ?b # bm_free_queue ?bm\<rparr>\<rparr>)"
    using c(1,4) ids(2) st(3) by (simp add: remove_conn_def Let_def n1_def [symmetric] n2_def [symmetric] buf_of_def conn_of_def)
  moreover have "srv_inv mx n2 (?bm\<lparr>bm_free_queue := ?b # bm_free_queue ?bm\<rparr>) (xs @ ys)"
  proof -
    have m: "cm_free_list (nt_mgr n2) = c # cm_free_list (nt_mgr ?n)"
      "cm_used_map (nt_mgr n2) = (cm_used_map (nt_mgr ?n))(?i := None)" unfolding st(5) n1 by simp_all
    have sub: "d \<in> set (xs @ ys) \<Longrightarrow> d \<in> set (xs @ c # ys) \<and> d \<noteq> c" for d using I(1) by auto
    have uniq: "tc_id (conn_of ?n d) \<noteq> ?i" if "d \<in> set (xs @ ys)" for d
      using I(4) [of d] c(2) sub [OF that] by auto
    have "bm_ok (nt_bufs n2) (?bm\<lparr>bm_free_queue := ?b # bm_free_queue ?bm\<rparr>)"
      using bm2 c(3) by (simp add: bm_ok_def)
    moreover have "d \<in> set (xs @ ys) \<and> tc_id (conn_of n2 d) = i" if "cm_used_map (nt_mgr n2) i = Some d" for i d
    proof -
      from that m(2) have "i \<noteq> ?i" "cm_used_map (nt_mgr ?n) i = Some d" by (auto split: if_splits)
      with I(5) [of i d] show ?thesis using st(4) by auto
    qed
    moreover have "cm_used_map (nt_mgr n2) (tc_id (conn_of n2 d)) = Some d" if "d \<in> set (xs @ ys)" for d
      using I(4) [of d] sub [OF that] uniq [OF that] m(2) st(4) by auto
    moreover have "tc_buffer (conn_of n2 d) \<in> set (bm_conn_buff_vec ?bm) \<and>
        cb_state (nt_bufs n2 (tc_buffer (conn_of n2 d))) \<noteq> JMY_CONN_BUFFER_STATE_IDLE" if "d \<in> set (xs @ ys)" for d
      using I(8) [of d] sub [OF that] st(1,3) by auto
    moreover have "distinct ((xs @ ys) @ cm_free_list (nt_mgr n2))" "0 \<notin> set (xs @ ys) \<union> set (cm_free_list (nt_mgr n2))"
      "length (xs @ ys) + length (cm_free_list (nt_mgr n2)) = mx"
      using I(1-3) m(1) by auto
    moreover have "distinct (map (\<lambda>c. tc_buffer (conn_of n2 c)) (xs @ ys) @ (?b # bm_free_queue ?bm))"
      using I(9) unfolding st(3) by auto
    ultimately show ?thesis
      using I(7,10) unfolding srv_inv_def by simp
  qed
  moreover have "dom (cm_used_map (nt_mgr n2)) \<subseteq> dom (cm_used_map (nt_mgr ?n))"
    unfolding st(5) n1 by auto
  ultimately show ?thesis by blast
qed

lemma run_conns_loop_ok:
  assumes "env_keeps E" "srv_inv mx (sv_net S) (sv_buffer_mgr S) (kept @ todo)"
    and "run_conns_loop E now todo kept k S = Some (r, S')"
  shows "srv_inv mx (sv_net S') (sv_buffer_mgr S') (sv_conns S') \<and> set (sv_conns S') \<subseteq> set (kept @ todo) \<and>
    sv_conf S' = sv_conf S \<and> sv_id_gene S' = sv_id_gene S \<and> sv_inited S' = sv_inited S \<and>
    dom (cm_used_map (nt_mgr (sv_net S'))) \<subseteq> dom (cm_used_map (nt_mgr (sv_net S)))"
  using assms
proof (induction todo arbitrary: kept k S)
  case (Cons c todo)
  show ?case
  proof (cases "c = 0 \<or> tc_state (conn_of (sv_net S) c) = JMY_CONN_STATE_DISCONNECTED")
    case True
    obtain n bm where rm: "remove_conn S c = Some (S\<lparr>sv_net := n, sv_buffer_mgr := bm\<rparr>)" "srv_inv mx n bm (kept @ todo)"
      "dom (cm_used_map (nt_mgr n)) \<subseteq> dom (cm_used_map (nt_mgr (sv_net S)))"
      using remove_conn_ok [OF Cons.prems(2)] by blast
    have "run_conns_loop E now todo kept k (S\<lparr>sv_net := n, sv_buffer_mgr := bm\<rparr>) = Some (r, S')"
      using Cons.prems(3) True rm(1) by simp
    from Cons.IH [OF Cons.prems(1) _ this] rm(2) have
      "srv_inv mx (sv_net S') (sv_buffer_mgr S') (sv_conns S') \<and> set (sv_conns S') \<subseteq> set (kept @ todo) \<and>
       sv_conf S' = sv_conf S \<and> sv_id_gene S' = sv_id_gene S \<and> sv_inited S' = sv_inited S \<and>
       dom (cm_used_map (nt_mgr (sv_net S'))) \<subseteq> dom (cm_used_map (nt_mgr n))" by simp
    with subset_trans [OF _ rm(3)] show ?thesis by auto
  next
    case False
    with Cons.prems(3) obtain q n where run: "conn_run E (sv_net S) c now = Some (q, n)"
      "run_conns_loop E now todo (kept @ [c]) (if q \<ge> 0 then k + 1 else k) (S\<lparr>sv_net := n\<rparr>) = Some (r, S')"
      by (auto split: bind_splits)
    have fr: "srv_frame (sv_net S) n" using conn_run_frame [OF Cons.prems(1) run(1)] .
    have "srv_inv mx n (sv_buffer_mgr S) ((kept @ [c]) @ todo)"
      using srv_inv_frame [OF Cons.prems(2) fr] by simp
    moreover have "nt_mgr n = nt_mgr (sv_net S)" using fr by (simp add: srv_frame_def)
    ultimately show ?thesis using Cons.IH [OF Cons.prems(1) _ run(2)] by auto
  qed
qed auto

lemma run_conns_srv_ok:
  assumes "env_keeps E" "srv_ok S" "run_conns E S now = Some (r, S')"
  shows "srv_ok S' \<and> set (sv_conns S') \<subseteq> set (sv_conns S) \<and> sv_conf S' = sv_conf S \<and>
    sv_id_gene S' = sv_id_gene S \<and> sv_inited S' = sv_inited S"
proof -
  have "srv_inv (unat (sc_max_conn (sv_conf S))) (sv_net S) (sv_buffer_mgr S) ([] @ sv_conns S)"
    using assms(2) by (simp add: srv_ok_def)
  from run_conns_loop_ok [OF assms(1) this assms(3) [unfolded run_conns_def]] assms(2) show ?thesis
    unfolding srv_ok_def by (simp add: subset_eq)
qed

section \<open>Accepting\<close>

definition handlers_return :: "'a env \<Rightarrow> bool" where
  "handlers_return E \<longleftrightarrow> (\<forall>f i n. event_code E f i n \<noteq> None)"

lemma start_recv_frame [simp]: "srv_frame n (start_recv m c) \<longleftrightarrow> srv_frame n m"
  by (simp add: start_recv_def add_pending_def Let_def)

lemma srv_inv_new:
  assumes inv: "srv_inv mx n bm cs" and fl: "cm_free_list (nt_mgr n) = c # fl" and fq: "bm_free_queue bm = b # fq"
    and new: "cm_used_map (nt_mgr n) i = None"
    and mg: "nt_mgr n2 = (nt_mgr n)\<lparr>cm_free_list := fl, cm_used_map := (cm_used_map (nt_mgr n))(i \<mapsto> c)\<rparr>"
    and cc: "tc_id (conn_of n2 c) = i" "tc_buffer (conn_of n2 c) = b" and oth: "\<And>d. d \<noteq> c \<Longrightarrow> conn_of n2 d = conn_of n d"
    and cb: "\<And>p. cb_id (nt_bufs n2 p) = cb_id (nt_bufs n p)"
      "\<And>p. cb_state (nt_bufs n2 p) = (if p = b then JMY_CONN_BUFFER_STATE_USING else cb_state (nt_bufs n p))"
  shows "srv_inv mx n2 (bm\<lparr>bm_free_queue := fq\<rparr>) (cs @ [c])"
proof -
  note I = srv_invD [OF inv]
  have c: "c \<notin> set cs" "c \<noteq> 0" "c \<notin> set fl" using I(1,2) fl by auto
  have b: "b \<in> set (bm_conn_buff_vec bm)" "b \<noteq> 0" "b \<notin> set fq" "b \<notin> (\<lambda>c. tc_buffer (conn_of n c)) ` set cs"
    using I(6,7,9) fq by (auto simp: bm_ok_def)
  have othc: "d \<in> set cs \<Longrightarrow> conn_of n2 d = conn_of n d" for d using oth [of d] c(1) by auto
  have live: "cm_used_map (nt_mgr n2) (tc_id (conn_of n2 d)) = Some d \<and>
      tc_buffer (conn_of n2 d) \<in> set (bm_conn_buff_vec bm) \<and>
      cb_state (nt_bufs n2 (tc_buffer (conn_of n2 d))) \<noteq> JMY_CONN_BUFFER_STATE_IDLE" if "d \<in> set (cs @ [c])" for d
  proof (cases "d = c")
    case True
    then show ?thesis using cc cb(2) b(1) by (simp add: mg)
  next
    case False
    then have d: "d \<in> set cs" using that by simp
    then have "cm_used_map (nt_mgr n) (tc_id (conn_of n d)) = Some d" "tc_id (conn_of n d) \<noteq> i" using I(4) new by fastforce+
    then show ?thesis using othc [OF d] I(8) [OF d] cb(2) by (simp add: mg)
  qed
  have used: "d \<in> set (cs @ [c]) \<and> tc_id (conn_of n2 d) = j" if "cm_used_map (nt_mgr n2) j = Some d" for j d
  proof (cases "j = i")
    case True
    then show ?thesis using that cc by (simp add: mg)
  next
    case False
    then have "d \<in> set cs" "tc_id (conn_of n d) = j" using I(5) [of j d] that by (simp_all add: mg)
    then show ?thesis using othc by simp
  qed
  have "map (\<lambda>c. tc_buffer (conn_of n2 c)) cs = map (\<lambda>c. tc_buffer (conn_of n c)) cs" using othc by simp
  then have "distinct (map (\<lambda>c. tc_buffer (conn_of n2 c)) (cs @ [c]) @ fq)"
    using I(9) fq b(4) cc(2) by (simp del: map_eq_conv)
  moreover have "distinct ((cs @ [c]) @ fl)" "0 \<notin> set (cs @ [c]) \<union> set fl" "length (cs @ [c]) + length fl = mx"
    "length (cs @ [c]) + length fq = 2 * mx" "bm_ok (nt_bufs n2) (bm\<lparr>bm_free_queue := fq\<rparr>)"
    using I(1-3,6,10) fl fq c cb(1) by (auto simp: bm_ok_def)
  ultimately show ?thesis using I(7) live used unfolding srv_inv_def mg by simp
qed

lemma accept_new_ok:
  assumes E: "env_keeps E" "handlers_return E" and ok: "srv_ok S" and room: "length (sv_conns S) < unat (sc_max_conn (sv_conf S))"
    and ids: "ig_curr_id (sv_id_gene S) < INT_MAX"
  shows "\<exists>c S'. accept_new E S = Some (ig_curr_id (sv_id_gene S) + 1, S') \<and> srv_ok S' \<and> sv_conns S' = sv_conns S @ [c] \<and>
    tc_id (conn_of (sv_net S') c) = ig_curr_id (sv_id_gene S) + 1 \<and> sv_conf S' = sv_conf S \<and> sv_inited S' = sv_inited S \<and>
    ig_curr_id (sv_id_gene S') = ig_curr_id (sv_id_gene S) + 1"
proof -
  let ?n = "sv_net S" and ?bm = "sv_buffer_mgr S" and ?g = "sv_id_gene S" and ?cs = "sv_conns S"
  let ?mx = "unat (sc_max_conn (sv_conf S))" and ?cid = "ig_curr_id (sv_id_gene S) + 1"
  from ok have inv: "srv_inv ?mx ?n ?bm ?cs" and g: "id_fresh ?g" "ig_max_id ?g = 0"
    and le: "\<forall>i \<in> dom (cm_used_map (nt_mgr ?n)). i \<le> ig_curr_id ?g"
    and lst: "use_send_buff_list (buff_conf (sc_conn_conf (sv_conf S)))" by (simp_all add: srv_ok_def)
  note I = srv_invD [OF inv]
  have get: "id_get ?g = Some (?cid, ?g\<lparr>ig_curr_id := ?cid\<rparr>)" "?cid \<noteq> 0"
    using id_get_fresh [of ?g 0] g ids by (auto simp: id_room_def id_fresh_def)
  obtain c fl where fl: "cm_free_list (nt_mgr ?n) = c # fl" using I(3) room by (cases "cm_free_list (nt_mgr ?n)") auto
  obtain b fq where fq: "bm_free_queue ?bm = b # fq" using I(10) room by (cases "bm_free_queue ?bm") auto
  have new: "cm_used_map (nt_mgr ?n) ?cid = None" using le by (metis domI linorder_not_le not_None_eq zless_add1_eq)
  define m where "m = (nt_mgr ?n)\<lparr>cm_free_list := fl, cm_used_map := (cm_used_map (nt_mgr ?n))(?cid \<mapsto> c)\<rparr>"
  define n1 where "n1 = upd_conn ((upd_conn ?n c (\<lambda>x. x\<lparr>tc_id := ?cid\<rparr>))\<lparr>nt_mgr := m\<rparr>) c
    (\<lambda>x. x\<lparr>tc_sock_open := True, tc_data_handler := HANDLER_PTR, tc_event_handler := EVENT_PTR\<rparr>)"
  define st where "st = (nt_bufs ?n)(b := (nt_bufs ?n b)\<lparr>cb_state := JMY_CONN_BUFFER_STATE_USING\<rparr>)"
  define buf where "buf = (st b)\<lparr>cb_use_send_list := True, cb_send_buff_list := snd (JmySessionBufferList_init (cb_send_buff_list (st b)) 0 0),
    cb_total_reconn_info := \<lparr>send_count = 0, recv_count = 0\<rparr>\<rparr>"
  define n2 where "n2 = upd_conn (n1\<lparr>nt_bufs := st(b := buf)\<rparr>) c (\<lambda>x. x\<lparr>tc_buffer := b\<rparr>)"
  define n3 where "n3 = start_recv n2 c"
  define evt where "evt = \<lparr>ei_event_id = JMY_EVENT_CONNECT, ei_conn_id = ?cid, ei_param = MGR_PTR, ei_param_l = 0\<rparr>"
  obtain r n4 where n4: "onConnect (event_code E) (nt_events n3 EVENT_PTR) evt n3 = Some (r, n4)"
    using E(2) by (fastforce simp: handlers_return_def onConnect_def eh_dispatch_def)
  let ?S = "S\<lparr>sv_id_gene := ?g\<lparr>ig_curr_id := ?cid\<rparr>, sv_net := n4, sv_buffer_mgr := ?bm\<lparr>bm_free_queue := fq\<rparr>, sv_conns := ?cs @ [c]\<rparr>"
  have free: "getFree ?n ?cid = (Some c, (upd_conn ?n c (\<lambda>x. x\<lparr>tc_id := ?cid\<rparr>))\<lparr>nt_mgr := m\<rparr>)"
    using new fl by (simp add: getFree_def m_def)
  have bufs1: "nt_bufs n1 = nt_bufs ?n" by (simp add: n1_def)
  have one: "getOneBuffer (nt_bufs n1, ?bm) = (Some b, st, ?bm\<lparr>bm_free_queue := fq\<rparr>)"
    using fq bufs1 by (simp add: getOneBuffer_def st_def)
  have init: "JmyConnectionBuffer_init_pool (nt_heap n1, nt_pool n1, st b) (buff_conf (sc_conn_conf (sv_conf S))) =
      Some (nt_heap n1, nt_pool n1, buf)"
    using lst by (simp add: JmyConnectionBuffer_init_pool_def Let_def buf_def)
  have att: "accept_attach E (S\<lparr>sv_id_gene := ?g\<lparr>ig_curr_id := ?cid\<rparr>, sv_net := n1\<rparr>) c ?cid = Some (?cid, ?S)"
    unfolding accept_attach_def using one init n4 [unfolded n3_def n2_def evt_def] by (simp add: Let_def)
  have acc: "accept_new E S = Some (?cid, ?S)"
    unfolding accept_new_def using get free att [unfolded n1_def] by (simp add: Let_def)
  have fr: "srv_frame n2 n4"
    using eh_dispatch_frame [OF E(1) n4 [unfolded onConnect_def]] by (rule srv_frame_trans [rotated]) (simp add: n3_def)
  have inv2: "srv_inv ?mx n2 (?bm\<lparr>bm_free_queue := fq\<rparr>) (?cs @ [c])"
    by (rule srv_inv_new [OF inv fl fq new]) (simp_all add: n2_def n1_def m_def st_def buf_def)
  have inv4: "srv_inv ?mx n4 (?bm\<lparr>bm_free_queue := fq\<rparr>) (?cs @ [c])" using srv_inv_frame [OF inv2 fr] .
  have m4: "nt_mgr n4 = m" using fr by (simp add: srv_frame_def n2_def n1_def)
  have "srv_ok ?S"
  proof -
    have "\<forall>i \<in> dom (cm_used_map m). i \<le> ?cid" using le by (simp add: m_def) (meson domI le_less zless_add1_eq order_trans)
    then show ?thesis using inv4 m4 g lst unfolding srv_ok_def by (simp add: id_fresh_def)
  qed
  moreover have "tc_id (conn_of n4 c) = ?cid" using fr by (simp add: srv_frame_def n2_def n1_def)
  ultimately show ?thesis using acc by (intro exI [of _ c] exI [of _ ?S]) simp
qed

lemma on_accept_ok:
  assumes "env_keeps E" "handlers_return E" "srv_ok S" "length (sv_conns S) < unat (sc_max_conn (sv_conf S))"
    "ig_curr_id (sv_id_gene S) < INT_MAX"
  shows "\<exists>c S'. on_accept E S AcceptOk = Some (sv_inited S, S') \<and> srv_ok S' \<and> sv_conns S' = sv_conns S @ [c] \<and>
    tc_id (conn_of (sv_net S') c) = ig_curr_id (sv_id_gene S) + 1 \<and> sv_conf S' = sv_conf S \<and> sv_inited S' = sv_inited S \<and>
    ig_curr_id (sv_id_gene S') = ig_curr_id (sv_id_gene S) + 1"
proof -
  from accept_new_ok [OF assms] obtain c S' where acc:
    "accept_new E S = Some (ig_curr_id (sv_id_gene S) + 1, S') \<and> srv_ok S' \<and> sv_conns S' = sv_conns S @ [c] \<and>
     tc_id (conn_of (sv_net S') c) = ig_curr_id (sv_id_gene S) + 1 \<and> sv_conf S' = sv_conf S \<and> sv_inited S' = sv_inited S \<and>
     ig_curr_id (sv_id_gene S') = ig_curr_id (sv_id_gene S) + 1" by blast
  moreover have "0 \<le> ig_curr_id (sv_id_gene S)" using assms(3) by (simp add: srv_ok_def id_fresh_def)
  ultimately show ?thesis using assms(4) by (intro exI [of _ c] exI [of _ S']) (simp add: on_accept_def do_accept_def)
qed

section \<open>Histories of a server\<close>

datatype server_op = Accept accept_result | Turn int

definition server_step :: "'a env \<Rightarrow> 'a server \<Rightarrow> server_op \<Rightarrow> 'a server option" where
  "server_step E S x = (case x of Accept a \<Rightarrow> map_option snd (on_accept E S a) | Turn now \<Rightarrow> map_option snd (server_run E S now))"

fun server_ops :: "'a env \<Rightarrow> server_op list \<Rightarrow> 'a server \<Rightarrow> 'a server option" where
  "server_ops E [] S = Some S"
| "server_ops E (x # xs) S = do { S \<leftarrow> server_step E S x; server_ops E xs S }"

definition config_ok :: "JmyServerConfig \<Rightarrow> bool" where
  "config_ok conf \<longleftrightarrow> unat (sc_max_conn conf) < 2 ^ 30 \<and> use_send_buff_list (buff_conf (sc_conn_conf conf))"

lemma config_ok_sizes:
  assumes "config_ok conf"
  shows "sint (sc_max_conn conf) = int (unat (sc_max_conn conf))" "sint (2 * sc_max_conn conf) = 2 * int (unat (sc_max_conn conf))"
proof -
  let ?m = "sc_max_conn conf"
  have m: "unat ?m < 2 ^ 30" using assms by (simp add: config_ok_def)
  have 2: "unat (2 * ?m) = 2 * unat ?m" using m by (simp add: unat_word_ariths)
  have s: "sint w = int (unat w)" if "unat w < 2 ^ 31" for w :: u32
  proof -
    have "uint w < 2 ^ 31" using that by (metis of_nat_less_numeral_power_cancel_iff uint_nat)
    moreover have "- (2 ^ 31) \<le> uint w" by (rule order_trans [of _ 0]) simp_all
    ultimately show ?thesis using signed_take_bit_int_eq_self [of 31 "uint w"] by (simp add: sint_uint)
  qed
  show "sint ?m = int (unat ?m)" "sint (2 * ?m) = 2 * int (unat ?m)" using s [of ?m] s [of "2 * ?m"] m 2 by simp_all
qed

lemma loadConfig_ok:
  assumes conf: "config_ok conf" and load: "loadConfig (new_server h app) conf = Some (True, S)"
  shows "srv_ok S" "sv_conf S = conf" "sv_conns S = []" "ig_curr_id (sv_id_gene S) = 0" "sv_inited S"
proof -
  let ?m = "unat (sc_max_conn conf)" and ?n = "sv_net (new_server h app)"
  from load config_ok_sizes [OF conf] obtain dh ev h' pool r st bm n where
    n: "n = JmyTcpConnectionMgr_init 1 (?n\<lparr>nt_handlers := dh, nt_events := ev\<rparr>) (int ?m) JMY_CONN_TYPE_PASSIVE" and
    bm: "JmyConnectionBufferMgr_init 1 (nt_bufs n) new_buffer_mgr (2 * int ?m) = (r, st, bm)" and
    S: "S = (new_server h app)\<lparr>sv_conf := conf, sv_net := n\<lparr>nt_heap := h', nt_pool := pool, nt_bufs := st\<rparr>,
      sv_buffer_mgr := bm, sv_inited := True\<rparr>"
    by (auto simp: loadConfig_def Let_def new_server_def split: prod.splits if_splits bind_splits)
  have b: "bm_ok st bm" "distinct (bm_free_queue bm)" "length (bm_free_queue bm) = 2 * ?m" "0 \<notin> set (bm_conn_buff_vec bm)"
    using bm_init_ok [OF _ bm] bm by (auto simp: JmyConnectionBufferMgr_init_def Let_def nat_mult_distrib)
  have m: "nt_mgr n = \<lparr>cm_used_map = Map.empty, cm_free_list = map Suc [0..<?m], cm_size = int ?m\<rparr>"
    by (simp add: n JmyTcpConnectionMgr_init_def Let_def new_server_def new_conn_mgr_def)
  show "srv_ok S"
    using b m conf by (simp add: S srv_ok_def srv_inv_def new_server_def id_fresh_def new_id_generator_def config_ok_def
        distinct_map)
qed (use load in \<open>auto simp: loadConfig_def Let_def new_server_def new_id_generator_def split: prod.splits if_splits bind_splits\<close>)

lemma server_step_ok:
  assumes E: "env_keeps E" "handlers_return E" and ok: "srv_ok S" and ids: "ig_curr_id (sv_id_gene S) < INT_MAX"
    and step: "server_step E S x = Some S'"
  shows "srv_ok S' \<and> sv_conf S' = sv_conf S \<and> ig_curr_id (sv_id_gene S') \<le> ig_curr_id (sv_id_gene S) + 1"
proof (cases x)
  case (Accept a)
  show ?thesis
  proof (cases "a = AcceptOk \<and> length (sv_conns S) < unat (sc_max_conn (sv_conf S))")
    case True
    with on_accept_ok [OF E ok _ ids] step Accept show ?thesis by (auto simp: server_step_def)
  next
    case False
    then show ?thesis using step Accept ok by (cases a) (auto simp: server_step_def on_accept_def do_accept_def)
  qed
next
  case (Turn now)
  with step obtain r where "run_conns E S now = Some (r, S')"
    by (auto simp: server_step_def server_run_def split: bind_splits if_splits)
  from run_conns_srv_ok [OF E(1) ok this] show ?thesis by simp
qed

definition small_conf :: JmyServerConfig where
  "small_conf = \<lparr>sc_conn_conf = \<lparr>buff_conf = \<lparr>recv_buff_size = 0, send_buff_size = 0, recv_buff_list_size = 0,
       send_buff_list_size = 0, use_recv_buff_list = True, use_send_buff_list = True\<rparr>,
       handlers = [\<lparr>ih_msg_id = 1, ih_handler = 5\<rparr>], default_msg_handler = nullptr,
       base_event_handlers = \<lparr>conn_handler = 7, disconn_handler = 7, tick_handler = nullptr, timer_handler = nullptr\<rparr>,
       other_event_handlers = [], no_delay = False\<rparr>, sc_listen_ip = ''0.0.0.0'', sc_listen_port = 8000, sc_max_conn = 2\<rparr>"

definition quiet_env :: "nat env" where
  "quiet_env = \<lparr>msg_code = (\<lambda>f i n. Some (1, n)), event_code = (\<lambda>f i n. Some (0, n\<lparr>nt_app := Suc (nt_app n)\<rparr>))\<rparr>"

lemma quiet_env_ok: "env_keeps quiet_env" "handlers_return quiet_env"
  by (simp_all add: env_keeps_def handlers_return_def quiet_env_def srv_frame_def)

lemma small_conf_ok: "config_ok small_conf"
  by (simp add: config_ok_def small_conf_def)

lemma small_load: "\<exists>S. loadConfig (new_server empty_heap 0) small_conf = Some (True, S)"
  by (simp add: loadConfig_def Let_def small_conf_def new_server_def loadMsgHandle_def JmySessionBufferPool_init_def
      buff_size_class_def split: prod.splits)

lemma server_ops_ok:
  assumes E: "env_keeps E" "handlers_return E"
  shows "srv_ok S \<Longrightarrow> ig_curr_id (sv_id_gene S) + int (length xs) \<le> INT_MAX \<Longrightarrow> server_ops E xs S = Some S' \<Longrightarrow>
    srv_ok S' \<and> sv_conf S' = sv_conf S \<and> ig_curr_id (sv_id_gene S') \<le> ig_curr_id (sv_id_gene S) + int (length xs)"
proof (induction xs arbitrary: S)
  case (Cons x xs)
  from Cons.prems(3) obtain S1 where S1: "server_step E S x = Some S1" "server_ops E xs S1 = Some S'" by (auto split: bind_splits)
  have st: "srv_ok S1" "sv_conf S1 = sv_conf S" "ig_curr_id (sv_id_gene S1) \<le> ig_curr_id (sv_id_gene S) + 1"
    using server_step_ok [OF E Cons.prems(1) _ S1(1)] Cons.prems(2) by auto
  show ?case using Cons.IH [OF st(1) _ S1(2)] st(2,3) Cons.prems(2) by auto
qed simp

text \<open>
  C5. The books of a server balance. From a server whose configuration was loaded, let any sequence of
  completed accepts and of turns over the connections happen (fewer than \<open>INT_MAX\<close> of them, the
  application's handlers leaving the books alone). There are never more connections than the configured
  maximum, no connection is listed twice, the id of a listed connection leads back to it, two listed
  connections have different ids and different buffers, and every id the manager knows belongs to a
  listed connection: neither a connection nor a buffer is lost or shared, whatever the order in which
  connections come and go.
\<close>

theorem server_books_balance:
  assumes "env_keeps E" "handlers_return E" "config_ok conf" "loadConfig (new_server h app) conf = Some (True, S0)"
    and "int (length xs) \<le> INT_MAX" "server_ops E xs S0 = Some S"
  shows "length (sv_conns S) \<le> unat (sc_max_conn conf) \<and> distinct (sv_conns S) \<and>
    length (sv_conns S) + length (cm_free_list (nt_mgr (sv_net S))) = unat (sc_max_conn conf) \<and>
    (\<forall>c \<in> set (sv_conns S). mgr_get (sv_net S) (tc_id (conn_of (sv_net S) c)) = Some c) \<and>
    inj_on (\<lambda>c. tc_id (conn_of (sv_net S) c)) (set (sv_conns S)) \<and>
    inj_on (\<lambda>c. tc_buffer (conn_of (sv_net S) c)) (set (sv_conns S)) \<and>
    (\<forall>i c. mgr_get (sv_net S) i = Some c \<longrightarrow> c \<in> set (sv_conns S))"
proof -
  note L = loadConfig_ok [OF assms(3,4)]
  from server_ops_ok [OF assms(1,2) L(1) _ assms(6)] L(2,4) assms(5)
  have "srv_inv (unat (sc_max_conn conf)) (sv_net S) (sv_buffer_mgr S) (sv_conns S)" by (auto simp: srv_ok_def)
  note I = srv_invD [OF this]
  have "inj_on (\<lambda>c. tc_id (conn_of (sv_net S) c)) (set (sv_conns S))"
    by (rule inj_onI) (metis I(4) option.inject)
  moreover have "inj_on (\<lambda>c. tc_buffer (conn_of (sv_net S) c)) (set (sv_conns S))" using I(9) by (simp add: distinct_map)
  ultimately show ?thesis using I(1,3,4,5) by (simp add: mgr_get_def)
qed

theorem server_books_balance_witness:
  "\<exists>S0 S. loadConfig (new_server empty_heap 0) small_conf = Some (True, S0) \<and>
    server_ops quiet_env [Accept AcceptOk, Accept AcceptOk, Accept AcceptRetry] S0 = Some S \<and>
    length (sv_conns S) = 2 \<and> distinct (sv_conns S) \<and>
    inj_on (\<lambda>c. tc_buffer (conn_of (sv_net S) c)) (set (sv_conns S))"
proof -
  obtain S0 where S0: "loadConfig (new_server empty_heap (0 :: nat)) small_conf = Some (True, S0)" using small_load by blast
  note L = loadConfig_ok [OF small_conf_ok S0]
  obtain S1 where 1: "on_accept quiet_env S0 AcceptOk = Some (True, S1)" "srv_ok S1" "length (sv_conns S1) = 1"
    "sv_conf S1 = small_conf" "sv_inited S1" "ig_curr_id (sv_id_gene S1) = 1"
    using on_accept_ok [OF quiet_env_ok L(1)] L by (auto simp: small_conf_def)
  obtain S2 where 2: "on_accept quiet_env S1 AcceptOk = Some (True, S2)" "length (sv_conns S2) = 2"
    using on_accept_ok [OF quiet_env_ok 1(2)] 1 by (auto simp: small_conf_def)
  have run: "server_ops quiet_env [Accept AcceptOk, Accept AcceptOk, Accept AcceptRetry] S0 = Some S2"
    using 1 2 by (simp add: server_step_def on_accept_def do_accept_def)
  from server_books_balance [OF quiet_env_ok small_conf_ok S0 _ run] 2(2) S0 run show ?thesis by auto
qed

text \<open>
  C6. A server with room accepts. In every state such a history reaches with fewer connections than the
  maximum, the completion of an accept returns (no null connection or buffer is dereferenced), the new
  connection is added at the end of the list under an id no connection has ever had, and the next
  accept is started.
\<close>

theorem server_accepts_while_room:
  assumes "env_keeps E" "handlers_return E" "config_ok conf" "loadConfig (new_server h app) conf = Some (True, S0)"
    and "int (length xs) < INT_MAX" "server_ops E xs S0 = Some S" "length (sv_conns S) < unat (sc_max_conn conf)"
  shows "\<exists>c S'. on_accept E S AcceptOk = Some (sv_inited S, S') \<and> sv_conns S' = sv_conns S @ [c] \<and>
    tc_id (conn_of (sv_net S') c) = ig_curr_id (sv_id_gene S) + 1 \<and> mgr_get (sv_net S) (ig_curr_id (sv_id_gene S) + 1) = None"
proof -
  note L = loadConfig_ok [OF assms(3,4)]
  from server_ops_ok [OF assms(1,2) L(1) _ assms(6)] L(2,4) assms(5)
  have S: "srv_ok S" "sv_conf S = conf" "ig_curr_id (sv_id_gene S) < INT_MAX" by auto
  from on_accept_ok [OF assms(1,2) S(1) _ S(3)] assms(7) S(2) obtain c S' where
    "on_accept E S AcceptOk = Some (sv_inited S, S')" "sv_conns S' = sv_conns S @ [c]"
    "tc_id (conn_of (sv_net S') c) = ig_curr_id (sv_id_gene S) + 1" by auto
  moreover have "\<forall>i \<in> dom (cm_used_map (nt_mgr (sv_net S))). i \<le> ig_curr_id (sv_id_gene S)"
    using S(1) by (simp add: srv_ok_def)
  then have "mgr_get (sv_net S) (ig_curr_id (sv_id_gene S) + 1) = None"
    unfolding mgr_get_def by (metis domIff linorder_not_le zless_add1_eq order_refl)
  ultimately show ?thesis by blast
qed

theorem server_accepts_while_room_witness:
  "\<exists>S0 c S'. loadConfig (new_server empty_heap 0) small_conf = Some (True, S0) \<and>
    on_accept quiet_env S0 AcceptOk = Some (True, S') \<and> sv_conns S' = [c] \<and> tc_id (conn_of (sv_net S') c) = 1"
proof -
  obtain S0 where S0: "loadConfig (new_server empty_heap (0 :: nat)) small_conf = Some (True, S0)" using small_load by blast
  note L = loadConfig_ok [OF small_conf_ok S0]
  from server_accepts_while_room [OF quiet_env_ok small_conf_ok S0, of "[]" S0] L S0 show ?thesis
    by (auto simp: small_conf_def)
qed

end
