(* ===== verification/Tcp_Client.thy ===== *)
theory Tcp_Client
  imports Connection_Lifecycle Id_Generator
begin

text \<open>
  The active side: \<open>JmyTcpClient\<close> and \<open>JmyTcpClientMaster\<close> of \<open>libjmy/jmy_tcp_client.h\<close> and \<open>.cpp\<close>,
  \<open>JmyTcpClientSet\<close> of \<open>libjmy/jmy_tcp_client_set.cpp\<close> with its reconnection, and \<open>JmyTcpClients\<close> of
  \<open>libjmy/jmy_tcp_clients.cpp\<close>. A client is a pointer to a connection with an end point. Addresses of
  new objects are arguments; the outcome of a blocking connect is an argument too.
\<close>

record JmyClientConfig =
  cl_conn_conf :: JmyConnectionConfig
  cl_is_reconnect :: bool
  cl_reconnect_interval :: int

record JmyClientsConfig =
  cs_conn_conf :: JmyConnectionConfig
  cs_conn_ip :: string
  cs_conn_port :: u16
  cs_max_conn :: u32

record JmyTcpClient =
  cl_conn :: nat
  cl_ep :: "string \<times> u16"

section \<open>JmyTcpClient\<close>

definition client_close :: "'a net \<Rightarrow> JmyTcpClient \<Rightarrow> int \<Rightarrow> 'a net option" where
  "client_close n cl now = (if cl_conn cl \<noteq> 0 then conn_close n (cl_conn cl) now else Some n)"

definition client_reset :: "'a net \<Rightarrow> JmyTcpClient \<Rightarrow> 'a net" where
  "client_reset n cl = (if cl_conn cl \<noteq> 0 then upd_conn n (cl_conn cl) conn_reset else n)"

definition client_connect :: "'a env \<Rightarrow> 'a net \<Rightarrow> JmyTcpClient \<Rightarrow> bool \<Rightarrow> bool \<Rightarrow> (bool \<times> 'a net) option" where
  "client_connect E n cl non_blocking ok =
     (if non_blocking then Some (True, asynConnect n (cl_conn cl)) else conn_connect E n (cl_conn cl) ok)"

text \<open>
  \<open>start\<close>: the data handler, event handler and buffer are created at the addresses \<open>dh\<close>, \<open>ev\<close> and \<open>b\<close>. Without
  handlers in the configuration the connection gets no data handler.
\<close>

definition client_start ::
    "'a env \<Rightarrow> 'a net \<Rightarrow> JmyTcpClient \<Rightarrow> JmyClientConfig \<Rightarrow> nat \<Rightarrow> nat \<Rightarrow> nat \<Rightarrow> bool \<Rightarrow> bool \<Rightarrow> (bool \<times> 'a net) option" where
  "client_start E n cl conf dh ev b non_blocking ok = do {
     let cc = cl_conn_conf conf;
     let c = cl_conn cl;
     require (c \<noteq> 0);
     let n = (if handlers cc \<noteq> [] then
         let (r, d) = loadMsgHandle new_data_handler2 (handlers cc);
             d = setDefaultMsgHandler d (default_msg_handler cc)
         in upd_conn (n\<lparr>nt_handlers := (nt_handlers n)(dh := d)\<rparr>) c (\<lambda>x. x\<lparr>tc_data_handler := dh\<rparr>)
       else n);
     m \<leftarrow> eh_init (setBaseHandlers new_event_handler_mgr (base_event_handlers cc)) (other_event_handlers cc);
     let n = upd_conn (n\<lparr>nt_events := (nt_events n)(ev := m)\<rparr>) c (\<lambda>x. x\<lparr>tc_event_handler := ev\<rparr>);
     (h, buf) \<leftarrow> JmyConnectionBuffer_init (nt_heap n, new_connection_buffer) (buff_conf cc);
     let n = upd_conn (n\<lparr>nt_heap := h, nt_bufs := (nt_bufs n)(b := buf)\<rparr>) c (\<lambda>x. x\<lparr>tc_buffer := b\<rparr>);
     client_connect E n cl non_blocking ok
   }"

definition client_reconnect :: "'a env \<Rightarrow> 'a net \<Rightarrow> JmyTcpClient \<Rightarrow> bool \<Rightarrow> bool \<Rightarrow> (bool \<times> 'a net) option" where
  "client_reconnect E n cl non_blocking ok =
     (if tc_state (conn_of n (cl_conn cl)) \<noteq> JMY_CONN_STATE_NOT_CONNECT then Some (False, n)
      else client_connect E n cl non_blocking ok)"

definition client_send :: "'a net \<Rightarrow> JmyTcpClient \<Rightarrow> i32 \<Rightarrow> cptr \<Rightarrow> u32 \<Rightarrow> (int \<times> 'a net) option" where
  "client_send n cl msg_id data len =
     (if cl_conn cl = 0 then Some (- 1, n) else send n (cl_conn cl) msg_id data len)"

definition client_run :: "'a env \<Rightarrow> 'a net \<Rightarrow> JmyTcpClient \<Rightarrow> int \<Rightarrow> (int \<times> 'a net) option" where
  "client_run E n cl now =
     (if cl_conn cl = 0 then Some (- 1, n)
      else if tc_state (conn_of n (cl_conn cl)) = JMY_CONN_STATE_CONNECTING then Some (0, n)
      else if tc_state (conn_of n (cl_conn cl)) = JMY_CONN_STATE_DISCONNECTED then Some (- 1, n)
      else conn_run E n (cl_conn cl) now)"

section \<open>JmyTcpClientMaster\<close>

record 'a master =
  ms_net :: "'a net"
  ms_clients :: "nat \<Rightarrow> JmyTcpClient"
  ms_gene_clients :: "nat set"
  ms_id_gen :: JmyIdGenerator
  ms_used_ids :: "int set"
  ms_free_ids :: "int list"
  ms_max_count :: int
  ms_inited :: bool

definition new_master :: "'a net \<Rightarrow> 'a master" where
  "new_master n = \<lparr>ms_net = n, ms_clients = (\<lambda>_. \<lparr>cl_conn = 0, cl_ep = ([], 0)\<rparr>), ms_gene_clients = {},
     ms_id_gen = new_id_generator 0, ms_used_ids = {}, ms_free_ids = [], ms_max_count = 0, ms_inited = False\<rparr>"

definition master_init :: "nat \<Rightarrow> 'a master \<Rightarrow> int \<Rightarrow> 'a master" where
  "master_init base M max_client_size =
     (if ms_inited M then M
      else M\<lparr>ms_net := JmyTcpConnectionMgr_init base (ms_net M) max_client_size JMY_CONN_TYPE_ACTIVE,
             ms_max_count := max_client_size, ms_inited := True\<rparr>)"

definition master_close :: "'a master \<Rightarrow> 'a master" where
  "master_close M = M\<lparr>ms_inited := False, ms_max_count := 0, ms_used_ids := {}, ms_free_ids := [],
     ms_id_gen := id_reset (ms_id_gen M), ms_gene_clients := {}\<rparr>"

text \<open>\<open>generate\<close> returns the address of the client, or 0; \<open>p\<close> is the address of the new object.\<close>

definition generate :: "'a master \<Rightarrow> nat \<Rightarrow> (nat \<times> 'a master) option" where
  "generate M p =
     (if int (card (ms_used_ids M)) \<ge> ms_max_count M then Some (0, M)
      else do {
        (cid, c, M) \<leftarrow> (case ms_free_ids M of
            [] \<Rightarrow> do {
              (cid, g) \<leftarrow> id_get (ms_id_gen M);
              let (c, n) = getFree (ms_net M) cid;
              Some (cid, c, M\<lparr>ms_id_gen := g, ms_net := n\<rparr>)
            }
          | cid # _ \<Rightarrow> Some (cid, mgr_get (ms_net M) cid,
              (case mgr_get (ms_net M) cid of None \<Rightarrow> M
               | Some c \<Rightarrow> M\<lparr>ms_net := upd_conn (ms_net M) c conn_reset\<rparr>)));
        case c of
          None \<Rightarrow> Some (0, M)
        | Some c \<Rightarrow> Some (p, M\<lparr>ms_used_ids := insert cid (ms_used_ids M),
            ms_clients := (ms_clients M)(p := \<lparr>cl_conn = c, cl_ep = ([], 0)\<rparr>),
            ms_gene_clients := insert p (ms_gene_clients M)\<rparr>)
      })"

definition recycle :: "'a master \<Rightarrow> nat \<Rightarrow> bool \<times> 'a master" where
  "recycle M p =
     (if p \<notin> ms_gene_clients M then (False, M)
      else (True, M\<lparr>ms_net := snd (mgr_free (ms_net M) (cl_conn (ms_clients M p))),
                    ms_gene_clients := ms_gene_clients M - {p}\<rparr>))"

section \<open>JmyTcpClientSet\<close>

record ClientData =
  cd_conf :: "JmyClientConfig option"
  cd_last_point :: int

text \<open>The map from clients to their data, in the order in which it is iterated.\<close>

type_synonym client_set = "(nat \<times> ClientData) list"

definition addClient :: "client_set \<Rightarrow> nat \<Rightarrow> JmyClientConfig option \<Rightarrow> bool \<times> client_set" where
  "addClient s p conf =
     (if map_of s p \<noteq> None then (False, s) else (True, s @ [(p, \<lparr>cd_conf = conf, cd_last_point = 0\<rparr>)]))"

definition removeClient :: "client_set \<Rightarrow> nat \<Rightarrow> bool \<times> client_set" where
  "removeClient s p = (if map_of s p = None then (False, s) else (True, filter (\<lambda>(q, d). q \<noteq> p) s))"

definition client_set_clear :: "client_set \<Rightarrow> client_set" where
  "client_set_clear s = []"

text \<open>\<open>duration_cast\<close> to seconds truncates towards zero.\<close>

definition seconds :: "int \<Rightarrow> int" where
  "seconds d = (if 0 \<le> d then d div MICROS else - ((- d) div MICROS))"

definition client_turn :: "'a env \<Rightarrow> int \<Rightarrow> 'a net \<Rightarrow> JmyTcpClient \<Rightarrow> ClientData \<Rightarrow> ('a net \<times> ClientData) option" where
  "client_turn E now n cl d =
     (case cd_conf d of
        None \<Rightarrow> Some (n, d)
      | Some cf \<Rightarrow> do {
          require (cl_conn cl \<noteq> 0);
          let state = tc_state (conn_of n (cl_conn cl));
          (n, d) \<leftarrow>
            (if \<not> cl_is_reconnect cf then Some (n, d)
             else if state = JMY_CONN_STATE_DISCONNECTED then Some (client_reset n cl, d\<lparr>cd_last_point := now\<rparr>)
             else if state = JMY_CONN_STATE_NOT_CONNECT \<and> seconds (now - cd_last_point d) \<ge> cl_reconnect_interval cf then do {
               (r, n) \<leftarrow> client_reconnect E n cl True False;
               Some (n, d\<lparr>cd_last_point := now\<rparr>)
             } else Some (n, d));
          (r, n) \<leftarrow> client_run E n cl now;
          Some (n, d)
        })"

fun client_set_run :: "'a env \<Rightarrow> int \<Rightarrow> (nat \<Rightarrow> JmyTcpClient) \<Rightarrow> 'a net \<Rightarrow> client_set \<Rightarrow> ('a net \<times> client_set) option" where
  "client_set_run E now cls n [] = Some (n, [])"
| "client_set_run E now cls n ((p, d) # s) = do {
     (n, d) \<leftarrow> (if p = 0 then Some (n, d) else client_turn E now n (cls p) d);
     (n, s) \<leftarrow> client_set_run E now cls n s;
     Some (n, (p, d) # s)
   }"

section \<open>JmyTcpClients\<close>

record 'a clients =
  cs_net :: "'a net"
  cs_max_count :: int
  cs_used_ids :: "int set"
  cs_free_ids :: "int list"
  cs_conf :: JmyClientsConfig
  cs_buffer_mgr :: JmyConnectionBufferMgr
  cs_id_gen :: JmyIdGenerator

definition clients_close :: "'a clients \<Rightarrow> 'a clients" where
  "clients_close C = C\<lparr>cs_used_ids := {}, cs_free_ids := []\<rparr>"

definition clients_destroy :: "'a clients \<Rightarrow> 'a clients" where
  "clients_destroy C = (clients_close C)\<lparr>cs_max_count := 0\<rparr>"

abbreviation (input) CLIENTS_HANDLER :: nat where "CLIENTS_HANDLER \<equiv> 1"

definition clients_loadConfig :: "'a clients \<Rightarrow> JmyClientsConfig \<Rightarrow> bool \<times> 'a clients" where
  "clients_loadConfig C conf =
     (if cs_max_conn conf = 0 then (False, C)
      else
        let cc = cs_conn_conf conf; bc = buff_conf cc;
            n = JmyTcpConnectionMgr_init 1 (cs_net C) (sint (cs_max_conn conf)) JMY_CONN_TYPE_ACTIVE;
            (r, dh) = loadMsgHandle (nt_handlers n CLIENTS_HANDLER) (handlers cc)
        in if \<not> r then (False, C\<lparr>cs_net := n\<rparr>)
           else
             let n = n\<lparr>nt_handlers := (nt_handlers n)(CLIENTS_HANDLER := dh)\<rparr>;
                 (r, h, pool) = JmySessionBufferPool_init (nt_heap n) (nt_pool n) (sint (2 * cs_max_conn conf))
                   (send_buff_size bc) (send_buff_size bc) (recv_buff_size bc) (recv_buff_size bc)
             in if \<not> r then (False, C\<lparr>cs_net := n\<rparr>)
                else
                  let (_, st, bm) = JmyConnectionBufferMgr_init 1 (nt_bufs n) (cs_buffer_mgr C) (sint (2 * cs_max_conn conf))
                  in (True, C\<lparr>cs_net := n\<lparr>nt_heap := h, nt_pool := pool, nt_bufs := st\<rparr>, cs_buffer_mgr := bm, cs_conf := conf\<rparr>))"

text \<open>
  \<open>start\<close>, first half: the connection to use, with its buffer. The result is the id and the connection, or
  0 when the function returns null.
\<close>

definition clients_take :: "'a clients \<Rightarrow> (int \<times> nat \<times> 'a clients) option" where
  "clients_take C =
     (case cs_free_ids C of
        cid # _ \<Rightarrow>
          (case mgr_get (cs_net C) cid of
             None \<Rightarrow> Some (cid, 0, C)
           | Some c \<Rightarrow> Some (cid, c, C\<lparr>cs_net := upd_conn (cs_net C) c conn_reset\<rparr>))
      | [] \<Rightarrow> do {
          (cid, g) \<leftarrow> id_get (cs_id_gen C);
          let (p, n) = getFree (cs_net C) cid;
          let C = C\<lparr>cs_id_gen := g, cs_net := n\<rparr>;
          case p of
            None \<Rightarrow> Some (cid, 0, C)
          | Some c \<Rightarrow>
              let (b, st, bm) = getOneBuffer (nt_bufs n, cs_buffer_mgr C) in
              case b of
                None \<Rightarrow> Some (cid, 0, C)
              | Some b \<Rightarrow> do {
                  (h, pool, buf) \<leftarrow> JmyConnectionBuffer_init_pool (nt_heap n, nt_pool n, st b) (buff_conf (cs_conn_conf (cs_conf C)));
                  let n = upd_conn (n\<lparr>nt_heap := h, nt_pool := pool, nt_bufs := st(b := buf)\<rparr>) c
                    (\<lambda>x. x\<lparr>tc_buffer := b, tc_data_handler := CLIENTS_HANDLER\<rparr>);
                  Some (cid, c, C\<lparr>cs_net := n, cs_buffer_mgr := bm\<rparr>)
                }
        })"

definition clients_start :: "'a env \<Rightarrow> 'a clients \<Rightarrow> bool \<Rightarrow> (nat \<times> 'a clients) option" where
  "clients_start E C ok =
     (if int (card (cs_used_ids C)) \<ge> cs_max_count C then Some (0, C)
      else do {
        (cid, c, C) \<leftarrow> clients_take C;
        if c = 0 then Some (0, C)
        else do {
          (r, n) \<leftarrow> conn_connect E (cs_net C) c ok;
          if \<not> r then Some (0, C\<lparr>cs_net := n\<rparr>)
          else Some (c, C\<lparr>cs_net := start_recv n c, cs_used_ids := insert cid (cs_used_ids C)\<rparr>)
        }
      })"

definition getConnection :: "'a clients \<Rightarrow> int \<Rightarrow> nat option" where
  "getConnection C cid = (if cid \<notin> cs_used_ids C then None else mgr_get (cs_net C) cid)"

definition getState :: "'a clients \<Rightarrow> int \<Rightarrow> JmyConnState" where
  "getState C cid =
     (case getConnection C cid of None \<Rightarrow> JMY_CONN_STATE_NOT_CONNECT | Some c \<Rightarrow> tc_state (conn_of (cs_net C) c))"

definition clients_send :: "'a clients \<Rightarrow> int \<Rightarrow> i32 \<Rightarrow> cptr \<Rightarrow> u32 \<Rightarrow> int \<Rightarrow> (int \<times> 'a clients) option" where
  "clients_send C cid msg_id data len now =
     (case getConnection C cid of
        None \<Rightarrow> Some (0, C)
      | Some c \<Rightarrow> do {
          (res, n) \<leftarrow> send (cs_net C) c msg_id data len;
          if res < 0 then do {
            n \<leftarrow> conn_close n c now;
            Some (res, C\<lparr>cs_net := upd_conn n c conn_reset, cs_used_ids := cs_used_ids C - {cid},
              cs_free_ids := cs_free_ids C @ [cid]\<rparr>)
          } else Some (res, C\<lparr>cs_net := n\<rparr>)
        })"

definition clients_run :: "'a env \<Rightarrow> 'a clients \<Rightarrow> int \<Rightarrow> int \<Rightarrow> (int \<times> 'a clients) option" where
  "clients_run E C cid now =
     (case getConnection C cid of
        None \<Rightarrow> Some (- 1, C)
      | Some c \<Rightarrow> do {
          (res, n) \<leftarrow> conn_run E (cs_net C) c now;
          if res < 0 then
            Some (res, C\<lparr>cs_net := n, cs_used_ids := cs_used_ids C - {cid}, cs_free_ids := cs_free_ids C @ [cid]\<rparr>)
          else Some (res, C\<lparr>cs_net := n\<rparr>)
        })"

text \<open>\<open>startInturn\<close>: \<open>oks\<close> are the outcomes of the connects, one for every connection that is started.\<close>

fun startInturn_loop :: "'a env \<Rightarrow> bool list \<Rightarrow> int \<Rightarrow> 'a clients \<Rightarrow> (int \<times> 'a clients) option" where
  "startInturn_loop E [] c C = Some (c, C)"
| "startInturn_loop E (ok # oks) c C = do {
     (p, C) \<leftarrow> clients_start E C ok;
     if p = 0 then Some (c, C) else startInturn_loop E oks (c + 1) C
   }"

definition startInturn :: "'a env \<Rightarrow> 'a clients \<Rightarrow> int \<Rightarrow> bool list \<Rightarrow> (int \<times> 'a clients) option" where
  "startInturn E C k oks = startInturn_loop E (take (nat (min (cs_max_count C) k)) oks) 0 C"

fun connection_send :: "i32 \<Rightarrow> cptr \<Rightarrow> u32 \<Rightarrow> int list \<Rightarrow> int \<times> 'a net \<Rightarrow> (int \<times> 'a net) option" where
  "connection_send msg_id data len [] (k, n) = Some (k, n)"
| "connection_send msg_id data len (cid # cids) (k, n) =
     (case mgr_get n cid of
        None \<Rightarrow> connection_send msg_id data len cids (k, n)
      | Some c \<Rightarrow> do {
          (res, n) \<leftarrow> send n c msg_id data len;
          connection_send msg_id data len cids (if res > 0 then k + 1 else k, n)
        })"

fun connection_run :: "'a env \<Rightarrow> int \<Rightarrow> int list \<Rightarrow> int \<times> 'a net \<Rightarrow> (int \<times> 'a net) option" where
  "connection_run E now [] (k, n) = Some (k, n)"
| "connection_run E now (cid # cids) (k, n) =
     (case mgr_get n cid of
        None \<Rightarrow> connection_run E now cids (k, n)
      | Some c \<Rightarrow> do {
          (res, n) \<leftarrow> conn_run E n c now;
          connection_run E now cids (if res \<ge> 0 then k + 1 else k, n)
        })"

text \<open>\<open>std::for_each\<close> counts in a copy of the function object; the count that is returned is the original's.\<close>

definition sendInturn :: "'a clients \<Rightarrow> i32 \<Rightarrow> cptr \<Rightarrow> u32 \<Rightarrow> (int \<times> 'a clients) option" where
  "sendInturn C msg_id data len = do {
     let original = 0;
     (copy, n) \<leftarrow> connection_send msg_id data len (sorted_list_of_set (cs_used_ids C)) (original, cs_net C);
     Some (original, C\<lparr>cs_net := n\<rparr>)
   }"

definition runInturn :: "'a env \<Rightarrow> 'a clients \<Rightarrow> int \<Rightarrow> (int \<times> 'a clients) option" where
  "runInturn E C now = do {
     let original = 0;
     (copy, n) \<leftarrow> connection_run E now (sorted_list_of_set (cs_used_ids C)) (original, cs_net C);
     Some (original, C\<lparr>cs_net := n\<rparr>)
   }"

section \<open>A master runs out of clients\<close>

datatype master_op = Generate nat | Recycle nat

text \<open>A history of a master, with the number of clients it generated.\<close>

fun master_ops :: "master_op list \<Rightarrow> 'a master \<Rightarrow> (nat \<times> 'a master) option" where
  "master_ops [] M = Some (0, M)"
| "master_ops (Generate p # xs) M = do {
     (q, M) \<leftarrow> generate M p;
     (k, M) \<leftarrow> master_ops xs M;
     Some (if q = 0 then k else Suc k, M)
   }"
| "master_ops (Recycle p # xs) M = master_ops xs (snd (recycle M p))"

definition master_inv :: "'a master \<Rightarrow> bool" where
  "master_inv M \<longleftrightarrow> ms_free_ids M = [] \<and> id_fresh (ms_id_gen M) \<and> ig_max_id (ms_id_gen M) = 0 \<and> finite (ms_used_ids M) \<and>
     (\<forall>i \<in> ms_used_ids M. i \<le> ig_curr_id (ms_id_gen M)) \<and> int (card (ms_used_ids M)) \<le> max 0 (ms_max_count M)"

lemma id_get_unbounded:
  assumes "id_fresh g" "ig_max_id g = 0" "id_get g = Some (i, g')"
  shows "i = ig_curr_id g + 1 \<and> g' = g\<lparr>ig_curr_id := i\<rparr>"
  using assms by (auto simp: id_get_def id_next_def id_fresh_def Let_def split: bind_splits if_splits)

lemma recycle_inv:
  "master_inv M \<Longrightarrow> master_inv (snd (recycle M p)) \<and> ms_used_ids (snd (recycle M p)) = ms_used_ids M \<and>
   ms_max_count (snd (recycle M p)) = ms_max_count M"
  by (simp add: recycle_def master_inv_def)

lemma generate_inv:
  assumes inv: "master_inv M" and gen: "generate M p = Some (q, M')" and p: "p \<noteq> 0"
  shows "master_inv M' \<and> ms_max_count M' = ms_max_count M \<and>
    card (ms_used_ids M') = (if q = 0 then card (ms_used_ids M) else Suc (card (ms_used_ids M)))"
proof (cases "int (card (ms_used_ids M)) \<ge> ms_max_count M")
  case False
  let ?g = "ms_id_gen M"
  from inv have I: "ms_free_ids M = []" "id_fresh ?g" "ig_max_id ?g = 0" "finite (ms_used_ids M)"
    "\<forall>i \<in> ms_used_ids M. i \<le> ig_curr_id ?g" by (simp_all add: master_inv_def)
  from False gen I(1) obtain i g where get: "id_get ?g = Some (i, g)"
    by (auto simp: generate_def split: bind_splits)
  have ig: "i = ig_curr_id ?g + 1" "g = ?g\<lparr>ig_curr_id := i\<rparr>" using id_get_unbounded [OF I(2,3) get] by auto
  have new: "i \<notin> ms_used_ids M" using I(5) ig(1) by auto
  obtain c n where free: "getFree (ms_net M) i = (c, n)" by (cases "getFree (ms_net M) i")
  have le: "\<forall>j \<in> ms_used_ids M. j \<le> i" using I(5) ig(1) by auto
  show ?thesis
  proof (cases c)
    case None
    then have "q = 0" "M' = M\<lparr>ms_id_gen := g, ms_net := n\<rparr>" using gen False I(1) get free by (auto simp: generate_def)
    then show ?thesis using inv le ig by (auto simp: master_inv_def id_fresh_def)
  next
    case (Some c')
    then have "q = p" "M' = M\<lparr>ms_id_gen := g, ms_net := n, ms_used_ids := insert i (ms_used_ids M),
        ms_clients := (ms_clients M)(p := \<lparr>cl_conn = c', cl_ep = ([], 0)\<rparr>), ms_gene_clients := insert p (ms_gene_clients M)\<rparr>"
      using gen False I(1) get free by (auto simp: generate_def)
    then show ?thesis using inv le ig new False p I(4) by (auto simp: master_inv_def id_fresh_def)
  qed
qed (use inv gen in \<open>auto simp: generate_def\<close>)

fun op_addr_ok :: "master_op \<Rightarrow> bool" where
  "op_addr_ok (Generate p) = (p \<noteq> 0)"
| "op_addr_ok (Recycle p) = True"

lemma master_ops_inv:
  "master_inv M \<Longrightarrow> list_all op_addr_ok xs \<Longrightarrow> master_ops xs M = Some (k, M') \<Longrightarrow>
   master_inv M' \<and> ms_max_count M' = ms_max_count M \<and> card (ms_used_ids M') = card (ms_used_ids M) + k"
proof (induction xs M arbitrary: k rule: master_ops.induct)
  case (2 p xs M)
  from "2.prems"(3) obtain q M1 k' where st: "generate M p = Some (q, M1)" "master_ops xs M1 = Some (k', M')"
    "k = (if q = 0 then k' else Suc k')" by (auto split: bind_splits if_splits)
  from generate_inv [OF "2.prems"(1) st(1)] "2.prems"(2) have "master_inv M1" "ms_max_count M1 = ms_max_count M"
    "card (ms_used_ids M1) = (if q = 0 then card (ms_used_ids M) else Suc (card (ms_used_ids M)))" by simp_all
  with "2.IH" [OF st(1) HOL.refl, of k'] "2.prems"(2) st show ?case by auto
next
  case (3 p xs M)
  then show ?case using recycle_inv [OF "3.prems"(1), of p] by simp
qed auto

text \<open>
  A master generates a bounded number of clients in its life. Over any history of \<open>generate\<close> and
  \<open>recycle\<close> after \<open>init\<close> with a limit, the number of clients generated is at most the limit, and once it
  reaches the limit every further \<open>generate\<close> returns null, no matter how many clients were recycled:
  \<open>recycle\<close> gives the connection back and leaves its id in \<open>used_ids_\<close>.
\<close>

theorem recycle_frees_no_slot:
  assumes "list_all op_addr_ok xs" "0 \<le> limit" "master_ops xs (master_init base (new_master n) limit) = Some (k, M)"
  shows "int k \<le> limit \<and> (int k = limit \<longrightarrow> (\<forall>p. generate M p = Some (0, M)))"
proof -
  let ?M = "master_init base (new_master n) limit"
  have "master_inv ?M" using assms(2)
    by (simp add: master_inv_def master_init_def new_master_def new_id_generator_def id_fresh_def)
  from master_ops_inv [OF this assms(1,3)] assms(2) show ?thesis
    by (auto simp: master_inv_def master_init_def new_master_def generate_def)
qed

theorem recycle_frees_no_slot_witness:
  "\<exists>M. master_ops [Generate 5, Recycle 5] (master_init 1 (new_master (connected_net JMY_CONN_TYPE_ACTIVE 7 ())) 1) = Some (1, M) \<and>
    generate M 6 = Some (0, M)"
proof -
  let ?M = "master_init 1 (new_master (connected_net JMY_CONN_TYPE_ACTIVE 7 ())) 1" and ?xs = "[Generate 5, Recycle 5]"
  obtain M where M: "master_ops ?xs ?M = Some (1, M)"
    by (simp add: generate_def master_init_def new_master_def id_get_def id_next_def new_id_generator_def getFree_def
        JmyTcpConnectionMgr_init_def connected_net_def new_conn_mgr_def Let_def)
  have "list_all op_addr_ok ?xs" by simp
  from recycle_frees_no_slot [OF this _ M] M show ?thesis by auto
qed

section \<open>Reconnection\<close>

fun client_turns :: "'a env \<Rightarrow> JmyTcpClient \<Rightarrow> int list \<Rightarrow> 'a net \<Rightarrow> ClientData \<Rightarrow> ('a net \<times> ClientData) option" where
  "client_turns E cl [] n d = Some (n, d)"
| "client_turns E cl (t # ts) n d = do { (n, d) \<leftarrow> client_turn E t n cl d; client_turns E cl ts n d }"

lemma client_turns_append:
  "client_turns E cl (ts @ us) n d = do { (n, d) \<leftarrow> client_turns E cl ts n d; client_turns E cl us n d }"
  by (induction ts arbitrary: n d) (auto split: Option.bind_split)

lemma no_tick_conn_run:
  "no_tick n c \<Longrightarrow> tc_state (conn_of n c) = JMY_CONN_STATE_NOT_CONNECT \<Longrightarrow> conn_run E n c now = Some (0, n)"
  by (simp add: conn_run_def conn_tick_def no_tick_def)

lemma no_tick_upd_conn [simp]:
  "(\<And>x. tc_event_handler (f x) = tc_event_handler x) \<Longrightarrow> no_tick (upd_conn n c f) c \<longleftrightarrow> no_tick n c"
  by (simp add: no_tick_def)

lemma turn_lost:
  assumes "cl_conn cl \<noteq> 0" "cd_conf d = Some cf" "cl_is_reconnect cf" "no_tick n (cl_conn cl)"
    and "tc_state (conn_of n (cl_conn cl)) = JMY_CONN_STATE_DISCONNECTED"
  shows "client_turn E t n cl d = Some (upd_conn n (cl_conn cl) conn_reset, d\<lparr>cd_last_point := t\<rparr>)"
  using assms by (simp add: client_turn_def client_run_def client_reset_def no_tick_conn_run conn_reset_def)

lemma turn_wait:
  assumes "cl_conn cl \<noteq> 0" "cd_conf d = Some cf" "cl_is_reconnect cf" "no_tick n (cl_conn cl)"
    and "tc_state (conn_of n (cl_conn cl)) = JMY_CONN_STATE_NOT_CONNECT"
    and "seconds (t - cd_last_point d) < cl_reconnect_interval cf"
  shows "client_turn E t n cl d = Some (n, d)"
  using assms by (simp add: client_turn_def client_run_def no_tick_conn_run)

lemma turn_reconnect:
  assumes "cl_conn cl \<noteq> 0" "cd_conf d = Some cf" "cl_is_reconnect cf" "tc_conn_type (conn_of n (cl_conn cl)) = JMY_CONN_TYPE_ACTIVE"
    and "tc_state (conn_of n (cl_conn cl)) = JMY_CONN_STATE_NOT_CONNECT"
    and "cl_reconnect_interval cf \<le> seconds (t - cd_last_point d)"
  shows "client_turn E t n cl d = Some (asynConnect n (cl_conn cl), d\<lparr>cd_last_point := t\<rparr>)"
  using assms by (simp add: client_turn_def client_run_def client_reconnect_def client_connect_def asynConnect_def)

text \<open>
  C31. A lost client is connected again after the reconnection interval and not before. Let the
  connection of a client with reconnection be disconnected, and let turns happen at time \<open>t0\<close>, then at
  any times before the interval is over, then at a time \<open>t1\<close> after it. Up to \<open>t1\<close> the turns only reset the
  connection and start nothing; the turn at \<open>t1\<close> starts exactly one asynchronous connect.
\<close>

theorem lost_client_reconnects:
  assumes "cl_conn cl \<noteq> 0" "cd_conf d = Some cf" "cl_is_reconnect cf" "no_tick n (cl_conn cl)"
    and "tc_conn_type (conn_of n (cl_conn cl)) = JMY_CONN_TYPE_ACTIVE"
    and "tc_state (conn_of n (cl_conn cl)) = JMY_CONN_STATE_DISCONNECTED"
    and "\<forall>t \<in> set ts. seconds (t - t0) < cl_reconnect_interval cf" "cl_reconnect_interval cf \<le> seconds (t1 - t0)"
  shows "client_turns E cl (t0 # ts) n d = Some (upd_conn n (cl_conn cl) conn_reset, d\<lparr>cd_last_point := t0\<rparr>) \<and>
    (\<exists>n'. client_turns E cl (t0 # ts @ [t1]) n d = Some (n', d\<lparr>cd_last_point := t1\<rparr>) \<and>
      tc_state (conn_of n' (cl_conn cl)) = JMY_CONN_STATE_CONNECTING \<and>
      tc_pending (conn_of n' (cl_conn cl)) = tc_pending (conn_of n (cl_conn cl)) @ [Connecting])"
proof -
  let ?c = "cl_conn cl" and ?n = "upd_conn n (cl_conn cl) conn_reset" and ?d = "d\<lparr>cd_last_point := t0\<rparr>"
  have n: "no_tick ?n ?c" "tc_state (conn_of ?n ?c) = JMY_CONN_STATE_NOT_CONNECT" "tc_conn_type (conn_of ?n ?c) = JMY_CONN_TYPE_ACTIVE"
    using assms(4,5) by (simp_all add: conn_reset_def)
  have wait: "client_turns E cl ts ?n ?d = Some (?n, ?d)"
    using assms(7) by (induction ts) (simp_all add: turn_wait [OF assms(1) _ assms(3) n(1,2)] assms(2))
  have first: "client_turn E t0 n cl d = Some (?n, ?d)" by (rule turn_lost [OF assms(1-4,6)])
  have last: "client_turn E t1 ?n cl ?d = Some (asynConnect ?n ?c, d\<lparr>cd_last_point := t1\<rparr>)"
    using turn_reconnect [OF assms(1) _ assms(3) n(3,2), of ?d] assms(2,8) by simp
  have "client_turns E cl (t0 # ts @ [t1]) n d = Some (asynConnect ?n ?c, d\<lparr>cd_last_point := t1\<rparr>)"
    using first wait last by (simp add: client_turns_append)
  moreover have "tc_state (conn_of (asynConnect ?n ?c) ?c) = JMY_CONN_STATE_CONNECTING"
    "tc_pending (conn_of (asynConnect ?n ?c) ?c) = tc_pending (conn_of n ?c) @ [Connecting]"
    using n by (simp_all add: asynConnect_def add_pending_def conn_reset_def assms(5))
  ultimately show ?thesis using first wait by simp
qed

definition lost_net :: "JmyEventInfo list net" where
  "lost_net = upd_conn (connected_net JMY_CONN_TYPE_ACTIVE 7 []) 1
     (\<lambda>x. x\<lparr>tc_state := JMY_CONN_STATE_DISCONNECTED, tc_sock_open := False, tc_pending := []\<rparr>)"

definition reconnect_conf :: JmyClientConfig where
  "reconnect_conf = \<lparr>cl_conn_conf = \<lparr>buff_conf = \<lparr>recv_buff_size = 0, send_buff_size = 0, recv_buff_list_size = 0,
       send_buff_list_size = 0, use_recv_buff_list = True, use_send_buff_list = True\<rparr>, handlers = [],
       default_msg_handler = nullptr, base_event_handlers = \<lparr>conn_handler = 7, disconn_handler = 7,
       tick_handler = nullptr, timer_handler = nullptr\<rparr>, other_event_handlers = [], no_delay = False\<rparr>,
     cl_is_reconnect = True, cl_reconnect_interval = 5\<rparr>"

theorem lost_client_reconnects_witness:
  "\<exists>n'. client_turns log_env \<lparr>cl_conn = 1, cl_ep = (''127.0.0.1'', 80)\<rparr> [1000, 2000000, 5000999, 5001000] lost_net
      \<lparr>cd_conf = Some reconnect_conf, cd_last_point = 0\<rparr> = Some (n', \<lparr>cd_conf = Some reconnect_conf, cd_last_point = 5001000\<rparr>) \<and>
    tc_state (conn_of n' 1) = JMY_CONN_STATE_CONNECTING \<and> tc_pending (conn_of n' 1) = [Connecting]"
proof -
  let ?cl = "\<lparr>cl_conn = 1, cl_ep = (''127.0.0.1'', 80)\<rparr>" and ?d = "\<lparr>cd_conf = Some reconnect_conf, cd_last_point = 0\<rparr>"
  have "no_tick lost_net 1" "tc_state (conn_of lost_net 1) = JMY_CONN_STATE_DISCONNECTED"
    "tc_conn_type (conn_of lost_net 1) = JMY_CONN_TYPE_ACTIVE" "tc_pending (conn_of lost_net 1) = []"
    by (simp_all add: lost_net_def no_tick_def hasTickHandler_def) (simp_all add: connected_net_defs)
  with lost_client_reconnects [of ?cl ?d reconnect_conf lost_net "[2000000, 5000999]" 1000 5001000 log_env]
  show ?thesis by (simp add: reconnect_conf_def seconds_def)
qed

section \<open>JmyTcpClients never gets a connection\<close>

definition unheard :: "'a clients \<Rightarrow> bool" where
  "unheard C \<longleftrightarrow> cs_used_ids C = {} \<and> cs_free_ids C = [] \<and> (\<forall>c. tc_event_handler (conn_of (cs_net C) c) = 0)"

lemma handle_event_null: "tc_event_handler (conn_of n c) = 0 \<Longrightarrow> handle_event E n c e p = None"
  by (simp add: handle_event_def Let_def)

lemma getFree_unheard:
  "getFree n cid = (p, n') \<Longrightarrow> tc_event_handler (conn_of n' c) = tc_event_handler (conn_of n c)"
  by (auto simp: getFree_def split: if_splits list.splits)

lemma clients_take_unheard:
  assumes "unheard C" "clients_take C = Some (cid, c, C')"
  shows "unheard C'"
proof -
  from assms have ids: "cs_free_ids C = []" by (simp add: unheard_def)
  from assms(2) ids obtain g p n where st: "id_get (cs_id_gen C) = Some (cid, g)" "getFree (cs_net C) cid = (p, n)"
    by (auto simp: clients_take_def Let_def split: bind_splits prod.splits option.splits)
  have n: "tc_event_handler (conn_of n d) = 0" for d
    using getFree_unheard [OF st(2)] assms(1) by (simp add: unheard_def)
  show ?thesis using assms ids st n
    by (auto simp: clients_take_def unheard_def Let_def split: bind_splits prod.splits option.splits)
qed

lemma clients_start_unheard:
  assumes inv: "unheard C" and run: "clients_start E C ok = Some (p, C')"
  shows "p = 0 \<and> unheard C'"
proof (cases "int (card (cs_used_ids C)) \<ge> cs_max_count C")
  case False
  with run obtain cid c C1 where take: "clients_take C = Some (cid, c, C1)" by (auto simp: clients_start_def split: bind_splits)
  have inv1: "unheard C1" by (rule clients_take_unheard [OF inv take])
  show ?thesis
  proof (cases "c = 0")
    case False
    with run take \<open>\<not> int (card (cs_used_ids C)) \<ge> cs_max_count C\<close> obtain r n where con: "conn_connect E (cs_net C1) c ok = Some (r, n)"
      by (auto simp: clients_start_def split: bind_splits)
    have "handle_event E (upd_conn (cs_net C1) c (\<lambda>x. x\<lparr>tc_sock_open := True, tc_state := JMY_CONN_STATE_CONNECTED\<rparr>)) c
        JMY_EVENT_CONNECT 0 = None"
      using inv1 by (simp add: handle_event_null unheard_def)
    with con have "\<not> r" "n = cs_net C1" by (auto simp: conn_connect_def Let_def split: if_splits)
    then show ?thesis using run take False \<open>\<not> int (card (cs_used_ids C)) \<ge> cs_max_count C\<close> inv1 con by (simp add: clients_start_def)
  qed (use run take inv1 False in \<open>simp add: clients_start_def\<close>)
qed (use inv run in \<open>simp add: clients_start_def\<close>)

fun clients_starts :: "'a env \<Rightarrow> bool list \<Rightarrow> 'a clients \<Rightarrow> 'a clients option" where
  "clients_starts E [] C = Some C"
| "clients_starts E (ok # oks) C = do { (p, C) \<leftarrow> clients_start E C ok; clients_starts E oks C }"

lemma clients_starts_unheard: "unheard C \<Longrightarrow> clients_starts E oks C = Some C' \<Longrightarrow> unheard C'"
  by (induction oks arbitrary: C) (auto split: bind_splits dest: clients_start_unheard)

definition new_clients :: "heap \<Rightarrow> 'a \<Rightarrow> int \<Rightarrow> JmyClientsConfig \<Rightarrow> 'a clients" where
  "new_clients h app max_count conf =
     \<lparr>cs_net = \<lparr>nt_heap = h, nt_pool = new_session_pool, nt_bufs = (\<lambda>_. new_connection_buffer),
        nt_handlers = (\<lambda>_. new_data_handler2), nt_events = (\<lambda>_. new_event_handler_mgr),
        nt_conns = (\<lambda>_. new_connection JMY_CONN_TYPE_ACTIVE), nt_mgr = new_conn_mgr, nt_app = app\<rparr>,
      cs_max_count = max_count, cs_used_ids = {}, cs_free_ids = [], cs_conf = conf,
      cs_buffer_mgr = new_buffer_mgr, cs_id_gen = new_id_generator 0\<rparr>"

lemma clients_load_unheard:
  "clients_loadConfig (new_clients h app m conf0) conf = (r, C) \<Longrightarrow> unheard C"
  by (auto simp: clients_loadConfig_def unheard_def new_clients_def Let_def JmyTcpConnectionMgr_init_def conn_of_def
      new_connection_def split: if_splits prod.splits)

text \<open>
  \<open>JmyTcpClients\<close> never hands out a connection. After loading any configuration and any number of
  attempts with any outcomes, a further \<open>start\<close> that returns at all returns null, no connection is known,
  and sending to any id returns 0. A connect that succeeds dereferences the event handler, which
  nothing sets, so that it has no defined result.
\<close>

theorem clients_start_never_succeeds:
  assumes "clients_loadConfig (new_clients h app m conf0) conf = (r, C0)" "clients_starts E oks C0 = Some C"
  shows "getConnection C cid = None \<and> clients_send C cid msg_id data len now = Some (0, C) \<and>
    (\<forall>ok p C'. clients_start E C ok = Some (p, C') \<longrightarrow> p = 0)"
proof -
  have "unheard C" using clients_starts_unheard [OF clients_load_unheard [OF assms(1)] assms(2)] .
  moreover have "cs_used_ids C = {}" using calculation by (simp add: unheard_def)
  moreover have "clients_start E C ok = Some (p, C') \<Longrightarrow> p = 0" for ok p C'
    using clients_start_unheard [OF \<open>unheard C\<close>] by blast
  ultimately show ?thesis by (simp add: getConnection_def clients_send_def)
qed

definition clients_conf :: JmyClientsConfig where
  "clients_conf = \<lparr>cs_conn_conf = (cl_conn_conf reconnect_conf)\<lparr>handlers := [\<lparr>ih_msg_id = 1, ih_handler = 5\<rparr>]\<rparr>,
     cs_conn_ip = ''127.0.0.1'', cs_conn_port = 80, cs_max_conn = 2\<rparr>"

theorem clients_start_never_succeeds_witness:
  "\<exists>C. clients_loadConfig (new_clients empty_heap [] 10 clients_conf) clients_conf = (True, C) \<and>
    clients_start log_env C True = None \<and> getConnection C 1 = None"
proof -
  let ?C = "new_clients empty_heap ([] :: JmyEventInfo list) 10 clients_conf"
  have "\<exists>h pool. JmySessionBufferPool_init empty_heap new_session_pool 4 0 0 0 0 = (True, h, pool)"
    by (simp add: JmySessionBufferPool_init_def buff_size_class_def split: prod.splits)
  then obtain h pool where pool: "JmySessionBufferPool_init empty_heap new_session_pool 4 0 0 0 0 = (True, h, pool)" by blast
  obtain C0 where load: "clients_loadConfig ?C clients_conf = (True, C0)" and
      C0: "cs_used_ids C0 = {}" "cs_free_ids C0 = []" "cs_id_gen C0 = new_id_generator 0" "cs_max_count C0 = 10"
        "cm_used_map (nt_mgr (cs_net C0)) = Map.empty" "cm_free_list (nt_mgr (cs_net C0)) = [1, 2]"
        "bm_free_queue (cs_buffer_mgr C0) = [1, 2, 3, 4]" "cs_conf C0 = clients_conf"
        "\<And>c. conn_of (cs_net C0) c = new_connection JMY_CONN_TYPE_ACTIVE"
    by (simp add: clients_loadConfig_def Let_def clients_conf_def new_clients_def loadMsgHandle_def reconnect_conf_def
        pool JmyTcpConnectionMgr_init_def JmyConnectionBufferMgr_init_def
        new_conn_mgr_def new_buffer_mgr_def conn_of_def upt_rec)
  have "clients_start log_env C0 True = None"
    using C0 by (simp add: clients_start_def clients_take_def id_get_def id_next_def new_id_generator_def getFree_def
        getOneBuffer_def JmyConnectionBuffer_init_pool_def clients_conf_def reconnect_conf_def conn_connect_def
        handle_event_null new_connection_def Let_def)
  with clients_start_never_succeeds [OF load, of log_env "[]" C0 1] load show ?thesis by simp
qed

end
