(* ===== verification/Bi_Map.thy ===== *)
theory Bi_Map
  imports Data_Handler2
begin

text \<open>
  \<open>BiMap\<close> of \<open>common/bi_map.h\<close>: a map that is searched from both sides. Both removals read through an
  iterator after the element it points to was erased, so that they have no defined result when the
  key is present.
\<close>

record ('a, 'b) BiMap =
  one_map :: "'a \<Rightarrow> 'b option"
  two_map :: "'b \<Rightarrow> 'a option"

definition new_bimap :: "('a, 'b) BiMap" where
  "new_bimap = \<lparr>one_map = Map.empty, two_map = Map.empty\<rparr>"

definition bimap_clear :: "('a, 'b) BiMap \<Rightarrow> ('a, 'b) BiMap" where
  "bimap_clear m = m\<lparr>one_map := Map.empty, two_map := Map.empty\<rparr>"

definition bimap_insert :: "('a, 'b) BiMap \<Rightarrow> 'a \<Rightarrow> 'b \<Rightarrow> bool \<times> ('a, 'b) BiMap" where
  "bimap_insert m x y =
     (if one_map m x \<noteq> None then (False, m)
      else if two_map m y \<noteq> None then (False, m)
      else (True, m\<lparr>one_map := map_insert (one_map m) x y, two_map := map_insert (two_map m) y x\<rparr>))"

definition find_1 :: "('a, 'b) BiMap \<Rightarrow> 'a \<Rightarrow> 'b option" where
  "find_1 m x = one_map m x"

definition find_2 :: "('a, 'b) BiMap \<Rightarrow> 'b \<Rightarrow> 'a option" where
  "find_2 m y = two_map m y"

text \<open>A step of the removal: erase the element the iterator points to, then read the iterator.\<close>

definition read_iterator :: "('k \<Rightarrow> 'v option) \<Rightarrow> 'k \<Rightarrow> 'v option" where
  "read_iterator m k = m k"

definition remove_1 :: "('a, 'b) BiMap \<Rightarrow> 'a \<Rightarrow> (bool \<times> ('a, 'b) BiMap) option" where
  "remove_1 m x =
     (if one_map m x = None then Some (False, m)
      else do {
        let m = m\<lparr>one_map := (one_map m)(x := None)\<rparr>;
        y \<leftarrow> read_iterator (one_map m) x;
        Some (True, m\<lparr>two_map := (two_map m)(y := None)\<rparr>)
      })"

definition remove_2 :: "('a, 'b) BiMap \<Rightarrow> 'b \<Rightarrow> (bool \<times> ('a, 'b) BiMap) option" where
  "remove_2 m y =
     (if two_map m y = None then Some (False, m)
      else do {
        let m = m\<lparr>two_map := (two_map m)(y := None)\<rparr>;
        x \<leftarrow> read_iterator (two_map m) y;
        Some (True, m\<lparr>one_map := (one_map m)(x := None)\<rparr>)
      })"

section \<open>Properties\<close>

definition bimap_ok :: "('a, 'b) BiMap \<Rightarrow> bool" where
  "bimap_ok m \<longleftrightarrow> (\<forall>x y. one_map m x = Some y \<longleftrightarrow> two_map m y = Some x)"

lemma bimap_insert_ok: "bimap_ok m \<Longrightarrow> bimap_ok (snd (bimap_insert m x y))"
  by (auto simp: bimap_ok_def bimap_insert_def map_insert_def)

fun bimap_inserts :: "('a \<times> 'b) list \<Rightarrow> ('a, 'b) BiMap \<Rightarrow> ('a, 'b) BiMap" where
  "bimap_inserts [] m = m"
| "bimap_inserts ((x, y) # xs) m = bimap_inserts xs (snd (bimap_insert m x y))"

lemma bimap_inserts_ok: "bimap_ok m \<Longrightarrow> bimap_ok (bimap_inserts xs m)"
  by (induction xs m rule: bimap_inserts.induct) (simp_all add: bimap_insert_ok)

text \<open>
  A \<open>BiMap\<close> is a one-to-one map. After any sequence of inserts, accepted or refused, what is found
  from one side leads back from the other side, in both directions; an insert of a new pair is found
  from both sides.
\<close>

theorem bimap_roundtrip:
  "(find_1 (bimap_inserts xs new_bimap) x = Some y \<longleftrightarrow> find_2 (bimap_inserts xs new_bimap) y = Some x) \<and>
   (find_1 (bimap_inserts xs new_bimap) u = None \<longrightarrow> find_2 (bimap_inserts xs new_bimap) v = None \<longrightarrow>
    find_1 (bimap_inserts (xs @ [(u, v)]) new_bimap) u = Some v \<and> find_2 (bimap_inserts (xs @ [(u, v)]) new_bimap) v = Some u)"
proof -
  have "bimap_ok new_bimap" by (simp add: bimap_ok_def new_bimap_def)
  from bimap_inserts_ok [OF this, of xs] have "bimap_ok (bimap_inserts xs new_bimap)" .
  moreover have "bimap_inserts (xs @ ys) m = bimap_inserts ys (bimap_inserts xs m)" for ys m
    by (induction xs m rule: bimap_inserts.induct) simp_all
  ultimately show ?thesis
    by (simp add: bimap_ok_def find_1_def find_2_def bimap_insert_def map_insert_def)
qed

theorem bimap_roundtrip_witness:
  "find_1 (bimap_inserts [(''joe'', 7 :: int)] new_bimap) ''joe'' = Some 7 \<and>
   find_2 (bimap_inserts [(''joe'', 7 :: int)] new_bimap) 7 = Some ''joe''"
  using bimap_roundtrip [of "[]" "''joe''" "7 :: int" "''joe''" "7 :: int"] by (simp add: find_1_def find_2_def new_bimap_def)

text \<open>
  Removing from a \<open>BiMap\<close> is defined only when there is nothing to remove: \<open>remove_1\<close> and \<open>remove_2\<close>
  have a result exactly for a key that is absent, and then change nothing.
\<close>

lemma bimap_remove_defined_iff:
  "((\<exists>r. remove_1 m x = Some r) \<longleftrightarrow> find_1 m x = None) \<and> ((\<exists>r. remove_2 m y = Some r) \<longleftrightarrow> find_2 m y = None)"
  by (auto simp: remove_1_def remove_2_def read_iterator_def find_1_def find_2_def Let_def)

end
