(* ===== verification/Agent_Manager.thy ===== *)
theory Agent_Manager
  imports Tcp_Connection
begin

text \<open>
  \<open>Agent\<close>, \<open>AgentManager\<close> and \<open>AgentManagerPerf\<close> of \<open>common/agent.h\<close>: the servers' view of a peer and
  two registries of peers, one over hash maps with arbitrary keys, one over an array with the ids of
  an interval. An agent belongs to its registry, so the registries hold the agents themselves.

  The contract of a registry is the locale \<open>agent_registry\<close>; its client lemma is that every history
  behaves as on a plain finite map. Both registries are instances.
\<close>

datatype AgentStateType = AGENT_STATE_NONE | AGENT_STATE_CONNECTED | AGENT_STATE_VERIFIED | AGENT_STATE_DISCONNECT

record 'd Agent =
  ag_data :: 'd
  ag_conn_id :: int
  ag_mgr :: nat
  ag_state :: AgentStateType

definition new_agent :: "'d \<Rightarrow> 'd Agent" where
  "new_agent dflt = \<lparr>ag_data = dflt, ag_conn_id = 0, ag_mgr = 0, ag_state = AGENT_STATE_NONE\<rparr>"

definition agent_init :: "'d Agent \<Rightarrow> int \<Rightarrow> nat \<Rightarrow> 'd Agent" where
  "agent_init a conn_id mgr = a\<lparr>ag_conn_id := conn_id, ag_mgr := mgr, ag_state := AGENT_STATE_NONE\<rparr>"

text \<open>The agent that \<open>newAgent\<close> stores.\<close>

definition verified_agent :: "'d \<Rightarrow> nat \<Rightarrow> int \<Rightarrow> 'd Agent" where
  "verified_agent dflt mgr conn_id = (agent_init (new_agent dflt) conn_id mgr)\<lparr>ag_state := AGENT_STATE_VERIFIED\<rparr>"

lemma verified_agent_conn [simp]: "ag_conn_id (verified_agent d g c) = c"
  by (simp add: verified_agent_def agent_init_def)

section \<open>Messages and closing through an agent\<close>

definition agent_sendMsg :: "'a net \<Rightarrow> 'd Agent \<Rightarrow> i32 \<Rightarrow> cptr \<Rightarrow> u32 \<Rightarrow> (int \<times> 'a net) option" where
  "agent_sendMsg n a msgid data len =
     (if ag_state a \<noteq> AGENT_STATE_VERIFIED then Some (0, n)
      else do {
        require (ag_mgr a \<noteq> 0);
        case mgr_get n (ag_conn_id a) of
          None \<Rightarrow> Some (- 1, n)
        | Some c \<Rightarrow> do {
            (res, n) \<leftarrow> send n c msgid data len;
            if res < 0 then Some (- 1, n) else Some (0, n)
          }
      })"

definition agent_sendMsg_user :: "'a net \<Rightarrow> 'd Agent \<Rightarrow> i32 \<Rightarrow> i32 \<Rightarrow> cptr \<Rightarrow> u16 \<Rightarrow> (int \<times> 'a net) option" where
  "agent_sendMsg_user n a userid msgid data len =
     (if ag_state a \<noteq> AGENT_STATE_VERIFIED then Some (0, n)
      else do {
        require (ag_mgr a \<noteq> 0);
        case mgr_get n (ag_conn_id a) of
          None \<Rightarrow> Some (- 1, n)
        | Some c \<Rightarrow> do {
            (res, n) \<leftarrow> send_user n c userid msgid data len;
            if res < 0 then Some (- 1, n) else Some (0, n)
          }
      })"

definition agent_close :: "'a net \<Rightarrow> 'd Agent \<Rightarrow> int \<Rightarrow> (int \<times> 'a net) option" where
  "agent_close n a now = do {
     require (ag_mgr a \<noteq> 0);
     case mgr_get n (ag_conn_id a) of
       None \<Rightarrow> Some (- 1, n)
     | Some c \<Rightarrow> do { n \<leftarrow> conn_close n c now; Some (0, n) }
   }"

definition agent_force_close :: "'a env \<Rightarrow> 'a net \<Rightarrow> 'd Agent \<Rightarrow> (int \<times> 'a net) option" where
  "agent_force_close E n a = do {
     require (ag_mgr a \<noteq> 0);
     case mgr_get n (ag_conn_id a) of
       None \<Rightarrow> Some (- 1, n)
     | Some c \<Rightarrow> do { n \<leftarrow> force_close E n c; Some (0, n) }
   }"

section \<open>AgentManager\<close>

record ('k, 'd) AgentManager =
  am_key2agents :: "'k \<Rightarrow> 'd Agent option"
  am_id2keys :: "int \<Rightarrow> 'k option"
  am_key2ids :: "'k \<Rightarrow> int option"

definition new_agent_manager :: "('k, 'd) AgentManager" where
  "new_agent_manager = \<lparr>am_key2agents = Map.empty, am_id2keys = Map.empty, am_key2ids = Map.empty\<rparr>"

definition am_getAgentSize :: "('k, 'd) AgentManager \<Rightarrow> nat" where
  "am_getAgentSize m = card (dom (am_key2agents m))"

definition am_clear :: "('k, 'd) AgentManager \<Rightarrow> ('k, 'd) AgentManager" where
  "am_clear m = m\<lparr>am_key2agents := Map.empty, am_id2keys := Map.empty\<rparr>"

text \<open>\<open>dflt\<close> is the value of default constructed data.\<close>

definition am_newAgent ::
    "'d \<Rightarrow> ('k, 'd) AgentManager \<Rightarrow> 'k \<Rightarrow> nat \<Rightarrow> int \<Rightarrow> 'd Agent option \<times> ('k, 'd) AgentManager" where
  "am_newAgent dflt m key mgr cid =
     (if am_key2agents m key \<noteq> None then (None, m)
      else
        let agent = verified_agent dflt mgr cid
        in (Some agent, m\<lparr>am_key2agents := map_insert (am_key2agents m) key agent,
              am_id2keys := map_insert (am_id2keys m) cid key, am_key2ids := map_insert (am_key2ids m) key cid\<rparr>))"

definition am_getAgent :: "('k, 'd) AgentManager \<Rightarrow> 'k \<Rightarrow> 'd Agent option" where
  "am_getAgent m key = am_key2agents m key"

definition am_getAgentByConnId :: "('k, 'd) AgentManager \<Rightarrow> int \<Rightarrow> 'd Agent option" where
  "am_getAgentByConnId m cid = (case am_id2keys m cid of None \<Rightarrow> None | Some key \<Rightarrow> am_getAgent m key)"

definition am_getKeyByConnId :: "('k, 'd) AgentManager \<Rightarrow> int \<Rightarrow> 'k option" where
  "am_getKeyByConnId m cid = am_id2keys m cid"

definition am_deleteAgent :: "('k, 'd) AgentManager \<Rightarrow> 'k \<Rightarrow> bool \<times> ('k, 'd) AgentManager" where
  "am_deleteAgent m key =
     (case am_getAgent m key of
        None \<Rightarrow> (False, m)
      | Some _ \<Rightarrow>
          let m = m\<lparr>am_key2agents := (am_key2agents m)(key := None)\<rparr>
          in (True, case am_key2ids m key of
                None \<Rightarrow> m
              | Some cid \<Rightarrow> m\<lparr>am_id2keys := (am_id2keys m)(cid := None), am_key2ids := (am_key2ids m)(key := None)\<rparr>))"

definition am_deleteAgentByConnId :: "('k, 'd) AgentManager \<Rightarrow> int \<Rightarrow> bool \<times> ('k, 'd) AgentManager" where
  "am_deleteAgentByConnId m cid =
     (case am_id2keys m cid of None \<Rightarrow> (False, m) | Some key \<Rightarrow> am_deleteAgent m key)"

definition am_setAgentState :: "('k, 'd) AgentManager \<Rightarrow> 'k \<Rightarrow> AgentStateType \<Rightarrow> bool \<times> ('k, 'd) AgentManager" where
  "am_setAgentState m key state =
     (case am_key2agents m key of
        None \<Rightarrow> (False, m)
      | Some a \<Rightarrow> (True, m\<lparr>am_key2agents := (am_key2agents m)(key \<mapsto> a\<lparr>ag_state := state\<rparr>)\<rparr>))"

definition am_setAgentStateByConnId :: "('k, 'd) AgentManager \<Rightarrow> int \<Rightarrow> AgentStateType \<Rightarrow> bool \<times> ('k, 'd) AgentManager" where
  "am_setAgentStateByConnId m cid state =
     (case am_id2keys m cid of None \<Rightarrow> (False, m) | Some key \<Rightarrow> am_setAgentState m key state)"

section \<open>AgentManagerPerf\<close>

record 'd AgentManagerPerf =
  ap_agents :: "'d Agent option list"
  ap_agent_count :: nat
  ap_min_id :: int
  ap_conn2agent_ids :: "int \<Rightarrow> int option"
  ap_agent2conn_ids :: "int \<Rightarrow> int option"

text \<open>The template parameters are the largest and the smallest id.\<close>

definition new_agent_manager_perf :: "int \<Rightarrow> int \<Rightarrow> 'd AgentManagerPerf" where
  "new_agent_manager_perf max_id min_id =
     \<lparr>ap_agents = replicate (nat (max_id - min_id + 1)) None, ap_agent_count = 0, ap_min_id = min_id,
      ap_conn2agent_ids = Map.empty, ap_agent2conn_ids = Map.empty\<rparr>"

definition ap_getAgentSize :: "'d AgentManagerPerf \<Rightarrow> nat" where
  "ap_getAgentSize m = ap_agent_count m"

definition ap_clear :: "'d AgentManagerPerf \<Rightarrow> 'd AgentManagerPerf" where
  "ap_clear m = m\<lparr>ap_agents := map (\<lambda>_. None) (ap_agents m), ap_conn2agent_ids := Map.empty, ap_agent2conn_ids := Map.empty\<rparr>"

definition ap_outside :: "'d AgentManagerPerf \<Rightarrow> int \<Rightarrow> bool" where
  "ap_outside m i \<longleftrightarrow> i < ap_min_id m \<or> i - ap_min_id m > int (length (ap_agents m)) - 1"

definition ap_newAgent ::
    "'d \<Rightarrow> 'd AgentManagerPerf \<Rightarrow> int \<Rightarrow> nat \<Rightarrow> int \<Rightarrow> 'd Agent option \<times> 'd AgentManagerPerf" where
  "ap_newAgent dflt m i mgr cid =
     (if ap_outside m i then (None, m)
      else if ap_agents m ! nat (i - ap_min_id m) \<noteq> None then (None, m)
      else
        let agent = verified_agent dflt mgr cid
        in (Some agent, m\<lparr>ap_agents := (ap_agents m)[nat (i - ap_min_id m) := Some agent],
              ap_agent_count := ap_agent_count m + 1, ap_conn2agent_ids := map_insert (ap_conn2agent_ids m) cid i,
              ap_agent2conn_ids := map_insert (ap_agent2conn_ids m) i cid\<rparr>))"

definition ap_getAgent :: "'d AgentManagerPerf \<Rightarrow> int \<Rightarrow> 'd Agent option" where
  "ap_getAgent m i = (if ap_outside m i then None else ap_agents m ! nat (i - ap_min_id m))"

definition ap_getAgentByConnId :: "'d AgentManagerPerf \<Rightarrow> int \<Rightarrow> 'd Agent option" where
  "ap_getAgentByConnId m cid = (case ap_conn2agent_ids m cid of None \<Rightarrow> None | Some i \<Rightarrow> ap_getAgent m i)"

definition ap_getIdByConnId :: "'d AgentManagerPerf \<Rightarrow> int \<Rightarrow> int option" where
  "ap_getIdByConnId m cid = ap_conn2agent_ids m cid"

text \<open>
  Deleting at count 0 leaves a pointer to a freed agent in the array; the manager has no defined
  behaviour afterwards.
\<close>

definition ap_deleteAgent :: "'d AgentManagerPerf \<Rightarrow> int \<Rightarrow> (bool \<times> 'd AgentManagerPerf) option" where
  "ap_deleteAgent m i =
     (case ap_getAgent m i of
        None \<Rightarrow> Some (False, m)
      | Some _ \<Rightarrow> do {
          require (ap_agent_count m \<noteq> 0);
          let m = m\<lparr>ap_agents := (ap_agents m)[nat (i - ap_min_id m) := None], ap_agent_count := ap_agent_count m - 1\<rparr>;
          Some (True, case ap_agent2conn_ids m i of
              None \<Rightarrow> m
            | Some cid \<Rightarrow> m\<lparr>ap_conn2agent_ids := (ap_conn2agent_ids m)(cid := None), ap_agent2conn_ids := (ap_agent2conn_ids m)(i := None)\<rparr>)
        })"

definition ap_deleteAgentByConnId :: "'d AgentManagerPerf \<Rightarrow> int \<Rightarrow> (bool \<times> 'd AgentManagerPerf) option" where
  "ap_deleteAgentByConnId m cid =
     (case ap_conn2agent_ids m cid of None \<Rightarrow> Some (False, m) | Some i \<Rightarrow> ap_deleteAgent m i)"

text \<open>The state is set, but the function ends without returning a value.\<close>

definition ap_setAgentState :: "'d AgentManagerPerf \<Rightarrow> int \<Rightarrow> AgentStateType \<Rightarrow> (bool \<times> 'd AgentManagerPerf) option" where
  "ap_setAgentState m i state = (case ap_getAgent m i of None \<Rightarrow> Some (False, m) | Some _ \<Rightarrow> None)"

definition ap_setAgentStateByConnId :: "'d AgentManagerPerf \<Rightarrow> int \<Rightarrow> AgentStateType \<Rightarrow> (bool \<times> 'd AgentManagerPerf) option" where
  "ap_setAgentStateByConnId m cid state =
     (case ap_conn2agent_ids m cid of None \<Rightarrow> Some (False, m) | Some i \<Rightarrow> ap_setAgentState m i state)"

section \<open>The contract of a registry\<close>

datatype 'k agent_op = NewAgent 'k nat int | DeleteAgent 'k | DeleteByConn int

text \<open>One operation of a registry, with whether it succeeded, and a history of operations.\<close>

fun reg_step ::
    "('m \<Rightarrow> 'k \<Rightarrow> nat \<Rightarrow> int \<Rightarrow> 'd Agent option \<times> 'm) \<Rightarrow> ('m \<Rightarrow> 'k \<Rightarrow> (bool \<times> 'm) option) \<Rightarrow>
     ('m \<Rightarrow> int \<Rightarrow> (bool \<times> 'm) option) \<Rightarrow> 'k agent_op \<Rightarrow> 'm \<Rightarrow> (bool \<times> 'm) option" where
  "reg_step newA delA delC (NewAgent k g c) m = (let (a, m) = newA m k g c in Some (a \<noteq> None, m))"
| "reg_step newA delA delC (DeleteAgent k) m = delA m k"
| "reg_step newA delA delC (DeleteByConn c) m = delC m c"

fun reg_run ::
    "('m \<Rightarrow> 'k \<Rightarrow> nat \<Rightarrow> int \<Rightarrow> 'd Agent option \<times> 'm) \<Rightarrow> ('m \<Rightarrow> 'k \<Rightarrow> (bool \<times> 'm) option) \<Rightarrow>
     ('m \<Rightarrow> int \<Rightarrow> (bool \<times> 'm) option) \<Rightarrow> 'k agent_op list \<Rightarrow> 'm \<Rightarrow> (bool list \<times> 'm) option" where
  "reg_run newA delA delC [] m = Some ([], m)"
| "reg_run newA delA delC (x # xs) m = do {
     (r, m) \<leftarrow> reg_step newA delA delC x m;
     (rs, m) \<leftarrow> reg_run newA delA delC xs m;
     Some (r # rs, m)
   }"

text \<open>The specification: a finite map from keys to agents whose connections are distinct.\<close>

definition uses_conn :: "('k \<Rightarrow> 'd Agent option) \<Rightarrow> int \<Rightarrow> 'k \<Rightarrow> bool" where
  "uses_conn f c k \<longleftrightarrow> (\<exists>a. f k = Some a \<and> ag_conn_id a = c)"

fun spec_step :: "'d \<Rightarrow> ('k \<Rightarrow> bool) \<Rightarrow> 'k agent_op \<Rightarrow> ('k \<Rightarrow> 'd Agent option) \<Rightarrow> bool \<times> ('k \<Rightarrow> 'd Agent option)" where
  "spec_step dflt valid (NewAgent k g c) f =
     (if valid k \<and> f k = None then (True, f(k \<mapsto> verified_agent dflt g c)) else (False, f))"
| "spec_step dflt valid (DeleteAgent k) f = (f k \<noteq> None, f(k := None))"
| "spec_step dflt valid (DeleteByConn c) f = ((\<exists>k. uses_conn f c k), \<lambda>k. if uses_conn f c k then None else f k)"

fun spec_run :: "'d \<Rightarrow> ('k \<Rightarrow> bool) \<Rightarrow> 'k agent_op list \<Rightarrow> ('k \<Rightarrow> 'd Agent option) \<Rightarrow> bool list \<times> ('k \<Rightarrow> 'd Agent option)" where
  "spec_run dflt valid [] f = ([], f)"
| "spec_run dflt valid (x # xs) f =
     (let (r, f) = spec_step dflt valid x f; (rs, f) = spec_run dflt valid xs f in (r # rs, f))"

text \<open>A new agent comes with a connection that no agent has.\<close>

fun op_fresh :: "'k agent_op \<Rightarrow> ('k \<Rightarrow> 'd Agent option) \<Rightarrow> bool" where
  "op_fresh (NewAgent k g c) f = (\<forall>k. \<not> uses_conn f c k)"
| "op_fresh _ f = True"

fun run_fresh :: "'d \<Rightarrow> ('k \<Rightarrow> bool) \<Rightarrow> 'k agent_op list \<Rightarrow> ('k \<Rightarrow> 'd Agent option) \<Rightarrow> bool" where
  "run_fresh dflt valid [] f = True"
| "run_fresh dflt valid (x # xs) f = (op_fresh x f \<and> run_fresh dflt valid xs (snd (spec_step dflt valid x f)))"

lemma uses_conn_delete [simp]: "uses_conn (f(k := None)) c j \<longleftrightarrow> j \<noteq> k \<and> uses_conn f c j"
  by (simp add: uses_conn_def)

lemma uses_conn_insert [simp]: "uses_conn (f(k \<mapsto> a)) c j \<longleftrightarrow> (if j = k then ag_conn_id a = c else uses_conn f c j)"
  by (simp add: uses_conn_def)

locale agent_registry =
  fixes newA :: "'m \<Rightarrow> 'k \<Rightarrow> nat \<Rightarrow> int \<Rightarrow> 'd Agent option \<times> 'm"
    and getA :: "'m \<Rightarrow> 'k \<Rightarrow> 'd Agent option"
    and keyOf :: "'m \<Rightarrow> int \<Rightarrow> 'k option"
    and delA :: "'m \<Rightarrow> 'k \<Rightarrow> (bool \<times> 'm) option"
    and delC :: "'m \<Rightarrow> int \<Rightarrow> (bool \<times> 'm) option"
    and valid :: "'k \<Rightarrow> bool"
    and inv :: "'m \<Rightarrow> bool"
    and dflt :: 'd
  assumes new_ok: "inv m \<Longrightarrow> valid k \<Longrightarrow> getA m k = None \<Longrightarrow> \<forall>k. \<not> uses_conn (getA m) c k \<Longrightarrow>
      \<exists>m'. newA m k g c = (Some (verified_agent dflt g c), m') \<and> inv m' \<and> getA m' = (getA m)(k \<mapsto> verified_agent dflt g c)"
    and new_refused: "inv m \<Longrightarrow> \<not> (valid k \<and> getA m k = None) \<Longrightarrow> newA m k g c = (None, m)"
    and del_ok: "inv m \<Longrightarrow> getA m k \<noteq> None \<Longrightarrow> \<exists>m'. delA m k = Some (True, m') \<and> inv m' \<and> getA m' = (getA m)(k := None)"
    and del_none: "inv m \<Longrightarrow> getA m k = None \<Longrightarrow> delA m k = Some (False, m)"
    and delC_key: "inv m \<Longrightarrow> delC m c = (case keyOf m c of None \<Rightarrow> Some (False, m) | Some k \<Rightarrow> delA m k)"
    and keyOf_iff: "inv m \<Longrightarrow> keyOf m c = Some k \<longleftrightarrow> uses_conn (getA m) c k"
begin

lemma step_refines:
  assumes "inv m" "op_fresh x (getA m)"
  shows "\<exists>m'. reg_step newA delA delC x m = Some (fst (spec_step dflt valid x (getA m)), m') \<and> inv m' \<and>
    getA m' = snd (spec_step dflt valid x (getA m))"
proof (cases x)
  case (NewAgent k g c)
  then show ?thesis using new_ok [OF assms(1), of k c g] new_refused [OF assms(1), of k g c] assms by (auto simp: Let_def)
next
  case (DeleteAgent k)
  then show ?thesis using del_ok [OF assms(1), of k] del_none [OF assms(1), of k] assms by (cases "getA m k") auto
next
  case (DeleteByConn c)
  show ?thesis
  proof (cases "keyOf m c")
    case None
    then have "\<not> uses_conn (getA m) c k" for k using keyOf_iff [OF assms(1), of c k] by simp
    then show ?thesis using DeleteByConn delC_key [OF assms(1), of c] None assms(1) by simp
  next
    case (Some k)
    then have k: "uses_conn (getA m) c j \<longleftrightarrow> j = k" for j using keyOf_iff [OF assms(1), of c j] by auto
    then have "getA m k \<noteq> None" by (auto simp: uses_conn_def)
    from del_ok [OF assms(1) this] obtain m' where "delA m k = Some (True, m')" "inv m'" "getA m' = (getA m)(k := None)" by blast
    moreover have "(\<lambda>j. if uses_conn (getA m) c j then None else getA m j) = (getA m)(k := None)" using k by auto
    ultimately show ?thesis using DeleteByConn delC_key [OF assms(1), of c] Some k by auto
  qed
qed

lemma run_refines:
  "inv m \<Longrightarrow> run_fresh dflt valid xs (getA m) \<Longrightarrow>
   \<exists>m'. reg_run newA delA delC xs m = Some (fst (spec_run dflt valid xs (getA m)), m') \<and> inv m' \<and>
     getA m' = snd (spec_run dflt valid xs (getA m))"
proof (induction xs arbitrary: m)
  case (Cons x xs)
  from step_refines [OF Cons.prems(1)] Cons.prems(2) obtain m1 where
    m1: "reg_step newA delA delC x m = Some (fst (spec_step dflt valid x (getA m)), m1)" "inv m1"
      "getA m1 = snd (spec_step dflt valid x (getA m))" by auto
  from Cons.IH [OF m1(2)] Cons.prems(2) m1(3) obtain m2 where
    "reg_run newA delA delC xs m1 = Some (fst (spec_run dflt valid xs (getA m1)), m2)" "inv m2"
    "getA m2 = snd (spec_run dflt valid xs (getA m1))" by auto
  then show ?case using m1 by (auto simp: Let_def split: prod.split)
qed simp

lemma lookup_by_conn: "inv m \<Longrightarrow> keyOf m c = Some k \<Longrightarrow> \<exists>a. getA m k = Some a \<and> ag_conn_id a = c"
  by (simp add: keyOf_iff uses_conn_def)

end

section \<open>The hash map registry is an instance\<close>

definition am_ok :: "('k, 'd) AgentManager \<Rightarrow> bool" where
  "am_ok m \<longleftrightarrow> (\<forall>k. am_key2ids m k = map_option ag_conn_id (am_key2agents m k)) \<and>
     (\<forall>c k. am_id2keys m c = Some k \<longleftrightarrow> uses_conn (am_key2agents m) c k)"

lemma am_okD:
  assumes "am_ok m"
  shows "am_key2ids m k = map_option ag_conn_id (am_key2agents m k)" "am_id2keys m c = Some k \<longleftrightarrow> uses_conn (am_key2agents m) c k"
  using assms by (simp_all add: am_ok_def)

lemma am_id2keys_unused: "am_ok m \<Longrightarrow> \<forall>k. \<not> uses_conn (am_key2agents m) c k \<Longrightarrow> am_id2keys m c = None"
  by (metis am_okD(2) not_None_eq)

lemma am_getAgent_eq: "am_getAgent m = am_key2agents m"
  by (simp add: fun_eq_iff am_getAgent_def)

lemma am_new_ok:
  assumes ok: "am_ok m" and free: "am_getAgent m k = None" "\<forall>k. \<not> uses_conn (am_getAgent m) c k"
  shows "\<exists>m'. am_newAgent d m k g c = (Some (verified_agent d g c), m') \<and> am_ok m' \<and>
    am_getAgent m' = (am_getAgent m)(k \<mapsto> verified_agent d g c)"
proof -
  have f: "am_key2agents m k = None" "\<forall>k. \<not> uses_conn (am_key2agents m) c k"
    using free by (simp_all add: am_getAgent_eq)
  have ids: "am_id2keys m c = None" "am_key2ids m k = None" using am_id2keys_unused [OF ok f(2)] am_okD(1) [OF ok, of k] f(1) by simp_all
  let ?m = "\<lparr>am_key2agents = (am_key2agents m)(k \<mapsto> verified_agent d g c), am_id2keys = (am_id2keys m)(c \<mapsto> k),
    am_key2ids = (am_key2ids m)(k \<mapsto> c)\<rparr>"
  have "am_newAgent d m k g c = (Some (verified_agent d g c), ?m)"
    using f ids by (simp add: am_newAgent_def map_insert_def Let_def)
  moreover have "am_ok ?m"
    using am_okD [OF ok] f by (auto simp: am_ok_def uses_conn_def)
  ultimately show ?thesis by (simp add: am_getAgent_eq)
qed

lemma am_delete_ok:
  assumes ok: "am_ok m" and used: "am_getAgent m k = Some a"
  shows "\<exists>m'. am_deleteAgent m k = (True, m') \<and> am_ok m' \<and> am_getAgent m' = (am_getAgent m)(k := None)"
proof -
  have a: "am_key2agents m k = Some a" "am_key2ids m k = Some (ag_conn_id a)" "am_id2keys m (ag_conn_id a) = Some k"
    using used am_okD(1) [OF ok, of k] am_okD(2) [OF ok, of "ag_conn_id a" k] by (simp_all add: am_getAgent_def uses_conn_def)
  let ?m = "m\<lparr>am_key2agents := (am_key2agents m)(k := None), am_id2keys := (am_id2keys m)(ag_conn_id a := None),
    am_key2ids := (am_key2ids m)(k := None)\<rparr>"
  have uniq: "j = k" if "uses_conn (am_key2agents m) (ag_conn_id a) j" for j
    using that am_okD(2) [OF ok, of "ag_conn_id a" j] a(3) by simp
  have conn_of_k: "uses_conn (am_key2agents m) c k \<longleftrightarrow> c = ag_conn_id a" for c using a(1) by (auto simp: uses_conn_def)
  have "am_ok ?m"
    unfolding am_ok_def
  proof (intro conjI allI)
    fix c j
    show "am_id2keys ?m c = Some j \<longleftrightarrow> uses_conn (am_key2agents ?m) c j"
      using am_okD(2) [OF ok, of c j] uniq [of j] conn_of_k [of c] by (cases "j = k") auto
  qed (use am_okD(1) [OF ok] in simp)
  moreover have "am_deleteAgent m k = (True, ?m)" using a by (simp add: am_deleteAgent_def am_getAgent_def Let_def)
  ultimately show ?thesis by (simp add: am_getAgent_eq)
qed

interpretation am: agent_registry "am_newAgent d" am_getAgent am_getKeyByConnId "\<lambda>m k. Some (am_deleteAgent m k)"
    "\<lambda>m c. Some (am_deleteAgentByConnId m c)" "\<lambda>_. True" am_ok d
proof (unfold_locales, goal_cases)
  case (1 m k c g)
  then show ?case by (intro am_new_ok)
next
  case (2 m k g c)
  then show ?case by (simp add: am_newAgent_def am_getAgent_def)
next
  case (3 m k)
  then obtain a where "am_getAgent m k = Some a" by blast
  from am_delete_ok [OF 3(1) this] show ?case by auto
next
  case (4 m k)
  then show ?case by (simp add: am_deleteAgent_def)
next
  case (5 m c)
  then show ?case by (simp add: am_deleteAgentByConnId_def am_getKeyByConnId_def split: option.split)
next
  case (6 m c k)
  then show ?case by (simp add: am_getKeyByConnId_def am_okD(2) am_getAgent_eq)
qed

section \<open>The array registry is an instance\<close>

lemma ap_getAgent_update:
  assumes "\<not> ap_outside m i" "ap_agents m' = (ap_agents m)[nat (i - ap_min_id m) := v]" "ap_min_id m' = ap_min_id m"
  shows "ap_getAgent m' = (ap_getAgent m)(i := v)"
proof
  fix j
  show "ap_getAgent m' j = ((ap_getAgent m)(i := v)) j"
    using assms by (auto simp: ap_getAgent_def ap_outside_def nth_list_update eq_nat_nat_iff)
qed

definition ap_ok :: "int \<Rightarrow> int \<Rightarrow> 'd AgentManagerPerf \<Rightarrow> bool" where
  "ap_ok lo hi m \<longleftrightarrow> ap_min_id m = lo \<and> length (ap_agents m) = nat (hi - lo + 1) \<and>
     ap_agent_count m = card (dom (ap_getAgent m)) \<and>
     (\<forall>i. ap_agent2conn_ids m i = map_option ag_conn_id (ap_getAgent m i)) \<and>
     (\<forall>c i. ap_conn2agent_ids m c = Some i \<longleftrightarrow> uses_conn (ap_getAgent m) c i)"

lemma ap_okD:
  assumes "ap_ok lo hi m"
  shows "ap_min_id m = lo" "length (ap_agents m) = nat (hi - lo + 1)" "ap_agent_count m = card (dom (ap_getAgent m))"
    "ap_agent2conn_ids m i = map_option ag_conn_id (ap_getAgent m i)"
    "ap_conn2agent_ids m c = Some i \<longleftrightarrow> uses_conn (ap_getAgent m) c i" "ap_outside m i \<longleftrightarrow> \<not> (lo \<le> i \<and> i \<le> hi)"
  using assms by (auto simp: ap_ok_def ap_outside_def)

lemma ap_dom_finite: "finite (dom (ap_getAgent m))"
proof (rule finite_subset)
  show "dom (ap_getAgent m) \<subseteq> {ap_min_id m..ap_min_id m + int (length (ap_agents m))}"
    by (auto simp: ap_getAgent_def ap_outside_def split: if_splits)
qed simp

lemma ap_new_ok:
  assumes ok: "ap_ok lo hi m" and i: "lo \<le> i \<and> i \<le> hi" and free: "ap_getAgent m i = None" "\<forall>k. \<not> uses_conn (ap_getAgent m) c k"
  shows "\<exists>m'. ap_newAgent d m i g c = (Some (verified_agent d g c), m') \<and> ap_ok lo hi m' \<and>
    ap_getAgent m' = (ap_getAgent m)(i \<mapsto> verified_agent d g c)"
proof -
  note O = ap_okD [OF ok]
  have out: "\<not> ap_outside m i" using i O(6) by simp
  have nil: "ap_agents m ! nat (i - ap_min_id m) = None" using free(1) out by (simp add: ap_getAgent_def)
  have ids: "ap_conn2agent_ids m c = None" "ap_agent2conn_ids m i = None"
    using O(5) [of c] free O(4) [of i] by (simp_all, metis not_None_eq)
  let ?m = "m\<lparr>ap_agents := (ap_agents m)[nat (i - ap_min_id m) := Some (verified_agent d g c)], ap_agent_count := ap_agent_count m + 1,
    ap_conn2agent_ids := (ap_conn2agent_ids m)(c \<mapsto> i), ap_agent2conn_ids := (ap_agent2conn_ids m)(i \<mapsto> c)\<rparr>"
  have "ap_newAgent d m i g c = (Some (verified_agent d g c), ?m)"
    using out nil ids by (simp add: ap_newAgent_def map_insert_def Let_def)
  moreover have get: "ap_getAgent ?m = (ap_getAgent m)(i \<mapsto> verified_agent d g c)" by (rule ap_getAgent_update [OF out]) simp_all
  moreover have "ap_ok lo hi ?m"
    unfolding ap_ok_def get
  proof (intro conjI allI)
    fix c' j
    show "ap_conn2agent_ids ?m c' = Some j \<longleftrightarrow> uses_conn ((ap_getAgent m)(i \<mapsto> verified_agent d g c)) c' j"
      using O(5) [of c' j] free by (cases "c' = c"; cases "j = i") (auto simp: uses_conn_def)
  qed (use O(1-4) free(1) ap_dom_finite [of m] in \<open>simp_all add: domIff\<close>)
  ultimately show ?thesis by blast
qed

lemma ap_delete_ok:
  assumes ok: "ap_ok lo hi m" and used: "ap_getAgent m i = Some a"
  shows "\<exists>m'. ap_deleteAgent m i = Some (True, m') \<and> ap_ok lo hi m' \<and> ap_getAgent m' = (ap_getAgent m)(i := None)"
proof -
  note O = ap_okD [OF ok]
  have out: "\<not> ap_outside m i" using used by (auto simp: ap_getAgent_def split: if_splits)
  have conn_of_i: "uses_conn (ap_getAgent m) c i \<longleftrightarrow> c = ag_conn_id a" for c using used by (auto simp: uses_conn_def)
  have ids: "ap_agent2conn_ids m i = Some (ag_conn_id a)" "ap_conn2agent_ids m (ag_conn_id a) = Some i"
    using used O(4) [of i] O(5) [of "ag_conn_id a" i] conn_of_i by simp_all
  have uniq: "j = i" if "uses_conn (ap_getAgent m) (ag_conn_id a) j" for j using that O(5) [of "ag_conn_id a" j] ids(2) by simp
  have dom: "i \<in> dom (ap_getAgent m)" using used by blast
  have count: "ap_agent_count m \<noteq> 0" using O(3) dom ap_dom_finite [of m] card_gt_0_iff by fastforce
  let ?m = "m\<lparr>ap_agents := (ap_agents m)[nat (i - ap_min_id m) := None], ap_agent_count := ap_agent_count m - 1,
    ap_conn2agent_ids := (ap_conn2agent_ids m)(ag_conn_id a := None), ap_agent2conn_ids := (ap_agent2conn_ids m)(i := None)\<rparr>"
  have "ap_deleteAgent m i = Some (True, ?m)" using used ids count by (simp add: ap_deleteAgent_def Let_def)
  moreover have get: "ap_getAgent ?m = (ap_getAgent m)(i := None)" by (rule ap_getAgent_update [OF out]) simp_all
  moreover have "ap_ok lo hi ?m"
    unfolding ap_ok_def get
  proof (intro conjI allI)
    fix c j
    show "ap_conn2agent_ids ?m c = Some j \<longleftrightarrow> uses_conn ((ap_getAgent m)(i := None)) c j"
      using O(5) [of c j] uniq [of j] conn_of_i [of c] by (cases "j = i") auto
  qed (use O(1-4) dom ap_dom_finite [of m] in \<open>simp_all add: card_Diff_singleton\<close>)
  ultimately show ?thesis by blast
qed

interpretation ap: agent_registry "ap_newAgent d" ap_getAgent ap_getIdByConnId ap_deleteAgent ap_deleteAgentByConnId
    "\<lambda>i. lo \<le> i \<and> i \<le> hi" "ap_ok lo hi" d
proof (unfold_locales, goal_cases)
  case (1 m k c g)
  then show ?case by (intro ap_new_ok)
next
  case (2 m k g c)
  then show ?case using ap_okD(6) [OF 2(1), of k] by (auto simp: ap_newAgent_def ap_getAgent_def)
next
  case (3 m k)
  then obtain a where "ap_getAgent m k = Some a" by blast
  from ap_delete_ok [OF 3(1) this] show ?case by auto
next
  case (4 m k)
  then show ?case by (simp add: ap_deleteAgent_def)
next
  case (5 m c)
  then show ?case by (simp add: ap_deleteAgentByConnId_def ap_getIdByConnId_def split: option.split)
next
  case (6 m c k)
  then show ?case by (simp add: ap_getIdByConnId_def ap_okD(5))
qed

section \<open>Properties\<close>

abbreviation (input) am_run :: "'d \<Rightarrow> 'k agent_op list \<Rightarrow> ('k, 'd) AgentManager \<Rightarrow> (bool list \<times> ('k, 'd) AgentManager) option" where
  "am_run d \<equiv> reg_run (am_newAgent d) (\<lambda>m k. Some (am_deleteAgent m k)) (\<lambda>m c. Some (am_deleteAgentByConnId m c))"

abbreviation (input) ap_run :: "'d \<Rightarrow> int agent_op list \<Rightarrow> 'd AgentManagerPerf \<Rightarrow> (bool list \<times> 'd AgentManagerPerf) option" where
  "ap_run d \<equiv> reg_run (ap_newAgent d) ap_deleteAgent ap_deleteAgentByConnId"

lemma am_new_inv: "am_ok new_agent_manager" "am_getAgent new_agent_manager = Map.empty"
  by (simp_all add: am_ok_def new_agent_manager_def uses_conn_def am_getAgent_eq)

lemma ap_new_inv: "ap_getAgent (new_agent_manager_perf hi lo) = Map.empty" "ap_ok lo hi (new_agent_manager_perf hi lo)"
proof -
  show get: "ap_getAgent (new_agent_manager_perf hi lo :: 'd AgentManagerPerf) = Map.empty"
    by (auto simp: ap_getAgent_def ap_outside_def new_agent_manager_perf_def fun_eq_iff)
  show "ap_ok lo hi (new_agent_manager_perf hi lo :: 'd AgentManagerPerf)"
    unfolding ap_ok_def get by (simp add: new_agent_manager_perf_def uses_conn_def)
qed

lemmas am_run_new = am.run_refines [OF am_new_inv(1), unfolded am_new_inv(2)]
lemmas ap_run_new = ap.run_refines [OF ap_new_inv(2), unfolded ap_new_inv(1)]



lemma spec_run_valid:
  assumes "\<forall>k g c. NewAgent k g c \<in> set xs \<longrightarrow> valid k"
  shows "spec_run d valid xs f = spec_run d (\<lambda>_. True) xs f \<and> run_fresh d valid xs f = run_fresh d (\<lambda>_. True) xs f"
  using assms
proof (induction xs arbitrary: f)
  case (Cons x xs)
  have "spec_step d valid x f = spec_step d (\<lambda>_. True) x f" using Cons.prems by (cases x) auto
  moreover have "spec_run d valid xs g = spec_run d (\<lambda>_. True) xs g \<and> run_fresh d valid xs g = run_fresh d (\<lambda>_. True) xs g" for g
  proof (rule Cons.IH)
    show "\<forall>k g c. NewAgent k g c \<in> set xs \<longrightarrow> valid k" using Cons.prems by auto
  qed
  ultimately show ?case by (simp add: Let_def)
qed simp



text \<open>
  \<open>AgentManager::clear\<close> forgets to clear the connection of each key. When a key that was registered
  before the clear is registered again on another connection and then deleted, the new connection
  still leads to the key, although no agent has it.
\<close>

theorem am_clear_leaves_stale_connection:
  assumes "c1 \<noteq> c2"
  shows "let m = snd (am_newAgent d new_agent_manager k g c1);
             m = snd (am_newAgent d (am_clear m) k g c2);
             m = snd (am_deleteAgent m k)
         in am_getAgent m k = None \<and> am_getKeyByConnId m c2 = Some k"
  using assms
  by (simp add: am_newAgent_def am_clear_def am_deleteAgent_def am_getAgent_def am_getKeyByConnId_def new_agent_manager_def
      map_insert_def Let_def)

theorem am_clear_leaves_stale_connection_witness:
  "let m = snd (am_newAgent () new_agent_manager ''bob'' 1 5);
       m = snd (am_newAgent () (am_clear m) ''bob'' 1 6);
       m = snd (am_deleteAgent m ''bob'')
   in am_getAgent m ''bob'' = None \<and> am_getKeyByConnId m 6 = Some ''bob''"
  by (rule am_clear_leaves_stale_connection) simp

text \<open>
  Clearing an \<open>AgentManagerPerf\<close> removes every agent and every connection but not the count: for
  any registry, no lookup finds anything afterwards and the reported size is what it was.
\<close>

lemma ap_clear_keeps_size:
  "ap_getAgent (ap_clear m) i = None \<and> ap_getAgentByConnId (ap_clear m) c = None \<and>
   ap_getAgentSize (ap_clear m) = ap_getAgentSize m"
  by (auto simp: ap_getAgent_def ap_getAgentByConnId_def ap_clear_def ap_outside_def ap_getAgentSize_def)

end
