(* ===== verification/Server_Common.thy ===== *)
theory Server_Common
  imports Agent_Manager Message_Delivery
begin

text \<open>
  What the servers share: connection lookup and server types of \<open>common/util.cpp\<close> and \<open>common/util.h\<close>,
  the id ranges of \<open>common/defines.h\<close>, writing a serialised message into the handlers' buffer \<open>tmp_\<close> of
  \<open>JMY_MAX_MSG_SIZE\<close> bytes and sending it, and what sending on one connection does to all of them.
\<close>

abbreviation (input) LOGIN_SERVER_MIN_ID :: int where "LOGIN_SERVER_MIN_ID \<equiv> 10001"
abbreviation (input) LOGIN_SERVER_MAX_ID :: int where "LOGIN_SERVER_MAX_ID \<equiv> 10100"
abbreviation (input) GATE_SERVER_MIN_ID :: int where "GATE_SERVER_MIN_ID \<equiv> 20001"
abbreviation (input) GATE_SERVER_MAX_ID :: int where "GATE_SERVER_MAX_ID \<equiv> 20100"
abbreviation (input) GAME_SERVER_MIN_ID :: int where "GAME_SERVER_MIN_ID \<equiv> 40001"
abbreviation (input) GAME_SERVER_MAX_ID :: int where "GAME_SERVER_MAX_ID \<equiv> 40100"
abbreviation (input) SERVER_ID_DEVIDE :: int where "SERVER_ID_DEVIDE \<equiv> 10000"
abbreviation (input) SERVER_TYPE_LOGIN :: int where "SERVER_TYPE_LOGIN \<equiv> 1"

definition get_server_type :: "int \<Rightarrow> int" where
  "get_server_type server_id = (if 0 \<le> server_id then server_id div SERVER_ID_DEVIDE else - ((- server_id) div SERVER_ID_DEVIDE))"

definition get_connection :: "'a net \<Rightarrow> int \<Rightarrow> nat \<Rightarrow> nat option" where
  "get_connection n cid mgr = (if mgr = 0 then None else mgr_get n cid)"

definition msg_connection :: "'a net \<Rightarrow> JmyMsgInfo \<Rightarrow> nat option" where
  "msg_connection n i = get_connection n (mi_conn_id i) (mi_param i)"

definition event_connection :: "'a net \<Rightarrow> JmyEventInfo \<Rightarrow> nat option" where
  "event_connection n i = get_connection n (ei_conn_id i) (ei_param i)"

text \<open>\<open>SerializeToArray\<close> into \<open>tmp_\<close>, and sending what it wrote.\<close>

definition serialize :: "u8 list \<Rightarrow> u8 list option" where
  "serialize bs = (if length bs \<le> 65536 then Some bs else None)"

definition conn_send :: "'a net \<Rightarrow> nat \<Rightarrow> i32 \<Rightarrow> u8 list \<Rightarrow> (int \<times> 'a net) option" where
  "conn_send n c msg_id bs = send n c msg_id (Some (cells bs)) (of_nat (length bs))"

definition agent_conn_send :: "'a net \<Rightarrow> 'd Agent \<Rightarrow> i32 \<Rightarrow> u8 list \<Rightarrow> (int \<times> 'a net) option" where
  "agent_conn_send n a msg_id bs = agent_sendMsg n a msg_id (Some (cells bs)) (of_nat (length bs))"

text \<open>The data of an agent, written through the pointer a registry returned.\<close>

definition am_setData :: "('k, 'd) AgentManager \<Rightarrow> 'k \<Rightarrow> ('d \<Rightarrow> 'd) \<Rightarrow> ('k, 'd) AgentManager" where
  "am_setData m key f =
     (case am_getAgent m key of
        None \<Rightarrow> m
      | Some a \<Rightarrow> m\<lparr>am_key2agents := (am_key2agents m)(key \<mapsto> a\<lparr>ag_data := f (ag_data a)\<rparr>)\<rparr>)"

definition ap_setData :: "'d AgentManagerPerf \<Rightarrow> int \<Rightarrow> ('d \<Rightarrow> 'd) \<Rightarrow> 'd AgentManagerPerf" where
  "ap_setData m i f =
     (case ap_getAgent m i of
        None \<Rightarrow> m
      | Some a \<Rightarrow> m\<lparr>ap_agents := (ap_agents m)[nat (i - ap_min_id m) := Some (a\<lparr>ag_data := f (ag_data a)\<rparr>)]\<rparr>)"

text \<open>\<open>MsgGateConfData\<close>, one gate server of the configuration.\<close>

record gate_conf =
  gf_name :: string
  gf_id :: int
  gf_ip :: string
  gf_port :: int
  gf_platform :: string
  gf_channel_code :: string
  gf_is_busy :: bool
  gf_is_maintenance :: bool

text \<open>\<open>MsgBaseRoleData\<close>, with the defaults of its fields.\<close>

record base_role_data =
  rd_role_id :: u64
  rd_nick_name :: string
  rd_race :: int
  rd_sex :: int
  rd_hp :: int
  rd_level :: int

definition no_role_data :: base_role_data where
  "no_role_data = \<lparr>rd_role_id = 0, rd_nick_name = [], rd_race = 0, rd_sex = 0, rd_hp = 0, rd_level = 0\<rparr>"

text \<open>The message a handler receives with a payload of bytes.\<close>

definition received_msg :: "i32 \<Rightarrow> int \<Rightarrow> u8 list \<Rightarrow> int \<Rightarrow> nat \<Rightarrow> JmyMsgInfo" where
  "received_msg u msg_id d cid mgr = \<lparr>mi_user_id = u, mi_msg_id = msg_id, mi_data = cells d, mi_len = of_nat (length d), mi_conn_id = cid, mi_param = mgr\<rparr>"

lemma received_msg_sel [simp]:
  "mi_user_id (received_msg u m d cid mgr) = u" "mi_msg_id (received_msg u m d cid mgr) = m" "mi_data (received_msg u m d cid mgr) = cells d"
  "mi_len (received_msg u m d cid mgr) = of_nat (length d)" "mi_conn_id (received_msg u m d cid mgr) = cid" "mi_param (received_msg u m d cid mgr) = mgr"
  by (simp_all add: received_msg_def)

lemma serialize_fits [simp]: "length bs < 65531 \<Longrightarrow> serialize bs = Some bs"
  by (simp add: serialize_def)

lemma len_casts:
  assumes "length d < 65536"
  shows "(ucast (of_nat (length d) :: u32) :: u16) = of_nat (length d)" "sint (of_nat (length d) :: u32) = int (length d)"
  using cast_len [OF assms] sint_small [of "length d"] assms by simp_all

lemma am_setData_get:
  "am_getAgent (am_setData m k f) = (am_getAgent m)(k := map_option (\<lambda>a. a\<lparr>ag_data := f (ag_data a)\<rparr>) (am_getAgent m k))"
  by (auto simp: am_setData_def am_getAgent_def fun_eq_iff split: option.split)

lemma am_setData_ok: "am_ok m \<Longrightarrow> am_ok (am_setData m k f)"
  by (auto simp: am_ok_def am_setData_def am_getAgent_def uses_conn_def split: option.split)

section \<open>What sending changes\<close>

text \<open>
  \<open>sent n c bs n'\<close>: from \<open>n\<close> to \<open>n'\<close> the bytes \<open>bs\<close> were queued on connection \<open>c\<close>, no other connection is
  touched and every connection that could send still can.
\<close>

definition sent :: "'a net \<Rightarrow> nat \<Rightarrow> u8 list \<Rightarrow> 'a net \<Rightarrow> bool" where
  "sent n c bs n' \<longleftrightarrow> queued n' c = queued n c @ cells bs \<and> nt_app n' = nt_app n \<and> nt_mgr n' = nt_mgr n \<and>
     nt_conns n' = nt_conns n \<and> nt_events n' = nt_events n \<and> (\<forall>d. sender_ready n d \<longrightarrow> sender_ready n' d) \<and>
     (\<forall>d. tc_buffer (conn_of n d) \<noteq> tc_buffer (conn_of n c) \<longrightarrow> queued n' d = queued n d)"

lemma sentD:
  assumes "sent n c bs n'"
  shows "queued n' c = queued n c @ cells bs" "nt_app n' = nt_app n" "nt_mgr n' = nt_mgr n" "conn_of n' d = conn_of n d"
    "nt_events n' = nt_events n" "sender_ready n d \<Longrightarrow> sender_ready n' d" "mgr_get n' i = mgr_get n i"
    "tc_buffer (conn_of n d) \<noteq> tc_buffer (conn_of n c) \<Longrightarrow> queued n' d = queued n d"
    "msg_connection n' j = msg_connection n j"
  using assms by (auto simp: sent_def conn_of_def mgr_get_def msg_connection_def get_connection_def)

lemma send_sent:
  assumes "sender_ready n c" "length d < 65531"
  shows "\<exists>n'. conn_send n c m d = Some (int (length d), n') \<and> sent n c (packet (Msg m d)) n'"
proof -
  from send_msg_ok [OF assms(1), of "Msg m d"] assms(2) obtain n' where
    n': "send n c m (Some (cells d)) (of_nat (length d)) = Some (int (length d), n')" "sender_ready n' c"
    "queued n' c = queued n c @ cells (packet (Msg m d))" by auto
  then obtain l where l: "n' = upd_buf n c (\<lambda>b. b\<lparr>cb_send_buff_list := l\<rparr>)"
    using assms(1) by (auto simp: send_def write_to_send_buffer_def sender_ready_def split: if_splits bind_splits)
  have "sender_ready n e \<Longrightarrow> sender_ready n' e" for e
    using n'(2) unfolding l sender_ready_def upd_buf_def buf_of_def conn_of_def by auto
  moreover have "tc_buffer (conn_of n e) \<noteq> tc_buffer (conn_of n c) \<Longrightarrow> queued n' e = queued n e" for e
    unfolding l queued_def upd_buf_def buf_of_def conn_of_def by simp
  ultimately show ?thesis using n' by (auto simp: sent_def conn_send_def l upd_buf_def)
qed

lemma agent_send_sent:
  assumes "ag_state a = AGENT_STATE_VERIFIED" "ag_mgr a \<noteq> 0" "mgr_get n (ag_conn_id a) = Some c" "sender_ready n c" "length d < 65531"
  shows "\<exists>n'. agent_conn_send n a m d = Some (0, n') \<and> sent n c (packet (Msg m d)) n'"
  using send_sent [OF assms(4,5), of m] assms(1-3) by (auto simp: agent_conn_send_def agent_sendMsg_def conn_send_def)

lemma verified_agent_sel [simp]:
  "ag_state (verified_agent d g c) = AGENT_STATE_VERIFIED" "ag_mgr (verified_agent d g c) = g" "ag_data (verified_agent d g c) = d"
  by (simp_all add: verified_agent_def agent_init_def new_agent_def)

lemma sender_ready_app [simp]:
  "sender_ready (n\<lparr>nt_app := a\<rparr>) c \<longleftrightarrow> sender_ready n c" "queued (n\<lparr>nt_app := a\<rparr>) c = queued n c"
  "mgr_get (n\<lparr>nt_app := a\<rparr>) i = mgr_get n i" "conn_of (n\<lparr>nt_app := a\<rparr>) c = conn_of n c"
  by (simp_all add: sender_ready_def queued_def mgr_get_def conn_of_def buf_of_def)

section \<open>What closing changes\<close>

text \<open>The store in which the disconnect event of \<open>force_close\<close> is raised.\<close>

definition closing :: "'a net \<Rightarrow> nat \<Rightarrow> 'a net" where
  "closing n c =
     (let n = upd_conn n c (\<lambda>x. x\<lparr>tc_sock_open := False\<rparr>);
          n = (if tc_buffer (conn_of n c) \<noteq> 0 then clear_buffer n c else n);
          n = upd_conn n c (\<lambda>x. x\<lparr>tc_state := JMY_CONN_STATE_DISCONNECTED, tc_sending_data := False\<rparr>)
      in upd_conn n c (\<lambda>x. x\<lparr>tc_event_info :=
           \<lparr>ei_event_id = JMY_EVENT_DISCONNECT, ei_conn_id = tc_id (conn_of n c), ei_param = MGR_PTR, ei_param_l = 0\<rparr>\<rparr>))"

lemma force_close_closing:
  assumes "tc_state (conn_of n c) \<noteq> JMY_CONN_STATE_DISCONNECTED" "tc_event_handler (conn_of n c) \<noteq> 0"
    and "eh_handlers (nt_events n (tc_event_handler (conn_of n c))) JMY_EVENT_DISCONNECT = f" "f \<noteq> nullptr"
  shows "force_close E n c = map_option snd (event_code E f
     \<lparr>ei_event_id = JMY_EVENT_DISCONNECT, ei_conn_id = tc_id (conn_of n c), ei_param = MGR_PTR, ei_param_l = 0\<rparr> (closing n c))"
proof -
  have "Option.bind x (\<lambda>(r, m). Some m) = map_option snd x" for x :: "(int \<times> 'a net) option" by (cases x) auto
  moreover have "conn_of (clear_buffer m c) d = conn_of m d" "nt_events (clear_buffer m c) = nt_events m" for m :: "'a net" and d
    by (simp_all add: clear_buffer_def upd_buf_def conn_of_def split: prod.splits)
  ultimately show ?thesis
    using assms by (simp add: force_close_def handle_event_def onDisconnect_def eh_dispatch_def closing_def Let_def)
qed

lemma closing_app [simp]:
  "nt_app (closing n c) = nt_app n" "nt_mgr (closing n c) = nt_mgr n" "nt_events (closing n c) = nt_events n"
  "mgr_get (closing n c) i = mgr_get n i"
  by (auto simp: closing_def clear_buffer_def upd_buf_def upd_conn_def mgr_get_def Let_def split: prod.splits)

lemma closing_conn:
  "tc_state (conn_of (closing n c) c) = JMY_CONN_STATE_DISCONNECTED"
  "d \<noteq> c \<Longrightarrow> conn_of (closing n c) d = conn_of n d"
  by (auto simp: closing_def clear_buffer_def upd_buf_def upd_conn_def conn_of_def Let_def split: prod.splits)

lemma closing_buf:
  "tc_buffer (conn_of n d) \<noteq> tc_buffer (conn_of n c) \<Longrightarrow> buf_of (closing n c) d = buf_of n d"
  by (auto simp: closing_def clear_buffer_def upd_buf_def upd_conn_def conn_of_def buf_of_def Let_def split: prod.splits)

lemma closing_other:
  assumes "d \<noteq> c" "tc_buffer (conn_of n d) \<noteq> tc_buffer (conn_of n c)"
  shows "sender_ready (closing n c) d \<longleftrightarrow> sender_ready n d" "queued (closing n c) d = queued n d"
  using assms(1) closing_buf [OF assms(2)] by (simp_all add: sender_ready_def queued_def closing_conn(2))

section \<open>One live connection\<close>

lemma connected_net_app [simp]: "nt_app (connected_net ty h app) = app"
  by (simp add: connected_net_def)

lemma connected_net_get: "mgr_get (connected_net ty h app) 3 = Some 1"
  by (simp add: connected_net_def mgr_get_def new_conn_mgr_def)

lemma connected_sender_ready: "sender_ready (connected_net ty h app) c"
  by (simp add: sender_ready_def connected_net_defs bl_ok_def)

text \<open>Two live connections: object 1 has id 3 and object 2 has id 4, each with a buffer of its own.\<close>

definition two_lines :: "'a \<Rightarrow> 'a net" where
  "two_lines app =
     (let n = connected_net JMY_CONN_TYPE_PASSIVE 7 app
      in n\<lparr>nt_mgr := (nt_mgr n)\<lparr>cm_used_map := [3 \<mapsto> 1, 4 \<mapsto> 2]\<rparr>,
           nt_conns := (nt_conns n)(2 := (nt_conns n 2)\<lparr>tc_id := 4, tc_buffer := 2\<rparr>)\<rparr>)"

lemma two_lines_facts:
  "nt_app (two_lines app) = app" "mgr_get (two_lines app) = [3 \<mapsto> 1, 4 \<mapsto> 2]" "sender_ready (two_lines app) c"
  "tc_buffer (conn_of (two_lines app) 1) = 1" "tc_buffer (conn_of (two_lines app) 2) = 2"
  "tc_id (conn_of (two_lines app) 1) = 3" "tc_id (conn_of (two_lines app) 2) = 4" "tc_event_handler (conn_of (two_lines app) c) \<noteq> 0"
  "eh_handlers (nt_events (two_lines app) e) JMY_EVENT_DISCONNECT = 7"
  by (simp_all add: two_lines_def sender_ready_def connected_net_defs bl_ok_def mgr_get_def fun_eq_iff Let_def)

end
