(* ===== verification/Client_Array.thy ===== *)
theory Client_Array
  imports Free_List Server_Common
begin

text \<open>
  \<open>ClientInfo\<close> and \<open>ClientArray\<close> of \<open>gate_server/client_array.h\<close> and \<open>.cpp\<close>: the table of the clients of a gate
  server. A client is named by its index in the table; \<open>info_array_\<close> is null, live, or released and
  still pointed to.
\<close>

record ClientInfo =
  ci_used :: bool
  ci_id :: int
  ci_curr_role_id :: u64
  ci_account :: string
  ci_conn_id :: int
  ci_conn_mgr :: nat
  ci_enter_session :: string
  ci_reconn_session :: string
  ci_role_id_list :: "u64 list"

definition new_client_info :: ClientInfo where
  "new_client_info = \<lparr>ci_used = False, ci_id = 0, ci_curr_role_id = 0, ci_account = [], ci_conn_id = 0, ci_conn_mgr = 0,
     ci_enter_session = [], ci_reconn_session = [], ci_role_id_list = []\<rparr>"

definition ci_send :: "'a net \<Rightarrow> ClientInfo \<Rightarrow> i32 \<Rightarrow> cptr \<Rightarrow> u16 \<Rightarrow> (int \<times> 'a net) option" where
  "ci_send n ci msg_id data len =
     (if \<not> ci_used ci then Some (- 1, n)
      else case get_connection n (ci_conn_id ci) (ci_conn_mgr ci) of
        None \<Rightarrow> Some (- 1, n)
      | Some c \<Rightarrow> send n c msg_id data (ucast len))"

definition ci_close :: "'a net \<Rightarrow> ClientInfo \<Rightarrow> int \<Rightarrow> ('a net \<times> ClientInfo) option" where
  "ci_close n ci now =
     (if \<not> ci_used ci then Some (n, ci)
      else case get_connection n (ci_conn_id ci) (ci_conn_mgr ci) of
        None \<Rightarrow> Some (n, ci)
      | Some c \<Rightarrow> do { n \<leftarrow> conn_close n c now; Some (n, ci\<lparr>ci_used := False\<rparr>) })"

definition ci_force_close :: "'a env \<Rightarrow> 'a net \<Rightarrow> ClientInfo \<Rightarrow> 'a net option" where
  "ci_force_close E n ci =
     (if \<not> ci_used ci then Some n
      else case get_connection n (ci_conn_id ci) (ci_conn_mgr ci) of
        None \<Rightarrow> Some n
      | Some c \<Rightarrow> force_close E n c)"

definition ci_check_conn :: "'a net \<Rightarrow> ClientInfo \<Rightarrow> nat \<Rightarrow> bool" where
  "ci_check_conn n ci conn2 =
     (case get_connection n (ci_conn_id ci) (ci_conn_mgr ci) of None \<Rightarrow> False | Some c \<Rightarrow> c = conn2)"

definition ci_has_role_id :: "ClientInfo \<Rightarrow> u64 \<Rightarrow> bool" where
  "ci_has_role_id ci r = list_ex (\<lambda>x. x = r) (ci_role_id_list ci)"

definition ci_add_role_id :: "ClientInfo \<Rightarrow> u64 \<Rightarrow> ClientInfo" where
  "ci_add_role_id ci r = (if \<not> ci_has_role_id ci r then ci\<lparr>ci_role_id_list := ci_role_id_list ci @ [r]\<rparr> else ci)"

section \<open>ClientArray\<close>

datatype array_ptr = NullArray | LiveArray | FreedArray

record ClientArray =
  ca_ptr :: array_ptr
  ca_info_array :: "ClientInfo list"
  ca_start_id :: int
  ca_info_size :: int
  ca_free_ids :: "int list"
  ca_used_ids :: "int set"
  ca_inited :: bool

definition new_client_array :: ClientArray where
  "new_client_array = \<lparr>ca_ptr = NullArray, ca_info_array = [], ca_start_id = 0, ca_info_size = 0, ca_free_ids = [],
     ca_used_ids = {}, ca_inited = False\<rparr>"

definition ca_init :: "ClientArray \<Rightarrow> int \<Rightarrow> int \<Rightarrow> bool \<times> ClientArray" where
  "ca_init a array_size start_id =
     (if array_size \<le> 0 \<or> start_id \<le> 0 then (False, a)
      else if ca_ptr a \<noteq> NullArray then (True, a)
      else if ca_inited a then (True, a)
      else
        let ids = map (\<lambda>i. start_id + int i) [0..<nat array_size]
        in (True, a\<lparr>ca_ptr := LiveArray, ca_info_array := map (\<lambda>i. new_client_info\<lparr>ci_id := i\<rparr>) ids,
              ca_free_ids := ca_free_ids a @ ids, ca_info_size := array_size, ca_start_id := start_id, ca_inited := True\<rparr>))"

text \<open>\<open>clear\<close> releases the array and keeps the pointer; releasing it again is undefined.\<close>

definition ca_clear :: "ClientArray \<Rightarrow> ClientArray option" where
  "ca_clear a = do {
     require (ca_ptr a \<noteq> FreedArray);
     Some (a\<lparr>ca_ptr := (if ca_ptr a = LiveArray then FreedArray else ca_ptr a), ca_info_array := [], ca_free_ids := [],
       ca_used_ids := {}, ca_start_id := 0, ca_info_size := 0, ca_inited := False\<rparr>)
   }"

definition ca_reset :: "ClientArray \<Rightarrow> ClientArray" where
  "ca_reset a = a"

definition ca_index :: "ClientArray \<Rightarrow> int \<Rightarrow> nat option" where
  "ca_index a i = do {
     require (ca_ptr a = LiveArray \<and> 0 \<le> i - ca_start_id a \<and> nat (i - ca_start_id a) < length (ca_info_array a));
     Some (nat (i - ca_start_id a))
   }"

definition ca_getFree :: "ClientArray \<Rightarrow> (nat option \<times> ClientArray) option" where
  "ca_getFree a =
     (if \<not> ca_inited a then Some (None, a)
      else case ca_free_ids a of
        [] \<Rightarrow> Some (None, a)
      | i # is \<Rightarrow> do {
          k \<leftarrow> ca_index a i;
          Some (Some k, a\<lparr>ca_free_ids := is, ca_info_array := (ca_info_array a)[k := (ca_info_array a ! k)\<lparr>ci_id := i, ci_used := True\<rparr>],
            ca_used_ids := insert i (ca_used_ids a)\<rparr>)
        })"

definition ca_get :: "ClientArray \<Rightarrow> int \<Rightarrow> nat option option" where
  "ca_get a i =
     (if \<not> ca_inited a then Some None
      else if i < ca_start_id a \<or> i > ca_start_id a + ca_info_size a then Some None
      else if i \<notin> ca_used_ids a then Some None
      else do { k \<leftarrow> ca_index a i; Some (Some k) })"

definition ca_free_info :: "ClientArray \<Rightarrow> nat \<Rightarrow> bool \<times> ClientArray" where
  "ca_free_info a k =
     (if \<not> ca_inited a then (False, a)
      else if \<not> ci_used (ca_info_array a ! k) then (False, a)
      else (True, a\<lparr>ca_free_ids := ci_id (ca_info_array a ! k) # ca_free_ids a, ca_used_ids := ca_used_ids a - {ci_id (ca_info_array a ! k)},
              ca_info_array := (ca_info_array a)[k := (ca_info_array a ! k)\<lparr>ci_used := False\<rparr>]\<rparr>))"

definition ca_free :: "ClientArray \<Rightarrow> int \<Rightarrow> (bool \<times> ClientArray) option" where
  "ca_free a i = do {
     k \<leftarrow> ca_get a i;
     case k of None \<Rightarrow> Some (False, a) | Some k \<Rightarrow> Some (ca_free_info a k)
   }"

definition ca_getUsedSize :: "ClientArray \<Rightarrow> int" where
  "ca_getUsedSize a = int (card (ca_used_ids a))"

section \<open>The table is a free-list pool\<close>

definition ca_ok :: "ClientArray \<Rightarrow> bool" where
  "ca_ok a \<longleftrightarrow> ca_inited a \<and> ca_ptr a = LiveArray \<and> ca_info_size a = int (length (ca_info_array a)) \<and>
     distinct (ca_free_ids a) \<and> set (ca_free_ids a) \<inter> ca_used_ids a = {} \<and>
     set (ca_free_ids a) \<union> ca_used_ids a = {ca_start_id a..<ca_start_id a + int (length (ca_info_array a))} \<and>
     (\<forall>k < length (ca_info_array a). ci_id (ca_info_array a ! k) = ca_start_id a + int k \<and>
        (ci_used (ca_info_array a ! k) \<longleftrightarrow> ca_start_id a + int k \<in> ca_used_ids a))"

lemma ca_okD:
  assumes "ca_ok a"
  shows "ca_inited a" "ca_ptr a = LiveArray" "ca_info_size a = int (length (ca_info_array a))" "distinct (ca_free_ids a)"
    "set (ca_free_ids a) \<inter> ca_used_ids a = {}"
    "set (ca_free_ids a) \<union> ca_used_ids a = {ca_start_id a..<ca_start_id a + int (length (ca_info_array a))}"
    "k < length (ca_info_array a) \<Longrightarrow> ci_id (ca_info_array a ! k) = ca_start_id a + int k"
    "k < length (ca_info_array a) \<Longrightarrow> ci_used (ca_info_array a ! k) \<longleftrightarrow> ca_start_id a + int k \<in> ca_used_ids a"
  using assms by (simp_all add: ca_ok_def)

lemma ca_index_ok:
  assumes "ca_ok a" "i \<in> set (ca_free_ids a) \<union> ca_used_ids a"
  shows "ca_index a i = Some (nat (i - ca_start_id a)) \<and> nat (i - ca_start_id a) < length (ca_info_array a) \<and> ca_start_id a \<le> i"
  using assms(2) ca_okD(2,6) [OF assms(1)] by (auto simp: ca_index_def)

lemma ca_init_ok:
  assumes "0 < n" "0 < start"
  shows "\<exists>a. ca_init new_client_array n start = (True, a) \<and> ca_ok a \<and> ca_used_ids a = {} \<and> length (ca_free_ids a) = nat n \<and>
    ca_start_id a = start \<and> length (ca_info_array a) = nat n"
proof -
  let ?ids = "map (\<lambda>i. start + int i) [0..<nat n]"
  let ?a = "\<lparr>ca_ptr = LiveArray, ca_info_array = map (\<lambda>i. new_client_info\<lparr>ci_id := i\<rparr>) ?ids, ca_start_id = start, ca_info_size = n,
    ca_free_ids = ?ids, ca_used_ids = {}, ca_inited = True\<rparr>"
  have "ca_init new_client_array n start = (True, ?a)" using assms by (simp add: ca_init_def new_client_array_def Let_def)
  moreover have "set ?ids = {start..<start + n}"
  proof
    show "{start..<start + n} \<subseteq> set ?ids"
    proof
      fix x assume "x \<in> {start..<start + n}"
      then show "x \<in> set ?ids" using assms by (auto simp: image_iff intro!: bexI [of _ "nat (x - start)"])
    qed
  qed (use assms in auto)
  then have "ca_ok ?a" using assms by (auto simp: ca_ok_def distinct_map inj_on_def new_client_info_def)
  ultimately show ?thesis by simp
qed

lemma ca_getFree_ok:
  assumes ok: "ca_ok a" and free: "ca_free_ids a = i # is"
  shows "\<exists>a'. ca_getFree a = Some (Some (nat (i - ca_start_id a)), a') \<and> ca_ok a' \<and> ca_free_ids a' = is \<and>
    ca_used_ids a' = insert i (ca_used_ids a) \<and> ci_id (ca_info_array a' ! nat (i - ca_start_id a)) = i \<and>
    ca_start_id a' = ca_start_id a \<and> length (ca_info_array a') = length (ca_info_array a)"
proof -
  let ?k = "nat (i - ca_start_id a)"
  note O = ca_okD [OF ok]
  have ix: "ca_index a i = Some ?k" "?k < length (ca_info_array a)" "ca_start_id a \<le> i" using ca_index_ok [OF ok, of i] free by auto
  let ?a = "a\<lparr>ca_free_ids := is, ca_info_array := (ca_info_array a)[?k := (ca_info_array a ! ?k)\<lparr>ci_id := i, ci_used := True\<rparr>],
    ca_used_ids := insert i (ca_used_ids a)\<rparr>"
  have "ca_getFree a = Some (Some ?k, ?a)" using O(1) free ix by (simp add: ca_getFree_def)
  moreover have "ca_ok ?a"
    using O(1-6) O(7,8) free ix unfolding ca_ok_def by (auto simp: nth_list_update)
  ultimately show ?thesis using ix by simp
qed

lemma ca_free_ok:
  assumes ok: "ca_ok a" and used: "i \<in> ca_used_ids a"
  shows "\<exists>a'. ca_free a i = Some (True, a') \<and> ca_ok a' \<and> ca_free_ids a' = i # ca_free_ids a \<and> ca_used_ids a' = ca_used_ids a - {i}"
proof -
  let ?k = "nat (i - ca_start_id a)"
  note O = ca_okD [OF ok]
  have ix: "ca_index a i = Some ?k" "?k < length (ca_info_array a)" "ca_start_id a \<le> i" using ca_index_ok [OF ok, of i] used by auto
  have info: "ci_id (ca_info_array a ! ?k) = i" "ci_used (ca_info_array a ! ?k)" using O(7,8) [OF ix(2)] ix(3) used by simp_all
  let ?a = "a\<lparr>ca_free_ids := i # ca_free_ids a, ca_used_ids := ca_used_ids a - {i},
    ca_info_array := (ca_info_array a)[?k := (ca_info_array a ! ?k)\<lparr>ci_used := False\<rparr>]\<rparr>"
  have "i < ca_start_id a + int (length (ca_info_array a))" using ix(2,3) by linarith
  then have "ca_free a i = Some (True, ?a)"
    using O(1,3) ix info used by (simp add: ca_free_def ca_get_def ca_free_info_def)
  moreover have "ca_ok ?a"
    using O(1-6) O(7,8) used ix unfolding ca_ok_def by (auto simp: nth_list_update)
  ultimately show ?thesis by simp
qed

lemma ca_free_other: "ca_ok a \<Longrightarrow> i \<notin> ca_used_ids a \<Longrightarrow> ca_free a i = Some (False, a)"
  by (simp add: ca_free_def ca_get_def)

definition ca_alloc :: "ClientArray \<Rightarrow> (int \<times> ClientArray) option" where
  "ca_alloc a = (case ca_getFree a of Some (Some k, a') \<Rightarrow> Some (ci_id (ca_info_array a' ! k), a') | _ \<Rightarrow> None)"

definition ca_release :: "ClientArray \<Rightarrow> int \<Rightarrow> bool \<times> ClientArray" where
  "ca_release a i = (case ca_free a i of Some r \<Rightarrow> r | None \<Rightarrow> (False, a))"

lemma ca_alloc_cases:
  assumes "ca_ok a"
  shows "case ca_free_ids a of [] \<Rightarrow> ca_getFree a = Some (None, a) \<and> ca_alloc a = None
    | i # is \<Rightarrow> \<exists>k a'. ca_getFree a = Some (Some k, a') \<and> ca_alloc a = Some (i, a') \<and> ca_ok a' \<and> ca_free_ids a' = is \<and>
        ca_used_ids a' = insert i (ca_used_ids a)"
proof (cases "ca_free_ids a")
  case Nil
  then show ?thesis using ca_okD(1) [OF assms] by (simp add: ca_alloc_def ca_getFree_def)
next
  case (Cons i "is")
  from ca_getFree_ok [OF assms Cons] show ?thesis by (auto simp: Cons ca_alloc_def)
qed

interpretation ca: free_list_pool ca_alloc ca_release ca_free_ids ca_used_ids ca_ok
proof unfold_locales
  fix a r a' b
  assume ok: "ca_ok a"
  show "distinct (ca_free_ids a) \<and> set (ca_free_ids a) \<inter> ca_used_ids a = {}" using ca_okD(4,5) [OF ok] by simp
  show "(ca_alloc a = None) = (ca_free_ids a = [])" using ca_alloc_cases [OF ok] by (auto split: list.splits)
  show "ca_free_ids a = r # ca_free_ids a' \<and> ca_used_ids a' = insert r (ca_used_ids a) \<and> ca_ok a'" if "ca_alloc a = Some (r, a')"
    using that ca_alloc_cases [OF ok] by (auto split: list.splits)
  show "b \<and> mset (ca_free_ids a') = add_mset r (mset (ca_free_ids a)) \<and> ca_used_ids a' = ca_used_ids a - {r} \<and> ca_ok a'"
    if used: "r \<in> ca_used_ids a" and rel: "ca_release a r = (b, a')"
  proof -
    obtain a1 where "ca_free a r = Some (True, a1)" "ca_ok a1" "ca_free_ids a1 = r # ca_free_ids a" "ca_used_ids a1 = ca_used_ids a - {r}"
      using ca_free_ok [OF ok used] by blast
    then show ?thesis using rel by (simp add: ca_release_def)
  qed
  show "ca_release a r = (False, a)" if "r \<notin> ca_used_ids a" using ca_free_other [OF ok that] by (simp add: ca_release_def)
qed

section \<open>Properties\<close>

text \<open>
  C25. The client table over any history. After \<open>init\<close> for \<open>n\<close> clients and any sequence of
  \<open>getFree\<close> and \<open>free\<close> with any ids, no access leaves the array (the lookup by id included, whose bound check lets one id
  too many pass), \<open>getFree\<close> fails exactly when all \<open>n\<close> clients are in use, and an id it hands out was not in use.
\<close>

theorem client_table_history:
  assumes "0 < n" "0 < start" "ca_init new_client_array n start = (True, a0)" "a = foldl ca.step a0 xs"
  shows "(\<exists>r. ca_getFree a = Some r) \<and> (\<exists>r. ca_get a i = Some r) \<and> (\<exists>r. ca_free a i = Some r) \<and>
    (ca_getFree a = Some (None, a) \<longleftrightarrow> ca_getUsedSize a = n) \<and>
    (\<forall>j a'. ca_alloc a = Some (j, a') \<longrightarrow> j \<notin> ca_used_ids a \<and> j \<in> ca_used_ids a' \<and> start \<le> j \<and> j < start + n)"
proof -
  from ca_init_ok [OF assms(1,2)] assms(3) have a0: "ca_ok a0" "ca_used_ids a0 = {}" "length (ca_free_ids a0) = nat n"
    "ca_start_id a0 = start" "length (ca_info_array a0) = nat n" by auto
  have ok: "ca_ok a" and st: "ca.stock a = ca.stock a0" using ca.run_inv [OF a0(1), of xs] assms(4) by auto
  have stock: "ca.stock a0 = {start..<start + n}"
    using ca_okD(6) [OF a0(1)] assms(1) a0(4,5) by (simp add: ca.stock_def)
  have fin: "finite (ca_used_ids a)" using st stock by (simp add: ca.stock_def) (metis finite_Un finite_atLeastLessThan_int)
  have size: "length (ca_free_ids a) + card (ca_used_ids a) = nat n"
    using ca.held_available [OF ok fin] st stock by simp
  note alloc = ca_alloc_cases [OF ok]
  have "\<exists>r. ca_getFree a = Some r" using alloc by (auto split: list.splits)
  moreover have "\<exists>r. ca_get a i = Some r"
    using ca_index_ok [OF ok, of i] by (auto simp: ca_get_def)
  moreover have "\<exists>r. ca_free a i = Some r"
    using ca_free_ok [OF ok, of i] ca_free_other [OF ok, of i] by (cases "i \<in> ca_used_ids a") blast+
  moreover have "ca_getFree a = Some (None, a) \<longleftrightarrow> ca_free_ids a = []" using alloc by (auto split: list.splits)
  then have "ca_getFree a = Some (None, a) \<longleftrightarrow> ca_getUsedSize a = n"
    using size assms(1) by (auto simp: ca_getUsedSize_def)
  moreover have "j \<notin> ca_used_ids a \<and> j \<in> ca_used_ids a' \<and> start \<le> j \<and> j < start + n" if "ca_alloc a = Some (j, a')" for j a'
  proof -
    have "j \<in> ca.stock a" using ca.alloc_some [OF ok that] by (simp add: ca.stock_def)
    then show ?thesis using ca.alloc_exclusive [OF ok that] st stock by simp
  qed
  ultimately show ?thesis by blast
qed

theorem client_table_history_witness:
  "\<exists>a0. ca_init new_client_array 2 100000 = (True, a0) \<and>
    (\<exists>r. ca_get (foldl ca.step a0 [Alloc, Alloc, Release 100001, Release 100002]) 100002 = Some r)"
proof -
  obtain a0 where a0: "ca_init new_client_array 2 100000 = (True, a0)" using ca_init_ok [of 2 100000] by auto
  from client_table_history [of 2 100000 a0 _ "[Alloc, Alloc, Release 100001, Release 100002]" 100002, OF _ _ this] a0
  show ?thesis by auto
qed

text \<open>A client whose \<open>used\<close> flag was cleared behind the table's back.\<close>

definition ca_lost :: "ClientArray \<Rightarrow> nat \<Rightarrow> bool" where
  "ca_lost a k \<longleftrightarrow> ca_inited a \<and> ca_ptr a = LiveArray \<and> k < length (ca_info_array a) \<and> \<not> ci_used (ca_info_array a ! k) \<and>
     ca_start_id a + int k \<in> ca_used_ids a \<and> ca_start_id a + int k \<notin> set (ca_free_ids a) \<and>
     set (ca_free_ids a) \<subseteq> {ca_start_id a..<ca_start_id a + int (length (ca_info_array a))} \<and>
     (\<forall>j < length (ca_info_array a). ci_id (ca_info_array a ! j) = ca_start_id a + int j)"

lemma ca_lost_getFree:
  assumes "ca_lost a k" "ca_free_ids a = i # is"
  shows "\<exists>a'. ca_getFree a = Some (Some (nat (i - ca_start_id a)), a') \<and> ca_lost a' k \<and> ca_start_id a' = ca_start_id a"
proof -
  let ?k = "nat (i - ca_start_id a)"
  let ?a = "a\<lparr>ca_free_ids := is, ca_info_array := (ca_info_array a)[?k := (ca_info_array a ! ?k)\<lparr>ci_id := i, ci_used := True\<rparr>],
    ca_used_ids := insert i (ca_used_ids a)\<rparr>"
  have ix: "?k < length (ca_info_array a)" "ca_start_id a \<le> i" "?k \<noteq> k" using assms by (auto simp: ca_lost_def)
  then have "ca_getFree a = Some (Some ?k, ?a)" using assms by (simp add: ca_getFree_def ca_index_def ca_lost_def)
  moreover have "ca_lost ?a k" using assms ix unfolding ca_lost_def by (auto simp: nth_list_update)
  ultimately show ?thesis by simp
qed

lemma ca_lostD:
  assumes "ca_lost a k"
  shows "ca_inited a" "ca_ptr a = LiveArray" "k < length (ca_info_array a)" "\<not> ci_used (ca_info_array a ! k)"
    "ca_start_id a + int k \<in> ca_used_ids a" "ca_start_id a + int k \<notin> set (ca_free_ids a)"
    "set (ca_free_ids a) \<subseteq> {ca_start_id a..<ca_start_id a + int (length (ca_info_array a))}"
    "\<And>j. j < length (ca_info_array a) \<Longrightarrow> ci_id (ca_info_array a ! j) = ca_start_id a + int j"
  using assms by (simp_all add: ca_lost_def)

lemma ca_lost_step:
  assumes "ca_lost a k"
  shows "ca_lost (ca.step a x) k \<and> ca_start_id (ca.step a x) = ca_start_id a"
proof (cases x)
  case Alloc
  then show ?thesis using ca_lost_getFree [OF assms] assms
    by (cases "ca_free_ids a") (auto simp: ca.step_def ca_alloc_def ca_getFree_def ca_lost_def split: option.splits)
next
  case (Release i)
  show ?thesis
  proof (cases "ca_free a i")
    case (Some r)
    with Release have step: "ca.step a x = snd r" by (simp add: ca.step_def ca_release_def)
    show ?thesis
    proof (cases "fst r")
      case True
      with Some obtain j where j: "j < length (ca_info_array a)" "ci_used (ca_info_array a ! j)" and
        r: "snd r = a\<lparr>ca_free_ids := ci_id (ca_info_array a ! j) # ca_free_ids a, ca_used_ids := ca_used_ids a - {ci_id (ca_info_array a ! j)},
              ca_info_array := (ca_info_array a)[j := (ca_info_array a ! j)\<lparr>ci_used := False\<rparr>]\<rparr>"
        by (auto simp: ca_free_def ca_get_def ca_index_def ca_free_info_def split: if_splits)
      have "j \<noteq> k" using j assms by (auto simp: ca_lost_def)
      then show ?thesis using assms j unfolding step r ca_lost_def by (auto simp: nth_list_update)
    next
      case False
      then have "snd r = a" using Some by (auto simp: ca_free_def ca_free_info_def split: if_splits option.splits bind_splits)
      then show ?thesis using step assms by simp
    qed
  qed (use Release assms in \<open>simp add: ca.step_def ca_release_def\<close>)
qed

text \<open>
  Closing a client loses its place in the table. \<open>ClientInfo::close\<close> of a client with a connection
  clears the \<open>used\<close> flag, and \<open>ClientArray::free\<close> refuses an entry without it: in every state that any
  sequence of \<open>getFree\<close> and \<open>free\<close> reaches afterwards, the id is still in use and freeing it fails.
\<close>

theorem closed_client_keeps_its_id:
  assumes "ca_ok a" "k < length (ca_info_array a)" "ci_used (ca_info_array a ! k)"
    and "ci_close n (ca_info_array a ! k) now = Some (n', ci)" "get_connection n (ci_conn_id (ca_info_array a ! k)) (ci_conn_mgr (ca_info_array a ! k)) \<noteq> None"
    and "a' = foldl ca.step (a\<lparr>ca_info_array := (ca_info_array a)[k := ci]\<rparr>) xs"
  shows "ca_start_id a + int k \<in> ca_used_ids a' \<and> ca_free a' (ca_start_id a + int k) = Some (False, a')"
proof -
  let ?a = "a\<lparr>ca_info_array := (ca_info_array a)[k := ci]\<rparr>"
  have ci: "ci = (ca_info_array a ! k)\<lparr>ci_used := False\<rparr>"
    using assms(3-5) by (auto simp: ci_close_def split: bind_splits)
  note O = ca_okD [OF assms(1)]
  have "ca_lost ?a k"
    using O(1,2,5,6) O(7,8) assms(2,3) unfolding ca_lost_def ci by (auto simp: nth_list_update)
  then have "ca_lost a' k \<and> ca_start_id a' = ca_start_id a"
    unfolding assms(6) by (induction xs rule: rev_induct) (auto dest: ca_lost_step)
  then show ?thesis by (auto simp: ca_lost_def ca_free_def ca_get_def ca_index_def ca_free_info_def)
qed

text \<open>A table with one client, which is in use on connection 3.\<close>

definition one_client :: ClientArray where
  "one_client = \<lparr>ca_ptr = LiveArray, ca_info_array = [new_client_info\<lparr>ci_used := True, ci_id := 100000, ci_conn_id := 3, ci_conn_mgr := 1\<rparr>],
     ca_start_id = 100000, ca_info_size = 1, ca_free_ids = [], ca_used_ids = {100000}, ca_inited = True\<rparr>"

theorem closed_client_keeps_its_id_witness:
  "\<exists>n' ci. ci_close (connected_net JMY_CONN_TYPE_PASSIVE 7 ()) (ca_info_array one_client ! 0) 0 = Some (n', ci) \<and>
    100000 \<in> ca_used_ids (foldl ca.step (one_client\<lparr>ca_info_array := [ci]\<rparr>) [Release 100000, Alloc])"
proof -
  let ?n = "connected_net JMY_CONN_TYPE_PASSIVE 7 ()" and ?i = "ca_info_array one_client ! 0"
  have ok: "ca_ok one_client" "0 < length (ca_info_array one_client)" "ci_used ?i" by (auto simp: ca_ok_def one_client_def)
  have con: "get_connection ?n (ci_conn_id ?i) (ci_conn_mgr ?i) = Some 1"
    by (simp add: get_connection_def one_client_def mgr_get_def connected_net_defs)
  have "bl_ok (cb_send_buff_list (buf_of ?n 1)) \<and> unlimited (cb_send_buff_list (buf_of ?n 1))"
    by (simp add: connected_net_defs bl_ok_def unlimited_def)
  from ubl.writeDisconnect_ok [OF this] obtain l where
    "writeDisconnect bl_writeData (cb_send_buff_list (buf_of ?n 1)) = Some (3, l)" by (auto simp: ubl.wrote_def)
  then obtain m where "conn_close ?n 1 0 = Some m"
    by (auto simp: conn_close_def sendDisconnect_def write_to_send_buffer_def connected_net_defs)
  then have close: "ci_close ?n ?i 0 = Some (m, ?i\<lparr>ci_used := False\<rparr>)" using con ok(3) by (simp add: ci_close_def)
  from closed_client_keeps_its_id [OF ok close _ refl, of "[Release 100000, Alloc]"] con close
  show ?thesis by (auto simp: one_client_def)
qed

text \<open>
  A cleared client table stays unusable. After \<open>clear\<close> of a table that was in use, \<open>init\<close> reports
  success for any size, no client can be had from it, and clearing it again, as the destructor does,
  has no defined result.
\<close>

theorem cleared_table_unusable:
  assumes "ca_ok a" "0 < n" "0 < start"
  shows "\<exists>a1. ca_clear a = Some a1 \<and> ca_init a1 n start = (True, a1) \<and> ca_getFree a1 = Some (None, a1) \<and>
    ca_get a1 i = Some None \<and> ca_clear a1 = None"
  using assms by (simp add: ca_clear_def ca_ok_def ca_init_def ca_getFree_def ca_get_def)

theorem cleared_table_unusable_witness:
  "\<exists>a a1. ca_init new_client_array 3 100000 = (True, a) \<and> ca_clear a = Some a1 \<and> ca_init a1 3 100000 = (True, a1) \<and>
    ca_getFree a1 = Some (None, a1) \<and> ca_clear a1 = None"
proof -
  obtain a where a: "ca_init new_client_array 3 100000 = (True, a)" "ca_ok a" using ca_init_ok [of 3 100000] by auto
  from cleared_table_unusable [OF a(2), of 3 100000] a(1) show ?thesis by auto
qed

end
