(* ===== verification/Gate_State.thy ===== *)
theory Gate_State
  imports Bi_Map Client_Array Tcp_Client
begin

text \<open>
  The state of a gate server: \<open>ClientManager\<close> of \<open>gate_server/client_manager.cpp\<close> and \<open>GlobalData\<close> of
  \<open>gate_server/global_data.cpp\<close>. Both are application state of the server that listens for clients, so
  they live in the \<open>nt_app\<close> of its store; the connections of the game server and of the login servers
  have managers, and so stores, of their own inside it. \<open>time\<close> arguments are in seconds.
\<close>

abbreviation (input) DEFAULT_CLIENT_START_ID :: int where "DEFAULT_CLIENT_START_ID \<equiv> 100000"

record SessionInfo =
  si_session :: string
  si_get_session_time :: int

record gate_state =
  gs_account_session :: "string \<Rightarrow> SessionInfo option"
  gs_account_id :: "(string, int) BiMap"
  gs_connid_id :: "(int, int) BiMap"
  gs_clients :: ClientArray
  gs_login_clients :: "int \<Rightarrow> nat option"
  gs_login_mgr :: "unit AgentManagerPerf"
  gs_game_mgr :: "unit AgentManagerPerf"
  gs_the_game_id :: int
  gs_game_net :: "unit net"
  gs_client_master :: "unit master"
  gs_login_client_set :: client_set
  gs_client_max_conn :: u32

type_synonym gate = "gate_state net"

definition upd_gate :: "gate \<Rightarrow> (gate_state \<Rightarrow> gate_state) \<Rightarrow> gate" where
  "upd_gate n f = n\<lparr>nt_app := f (nt_app n)\<rparr>"

lemma nt_app_upd_gate [simp]: "nt_app (upd_gate n f) = f (nt_app n)"
  by (simp add: upd_gate_def)

lemma upd_gate_net [simp]:
  "conn_of (upd_gate n f) c = conn_of n c" "nt_mgr (upd_gate n f) = nt_mgr n" "buf_of (upd_gate n f) c = buf_of n c"
  "mgr_get (upd_gate n f) i = mgr_get n i" "nt_events (upd_gate n f) = nt_events n"
  by (simp_all add: upd_gate_def conn_of_def buf_of_def mgr_get_def)

section \<open>ClientManager\<close>

definition cmgr_init :: "gate \<Rightarrow> int \<Rightarrow> bool \<times> gate" where
  "cmgr_init n max_conn =
     (let (r, a) = ca_init (gs_clients (nt_app n)) max_conn DEFAULT_CLIENT_START_ID
      in (r, upd_gate n (\<lambda>g. g\<lparr>gs_clients := a\<rparr>)))"

definition cmgr_clear :: "gate \<Rightarrow> gate option" where
  "cmgr_clear n = do {
     a \<leftarrow> ca_clear (gs_clients (nt_app n));
     Some (upd_gate n (\<lambda>g. g\<lparr>gs_account_session := Map.empty, gs_connid_id := bimap_clear (gs_connid_id g),
       gs_account_id := bimap_clear (gs_account_id g), gs_clients := a\<rparr>))
   }"

definition newAccountSession :: "gate_state \<Rightarrow> string \<Rightarrow> string \<Rightarrow> int \<Rightarrow> bool \<times> gate_state" where
  "newAccountSession g account session time =
     (case gs_account_session g account of
        None \<Rightarrow> (True, g\<lparr>gs_account_session := map_insert (gs_account_session g) account \<lparr>si_session = session, si_get_session_time = time\<rparr>\<rparr>)
      | Some s \<Rightarrow> (True, g\<lparr>gs_account_session := (gs_account_session g)(account \<mapsto> s\<lparr>si_session := session, si_get_session_time := time\<rparr>)\<rparr>))"

definition checkSessionByAccount :: "gate_state \<Rightarrow> string \<Rightarrow> string \<Rightarrow> int \<Rightarrow> bool \<times> gate_state" where
  "checkSessionByAccount g account session time =
     (case gs_account_session g account of
        None \<Rightarrow> (False, g)
      | Some s \<Rightarrow>
          if si_session s \<noteq> session then (False, g)
          else if time - si_get_session_time s > 100 then (False, g\<lparr>gs_account_session := (gs_account_session g)(account := None)\<rparr>)
          else (True, g\<lparr>gs_account_session := (gs_account_session g)(account := None)\<rparr>))"

text \<open>Reading and writing the \<open>ClientInfo\<close> that a pointer into the table addresses.\<close>

definition info_at :: "gate \<Rightarrow> nat \<Rightarrow> ClientInfo" where
  "info_at n k = ca_info_array (gs_clients (nt_app n)) ! k"

definition upd_info :: "gate \<Rightarrow> nat \<Rightarrow> (ClientInfo \<Rightarrow> ClientInfo) \<Rightarrow> gate" where
  "upd_info n k f = upd_gate n (\<lambda>g. g\<lparr>gs_clients := (gs_clients g)\<lparr>ca_info_array :=
     (ca_info_array (gs_clients g))[k := f (ca_info_array (gs_clients g) ! k)]\<rparr>\<rparr>)"

definition newClient :: "gate_state env \<Rightarrow> gate \<Rightarrow> string \<Rightarrow> (nat option \<times> gate) option" where
  "newClient E n account = do {
     (k, n) \<leftarrow> (case find_1 (gs_account_id (nt_app n)) account of
         Some i \<Rightarrow> do {
           k \<leftarrow> ca_get (gs_clients (nt_app n)) i;
           case k of
             None \<Rightarrow> Some (None, n)
           | Some k \<Rightarrow> do { n \<leftarrow> ci_force_close E n (info_at n k); Some (Some k, n) }
         }
       | None \<Rightarrow> do {
           (k, a) \<leftarrow> ca_getFree (gs_clients (nt_app n));
           case k of
             None \<Rightarrow> Some (None, n)
           | Some k \<Rightarrow> Some (Some k, upd_gate n (\<lambda>g. g\<lparr>gs_clients := a,
               gs_account_id := snd (bimap_insert (gs_account_id g) account (ci_id (ca_info_array a ! k)))\<rparr>))
         });
     case k of
       None \<Rightarrow> Some (None, n)
     | Some k \<Rightarrow> Some (Some k, upd_info n k (\<lambda>x. x\<lparr>ci_account := account\<rparr>))
   }"

definition newClientSession :: "gate_state env \<Rightarrow> gate \<Rightarrow> string \<Rightarrow> string \<Rightarrow> (bool \<times> gate) option" where
  "newClientSession E n account session_code = do {
     (k, n) \<leftarrow> newClient E n account;
     case k of None \<Rightarrow> Some (False, n) | Some k \<Rightarrow> Some (True, upd_info n k (\<lambda>x. x\<lparr>ci_enter_session := session_code\<rparr>))
   }"

definition getClientInfo :: "gate_state \<Rightarrow> int \<Rightarrow> nat option option" where
  "getClientInfo g i = ca_get (gs_clients g) i"

definition getClientInfoByAccount :: "gate_state \<Rightarrow> string \<Rightarrow> nat option option" where
  "getClientInfoByAccount g account =
     (case find_1 (gs_account_id g) account of None \<Rightarrow> Some None | Some i \<Rightarrow> ca_get (gs_clients g) i)"

definition getClientInfoByConnId :: "gate_state \<Rightarrow> int \<Rightarrow> nat option option" where
  "getClientInfoByConnId g cid =
     (case find_1 (gs_connid_id g) cid of None \<Rightarrow> Some None | Some i \<Rightarrow> ca_get (gs_clients g) i)"

definition insertConnIdId :: "gate_state \<Rightarrow> int \<Rightarrow> int \<Rightarrow> bool \<times> gate_state" where
  "insertConnIdId g cid i = (let (r, m) = bimap_insert (gs_connid_id g) cid i in (r, g\<lparr>gs_connid_id := m\<rparr>))"

definition getIdByConnId :: "gate_state \<Rightarrow> int \<Rightarrow> int" where
  "getIdByConnId g cid = (case find_1 (gs_connid_id g) cid of None \<Rightarrow> 0 | Some i \<Rightarrow> i)"

definition removeByConnId :: "gate_state \<Rightarrow> int \<Rightarrow> (bool \<times> gate_state) option" where
  "removeByConnId g cid =
     (case find_1 (gs_connid_id g) cid of
        None \<Rightarrow> Some (False, g)
      | Some i \<Rightarrow> do {
          (r, a) \<leftarrow> ca_free (gs_clients g) i;
          let g = g\<lparr>gs_clients := a\<rparr>;
          if \<not> r then Some (False, g)
          else do {
            (r, m) \<leftarrow> remove_2 (gs_account_id g) i;
            let g = g\<lparr>gs_account_id := m\<rparr>;
            if \<not> r then Some (False, g)
            else do {
              (r, m) \<leftarrow> remove_1 (gs_connid_id g) cid;
              Some (r, g\<lparr>gs_connid_id := m\<rparr>)
            }
          }
        })"

section \<open>GateServer\<close>

text \<open>\<open>p\<close> is the address of the new client, \<open>dh\<close>, \<open>ev\<close> and \<open>b\<close> those of its handlers and buffer.\<close>

definition startLoginClient ::
    "unit env \<Rightarrow> gate_state \<Rightarrow> JmyClientConfig \<Rightarrow> string \<times> u16 \<Rightarrow> nat \<Rightarrow> nat \<times> nat \<times> nat \<Rightarrow> int \<Rightarrow> (nat \<times> gate_state) option" where
  "startLoginClient E g conf ep p = (\<lambda>(dh, ev, b) now. do {
     (q, M) \<leftarrow> generate (gs_client_master g) p;
     if q = 0 then Some (0, g\<lparr>gs_client_master := M\<rparr>)
     else do {
       let cl = (ms_clients M q)\<lparr>cl_ep := ep\<rparr>;
       let M = M\<lparr>ms_clients := (ms_clients M)(q := cl)\<rparr>;
       (r, n) \<leftarrow> client_start E (ms_net M) cl conf dh ev b True False;
       let M = M\<lparr>ms_net := n\<rparr>;
       if \<not> r then Some (0, g\<lparr>gs_client_master := M\<rparr>)
       else do {
         let (r, s) = addClient (gs_login_client_set g) q (Some conf);
         if \<not> r then do {
           n \<leftarrow> client_close (ms_net M) cl now;
           Some (0, g\<lparr>gs_client_master := M\<lparr>ms_net := n\<rparr>, gs_login_client_set := s\<rparr>)
         } else Some (q, g\<lparr>gs_client_master := M, gs_login_client_set := s\<rparr>)
       }
     }
   })"

definition gate_removeLoginClient :: "gate_state \<Rightarrow> nat \<Rightarrow> bool \<times> gate_state" where
  "gate_removeLoginClient g q =
     (let (r, s) = removeClient (gs_login_client_set g) q; g = g\<lparr>gs_login_client_set := s\<rparr>
      in if \<not> r then (False, g)
         else let (r, M) = recycle (gs_client_master g) q in (r, g\<lparr>gs_client_master := M\<rparr>))"

definition checkClientMaxCount :: "gate_state \<Rightarrow> int \<Rightarrow> bool" where
  "checkClientMaxCount g curr_count \<longleftrightarrow> curr_count \<ge> sint (gs_client_max_conn g)"

section \<open>GlobalData\<close>

definition addLoginClient :: "gate_state \<Rightarrow> int \<Rightarrow> nat \<Rightarrow> bool \<times> gate_state" where
  "addLoginClient g login_id client =
     (if gs_login_clients g login_id \<noteq> None then (False, g)
      else (True, g\<lparr>gs_login_clients := map_insert (gs_login_clients g) login_id client\<rparr>))"

definition removeLoginClient :: "gate_state \<Rightarrow> int \<Rightarrow> bool \<times> gate_state" where
  "removeLoginClient g login_id =
     (case gs_login_clients g login_id of
        None \<Rightarrow> (False, g)
      | Some client \<Rightarrow> (True, snd (gate_removeLoginClient (g\<lparr>gs_login_clients := (gs_login_clients g)(login_id := None)\<rparr>) client)))"

definition getLoginIdByConnId :: "gate_state \<Rightarrow> int \<Rightarrow> int" where
  "getLoginIdByConnId g cid = (case ap_getIdByConnId (gs_login_mgr g) cid of None \<Rightarrow> 0 | Some i \<Rightarrow> i)"

definition removeLoginClientByConnId :: "gate_state \<Rightarrow> int \<Rightarrow> bool \<times> gate_state" where
  "removeLoginClientByConnId g cid =
     (let login_id = getLoginIdByConnId g cid in if login_id = 0 then (False, g) else removeLoginClient g login_id)"

definition newLoginAgent :: "gate_state \<Rightarrow> int \<Rightarrow> nat \<Rightarrow> int \<Rightarrow> unit Agent option \<times> gate_state" where
  "newLoginAgent g login_id mgr cid = (let (a, m) = ap_newAgent () (gs_login_mgr g) login_id mgr cid in (a, g\<lparr>gs_login_mgr := m\<rparr>))"

definition getLoginAgent :: "gate_state \<Rightarrow> int \<Rightarrow> unit Agent option" where
  "getLoginAgent g login_id = ap_getAgent (gs_login_mgr g) login_id"

definition getLoginAgentByConnId :: "gate_state \<Rightarrow> int \<Rightarrow> unit Agent option" where
  "getLoginAgentByConnId g cid = ap_getAgentByConnId (gs_login_mgr g) cid"

definition removeLoginAgent :: "gate_state \<Rightarrow> int \<Rightarrow> (bool \<times> gate_state) option" where
  "removeLoginAgent g login_id = do { (r, m) \<leftarrow> ap_deleteAgent (gs_login_mgr g) login_id; Some (r, g\<lparr>gs_login_mgr := m\<rparr>) }"

definition removeLoginAgentByConnId :: "gate_state \<Rightarrow> int \<Rightarrow> (bool \<times> gate_state) option" where
  "removeLoginAgentByConnId g cid = do { (r, m) \<leftarrow> ap_deleteAgentByConnId (gs_login_mgr g) cid; Some (r, g\<lparr>gs_login_mgr := m\<rparr>) }"

definition removeLoginAgentAndClientByConnId :: "gate_state \<Rightarrow> int \<Rightarrow> (bool \<times> gate_state) option" where
  "removeLoginAgentAndClientByConnId g cid = do {
     let login_id = getLoginIdByConnId g cid;
     (r, m) \<leftarrow> ap_deleteAgent (gs_login_mgr g) login_id;
     let g = g\<lparr>gs_login_mgr := m\<rparr>;
     Some (if \<not> r then (False, g) else removeLoginClient g login_id)
   }"

definition newGameAgent :: "gate_state \<Rightarrow> int \<Rightarrow> nat \<Rightarrow> int \<Rightarrow> unit Agent option \<times> gate_state" where
  "newGameAgent g game_id mgr cid =
     (if ap_getAgentByConnId (gs_game_mgr g) cid \<noteq> None then (None, g)
      else if gs_the_game_id g > 0 then (None, g)
      else
        let (a, m) = ap_newAgent () (gs_game_mgr g) game_id mgr cid; g = g\<lparr>gs_game_mgr := m\<rparr>
        in if a = None then (None, g) else (a, g\<lparr>gs_the_game_id := game_id\<rparr>))"

definition removeGameAgentByConnId :: "gate_state \<Rightarrow> int \<Rightarrow> (bool \<times> gate_state) option" where
  "removeGameAgentByConnId g cid =
     (if ap_getAgentByConnId (gs_game_mgr g) cid = None then Some (False, g)
      else if ap_getIdByConnId (gs_game_mgr g) cid \<noteq> Some (gs_the_game_id g) then Some (False, g)
      else do {
        (r, m) \<leftarrow> ap_deleteAgent (gs_game_mgr g) (gs_the_game_id g);
        Some (True, g\<lparr>gs_game_mgr := m, gs_the_game_id := 0\<rparr>)
      })"

definition sendGameMsg :: "gate_state \<Rightarrow> i32 \<Rightarrow> cptr \<Rightarrow> u16 \<Rightarrow> (int \<times> gate_state) option" where
  "sendGameMsg g msg_id data len =
     (case ap_getAgent (gs_game_mgr g) (gs_the_game_id g) of
        None \<Rightarrow> Some (- 1, g)
      | Some a \<Rightarrow> do {
          (res, n) \<leftarrow> agent_sendMsg (gs_game_net g) a msg_id data (ucast len);
          Some (if res < 0 then - 1 else uint len, g\<lparr>gs_game_net := n\<rparr>)
        })"

definition sendGameMsg_user :: "gate_state \<Rightarrow> i32 \<Rightarrow> i32 \<Rightarrow> cptr \<Rightarrow> u16 \<Rightarrow> (int \<times> gate_state) option" where
  "sendGameMsg_user g user_id msg_id data len =
     (case ap_getAgent (gs_game_mgr g) (gs_the_game_id g) of
        None \<Rightarrow> Some (- 1, g)
      | Some a \<Rightarrow> do {
          (res, n) \<leftarrow> agent_sendMsg_user (gs_game_net g) a user_id msg_id data len;
          Some (if res < 0 then - 1 else uint len, g\<lparr>gs_game_net := n\<rparr>)
        })"

section \<open>Sessions are good for one entry\<close>

text \<open>A sequence of checks (account, session, time), with their answers.\<close>

fun check_all :: "(string \<times> string \<times> int) list \<Rightarrow> gate_state \<Rightarrow> bool list \<times> gate_state" where
  "check_all [] g = ([], g)"
| "check_all ((a, s, t) # xs) g =
     (let (r, g) = checkSessionByAccount g a s t; (rs, g) = check_all xs g in (r # rs, g))"

definition accepted :: "string \<Rightarrow> (string \<times> string \<times> int) list \<Rightarrow> bool list \<Rightarrow> (string \<times> string \<times> int) list" where
  "accepted a xs rs = map fst (filter (\<lambda>(x, r). r \<and> fst x = a) (zip xs rs))"

lemma accepted_Cons [simp]:
  "accepted a (x # xs) (r # rs) = (if r \<and> fst x = a then x # accepted a xs rs else accepted a xs rs)"
  by (simp add: accepted_def)

text \<open>What should be accepted: the first check with the code, if it comes in time.\<close>

definition admitted :: "string \<Rightarrow> string \<Rightarrow> int \<Rightarrow> (string \<times> string \<times> int) list \<Rightarrow> (string \<times> string \<times> int) list" where
  "admitted a code t0 xs =
     (case find (\<lambda>x. fst x = a \<and> fst (snd x) = code) xs of
        None \<Rightarrow> []
      | Some x \<Rightarrow> if snd (snd x) - t0 \<le> 100 then [x] else [])"

lemma check_session_cases:
  assumes "checkSessionByAccount g b s t = (r, g')"
  shows "gs_account_session g' a = (if b = a \<and> (\<exists>i. gs_account_session g a = Some i \<and> si_session i = s) then None else gs_account_session g a)"
    and "r \<longleftrightarrow> (\<exists>i. gs_account_session g b = Some i \<and> si_session i = s \<and> t - si_get_session_time i \<le> 100)"
  using assms by (auto simp: checkSessionByAccount_def split: option.splits if_splits)

lemma check_all_accepted:
  "accepted a xs (fst (check_all xs g)) =
     (case gs_account_session g a of None \<Rightarrow> [] | Some i \<Rightarrow> admitted a (si_session i) (si_get_session_time i) xs)"
proof (induction xs g rule: check_all.induct)
  case (2 b s t xs g)
  obtain r g1 where st: "checkSessionByAccount g b s t = (r, g1)" by (cases "checkSessionByAccount g b s t")
  obtain rs g2 where rest: "check_all xs g1 = (rs, g2)" by (cases "check_all xs g1")
  note IH = "2.IH" [OF st [symmetric] HOL.refl, simplified rest, simplified]
  show ?case
    using IH check_session_cases [OF st] st rest by (auto simp: admitted_def split: option.splits if_splits)
qed (simp add: accepted_def admitted_def split: option.splits)

text \<open>
  C11. A session code admits its account once, and only in time. After a session was created for an
  account at time \<open>t0\<close>, of any sequence of checks for any accounts, with any codes at any times, the
  ones of that account that succeed are exactly the first one that carries the code, if it comes at
  most 100 seconds after \<open>t0\<close>, and none otherwise.
\<close>

theorem session_admits_once:
  "accepted a xs (fst (check_all xs (snd (newAccountSession g a code t0)))) = admitted a code t0 xs"
proof -
  let ?g = "snd (newAccountSession g a code t0)"
  have "\<exists>i. gs_account_session ?g a = Some i \<and> si_session i = code \<and> si_get_session_time i = t0"
    by (cases "gs_account_session g a") (simp_all add: newAccountSession_def map_insert_def)
  then show ?thesis using check_all_accepted [of a xs ?g] by auto
qed

text \<open>A gate without connections, for two clients.\<close>

definition empty_net :: "unit net" where
  "empty_net = \<lparr>nt_heap = empty_heap, nt_pool = new_session_pool, nt_bufs = (\<lambda>_. new_connection_buffer),
     nt_handlers = (\<lambda>_. new_data_handler2), nt_events = (\<lambda>_. new_event_handler_mgr),
     nt_conns = (\<lambda>_. new_connection JMY_CONN_TYPE_PASSIVE), nt_mgr = new_conn_mgr, nt_app = ()\<rparr>"

definition new_gate :: "u32 \<Rightarrow> gate_state" where
  "new_gate max_conn = \<lparr>gs_account_session = Map.empty, gs_account_id = new_bimap, gs_connid_id = new_bimap,
     gs_clients = snd (ca_init new_client_array (uint max_conn) DEFAULT_CLIENT_START_ID), gs_login_clients = Map.empty,
     gs_login_mgr = new_agent_manager_perf LOGIN_SERVER_MAX_ID LOGIN_SERVER_MIN_ID,
     gs_game_mgr = new_agent_manager_perf GAME_SERVER_MAX_ID GAME_SERVER_MIN_ID, gs_the_game_id = 0, gs_game_net = empty_net,
     gs_client_master = new_master empty_net, gs_login_client_set = [], gs_client_max_conn = max_conn\<rparr>"

section \<open>A disconnecting client\<close>

text \<open>
  No client that has entered can leave. When the connection of a client is mapped to an id of the
  table and the id to an account, the two things entering does, removing it on disconnection has no
  defined result: the table entry is freed, and then the map of accounts is read through an iterator
  to an erased element.
\<close>

theorem entered_client_removal_undefined:
  assumes "ca_ok (gs_clients g)" "i \<in> ca_used_ids (gs_clients g)" "find_1 (gs_connid_id g) cid = Some i" "find_2 (gs_account_id g) i = Some acc"
  shows "removeByConnId g cid = None"
proof -
  obtain a where a: "ca_free (gs_clients g) i = Some (True, a)" using ca_free_ok [OF assms(1,2)] by blast
  have "remove_2 (gs_account_id g) i = None" using assms(4) by (simp add: remove_2_def find_2_def read_iterator_def Let_def)
  then show ?thesis using assms(3) a by (simp add: removeByConnId_def Let_def)
qed

theorem entered_client_removal_undefined_witness:
  "removeByConnId ((new_gate 1)\<lparr>gs_clients := one_client, gs_connid_id := snd (bimap_insert new_bimap 3 100000),
     gs_account_id := snd (bimap_insert new_bimap ''joe'' 100000)\<rparr>) 3 = None"
proof (rule entered_client_removal_undefined [where i = 100000 and acc = "''joe''"])
  show "ca_ok (gs_clients ((new_gate 1)\<lparr>gs_clients := one_client, gs_connid_id := snd (bimap_insert new_bimap 3 100000),
     gs_account_id := snd (bimap_insert new_bimap ''joe'' 100000)\<rparr>))" by (auto simp: ca_ok_def one_client_def)
qed (simp_all add: one_client_def find_1_def find_2_def bimap_insert_def new_bimap_def map_insert_def)

section \<open>One game server\<close>

definition game_ok :: "gate_state \<Rightarrow> bool" where
  "game_ok g \<longleftrightarrow> ap_ok GAME_SERVER_MIN_ID GAME_SERVER_MAX_ID (gs_game_mgr g) \<and>
     dom (ap_getAgent (gs_game_mgr g)) = (if gs_the_game_id g = 0 then {} else {gs_the_game_id g}) \<and> 0 \<le> gs_the_game_id g"

lemma game_conn_unused:
  assumes "ap_ok lo hi m" "ap_getAgentByConnId m cid = None"
  shows "\<forall>k. \<not> uses_conn (ap_getAgent m) cid k"
proof (intro allI notI)
  fix k assume u: "uses_conn (ap_getAgent m) cid k"
  then have "ap_conn2agent_ids m cid = Some k" using ap_okD(5) [OF assms(1)] by simp
  then show False using assms(2) u by (auto simp: ap_getAgentByConnId_def uses_conn_def)
qed

lemma newGameAgent_ok:
  assumes ok: "game_ok g"
  shows "game_ok (snd (newGameAgent g i mgr cid)) \<and>
    (fst (newGameAgent g i mgr cid) \<noteq> None \<longrightarrow> gs_the_game_id g = 0 \<and> gs_the_game_id (snd (newGameAgent g i mgr cid)) = i)"
proof (cases "ap_getAgentByConnId (gs_game_mgr g) cid = None \<and> gs_the_game_id g = 0")
  case True
  let ?m = "gs_game_mgr g"
  have m: "ap_ok GAME_SERVER_MIN_ID GAME_SERVER_MAX_ID ?m" "dom (ap_getAgent ?m) = {}" using ok True by (simp_all add: game_ok_def)
  have unused: "\<forall>k. \<not> uses_conn (ap_getAgent ?m) cid k" using game_conn_unused [OF m(1)] True by blast
  show ?thesis
  proof (cases "GAME_SERVER_MIN_ID \<le> i \<and> i \<le> GAME_SERVER_MAX_ID")
    case inside: True
    have none: "ap_getAgent ?m i = None" using m(2) by blast
    from ap.new_ok [OF m(1) inside _ unused] none obtain m' where
      "ap_newAgent () ?m i mgr cid = (Some (verified_agent () mgr cid), m')" "ap_ok GAME_SERVER_MIN_ID GAME_SERVER_MAX_ID m'"
      "ap_getAgent m' = (ap_getAgent ?m)(i \<mapsto> verified_agent () mgr cid)" by blast
    then show ?thesis using True m(2) inside by (simp add: newGameAgent_def game_ok_def)
  next
    case False
    then have "ap_newAgent () ?m i mgr cid = (None, ?m)" using ap.new_refused [OF m(1), of i] by blast
    then show ?thesis using True ok by (simp add: newGameAgent_def)
  qed
next
  case False
  have "0 \<le> gs_the_game_id g" using ok by (simp add: game_ok_def)
  then have "newGameAgent g i mgr cid = (None, g)" using False by (auto simp: newGameAgent_def)
  then show ?thesis using ok by simp
qed

lemma removeGameAgent_ok:
  assumes ok: "game_ok g"
  shows "\<exists>r g'. removeGameAgentByConnId g cid = Some (r, g') \<and> game_ok g' \<and> (r \<longrightarrow> gs_the_game_id g' = 0)"
proof (cases "ap_getAgentByConnId (gs_game_mgr g) cid = None \<or> ap_getIdByConnId (gs_game_mgr g) cid \<noteq> Some (gs_the_game_id g)")
  case False
  let ?m = "gs_game_mgr g" and ?i = "gs_the_game_id g"
  have m: "ap_ok GAME_SERVER_MIN_ID GAME_SERVER_MAX_ID ?m" using ok by (simp add: game_ok_def)
  have "uses_conn (ap_getAgent ?m) cid ?i" using False ap.keyOf_iff [OF m, of cid ?i] by simp
  then have "ap_getAgent ?m ?i \<noteq> None" by (auto simp: uses_conn_def)
  from ap.del_ok [OF m this] obtain m' where m': "ap_deleteAgent ?m ?i = Some (True, m')"
    "ap_ok GAME_SERVER_MIN_ID GAME_SERVER_MAX_ID m'" "ap_getAgent m' = (ap_getAgent ?m)(?i := None)" by blast
  have "dom (ap_getAgent m') = {}" using ok m'(3) by (auto simp: game_ok_def split: if_splits)
  then have "game_ok (g\<lparr>gs_game_mgr := m', gs_the_game_id := 0\<rparr>)" using m'(2) by (simp add: game_ok_def)
  moreover have "removeGameAgentByConnId g cid = Some (True, g\<lparr>gs_game_mgr := m', gs_the_game_id := 0\<rparr>)"
    using False m'(1) by (auto simp: removeGameAgentByConnId_def)
  ultimately show ?thesis by (intro exI [of _ True] exI [of _ "g\<lparr>gs_game_mgr := m', gs_the_game_id := 0\<rparr>"]) simp
next
  case True
  then have "removeGameAgentByConnId g cid = Some (False, g)" by (auto simp: removeGameAgentByConnId_def)
  then show ?thesis using ok by blast
qed

datatype game_op = GameConnects int nat int | GameDisconnects int

fun game_ops :: "game_op list \<Rightarrow> gate_state \<Rightarrow> gate_state option" where
  "game_ops [] g = Some g"
| "game_ops (GameConnects i mgr cid # xs) g = game_ops xs (snd (newGameAgent g i mgr cid))"
| "game_ops (GameDisconnects cid # xs) g = do { (r, g) \<leftarrow> removeGameAgentByConnId g cid; game_ops xs g }"

lemma game_ops_ok: "game_ok g \<Longrightarrow> \<exists>g'. game_ops xs g = Some g' \<and> game_ok g'"
proof (induction xs g rule: game_ops.induct)
  case (3 cid xs g)
  from removeGameAgent_ok [OF "3.prems", of cid] obtain r g1 where g1: "removeGameAgentByConnId g cid = Some (r, g1)" "game_ok g1" by blast
  from "3.IH" [OF g1(1) HOL.refl g1(2)] g1(1) show ?case by simp
qed (simp_all add: newGameAgent_ok)

definition no_game :: "gate_state \<Rightarrow> bool" where
  "no_game g \<longleftrightarrow> gs_game_mgr g = new_agent_manager_perf GAME_SERVER_MAX_ID GAME_SERVER_MIN_ID \<and> gs_the_game_id g = 0"

text \<open>
  A gate has at most one game server. From the state without one, any history of game servers that
  register, with any ids and connections, and of disconnections has a defined result, in which the
  registry holds nothing when \<open>the_game_id_\<close> is 0 and exactly the agent with that id otherwise; messages
  for the game go to it, and a further registration is refused until it is gone.
\<close>

theorem one_game_server:
  assumes "no_game g0"
  shows "\<exists>g. game_ops xs g0 = Some g \<and>
    dom (ap_getAgent (gs_game_mgr g)) = (if gs_the_game_id g = 0 then {} else {gs_the_game_id g}) \<and>
    (gs_the_game_id g \<noteq> 0 \<longrightarrow> newGameAgent g i mgr cid = (None, g)) \<and>
    (gs_the_game_id g = 0 \<longrightarrow> sendGameMsg g msg_id data len = Some (- 1, g))"
proof -
  have "game_ok g0" using assms by (simp add: no_game_def game_ok_def ap_new_inv)
  from game_ops_ok [OF this] obtain g where g: "game_ops xs g0 = Some g" "game_ok g" by blast
  have "gs_the_game_id g = 0 \<Longrightarrow> sendGameMsg g msg_id data len = Some (- 1, g)"
    using g(2) by (simp add: sendGameMsg_def game_ok_def)
  moreover have "gs_the_game_id g \<noteq> 0 \<Longrightarrow> newGameAgent g i mgr cid = (None, g)"
    using g(2) by (simp add: newGameAgent_def game_ok_def)
  ultimately show ?thesis using g by (simp add: game_ok_def)
qed

theorem one_game_server_witness:
  "\<exists>g. game_ops [GameConnects 40001 1 5, GameConnects 40002 1 6, GameDisconnects 5, GameConnects 7 1 8] (new_gate 2) = Some g \<and>
    dom (ap_getAgent (gs_game_mgr g)) = (if gs_the_game_id g = 0 then {} else {gs_the_game_id g})"
proof -
  have "no_game (new_gate 2)" by (simp add: no_game_def new_gate_def)
  from one_game_server [OF this] show ?thesis by blast
qed

end
