(* ===== verification/Gate_Handlers.thy ===== *)
theory Gate_Handlers
  imports Gate_State
begin

text \<open>
  The handlers of a gate server: \<open>ClientHandler\<close>, \<open>GameHandler\<close>, \<open>ConnLoginHandler\<close> and \<open>ConnConfigHandler\<close> of
  \<open>gate_server\<close>. The classes that \<open>protoc\<close> generates are the parameter \<open>codec\<close>: a parser for every message
  that is received and the encoding of every message that is sent.
\<close>

abbreviation (input) MSGID_ERROR :: i32 where "MSGID_ERROR \<equiv> 1"
abbreviation (input) MSGID_S2C_GET_ROLE_RESPONSE :: i32 where "MSGID_S2C_GET_ROLE_RESPONSE \<equiv> 10011"
abbreviation (input) MSGID_S2C_CREATE_ROLE_RESPONSE :: i32 where "MSGID_S2C_CREATE_ROLE_RESPONSE \<equiv> 10015"
abbreviation (input) MSGID_S2C_RECONNECT_RESPONSE :: i32 where "MSGID_S2C_RECONNECT_RESPONSE \<equiv> 10026"
abbreviation (input) MSGID_GT2LS_CONNECT_LOGIN_REQUEST :: i32 where "MSGID_GT2LS_CONNECT_LOGIN_REQUEST \<equiv> 20000"
abbreviation (input) MSGID_GT2LS_SELECTED_SERVER_RESPONSE :: i32 where "MSGID_GT2LS_SELECTED_SERVER_RESPONSE \<equiv> 20003"
abbreviation (input) MSGID_GT2CS_CONNECT_CONFIG_REQUEST :: i32 where "MSGID_GT2CS_CONNECT_CONFIG_REQUEST \<equiv> 20100"
abbreviation (input) MSGID_GT2GS_CONNECT_GATE_RESPONSE :: i32 where "MSGID_GT2GS_CONNECT_GATE_RESPONSE \<equiv> 20201"
abbreviation (input) MSGID_GT2GS_GET_ROLE_REQUEST :: i32 where "MSGID_GT2GS_GET_ROLE_REQUEST \<equiv> 20202"
abbreviation (input) MSGID_GT2GS_CREATE_ROLE_REQUEST :: i32 where "MSGID_GT2GS_CREATE_ROLE_REQUEST \<equiv> 20204"
abbreviation (input) MSGID_GT2GS_ENTER_GAME_REQUEST :: i32 where "MSGID_GT2GS_ENTER_GAME_REQUEST \<equiv> 20210"
abbreviation (input) MSGID_GT2GS_LEAVE_GAME_REQUEST :: i32 where "MSGID_GT2GS_LEAVE_GAME_REQUEST \<equiv> 20212"

abbreviation (input) PROTO_ERROR_SERVER_INTERNAL_ERROR :: int where "PROTO_ERROR_SERVER_INTERNAL_ERROR \<equiv> 3"
abbreviation (input) PROTO_ERROR_LOGIN_ACCOUNT_OR_PASSWORD_INVALID :: int where "PROTO_ERROR_LOGIN_ACCOUNT_OR_PASSWORD_INVALID \<equiv> 100"
abbreviation (input) PROTO_ERROR_GET_ROLE_NONE :: int where "PROTO_ERROR_GET_ROLE_NONE \<equiv> 150"
abbreviation (input) PROTO_ERROR_ENTER_GAME_INVALID_ACCOUNT :: int where "PROTO_ERROR_ENTER_GAME_INVALID_ACCOUNT \<equiv> 202"
abbreviation (input) PROTO_ERROR_ENTER_GAME_PLAYER_COUNT_MAXIMUM :: int where "PROTO_ERROR_ENTER_GAME_PLAYER_COUNT_MAXIMUM \<equiv> 204"
abbreviation (input) PROTO_ERROR_RECONN_ACCOUNT_NOT_FOUND :: int where "PROTO_ERROR_RECONN_ACCOUNT_NOT_FOUND \<equiv> 210"
abbreviation (input) PROTO_ERROR_RECONN_FAILED :: int where "PROTO_ERROR_RECONN_FAILED \<equiv> 212"

record role_data =
  rd_sex :: int
  rd_race :: int
  rd_role_id :: u64
  rd_nick_name :: string

record codec =
  parse_GetRoleRequest :: "cell list \<Rightarrow> (string \<times> string) option"
  parse_CreateRoleRequest :: "cell list \<Rightarrow> (int \<times> int \<times> string) option"
  parse_ReconnectRequest :: "cell list \<Rightarrow> string option"
  parse_ConnectGateRequest :: "cell list \<Rightarrow> int option"
  parse_RoleResponse :: "cell list \<Rightarrow> (string \<times> role_data) option"
  parse_ConnectLoginResponse :: "cell list \<Rightarrow> int option"
  parse_SelectedServerNotify :: "cell list \<Rightarrow> string option"
  parse_ConnectConfigResponse :: "cell list \<Rightarrow> (int \<times> string \<times> u16) list option"
  parse_NewLoginNotify :: "cell list \<Rightarrow> (int \<times> string \<times> u16) option"
  ser_Error :: "int \<Rightarrow> u8 list"
  ser_GetRoleRequest :: "string \<Rightarrow> u8 list"
  ser_CreateRoleRequest :: "string \<Rightarrow> int \<Rightarrow> int \<Rightarrow> string \<Rightarrow> u8 list"
  ser_EnterGameRequest :: "u64 \<Rightarrow> u8 list"
  ser_LeaveGameRequest :: "u8 list"
  ser_ReconnectResponse :: "string \<Rightarrow> u8 list"
  ser_ConnectGateResponse :: "u32 \<Rightarrow> int \<Rightarrow> u8 list"
  ser_GetRoleResponse_gs :: "string \<Rightarrow> role_data \<Rightarrow> u8 list"
  ser_CreateRoleResponse :: "role_data \<Rightarrow> u8 list"
  ser_ConnectLoginRequest :: "int \<Rightarrow> string \<Rightarrow> u16 \<Rightarrow> u8 list"
  ser_SelectedServerResponse :: "string \<Rightarrow> string \<Rightarrow> u8 list"
  ser_ConnectConfigRequest :: "int \<Rightarrow> u8 list"

record gate_config =
  gc_id :: int
  gc_ip :: string
  gc_port :: u16
  gc_max_conn :: u32

definition send_error :: "codec \<Rightarrow> 'a net \<Rightarrow> nat \<Rightarrow> int \<Rightarrow> (int \<times> 'a net) option" where
  "send_error P n c error = do {
     require (length (ser_Error P error) \<le> 64);
     conn_send n c MSGID_ERROR (ser_Error P error)
   }"

definition send_game :: "gate \<Rightarrow> i32 \<Rightarrow> u8 list \<Rightarrow> (int \<times> gate) option" where
  "send_game n msg_id bs = do {
     (r, g) \<leftarrow> sendGameMsg (nt_app n) msg_id (Some (cells bs)) (of_nat (length bs));
     Some (r, n\<lparr>nt_app := g\<rparr>)
   }"

definition send_game_user :: "gate \<Rightarrow> int \<Rightarrow> i32 \<Rightarrow> cptr \<Rightarrow> u16 \<Rightarrow> (int \<times> gate) option" where
  "send_game_user n user_id msg_id data len = do {
     (r, g) \<leftarrow> sendGameMsg_user (nt_app n) (word_of_int user_id) msg_id data len;
     Some (r, n\<lparr>nt_app := g\<rparr>)
   }"

section \<open>ClientHandler\<close>

definition client_onConnect :: "gate \<Rightarrow> JmyEventInfo \<Rightarrow> (int \<times> gate) option" where
  "client_onConnect n i = Some (if event_connection n i = None then - 1 else 0, n)"

definition client_onDisconnect :: "gate \<Rightarrow> JmyEventInfo \<Rightarrow> (int \<times> gate) option" where
  "client_onDisconnect n i =
     (if event_connection n i = None then Some (- 1, n)
      else do {
        (r, g) \<leftarrow> removeByConnId (nt_app n) (ei_conn_id i);
        Some (if r then 0 else - 1, n\<lparr>nt_app := g\<rparr>)
      })"

definition client_onTick :: "gate \<Rightarrow> JmyEventInfo \<Rightarrow> (int \<times> gate) option" where
  "client_onTick n i = Some (0, n)"

text \<open>
  \<open>processGetRoleRequest\<close>, the part after the session was accepted: \<open>conn\<close> is the connection of the
  request, \<open>time\<close> in seconds and \<open>now\<close> in microseconds are the current time.
\<close>

definition enter_client ::
    "codec \<Rightarrow> gate_state env \<Rightarrow> gate \<Rightarrow> JmyMsgInfo \<Rightarrow> nat \<Rightarrow> string \<Rightarrow> int \<Rightarrow> (int \<times> gate) option" where
  "enter_client P E n i conn account now = do {
     (k, n) \<leftarrow> newClient E n account;
     case k of
       None \<Rightarrow> do { (r, n) \<leftarrow> send_error P n conn PROTO_ERROR_ENTER_GAME_INVALID_ACCOUNT; Some (- 1, n) }
     | Some k \<Rightarrow>
         if checkClientMaxCount (nt_app n) (ca_getUsedSize (gs_clients (nt_app n))) then do {
           (r, n) \<leftarrow> send_error P n conn PROTO_ERROR_ENTER_GAME_PLAYER_COUNT_MAXIMUM;
           (n, ci) \<leftarrow> ci_close n (info_at n k) now;
           Some (- 1, upd_info n k (\<lambda>_. ci))
         } else do {
           let n = upd_gate n (\<lambda>g. snd (insertConnIdId g (mi_conn_id i) (ci_id (info_at n k))));
           let n = upd_info n k (\<lambda>x. x\<lparr>ci_conn_id := mi_conn_id i, ci_conn_mgr := mi_param i\<rparr>);
           case serialize (ser_GetRoleRequest P (ci_account (info_at n k))) of
             None \<Rightarrow> Some (- 1, n)
           | Some bs \<Rightarrow> do {
               (r, g) \<leftarrow> sendGameMsg (nt_app n) MSGID_GT2GS_GET_ROLE_REQUEST (Some (mi_data i)) (ucast (mi_len i));
               let n = n\<lparr>nt_app := g\<rparr>;
               if r < 0 then Some (- 1, n) else Some (sint (mi_len i), n)
             }
         }
   }"

definition processGetRoleRequest :: "codec \<Rightarrow> gate_state env \<Rightarrow> gate \<Rightarrow> JmyMsgInfo \<Rightarrow> int \<Rightarrow> int \<Rightarrow> (int \<times> gate) option" where
  "processGetRoleRequest P E n i time now =
     (case msg_connection n i of
        None \<Rightarrow> Some (- 1, n)
      | Some conn \<Rightarrow>
          (case parse_GetRoleRequest P (mi_data i) of
             None \<Rightarrow> Some (- 1, n)
           | Some (account, enter_session) \<Rightarrow> do {
               k \<leftarrow> getClientInfoByAccount (nt_app n) account;
               n \<leftarrow> (case k of None \<Rightarrow> Some n | Some k \<Rightarrow> ci_force_close E n (info_at n k));
               let (ok, g) = checkSessionByAccount (nt_app n) account enter_session time;
               let n = n\<lparr>nt_app := g\<rparr>;
               if \<not> ok then do { (r, n) \<leftarrow> send_error P n conn PROTO_ERROR_LOGIN_ACCOUNT_OR_PASSWORD_INVALID; Some (- 1, n) }
               else enter_client P E n i conn account now
             }))"

definition processCreateRoleRequest :: "codec \<Rightarrow> gate \<Rightarrow> JmyMsgInfo \<Rightarrow> (int \<times> gate) option" where
  "processCreateRoleRequest P n i =
     (if msg_connection n i = None then Some (- 1, n)
      else do {
        k \<leftarrow> getClientInfoByConnId (nt_app n) (mi_conn_id i);
        case k of
          None \<Rightarrow> Some (- 1, n)
        | Some k \<Rightarrow>
            (case parse_CreateRoleRequest P (mi_data i) of
               None \<Rightarrow> Some (- 1, n)
             | Some (sex, race, nick) \<Rightarrow>
                 (case serialize (ser_CreateRoleRequest P (ci_account (info_at n k)) sex race nick) of
                    None \<Rightarrow> Some (- 1, n)
                  | Some bs \<Rightarrow> do { (r, n) \<leftarrow> send_game n MSGID_GT2GS_CREATE_ROLE_REQUEST bs; Some (sint (mi_len i), n) }))
      })"

definition processEnterGameRequest :: "codec \<Rightarrow> gate \<Rightarrow> JmyMsgInfo \<Rightarrow> (int \<times> gate) option" where
  "processEnterGameRequest P n i =
     (case msg_connection n i of
        None \<Rightarrow> Some (- 1, n)
      | Some conn \<Rightarrow> do {
          k \<leftarrow> getClientInfoByConnId (nt_app n) (mi_conn_id i);
          case k of
            None \<Rightarrow> Some (- 1, n)
          | Some k \<Rightarrow>
              if ci_curr_role_id (info_at n k) = 0 then do {
                (r, n) \<leftarrow> send_error P n conn PROTO_ERROR_ENTER_GAME_INVALID_ACCOUNT;
                Some (- 1, n)
              } else
                (case serialize (ser_EnterGameRequest P (ci_curr_role_id (info_at n k))) of
                   None \<Rightarrow> Some (- 1, n)
                 | Some bs \<Rightarrow> do {
                     (r, n) \<leftarrow> send_game_user n (ci_id (info_at n k)) MSGID_GT2GS_ENTER_GAME_REQUEST (Some (cells bs)) (of_nat (length bs));
                     Some (sint (mi_len i), n)
                   })
        })"

definition processLeaveGameRequest :: "codec \<Rightarrow> gate \<Rightarrow> JmyMsgInfo \<Rightarrow> int \<Rightarrow> (int \<times> gate) option" where
  "processLeaveGameRequest P n i now = do {
     k \<leftarrow> getClientInfoByConnId (nt_app n) (mi_conn_id i);
     case k of
       None \<Rightarrow> Some (- 1, n)
     | Some k \<Rightarrow> do {
         (n, ci) \<leftarrow> ci_close n (info_at n k) now;
         let n = upd_info n k (\<lambda>_. ci);
         case serialize (ser_LeaveGameRequest P) of
           None \<Rightarrow> Some (- 1, n)
         | Some bs \<Rightarrow> do {
             (r, n) \<leftarrow> send_game_user n (ci_id (info_at n k)) MSGID_GT2GS_LEAVE_GAME_REQUEST (Some (cells bs)) (of_nat (length bs));
             if r < 0 then Some (- 1, n) else Some (sint (mi_len i), n)
           }
       }
   }"

text \<open>\<open>code\<close> is the new session code \<open>get_session_code\<close> returns.\<close>

definition processReconnectRequest :: "codec \<Rightarrow> gate_state env \<Rightarrow> gate \<Rightarrow> JmyMsgInfo \<Rightarrow> string \<Rightarrow> (int \<times> gate) option" where
  "processReconnectRequest P E n i code =
     (case parse_ReconnectRequest P (mi_data i) of
        None \<Rightarrow> Some (- 1, n)
      | Some account \<Rightarrow>
          (case msg_connection n i of
             None \<Rightarrow> Some (- 1, n)
           | Some conn \<Rightarrow> do {
               k \<leftarrow> getClientInfoByAccount (nt_app n) account;
               case k of
                 None \<Rightarrow> do { (r, n) \<leftarrow> send_error P n conn PROTO_ERROR_RECONN_ACCOUNT_NOT_FOUND; Some (- 1, n) }
               | Some k \<Rightarrow> do {
                   n \<leftarrow> (if \<not> ci_check_conn n (info_at n k) conn then ci_force_close E n (info_at n k) else Some n);
                   let n = upd_info n k (\<lambda>x. x\<lparr>ci_reconn_session := code\<rparr>);
                   case serialize (ser_ReconnectResponse P code) of
                     None \<Rightarrow> do { (r, n) \<leftarrow> send_error P n conn PROTO_ERROR_RECONN_FAILED; Some (- 1, n) }
                   | Some bs \<Rightarrow> do {
                       (r, n) \<leftarrow> conn_send n conn MSGID_S2C_RECONNECT_RESPONSE bs;
                       if r < 0 then Some (- 1, n) else Some (sint (mi_len i), n)
                     }
                 }
             }))"

definition client_processDefault :: "codec \<Rightarrow> gate \<Rightarrow> JmyMsgInfo \<Rightarrow> (int \<times> gate) option" where
  "client_processDefault P n i =
     (case msg_connection n i of
        None \<Rightarrow> Some (- 1, n)
      | Some conn \<Rightarrow>
          let user_id = getIdByConnId (nt_app n) (mi_conn_id i) in
          if user_id = 0 then do {
            (r, n) \<leftarrow> send_error P n conn PROTO_ERROR_SERVER_INTERNAL_ERROR;
            Some (- 1, n)
          } else do {
            (r, n) \<leftarrow> send_game_user n user_id (word_of_int (mi_msg_id i)) (Some (mi_data i)) (ucast (mi_len i));
            n \<leftarrow> (if r < 0 then do { (r, n) \<leftarrow> send_error P n conn PROTO_ERROR_SERVER_INTERNAL_ERROR; Some n } else Some n);
            Some (sint (mi_len i), n)
          })"

section \<open>GameHandler\<close>

text \<open>The messages come from the store of the game connections, the replies to clients go to the gate's own.\<close>

definition game_onConnect :: "gate \<Rightarrow> JmyEventInfo \<Rightarrow> (int \<times> gate) option" where
  "game_onConnect n i = Some (if event_connection (gs_game_net (nt_app n)) i = None then - 1 else 0, n)"

definition game_onDisconnect :: "gate \<Rightarrow> JmyEventInfo \<Rightarrow> (int \<times> gate) option" where
  "game_onDisconnect n i = do {
     (r, g) \<leftarrow> removeGameAgentByConnId (nt_app n) (ei_conn_id i);
     Some (if r then 0 else - 1, n\<lparr>nt_app := g\<rparr>)
   }"

definition game_onTick :: "gate \<Rightarrow> JmyEventInfo \<Rightarrow> (int \<times> gate) option" where
  "game_onTick n i = Some (0, n)"

definition processConnectGateRequest :: "codec \<Rightarrow> gate_config \<Rightarrow> gate \<Rightarrow> JmyMsgInfo \<Rightarrow> (int \<times> gate) option" where
  "processConnectGateRequest P conf n i =
     (case parse_ConnectGateRequest P (mi_data i) of
        None \<Rightarrow> Some (- 1, n)
      | Some game_id \<Rightarrow> do {
          let (a, g) = newGameAgent (nt_app n) game_id (mi_param i) (mi_conn_id i);
          let n = n\<lparr>nt_app := g\<rparr>;
          case a of
            None \<Rightarrow> Some (- 1, n)
          | Some a \<Rightarrow>
              (case serialize (ser_ConnectGateResponse P (gc_max_conn conf) (ca_start_id (gs_clients g))) of
                 None \<Rightarrow> Some (- 1, n)
               | Some bs \<Rightarrow> do {
                   (r, m) \<leftarrow> agent_sendMsg (gs_game_net g) a MSGID_GT2GS_CONNECT_GATE_RESPONSE (Some (cells bs)) (of_nat (length bs));
                   let n = upd_gate n (\<lambda>g. g\<lparr>gs_game_net := m\<rparr>);
                   if r < 0 then Some (- 1, n) else Some (sint (mi_len i), n)
                 })
        })"

definition info_send :: "gate \<Rightarrow> nat \<Rightarrow> i32 \<Rightarrow> u8 list \<Rightarrow> (int \<times> gate) option" where
  "info_send n k msg_id bs = ci_send n (info_at n k) msg_id (Some (cells bs)) (of_nat (length bs))"

text \<open>The answer that is sent on is the game server's message itself.\<close>

definition processGetRoleResponse :: "codec \<Rightarrow> gate \<Rightarrow> JmyMsgInfo \<Rightarrow> string \<Rightarrow> (int \<times> gate) option" where
  "processGetRoleResponse P n i code =
     (case parse_RoleResponse P (mi_data i) of
        None \<Rightarrow> Some (- 1, n)
      | Some (account, role) \<Rightarrow> do {
          k \<leftarrow> getClientInfoByAccount (nt_app n) account;
          case k of
            None \<Rightarrow> Some (- 1, n)
          | Some k \<Rightarrow>
              if rd_role_id role = 0 then
                (case serialize (ser_Error P PROTO_ERROR_GET_ROLE_NONE) of
                   None \<Rightarrow> Some (- 1, n)
                 | Some bs \<Rightarrow> do {
                     (r, n) \<leftarrow> info_send n k MSGID_ERROR bs;
                     if r < 0 then Some (- 1, n) else Some (sint (mi_len i), n)
                   })
              else
                let n = upd_info n k (\<lambda>x. x\<lparr>ci_reconn_session := code\<rparr>) in
                (case serialize (ser_GetRoleResponse_gs P account role) of
                   None \<Rightarrow> Some (- 1, n)
                 | Some bs \<Rightarrow> do {
                     (r, n) \<leftarrow> info_send n k MSGID_S2C_GET_ROLE_RESPONSE bs;
                     if r < 0 then Some (- 1, n)
                     else Some (sint (mi_len i), upd_info n k (\<lambda>x. (ci_add_role_id x (rd_role_id role))\<lparr>ci_curr_role_id := rd_role_id role\<rparr>))
                   })
        })"

definition processCreateRoleResponse :: "codec \<Rightarrow> gate \<Rightarrow> JmyMsgInfo \<Rightarrow> (int \<times> gate) option" where
  "processCreateRoleResponse P n i =
     (case parse_RoleResponse P (mi_data i) of
        None \<Rightarrow> Some (- 1, n)
      | Some (account, role) \<Rightarrow> do {
          k \<leftarrow> getClientInfoByAccount (nt_app n) account;
          case k of
            None \<Rightarrow> Some (- 1, n)
          | Some k \<Rightarrow>
              let n = upd_info n k (\<lambda>x. (ci_add_role_id x (rd_role_id role))\<lparr>ci_curr_role_id := rd_role_id role\<rparr>) in
              (case serialize (ser_CreateRoleResponse P role) of
                 None \<Rightarrow> Some (- 1, n)
               | Some bs \<Rightarrow> do {
                   (r, n) \<leftarrow> info_send n k MSGID_S2C_CREATE_ROLE_RESPONSE bs;
                   if r < 0 then Some (- 1, n) else Some (sint (mi_len i), n)
                 })
        })"

definition game_processDefault :: "gate \<Rightarrow> JmyMsgInfo \<Rightarrow> (int \<times> gate) option" where
  "game_processDefault n i =
     (if msg_connection (gs_game_net (nt_app n)) i = None then Some (- 1, n)
      else if mi_user_id i = 0 then Some (- 1, n)
      else do {
        k \<leftarrow> getClientInfo (nt_app n) (sint (mi_user_id i));
        case k of
          None \<Rightarrow> Some (- 1, n)
        | Some k \<Rightarrow> do {
            (r, n) \<leftarrow> ci_send n (info_at n k) (word_of_int (mi_msg_id i)) (Some (mi_data i)) (ucast (mi_len i));
            if r < 0 then Some (- 1, n) else Some (sint (mi_len i), n)
          }
      })"

section \<open>ConnLoginHandler\<close>

text \<open>The connections to login servers are in the store of the client master.\<close>

definition upd_login_net :: "gate_state \<Rightarrow> unit net \<Rightarrow> gate_state" where
  "upd_login_net g m = g\<lparr>gs_client_master := (gs_client_master g)\<lparr>ms_net := m\<rparr>\<rparr>"

definition login_onConnect :: "codec \<Rightarrow> gate_config \<Rightarrow> gate_state \<Rightarrow> JmyEventInfo \<Rightarrow> (int \<times> gate_state) option" where
  "login_onConnect P conf g i =
     (case serialize (ser_ConnectLoginRequest P (gc_id conf) (gc_ip conf) (gc_port conf)) of
        None \<Rightarrow> Some (- 1, g)
      | Some bs \<Rightarrow>
          (case event_connection (ms_net (gs_client_master g)) i of
             None \<Rightarrow> Some (- 1, g)
           | Some conn \<Rightarrow> do {
               (r, m) \<leftarrow> conn_send (ms_net (gs_client_master g)) conn MSGID_GT2LS_CONNECT_LOGIN_REQUEST bs;
               Some (if r < 0 then - 1 else 0, upd_login_net g m)
             }))"

definition login_onDisconnect :: "gate_state \<Rightarrow> JmyEventInfo \<Rightarrow> (int \<times> gate_state) option" where
  "login_onDisconnect g i =
     (if getLoginAgentByConnId g (ei_conn_id i) = None then Some (- 1, g)
      else do { (r, g) \<leftarrow> removeLoginAgentAndClientByConnId g (ei_conn_id i); Some (0, g) })"

definition login_onTick :: "gate_state \<Rightarrow> JmyEventInfo \<Rightarrow> int \<times> gate_state" where
  "login_onTick g i = (0, g)"

definition processConnectLoginResponse :: "codec \<Rightarrow> gate_state \<Rightarrow> JmyMsgInfo \<Rightarrow> int \<times> gate_state" where
  "processConnectLoginResponse P g i =
     (case parse_ConnectLoginResponse P (mi_data i) of
        None \<Rightarrow> (- 1, g)
      | Some login_id \<Rightarrow>
          if get_server_type login_id \<noteq> SERVER_TYPE_LOGIN then (- 1, g)
          else if getLoginAgent g login_id \<noteq> None then (- 1, g)
          else
            let (a, g) = newLoginAgent g login_id (mi_param i) (mi_conn_id i)
            in (if a = None then - 1 else 0, g))"

definition processSelectedServerNotify ::
    "codec \<Rightarrow> gate_state \<Rightarrow> JmyMsgInfo \<Rightarrow> string \<Rightarrow> int \<Rightarrow> (int \<times> gate_state) option" where
  "processSelectedServerNotify P g i code time =
     (case msg_connection (ms_net (gs_client_master g)) i of
        None \<Rightarrow> Some (- 1, g)
      | Some conn \<Rightarrow>
          (case parse_SelectedServerNotify P (mi_data i) of
             None \<Rightarrow> Some (- 1, g)
           | Some account \<Rightarrow>
               let (ok, g) = newAccountSession g account code time in
               if \<not> ok then Some (- 1, g)
               else
                 (case serialize (ser_SelectedServerResponse P account code) of
                    None \<Rightarrow> Some (- 1, g)
                  | Some bs \<Rightarrow> do {
                      (r, m) \<leftarrow> conn_send (ms_net (gs_client_master g)) conn MSGID_GT2LS_SELECTED_SERVER_RESPONSE bs;
                      Some (if r < 0 then - 1 else 0, upd_login_net g m)
                    })))"

section \<open>ConnConfigHandler\<close>

definition config_onConnect :: "codec \<Rightarrow> gate_config \<Rightarrow> gate_state \<Rightarrow> JmyEventInfo \<Rightarrow> (int \<times> gate_state) option" where
  "config_onConnect P conf g i =
     (case event_connection (ms_net (gs_client_master g)) i of
        None \<Rightarrow> Some (- 1, g)
      | Some conn \<Rightarrow>
          (case serialize (ser_ConnectConfigRequest P (gc_id conf)) of
             None \<Rightarrow> Some (- 1, g)
           | Some bs \<Rightarrow> do {
               (r, m) \<leftarrow> conn_send (ms_net (gs_client_master g)) conn MSGID_GT2CS_CONNECT_CONFIG_REQUEST bs;
               Some (if r < 0 then - 1 else 0, upd_login_net g m)
             }))"

definition config_onDisconnect :: "gate_state \<Rightarrow> JmyEventInfo \<Rightarrow> int \<times> gate_state" where
  "config_onDisconnect g i = (0, g)"

definition config_onTick :: "gate_state \<Rightarrow> JmyEventInfo \<Rightarrow> int \<times> gate_state" where
  "config_onTick g i = (0, g)"

definition processRemoveLoginNotify :: "gate_state \<Rightarrow> JmyMsgInfo \<Rightarrow> int \<times> gate_state" where
  "processRemoveLoginNotify g i = (0, g)"

text \<open>\<open>addrs\<close> gives, for every login server in the list, the addresses of the objects that are created.\<close>

definition start_login ::
    "unit env \<Rightarrow> JmyClientConfig \<Rightarrow> gate_state \<Rightarrow> int \<times> string \<times> u16 \<Rightarrow> nat \<times> nat \<times> nat \<times> nat \<Rightarrow> int \<Rightarrow> (bool \<times> gate_state) option" where
  "start_login E conf g = (\<lambda>(login_id, ip, port) (p, dh, ev, b) now. do {
     (q, g) \<leftarrow> startLoginClient E g conf (ip, port) p (dh, ev, b) now;
     Some (if q = 0 then (False, g) else (True, snd (addLoginClient g login_id q)))
   })"

fun start_logins ::
    "unit env \<Rightarrow> JmyClientConfig \<Rightarrow> (int \<times> string \<times> u16) list \<Rightarrow> (nat \<Rightarrow> nat \<times> nat \<times> nat \<times> nat) \<Rightarrow> int \<Rightarrow> gate_state \<Rightarrow> gate_state option" where
  "start_logins E conf [] addrs now g = Some g"
| "start_logins E conf (x # xs) addrs now g = do {
     (r, g) \<leftarrow> start_login E conf g x (addrs 0) now;
     start_logins E conf xs (\<lambda>k. addrs (Suc k)) now g
   }"

definition processConnectConfigResponse ::
    "codec \<Rightarrow> unit env \<Rightarrow> JmyClientConfig \<Rightarrow> gate_state \<Rightarrow> JmyMsgInfo \<Rightarrow> (nat \<Rightarrow> nat \<times> nat \<times> nat \<times> nat) \<Rightarrow> int \<Rightarrow> (int \<times> gate_state) option" where
  "processConnectConfigResponse P E conf g i addrs now =
     (case parse_ConnectConfigResponse P (mi_data i) of
        None \<Rightarrow> Some (- 1, g)
      | Some logins \<Rightarrow> do { g \<leftarrow> start_logins E conf logins addrs now g; Some (0, g) })"

definition processNewLoginNotify ::
    "codec \<Rightarrow> unit env \<Rightarrow> JmyClientConfig \<Rightarrow> gate_state \<Rightarrow> JmyMsgInfo \<Rightarrow> nat \<times> nat \<times> nat \<times> nat \<Rightarrow> int \<Rightarrow> (int \<times> gate_state) option" where
  "processNewLoginNotify P E conf g i addrs now =
     (case parse_NewLoginNotify P (mi_data i) of
        None \<Rightarrow> Some (- 1, g)
      | Some login \<Rightarrow> do { (r, g) \<leftarrow> start_login E conf g login addrs now; Some (if r then 0 else - 1, g) })"

section \<open>Forwarding between clients and the game server\<close>

lemma sender_ready_upd [simp]:
  "sender_ready (upd_gate n f) c \<longleftrightarrow> sender_ready n c" "queued (upd_gate n f) c = queued n c"
  by (simp_all add: sender_ready_def queued_def)

lemma game_send_user:
  assumes "ap_getAgent (gs_game_mgr g) (gs_the_game_id g) = Some a" "ag_state a = AGENT_STATE_VERIFIED" "ag_mgr a \<noteq> 0"
    and "mgr_get (gs_game_net g) (ag_conn_id a) = Some c" "sender_ready (gs_game_net g) c" "length d < 65527"
  shows "\<exists>m. sendGameMsg_user g u msg_id (Some (cells d)) (of_nat (length d)) = Some (int (length d), g\<lparr>gs_game_net := m\<rparr>) \<and>
    sender_ready m c \<and> queued m c = queued (gs_game_net g) c @ cells (packet (UserMsg u msg_id d))"
proof -
  from send_msg_ok [OF assms(5), of "UserMsg u msg_id d"] assms(6) obtain m where
    m: "send_user (gs_game_net g) c u msg_id (Some (cells d)) (of_nat (length d)) = Some (int (length d), m)" "sender_ready m c"
    "queued m c = queued (gs_game_net g) c @ cells (packet (UserMsg u msg_id d))" by auto
  have len: "uint (of_nat (length d) :: u16) = int (length d)" using assms(6) by (intro uint_of_nat_fits) simp
  show ?thesis using assms m len by (auto simp: sendGameMsg_user_def agent_sendMsg_user_def)
qed

text \<open>
  C9. A gate forwards what a client sends. When the client's connection is mapped to an id and a game
  server is registered on a live connection, a message without a handler of its own is appended to
  that connection as one packet, with the client's id, the message id and the payload unchanged, and
  nothing else changes.
\<close>

theorem client_message_forwarded:
  assumes "msg_connection n (received_msg u msg_id d cid mgr) = Some conn" "find_1 (gs_connid_id (nt_app n)) cid = Some i" "i \<noteq> 0"
    and "ap_getAgent (gs_game_mgr (nt_app n)) (gs_the_game_id (nt_app n)) = Some a" "ag_state a = AGENT_STATE_VERIFIED" "ag_mgr a \<noteq> 0"
    and "mgr_get (gs_game_net (nt_app n)) (ag_conn_id a) = Some c" "sender_ready (gs_game_net (nt_app n)) c" "length d < 65527"
  shows "\<exists>m. client_processDefault P n (received_msg u msg_id d cid mgr) =
      Some (int (length d), n\<lparr>nt_app := (nt_app n)\<lparr>gs_game_net := m\<rparr>\<rparr>) \<and> sender_ready m c \<and>
    queued m c = queued (gs_game_net (nt_app n)) c @ cells (packet (UserMsg (word_of_int i) (word_of_int msg_id) d))"
proof -
  from game_send_user [OF assms(4-9), of "word_of_int i" "word_of_int msg_id"] obtain m where
    m: "sendGameMsg_user (nt_app n) (word_of_int i) (word_of_int msg_id) (Some (cells d)) (of_nat (length d)) =
        Some (int (length d), (nt_app n)\<lparr>gs_game_net := m\<rparr>)" "sender_ready m c"
    "queued m c = queued (gs_game_net (nt_app n)) c @ cells (packet (UserMsg (word_of_int i) (word_of_int msg_id) d))" by blast
  have "getIdByConnId (nt_app n) cid = i" using assms(2) by (simp add: getIdByConnId_def)
  then have "client_processDefault P n (received_msg u msg_id d cid mgr) = Some (int (length d), n\<lparr>nt_app := (nt_app n)\<lparr>gs_game_net := m\<rparr>\<rparr>)"
    using assms(1,3,9) m(1) len_casts [of d]
    by (simp add: client_processDefault_def received_msg_def send_game_user_def)
  with m(2,3) show ?thesis by blast
qed

text \<open>
  C10. A gate forwards what the game server answers. A message of the game server for a user whose
  table entry is in use and has a live connection is appended to that client's connection as one
  packet with the message id and the payload unchanged; the state of the gate does not change.
\<close>

theorem game_message_forwarded:
  assumes "msg_connection (gs_game_net (nt_app n)) (received_msg u msg_id d cid mgr) \<noteq> None" "u \<noteq> 0"
    and "getClientInfo (nt_app n) (sint u) = Some (Some k)" "ci_used (info_at n k)"
    and "get_connection n (ci_conn_id (info_at n k)) (ci_conn_mgr (info_at n k)) = Some c" "sender_ready n c" "length d < 65531"
  shows "\<exists>n'. game_processDefault n (received_msg u msg_id d cid mgr) = Some (int (length d), n') \<and> sender_ready n' c \<and>
    queued n' c = queued n c @ cells (packet (Msg (word_of_int msg_id) d)) \<and> nt_app n' = nt_app n"
proof -
  from send_msg_ok [OF assms(6), of "Msg (word_of_int msg_id) d"] assms(7) obtain n' where
    n': "send n c (word_of_int msg_id) (Some (cells d)) (of_nat (length d)) = Some (int (length d), n')" "sender_ready n' c"
    "queued n' c = queued n c @ cells (packet (Msg (word_of_int msg_id) d))" by auto
  have "nt_app n' = nt_app n" using n'(1) by (auto simp: send_def write_to_send_buffer_def split: if_splits bind_splits)
  moreover have "(ucast (ucast (of_nat (length d) :: u32) :: u16) :: u32) = of_nat (length d)"
    using len_casts(1) [of d] assms(7) by (simp add: unsigned_of_nat take_bit_nat_eq_self)
  ultimately show ?thesis
    using assms(1-5,7) n' len_casts [of d] by (auto simp: game_processDefault_def received_msg_def msg_connection_def ci_send_def)
qed

section \<open>Witnesses for forwarding\<close>

text \<open>A codec that reads every request of a client as one of \<open>joe\<close> and writes only error codes.\<close>

definition sample_codec :: codec where
  "sample_codec = \<lparr>parse_GetRoleRequest = (\<lambda>_. Some (''joe'', ''code'')), parse_CreateRoleRequest = (\<lambda>_. Some (1, 2, ''joe'')),
     parse_ReconnectRequest = (\<lambda>_. Some ''joe''), parse_ConnectGateRequest = (\<lambda>_. Some 40001), parse_RoleResponse = (\<lambda>_. None),
     parse_ConnectLoginResponse = (\<lambda>_. None), parse_SelectedServerNotify = (\<lambda>_. Some ''joe''), parse_ConnectConfigResponse = (\<lambda>_. Some []),
     parse_NewLoginNotify = (\<lambda>_. None), ser_Error = (\<lambda>e. [8, word_of_int e]), ser_GetRoleRequest = (\<lambda>_. []),
     ser_CreateRoleRequest = (\<lambda>_ _ _ _. []), ser_EnterGameRequest = (\<lambda>_. []), ser_LeaveGameRequest = [], ser_ReconnectResponse = (\<lambda>_. []),
     ser_ConnectGateResponse = (\<lambda>_ _. []), ser_GetRoleResponse_gs = (\<lambda>_ _. []), ser_CreateRoleResponse = (\<lambda>_. []),
     ser_ConnectLoginRequest = (\<lambda>_ _ _. []), ser_SelectedServerResponse = (\<lambda>_ _. []), ser_ConnectConfigRequest = (\<lambda>_. [])\<rparr>"

text \<open>A gate with a client on connection 3, entered as 100000, and a game server on connection 3 of its own store.\<close>

definition busy_gate :: gate where
  "busy_gate = connected_net JMY_CONN_TYPE_PASSIVE 7 ((new_gate 1)\<lparr>gs_clients := one_client,
     gs_connid_id := snd (bimap_insert new_bimap 3 100000), gs_account_id := snd (bimap_insert new_bimap ''joe'' 100000),
     gs_game_mgr := snd (ap_newAgent () (new_agent_manager_perf GAME_SERVER_MAX_ID GAME_SERVER_MIN_ID) 40001 1 3),
     gs_the_game_id := 40001, gs_game_net := connected_net JMY_CONN_TYPE_PASSIVE 7 ()\<rparr>)"

lemma busy_gate_facts:
  "sender_ready busy_gate c" "sender_ready (gs_game_net (nt_app busy_gate)) c"
  "find_1 (gs_connid_id (nt_app busy_gate)) 3 = Some 100000" "gs_the_game_id (nt_app busy_gate) = 40001"
  "msg_connection busy_gate (received_msg u msg_id d 3 1) = Some 1" "mgr_get (gs_game_net (nt_app busy_gate)) 3 = Some 1"
  "gs_clients (nt_app busy_gate) = one_client"
  by (simp_all add: busy_gate_def connected_sender_ready connected_net_get find_1_def bimap_insert_def new_bimap_def map_insert_def
      msg_connection_def get_connection_def received_msg_def)

lemma busy_gate_agent:
  "ap_getAgent (gs_game_mgr (nt_app busy_gate)) (gs_the_game_id (nt_app busy_gate)) = Some (verified_agent () 1 3)"
  by (simp add: busy_gate_def connected_net_def ap_newAgent_def ap_getAgent_def ap_outside_def new_agent_manager_perf_def Let_def)

theorem client_message_forwarded_witness:
  "\<exists>m. client_processDefault sample_codec busy_gate (received_msg 0 20300 [1, 2, 3] 3 1) =
      Some (3, busy_gate\<lparr>nt_app := (nt_app busy_gate)\<lparr>gs_game_net := m\<rparr>\<rparr>) \<and>
    queued m 1 = cells (packet (UserMsg 100000 20300 [1, 2, 3]))"
proof -
  have "queued (gs_game_net (nt_app busy_gate)) 1 = []"
    by (simp add: busy_gate_def queued_def connected_net_defs bl_stream_def)
  with client_message_forwarded [OF busy_gate_facts(5,3) _ busy_gate_agent _ _ _ busy_gate_facts(2), where d = "[1, 2, 3]" and c = 1 and u = 0 and msg_id = 20300 and P = sample_codec]
    busy_gate_facts(6)
  show ?thesis by (auto simp: verified_agent_def agent_init_def)
qed

theorem game_message_forwarded_witness:
  "\<exists>n'. game_processDefault busy_gate (received_msg 100000 20301 [9] 3 1) = Some (1, n') \<and>
    queued n' 1 = queued busy_gate 1 @ cells (packet (Msg 20301 [9]))"
proof -
  have k: "getClientInfo (nt_app busy_gate) (sint (100000 :: i32)) = Some (Some 0)"
    by (simp add: getClientInfo_def busy_gate_facts ca_get_def ca_index_def one_client_def)
  have c: "msg_connection (gs_game_net (nt_app busy_gate)) (received_msg 100000 20301 [9] 3 1) \<noteq> None"
    using busy_gate_facts(6) by (simp add: msg_connection_def get_connection_def received_msg_def)
  have i: "ci_used (info_at busy_gate 0)" "ci_conn_id (info_at busy_gate 0) = 3" "ci_conn_mgr (info_at busy_gate 0) = 1"
    by (simp_all add: info_at_def busy_gate_facts one_client_def)
  have "get_connection busy_gate (ci_conn_id (info_at busy_gate 0)) (ci_conn_mgr (info_at busy_gate 0)) = Some 1"
    using busy_gate_facts(5) [of 0 0 "[]"] i by (simp add: msg_connection_def received_msg_def)
  from game_message_forwarded [OF c _ k i(1) this busy_gate_facts(1)] show ?thesis by auto
qed

section \<open>A client that is refused\<close>

lemma ca_ok_finite: "ca_ok a \<Longrightarrow> finite (ca_used_ids a)"
  using ca_okD(6) [of a] by (metis finite_Un finite_atLeastLessThan_int)

lemma newClient_fresh:
  assumes "find_1 (gs_account_id (nt_app n)) account = None" "ca_ok (gs_clients (nt_app n))" "ca_free_ids (gs_clients (nt_app n)) = j # js"
    and "find_2 (gs_account_id (nt_app n)) j = None"
  shows "\<exists>k n'. newClient E n account = Some (Some k, n') \<and> n' = upd_gate n (\<lambda>_. nt_app n') \<and>
    ca_used_ids (gs_clients (nt_app n')) = insert j (ca_used_ids (gs_clients (nt_app n))) \<and>
    find_1 (gs_account_id (nt_app n')) account = Some j \<and> gs_connid_id (nt_app n') = gs_connid_id (nt_app n) \<and>
    gs_client_max_conn (nt_app n') = gs_client_max_conn (nt_app n) \<and> k = nat (j - ca_start_id (gs_clients (nt_app n))) \<and>
    ci_conn_mgr (info_at n' k) = ci_conn_mgr (info_at n k)"
proof -
  let ?a = "gs_clients (nt_app n)" and ?k = "nat (j - ca_start_id (gs_clients (nt_app n)))"
  from ca_getFree_ok [OF assms(2,3)] obtain a where a: "ca_getFree ?a = Some (Some ?k, a)" "ca_ok a"
    "ca_used_ids a = insert j (ca_used_ids ?a)" "ci_id (ca_info_array a ! ?k) = j" "length (ca_info_array a) = length (ca_info_array ?a)" by blast
  have len: "?k < length (ca_info_array ?a)" using ca_index_ok [OF assms(2), of j] assms(3) by simp
  have mgr: "ci_conn_mgr (ca_info_array a ! ?k) = ci_conn_mgr (ca_info_array ?a ! ?k)"
    using a(1) assms(3) len by (auto simp: ca_getFree_def split: if_splits bind_splits)
  show ?thesis
    using assms(1,4) a len mgr
    by (simp add: newClient_def upd_info_def upd_gate_def info_at_def find_1_def find_2_def bimap_insert_def map_insert_def)
qed

text \<open>
  A client that is refused for lack of room takes the last place for good. Let a client with a
  valid session ask to enter when its entry would make the table as large as the limit. The request
  fails with the error message, and afterwards the entry is in use, the account is mapped to it and
  the connection is not: when the connection closes, nothing is found to be removed.
\<close>

theorem refused_client_keeps_its_place:
  assumes "msg_connection n i = Some c" "sender_ready n c" "parse_GetRoleRequest P (mi_data i) = Some (account, session)"
    and "checkSessionByAccount (nt_app n) account session time = (True, g)" "find_1 (gs_account_id (nt_app n)) account = None"
    and "ca_ok (gs_clients (nt_app n))" "ca_free_ids (gs_clients (nt_app n)) = j # js" "find_2 (gs_account_id (nt_app n)) j = None"
    and "sint (gs_client_max_conn (nt_app n)) \<le> int (card (ca_used_ids (gs_clients (nt_app n)))) + 1"
    and "ci_conn_mgr (info_at n (nat (j - ca_start_id (gs_clients (nt_app n))))) = 0" "length (ser_Error P 204) \<le> 64"
    and "find_1 (gs_connid_id (nt_app n)) (mi_conn_id i) = None"
  shows "\<exists>n'. processGetRoleRequest P E n i time now = Some (- 1, n') \<and> queued n' c = queued n c @ cells (packet (Msg 1 (ser_Error P 204))) \<and>
    j \<in> ca_used_ids (gs_clients (nt_app n')) \<and> find_1 (gs_account_id (nt_app n')) account = Some j \<and>
    removeByConnId (nt_app n') (mi_conn_id i) = Some (False, nt_app n')"
proof -
  let ?n = "n\<lparr>nt_app := g\<rparr>" and ?g = "nt_app n"
  have g: "gs_account_id g = gs_account_id ?g" "gs_clients g = gs_clients ?g" "gs_connid_id g = gs_connid_id ?g"
    "gs_client_max_conn g = gs_client_max_conn ?g"
    using assms(4) by (auto simp: checkSessionByAccount_def split: option.splits if_splits)
  from newClient_fresh [of ?n account j js E] assms(5-8) obtain k n1 where
    n1: "newClient E ?n account = Some (Some k, n1)" "n1 = upd_gate ?n (\<lambda>_. nt_app n1)"
      "ca_used_ids (gs_clients (nt_app n1)) = insert j (ca_used_ids (gs_clients ?g))" "find_1 (gs_account_id (nt_app n1)) account = Some j"
      "gs_connid_id (nt_app n1) = gs_connid_id ?g" "gs_client_max_conn (nt_app n1) = gs_client_max_conn ?g"
      "k = nat (j - ca_start_id (gs_clients ?g))" "ci_conn_mgr (info_at n1 k) = ci_conn_mgr (info_at ?n k)" by (auto simp: g)
  have mgr: "ci_conn_mgr (info_at n1 k) = 0" using n1(7,8) assms(10) g(2) by (simp add: info_at_def)
  have "j \<notin> ca_used_ids (gs_clients ?g)" using ca_okD(5) [OF assms(6)] assms(7) by auto
  then have "checkClientMaxCount (nt_app n1) (ca_getUsedSize (gs_clients (nt_app n1)))"
    using assms(9) n1(3,6) ca_ok_finite [OF assms(6)] by (simp add: checkClientMaxCount_def ca_getUsedSize_def)
  moreover have "sender_ready n1 c" "queued n1 c = queued n c" using assms(2) by (subst n1(2), simp)+
  then obtain n2 where n2: "send_error P n1 c 204 = Some (int (length (ser_Error P 204)), n2)"
    "queued n2 c = queued n c @ cells (packet (Msg 1 (ser_Error P 204)))" "nt_app n2 = nt_app n1"
    using send_msg_ok [of n1 c "Msg 1 (ser_Error P 204)"] assms(11)
    by (auto simp: send_error_def conn_send_def send_def write_to_send_buffer_def split: if_splits bind_splits)
  moreover have "ci_close n2 (info_at n2 k) now = Some (n2, info_at n2 k)"
    using mgr n2(3) by (simp add: ci_close_def get_connection_def info_at_def)
  ultimately have "enter_client P E ?n i c account now = Some (- 1, upd_info n2 k (\<lambda>_. info_at n2 k))"
    using n1(1) by (simp add: enter_client_def)
  moreover have "upd_info n2 k (\<lambda>_. info_at n2 k) = n2" by (simp add: upd_info_def upd_gate_def info_at_def)
  ultimately have "processGetRoleRequest P E n i time now = Some (- 1, n2)"
    using assms(1,3,4,5) by (simp add: processGetRoleRequest_def getClientInfoByAccount_def)
  then show ?thesis using n1(3-5) n2(2,3) assms(12) by (intro exI [of _ n2]) (simp add: removeByConnId_def)
qed

text \<open>A gate for one client whose table is still empty, with the session \<open>code\<close> open for \<open>joe\<close>.\<close>

definition one_place_gate :: gate where
  "one_place_gate = connected_net JMY_CONN_TYPE_PASSIVE 7 (snd (newAccountSession
     ((new_gate 1)\<lparr>gs_clients := snd (ca_init new_client_array 1 100000)\<rparr>) ''joe'' ''code'' 0))"

definition silent_env :: "gate_state env" where
  "silent_env = \<lparr>msg_code = (\<lambda>_ _ n. Some (0, n)), event_code = (\<lambda>_ _ n. Some (0, n))\<rparr>"

lemma find_new_bimap: "find_1 new_bimap k = None" "find_2 new_bimap l = None"
  by (simp_all add: find_1_def find_2_def new_bimap_def)

theorem refused_client_keeps_its_place_witness:
  "\<exists>n'. processGetRoleRequest sample_codec silent_env one_place_gate (received_msg 0 10010 [] 3 1) 1 0 = Some (- 1, n') \<and>
    100000 \<in> ca_used_ids (gs_clients (nt_app n')) \<and> removeByConnId (nt_app n') 3 = Some (False, nt_app n')"
proof -
  let ?g = "nt_app one_place_gate" and ?i = "received_msg 0 10010 [] 3 1"
  have g: "gs_clients ?g = snd (ca_init new_client_array 1 100000)" "gs_account_id ?g = new_bimap" "gs_connid_id ?g = new_bimap"
    "gs_client_max_conn ?g = 1"
    by (simp_all add: one_place_gate_def newAccountSession_def new_gate_def)
  have "ca_ok (gs_clients ?g)" by (auto simp: g ca_init_def new_client_array_def new_client_info_def ca_ok_def)
  moreover have "checkSessionByAccount ?g ''joe'' ''code'' 1 = (True, snd (checkSessionByAccount ?g ''joe'' ''code'' 1))"
    by (simp add: one_place_gate_def newAccountSession_def new_gate_def checkSessionByAccount_def map_insert_def)
  moreover have "msg_connection one_place_gate ?i = Some 1" "sender_ready one_place_gate 1"
    by (simp_all add: one_place_gate_def msg_connection_def get_connection_def received_msg_def connected_net_get connected_sender_ready)
  moreover have "ca_free_ids (gs_clients ?g) = [100000]" "ca_used_ids (gs_clients ?g) = {}" "ca_start_id (gs_clients ?g) = 100000"
    "ci_conn_mgr (info_at one_place_gate 0) = 0"
    by (simp_all add: g info_at_def ca_init_def new_client_array_def new_client_info_def)
  moreover have "mi_conn_id ?i = 3" by (simp add: received_msg_def)
  moreover have "parse_GetRoleRequest sample_codec b = Some (''joe'', ''code'')" "length (ser_Error sample_codec e) = 2" for b e
    by (simp_all add: sample_codec_def)
  ultimately show ?thesis
    using refused_client_keeps_its_place [of one_place_gate ?i 1 sample_codec "''joe''" "''code''" 1
        "snd (checkSessionByAccount ?g ''joe'' ''code'' 1)" 100000 "[]" silent_env 0] g(2-4)
    by (auto simp: find_new_bimap)
qed

end
