(* ===== verification/Login_Server.thy ===== *)
theory Login_Server
  imports Server_Common
begin

text \<open>
  The login server of \<open>login_server\<close>: \<open>ClientManager\<close>, \<open>GateServerList\<close>, \<open>ClientHandler\<close>, \<open>GateHandler\<close> and
  \<open>ConnConfigHandler\<close>. The state of the process is the application state of the server that listens for
  clients; gate servers and the config server are on stores of their own inside it. The classes that
  \<open>protoc\<close> generates are the parameter \<open>login_codec\<close>. The static buffer \<open>tmp_\<close> of \<open>ClientHandler\<close> is part of
  the state, because \<open>send_error\<close> sends from it without writing to it.
\<close>

abbreviation (input) MSGID_S2C_LOGIN_RESPONSE :: i32 where "MSGID_S2C_LOGIN_RESPONSE \<equiv> 10001"
abbreviation (input) MSGID_S2C_SELECT_SERVER_RESPONSE :: i32 where "MSGID_S2C_SELECT_SERVER_RESPONSE \<equiv> 10003"
abbreviation (input) MSGID_LS2GT_CONNECT_LOGIN_RESPONSE :: i32 where "MSGID_LS2GT_CONNECT_LOGIN_RESPONSE \<equiv> 20001"
abbreviation (input) MSGID_LS2GT_SELECTED_SERVER_NOTIFY :: i32 where "MSGID_LS2GT_SELECTED_SERVER_NOTIFY \<equiv> 20002"
abbreviation (input) MSGID_LS2CS_CONNECT_CONFIG_REQUEST :: i32 where "MSGID_LS2CS_CONNECT_CONFIG_REQUEST \<equiv> 20110"

abbreviation (input) PROTO_ERROR_LOGIN_REPEATED :: int where "PROTO_ERROR_LOGIN_REPEATED \<equiv> 102"
abbreviation (input) PROTO_ERROR_LOGIN_DATA_INVALID :: int where "PROTO_ERROR_LOGIN_DATA_INVALID \<equiv> 103"
abbreviation (input) PROTO_ERROR_LOGIN_GAME_SERVER_MAINTENANCE :: int where "PROTO_ERROR_LOGIN_GAME_SERVER_MAINTENANCE \<equiv> 104"

record login_client_data =
  lcd_gate_id :: int

record GateData =
  gd_id :: int
  gd_ip :: string
  gd_port :: u16

record login_config =
  lc_id :: int
  lc_max_conn :: int
  lc_listen_gate_ip :: string
  lc_listen_gate_port :: u16

record login_codec =
  parse_LoginRequest :: "cell list \<Rightarrow> string option"
  parse_SelectServerRequest :: "cell list \<Rightarrow> int option"
  parse_EchoRequest :: "cell list \<Rightarrow> string option"
  parse_ConnectLoginRequest :: "cell list \<Rightarrow> (int \<times> string \<times> int) option"
  parse_SelectedServerResponse :: "cell list \<Rightarrow> (string \<times> string) option"
  parse_LoginConnectConfigResponse :: "cell list \<Rightarrow> gate_conf list option"
  parse_GateConfListNotify :: "cell list \<Rightarrow> gate_conf list option"
  ser_MsgError :: "int \<Rightarrow> u8 list"
  ser_LoginResponse :: "(string \<times> int \<times> bool \<times> bool) list \<Rightarrow> u8 list"
  ser_SelectedServerNotify :: "string \<Rightarrow> u8 list"
  ser_EchoResponse :: "string \<Rightarrow> u8 list"
  ser_ConnectLoginResponse :: "int \<Rightarrow> u8 list"
  ser_SelectServerResponse :: "string \<Rightarrow> string \<Rightarrow> int \<Rightarrow> u8 list"
  ser_LoginConnectConfigRequest :: "int \<Rightarrow> string \<Rightarrow> u16 \<Rightarrow> u8 list"

record login_state =
  lg_clients :: "(string, login_client_data) AgentManager"
  lg_gate_conf_list :: "gate_conf list"
  lg_gate_mgr :: "GateData AgentManagerPerf"
  lg_gate_net :: "unit net"
  lg_config_net :: "unit net"
  lg_tmp :: "u8 list"

type_synonym login = "login_state net"

definition new_login_state :: "unit net \<Rightarrow> unit net \<Rightarrow> login_state" where
  "new_login_state gates config = \<lparr>lg_clients = new_agent_manager, lg_gate_conf_list = [],
     lg_gate_mgr = new_agent_manager_perf GATE_SERVER_MAX_ID GATE_SERVER_MIN_ID, lg_gate_net = gates, lg_config_net = config,
     lg_tmp = replicate 65536 0\<rparr>"

definition upd_login :: "login \<Rightarrow> (login_state \<Rightarrow> login_state) \<Rightarrow> login" where
  "upd_login n f = n\<lparr>nt_app := f (nt_app n)\<rparr>"

abbreviation clients_of :: "login \<Rightarrow> (string, login_client_data) AgentManager" where
  "clients_of n \<equiv> lg_clients (nt_app n)"

text \<open>\<open>SerializeToArray\<close> into \<open>ClientHandler::tmp_\<close>.\<close>

definition write_tmp :: "login \<Rightarrow> u8 list \<Rightarrow> login" where
  "write_tmp n bs = upd_login n (\<lambda>g. g\<lparr>lg_tmp := bs @ drop (length bs) (lg_tmp g)\<rparr>)"

section \<open>ClientManager and GateServerList\<close>

definition lcm_newAgent :: "login \<Rightarrow> string \<Rightarrow> JmyMsgInfo \<Rightarrow> login_client_data Agent option \<times> login" where
  "lcm_newAgent n account i =
     (let (a, m) = am_newAgent \<lparr>lcd_gate_id = 0\<rparr> (clients_of n) account (mi_param i) (mi_conn_id i)
      in (a, upd_login n (\<lambda>g. g\<lparr>lg_clients := m\<rparr>)))"

definition lcm_deleteAgent :: "login \<Rightarrow> string \<Rightarrow> bool \<times> login" where
  "lcm_deleteAgent n account =
     (let (r, m) = am_deleteAgent (clients_of n) account in (r, upd_login n (\<lambda>g. g\<lparr>lg_clients := m\<rparr>)))"

definition lcm_deleteAgentByConnId :: "login \<Rightarrow> int \<Rightarrow> bool \<times> login" where
  "lcm_deleteAgentByConnId n cid =
     (let (r, m) = am_deleteAgentByConnId (clients_of n) cid in (r, upd_login n (\<lambda>g. g\<lparr>lg_clients := m\<rparr>)))"

definition lcm_isFull :: "login_config \<Rightarrow> login \<Rightarrow> bool" where
  "lcm_isFull conf n \<longleftrightarrow> int (am_getAgentSize (clients_of n)) \<ge> lc_max_conn conf"

definition gsl_init :: "login_state \<Rightarrow> login_state" where
  "gsl_init g = g\<lparr>lg_gate_mgr := (lg_gate_mgr g)\<lparr>ap_agents := map (\<lambda>_. None) (ap_agents (lg_gate_mgr g))\<rparr>\<rparr>"

definition gsl_clear :: "login_state \<Rightarrow> login_state" where
  "gsl_clear g = g\<lparr>lg_gate_conf_list := []\<rparr>"

definition gsl_push :: "login_state \<Rightarrow> gate_conf \<Rightarrow> login_state" where
  "gsl_push g d = g\<lparr>lg_gate_conf_list := lg_gate_conf_list g @ [d]\<rparr>"

definition gsl_get :: "gate_conf list \<Rightarrow> int \<Rightarrow> gate_conf option" where
  "gsl_get l gate_id = find (\<lambda>d. gf_id d = gate_id) l"

definition gsl_newGateAgent :: "login \<Rightarrow> int \<Rightarrow> JmyMsgInfo \<Rightarrow> GateData Agent option \<times> login" where
  "gsl_newGateAgent n gate_id i =
     (let (a, m) = ap_newAgent \<lparr>gd_id = 0, gd_ip = [], gd_port = 0\<rparr> (lg_gate_mgr (nt_app n)) gate_id (mi_param i) (mi_conn_id i)
      in (a, upd_login n (\<lambda>g. g\<lparr>lg_gate_mgr := m\<rparr>)))"

definition gsl_deleteGateAgentByConnId :: "login \<Rightarrow> int \<Rightarrow> (bool \<times> login) option" where
  "gsl_deleteGateAgentByConnId n cid = do {
     (r, m) \<leftarrow> ap_deleteAgentByConnId (lg_gate_mgr (nt_app n)) cid;
     Some (r, upd_login n (\<lambda>g. g\<lparr>lg_gate_mgr := m\<rparr>))
   }"

section \<open>ClientHandler\<close>

definition ls_send_error :: "login_codec \<Rightarrow> login \<Rightarrow> JmyMsgInfo \<Rightarrow> int \<Rightarrow> (int \<times> login) option" where
  "ls_send_error P n i error =
     (case msg_connection n i of
        None \<Rightarrow> Some (- 1, n)
      | Some conn \<Rightarrow> do {
          require (length (ser_MsgError P error) \<le> length (lg_tmp (nt_app n)));
          conn_send n conn MSGID_S2C_LOGIN_RESPONSE (take (length (ser_MsgError P error)) (lg_tmp (nt_app n)))
        })"

definition ls_client_onConnect :: "login_config \<Rightarrow> login_state env \<Rightarrow> login \<Rightarrow> JmyEventInfo \<Rightarrow> (int \<times> login) option" where
  "ls_client_onConnect conf E n i =
     (case event_connection n i of
        None \<Rightarrow> Some (- 1, n)
      | Some conn \<Rightarrow>
          if \<not> lcm_isFull conf n then Some (0, n)
          else do { n \<leftarrow> force_close E n conn; Some (0, n) })"

definition ls_client_onDisconnect :: "login \<Rightarrow> JmyEventInfo \<Rightarrow> (int \<times> login) option" where
  "ls_client_onDisconnect n i =
     (if am_getAgentByConnId (clients_of n) (ei_conn_id i) = None then Some (0, n)
      else Some (0, snd (lcm_deleteAgentByConnId n (ei_conn_id i))))"

definition ls_client_onTick :: "login \<Rightarrow> JmyEventInfo \<Rightarrow> (int \<times> login) option" where
  "ls_client_onTick n i = Some (0, n)"

text \<open>The servers a client may choose from, as the login response lists them.\<close>

definition server_infos :: "gate_conf list \<Rightarrow> (string \<times> int \<times> bool \<times> bool) list" where
  "server_infos l = map (\<lambda>d. (gf_name d, gf_id d, gf_is_busy d, gf_is_maintenance d)) l"

text \<open>The part of \<open>processLogin\<close> that kicks an agent of the same account.\<close>

definition kick_account :: "login_state env \<Rightarrow> login \<Rightarrow> string \<Rightarrow> login option" where
  "kick_account E n account =
     (case am_getAgent (clients_of n) account of
        None \<Rightarrow> Some n
      | Some agent \<Rightarrow> do {
          (r, n) \<leftarrow> agent_force_close E n agent;
          Some (snd (lcm_deleteAgent n account))
        })"

definition processLogin :: "login_codec \<Rightarrow> login_state env \<Rightarrow> login \<Rightarrow> JmyMsgInfo \<Rightarrow> (int \<times> login) option" where
  "processLogin P E n i =
     (case parse_LoginRequest P (mi_data i) of
        None \<Rightarrow> do { (r, n) \<leftarrow> ls_send_error P n i PROTO_ERROR_LOGIN_DATA_INVALID; Some (- 1, n) }
      | Some account \<Rightarrow> do {
          n \<leftarrow> kick_account E n account;
          let (agent, n) = lcm_newAgent n account i;
          case agent of
            None \<Rightarrow> do { (r, n) \<leftarrow> ls_send_error P n i PROTO_ERROR_LOGIN_REPEATED; Some (- 1, n) }
          | Some agent \<Rightarrow> do {
              let n = upd_login n (\<lambda>g. g\<lparr>lg_clients := snd (am_setAgentState (lg_clients g) account AGENT_STATE_VERIFIED)\<rparr>);
              case serialize (ser_LoginResponse P (server_infos (lg_gate_conf_list (nt_app n)))) of
                None \<Rightarrow> Some (- 1, n)
              | Some bs \<Rightarrow> do {
                  (r, n) \<leftarrow> agent_conn_send (write_tmp n bs) (agent\<lparr>ag_state := AGENT_STATE_VERIFIED\<rparr>) MSGID_S2C_LOGIN_RESPONSE bs;
                  if r < 0 then Some (- 1, n) else Some (sint (mi_len i), n)
                }
            }
        })"

definition processSelectServer :: "login_codec \<Rightarrow> login \<Rightarrow> JmyMsgInfo \<Rightarrow> (int \<times> login) option" where
  "processSelectServer P n i =
     (case parse_SelectServerRequest P (mi_data i) of
        None \<Rightarrow> do { (r, n) \<leftarrow> ls_send_error P n i PROTO_ERROR_LOGIN_DATA_INVALID; Some (- 1, n) }
      | Some gate_id \<Rightarrow>
          (case ap_getAgent (lg_gate_mgr (nt_app n)) gate_id of
             None \<Rightarrow> do { (r, n) \<leftarrow> ls_send_error P n i PROTO_ERROR_LOGIN_GAME_SERVER_MAINTENANCE; Some (- 1, n) }
           | Some gate \<Rightarrow>
               (case am_getKeyByConnId (clients_of n) (mi_conn_id i) of
                  None \<Rightarrow> do { (r, n) \<leftarrow> ls_send_error P n i PROTO_ERROR_LOGIN_DATA_INVALID; Some (- 1, n) }
                | Some account \<Rightarrow>
                    (case serialize (ser_SelectedServerNotify P account) of
                       None \<Rightarrow> Some (- 1, n)
                     | Some bs \<Rightarrow> do {
                         let n = write_tmp n bs;
                         (r, m) \<leftarrow> agent_conn_send (lg_gate_net (nt_app n)) gate MSGID_LS2GT_SELECTED_SERVER_NOTIFY bs;
                         let n = upd_login n (\<lambda>g. g\<lparr>lg_gate_net := m\<rparr>);
                         if r < 0 then Some (- 1, n)
                         else Some (sint (mi_len i),
                           upd_login n (\<lambda>g. g\<lparr>lg_clients := am_setData (lg_clients g) account (\<lambda>d. d\<lparr>lcd_gate_id := gate_id\<rparr>)\<rparr>))
                       }))))"

definition processEcho :: "login_codec \<Rightarrow> login \<Rightarrow> JmyMsgInfo \<Rightarrow> (int \<times> login) option" where
  "processEcho P n i =
     (if msg_connection n i = None then Some (- 1, n)
      else
        (case parse_EchoRequest P (mi_data i) of
           None \<Rightarrow> Some (- 1, n)
         | Some str \<Rightarrow>
             (case serialize (ser_EchoResponse P str) of
                None \<Rightarrow> Some (- 1, n)
              | Some bs \<Rightarrow> Some (sint (mi_len i), write_tmp n bs))))"

section \<open>GateHandler\<close>

definition ls_gate_onConnect :: "login \<Rightarrow> JmyEventInfo \<Rightarrow> (int \<times> login) option" where
  "ls_gate_onConnect n i = Some (0, n)"

definition ls_gate_onDisconnect :: "login \<Rightarrow> JmyEventInfo \<Rightarrow> (int \<times> login) option" where
  "ls_gate_onDisconnect n i = do {
     (r, n) \<leftarrow> gsl_deleteGateAgentByConnId n (ei_conn_id i);
     Some (if r then 0 else - 1, n)
   }"

definition ls_gate_onTick :: "login \<Rightarrow> JmyEventInfo \<Rightarrow> (int \<times> login) option" where
  "ls_gate_onTick n i = Some (0, n)"

definition processConnectLogin :: "login_codec \<Rightarrow> login_config \<Rightarrow> login \<Rightarrow> JmyMsgInfo \<Rightarrow> (int \<times> login) option" where
  "processConnectLogin P conf n i =
     (case parse_ConnectLoginRequest P (mi_data i) of
        None \<Rightarrow> Some (- 1, n)
      | Some (gate_id, ip, port) \<Rightarrow>
          if ap_getAgent (lg_gate_mgr (nt_app n)) gate_id \<noteq> None then Some (- 1, n)
          else do {
            let (agent, n) = gsl_newGateAgent n gate_id i;
            case agent of
              None \<Rightarrow> Some (- 1, n)
            | Some agent \<Rightarrow> do {
                let data = \<lparr>gd_id = gate_id, gd_ip = ip, gd_port = word_of_int port\<rparr>;
                let n = upd_login n (\<lambda>g. g\<lparr>lg_gate_mgr := ap_setData (lg_gate_mgr g) gate_id (\<lambda>_. data)\<rparr>);
                case serialize (ser_ConnectLoginResponse P (lc_id conf)) of
                  None \<Rightarrow> Some (- 1, n)
                | Some bs \<Rightarrow> do {
                    (r, m) \<leftarrow> agent_conn_send (lg_gate_net (nt_app n)) (agent\<lparr>ag_data := data\<rparr>) MSGID_LS2GT_CONNECT_LOGIN_RESPONSE bs;
                    let n = upd_login n (\<lambda>g. g\<lparr>lg_gate_net := m\<rparr>);
                    if r < 0 then Some (- 1, n) else Some (sint (mi_len i), n)
                  }
              }
          })"

definition processSelectedServerResponse :: "login_codec \<Rightarrow> login \<Rightarrow> JmyMsgInfo \<Rightarrow> (int \<times> login) option" where
  "processSelectedServerResponse P n i =
     (case parse_SelectedServerResponse P (mi_data i) of
        None \<Rightarrow> Some (- 1, n)
      | Some (account, session_code) \<Rightarrow>
          (case am_getAgent (clients_of n) account of
             None \<Rightarrow> Some (- 1, n)
           | Some client \<Rightarrow>
               let gate_id = lcd_gate_id (ag_data client) in
               if ap_getAgent (lg_gate_mgr (nt_app n)) gate_id = None then Some (- 1, n)
               else
                 (case gsl_get (lg_gate_conf_list (nt_app n)) gate_id of
                    None \<Rightarrow> Some (- 1, n)
                  | Some d \<Rightarrow>
                      (case serialize (ser_SelectServerResponse P session_code (gf_ip d) (gf_port d)) of
                         None \<Rightarrow> Some (- 1, n)
                       | Some bs \<Rightarrow> do {
                           (r, n) \<leftarrow> agent_conn_send n client MSGID_S2C_SELECT_SERVER_RESPONSE bs;
                           if r < 0 then Some (- 1, n) else Some (sint (mi_len i), n)
                         }))))"

section \<open>ConnConfigHandler\<close>

definition ls_config_onConnect :: "login_codec \<Rightarrow> login_config \<Rightarrow> login \<Rightarrow> JmyEventInfo \<Rightarrow> (int \<times> login) option" where
  "ls_config_onConnect P conf n i =
     (case event_connection (lg_config_net (nt_app n)) i of
        None \<Rightarrow> Some (- 1, n)
      | Some conn \<Rightarrow>
          (case serialize (ser_LoginConnectConfigRequest P (lc_id conf) (lc_listen_gate_ip conf) (lc_listen_gate_port conf)) of
             None \<Rightarrow> Some (- 1, n)
           | Some bs \<Rightarrow> do {
               (r, m) \<leftarrow> conn_send (lg_config_net (nt_app n)) conn MSGID_LS2CS_CONNECT_CONFIG_REQUEST bs;
               Some (if r < 0 then - 1 else 0, upd_login n (\<lambda>g. g\<lparr>lg_config_net := m\<rparr>))
             }))"

definition ls_config_onDisconnect :: "login \<Rightarrow> JmyEventInfo \<Rightarrow> (int \<times> login) option" where
  "ls_config_onDisconnect n i = Some (0, n)"

definition ls_config_onTick :: "login \<Rightarrow> JmyEventInfo \<Rightarrow> (int \<times> login) option" where
  "ls_config_onTick n i = Some (0, n)"

definition ls_processConnectConfigResponse :: "login_codec \<Rightarrow> login \<Rightarrow> JmyMsgInfo \<Rightarrow> (int \<times> login) option" where
  "ls_processConnectConfigResponse P n i =
     (case parse_LoginConnectConfigResponse P (mi_data i) of
        None \<Rightarrow> Some (- 1, n)
      | Some gates \<Rightarrow> Some (0, upd_login n (\<lambda>g. foldl gsl_push (gsl_clear g) gates)))"

definition processGateConfListNotify :: "login_codec \<Rightarrow> login \<Rightarrow> JmyMsgInfo \<Rightarrow> (int \<times> login) option" where
  "processGateConfListNotify P n i =
     (case parse_GateConfListNotify P (mi_data i) of
        None \<Rightarrow> Some (- 1, n)
      | Some gates \<Rightarrow> Some (0, upd_login n (\<lambda>g. foldl gsl_push (gsl_clear g) gates)))"

text \<open>The handlers of client events that \<open>force_close\<close> can run, at the pointers of \<open>s_client_base_event_handlers\<close>.\<close>

abbreviation (input) LS_CLIENT_ON_DISCONNECT :: fptr where "LS_CLIENT_ON_DISCONNECT \<equiv> 7"

definition ls_disconnect_env :: "login_state env" where
  "ls_disconnect_env = \<lparr>msg_code = (\<lambda>f i n. Some (- 1, n)),
     event_code = (\<lambda>f i n. if f = LS_CLIENT_ON_DISCONNECT then ls_client_onDisconnect n i else Some (0, n))\<rparr>"

section \<open>Basic facts\<close>

lemma upd_login_sel [simp]:
  "nt_app (upd_login n f) = f (nt_app n)" "conn_of (upd_login n f) c = conn_of n c" "mgr_get (upd_login n f) i = mgr_get n i"
  "sender_ready (upd_login n f) c \<longleftrightarrow> sender_ready n c" "queued (upd_login n f) c = queued n c"
  "msg_connection (upd_login n f) j = msg_connection n j"
  by (simp_all add: upd_login_def msg_connection_def get_connection_def)

lemma write_tmp_sel [simp]:
  "lg_clients (nt_app (write_tmp n bs)) = clients_of n" "lg_gate_conf_list (nt_app (write_tmp n bs)) = lg_gate_conf_list (nt_app n)"
  "lg_gate_mgr (nt_app (write_tmp n bs)) = lg_gate_mgr (nt_app n)" "lg_gate_net (nt_app (write_tmp n bs)) = lg_gate_net (nt_app n)"
  "lg_tmp (nt_app (write_tmp n bs)) = bs @ drop (length bs) (lg_tmp (nt_app n))" "conn_of (write_tmp n bs) c = conn_of n c"
  "mgr_get (write_tmp n bs) i = mgr_get n i" "sender_ready (write_tmp n bs) c \<longleftrightarrow> sender_ready n c"
  "queued (write_tmp n bs) c = queued n c" "msg_connection (write_tmp n bs) j = msg_connection n j"
  by (simp_all add: write_tmp_def)

lemma am_setAgentState_same:
  "am_key2agents m k = Some a \<Longrightarrow> ag_state a = st \<Longrightarrow> snd (am_setAgentState m k st) = m"
  by (cases m; cases a) (simp add: am_setAgentState_def fun_upd_idem)

text \<open>What \<open>processLogin\<close> does once the account is free: the agent is registered and the server list is sent.\<close>

lemma login_free_account:
  assumes "parse_LoginRequest P (mi_data i) = Some account" "kick_account E n account = Some m" "am_getAgent (clients_of m) account = None"
    and "mgr_get m (mi_conn_id i) = Some c" "mi_param i \<noteq> 0" "sender_ready m c"
    and "bs = ser_LoginResponse P (server_infos (lg_gate_conf_list (nt_app m)))" "length bs < 65531"
  shows "\<exists>n'. processLogin P E n i = Some (sint (mi_len i), n') \<and>
    clients_of n' = snd (am_newAgent \<lparr>lcd_gate_id = 0\<rparr> (clients_of m) account (mi_param i) (mi_conn_id i)) \<and>
    queued n' c = queued m c @ cells (packet (Msg MSGID_S2C_LOGIN_RESPONSE bs)) \<and> (\<forall>d. conn_of n' d = conn_of m d) \<and>
    sender_ready n' c \<and> lg_tmp (nt_app n') = bs @ drop (length bs) (lg_tmp (nt_app m)) \<and> nt_mgr n' = nt_mgr m"
proof -
  let ?a = "verified_agent \<lparr>lcd_gate_id = 0\<rparr> (mi_param i) (mi_conn_id i)"
  let ?m = "snd (am_newAgent \<lparr>lcd_gate_id = 0\<rparr> (clients_of m) account (mi_param i) (mi_conn_id i))"
  let ?n = "upd_login m (\<lambda>g. g\<lparr>lg_clients := ?m\<rparr>)"
  have new: "lcm_newAgent m account i = (Some ?a, ?n)"
    using assms(3) by (simp add: lcm_newAgent_def am_newAgent_def am_getAgent_def Let_def)
  have "snd (am_setAgentState ?m account AGENT_STATE_VERIFIED) = ?m"
    using assms(3) by (intro am_setAgentState_same [of _ _ ?a]) (simp_all add: am_newAgent_def am_getAgent_def map_insert_def Let_def)
  then have st: "upd_login ?n (\<lambda>g. g\<lparr>lg_clients := snd (am_setAgentState (lg_clients g) account AGENT_STATE_VERIFIED)\<rparr>) = ?n"
    by (simp add: upd_login_def)
  have a: "?a\<lparr>ag_state := AGENT_STATE_VERIFIED\<rparr> = ?a" by (simp add: verified_agent_def)
  from agent_send_sent [of ?a "write_tmp ?n bs" c bs MSGID_S2C_LOGIN_RESPONSE] assms(4-6,8) obtain n' where
    n': "agent_conn_send (write_tmp ?n bs) ?a MSGID_S2C_LOGIN_RESPONSE bs = Some (0, n')"
    "sent (write_tmp ?n bs) c (packet (Msg MSGID_S2C_LOGIN_RESPONSE bs)) n'" by auto
  have conf: "lg_gate_conf_list (nt_app ?n) = lg_gate_conf_list (nt_app m)" by simp
  have ok: "serialize (ser_LoginResponse P (server_infos (lg_gate_conf_list (nt_app ?n)))) = Some bs"
    unfolding conf using assms(7,8) by simp
  have run: "processLogin P E n i = Some (sint (mi_len i), n')"
    using n'(1) ok by (simp add: processLogin_def assms(1,2) new st a del: upd_login_sel)
  have "nt_mgr (write_tmp ?n bs) = nt_mgr m" by (simp add: write_tmp_def upd_login_def)
  then show ?thesis using run sentD [OF n'(2)] assms(6) by auto
qed

section \<open>One login per account\<close>

text \<open>A live connection of a client whose disconnect event reaches \<open>ClientHandler::onDisconnect\<close>.\<close>

definition client_conn :: "login \<Rightarrow> int \<Rightarrow> nat \<Rightarrow> bool" where
  "client_conn n cid c \<longleftrightarrow> mgr_get n cid = Some c \<and> tc_id (conn_of n c) = cid \<and> sender_ready n c \<and> tc_event_handler (conn_of n c) \<noteq> 0 \<and>
     eh_handlers (nt_events n (tc_event_handler (conn_of n c))) JMY_EVENT_DISCONNECT = LS_CLIENT_ON_DISCONNECT"

text \<open>Kicking runs the disconnect handler, which removes the agent; the second removal finds nothing.\<close>

lemma kick_account_live:
  assumes ok: "am_ok (clients_of n)" and a: "am_getAgent (clients_of n) account = Some a" "ag_mgr a \<noteq> 0"
    and c: "client_conn n (ag_conn_id a) c"
  shows "kick_account ls_disconnect_env n account =
    Some (upd_login (closing n c) (\<lambda>g. g\<lparr>lg_clients := snd (am_deleteAgent (lg_clients g) account)\<rparr>))"
proof -
  let ?n = "upd_login (closing n c) (\<lambda>g. g\<lparr>lg_clients := snd (am_deleteAgent (lg_clients g) account)\<rparr>)"
  have key: "am_id2keys (clients_of n) (ag_conn_id a) = Some account"
    using am_okD(2) [OF ok] a(1) by (simp add: uses_conn_def am_getAgent_def)
  have conn: "tc_state (conn_of n c) = JMY_CONN_STATE_CONNECTED" "mgr_get n (ag_conn_id a) = Some c" "tc_id (conn_of n c) = ag_conn_id a"
    using c by (simp_all add: client_conn_def sender_ready_def)
  have fc: "force_close ls_disconnect_env n c = map_option snd (ls_client_onDisconnect (closing n c)
      \<lparr>ei_event_id = JMY_EVENT_DISCONNECT, ei_conn_id = ag_conn_id a, ei_param = MGR_PTR, ei_param_l = 0\<rparr>)"
    using force_close_closing [of n c LS_CLIENT_ON_DISCONNECT ls_disconnect_env] c conn by (simp add: client_conn_def ls_disconnect_env_def)
  have "ls_client_onDisconnect (closing n c)
      \<lparr>ei_event_id = JMY_EVENT_DISCONNECT, ei_conn_id = ag_conn_id a, ei_param = MGR_PTR, ei_param_l = 0\<rparr> = Some (0, ?n)"
    using key a(1) by (simp add: ls_client_onDisconnect_def am_getAgentByConnId_def lcm_deleteAgentByConnId_def am_deleteAgentByConnId_def
        upd_login_def split: prod.split)
  with fc have "agent_force_close ls_disconnect_env n a = Some (0, ?n)"
    using a(2) conn(2) by (simp add: agent_force_close_def)
  moreover have "am_getAgent (snd (am_deleteAgent (clients_of n) account)) account = None"
    using am_delete_ok [OF ok a(1)] by auto
  then have "lcm_deleteAgent ?n account = (False, ?n)"
    by (simp add: lcm_deleteAgent_def am_deleteAgent_def [of "snd _"]) (simp add: upd_login_def)
  ultimately show ?thesis using a(1) by (simp add: kick_account_def)
qed

text \<open>
  C12. A second login of an account replaces the first. When a client logs in with an account that is
  logged in on another live connection, the old connection is closed, its disconnect handler runs,
  and afterwards the account has exactly one agent, on the new connection; all other agents are
  unchanged, the connection index is exact, and the new connection gets the list of servers.
\<close>

theorem login_replaces_previous:
  assumes "parse_LoginRequest P (mi_data i) = Some account" "am_ok (clients_of n)" "mi_param i \<noteq> 0"
    and "am_getAgent (clients_of n) account = Some a" "ag_mgr a \<noteq> 0" "client_conn n (ag_conn_id a) c"
    and "client_conn n (mi_conn_id i) c'" "tc_buffer (conn_of n c') \<noteq> tc_buffer (conn_of n c)" "am_getKeyByConnId (clients_of n) (mi_conn_id i) = None"
    and "bs = ser_LoginResponse P (server_infos (lg_gate_conf_list (nt_app n)))" "length bs < 65531"
  shows "\<exists>n'. processLogin P ls_disconnect_env n i = Some (sint (mi_len i), n') \<and>
    tc_state (conn_of n' c) = JMY_CONN_STATE_DISCONNECTED \<and> am_ok (clients_of n') \<and>
    am_getAgent (clients_of n') = (am_getAgent (clients_of n))(account \<mapsto> verified_agent \<lparr>lcd_gate_id = 0\<rparr> (mi_param i) (mi_conn_id i)) \<and>
    queued n' c' = queued n c' @ cells (packet (Msg MSGID_S2C_LOGIN_RESPONSE bs))"
proof -
  let ?m = "upd_login (closing n c) (\<lambda>g. g\<lparr>lg_clients := snd (am_deleteAgent (lg_clients g) account)\<rparr>)"
  from am_delete_ok [OF assms(2,4)] have del: "am_ok (clients_of ?m)"
    "am_getAgent (clients_of ?m) = (am_getAgent (clients_of n))(account := None)" by auto
  have free: "\<forall>k. \<not> uses_conn (am_getAgent (clients_of n)) (mi_conn_id i) k"
    using am_okD(2) [OF assms(2), of "mi_conn_id i"] assms(9) by (simp add: am_getKeyByConnId_def am_getAgent_eq)
  have "c' \<noteq> c" using assms(8) by auto
  then have other: "sender_ready (closing n c) c' \<longleftrightarrow> sender_ready n c'" "queued (closing n c) c' = queued n c'"
    using closing_other [OF _ assms(8)] by auto
  obtain n' where n': "processLogin P ls_disconnect_env n i = Some (sint (mi_len i), n')"
    "clients_of n' = snd (am_newAgent \<lparr>lcd_gate_id = 0\<rparr> (clients_of ?m) account (mi_param i) (mi_conn_id i))"
    "queued n' c' = queued ?m c' @ cells (packet (Msg MSGID_S2C_LOGIN_RESPONSE bs))" "\<forall>d. conn_of n' d = conn_of ?m d"
    using login_free_account [OF assms(1) kick_account_live [OF assms(2,4-6)], of c' bs] del(2) assms(3,7,10,11) other
    by (auto simp: client_conn_def)
  from am_new_ok [OF del(1), of account "mi_conn_id i" "\<lparr>lcd_gate_id = 0\<rparr>" "mi_param i"] del(2) free
  have "am_ok (clients_of n')"
    "am_getAgent (clients_of n') = (am_getAgent (clients_of n))(account \<mapsto> verified_agent \<lparr>lcd_gate_id = 0\<rparr> (mi_param i) (mi_conn_id i))"
    unfolding n'(2) by auto
  then show ?thesis using n'(1,3,4) other(2) by (auto simp: closing_conn(1))
qed

text \<open>
  A connection that logs in with a second account leaves an agent behind. The second login
  succeeds, but the connection still stands for the first account; when it closes, the first agent is
  removed and the second one stays, counted against the limit of the server.
\<close>

theorem second_account_outlives_connection:
  assumes "parse_LoginRequest P (mi_data i) = Some b" "am_ok (clients_of n)" "mi_param i \<noteq> 0" "a \<noteq> b"
    and "am_getKeyByConnId (clients_of n) (mi_conn_id i) = Some a" "am_getAgent (clients_of n) b = None"
    and "client_conn n (mi_conn_id i) c" "ei_conn_id e = mi_conn_id i"
    and "length (ser_LoginResponse P (server_infos (lg_gate_conf_list (nt_app n)))) < 65531"
  shows "\<exists>n1 n2. processLogin P E n i = Some (sint (mi_len i), n1) \<and> am_getKeyByConnId (clients_of n1) (mi_conn_id i) = Some a \<and>
    ls_client_onDisconnect n1 e = Some (0, n2) \<and> am_getAgent (clients_of n2) a = None \<and> am_getAgent (clients_of n2) b \<noteq> None"
proof -
  let ?new = "am_newAgent \<lparr>lcd_gate_id = 0\<rparr> (clients_of n) b (mi_param i) (mi_conn_id i)"
  have kick: "kick_account E n b = Some n" using assms(6) by (simp add: kick_account_def)
  from login_free_account [OF assms(1) kick assms(6) _ assms(3) _ HOL.refl assms(9)] assms(7) obtain n1 where
    n1: "processLogin P E n i = Some (sint (mi_len i), n1)" "clients_of n1 = snd ?new"
    by (auto simp: client_conn_def)
  have k: "am_key2agents (clients_of n) b = None" "am_id2keys (clients_of n) (mi_conn_id i) = Some a"
    using assms(5,6) by (simp_all add: am_getAgent_def am_getKeyByConnId_def)
  obtain x where x: "am_key2agents (clients_of n) a = Some x"
    using am_okD(2) [OF assms(2), of "mi_conn_id i" a] k(2) by (auto simp: uses_conn_def)
  let ?m = "snd ?new"
  have m: "am_id2keys ?m (mi_conn_id i) = Some a" "am_key2agents ?m a = Some x" "am_key2agents ?m b \<noteq> None"
    using k x assms(4) by (auto simp: am_newAgent_def map_insert_def Let_def)
  have "am_getAgent (snd (am_deleteAgent ?m a)) a = None" "am_getAgent (snd (am_deleteAgent ?m a)) b \<noteq> None"
    using m(2,3) assms(4) by (auto simp: am_deleteAgent_def am_getAgent_def Let_def split: option.splits)
  then show ?thesis
    using n1 m assms(8)
    by (auto simp: am_getKeyByConnId_def ls_client_onDisconnect_def am_getAgentByConnId_def am_getAgent_def lcm_deleteAgentByConnId_def
        am_deleteAgentByConnId_def split: prod.split)
qed

section \<open>What an error reply contains\<close>

lemma select_server_ok:
  assumes "parse_SelectServerRequest P (mi_data i) = Some gate_id" "ap_getAgent (lg_gate_mgr (nt_app n)) gate_id = Some gate"
    and "ag_state gate = AGENT_STATE_VERIFIED" "ag_mgr gate \<noteq> 0" "mgr_get (lg_gate_net (nt_app n)) (ag_conn_id gate) = Some g"
    and "sender_ready (lg_gate_net (nt_app n)) g" "am_getKeyByConnId (clients_of n) (mi_conn_id i) = Some account"
    and "length (ser_SelectedServerNotify P account) < 65531"
  shows "\<exists>n' m. processSelectServer P n i = Some (sint (mi_len i), n') \<and> n' = n\<lparr>nt_app := nt_app n'\<rparr> \<and>
    nt_app n' = (nt_app (write_tmp n (ser_SelectedServerNotify P account)))
      \<lparr>lg_gate_net := m, lg_clients := am_setData (clients_of n) account (\<lambda>d. d\<lparr>lcd_gate_id := gate_id\<rparr>)\<rparr> \<and>
    sent (lg_gate_net (nt_app n)) g (packet (Msg MSGID_LS2GT_SELECTED_SERVER_NOTIFY (ser_SelectedServerNotify P account))) m"
proof -
  from agent_send_sent [OF assms(3-6,8), of MSGID_LS2GT_SELECTED_SERVER_NOTIFY] obtain m where
    m: "agent_conn_send (lg_gate_net (nt_app n)) gate MSGID_LS2GT_SELECTED_SERVER_NOTIFY (ser_SelectedServerNotify P account) = Some (0, m)"
    "sent (lg_gate_net (nt_app n)) g (packet (Msg MSGID_LS2GT_SELECTED_SERVER_NOTIFY (ser_SelectedServerNotify P account))) m" by blast
  show ?thesis
    using assms(1,2,7,8) m by (auto simp: processSelectServer_def upd_login_def write_tmp_def)
qed

text \<open>
  An error reply does not carry the error. After a client has selected a server, a client whose
  login request cannot be parsed is sent, under the id of a login response, the first bytes of the
  message that named the account of the other client, whatever error code was meant.
\<close>

theorem login_error_repeats_last_message:
  assumes "parse_SelectServerRequest P (mi_data i) = Some gate_id" "ap_getAgent (lg_gate_mgr (nt_app n)) gate_id = Some gate"
    and "ag_state gate = AGENT_STATE_VERIFIED" "ag_mgr gate \<noteq> 0" "mgr_get (lg_gate_net (nt_app n)) (ag_conn_id gate) = Some g"
    and "sender_ready (lg_gate_net (nt_app n)) g" "am_getKeyByConnId (clients_of n) (mi_conn_id i) = Some account"
    and "length (ser_SelectedServerNotify P account) < 65531"
    and "parse_LoginRequest P (mi_data j) = None" "msg_connection n j = Some c" "sender_ready n c"
    and "k = length (ser_MsgError P PROTO_ERROR_LOGIN_DATA_INVALID)" "k \<le> length (ser_SelectedServerNotify P account)"
  shows "\<exists>n1 n2. processSelectServer P n i = Some (sint (mi_len i), n1) \<and> processLogin P E n1 j = Some (- 1, n2) \<and>
    queued n2 c = queued n c @ cells (packet (Msg MSGID_S2C_LOGIN_RESPONSE (take k (ser_SelectedServerNotify P account))))"
proof -
  let ?bs = "ser_SelectedServerNotify P account"
  from select_server_ok [OF assms(1-8)] obtain n1 where n1: "processSelectServer P n i = Some (sint (mi_len i), n1)"
    "n1 = n\<lparr>nt_app := nt_app n1\<rparr>" "lg_tmp (nt_app n1) = ?bs @ drop (length ?bs) (lg_tmp (nt_app n))" by auto
  have c: "sender_ready n1 c" "queued n1 c = queued n c" "msg_connection n1 j = Some c"
    using assms(10,11) by (subst n1(2), simp add: msg_connection_def get_connection_def split: if_splits)+
  have tmp: "take k (lg_tmp (nt_app n1)) = take k ?bs" "k \<le> length (lg_tmp (nt_app n1))" using n1(3) assms(13) by simp_all
  have "length (take k ?bs) < 65531" by (rule le_less_trans [OF _ assms(8)]) simp
  from send_sent [OF c(1) this, of MSGID_S2C_LOGIN_RESPONSE] obtain n2 where
    "conn_send n1 c MSGID_S2C_LOGIN_RESPONSE (take k ?bs) = Some (int (length (take k ?bs)), n2)"
    "sent n1 c (packet (Msg MSGID_S2C_LOGIN_RESPONSE (take k ?bs))) n2" by auto
  then have "processLogin P E n1 j = Some (- 1, n2)" "queued n2 c = queued n1 c @ cells (packet (Msg MSGID_S2C_LOGIN_RESPONSE (take k ?bs)))"
    using assms(9,12) c(3) tmp sentD(1) by (auto simp: processLogin_def ls_send_error_def)
  then show ?thesis using n1(1) c(2) by auto
qed

section \<open>A login server with two clients\<close>

text \<open>A codec whose texts are single bytes, and a server with \<open>joe\<close> on connection 3 and a second client on 4.\<close>

definition sample_login_codec :: login_codec where
  "sample_login_codec = \<lparr>parse_LoginRequest = (\<lambda>d. if d = [] then None else Some ''joe''), parse_SelectServerRequest = (\<lambda>_. Some 20001),
     parse_EchoRequest = (\<lambda>_. None), parse_ConnectLoginRequest = (\<lambda>_. Some (20001, ''ip'', 7)),
     parse_SelectedServerResponse = (\<lambda>_. Some (''joe'', ''code'')), parse_LoginConnectConfigResponse = (\<lambda>_. Some []),
     parse_GateConfListNotify = (\<lambda>_. Some []), ser_MsgError = (\<lambda>e. [8, word_of_int e]), ser_LoginResponse = (\<lambda>_. [10]),
     ser_SelectedServerNotify = (\<lambda>_. [10, 3, 106, 111, 101]), ser_EchoResponse = (\<lambda>_. []), ser_ConnectLoginResponse = (\<lambda>_. [8]),
     ser_SelectServerResponse = (\<lambda>_ _ _. [18]), ser_LoginConnectConfigRequest = (\<lambda>_ _ _. [])\<rparr>"

definition two_client_login :: login where
  "two_client_login = two_lines ((new_login_state (connected_net JMY_CONN_TYPE_PASSIVE 7 ()) (connected_net JMY_CONN_TYPE_ACTIVE 7 ()))
     \<lparr>lg_clients := snd (am_newAgent \<lparr>lcd_gate_id = 0\<rparr> new_agent_manager ''joe'' 1 3),
      lg_gate_mgr := snd (ap_newAgent \<lparr>gd_id = 0, gd_ip = [], gd_port = 0\<rparr> (new_agent_manager_perf GATE_SERVER_MAX_ID GATE_SERVER_MIN_ID) 20001 1 3)\<rparr>)"

lemma two_client_login_facts:
  "clients_of two_client_login = snd (am_newAgent \<lparr>lcd_gate_id = 0\<rparr> new_agent_manager ''joe'' 1 3)"
  "client_conn two_client_login 3 1" "client_conn two_client_login 4 2"
  "tc_buffer (conn_of two_client_login 2) \<noteq> tc_buffer (conn_of two_client_login 1)"
  "ap_getAgent (lg_gate_mgr (nt_app two_client_login)) 20001 = Some (verified_agent \<lparr>gd_id = 0, gd_ip = [], gd_port = 0\<rparr> 1 3)"
  "lg_gate_net (nt_app two_client_login) = connected_net JMY_CONN_TYPE_PASSIVE 7 ()"
  "lg_gate_conf_list (nt_app two_client_login) = []"
  by (simp_all add: two_client_login_def client_conn_def two_lines_facts two_lines_facts [simplified] new_login_state_def
      ap_newAgent_def ap_getAgent_def ap_outside_def new_agent_manager_perf_def Let_def)

lemma joe_agent:
  "am_ok (clients_of two_client_login)" "am_getAgent (clients_of two_client_login) ''joe'' = Some (verified_agent \<lparr>lcd_gate_id = 0\<rparr> 1 3)"
  "am_getKeyByConnId (clients_of two_client_login) 3 = Some ''joe''" "am_getKeyByConnId (clients_of two_client_login) 4 = None"
  "am_getAgent (clients_of two_client_login) ''ann'' = None"
  unfolding two_client_login_facts(1)
  by (auto simp: am_ok_def am_newAgent_def new_agent_manager_def am_getAgent_def am_getKeyByConnId_def map_insert_def uses_conn_def Let_def)

theorem login_replaces_previous_witness:
  "\<exists>n'. processLogin sample_login_codec ls_disconnect_env two_client_login (received_msg 0 10000 [1] 4 1) = Some (1, n') \<and>
    tc_state (conn_of n' 1) = JMY_CONN_STATE_DISCONNECTED \<and>
    am_getAgent (clients_of n') ''joe'' = Some (verified_agent \<lparr>lcd_gate_id = 0\<rparr> 1 4)"
proof -
  let ?i = "received_msg 0 10000 [1] 4 1" and ?a = "verified_agent \<lparr>lcd_gate_id = 0\<rparr> 1 3"
  have i: "parse_LoginRequest sample_login_codec (mi_data ?i) = Some ''joe''"
    "am_getKeyByConnId (clients_of two_client_login) (mi_conn_id ?i) = None" "client_conn two_client_login (mi_conn_id ?i) 2"
    "mi_param ?i \<noteq> 0" "ag_mgr ?a \<noteq> 0" "client_conn two_client_login (ag_conn_id ?a) 1"
    using joe_agent(4) two_client_login_facts(2,3) by (simp_all add: sample_login_codec_def)
  have bs: "length (ser_LoginResponse sample_login_codec (server_infos (lg_gate_conf_list (nt_app two_client_login)))) < 65531"
    by (simp add: sample_login_codec_def)
  obtain n' where "processLogin sample_login_codec ls_disconnect_env two_client_login ?i = Some (sint (mi_len ?i), n')"
    "tc_state (conn_of n' 1) = JMY_CONN_STATE_DISCONNECTED"
    "am_getAgent (clients_of n') = (am_getAgent (clients_of two_client_login))(''joe'' \<mapsto> verified_agent \<lparr>lcd_gate_id = 0\<rparr> (mi_param ?i) (mi_conn_id ?i))"
    using login_replaces_previous [OF i(1) joe_agent(1) i(4) joe_agent(2) i(5,6,3) two_client_login_facts(4) i(2) HOL.refl bs] by blast
  then show ?thesis by simp
qed

theorem second_account_outlives_connection_witness:
  "\<exists>n1 n2. processLogin (sample_login_codec\<lparr>parse_LoginRequest := \<lambda>_. Some ''ann''\<rparr>) ls_disconnect_env two_client_login (received_msg 0 10000 [1] 3 1) =
      Some (1, n1) \<and> ls_client_onDisconnect n1 \<lparr>ei_event_id = 2, ei_conn_id = 3, ei_param = 1, ei_param_l = 0\<rparr> = Some (0, n2) \<and>
    am_getAgent (clients_of n2) ''ann'' \<noteq> None"
proof -
  let ?P = "sample_login_codec\<lparr>parse_LoginRequest := \<lambda>_. Some ''ann''\<rparr>" and ?i = "received_msg 0 10000 [1] 3 1"
  have i: "parse_LoginRequest ?P (mi_data ?i) = Some ''ann''" "am_getKeyByConnId (clients_of two_client_login) (mi_conn_id ?i) = Some ''joe''"
    "client_conn two_client_login (mi_conn_id ?i) 1"
    using joe_agent(3) two_client_login_facts(2) by simp_all
  from second_account_outlives_connection [OF i(1) joe_agent(1) _ _ i(2) joe_agent(5) i(3),
      of "\<lparr>ei_event_id = 2, ei_conn_id = 3, ei_param = 1, ei_param_l = 0\<rparr>" ls_disconnect_env]
  show ?thesis by (simp add: sample_login_codec_def) blast
qed

theorem login_error_repeats_last_message_witness:
  "\<exists>n1 n2. processSelectServer sample_login_codec two_client_login (received_msg 0 10002 [1] 3 1) = Some (1, n1) \<and>
    processLogin sample_login_codec ls_disconnect_env n1 (received_msg 0 10000 [] 4 1) = Some (- 1, n2) \<and>
    queued n2 2 = queued two_client_login 2 @ cells (packet (Msg 10001 [10, 3]))"
proof -
  have c: "sender_ready two_client_login 2" "msg_connection two_client_login (received_msg 0 10000 [] 4 1) = Some 2"
    using two_client_login_facts(3) by (simp_all add: client_conn_def msg_connection_def get_connection_def)
  have g: "mgr_get (lg_gate_net (nt_app two_client_login)) 3 = Some 1" "sender_ready (lg_gate_net (nt_app two_client_login)) 1"
    unfolding two_client_login_facts(6) by (rule connected_net_get, rule connected_sender_ready)
  from login_error_repeats_last_message [OF _ two_client_login_facts(5) _ _ _ g(2) _ _ _ c(2,1) HOL.refl,
      of sample_login_codec "received_msg 0 10002 [1] 3 1" "''joe''" ls_disconnect_env] g(1) joe_agent(3)
  show ?thesis by (simp add: sample_login_codec_def)
qed

end
