(* ===== verification/Json_Value.thy ===== *)
theory Json_Value
  imports Prelude
begin

text \<open>
  JSON documents as rapidjson delivers them, and the reading of a file into the text that is parsed. \<open>JInt\<close> is a number for which
  \<open>IsInt\<close> holds, \<open>JOther\<close> any other number. Looking for a member of a value that is no object fails an assertion of
  rapidjson. Parsing itself is outside the sources and a parameter of the loaders.
\<close>

datatype json_value = JNull | JBool bool | JInt int | JString string | JArray "json_value list" | JObject "(string \<times> json_value) list" | JOther

type_synonym json_object = "(string \<times> json_value) list"

definition find_member :: "json_value \<Rightarrow> string \<Rightarrow> json_value option option" where
  "find_member v key = (case v of JObject ms \<Rightarrow> Some (map_of ms key) | _ \<Rightarrow> None)"

lemma find_member_object [simp]: "find_member (JObject ms) key = Some (map_of ms key)"
  by (simp add: find_member_def)

text \<open>\<open>GetString\<close> gives a C string, which ends at the first null character.\<close>

fun get_string :: "json_value \<Rightarrow> string option" where
  "get_string (JString s) = Some (cstr s)"
| "get_string _ = None"

fun get_int :: "json_value \<Rightarrow> int option" where
  "get_int (JInt i) = Some i"
| "get_int _ = None"

fun get_bool :: "json_value \<Rightarrow> bool option" where
  "get_bool (JBool b) = Some b"
| "get_bool _ = None"

text \<open>
  A file is read by lines: \<open>getline\<close> takes the text up to a newline and fails when nothing is left, and every line is appended with a
  newline.
\<close>

definition getline :: "string \<Rightarrow> (string \<times> string) option" where
  "getline s = (if s = [] then None else Some (takeWhile (\<lambda>c. c \<noteq> CHR 0x0A) s, drop 1 (dropWhile (\<lambda>c. c \<noteq> CHR 0x0A) s)))"

lemma getline_shorter: "getline s = Some (l, r) \<Longrightarrow> length r < length s"
  using length_dropWhile_le [of "\<lambda>c. c \<noteq> CHR 0x0A" s] by (cases s) (auto simp: getline_def split: if_splits)

function read_lines :: "string \<Rightarrow> string" where
  "read_lines s = (case getline s of None \<Rightarrow> [] | Some (l, r) \<Rightarrow> l @ CHR 0x0A # read_lines r)"
  by pat_completeness auto

termination by (relation "measure length") (auto dest: getline_shorter)

declare read_lines.simps [simp del]

text \<open>So the text is the contents of the file, with a newline added when the last line has none.\<close>

lemma read_lines_eq: "read_lines s = (if s = [] \<or> last s = CHR 0x0A then s else s @ [CHR 0x0A])"
proof (induction s rule: read_lines.induct)
  case (1 s)
  let ?l = "takeWhile (\<lambda>c. c \<noteq> CHR 0x0A) s" and ?d = "dropWhile (\<lambda>c. c \<noteq> CHR 0x0A) s"
  show ?case
  proof (cases "s = []")
    case True
    then show ?thesis by (simp add: read_lines.simps getline_def)
  next
    case s: False
    then have g: "getline s = Some (?l, drop 1 ?d)" by (simp add: getline_def)
    have r: "read_lines s = ?l @ CHR 0x0A # read_lines (drop 1 ?d)" by (simp add: read_lines.simps [of s] g del: drop_Suc_Cons)
    have ih: "read_lines (drop 1 ?d) =
        (if drop 1 ?d = [] \<or> last (drop 1 ?d) = CHR 0x0A then drop 1 ?d else drop 1 ?d @ [CHR 0x0A])"
      by (rule 1 [OF g HOL.refl])
    show ?thesis
    proof (cases ?d)
      case Nil
      then have "?l = s" "CHR 0x0A \<notin> set s" by (auto simp: dropWhile_eq_Nil_conv takeWhile_eq_all_conv)
      with s r ih Nil show ?thesis by (metis append_Nil2 drop_Nil last_in_set)
    next
      case (Cons c d)
      then have "c = CHR 0x0A" using hd_dropWhile [of "\<lambda>c. c \<noteq> CHR 0x0A" s] by auto
      with Cons have "s = ?l @ CHR 0x0A # d" using takeWhile_dropWhile_id [of "\<lambda>c. c \<noteq> CHR 0x0A" s] by simp
      with s r ih Cons show ?thesis
        by simp (metis append_Cons append_Nil append_assoc last.simps last_appendR list.distinct(1))
    qed
  qed
qed

end
