(* ===== verification/Config_Server.thy ===== *)
theory Config_Server
  imports Server_Common Json_Value
begin

text \<open>
  The config server of \<open>config_server\<close>: \<open>ConfGateList\<close>, the list of gate servers that is read from a JSON
  file, and \<open>ConnHandler\<close>, with which login servers and gate servers register. Parsing JSON is done by
  rapidjson: the model starts from the parsed document. The classes that \<open>protoc\<close> generates are the
  parameter \<open>config_codec\<close>. A \<open>std::set\<close> of connection ids is the increasing list of its elements.
\<close>

section \<open>ConfGateList\<close>

abbreviation (input) MAX_GATE_SERVER_COUNT :: nat where "MAX_GATE_SERVER_COUNT \<equiv> 99"

text \<open>What \<open>loadJson\<close> finds at a path: no readable file, no valid JSON, no array, or an array of objects.\<close>

datatype json_file = NoFile | BadJson | NotArray | JsonArray "json_object list"

text \<open>
  The entries of the configuration are objects of their own, shared by the array and the index; an
  address without an object was never allocated or is freed, and reading it is undefined.
\<close>

record ConfGateList =
  cg_jsonpath :: string
  cg_gate_array :: "addr list"
  cg_objects :: "addr \<Rightarrow> gate_conf option"
  cg_id2gate_map :: "int \<Rightarrow> addr option"
  cg_gate_count :: nat

text \<open>The constructor leaves the array as \<open>operator new\<close> delivered it.\<close>

definition new_conf_gate_list :: "addr list \<Rightarrow> ConfGateList" where
  "new_conf_gate_list memory = \<lparr>cg_jsonpath = [], cg_gate_array = memory, cg_objects = Map.empty, cg_id2gate_map = Map.empty, cg_gate_count = 0\<rparr>"

text \<open>Reading a member: an absent member is an assertion failure of rapidjson.\<close>

definition string_member :: "json_object \<Rightarrow> string \<Rightarrow> string option option" where
  "string_member a key = (case map_of a key of None \<Rightarrow> None | Some (JString s) \<Rightarrow> Some (Some s) | Some _ \<Rightarrow> Some None)"

definition int_member :: "json_object \<Rightarrow> string \<Rightarrow> int option option" where
  "int_member a key = (case map_of a key of None \<Rightarrow> None | Some (JInt k) \<Rightarrow> Some (Some k) | Some _ \<Rightarrow> Some None)"

definition optional_member :: "json_object \<Rightarrow> string \<Rightarrow> string \<Rightarrow> string option" where
  "optional_member a key old = (case map_of a key of None \<Rightarrow> Some old | Some (JString s) \<Rightarrow> Some s | Some _ \<Rightarrow> None)"

text \<open>
  One turn of the loop up to the new entry. The result is \<open>Some None\<close> when \<open>loadJson\<close> returns false. The
  platform and channel code keep the value of the entry before when an entry has none.
\<close>

definition read_entry :: "json_object \<Rightarrow> string \<times> string \<Rightarrow> gate_conf option option" where
  "read_entry a = (\<lambda>(platform, channel_code). do {
     name \<leftarrow> string_member a ''server_name'';
     case name of None \<Rightarrow> Some None | Some name \<Rightarrow> do {
     server_id \<leftarrow> int_member a ''server_id'';
     case server_id of None \<Rightarrow> Some None | Some server_id \<Rightarrow> do {
     ip \<leftarrow> string_member a ''server_ip'';
     case ip of None \<Rightarrow> Some None | Some ip \<Rightarrow> do {
     port \<leftarrow> int_member a ''server_port'';
     case port of None \<Rightarrow> Some None | Some port \<Rightarrow>
     (case optional_member a ''platform'' platform of
        None \<Rightarrow> Some None
      | Some platform \<Rightarrow>
          (case optional_member a ''channel_code'' channel_code of
             None \<Rightarrow> Some None
           | Some channel_code \<Rightarrow>
               Some (Some \<lparr>gf_name = name, gf_id = server_id, gf_ip = ip, gf_port = sint (word_of_int port :: u16), gf_platform = platform,
                 gf_channel_code = channel_code, gf_is_busy = False, gf_is_maintenance = False\<rparr>)))
   }}}})"

text \<open>
  The object the entry is written to: a free place of the array gets a new object, of which \<open>alloc\<close>
  gives the address, and is counted; a place that is already filled is written over and not counted.
\<close>

definition store_entry :: "(nat \<Rightarrow> addr) \<Rightarrow> ConfGateList \<Rightarrow> gate_conf \<Rightarrow> ConfGateList option" where
  "store_entry alloc c d = do {
     require (cg_gate_count c < length (cg_gate_array c));
     let p = cg_gate_array c ! cg_gate_count c;
     (p, d, c) \<leftarrow>
       (if p = NULL_PTR then
          Some (alloc (cg_gate_count c), d,
            c\<lparr>cg_gate_array := (cg_gate_array c)[cg_gate_count c := alloc (cg_gate_count c)], cg_gate_count := cg_gate_count c + 1\<rparr>)
        else do {
          old \<leftarrow> cg_objects c p;
          Some (p, d\<lparr>gf_is_busy := gf_is_busy old, gf_is_maintenance := gf_is_maintenance old\<rparr>, c)
        });
     Some (c\<lparr>cg_objects := (cg_objects c)(p \<mapsto> d), cg_id2gate_map := map_insert (cg_id2gate_map c) (gf_id d) p\<rparr>)
   }"

fun load_entries :: "(nat \<Rightarrow> addr) \<Rightarrow> json_object list \<Rightarrow> string \<times> string \<Rightarrow> ConfGateList \<Rightarrow> (bool \<times> ConfGateList) option" where
  "load_entries alloc [] pc c = Some (True, c)"
| "load_entries alloc (a # as) pc c = do {
     d \<leftarrow> read_entry a pc;
     case d of
       None \<Rightarrow> Some (False, c)
     | Some d \<Rightarrow> do {
         c \<leftarrow> store_entry alloc c d;
         load_entries alloc as (gf_platform d, gf_channel_code d) c
       }
   }"

definition loadJson :: "(nat \<Rightarrow> addr) \<Rightarrow> ConfGateList \<Rightarrow> json_file \<Rightarrow> (bool \<times> ConfGateList) option" where
  "loadJson alloc c file =
     (case file of
        NoFile \<Rightarrow> Some (False, c)
      | BadJson \<Rightarrow> Some (False, c)
      | NotArray \<Rightarrow> Some (False, c)
      | JsonArray as \<Rightarrow> load_entries alloc as ([], []) c)"

definition cg_reset :: "ConfGateList \<Rightarrow> ConfGateList" where
  "cg_reset c = c\<lparr>cg_gate_count := 0\<rparr>"

text \<open>\<open>files\<close> is what the file system has at a path.\<close>

definition cg_reload :: "(nat \<Rightarrow> addr) \<Rightarrow> (string \<Rightarrow> json_file) \<Rightarrow> ConfGateList \<Rightarrow> (bool \<times> ConfGateList) option" where
  "cg_reload alloc files c = loadJson alloc (cg_reset c) (files (cg_jsonpath c))"

definition cg_clear :: "ConfGateList \<Rightarrow> ConfGateList option" where
  "cg_clear c = do {
     require (cg_gate_count c \<le> length (cg_gate_array c));
     let freed = set (take (cg_gate_count c) (cg_gate_array c));
     Some (c\<lparr>cg_objects := (\<lambda>p. if p \<in> freed then None else cg_objects c p), cg_gate_count := 0,
       cg_gate_array := replicate (cg_gate_count c) NULL_PTR @ drop (cg_gate_count c) (cg_gate_array c)\<rparr>)
   }"

definition cg_getSize :: "ConfGateList \<Rightarrow> nat" where
  "cg_getSize c = cg_gate_count c"

text \<open>A null pointer is \<open>Some None\<close>; an index below 0 is outside the array.\<close>

definition cg_get :: "ConfGateList \<Rightarrow> int \<Rightarrow> gate_conf option option" where
  "cg_get c index =
     (if index \<ge> int (cg_gate_count c) then Some None
      else do {
        require (0 \<le> index \<and> nat index < length (cg_gate_array c));
        let p = cg_gate_array c ! nat index;
        if p = NULL_PTR then Some None else map_option Some (cg_objects c p)
      })"

definition cg_getById :: "ConfGateList \<Rightarrow> int \<Rightarrow> gate_conf option option" where
  "cg_getById c i = (case cg_id2gate_map c i of None \<Rightarrow> Some None | Some p \<Rightarrow> map_option Some (cg_objects c p))"

section \<open>ConnHandler\<close>

abbreviation (input) MSGID_CS2GT_CONNECT_CONFIG_RESPONSE :: i32 where "MSGID_CS2GT_CONNECT_CONFIG_RESPONSE \<equiv> 20101"
abbreviation (input) MSGID_CS2GT_NEW_LOGIN_NOTIFY :: i32 where "MSGID_CS2GT_NEW_LOGIN_NOTIFY \<equiv> 20102"
abbreviation (input) MSGID_CS2GT_REMOVE_LOGIN_NOTIFY :: i32 where "MSGID_CS2GT_REMOVE_LOGIN_NOTIFY \<equiv> 20103"
abbreviation (input) MSGID_CS2LS_CONNECT_CONFIG_RESPONSE :: i32 where "MSGID_CS2LS_CONNECT_CONFIG_RESPONSE \<equiv> 20111"

text \<open>\<open>LoginAgentData\<close> and \<open>GateAgentData\<close> have the same members.\<close>

record agent_data =
  ad_id :: int
  ad_ip :: string
  ad_port :: u16

text \<open>\<open>gate_id_of\<close> is what \<open>gate_id()\<close> returns after \<open>ParseFromArray\<close>, whose result is not looked at.\<close>

record config_codec =
  gate_id_of :: "cell list \<Rightarrow> int"
  parse_LoginConnectRequest :: "cell list \<Rightarrow> (int \<times> string \<times> int) option"
  ser_GateConnectResponse :: "(string \<times> int \<times> int) list \<Rightarrow> u8 list"
  ser_LoginConnectResponse :: "gate_conf list \<Rightarrow> u8 list"
  ser_NewLoginNotify :: "int \<Rightarrow> string \<Rightarrow> int \<Rightarrow> u8 list"
  ser_RemoveLoginNotify :: "int \<Rightarrow> u8 list"

record config_state =
  cs_login_mgr :: "(int, agent_data) AgentManager"
  cs_gate_mgr :: "(int, agent_data) AgentManager"
  cs_conn2agent_map :: "int \<Rightarrow> int option"
  cs_login_conn_id_set :: "int list"
  cs_gate_conn_id_set :: "int list"
  cs_gate_list :: ConfGateList

type_synonym config = "config_state net"

definition new_config_state :: "ConfGateList \<Rightarrow> config_state" where
  "new_config_state c = \<lparr>cs_login_mgr = new_agent_manager, cs_gate_mgr = new_agent_manager, cs_conn2agent_map = Map.empty,
     cs_login_conn_id_set = [], cs_gate_conn_id_set = [], cs_gate_list = c\<rparr>"

definition upd_config :: "config \<Rightarrow> (config_state \<Rightarrow> config_state) \<Rightarrow> config" where
  "upd_config n f = n\<lparr>nt_app := f (nt_app n)\<rparr>"

definition new_agent_data :: agent_data where
  "new_agent_data = \<lparr>ad_id = 0, ad_ip = [], ad_port = 0\<rparr>"

definition cs_onConnect :: "config \<Rightarrow> JmyEventInfo \<Rightarrow> (int \<times> config) option" where
  "cs_onConnect n i =
     (if cs_conn2agent_map (nt_app n) (ei_conn_id i) \<noteq> None then Some (- 1, n)
      else Some (0, upd_config n (\<lambda>s. s\<lparr>cs_conn2agent_map := map_insert (cs_conn2agent_map s) (ei_conn_id i) 0\<rparr>)))"

text \<open>For a registered connection the handler reads the map entry through an iterator that it has just erased.\<close>

definition cs_onDisconnect :: "config \<Rightarrow> JmyEventInfo \<Rightarrow> (int \<times> config) option" where
  "cs_onDisconnect n i =
     (if cs_conn2agent_map (nt_app n) (ei_conn_id i) = None then Some (- 1, n)
      else do {
        let n = upd_config n (\<lambda>s. s\<lparr>cs_conn2agent_map := (cs_conn2agent_map s)(ei_conn_id i := None)\<rparr>);
        if ei_conn_id i \<in> set (cs_login_conn_id_set (nt_app n)) then None
        else if ei_conn_id i \<in> set (cs_gate_conn_id_set (nt_app n)) then None
        else Some (0, n)
      })"

definition cs_onTick :: "config \<Rightarrow> JmyEventInfo \<Rightarrow> (int \<times> config) option" where
  "cs_onTick n i = Some (0, n)"

definition cs_onTimer :: "config \<Rightarrow> JmyEventInfo \<Rightarrow> (int \<times> config) option" where
  "cs_onTimer n i = Some (0, n)"

definition check_conn :: "config_state \<Rightarrow> int \<Rightarrow> int" where
  "check_conn s cid = (case cs_conn2agent_map s cid of None \<Rightarrow> - 1 | Some a \<Rightarrow> if a \<noteq> 0 then - 1 else 0)"

definition update_conn :: "config_state \<Rightarrow> int \<Rightarrow> int \<Rightarrow> int \<times> config_state" where
  "update_conn s cid agent_id =
     (case cs_conn2agent_map s cid of
        None \<Rightarrow> (- 1, s)
      | Some _ \<Rightarrow> (0, s\<lparr>cs_conn2agent_map := (cs_conn2agent_map s)(cid \<mapsto> agent_id)\<rparr>))"

fun broadcast_loop :: "config \<Rightarrow> int list \<Rightarrow> i32 \<Rightarrow> u8 list \<Rightarrow> (int \<times> config) option" where
  "broadcast_loop n [] msg_id bs = Some (0, n)"
| "broadcast_loop n (cid # cids) msg_id bs =
     (case cs_conn2agent_map (nt_app n) cid of
        None \<Rightarrow> broadcast_loop n cids msg_id bs
      | Some gate_id \<Rightarrow>
          (case am_getAgent (cs_gate_mgr (nt_app n)) gate_id of
             None \<Rightarrow> Some (- 1, n)
           | Some agent \<Rightarrow> do {
               (r, n) \<leftarrow> agent_conn_send n agent msg_id bs;
               if r < 0 then Some (- 1, n) else broadcast_loop n cids msg_id bs
             }))"

definition broadcast_msg_to_gate :: "config \<Rightarrow> i32 \<Rightarrow> u8 list \<Rightarrow> (int \<times> config) option" where
  "broadcast_msg_to_gate n msg_id bs = broadcast_loop n (cs_gate_conn_id_set (nt_app n)) msg_id bs"

definition broadcast_new_login_to_gate :: "config_codec \<Rightarrow> config \<Rightarrow> int \<Rightarrow> string \<Rightarrow> u16 \<Rightarrow> (int \<times> config) option" where
  "broadcast_new_login_to_gate P n login_id ip port =
     (case serialize (ser_NewLoginNotify P login_id ip (uint port)) of
        None \<Rightarrow> Some (- 1, n)
      | Some bs \<Rightarrow> broadcast_msg_to_gate n MSGID_CS2GT_NEW_LOGIN_NOTIFY bs)"

definition broadcast_remove_login_to_gate :: "config_codec \<Rightarrow> config \<Rightarrow> int \<Rightarrow> (int \<times> config) option" where
  "broadcast_remove_login_to_gate P n login_id =
     (case serialize (ser_RemoveLoginNotify P login_id) of
        None \<Rightarrow> Some (- 1, n)
      | Some bs \<Rightarrow> broadcast_msg_to_gate n MSGID_CS2GT_REMOVE_LOGIN_NOTIFY bs)"

text \<open>The login servers a gate server is told of when it registers.\<close>

definition login_list :: "config_state \<Rightarrow> (string \<times> int \<times> int) list" where
  "login_list s = concat (map (\<lambda>cid.
     case am_getAgentByConnId (cs_login_mgr s) cid of
       None \<Rightarrow> []
     | Some a \<Rightarrow> [(ad_ip (ag_data a), sint (ad_port (ag_data a)), ad_id (ag_data a))]) (cs_login_conn_id_set s))"

definition processGateConnect :: "config_codec \<Rightarrow> config \<Rightarrow> JmyMsgInfo \<Rightarrow> (int \<times> config) option" where
  "processGateConnect P n i =
     (if check_conn (nt_app n) (mi_conn_id i) < 0 then Some (- 1, n)
      else do {
        let gate_id = gate_id_of P (mi_data i);
        if am_getAgent (cs_gate_mgr (nt_app n)) gate_id \<noteq> None then Some (- 1, n)
        else do {
          let (agent, m) = am_newAgent new_agent_data (cs_gate_mgr (nt_app n)) gate_id (mi_param i) (mi_conn_id i);
          let n = upd_config n (\<lambda>s. s\<lparr>cs_gate_mgr := m\<rparr>);
          case agent of
            None \<Rightarrow> Some (- 1, n)
          | Some agent \<Rightarrow> do {
              conf \<leftarrow> cg_getById (cs_gate_list (nt_app n)) gate_id;
              case conf of
                 None \<Rightarrow> Some (- 1, n)
               | Some d \<Rightarrow> do {
                   let data = \<lparr>ad_id = gate_id, ad_ip = gf_ip d, ad_port = word_of_int (gf_port d)\<rparr>;
                   let n = upd_config n (\<lambda>s. s\<lparr>cs_gate_mgr := am_setData (cs_gate_mgr s) gate_id (\<lambda>_. data)\<rparr>);
                   let n = upd_config n (\<lambda>s. snd (update_conn s (mi_conn_id i) gate_id));
                   let n = upd_config n (\<lambda>s. s\<lparr>cs_gate_conn_id_set := insort_insert (mi_conn_id i) (cs_gate_conn_id_set s)\<rparr>);
                   case serialize (ser_GateConnectResponse P (login_list (nt_app n))) of
                     None \<Rightarrow> Some (- 1, n)
                   | Some bs \<Rightarrow> do {
                       (r, n) \<leftarrow> agent_conn_send n (agent\<lparr>ag_data := data\<rparr>) MSGID_CS2GT_CONNECT_CONFIG_RESPONSE bs;
                       Some (if r < 0 then - 1 else 0, n)
                     }
                 }
            }
        }
      })"

text \<open>The gate servers a login server is told of: the entries of \<open>ConfGateList\<close> by index.\<close>

fun conf_entries :: "ConfGateList \<Rightarrow> nat list \<Rightarrow> gate_conf list option" where
  "conf_entries c [] = Some []"
| "conf_entries c (k # ks) = do {
     d \<leftarrow> cg_get c (int k);
     ds \<leftarrow> conf_entries c ks;
     Some (case d of None \<Rightarrow> ds | Some d \<Rightarrow> d # ds)
   }"

definition processLoginConnect :: "config_codec \<Rightarrow> config \<Rightarrow> JmyMsgInfo \<Rightarrow> (int \<times> config) option" where
  "processLoginConnect P n i =
     (if check_conn (nt_app n) (mi_conn_id i) < 0 then Some (- 1, n)
      else
        (case parse_LoginConnectRequest P (mi_data i) of
           None \<Rightarrow> Some (- 1, n)
         | Some (login_id, ip, port) \<Rightarrow>
             if am_getAgent (cs_login_mgr (nt_app n)) login_id \<noteq> None then Some (- 1, n)
             else do {
               let (agent, m) = am_newAgent new_agent_data (cs_login_mgr (nt_app n)) login_id (mi_param i) (mi_conn_id i);
               let n = upd_config n (\<lambda>s. s\<lparr>cs_login_mgr := m\<rparr>);
               case agent of
                 None \<Rightarrow> Some (- 1, n)
               | Some agent \<Rightarrow> do {
                   let data = \<lparr>ad_id = login_id, ad_ip = ip, ad_port = word_of_int port\<rparr>;
                   let n = upd_config n (\<lambda>s. s\<lparr>cs_login_mgr := am_setData (cs_login_mgr s) login_id (\<lambda>_. data)\<rparr>);
                   let n = upd_config n (\<lambda>s. snd (update_conn s (mi_conn_id i) login_id));
                   let n = upd_config n (\<lambda>s. s\<lparr>cs_login_conn_id_set := insort_insert (mi_conn_id i) (cs_login_conn_id_set s)\<rparr>);
                   gates \<leftarrow> conf_entries (cs_gate_list (nt_app n)) [0..<cg_getSize (cs_gate_list (nt_app n))];
                   case serialize (ser_LoginConnectResponse P gates) of
                     None \<Rightarrow> Some (- 1, n)
                   | Some bs \<Rightarrow> do {
                       (r, n) \<leftarrow> agent_conn_send n (agent\<lparr>ag_data := data\<rparr>) MSGID_CS2LS_CONNECT_CONFIG_RESPONSE bs;
                       if r < 0 then Some (- 1, n)
                       else do {
                         (r, n) \<leftarrow> broadcast_new_login_to_gate P n login_id ip (word_of_int port);
                         Some (if r < 0 then - 1 else 0, n)
                       }
                     }
                 }
             }))"

section \<open>Loading the list of gate servers\<close>

text \<open>The entries a document describes, each with the platform and channel code it inherits.\<close>

fun entries_spec :: "json_object list \<Rightarrow> string \<times> string \<Rightarrow> gate_conf list option" where
  "entries_spec [] pc = Some []"
| "entries_spec (a # as) pc =
     (case read_entry a pc of
        Some (Some d) \<Rightarrow> map_option (Cons d) (entries_spec as (gf_platform d, gf_channel_code d))
      | _ \<Rightarrow> None)"

lemma entries_spec_Cons:
  assumes "entries_spec (a # as) pc = Some ds"
  shows "\<exists>d ds'. ds = d # ds' \<and> read_entry a pc = Some (Some d) \<and> entries_spec as (gf_platform d, gf_channel_code d) = Some ds'"
  using assms by (auto split: option.splits)

text \<open>The addresses that allocation returns: not null and all different.\<close>

definition fresh_addrs :: "(nat \<Rightarrow> addr) \<Rightarrow> bool" where
  "fresh_addrs alloc \<longleftrightarrow> inj alloc \<and> (\<forall>k. alloc k \<noteq> NULL_PTR)"

definition loaded :: "(nat \<Rightarrow> addr) \<Rightarrow> ConfGateList \<Rightarrow> gate_conf list \<Rightarrow> bool" where
  "loaded alloc c ds \<longleftrightarrow> cg_gate_count c = length ds \<and> length ds \<le> MAX_GATE_SERVER_COUNT \<and>
     cg_gate_array c = map alloc [0..<length ds] @ replicate (MAX_GATE_SERVER_COUNT - length ds) NULL_PTR \<and>
     (\<forall>k < length ds. cg_objects c (alloc k) = Some (ds ! k) \<and> cg_id2gate_map c (gf_id (ds ! k)) = Some (alloc k)) \<and>
     (\<forall>i. i \<notin> gf_id ` set ds \<longrightarrow> cg_id2gate_map c i = None)"

lemma loadedD:
  assumes "loaded alloc c ds"
  shows "cg_gate_count c = length ds" "length ds \<le> 99" "cg_gate_array c = map alloc [0..<length ds] @ replicate (99 - length ds) NULL_PTR"
    "k < length ds \<Longrightarrow> cg_objects c (alloc k) = Some (ds ! k)" "k < length ds \<Longrightarrow> cg_id2gate_map c (gf_id (ds ! k)) = Some (alloc k)"
    "i \<notin> gf_id ` set ds \<Longrightarrow> cg_id2gate_map c i = None"
  using assms by (simp_all add: loaded_def)

lemma loaded_new: "loaded alloc (new_conf_gate_list (replicate MAX_GATE_SERVER_COUNT NULL_PTR)) []"
  by (simp add: loaded_def new_conf_gate_list_def)

lemma store_entry_loaded:
  assumes "fresh_addrs alloc" "loaded alloc c ds" "length ds < 99" "gf_id d \<notin> gf_id ` set ds"
  shows "\<exists>c'. store_entry alloc c d = Some c' \<and> loaded alloc c' (ds @ [d])"
proof -
  note L = loadedD [OF assms(2)]
  let ?p = "alloc (length ds)"
  let ?c = "c\<lparr>cg_gate_array := (cg_gate_array c)[length ds := ?p], cg_gate_count := length ds + 1,
    cg_objects := (cg_objects c)(?p \<mapsto> d), cg_id2gate_map := (cg_id2gate_map c)(gf_id d \<mapsto> ?p)\<rparr>"
  have at: "cg_gate_array c ! length ds = NULL_PTR" using L(3) assms(3) by (simp add: nth_append)
  have run: "store_entry alloc c d = Some ?c"
    using at L(1,3) assms(3) L(6) [OF assms(4)] by (simp add: store_entry_def map_insert_def Let_def)
  have "99 - length ds = Suc (98 - length ds)" using assms(3) by simp
  then have "cg_gate_array ?c = map alloc [0..<length (ds @ [d])] @ replicate (99 - length (ds @ [d])) NULL_PTR"
    using L(3) by (simp add: list_update_append)
  moreover have "alloc k \<noteq> ?p" if "k < length ds" for k using that assms(1) by (auto simp: fresh_addrs_def dest: injD)
  moreover have "gf_id (ds ! k) \<noteq> gf_id d" if "k < length ds" for k using that assms(4) by (metis image_eqI nth_mem)
  ultimately have "loaded alloc ?c (ds @ [d])"
    using L(4,5,6) assms(3) by (auto simp: loaded_def nth_append less_Suc_eq)
  with run show ?thesis by blast
qed

lemma load_entries_loaded:
  assumes "fresh_addrs alloc" "loaded alloc c ds" "entries_spec as pc = Some es" "distinct (map gf_id (ds @ es))"
  shows "if length (ds @ es) \<le> 99 then \<exists>c'. load_entries alloc as pc c = Some (True, c') \<and> loaded alloc c' (ds @ es)
    else load_entries alloc as pc c = None"
  using assms
proof (induction as arbitrary: pc c ds es)
  case Nil
  then show ?case using loadedD(2) [OF Nil.prems(2)] by auto
next
  case (Cons a as)
  from entries_spec_Cons [OF Cons.prems(3)] obtain d es' where d: "es = d # es'" "read_entry a pc = Some (Some d)"
    "entries_spec as (gf_platform d, gf_channel_code d) = Some es'" by blast
  show ?case
  proof (cases "length ds < 99")
    case True
    have "gf_id d \<notin> gf_id ` set ds" using Cons.prems(4) d(1) by auto
    from store_entry_loaded [OF Cons.prems(1,2) True this] obtain c1 where
      c1: "store_entry alloc c d = Some c1" "loaded alloc c1 (ds @ [d])" by blast
    have app: "(ds @ [d]) @ es' = ds @ es" using d(1) by simp
    have "load_entries alloc (a # as) pc c = load_entries alloc as (gf_platform d, gf_channel_code d) c1" using d(2) c1(1) by simp
    then show ?thesis using Cons.IH [OF Cons.prems(1) c1(2) d(3)] Cons.prems(4) unfolding app by metis
  next
    case False
    then have "store_entry alloc c d = None" using loadedD(1-3) [OF Cons.prems(2)] by (simp add: store_entry_def)
    then show ?thesis using False d(1,2) by simp
  qed
qed

lemma loaded_get:
  assumes "fresh_addrs alloc" "loaded alloc c ds" "k < length ds"
  shows "cg_get c (int k) = Some (Some (ds ! k))"
  using loadedD(1-4) [OF assms(2)] assms(1,3) by (simp add: cg_get_def nth_append fresh_addrs_def Let_def)

lemma loaded_entries:
  assumes "fresh_addrs alloc" "loaded alloc c ds"
  shows "conf_entries c [0..<length ds] = Some ds"
proof -
  have "conf_entries c ks = Some (map ((!) ds) ks)" if "set ks \<subseteq> {..<length ds}" for ks
    using that loaded_get [OF assms] by (induction ks) auto
  from this [of "[0..<length ds]"] show ?thesis by (simp add: map_nth atLeast0LessThan)
qed


text \<open>Loading into a list whose count was reset writes every entry over the first.\<close>

definition first_taken :: "ConfGateList \<Rightarrow> bool" where
  "first_taken c \<longleftrightarrow> cg_gate_count c = 0 \<and> cg_gate_array c \<noteq> [] \<and> cg_gate_array c ! 0 \<noteq> NULL_PTR \<and> cg_objects c (cg_gate_array c ! 0) \<noteq> None"

lemma store_entry_taken: "first_taken c \<Longrightarrow> \<exists>c'. store_entry alloc c d = Some c' \<and> first_taken c'"
  by (auto simp: first_taken_def store_entry_def Let_def)

lemma load_entries_taken:
  "first_taken c \<Longrightarrow> entries_spec as pc = Some es \<Longrightarrow> \<exists>c'. load_entries alloc as pc c = Some (True, c') \<and> first_taken c'"
proof (induction as arbitrary: pc c es)
  case (Cons a as)
  from entries_spec_Cons [OF Cons.prems(2)] obtain d es' where
    d: "read_entry a pc = Some (Some d)" "entries_spec as (gf_platform d, gf_channel_code d) = Some es'" by blast
  from store_entry_taken [OF Cons.prems(1)] obtain c1 where c1: "store_entry alloc c d = Some c1" "first_taken c1" by blast
  from Cons.IH [OF c1(2) d(2)] show ?case using c1(1) d(1) by simp
qed simp

text \<open>
  Reloading empties the list. After a document with at least one gate server was loaded, reloading
  a well-formed document reports success, but the list then has no entries: nothing is found by
  index, and a login server that connects is told of no gate server.
\<close>

theorem reload_loses_gates:
  assumes "fresh_addrs alloc" "entries_spec as ([], []) = Some ds" "distinct (map gf_id ds)" "ds \<noteq> []" "length ds \<le> 99"
    and "loadJson alloc (new_conf_gate_list (replicate 99 NULL_PTR)) (JsonArray as) = Some (True, c)"
    and "files (cg_jsonpath c) = JsonArray as'" "entries_spec as' ([], []) = Some ds'"
  shows "\<exists>c'. cg_reload alloc' files c = Some (True, c') \<and> cg_getSize c' = 0 \<and> conf_entries c' [0..<cg_getSize c'] = Some [] \<and>
    (\<forall>k \<ge> 0. cg_get c' k = Some None)"
proof -
  have "loaded alloc c ds"
    using load_entries_loaded [OF assms(1) loaded_new assms(2)] assms(3,5,6) by (auto simp: loadJson_def)
  note L = loadedD [OF this]
  have "0 < length ds" using assms(4) by simp
  then have "first_taken (cg_reset c)"
    using L(3) L(4) [of 0] assms(1) by (simp add: first_taken_def cg_reset_def nth_append fresh_addrs_def)
  from load_entries_taken [OF this assms(8)] obtain c' where "load_entries alloc' as' ([], []) (cg_reset c) = Some (True, c')" "first_taken c'" by blast
  then show ?thesis using assms(7) by (auto simp: cg_reload_def loadJson_def cg_getSize_def first_taken_def cg_get_def)
qed

section \<open>Every gate server learns of every login server\<close>

text \<open>Every connection of the server can send and has buffers of its own.\<close>

definition lines_ok :: "'a net \<Rightarrow> bool" where
  "lines_ok n \<longleftrightarrow> (\<forall>cid c. mgr_get n cid = Some c \<longrightarrow> sender_ready n c) \<and>
     (\<forall>cid c cid' c'. mgr_get n cid = Some c \<longrightarrow> mgr_get n cid' = Some c' \<longrightarrow> cid \<noteq> cid' \<longrightarrow> tc_buffer (conn_of n c) \<noteq> tc_buffer (conn_of n c'))"

definition grows :: "'a net \<Rightarrow> 'a net \<Rightarrow> bool" where
  "grows n n' \<longleftrightarrow> nt_app n' = nt_app n \<and> nt_mgr n' = nt_mgr n \<and> lines_ok n' \<and>
     (\<forall>cid c. mgr_get n cid = Some c \<longrightarrow> (\<exists>xs. queued n' c = queued n c @ xs))"

lemma growsD:
  assumes "grows n n'"
  shows "nt_app n' = nt_app n" "mgr_get n' cid = mgr_get n cid" "lines_ok n'" "mgr_get n cid = Some c \<Longrightarrow> \<exists>xs. queued n' c = queued n c @ xs"
  using assms by (auto simp: grows_def mgr_get_def)

lemma grows_refl: "lines_ok n \<Longrightarrow> grows n n"
  by (simp add: grows_def)

lemma grows_trans: "grows n m \<Longrightarrow> grows m k \<Longrightarrow> grows n k"
  by (fastforce simp: grows_def mgr_get_def)

lemma sent_grows:
  assumes "lines_ok n" "mgr_get n cid = Some c" "sent n c bs n'"
  shows "grows n n'"
proof -
  note S = sentD [OF assms(3)]
  have "lines_ok n'" using assms(1) S(4,6,7) by (simp add: lines_ok_def)
  moreover have "\<exists>xs. queued n' d = queued n d @ xs" if "mgr_get n cid' = Some d" for cid' d
  proof (cases "cid' = cid")
    case True
    then show ?thesis using that assms(2) S(1) by auto
  next
    case False
    then show ?thesis using that assms(1,2) S(8) [of d] by (auto simp: lines_ok_def)
  qed
  ultimately show ?thesis using S(2,3) by (simp add: grows_def)
qed

lemma upd_config_sel [simp]:
  "nt_app (upd_config n f) = f (nt_app n)" "mgr_get (upd_config n f) cid = mgr_get n cid" "queued (upd_config n f) c = queued n c"
  "lines_ok (upd_config n f) \<longleftrightarrow> lines_ok n"
  by (simp_all add: upd_config_def lines_ok_def)

text \<open>The gate servers that messages are broadcast to are registered and reachable.\<close>

definition gate_reachable :: "config \<Rightarrow> int \<Rightarrow> bool" where
  "gate_reachable n g \<longleftrightarrow> (\<exists>gid a c. cs_conn2agent_map (nt_app n) g = Some gid \<and> gid \<noteq> 0 \<and> am_getAgent (cs_gate_mgr (nt_app n)) gid = Some a \<and>
     ag_conn_id a = g \<and> ag_state a = AGENT_STATE_VERIFIED \<and> ag_mgr a \<noteq> 0 \<and> mgr_get n g = Some c)"

lemma gate_reachable_grows: "grows n n' \<Longrightarrow> gate_reachable n' g \<longleftrightarrow> gate_reachable n g"
  by (simp add: gate_reachable_def growsD(1,2))

definition queued_in :: "'a net \<Rightarrow> nat \<Rightarrow> u8 list \<Rightarrow> bool" where
  "queued_in n c bs \<longleftrightarrow> (\<exists>pre post. queued n c = pre @ cells bs @ post)"

lemma queued_in_grows: "grows n n' \<Longrightarrow> mgr_get n cid = Some c \<Longrightarrow> queued_in n c bs \<Longrightarrow> queued_in n' c bs"
  using growsD(4) [of n n' cid c] by (fastforce simp: queued_in_def)

lemma sent_queued_in: "sent n c bs n' \<Longrightarrow> queued_in n' c bs"
  unfolding queued_in_def by (metis append.right_neutral sentD(1))

lemma broadcast_loop_ok:
  assumes "lines_ok n" "\<forall>g \<in> set cids. gate_reachable n g" "length bs < 65531"
  shows "\<exists>n'. broadcast_loop n cids m bs = Some (0, n') \<and> grows n n' \<and>
    (\<forall>g \<in> set cids. \<forall>c. mgr_get n g = Some c \<longrightarrow> queued_in n' c (packet (Msg m bs)))"
  using assms
proof (induction cids arbitrary: n)
  case Nil
  then show ?case by (simp add: grows_refl)
next
  case (Cons g cids)
  from Cons.prems(2) obtain gid a c where g: "cs_conn2agent_map (nt_app n) g = Some gid" "am_getAgent (cs_gate_mgr (nt_app n)) gid = Some a"
    "ag_conn_id a = g" "ag_state a = AGENT_STATE_VERIFIED" "ag_mgr a \<noteq> 0" "mgr_get n g = Some c" by (auto simp: gate_reachable_def)
  have "sender_ready n c" using Cons.prems(1) g(6) by (simp add: lines_ok_def)
  from agent_send_sent [OF g(4,5) _ this Cons.prems(3), of m] g(3,6) obtain n1 where
    n1: "agent_conn_send n a m bs = Some (0, n1)" "sent n c (packet (Msg m bs)) n1" by auto
  note gr = sent_grows [OF Cons.prems(1) g(6) n1(2)]
  from Cons.IH [OF growsD(3) [OF gr] _ Cons.prems(3)] Cons.prems(2) obtain n' where
    n': "broadcast_loop n1 cids m bs = Some (0, n')" "grows n1 n'"
      "\<forall>g \<in> set cids. \<forall>c. mgr_get n1 g = Some c \<longrightarrow> queued_in n' c (packet (Msg m bs))"
    by (auto simp: gate_reachable_grows [OF gr])
  have "queued_in n' c (packet (Msg m bs))"
    using queued_in_grows [OF n'(2) _ sent_queued_in [OF n1(2)], of g] g(6) growsD(2) [OF gr] by simp
  then show ?case using n' n1(1) g grows_trans [OF gr n'(2)] growsD(2) [OF gr] by auto
qed

text \<open>A connection was told of a login server, in the list it got or by a message of its own.\<close>

definition told :: "config_codec \<Rightarrow> config \<Rightarrow> nat \<Rightarrow> agent_data \<Rightarrow> bool" where
  "told P n c d \<longleftrightarrow>
     queued_in n c (packet (Msg MSGID_CS2GT_NEW_LOGIN_NOTIFY (ser_NewLoginNotify P (ad_id d) (ad_ip d) (uint (ad_port d))))) \<or>
     (\<exists>ls. (ad_ip d, sint (ad_port d), ad_id d) \<in> set ls \<and> queued_in n c (packet (Msg MSGID_CS2GT_CONNECT_CONFIG_RESPONSE (ser_GateConnectResponse P ls))))"

lemma told_grows: "grows n n' \<Longrightarrow> mgr_get n cid = Some c \<Longrightarrow> told P n c d \<Longrightarrow> told P n' c d"
  using queued_in_grows [of n n' cid c] by (auto simp: told_def)

text \<open>The histories: connections come, registered ones stay, and requests have ids and a size that fits.\<close>

inductive config_reach :: "config_codec \<Rightarrow> config \<Rightarrow> config \<Rightarrow> bool" for P n0 where
  Init: "config_reach P n0 n0"
| Connect: "config_reach P n0 n \<Longrightarrow> cs_onConnect n e = Some (r, n') \<Longrightarrow> config_reach P n0 n'"
| Disconnect: "config_reach P n0 n \<Longrightarrow> cs_onDisconnect n e = Some (r, n') \<Longrightarrow> config_reach P n0 n'"
| Gate: "config_reach P n0 n \<Longrightarrow> mgr_get n (mi_conn_id i) \<noteq> None \<Longrightarrow> mi_param i \<noteq> 0 \<Longrightarrow> gate_id_of P (mi_data i) \<noteq> 0 \<Longrightarrow>
    length (ser_GateConnectResponse P (login_list (nt_app n))) < 65531 \<Longrightarrow>
    processGateConnect P n i = Some (r, n') \<Longrightarrow> config_reach P n0 n'"
| Login: "config_reach P n0 n \<Longrightarrow> mgr_get n (mi_conn_id i) \<noteq> None \<Longrightarrow> mi_param i \<noteq> 0 \<Longrightarrow>
    \<forall>k ip port. parse_LoginConnectRequest P (mi_data i) = Some (k, ip, port) \<longrightarrow>
      k \<noteq> 0 \<and> length (ser_NewLoginNotify P k ip (uint (word_of_int port :: u16))) < 65531 \<Longrightarrow>
    \<forall>gs. conf_entries (cs_gate_list (nt_app n)) [0..<cg_getSize (cs_gate_list (nt_app n))] = Some gs \<longrightarrow>
      length (ser_LoginConnectResponse P gs) < 65531 \<Longrightarrow>
    processLoginConnect P n i = Some (r, n') \<Longrightarrow> config_reach P n0 n'"

definition logins_of :: "config \<Rightarrow> int \<Rightarrow> agent_data Agent option" where
  "logins_of n = am_getAgent (cs_login_mgr (nt_app n))"

definition config_inv :: "config_codec \<Rightarrow> config \<Rightarrow> bool" where
  "config_inv P n \<longleftrightarrow> lines_ok n \<and> am_ok (cs_login_mgr (nt_app n)) \<and>
     (\<forall>k a. logins_of n k = Some a \<longrightarrow> k \<noteq> 0 \<and> cs_conn2agent_map (nt_app n) (ag_conn_id a) = Some k \<and>
        ag_conn_id a \<in> set (cs_login_conn_id_set (nt_app n))) \<and>
     (\<forall>l \<in> set (cs_login_conn_id_set (nt_app n)). \<exists>k. uses_conn (logins_of n) l k) \<and>
     (\<forall>g \<in> set (cs_gate_conn_id_set (nt_app n)). gate_reachable n g) \<and>
     (\<forall>g \<in> set (cs_gate_conn_id_set (nt_app n)). \<forall>c k a. mgr_get n g = Some c \<longrightarrow> logins_of n k = Some a \<longrightarrow> told P n c (ag_data a))"

lemma config_invD:
  assumes "config_inv P n"
  shows "lines_ok n" "am_ok (cs_login_mgr (nt_app n))"
    "logins_of n k = Some a \<Longrightarrow> k \<noteq> 0" "logins_of n k = Some a \<Longrightarrow> cs_conn2agent_map (nt_app n) (ag_conn_id a) = Some k"
    "logins_of n k = Some a \<Longrightarrow> ag_conn_id a \<in> set (cs_login_conn_id_set (nt_app n))"
    "l \<in> set (cs_login_conn_id_set (nt_app n)) \<Longrightarrow> \<exists>k. uses_conn (logins_of n) l k"
    "g \<in> set (cs_gate_conn_id_set (nt_app n)) \<Longrightarrow> gate_reachable n g"
    "g \<in> set (cs_gate_conn_id_set (nt_app n)) \<Longrightarrow> mgr_get n g = Some c \<Longrightarrow> logins_of n k = Some a \<Longrightarrow> told P n c (ag_data a)"
  using assms unfolding config_inv_def by blast+

text \<open>A connection that has not registered has no agent and is in no set.\<close>

lemma config_inv_unregistered:
  assumes "config_inv P n" "cs_conn2agent_map (nt_app n) cid = None \<or> cs_conn2agent_map (nt_app n) cid = Some 0"
  shows "\<not> uses_conn (logins_of n) cid k" "cid \<notin> set (cs_login_conn_id_set (nt_app n))" "cid \<notin> set (cs_gate_conn_id_set (nt_app n))"
proof -
  show no: "\<not> uses_conn (logins_of n) cid k" for k
    using config_invD(3,4) [OF assms(1)] assms(2) by (fastforce simp: uses_conn_def)
  show "cid \<notin> set (cs_login_conn_id_set (nt_app n))" using config_invD(6) [OF assms(1)] no by blast
  show "cid \<notin> set (cs_gate_conn_id_set (nt_app n))" using config_invD(7) [OF assms(1), of cid] assms(2) by (auto simp: gate_reachable_def)
qed

text \<open>Changing the entry of an unregistered connection alone keeps the invariant.\<close>

lemma config_inv_conn:
  assumes "config_inv P n" "cs_conn2agent_map (nt_app n) cid = None \<or> cs_conn2agent_map (nt_app n) cid = Some 0"
    and n': "n' = upd_config n (\<lambda>s. s\<lparr>cs_conn2agent_map := (cs_conn2agent_map s)(cid := v)\<rparr>)"
  shows "config_inv P n'"
proof -
  note U = config_inv_unregistered [OF assms(1,2)] and I = config_invD [OF assms(1)]
  have lg: "logins_of n' = logins_of n" by (simp add: n' logins_of_def)
  have "told P n' c d \<longleftrightarrow> told P n c d" for c d by (simp add: n' told_def queued_in_def)
  moreover have "gate_reachable n' g" if "g \<in> set (cs_gate_conn_id_set (nt_app n))" for g
    using I(7) [OF that] U(3) that by (auto simp: n' gate_reachable_def)
  moreover have "cs_conn2agent_map (nt_app n') (ag_conn_id a) = Some k" if "logins_of n k = Some a" for k a
    using I(4) [OF that] U(1) [of k] that by (auto simp: n' uses_conn_def)
  ultimately show ?thesis
    unfolding config_inv_def lg using I by (simp add: n')
qed

lemma config_inv_Connect:
  assumes "config_inv P n" "cs_onConnect n e = Some (r, n')"
  shows "config_inv P n'"
proof (cases "cs_conn2agent_map (nt_app n) (ei_conn_id e)")
  case None
  then have "n' = upd_config n (\<lambda>s. s\<lparr>cs_conn2agent_map := (cs_conn2agent_map s)(ei_conn_id e := Some 0)\<rparr>)"
    using assms(2) by (auto simp: cs_onConnect_def map_insert_def upd_config_def)
  from config_inv_conn [OF assms(1) _ this] None show ?thesis by simp
next
  case (Some a)
  then show ?thesis using assms by (auto simp: cs_onConnect_def)
qed

lemma config_inv_Disconnect:
  assumes "config_inv P n" "cs_onDisconnect n e = Some (r, n')"
  shows "config_inv P n'"
proof (cases "cs_conn2agent_map (nt_app n) (ei_conn_id e)")
  case None
  then show ?thesis using assms by (auto simp: cs_onDisconnect_def)
next
  case (Some a)
  then have n': "n' = upd_config n (\<lambda>s. s\<lparr>cs_conn2agent_map := (cs_conn2agent_map s)(ei_conn_id e := None)\<rparr>)"
    and no: "ei_conn_id e \<notin> set (cs_login_conn_id_set (nt_app n))" "ei_conn_id e \<notin> set (cs_gate_conn_id_set (nt_app n))"
    using assms(2) by (auto simp: cs_onDisconnect_def Let_def split: if_splits)
  note I = config_invD [OF assms(1)]
  have lg: "logins_of n' = logins_of n" by (simp add: n' logins_of_def)
  have "told P n' c d \<longleftrightarrow> told P n c d" for c d by (simp add: n' told_def queued_in_def)
  moreover have "gate_reachable n' g" if "g \<in> set (cs_gate_conn_id_set (nt_app n))" for g
    using I(7) [OF that] no(2) that by (auto simp: n' gate_reachable_def)
  moreover have "cs_conn2agent_map (nt_app n') (ag_conn_id a) = Some k" if "logins_of n k = Some a" for k a
    using I(4,5) [OF that] no(1) by (auto simp: n')
  ultimately show ?thesis unfolding config_inv_def lg using I by (simp add: n')
qed

text \<open>A new agent of a gate server, before it is anything more.\<close>

lemma config_inv_gate_mgr:
  assumes "config_inv P n" "n' = upd_config n (\<lambda>s. s\<lparr>cs_gate_mgr := m\<rparr>)"
    and "\<And>k a. am_getAgent (cs_gate_mgr (nt_app n)) k = Some a \<Longrightarrow> am_getAgent m k = Some a"
  shows "config_inv P n'"
proof -
  note I = config_invD [OF assms(1)]
  have lg: "logins_of n' = logins_of n" by (simp add: assms(2) logins_of_def)
  have "told P n' c d \<longleftrightarrow> told P n c d" for c d by (simp add: assms(2) told_def queued_in_def)
  moreover have "gate_reachable n' g" if "g \<in> set (cs_gate_conn_id_set (nt_app n))" for g
    using I(7) [OF that] assms(3) by (fastforce simp: assms(2) gate_reachable_def)
  ultimately show ?thesis unfolding config_inv_def lg using I by (simp add: assms(2))
qed

lemma login_list_member:
  assumes "config_inv P n" "logins_of n k = Some a"
  shows "(ad_ip (ag_data a), sint (ad_port (ag_data a)), ad_id (ag_data a)) \<in> set (login_list (nt_app n))"
proof -
  note I = config_invD [OF assms(1)]
  have "am_getAgentByConnId (cs_login_mgr (nt_app n)) (ag_conn_id a) = Some a"
    using am_okD(2) [OF I(2), of "ag_conn_id a" k] assms(2) by (simp add: am_getAgentByConnId_def uses_conn_def logins_of_def am_getAgent_eq)
  then show ?thesis using I(5) [OF assms(2)] by (auto simp: login_list_def intro!: bexI [of _ "ag_conn_id a"])
qed

lemma check_conn_passes: "\<not> check_conn s cid < 0 \<Longrightarrow> cs_conn2agent_map s cid = Some 0"
  by (auto simp: check_conn_def split: option.splits if_splits)

text \<open>The state after a gate server was accepted, before the answer is sent.\<close>

lemma config_inv_new_gate:
  assumes inv: "config_inv P n" and free: "cs_conn2agent_map (nt_app n) cid = Some 0" and gid: "gid \<noteq> 0"
    and line: "mgr_get n cid = Some c" and mgr: "am_getAgent m = (am_getAgent (cs_gate_mgr (nt_app n)))(gid \<mapsto> a)"
    and new: "am_getAgent (cs_gate_mgr (nt_app n)) gid = None" and a: "ag_conn_id a = cid" "ag_state a = AGENT_STATE_VERIFIED" "ag_mgr a \<noteq> 0"
    and n1: "n1 = upd_config n (\<lambda>s. s\<lparr>cs_gate_mgr := m, cs_conn2agent_map := (cs_conn2agent_map s)(cid \<mapsto> gid),
      cs_gate_conn_id_set := insort_insert cid (cs_gate_conn_id_set s)\<rparr>)"
    and gr: "grows n1 n'" and sent: "queued_in n' c (packet (Msg MSGID_CS2GT_CONNECT_CONFIG_RESPONSE (ser_GateConnectResponse P (login_list (nt_app n)))))"
  shows "config_inv P n'"
proof -
  note I = config_invD [OF inv] and U = config_inv_unregistered [OF inv disjI2 [OF free]] and G = growsD [OF gr]
  have lg: "logins_of n' = logins_of n" by (simp add: G(1) n1 logins_of_def)
  have set: "set (cs_gate_conn_id_set (nt_app n')) = insert cid (set (cs_gate_conn_id_set (nt_app n)))"
    by (simp add: G(1) n1 set_insort_insert)
  have told: "told P n' d x" if "told P n d x" "mgr_get n g = Some d" for d x g
    using told_grows [OF gr, of g d P x] that by (simp add: n1 told_def queued_in_def)
  have "gate_reachable n1 g" if "g \<in> insert cid (set (cs_gate_conn_id_set (nt_app n)))" for g
  proof (cases "g = cid")
    case True
    then show ?thesis using gid line mgr a by (auto simp: n1 gate_reachable_def)
  next
    case False
    with that I(7) [of g] obtain gid' a' c' where g: "cs_conn2agent_map (nt_app n) g = Some gid'" "gid' \<noteq> 0"
      "am_getAgent (cs_gate_mgr (nt_app n)) gid' = Some a'" "ag_conn_id a' = g" "ag_state a' = AGENT_STATE_VERIFIED" "ag_mgr a' \<noteq> 0"
      "mgr_get n g = Some c'" by (auto simp: gate_reachable_def)
    moreover from g(3) new have "gid' \<noteq> gid" by auto
    ultimately show ?thesis using False mgr unfolding gate_reachable_def n1 by auto
  qed
  then have reach: "\<forall>g \<in> set (cs_gate_conn_id_set (nt_app n')). gate_reachable n' g"
    unfolding set gate_reachable_grows [OF gr] by blast
  have "told P n' d (ag_data x)" if "g \<in> insert cid (set (cs_gate_conn_id_set (nt_app n)))" "mgr_get n' g = Some d" "logins_of n k = Some x" for g d k x
  proof (cases "g = cid")
    case True
    then have "d = c" using that(2) line by (simp add: G(2) n1)
    then show ?thesis using sent login_list_member [OF inv that(3)] by (auto simp: told_def)
  next
    case False
    then show ?thesis using that told I(8) [of g d k x] by (simp add: G(2) n1)
  qed
  moreover have "cs_conn2agent_map (nt_app n') (ag_conn_id x) = Some k" if "logins_of n k = Some x" for k x
    using I(4) [OF that] U(1) [of k] that by (auto simp: G(1) n1 uses_conn_def)
  moreover have "cs_login_mgr (nt_app n') = cs_login_mgr (nt_app n)" "cs_login_conn_id_set (nt_app n') = cs_login_conn_id_set (nt_app n)"
    by (simp_all add: G(1) n1)
  ultimately show ?thesis
    unfolding config_inv_def lg using reach I(2,3,5,6) G(3) unfolding set by auto
qed

lemma am_newAgent_get:
  assumes "am_getAgent m k = None"
  shows "fst (am_newAgent d m k g c) = Some (verified_agent d g c)"
    "am_getAgent (snd (am_newAgent d m k g c)) = (am_getAgent m)(k \<mapsto> verified_agent d g c)"
  using assms by (auto simp: am_newAgent_def am_getAgent_def map_insert_def Let_def fun_eq_iff)

text \<open>The state of a registration: the agent with its data, the connection and its set.\<close>

definition gate_data :: "int \<Rightarrow> gate_conf \<Rightarrow> agent_data" where
  "gate_data gid d = \<lparr>ad_id = gid, ad_ip = gf_ip d, ad_port = word_of_int (gf_port d)\<rparr>"

definition gate_registered :: "config \<Rightarrow> int \<Rightarrow> int \<Rightarrow> (int, agent_data) AgentManager \<Rightarrow> config" where
  "gate_registered n cid gid m = upd_config n (\<lambda>s. s\<lparr>cs_gate_mgr := m, cs_conn2agent_map := (cs_conn2agent_map s)(cid \<mapsto> gid),
     cs_gate_conn_id_set := insort_insert cid (cs_gate_conn_id_set s)\<rparr>)"

lemma gate_connect_ok:
  assumes lines: "lines_ok n" "mgr_get n (mi_conn_id i) = Some c" and "mi_param i \<noteq> 0" and gid: "gate_id_of P (mi_data i) = gid"
    and new: "cs_conn2agent_map (nt_app n) (mi_conn_id i) = Some 0" "am_getAgent (cs_gate_mgr (nt_app n)) gid = None"
    and conf: "cg_getById (cs_gate_list (nt_app n)) gid = Some (Some d)"
    and fits: "length (ser_GateConnectResponse P (login_list (nt_app n))) < 65531"
  shows "\<exists>m n'. processGateConnect P n i = Some (0, n') \<and>
    am_getAgent m = (am_getAgent (cs_gate_mgr (nt_app n)))(gid \<mapsto> (verified_agent new_agent_data (mi_param i) (mi_conn_id i))\<lparr>ag_data := gate_data gid d\<rparr>) \<and>
    sent (gate_registered n (mi_conn_id i) gid m) c (packet (Msg MSGID_CS2GT_CONNECT_CONFIG_RESPONSE (ser_GateConnectResponse P (login_list (nt_app n))))) n'"
proof -
  let ?cid = "mi_conn_id i" and ?bs = "ser_GateConnectResponse P (login_list (nt_app n))"
  let ?a = "verified_agent new_agent_data (mi_param i) ?cid"
  obtain k where k: "am_newAgent new_agent_data (cs_gate_mgr (nt_app n)) gid (mi_param i) ?cid = (Some ?a, k)"
    "am_getAgent k = (am_getAgent (cs_gate_mgr (nt_app n)))(gid \<mapsto> ?a)"
    using am_newAgent_get [OF new(2), of new_agent_data "mi_param i" ?cid] by (metis prod.collapse)
  let ?m = "am_setData k gid (\<lambda>_. gate_data gid d)" and ?b = "?a\<lparr>ag_data := gate_data gid d\<rparr>"
  let ?n = "gate_registered n ?cid gid ?m"
  have ll: "login_list (nt_app ?n) = login_list (nt_app n)" by (simp add: gate_registered_def login_list_def)
  have chk: "\<not> check_conn (nt_app n) ?cid < 0" using new(1) by (simp add: check_conn_def)
  have "processGateConnect P n i = do { (r, n) \<leftarrow> agent_conn_send ?n ?b MSGID_CS2GT_CONNECT_CONFIG_RESPONSE ?bs; Some (if r < 0 then - 1 else 0, n) }"
    using chk new k(1) conf gid fits ll
    by (simp add: processGateConnect_def update_conn_def gate_registered_def gate_data_def upd_config_def login_list_def Let_def)
  moreover have "sender_ready ?n c" "mgr_get ?n ?cid = Some c"
    using lines by (simp_all add: gate_registered_def lines_ok_def upd_config_def)
  then obtain n' where "agent_conn_send ?n ?b MSGID_CS2GT_CONNECT_CONFIG_RESPONSE ?bs = Some (0, n')"
    "sent ?n c (packet (Msg MSGID_CS2GT_CONNECT_CONFIG_RESPONSE ?bs)) n'"
    using agent_send_sent [of ?b ?n c ?bs MSGID_CS2GT_CONNECT_CONFIG_RESPONSE] assms(3) fits by auto
  ultimately have "processGateConnect P n i = Some (0, n')" "sent ?n c (packet (Msg MSGID_CS2GT_CONNECT_CONFIG_RESPONSE ?bs)) n'" by simp_all
  then show ?thesis using am_setData_get [of k gid "\<lambda>_. gate_data gid d"] k(2) by (intro exI [of _ ?m] exI [of _ n']) simp
qed

lemma config_inv_Gate:
  assumes inv: "config_inv P n" and line: "mgr_get n (mi_conn_id i) = Some c" and "mi_param i \<noteq> 0" "gate_id_of P (mi_data i) \<noteq> 0"
    and fits: "length (ser_GateConnectResponse P (login_list (nt_app n))) < 65531"
    and run: "processGateConnect P n i = Some (r, n')"
  shows "config_inv P n'"
proof (cases "check_conn (nt_app n) (mi_conn_id i) < 0 \<or> am_getAgent (cs_gate_mgr (nt_app n)) (gate_id_of P (mi_data i)) \<noteq> None")
  case True
  then have "n' = n" using run by (auto simp: processGateConnect_def split: if_splits)
  then show ?thesis using inv by simp
next
  case False
  let ?gid = "gate_id_of P (mi_data i)" and ?cid = "mi_conn_id i"
  have free: "cs_conn2agent_map (nt_app n) ?cid = Some 0" "am_getAgent (cs_gate_mgr (nt_app n)) ?gid = None"
    using False check_conn_passes by auto
  obtain k where k: "am_newAgent new_agent_data (cs_gate_mgr (nt_app n)) ?gid (mi_param i) ?cid = (Some (verified_agent new_agent_data (mi_param i) ?cid), k)"
    "am_getAgent k = (am_getAgent (cs_gate_mgr (nt_app n)))(?gid \<mapsto> verified_agent new_agent_data (mi_param i) ?cid)"
    using am_newAgent_get [OF free(2), of new_agent_data "mi_param i" ?cid] by (metis prod.collapse)
  obtain conf where conf: "cg_getById (cs_gate_list (nt_app n)) ?gid = Some conf"
    using run False k(1) by (cases "cg_getById (cs_gate_list (nt_app n)) ?gid") (auto simp: processGateConnect_def)
  show ?thesis
  proof (cases conf)
    case None
    then have "n' = upd_config n (\<lambda>s. s\<lparr>cs_gate_mgr := k\<rparr>)" using run False k(1) conf by (auto simp: processGateConnect_def)
    moreover have "am_getAgent k j = Some x" if "am_getAgent (cs_gate_mgr (nt_app n)) j = Some x" for j x using that k(2) free(2) by auto
    ultimately show ?thesis using config_inv_gate_mgr [OF inv] by blast
  next
    case (Some d)
    note L = config_invD(1) [OF inv]
    from gate_connect_ok [OF L line assms(3) HOL.refl free _ fits] conf Some run obtain m where
      m: "am_getAgent m = (am_getAgent (cs_gate_mgr (nt_app n)))(?gid \<mapsto> (verified_agent new_agent_data (mi_param i) ?cid)\<lparr>ag_data := gate_data ?gid d\<rparr>)"
      "sent (gate_registered n ?cid ?gid m) c (packet (Msg MSGID_CS2GT_CONNECT_CONFIG_RESPONSE (ser_GateConnectResponse P (login_list (nt_app n))))) n'" by auto
    have "grows (gate_registered n ?cid ?gid m) n'" using sent_grows [OF _ _ m(2), of ?cid] L line by (simp add: gate_registered_def)
    from config_inv_new_gate [OF inv free(1) assms(4) line m(1) free(2) _ _ _ gate_registered_def this sent_queued_in [OF m(2)]] assms(3)
    show ?thesis by simp
  qed
qed

text \<open>The state after a login server was accepted and the gate servers were told.\<close>

lemma config_inv_new_login:
  assumes inv: "config_inv P n" and free: "cs_conn2agent_map (nt_app n) cid = Some 0" and lid: "lid \<noteq> 0"
    and mgr: "am_ok m" "am_getAgent m = (am_getAgent (cs_login_mgr (nt_app n)))(lid \<mapsto> a)"
    and new: "am_getAgent (cs_login_mgr (nt_app n)) lid = None" and a: "ag_conn_id a = cid"
    and n1: "n1 = upd_config n (\<lambda>s. s\<lparr>cs_login_mgr := m, cs_conn2agent_map := (cs_conn2agent_map s)(cid \<mapsto> lid),
      cs_login_conn_id_set := insort_insert cid (cs_login_conn_id_set s)\<rparr>)"
    and gr: "grows n1 n'" and told: "\<forall>g \<in> set (cs_gate_conn_id_set (nt_app n)). \<forall>c. mgr_get n g = Some c \<longrightarrow> told P n' c (ag_data a)"
  shows "config_inv P n'"
proof -
  note I = config_invD [OF inv] and U = config_inv_unregistered [OF inv disjI2 [OF free]] and G = growsD [OF gr]
  have lg: "logins_of n' = (logins_of n)(lid \<mapsto> a)" by (simp add: G(1) n1 logins_of_def mgr(2))
  have sets: "set (cs_login_conn_id_set (nt_app n')) = insert cid (set (cs_login_conn_id_set (nt_app n)))"
    "cs_gate_conn_id_set (nt_app n') = cs_gate_conn_id_set (nt_app n)"
    by (simp_all add: G(1) n1 set_insort_insert)
  have "gate_reachable n1 g" if "g \<in> set (cs_gate_conn_id_set (nt_app n))" for g
    using I(7) [OF that] U(3) that by (auto simp: n1 gate_reachable_def)
  then have reach: "\<forall>g \<in> set (cs_gate_conn_id_set (nt_app n')). gate_reachable n' g"
    unfolding sets gate_reachable_grows [OF gr] by blast
  have "told P n' c (ag_data x)" if "g \<in> set (cs_gate_conn_id_set (nt_app n))" "mgr_get n' g = Some c" "logins_of n' k = Some x" for g c k x
  proof (cases "k = lid")
    case True
    then show ?thesis using that told by (simp add: lg G(2) n1)
  next
    case False
    then have "told P n c (ag_data x)" using that I(8) [of g c k x] by (simp add: lg G(2) n1)
    then show ?thesis using told_grows [OF gr, of g c P "ag_data x"] that(2) by (simp add: G(2) n1 told_def queued_in_def)
  qed
  moreover have "k \<noteq> 0 \<and> cs_conn2agent_map (nt_app n') (ag_conn_id x) = Some k \<and> ag_conn_id x \<in> set (cs_login_conn_id_set (nt_app n'))"
    if "logins_of n' k = Some x" for k x
  proof (cases "k = lid")
    case True
    then show ?thesis using that a lid by (simp add: lg sets(1)) (simp add: G(1) n1)
  next
    case False
    then have old: "logins_of n k = Some x" using that by (simp add: lg)
    have "ag_conn_id x \<noteq> cid" using old U(1) [of k] by (auto simp: uses_conn_def)
    then show ?thesis using I(3,4,5) [OF old] by (simp add: sets(1)) (simp add: G(1) n1)
  qed
  moreover have "\<exists>k. uses_conn (logins_of n') l k" if "l \<in> insert cid (set (cs_login_conn_id_set (nt_app n)))" for l
  proof (cases "l = cid")
    case True
    then show ?thesis using a by (auto simp: lg intro!: exI [of _ lid])
  next
    case False
    with that I(6) [of l] obtain k where "uses_conn (logins_of n) l k" by auto
    moreover from this new have "k \<noteq> lid" by (auto simp: uses_conn_def logins_of_def)
    ultimately show ?thesis by (auto simp: lg intro!: exI [of _ k])
  qed
  moreover have "am_ok (cs_login_mgr (nt_app n'))" by (simp add: G(1) n1 mgr(1))
  ultimately show ?thesis
    unfolding config_inv_def using reach G(3) sets(2) unfolding sets(1) by auto
qed

definition login_registered :: "config \<Rightarrow> int \<Rightarrow> int \<Rightarrow> (int, agent_data) AgentManager \<Rightarrow> config" where
  "login_registered n cid lid m = upd_config n (\<lambda>s. s\<lparr>cs_login_mgr := m, cs_conn2agent_map := (cs_conn2agent_map s)(cid \<mapsto> lid),
     cs_login_conn_id_set := insort_insert cid (cs_login_conn_id_set s)\<rparr>)"

lemma login_connect_ok:
  assumes inv: "config_inv P n" and line: "mgr_get n (mi_conn_id i) = Some c" and "mi_param i \<noteq> 0"
    and parse: "parse_LoginConnectRequest P (mi_data i) = Some (lid, ip, port)"
    and free: "cs_conn2agent_map (nt_app n) (mi_conn_id i) = Some 0" and new: "am_getAgent (cs_login_mgr (nt_app n)) lid = None"
    and gs: "conf_entries (cs_gate_list (nt_app n)) [0..<cg_getSize (cs_gate_list (nt_app n))] = Some gs"
    and fits: "length (ser_LoginConnectResponse P gs) < 65531" "length (ser_NewLoginNotify P lid ip (uint (word_of_int port :: u16))) < 65531"
  shows "\<exists>m n'. processLoginConnect P n i = Some (0, n') \<and> am_ok m \<and>
    am_getAgent m = (am_getAgent (cs_login_mgr (nt_app n)))(lid \<mapsto>
      (verified_agent new_agent_data (mi_param i) (mi_conn_id i))\<lparr>ag_data := \<lparr>ad_id = lid, ad_ip = ip, ad_port = word_of_int port\<rparr>\<rparr>) \<and>
    grows (login_registered n (mi_conn_id i) lid m) n' \<and>
    (\<forall>g \<in> set (cs_gate_conn_id_set (nt_app n)). \<forall>c. mgr_get n g = Some c \<longrightarrow>
       queued_in n' c (packet (Msg MSGID_CS2GT_NEW_LOGIN_NOTIFY (ser_NewLoginNotify P lid ip (uint (word_of_int port :: u16))))))"
proof -
  note I = config_invD [OF inv] and U = config_inv_unregistered [OF inv disjI2 [OF free]]
  let ?cid = "mi_conn_id i" and ?bs = "ser_LoginConnectResponse P gs" and ?note = "ser_NewLoginNotify P lid ip (uint (word_of_int port :: u16))"
  let ?a = "verified_agent new_agent_data (mi_param i) ?cid" and ?data = "\<lparr>ad_id = lid, ad_ip = ip, ad_port = word_of_int port\<rparr>"
  let ?b = "?a\<lparr>ag_data := ?data\<rparr>"
  obtain k where k: "am_newAgent new_agent_data (cs_login_mgr (nt_app n)) lid (mi_param i) ?cid = (Some ?a, k)" "am_ok k"
    "am_getAgent k = (am_getAgent (cs_login_mgr (nt_app n)))(lid \<mapsto> ?a)"
    using am_new_ok [OF I(2) new, of ?cid new_agent_data "mi_param i"] U(1) by (auto simp: logins_of_def)
  let ?m = "am_setData k lid (\<lambda>_. ?data)"
  let ?n = "login_registered n ?cid lid ?m"
  have lines: "sender_ready ?n c" "lines_ok ?n" "mgr_get ?n ?cid = Some c"
    using I(1) line by (simp_all add: login_registered_def lines_ok_def upd_config_def)
  from agent_send_sent [of ?b ?n c ?bs MSGID_CS2LS_CONNECT_CONFIG_RESPONSE] assms(3) lines fits(1) obtain n2 where
    n2: "agent_conn_send ?n ?b MSGID_CS2LS_CONNECT_CONFIG_RESPONSE ?bs = Some (0, n2)"
      "sent ?n c (packet (Msg MSGID_CS2LS_CONNECT_CONFIG_RESPONSE ?bs)) n2" by auto
  note gr = sent_grows [OF lines(2,3) n2(2)]
  have gates: "cs_gate_conn_id_set (nt_app n2) = cs_gate_conn_id_set (nt_app n)" "mgr_get n2 g = mgr_get n g" for g
    by (simp_all add: growsD(1,2) [OF gr] login_registered_def)
  have "gate_reachable ?n g" if "g \<in> set (cs_gate_conn_id_set (nt_app n))" for g
    using I(7) [OF that] U(3) that by (auto simp: login_registered_def gate_reachable_def)
  then have "\<forall>g \<in> set (cs_gate_conn_id_set (nt_app n)). gate_reachable n2 g" unfolding gate_reachable_grows [OF gr] by blast
  from broadcast_loop_ok [OF growsD(3) [OF gr] this fits(2), of MSGID_CS2GT_NEW_LOGIN_NOTIFY] obtain n3 where
    n3: "broadcast_loop n2 (cs_gate_conn_id_set (nt_app n)) MSGID_CS2GT_NEW_LOGIN_NOTIFY ?note = Some (0, n3)" "grows n2 n3"
      "\<forall>g \<in> set (cs_gate_conn_id_set (nt_app n)). \<forall>c. mgr_get n2 g = Some c \<longrightarrow> queued_in n3 c (packet (Msg MSGID_CS2GT_NEW_LOGIN_NOTIFY ?note))" by blast
  have chk: "\<not> check_conn (nt_app n) ?cid < 0" using free by (simp add: check_conn_def)
  have "processLoginConnect P n i = do {
      (r, n) \<leftarrow> agent_conn_send ?n ?b MSGID_CS2LS_CONNECT_CONFIG_RESPONSE ?bs;
      if r < 0 then Some (- 1, n)
      else do { (r, n) \<leftarrow> broadcast_new_login_to_gate P n lid ip (word_of_int port); Some (if r < 0 then - 1 else 0, n) } }"
    using chk parse new k(1) gs fits(1) free by (simp add: processLoginConnect_def update_conn_def login_registered_def upd_config_def Let_def)
  then have "processLoginConnect P n i = Some (0, n3)"
    using n2(1) n3(1) fits(2) gates(1) by (simp add: broadcast_new_login_to_gate_def broadcast_msg_to_gate_def)
  then show ?thesis
    using am_setData_ok [OF k(2)] am_setData_get [of k lid "\<lambda>_. ?data"] k(3) grows_trans [OF gr n3(2)] n3(3) gates(2)
    by (intro exI [of _ ?m] exI [of _ n3]) simp
qed

lemma config_inv_Login:
  assumes inv: "config_inv P n" and line: "mgr_get n (mi_conn_id i) = Some c" and "mi_param i \<noteq> 0"
    and notify: "\<forall>k ip port. parse_LoginConnectRequest P (mi_data i) = Some (k, ip, port) \<longrightarrow>
      k \<noteq> 0 \<and> length (ser_NewLoginNotify P k ip (uint (word_of_int port :: u16))) < 65531"
    and fits: "\<forall>gs. conf_entries (cs_gate_list (nt_app n)) [0..<cg_getSize (cs_gate_list (nt_app n))] = Some gs \<longrightarrow>
      length (ser_LoginConnectResponse P gs) < 65531"
    and run: "processLoginConnect P n i = Some (r, n')"
  shows "config_inv P n'"
proof (cases "check_conn (nt_app n) (mi_conn_id i) < 0 \<or> parse_LoginConnectRequest P (mi_data i) = None \<or>
    am_getAgent (cs_login_mgr (nt_app n)) (fst (the (parse_LoginConnectRequest P (mi_data i)))) \<noteq> None")
  case True
  then have "n' = n" using run by (auto simp: processLoginConnect_def split: if_splits option.splits)
  then show ?thesis using inv by simp
next
  case False
  obtain lid ip port where parse: "parse_LoginConnectRequest P (mi_data i) = Some (lid, ip, port)"
    using False by (cases "parse_LoginConnectRequest P (mi_data i)") auto
  have new: "am_getAgent (cs_login_mgr (nt_app n)) lid = None" and free: "cs_conn2agent_map (nt_app n) (mi_conn_id i) = Some 0"
    using False parse check_conn_passes by auto
  have lid: "lid \<noteq> 0" "length (ser_NewLoginNotify P lid ip (uint (word_of_int port :: u16))) < 65531" using notify parse by auto
  have "fst (am_newAgent new_agent_data (cs_login_mgr (nt_app n)) lid (mi_param i) (mi_conn_id i)) \<noteq> None"
    using am_newAgent_get [OF new] by simp
  then obtain gs where gs: "conf_entries (cs_gate_list (nt_app n)) [0..<cg_getSize (cs_gate_list (nt_app n))] = Some gs"
    using run False parse new
    by (cases "conf_entries (cs_gate_list (nt_app n)) [0..<cg_getSize (cs_gate_list (nt_app n))]")
       (auto simp: processLoginConnect_def update_conn_def free split: prod.splits)
  have fit: "length (ser_LoginConnectResponse P gs) < 65531" using fits gs by simp
  let ?b = "(verified_agent new_agent_data (mi_param i) (mi_conn_id i))\<lparr>ag_data := \<lparr>ad_id = lid, ad_ip = ip, ad_port = word_of_int port\<rparr>\<rparr>"
  from login_connect_ok [OF inv line assms(3) parse free new gs fit lid(2)] run obtain m where m: "am_ok m"
    "am_getAgent m = (am_getAgent (cs_login_mgr (nt_app n)))(lid \<mapsto> ?b)" "grows (login_registered n (mi_conn_id i) lid m) n'"
    "\<forall>g \<in> set (cs_gate_conn_id_set (nt_app n)). \<forall>c. mgr_get n g = Some c \<longrightarrow>
       queued_in n' c (packet (Msg MSGID_CS2GT_NEW_LOGIN_NOTIFY (ser_NewLoginNotify P lid ip (uint (word_of_int port :: u16)))))" by auto
  from config_inv_new_login [OF inv free lid(1) m(1,2) new _ login_registered_def m(3)] m(4) show ?thesis by (simp add: told_def)
qed

lemma config_reach_inv:
  assumes "config_reach P n0 n" "config_inv P n0"
  shows "config_inv P n"
  using assms
proof (induction rule: config_reach.induct)
  case (Gate n i r n')
  then show ?case using config_inv_Gate [of P n i _ r n'] by blast
next
  case (Login n i r n')
  then show ?case using config_inv_Login [of P n i _ r n'] by blast
qed (auto intro: config_inv_Connect config_inv_Disconnect)

lemma config_inv_new: "lines_ok n \<Longrightarrow> nt_app n = new_config_state c \<Longrightarrow> config_inv P n"
  by (simp add: config_inv_def new_config_state_def logins_of_def am_getAgent_def am_ok_def new_agent_manager_def uses_conn_def)

text \<open>
  C8. Discovery. Starting with no server registered, in every state reached by connections, disconnects
  of unregistered connections and requests of login and gate servers in any order, every registered
  login server has its agent, every registered gate server has a connection, and on that connection
  the gate server has been told of the login server, in the list it got when it registered or in a
  notification.
\<close>

theorem every_gate_learns_every_login:
  assumes "lines_ok n0" "nt_app n0 = new_config_state cl" "config_reach P n0 n"
    and "l \<in> set (cs_login_conn_id_set (nt_app n))" "g \<in> set (cs_gate_conn_id_set (nt_app n))"
  shows "\<exists>a c. am_getAgentByConnId (cs_login_mgr (nt_app n)) l = Some a \<and> mgr_get n g = Some c \<and> told P n c (ag_data a)"
proof -
  have inv: "config_inv P n" using config_reach_inv [OF assms(3) config_inv_new [OF assms(1,2)]] .
  note I = config_invD [OF inv]
  obtain k a where a: "logins_of n k = Some a" "ag_conn_id a = l" using I(6) [OF assms(4)] by (auto simp: uses_conn_def)
  have "am_getAgentByConnId (cs_login_mgr (nt_app n)) l = Some a"
    using am_okD(2) [OF I(2), of l k] a by (simp add: am_getAgentByConnId_def uses_conn_def logins_of_def am_getAgent_eq)
  moreover obtain c where "mgr_get n g = Some c" using I(7) [OF assms(5)] by (auto simp: gate_reachable_def)
  ultimately show ?thesis using I(8) [OF assms(5) _ a(1)] by blast
qed

text \<open>The same server later, with another list of gate servers and other connections.\<close>

definition later :: "config \<Rightarrow> ConfGateList \<Rightarrow> (int \<Rightarrow> int option) \<Rightarrow> config" where
  "later n cl f = upd_config n (\<lambda>s. s\<lparr>cs_gate_list := cl, cs_conn2agent_map := f\<rparr>)"

text \<open>
  A gate server with an unknown id is locked out. A request with an id that is not in the list
  fails, but leaves the agent registered: the connection may go, and every later request with that id,
  on any connection and with the id added to the list meanwhile, is refused.
\<close>

theorem unknown_gate_id_locked_out:
  assumes "cs_conn2agent_map (nt_app n) (mi_conn_id i) = Some 0" "gate_id_of P (mi_data i) = gid"
    and "am_getAgent (cs_gate_mgr (nt_app n)) gid = None" "cg_getById (cs_gate_list (nt_app n)) gid = Some None"
    and "ei_conn_id e = mi_conn_id i" "mi_conn_id i \<notin> set (cs_login_conn_id_set (nt_app n))" "mi_conn_id i \<notin> set (cs_gate_conn_id_set (nt_app n))"
    and "gate_id_of P (mi_data j) = gid"
  shows "\<exists>n1 n2. processGateConnect P n i = Some (- 1, n1) \<and> cs_onDisconnect n1 e = Some (0, n2) \<and>
    processGateConnect P (later n2 cl f) j = Some (- 1, later n2 cl f)"
proof -
  have chk: "\<not> check_conn (nt_app n) (mi_conn_id i) < 0" using assms(1) by (simp add: check_conn_def)
  obtain k where k: "am_newAgent new_agent_data (cs_gate_mgr (nt_app n)) gid (mi_param i) (mi_conn_id i) = (Some (verified_agent new_agent_data (mi_param i) (mi_conn_id i)), k)"
    "am_getAgent k gid \<noteq> None"
    using am_newAgent_get [OF assms(3), of new_agent_data "mi_param i" "mi_conn_id i"]
    by (cases "am_newAgent new_agent_data (cs_gate_mgr (nt_app n)) gid (mi_param i) (mi_conn_id i)") auto
  let ?n1 = "upd_config n (\<lambda>s. s\<lparr>cs_gate_mgr := k\<rparr>)"
  let ?n2 = "upd_config ?n1 (\<lambda>s. s\<lparr>cs_conn2agent_map := (cs_conn2agent_map s)(mi_conn_id i := None)\<rparr>)"
  have "processGateConnect P n i = Some (- 1, ?n1)" using chk k(1) assms(2-4) by (simp add: processGateConnect_def)
  moreover have "cs_onDisconnect ?n1 e = Some (0, ?n2)" using assms(1,5-7) by (simp add: cs_onDisconnect_def)
  moreover have "processGateConnect P (later ?n2 cl f) j = Some (- 1, later ?n2 cl f)"
    using k(2) assms(8) by (simp add: processGateConnect_def later_def)
  ultimately show ?thesis by blast
qed

section \<open>A config server with one gate server and one login server\<close>

definition gate_json :: json_object where
  "gate_json = [(''server_name'', JString ''g''), (''server_id'', JInt 20001), (''server_ip'', JString ''ip''), (''server_port'', JInt 7)]"

definition gate_entry :: gate_conf where
  "gate_entry = \<lparr>gf_name = ''g'', gf_id = 20001, gf_ip = ''ip'', gf_port = 7, gf_platform = [], gf_channel_code = [],
     gf_is_busy = False, gf_is_maintenance = False\<rparr>"

lemma gate_json_entry: "entries_spec [gate_json] ([], []) = Some [gate_entry]" "fresh_addrs Suc"
  by (simp_all add: gate_json_def gate_entry_def read_entry_def string_member_def int_member_def optional_member_def fresh_addrs_def)


theorem reload_loses_gates_witness:
  "\<exists>c c'. loadJson Suc (new_conf_gate_list (replicate 99 0)) (JsonArray [gate_json]) = Some (True, c) \<and>
    cg_reload Suc (\<lambda>_. JsonArray [gate_json]) c = Some (True, c') \<and> cg_getSize c' = 0"
proof -
  have "\<exists>c. load_entries Suc [gate_json] ([], []) (new_conf_gate_list (replicate 99 0)) = Some (True, c)"
    using load_entries_loaded [OF gate_json_entry(2) loaded_new gate_json_entry(1)] by auto
  then obtain c where c: "loadJson Suc (new_conf_gate_list (replicate 99 0)) (JsonArray [gate_json]) = Some (True, c)"
    by (auto simp: loadJson_def)
  from reload_loses_gates [OF gate_json_entry(2,1) _ _ _ c HOL.refl gate_json_entry(1), of Suc] c show ?thesis by auto
qed

definition sample_config_codec :: config_codec where
  "sample_config_codec = \<lparr>gate_id_of = (\<lambda>_. 20001), parse_LoginConnectRequest = (\<lambda>_. Some (10001, ''ip'', 9)),
     ser_GateConnectResponse = (\<lambda>ls. [10, of_nat (length ls)]), ser_LoginConnectResponse = (\<lambda>gs. [10, of_nat (length gs)]),
     ser_NewLoginNotify = (\<lambda>_ _ _. [8, 1]), ser_RemoveLoginNotify = (\<lambda>_. [8, 2])\<rparr>"

definition idle_config :: "ConfGateList \<Rightarrow> config" where
  "idle_config c = two_lines (new_config_state c)"

lemma idle_config_lines: "lines_ok (idle_config c)"
  using two_lines_facts(4,5) [of "new_config_state c"] by (auto simp: lines_ok_def idle_config_def two_lines_facts(2,3) split: if_splits)

text \<open>Both connections are made, the gate server registers on 3 and then the login server on 4.\<close>

definition connect_event :: "int \<Rightarrow> JmyEventInfo" where
  "connect_event cid = \<lparr>ei_event_id = JMY_EVENT_CONNECT, ei_conn_id = cid, ei_param = 1, ei_param_l = 0\<rparr>"

lemma both_register:
  assumes "loaded Suc cl [gate_entry]"
  shows "\<exists>n. config_reach sample_config_codec (idle_config cl) n \<and> 4 \<in> set (cs_login_conn_id_set (nt_app n)) \<and> 3 \<in> set (cs_gate_conn_id_set (nt_app n))"
proof -
  let ?P = sample_config_codec and ?n0 = "idle_config cl" and ?i = "received_msg 0 20100 [] 3 1" and ?j = "received_msg 0 20110 [] 4 1"
  let ?n1 = "upd_config ?n0 (\<lambda>s. s\<lparr>cs_conn2agent_map := [3 \<mapsto> 0]\<rparr>)" and ?n2 = "upd_config ?n0 (\<lambda>s. s\<lparr>cs_conn2agent_map := [3 \<mapsto> 0, 4 \<mapsto> 0]\<rparr>)"
  have app: "nt_app ?n0 = new_config_state cl" "mgr_get ?n0 3 = Some 1" "mgr_get ?n0 4 = Some 2" by (simp_all add: idle_config_def two_lines_facts(1,2))
  have "cs_onConnect ?n0 (connect_event 3) = Some (0, ?n1)" "cs_onConnect ?n1 (connect_event 4) = Some (0, ?n2)"
    by (simp_all add: cs_onConnect_def connect_event_def app(1) new_config_state_def map_insert_def upd_config_def)
  then have r2: "config_reach ?P ?n0 ?n2" by (blast intro: config_reach.intros)
  have st: "cs_gate_list (nt_app ?n2) = cl" "am_getAgent (cs_gate_mgr (nt_app ?n2)) 20001 = None" "am_getAgent (cs_login_mgr (nt_app ?n2)) 10001 = None"
    by (simp_all add: app(1) new_config_state_def am_getAgent_def new_agent_manager_def)
  have cl: "cg_getById cl 20001 = Some (Some gate_entry)" "conf_entries cl [0..<cg_getSize cl] = Some [gate_entry]"
    using loadedD(1) [OF assms] loadedD(4,5) [OF assms, of 0] loaded_entries [OF gate_json_entry(2) assms] by (simp_all add: cg_getById_def gate_entry_def cg_getSize_def)
  from gate_connect_ok [of ?n2 ?i 1 ?P 20001 gate_entry] st cl(1) app idle_config_lines obtain m n3 where
    n3: "processGateConnect ?P ?n2 ?i = Some (0, n3)" "sent (gate_registered ?n2 3 20001 m) 1 (packet (Msg 20101 [10, 0])) n3"
    by (auto simp: sample_config_codec_def login_list_def new_config_state_def)
  have r3: "config_reach ?P ?n0 n3"
    using config_reach.Gate [OF r2 _ _ _ _ n3(1)] app(2) by (simp add: sample_config_codec_def)
  note S = sentD [OF n3(2)]
  have s3: "cs_conn2agent_map (nt_app n3) 4 = Some 0" "am_getAgent (cs_login_mgr (nt_app n3)) 10001 = None" "cs_gate_list (nt_app n3) = cl"
    "3 \<in> set (cs_gate_conn_id_set (nt_app n3))" "mgr_get n3 4 = Some 2"
    using st app(3) by (simp_all add: S(2,7) gate_registered_def app(1) new_config_state_def set_insort_insert)
  have inv: "config_inv ?P n3" using config_reach_inv [OF r3 config_inv_new [OF idle_config_lines app(1)]] .
  from login_connect_ok [OF inv, of ?j 2 10001 "''ip''" 9 "[gate_entry]"] s3 cl(2) obtain m' n4 where
    n4: "processLoginConnect ?P n3 ?j = Some (0, n4)" "grows (login_registered n3 4 10001 m') n4" by (auto simp: sample_config_codec_def)
  have "config_reach ?P ?n0 n4"
    using config_reach.Login [OF r3 _ _ _ _ n4(1)] s3(5) by (simp add: sample_config_codec_def)
  then show ?thesis using growsD(1) [OF n4(2)] s3(4) by (intro exI [of _ n4]) (simp add: login_registered_def set_insort_insert)
qed

theorem every_gate_learns_every_login_witness:
  "\<exists>cl n a c. config_reach sample_config_codec (idle_config cl) n \<and> am_getAgentByConnId (cs_login_mgr (nt_app n)) 4 = Some a \<and>
    mgr_get n 3 = Some c \<and> told sample_config_codec n c (ag_data a)"
proof -
  obtain cl where "loaded Suc cl [gate_entry]" using load_entries_loaded [OF gate_json_entry(2) loaded_new gate_json_entry(1)] by auto
  from both_register [OF this] obtain n where
    n: "config_reach sample_config_codec (idle_config cl) n" "4 \<in> set (cs_login_conn_id_set (nt_app n))" "3 \<in> set (cs_gate_conn_id_set (nt_app n))" by blast
  have "nt_app (idle_config cl) = new_config_state cl" by (simp add: idle_config_def two_lines_facts(1))
  from every_gate_learns_every_login [OF idle_config_lines this n] n(1) show ?thesis by blast
qed

theorem unknown_gate_id_locked_out_witness:
  "\<exists>n1 n2. processGateConnect sample_config_codec (later (idle_config (new_conf_gate_list [])) (new_conf_gate_list []) [3 \<mapsto> 0]) (received_msg 0 20100 [] 3 1) =
      Some (- 1, n1) \<and> cs_onDisconnect n1 (connect_event 3) = Some (0, n2) \<and>
    processGateConnect sample_config_codec (later n2 (new_conf_gate_list []) [4 \<mapsto> 0]) (received_msg 0 20100 [] 4 1) =
      Some (- 1, later n2 (new_conf_gate_list []) [4 \<mapsto> 0])"
  by (rule unknown_gate_id_locked_out [where gid = 20001])
     (simp_all add: later_def idle_config_def two_lines_facts(1) sample_config_codec_def am_getAgent_def new_agent_manager_def new_config_state_def
       cg_getById_def new_conf_gate_list_def connect_event_def)

end
