(* ===== verification/Player_Manager.thy ===== *)
theory Player_Manager
  imports Bi_Map
begin

text \<open>
  The players of the game server: \<open>ItemMgr\<close> of \<open>game_server/item.cpp\<close>, \<open>PlayerPool\<close> and \<open>PlayerManager\<close> of
  \<open>game_server/player.cpp\<close>. Players are reached by pointers, so the pool keeps the objects it allocated
  by address (0 is null). The table of item definitions is generated from a CSV file; what the code
  uses of it, the largest count of an item, is the parameter \<open>max_count\<close>. A level that was never
  written is \<open>None\<close>, as \<open>Player()\<close> does not initialise it.
\<close>

section \<open>ItemMgr\<close>

record Item =
  it_type_id :: u32
  it_item_num :: u32
  it_unique_id :: u64

type_synonym ItemMgr = "u32 \<Rightarrow> Item option"

definition add_item :: "(u32 \<Rightarrow> i32 option) \<Rightarrow> ItemMgr \<Rightarrow> u32 \<Rightarrow> u32 \<Rightarrow> bool \<times> ItemMgr" where
  "add_item max_count m type_id item_num =
     (case max_count type_id of
        None \<Rightarrow> (False, m)
      | Some mx \<Rightarrow>
          (case m type_id of
             None \<Rightarrow>
               (True, m(type_id \<mapsto> \<lparr>it_type_id = type_id, it_item_num = (if sint mx < sint item_num then mx else item_num), it_unique_id = 0\<rparr>))
           | Some it \<Rightarrow>
               let num = it_item_num it + item_num
               in (True, m(type_id \<mapsto> it\<lparr>it_item_num := (if sint num > sint mx then mx else num)\<rparr>))))"

definition rm_item :: "ItemMgr \<Rightarrow> u32 \<Rightarrow> u32 \<Rightarrow> bool \<times> ItemMgr" where
  "rm_item m type_id item_num =
     (case m type_id of
        None \<Rightarrow> (False, m)
      | Some it \<Rightarrow>
          if it_item_num it < item_num then (False, m)
          else (True, m(type_id \<mapsto> it\<lparr>it_item_num := it_item_num it - item_num\<rparr>)))"

section \<open>PlayerPool\<close>

record Player =
  pl_user_id :: int
  pl_role_id :: u64
  pl_acount :: string
  pl_level :: "i32 option"
  pl_items :: ItemMgr

definition new_player :: Player where
  "new_player = \<lparr>pl_user_id = 0, pl_role_id = 0, pl_acount = [], pl_level = None, pl_items = Map.empty\<rparr>"

record PlayerPool =
  pp_free_list :: "nat list"
  pp_used_set :: "nat set"
  pp_objs :: "nat \<Rightarrow> Player option"
  pp_fresh :: nat

definition new_player_pool :: PlayerPool where
  "new_player_pool = \<lparr>pp_free_list = [], pp_used_set = {}, pp_objs = Map.empty, pp_fresh = 1\<rparr>"

text \<open>\<open>jmy_mem_malloc<Player>()\<close> and \<open>jmy_mem_free\<close>.\<close>

definition pp_new :: "PlayerPool \<Rightarrow> nat \<times> PlayerPool" where
  "pp_new p = (pp_fresh p, p\<lparr>pp_objs := (pp_objs p)(pp_fresh p \<mapsto> new_player), pp_fresh := pp_fresh p + 1\<rparr>)"

definition pp_delete :: "PlayerPool \<Rightarrow> nat \<Rightarrow> PlayerPool option" where
  "pp_delete p a = do { require (pp_objs p a \<noteq> None); Some (p\<lparr>pp_objs := (pp_objs p)(a := None)\<rparr>) }"

primrec grow_times :: "nat \<Rightarrow> PlayerPool \<Rightarrow> PlayerPool" where
  "grow_times 0 p = p"
| "grow_times (Suc n) p = (let (a, p) = pp_new p in grow_times n (p\<lparr>pp_free_list := pp_free_list p @ [a]\<rparr>))"

abbreviation (input) ONCE_MALLOC_PLAYER_OBJ_COUNT :: nat where "ONCE_MALLOC_PLAYER_OBJ_COUNT \<equiv> 1000"

definition pp_grow :: "PlayerPool \<Rightarrow> PlayerPool" where
  "pp_grow p = grow_times ONCE_MALLOC_PLAYER_OBJ_COUNT p"

definition pp_init :: "PlayerPool \<Rightarrow> bool \<times> PlayerPool" where
  "pp_init p = (True, if pp_free_list p = [] then pp_grow p else p)"

fun delete_all :: "nat list \<Rightarrow> PlayerPool \<Rightarrow> PlayerPool option" where
  "delete_all [] p = Some p"
| "delete_all (a # as) p = (if a \<noteq> 0 then do { p \<leftarrow> pp_delete p a; delete_all as p } else delete_all as p)"

definition pp_clear :: "PlayerPool \<Rightarrow> PlayerPool option" where
  "pp_clear p = do {
     p \<leftarrow> delete_all (pp_free_list p) p;
     p \<leftarrow> delete_all (sorted_list_of_set (pp_used_set p)) (p\<lparr>pp_free_list := []\<rparr>);
     Some (p\<lparr>pp_used_set := {}\<rparr>)
   }"

definition pp_malloc :: "PlayerPool \<Rightarrow> (nat \<times> PlayerPool) option" where
  "pp_malloc p =
     (let p = (if length (pp_free_list p) < 100 then pp_grow p else p)
      in case pp_free_list p of
           [] \<Rightarrow> None
         | a # as \<Rightarrow> Some (a, p\<lparr>pp_used_set := insert a (pp_used_set p), pp_free_list := as\<rparr>))"

definition pp_free :: "PlayerPool \<Rightarrow> nat \<Rightarrow> bool \<times> PlayerPool" where
  "pp_free p a =
     (if a \<notin> pp_used_set p then (False, p)
      else (True, p\<lparr>pp_used_set := pp_used_set p - {a}, pp_free_list := a # pp_free_list p\<rparr>))"

section \<open>PlayerManager\<close>

datatype role_array = NullRoles | Roles "u64 list" | FreedRoles

record PlayerManager =
  pm_start_player_id :: int
  pm_max_player_size :: int
  pm_online_role_ids :: role_array
  pm_account2role_id :: "(string, u64) BiMap"
  pm_all_players :: "u64 \<Rightarrow> nat option"
  pm_pool :: PlayerPool

definition new_player_manager :: PlayerManager where
  "new_player_manager = \<lparr>pm_start_player_id = 0, pm_max_player_size = 0, pm_online_role_ids = NullRoles,
     pm_account2role_id = new_bimap, pm_all_players = Map.empty, pm_pool = new_player_pool\<rparr>"

definition pm_init :: "PlayerManager \<Rightarrow> int \<Rightarrow> int \<Rightarrow> bool \<times> PlayerManager" where
  "pm_init m start_id max_size =
     (if start_id \<le> 0 \<or> max_size \<le> 0 then (False, m)
      else if pm_online_role_ids m = NullRoles then
        (True, m\<lparr>pm_online_role_ids := Roles (replicate (nat max_size) 0), pm_start_player_id := start_id, pm_max_player_size := max_size\<rparr>)
      else (True, m))"

text \<open>\<open>clear\<close> keeps the released array pointer. The order in which the players are released does not matter.\<close>

definition pm_clear :: "PlayerManager \<Rightarrow> PlayerManager option" where
  "pm_clear m =
     (if pm_online_role_ids m = NullRoles then Some m
      else do {
        require (pm_online_role_ids m \<noteq> FreedRoles);
        p \<leftarrow> delete_all (sorted_list_of_set (ran (pm_all_players m))) (pm_pool m);
        Some (m\<lparr>pm_online_role_ids := FreedRoles, pm_pool := p, pm_all_players := Map.empty, pm_start_player_id := 0, pm_max_player_size := 0\<rparr>)
      })"

text \<open>\<open>int index = user_id - start_player_id_\<close>; a difference that is no \<open>int\<close> is undefined.\<close>

definition user_index :: "PlayerManager \<Rightarrow> int \<Rightarrow> int option" where
  "user_index m user_id = do {
     require (- (2 ^ 31) \<le> user_id - pm_start_player_id m);
     Some (user_id - pm_start_player_id m)
   }"

text \<open>Access to \<open>online_role_ids_[index]\<close>.\<close>

definition role_at :: "PlayerManager \<Rightarrow> int \<Rightarrow> u64 option" where
  "role_at m i =
     (case pm_online_role_ids m of
        Roles rs \<Rightarrow> if 0 \<le> i \<and> nat i < length rs then Some (rs ! nat i) else None
      | _ \<Rightarrow> None)"

definition set_role_at :: "PlayerManager \<Rightarrow> int \<Rightarrow> u64 \<Rightarrow> PlayerManager option" where
  "set_role_at m i r =
     (case pm_online_role_ids m of
        Roles rs \<Rightarrow> if 0 \<le> i \<and> nat i < length rs then Some (m\<lparr>pm_online_role_ids := Roles (rs[nat i := r])\<rparr>) else None
      | _ \<Rightarrow> None)"

definition pm_player :: "PlayerManager \<Rightarrow> nat \<Rightarrow> Player option" where
  "pm_player m a = pp_objs (pm_pool m) a"

definition pm_update :: "PlayerManager \<Rightarrow> nat \<Rightarrow> (Player \<Rightarrow> Player) \<Rightarrow> PlayerManager option" where
  "pm_update m a f = do {
     p \<leftarrow> pm_player m a;
     Some (m\<lparr>pm_pool := (pm_pool m)\<lparr>pp_objs := (pp_objs (pm_pool m))(a \<mapsto> f p)\<rparr>\<rparr>)
   }"

definition pm_malloc :: "PlayerManager \<Rightarrow> int \<Rightarrow> u64 \<Rightarrow> (nat \<times> PlayerManager) option" where
  "pm_malloc m user_id role_id = do {
     index \<leftarrow> user_index m user_id;
     if pm_online_role_ids m = NullRoles \<or> index < 0 \<or> index \<ge> pm_max_player_size m then Some (0, m)
     else do {
       m \<leftarrow> set_role_at m index role_id;
       (a, p) \<leftarrow> pp_malloc (pm_pool m);
       m \<leftarrow> pm_update (m\<lparr>pm_pool := p\<rparr>) a (\<lambda>x. x\<lparr>pl_user_id := user_id, pl_role_id := role_id\<rparr>);
       Some (a, m\<lparr>pm_all_players := map_insert (pm_all_players m) role_id a\<rparr>)
     }
   }"

definition pm_malloc_role :: "PlayerManager \<Rightarrow> u64 \<Rightarrow> (nat \<times> PlayerManager) option" where
  "pm_malloc_role m role_id = do {
     (a, p) \<leftarrow> pp_malloc (pm_pool m);
     m \<leftarrow> pm_update (m\<lparr>pm_pool := p\<rparr>) a (\<lambda>x. x\<lparr>pl_role_id := role_id\<rparr>);
     Some (a, m\<lparr>pm_all_players := map_insert (pm_all_players m) role_id a\<rparr>)
   }"

definition bind_account_role_id :: "PlayerManager \<Rightarrow> string \<Rightarrow> u64 \<Rightarrow> bool \<times> PlayerManager" where
  "bind_account_role_id m account role_id =
     (if pm_all_players m role_id = None then (False, m)
      else (True, m\<lparr>pm_account2role_id := snd (bimap_insert (pm_account2role_id m) account role_id)\<rparr>))"

definition getByRoleId :: "PlayerManager \<Rightarrow> u64 \<Rightarrow> nat" where
  "getByRoleId m role_id = (case pm_all_players m role_id of None \<Rightarrow> 0 | Some a \<Rightarrow> a)"

definition pm_get :: "PlayerManager \<Rightarrow> int \<Rightarrow> nat option" where
  "pm_get m user_id = do {
     index \<leftarrow> user_index m user_id;
     if index < 0 \<or> index \<ge> pm_max_player_size m then Some 0
     else if pm_online_role_ids m = NullRoles then Some 0
     else do { role_id \<leftarrow> role_at m index; Some (getByRoleId m role_id) }
   }"

definition getByAccount :: "PlayerManager \<Rightarrow> string \<Rightarrow> nat" where
  "getByAccount m account =
     (case find_1 (pm_account2role_id m) account of None \<Rightarrow> 0 | Some role_id \<Rightarrow> getByRoleId m role_id)"

definition pm_free :: "PlayerManager \<Rightarrow> int \<Rightarrow> (bool \<times> PlayerManager) option" where
  "pm_free m user_id = do {
     index \<leftarrow> user_index m user_id;
     if index < 0 \<or> index \<ge> pm_max_player_size m then Some (False, m)
     else do {
       role_id \<leftarrow> role_at m index;
       case pm_all_players m role_id of
         None \<Rightarrow> Some (False, m)
       | Some a \<Rightarrow>
           let (r, p) = pp_free (pm_pool m) a
           in if \<not> r then Some (False, m)
              else do {
                (_, b) \<leftarrow> remove_2 (pm_account2role_id m) role_id;
                m \<leftarrow> set_role_at (m\<lparr>pm_pool := p, pm_account2role_id := b\<rparr>) index 0;
                Some (True, m\<lparr>pm_all_players := (pm_all_players m)(role_id := None)\<rparr>)
              }
     }
   }"

definition pm_free_player :: "PlayerManager \<Rightarrow> nat \<Rightarrow> (bool \<times> PlayerManager) option" where
  "pm_free_player m a = do {
     x \<leftarrow> pm_player m a;
     index \<leftarrow> user_index m (pl_user_id x);
     if index < 0 \<or> index \<ge> pm_max_player_size m then Some (False, m)
     else
       let (r, p) = pp_free (pm_pool m) a
       in if \<not> r then Some (False, m)
          else do {
            (_, b) \<leftarrow> remove_2 (pm_account2role_id m) (pl_role_id x);
            set_role_at (m\<lparr>pm_pool := p, pm_account2role_id := b, pm_all_players := (pm_all_players m)(pl_role_id x := None)\<rparr>) index 0
              \<bind> (\<lambda>m. Some (True, m))
          }
   }"

definition getUserIdByRoleId :: "PlayerManager \<Rightarrow> u64 \<Rightarrow> int option" where
  "getUserIdByRoleId m role_id =
     (case pm_all_players m role_id of
        None \<Rightarrow> Some 0
      | Some a \<Rightarrow> if a = 0 then Some 0 else do { x \<leftarrow> pm_player m a; Some (pl_user_id x) })"

definition getRoleIdByUserId :: "PlayerManager \<Rightarrow> int \<Rightarrow> u64 option" where
  "getRoleIdByUserId m user_id = do {
     index \<leftarrow> user_index m user_id;
     if index < 0 \<or> index \<ge> pm_max_player_size m then Some 0 else role_at m index
   }"

section \<open>Items are counters with a limit\<close>

datatype item_op = AddItem u32 u32 | RmItem u32 u32

fun item_step :: "(u32 \<Rightarrow> i32 option) \<Rightarrow> ItemMgr \<Rightarrow> item_op \<Rightarrow> bool \<times> ItemMgr" where
  "item_step max_count m (AddItem t k) = add_item max_count m t k"
| "item_step max_count m (RmItem t k) = rm_item m t k"

text \<open>The reference: a map of unbounded counters, each cut at its limit.\<close>

fun count_step :: "(u32 \<Rightarrow> i32 option) \<Rightarrow> (u32 \<Rightarrow> nat option) \<Rightarrow> item_op \<Rightarrow> bool \<times> (u32 \<Rightarrow> nat option)" where
  "count_step max_count b (AddItem t k) =
     (case max_count t of
        None \<Rightarrow> (False, b)
      | Some mx \<Rightarrow> (True, b(t \<mapsto> min (unat mx) ((case b t of None \<Rightarrow> 0 | Some c \<Rightarrow> c) + unat k))))"
| "count_step max_count b (RmItem t k) =
     (case b t of None \<Rightarrow> (False, b) | Some c \<Rightarrow> if c < unat k then (False, b) else (True, b(t \<mapsto> c - unat k)))"

fun run_steps :: "('s \<Rightarrow> 'x \<Rightarrow> bool \<times> 's) \<Rightarrow> 'x list \<Rightarrow> 's \<Rightarrow> bool list \<times> 's" where
  "run_steps f [] s = ([], s)"
| "run_steps f (x # xs) s = (let (r, s) = f s x; (rs, s) = run_steps f xs s in (r # rs, s))"

definition item_counts :: "ItemMgr \<Rightarrow> u32 \<Rightarrow> nat option" where
  "item_counts m t = map_option (unat \<circ> it_item_num) (m t)"

text \<open>Every count is within its limit, and no limit is negative.\<close>

definition items_ok :: "(u32 \<Rightarrow> i32 option) \<Rightarrow> ItemMgr \<Rightarrow> bool" where
  "items_ok max_count m \<longleftrightarrow> (\<forall>t it. m t = Some it \<longrightarrow> (\<exists>mx. max_count t = Some mx \<and> unat (it_item_num it) \<le> unat mx))"

definition limits_ok :: "(u32 \<Rightarrow> i32 option) \<Rightarrow> bool" where
  "limits_ok max_count \<longleftrightarrow> (\<forall>t mx. max_count t = Some mx \<longrightarrow> 0 \<le> sint mx)"

text \<open>The amount of an addition leaves room below the largest \<open>int\<close>.\<close>

fun amount_ok :: "(u32 \<Rightarrow> i32 option) \<Rightarrow> item_op \<Rightarrow> bool" where
  "amount_ok max_count (AddItem t k) \<longleftrightarrow> (case max_count t of None \<Rightarrow> True | Some mx \<Rightarrow> unat mx + unat k < 2 ^ 31)"
| "amount_ok max_count (RmItem t k) \<longleftrightarrow> True"

lemma shifted_mod: "n < 4294967296 \<Longrightarrow> (int n + 2147483648) mod 4294967296 = (if n < 2147483648 then int n + 2147483648 else int n - 2147483648)"
  using mod_pos_geq [of 4294967296 "int n + 2147483648"] by (cases "n < 2147483648") simp_all

lemma sint_unat: "sint w = (if unat w < 2 ^ 31 then int (unat w) else int (unat w) - 2 ^ 32)" for w :: i32
proof -
  have "sint w = (uint w + 2147483648) mod 4294967296 - 2147483648"
    by (simp add: sint_uint signed_take_bit_eq_take_bit_shift take_bit_eq_mod)
  moreover have "unat w < 4294967296" using unsigned_less [of w, where 'a = nat] by simp
  ultimately show ?thesis by (simp add: shifted_mod uint_nat del: of_nat_unat)
qed

lemma limits_small: "limits_ok max_count \<Longrightarrow> max_count t = Some mx \<Longrightarrow> unat mx < 2 ^ 31"
proof (rule ccontr)
  assume "limits_ok max_count" "max_count t = Some mx" "\<not> unat mx < 2 ^ 31"
  moreover have "int (unat mx) < 2 ^ 32" using unsigned_less [of mx, where 'a = int] by simp
  moreover from calculation have "0 \<le> sint mx" unfolding limits_ok_def by blast
  ultimately show False by (simp add: sint_unat del: of_nat_unat)
qed

text \<open>Cutting a wrapped sum at a limit with signed comparison.\<close>

lemma capped_sum:
  fixes c k mx :: i32
  assumes "unat mx < 2 ^ 31" "unat c \<le> unat mx"
  shows "unat (if sint (c + k) > sint mx then mx else c + k) =
     (if unat (c + k) < 2 ^ 31 then min (unat mx) (unat (c + k)) else unat (c + k))"
proof -
  have "int (unat (c + k)) < 2 ^ 32" using unsigned_less [of "c + k", where 'a = int] by simp
  then show ?thesis using assms(1) unfolding sint_unat by (auto simp del: of_nat_unat)
qed

lemma unat_sum: "unat c + unat k < 2 ^ 31 \<Longrightarrow> unat (c + k) = unat c + unat k" for c k :: i32
  by (simp add: unat_word_ariths)

lemma add_item_count:
  assumes "limits_ok max_count" "items_ok max_count m" "max_count t = Some mx"
  shows "fst (add_item max_count m t k)" and
    "item_counts (snd (add_item max_count m t k)) = (item_counts m)(t \<mapsto>
       (let s = (case m t of None \<Rightarrow> 0 | Some it \<Rightarrow> it_item_num it) + k
        in if unat s < 2 ^ 31 then min (unat mx) (unat s) else unat s))"
proof -
  show "fst (add_item max_count m t k)" using assms(3) by (simp add: add_item_def Let_def split: option.split)
  have mx: "unat mx < 2 ^ 31" using limits_small [OF assms(1,3)] .
  have "unat (it_item_num it) \<le> unat mx" if "m t = Some it" for it using assms(2,3) that by (fastforce simp: items_ok_def)
  then show "item_counts (snd (add_item max_count m t k)) = (item_counts m)(t \<mapsto>
       (let s = (case m t of None \<Rightarrow> 0 | Some it \<Rightarrow> it_item_num it) + k
        in if unat s < 2 ^ 31 then min (unat mx) (unat s) else unat s))"
    using assms(3) capped_sum [OF mx, of 0 k] capped_sum [OF mx]
    by (auto simp: add_item_def item_counts_def fun_eq_iff Let_def split: option.split)
qed

lemma items_ok_counts: "items_ok max_count m \<longleftrightarrow> (\<forall>t c. item_counts m t = Some c \<longrightarrow> (\<exists>mx. max_count t = Some mx \<and> c \<le> unat mx))"
  by (auto simp: items_ok_def item_counts_def)

lemma count_step_add:
  assumes "limits_ok max_count" "items_ok max_count m" "amount_ok max_count (AddItem t k)"
  shows "item_counts (snd (add_item max_count m t k)) = snd (count_step max_count (item_counts m) (AddItem t k))"
    "fst (add_item max_count m t k) = fst (count_step max_count (item_counts m) (AddItem t k))"
proof -
  consider "max_count t = None" | mx where "max_count t = Some mx" "unat mx + unat k < 2 ^ 31"
    using assms(3) by (cases "max_count t") auto
  then have "item_counts (snd (add_item max_count m t k)) = snd (count_step max_count (item_counts m) (AddItem t k)) \<and>
    fst (add_item max_count m t k) = fst (count_step max_count (item_counts m) (AddItem t k))"
  proof cases
    case 2
    define c where "c = (case m t of None \<Rightarrow> 0 | Some it \<Rightarrow> it_item_num it)"
    have "unat c \<le> unat mx" using assms(2) 2(1) by (fastforce simp: c_def items_ok_def split: option.split)
    with 2(2) have "unat (c + k) = unat c + unat k" "unat c + unat k < 2 ^ 31" by (simp_all add: unat_sum)
    moreover have "unat c = (case item_counts m t of None \<Rightarrow> 0 | Some c \<Rightarrow> c)"
      by (simp add: c_def item_counts_def split: option.split)
    ultimately show ?thesis
      using add_item_count [OF assms(1,2) 2(1), of k, folded c_def] 2(1) by simp
  qed (simp add: add_item_def)
  then show "item_counts (snd (add_item max_count m t k)) = snd (count_step max_count (item_counts m) (AddItem t k))"
    "fst (add_item max_count m t k) = fst (count_step max_count (item_counts m) (AddItem t k))" by blast+
qed

lemma count_step_rm:
  "item_counts (snd (rm_item m t k)) = snd (count_step max_count (item_counts m) (RmItem t k))"
  "fst (rm_item m t k) = fst (count_step max_count (item_counts m) (RmItem t k))"
  by (auto simp: rm_item_def item_counts_def word_less_nat_alt unat_sub word_le_nat_alt split: option.split)

lemma item_step_refines:
  assumes "limits_ok max_count" "items_ok max_count m" "amount_ok max_count x"
  shows "item_counts (snd (item_step max_count m x)) = snd (count_step max_count (item_counts m) x)"
    "fst (item_step max_count m x) = fst (count_step max_count (item_counts m) x)"
    "items_ok max_count (snd (item_step max_count m x))"
proof -
  show *: "item_counts (snd (item_step max_count m x)) = snd (count_step max_count (item_counts m) x)"
    using count_step_add(1) [OF assms(1,2)] count_step_rm(1) assms(3) by (cases x) simp_all
  show "fst (item_step max_count m x) = fst (count_step max_count (item_counts m) x)"
    using count_step_add(2) [OF assms(1,2)] count_step_rm(2) assms(3) by (cases x) simp_all
  show "items_ok max_count (snd (item_step max_count m x))"
    using assms(2) unfolding items_ok_counts * by (cases x) (fastforce split: option.splits if_splits)+
qed



text \<open>
  The limit of an item can be passed. With counts within their limits, an addition keeps them so
  exactly when the 32 bit sum, read as an \<open>int\<close>, is not negative: an amount that makes the sum
  reach \<open>2 ^ 31\<close> is stored as it is.
\<close>

theorem item_limit_kept_iff:
  assumes "limits_ok max_count" "items_ok max_count m" "max_count t = Some mx"
  shows "items_ok max_count (snd (add_item max_count m t k)) \<longleftrightarrow>
    0 \<le> sint ((case m t of None \<Rightarrow> 0 | Some it \<Rightarrow> it_item_num it) + k)"
proof -
  let ?s = "(case m t of None \<Rightarrow> 0 | Some it \<Rightarrow> it_item_num it) + k"
  have "0 \<le> sint ?s \<longleftrightarrow> unat ?s < 2 ^ 31"
    using unsigned_less [of ?s, where 'a = int] by (simp add: sint_unat)
  moreover have "unat mx < 2 ^ 31" using limits_small [OF assms(1,3)] .
  ultimately show ?thesis
    using assms(2,3) unfolding items_ok_counts add_item_count(2) [OF assms] by (auto simp: Let_def split: if_splits)
qed

theorem item_limit_kept_iff_witness:
  "\<not> items_ok [7 \<mapsto> 99] (snd (add_item [7 \<mapsto> 99] Map.empty 7 0xFFFFFFFF)) \<and> items_ok [7 \<mapsto> 99] (snd (add_item [7 \<mapsto> 99] Map.empty 7 500))"
proof -
  have "limits_ok [7 \<mapsto> 99]" "items_ok [7 \<mapsto> 99] Map.empty" by (simp_all add: limits_ok_def items_ok_def)
  from item_limit_kept_iff [OF this, of 7 99] show ?thesis by simp
qed

section \<open>The pool never lends a player twice\<close>

definition player_pool_ok :: "PlayerPool \<Rightarrow> bool" where
  "player_pool_ok p \<longleftrightarrow> distinct (pp_free_list p) \<and> set (pp_free_list p) \<inter> pp_used_set p = {} \<and> 0 < pp_fresh p \<and>
     (\<forall>a \<in> set (pp_free_list p) \<union> pp_used_set p. 0 < a \<and> a < pp_fresh p \<and> pp_objs p a \<noteq> None)"

lemma grow_times_eq:
  "grow_times n p = p\<lparr>pp_free_list := pp_free_list p @ [pp_fresh p..<pp_fresh p + n], pp_fresh := pp_fresh p + n,
     pp_objs := (\<lambda>a. if pp_fresh p \<le> a \<and> a < pp_fresh p + n then Some new_player else pp_objs p a)\<rparr>"
proof (induction n arbitrary: p)
  case (Suc n)
  have "[pp_fresh p..<pp_fresh p + Suc n] = pp_fresh p # [Suc (pp_fresh p)..<Suc (pp_fresh p) + n]" by (simp add: upt_conv_Cons)
  then show ?case by (auto simp: Suc.IH pp_new_def Let_def fun_eq_iff intro!: PlayerPool.equality)
qed (auto simp: fun_eq_iff intro!: PlayerPool.equality)

lemma pool_below:
  assumes "player_pool_ok p"
  shows "a \<in> set (pp_free_list p) \<Longrightarrow> a < pp_fresh p" "a \<in> pp_used_set p \<Longrightarrow> a < pp_fresh p"
  using assms by (simp_all add: player_pool_ok_def)

lemma grow_ok:
  assumes "player_pool_ok p"
  shows "player_pool_ok (pp_grow p)" "a \<in> pp_used_set p \<Longrightarrow> pp_objs (pp_grow p) a = pp_objs p a"
proof -
  have *: "b \<in> set (pp_free_list p) \<union> pp_used_set p \<Longrightarrow> 0 < b \<and> b < pp_fresh p \<and> b < pp_fresh p + 1000 \<and> pp_objs p b \<noteq> None" for b
    using assms by (simp add: player_pool_ok_def trans_less_add1)
  have "set (pp_free_list p) \<inter> {pp_fresh p..<pp_fresh p + 1000} = {}" "{pp_fresh p..<pp_fresh p + 1000} \<inter> pp_used_set p = {}"
    using * by force+
  then show "player_pool_ok (pp_grow p)"
    using assms * by (auto simp: player_pool_ok_def pp_grow_def grow_times_eq Int_Un_distrib2)
  show "a \<in> pp_used_set p \<Longrightarrow> pp_objs (pp_grow p) a = pp_objs p a"
    using * [of a] by (simp add: pp_grow_def grow_times_eq)
qed

lemma new_player_pool_ok [simp]: "player_pool_ok new_player_pool"
  by (simp add: player_pool_ok_def new_player_pool_def)

text \<open>\<open>lent p a p'\<close>: \<open>a\<close> was not in use before, is in use after, and the objects in use are untouched.\<close>

definition lent :: "PlayerPool \<Rightarrow> nat \<Rightarrow> PlayerPool \<Rightarrow> bool" where
  "lent p a p' \<longleftrightarrow> player_pool_ok p' \<and> a \<notin> pp_used_set p \<and> 0 < a \<and> pp_used_set p' = insert a (pp_used_set p) \<and>
     (\<forall>b \<in> pp_used_set p. pp_objs p' b = pp_objs p b) \<and> pp_objs p' a \<noteq> None"

lemma pp_malloc_lent:
  assumes "player_pool_ok p"
  shows "\<exists>a p'. pp_malloc p = Some (a, p') \<and> lent p a p'"
proof -
  define q where "q = (if length (pp_free_list p) < 100 then pp_grow p else p)"
  have q: "player_pool_ok q" "pp_used_set q = pp_used_set p" "\<forall>b \<in> pp_used_set p. pp_objs q b = pp_objs p b"
    using assms grow_ok [OF assms] by (auto simp: q_def) (simp_all add: pp_grow_def grow_times_eq)
  have "pp_free_list q \<noteq> []" by (auto simp: q_def pp_grow_def grow_times_eq)
  then obtain a as where a: "pp_free_list q = a # as" by (cases "pp_free_list q") auto
  then have "pp_malloc p = Some (a, q\<lparr>pp_used_set := insert a (pp_used_set q), pp_free_list := as\<rparr>)"
    by (simp add: pp_malloc_def q_def [symmetric] Let_def)
  moreover have "lent p a (q\<lparr>pp_used_set := insert a (pp_used_set q), pp_free_list := as\<rparr>)"
    using q a by (auto simp: lent_def player_pool_ok_def)
  ultimately show ?thesis by blast
qed

lemma pp_free_held: "player_pool_ok p \<Longrightarrow> a \<in> pp_used_set p \<Longrightarrow>
  \<exists>p'. pp_free p a = (True, p') \<and> player_pool_ok p' \<and> pp_used_set p' = pp_used_set p - {a} \<and> pp_objs p' = pp_objs p"
  by (auto simp: pp_free_def player_pool_ok_def)

section \<open>The players and their seats\<close>

definition in_range :: "PlayerManager \<Rightarrow> int \<Rightarrow> bool" where
  "in_range m u \<longleftrightarrow> pm_start_player_id m \<le> u \<and> u < pm_start_player_id m + pm_max_player_size m"

text \<open>The role that sits at a user id, 0 for none.\<close>

definition seat :: "PlayerManager \<Rightarrow> int \<Rightarrow> u64" where
  "seat m u = (case pm_online_role_ids m of
     Roles rs \<Rightarrow> if in_range m u then rs ! nat (u - pm_start_player_id m) else 0 | _ \<Rightarrow> 0)"

lemma seat_upd [simp]:
  "seat (m\<lparr>pm_pool := p\<rparr>) = seat m" "seat (m\<lparr>pm_all_players := q\<rparr>) = seat m" "seat (m\<lparr>pm_account2role_id := b\<rparr>) = seat m"
  by (auto simp: seat_def in_range_def fun_eq_iff split: role_array.split)

lemma set_role_at_upd:
  "set_role_at (m\<lparr>pm_pool := p, pm_account2role_id := b\<rparr>) i r = map_option (\<lambda>m. m\<lparr>pm_pool := p, pm_account2role_id := b\<rparr>) (set_role_at m i r)"
  by (simp add: set_role_at_def split: role_array.split)

definition pm_ok :: "PlayerManager \<Rightarrow> bool" where
  "pm_ok m \<longleftrightarrow> (\<exists>rs. pm_online_role_ids m = Roles rs \<and> length rs = nat (pm_max_player_size m)) \<and>
     0 < pm_start_player_id m \<and> 0 < pm_max_player_size m \<and> player_pool_ok (pm_pool m) \<and> pm_account2role_id m = new_bimap \<and>
     (\<forall>r a. pm_all_players m r = Some a \<longrightarrow> a \<in> pp_used_set (pm_pool m) \<and> (\<exists>x. pm_player m a = Some x \<and> pl_role_id x = r))"

text \<open>The difference of a user id and the first one is an \<open>int\<close>.\<close>

definition id_ok :: "PlayerManager \<Rightarrow> int \<Rightarrow> bool" where
  "id_ok m u \<longleftrightarrow> - (2 ^ 31) \<le> u - pm_start_player_id m"

lemma id_ok_nonneg: "pm_start_player_id m \<le> 2 ^ 31 \<Longrightarrow> 0 \<le> u \<Longrightarrow> id_ok m u"
  by (simp add: id_ok_def)

lemma in_range_id_ok [simp]: "in_range m u \<Longrightarrow> id_ok m u"
  by (simp add: in_range_def id_ok_def)

lemma user_index_ok [simp]: "id_ok m u \<Longrightarrow> user_index m u = Some (u - pm_start_player_id m)"
  by (simp add: id_ok_def user_index_def)

lemma range_index: "u - pm_start_player_id m < 0 \<or> pm_max_player_size m \<le> u - pm_start_player_id m \<longleftrightarrow> \<not> in_range m u"
  by (auto simp: in_range_def)

lemma role_at_seat: "pm_ok m \<Longrightarrow> in_range m u \<Longrightarrow> role_at m (u - pm_start_player_id m) = Some (seat m u)"
  by (auto simp: pm_ok_def role_at_def seat_def in_range_def)

lemma pm_ok_roles: "pm_ok m \<Longrightarrow> pm_online_role_ids m \<noteq> NullRoles"
  by (auto simp: pm_ok_def)

lemma pm_get_seat:
  assumes "pm_ok m" "id_ok m u"
  shows "pm_get m u = Some (if in_range m u then getByRoleId m (seat m u) else 0)"
  using assms range_index [of u m] role_at_seat [OF assms(1), of u] pm_ok_roles [OF assms(1)]
  by (cases "in_range m u") (auto simp: pm_get_def)

lemma getByRoleId_iff: "pm_ok m \<Longrightarrow> getByRoleId m r = 0 \<longleftrightarrow> pm_all_players m r = None"
  by (fastforce simp: getByRoleId_def pm_ok_def player_pool_ok_def split: option.split)

lemma set_role_at_seat:
  assumes "pm_ok m" "in_range m u"
  shows "\<exists>rs. set_role_at m (u - pm_start_player_id m) r = Some (m\<lparr>pm_online_role_ids := Roles rs\<rparr>) \<and> length rs = nat (pm_max_player_size m) \<and>
    seat (m\<lparr>pm_online_role_ids := Roles rs\<rparr>) = (seat m)(u := r)"
  using assms by (auto simp: pm_ok_def set_role_at_def seat_def in_range_def fun_eq_iff nth_list_update nat_eq_iff)

lemma pm_ok_same:
  "pm_ok m \<Longrightarrow> length rs = nat (pm_max_player_size m) \<Longrightarrow> pm_ok (m\<lparr>pm_online_role_ids := Roles rs\<rparr>)"
  by (simp add: pm_ok_def pm_player_def)

text \<open>
  \<open>seated m u r a m'\<close>: role \<open>r\<close> has taken the seat \<open>u\<close> with the player object \<open>a\<close>, which was not in use. The object
  is the player of the role only if the role had none.
\<close>

definition seated :: "PlayerManager \<Rightarrow> int \<Rightarrow> u64 \<Rightarrow> nat \<Rightarrow> PlayerManager \<Rightarrow> bool" where
  "seated m u r a m' \<longleftrightarrow> pm_ok m' \<and> pm_start_player_id m' = pm_start_player_id m \<and> pm_max_player_size m' = pm_max_player_size m \<and>
     0 < a \<and> a \<notin> pp_used_set (pm_pool m) \<and> seat m' = (seat m)(u := r) \<and> pm_all_players m' = map_insert (pm_all_players m) r a \<and>
     (\<forall>b \<in> pp_used_set (pm_pool m). pm_player m' b = pm_player m b) \<and>
     (\<exists>x. pm_player m' a = Some x \<and> pl_user_id x = u \<and> pl_role_id x = r)"

lemma pm_malloc_seated:
  assumes "pm_ok m" "in_range m u"
  shows "\<exists>a m'. pm_malloc m u r = Some (a, m') \<and> seated m u r a m'"
proof -
  from set_role_at_seat [OF assms] obtain rs where rs: "set_role_at m (u - pm_start_player_id m) r = Some (m\<lparr>pm_online_role_ids := Roles rs\<rparr>)"
    "length rs = nat (pm_max_player_size m)" "seat (m\<lparr>pm_online_role_ids := Roles rs\<rparr>) = (seat m)(u := r)" by blast
  have "player_pool_ok (pm_pool m)" using assms(1) by (simp add: pm_ok_def)
  from pp_malloc_lent [OF this] obtain a p where p: "pp_malloc (pm_pool m) = Some (a, p)" "lent (pm_pool m) a p" by blast
  then obtain x where x: "pp_objs p a = Some x" by (auto simp: lent_def)
  let ?x = "x\<lparr>pl_user_id := u, pl_role_id := r\<rparr>"
  let ?m = "m\<lparr>pm_online_role_ids := Roles rs, pm_pool := p\<lparr>pp_objs := (pp_objs p)(a \<mapsto> ?x)\<rparr>, pm_all_players := map_insert (pm_all_players m) r a\<rparr>"
  have "pm_malloc m u r = Some (a, ?m)"
    using assms range_index [of u m] pm_ok_roles [OF assms(1)] rs(1) p(1) x
    by (simp add: pm_malloc_def pm_update_def pm_player_def)
  moreover have used: "pm_all_players m q = Some b \<Longrightarrow> b \<noteq> a \<and> b \<in> pp_used_set (pm_pool m) \<and> pp_objs p b = pp_objs (pm_pool m) b" for q b
    using assms(1) p(2) by (auto simp: pm_ok_def lent_def)
  have "pm_ok ?m"
    using assms(1) p(2) rs(2) used by (fastforce simp: pm_ok_def lent_def player_pool_ok_def pm_player_def map_insert_def)
  moreover have "seat ?m = (seat m)(u := r)" using rs(3) by simp
  ultimately show ?thesis
    using p(2) by (fastforce simp: seated_def lent_def pm_player_def)
qed

lemma new_bimap_remove: "remove_2 new_bimap r = Some (False, new_bimap)"
  by (simp add: remove_2_def new_bimap_def)

text \<open>\<open>vacated m u m'\<close>: the seat \<open>u\<close> was given up and its role is no longer registered; the object went back to the pool as it was.\<close>

definition vacated :: "PlayerManager \<Rightarrow> int \<Rightarrow> PlayerManager \<Rightarrow> bool" where
  "vacated m u m' \<longleftrightarrow> pm_ok m' \<and> pm_start_player_id m' = pm_start_player_id m \<and> pm_max_player_size m' = pm_max_player_size m \<and>
     seat m' = (seat m)(u := 0) \<and> pm_all_players m' = (pm_all_players m)(seat m u := None) \<and>
     pm_player m' = pm_player m \<and> pp_free_list (pm_pool m') = getByRoleId m (seat m u) # pp_free_list (pm_pool m)"

lemma pm_free_eq:
  assumes "pm_ok m" "id_ok m u"
  shows "\<exists>m'. pm_free m u = Some (in_range m u \<and> pm_all_players m (seat m u) \<noteq> None, m') \<and>
     (if in_range m u \<and> pm_all_players m (seat m u) \<noteq> None then vacated m u m' else m' = m)"
proof (cases "in_range m u \<and> pm_all_players m (seat m u) \<noteq> None")
  case True
  then obtain a where a: "pm_all_players m (seat m u) = Some a" and u: "in_range m u" by blast
  have ok: "player_pool_ok (pm_pool m)" "a \<in> pp_used_set (pm_pool m)" "pm_account2role_id m = new_bimap"
    using assms(1) a by (auto simp: pm_ok_def)
  from set_role_at_seat [OF assms(1) u, of 0] obtain rs where rs: "set_role_at m (u - pm_start_player_id m) 0 = Some (m\<lparr>pm_online_role_ids := Roles rs\<rparr>)"
    "length rs = nat (pm_max_player_size m)" "seat (m\<lparr>pm_online_role_ids := Roles rs\<rparr>) = (seat m)(u := 0)" by blast
  define p where "p = (pm_pool m)\<lparr>pp_used_set := pp_used_set (pm_pool m) - {a}, pp_free_list := a # pp_free_list (pm_pool m)\<rparr>"
  have p: "pp_free (pm_pool m) a = (True, p)" using ok(2) by (simp add: pp_free_def p_def)
  let ?m = "m\<lparr>pm_online_role_ids := Roles rs, pm_pool := p, pm_all_players := (pm_all_players m)(seat m u := None)\<rparr>"
  have "pm_free m u = Some (True, ?m)"
    using assms(2) range_index [of u m] u a p ok(3) role_at_seat [OF assms(1) u] rs(1)
    by (simp add: pm_free_def new_bimap_remove set_role_at_upd)
  moreover have "seat ?m = (seat m)(u := 0)" using rs(3) by simp
  moreover have "player_pool_ok p" using ok(1,2) by (auto simp: player_pool_ok_def p_def)
  moreover have "pm_all_players m r = Some b \<Longrightarrow> r \<noteq> seat m u \<Longrightarrow> b \<noteq> a" for r b
    using assms(1) a unfolding pm_ok_def by (metis option.inject)
  then have "pm_ok ?m"
    using assms(1) rs(2) \<open>player_pool_ok p\<close> by (fastforce simp: pm_ok_def pm_player_def p_def)
  ultimately show ?thesis using True a by (simp add: vacated_def pm_player_def fun_eq_iff p_def getByRoleId_def)
next
  case False
  then show ?thesis
    using assms range_index [of u m] role_at_seat [OF assms(1), of u] by (cases "in_range m u") (auto simp: pm_free_def)
qed

text \<open>
  A player object is handed on with its belongings. When the player at a seat is freed and another
  role is seated next, while at least 99 objects were free, the new player is the same object with only the user id and the
  role replaced: it starts with the items and the level of the one before.
\<close>

theorem freed_player_passes_items_on:
  assumes "pm_ok m" "in_range m u" "pm_all_players m (seat m u) = Some a" "pm_player m a = Some x"
    and "99 \<le> length (pp_free_list (pm_pool m))" "in_range m v" "pm_all_players m r = None"
  shows "\<exists>m1 m2. pm_free m u = Some (True, m1) \<and> pm_malloc m1 v r = Some (a, m2) \<and> getByRoleId m2 r = a \<and>
    pm_player m2 a = Some (x\<lparr>pl_user_id := v, pl_role_id := r\<rparr>)"
proof -
  from pm_free_eq [OF assms(1) in_range_id_ok [OF assms(2)]] assms(2,3) obtain m1 where
    free: "pm_free m u = Some (True, m1)" and m1: "vacated m u m1" by auto
  have v: "in_range m1 v" "pm_ok m1" using m1 assms(6) by (simp_all add: vacated_def in_range_def)
  from pm_malloc_seated [OF v(2,1), of r] obtain b m2 where malloc: "pm_malloc m1 v r = Some (b, m2)" and m2: "seated m1 v r b m2" by blast
  have "pp_free_list (pm_pool m1) = a # pp_free_list (pm_pool m)" using m1 assms(3) by (simp add: vacated_def getByRoleId_def)
  moreover have "pm_player m1 a = Some x" using m1 assms(4) by (simp add: vacated_def)
  ultimately have "b = a \<and> pm_player m2 a = Some (x\<lparr>pl_user_id := v, pl_role_id := r\<rparr>)"
    using malloc v range_index [of v m1] pm_ok_roles [OF v(2)] assms(5)
    by (auto simp: pm_malloc_def pp_malloc_def pm_update_def pm_player_def set_role_at_def Let_def split: bind_splits role_array.splits if_splits)
  moreover have "pm_all_players m1 r = None" using m1 assms(3,7) by (auto simp: vacated_def)
  ultimately show ?thesis using free malloc m2 by (auto simp: seated_def getByRoleId_def map_insert_def)
qed

lemma pm_init_ok: "0 < s \<Longrightarrow> 0 < k \<Longrightarrow> pm_ok (snd (pm_init new_player_manager s k))"
  by (simp add: pm_init_def new_player_manager_def pm_ok_def)

text \<open>A game server with ten seats from user id 100, whose first seat role 5 has taken, with seven items of type 1.\<close>

definition one_player :: PlayerManager where
  "one_player = \<lparr>pm_start_player_id = 100, pm_max_player_size = 10, pm_online_role_ids = Roles (5 # replicate 9 0), pm_account2role_id = new_bimap,
     pm_all_players = [5 \<mapsto> 1], pm_pool = \<lparr>pp_free_list = [2..<1001], pp_used_set = {1}, pp_objs = (\<lambda>a. if a = 1 then
       Some (new_player\<lparr>pl_user_id := 100, pl_role_id := 5, pl_items := [1 \<mapsto> \<lparr>it_type_id = 1, it_item_num = 7, it_unique_id = 0\<rparr>]\<rparr>)
       else if a < 1001 then Some new_player else None), pp_fresh = 1001\<rparr>\<rparr>"

lemma one_player_facts:
  "pm_ok one_player" "in_range one_player u \<longleftrightarrow> 100 \<le> u \<and> u < 110" "seat one_player 100 = 5" "pm_all_players one_player = [5 \<mapsto> 1]"
  "99 \<le> length (pp_free_list (pm_pool one_player))"
  "pm_player one_player 1 = Some (new_player\<lparr>pl_user_id := 100, pl_role_id := 5, pl_items := [1 \<mapsto> \<lparr>it_type_id = 1, it_item_num = 7, it_unique_id = 0\<rparr>]\<rparr>)"
  by (auto simp: one_player_def pm_ok_def player_pool_ok_def pm_player_def in_range_def seat_def simp del: upt_rec_numeral)

theorem freed_player_passes_items_on_witness:
  "\<exists>m1 m2 x. pm_free one_player 100 = Some (True, m1) \<and> pm_malloc m1 104 9 = Some (1, m2) \<and> getByRoleId m2 9 = 1 \<and>
    pm_player m2 1 = Some x \<and> item_counts (pl_items x) 1 = Some 7"
  using freed_player_passes_items_on [OF one_player_facts(1) _ _ one_player_facts(6,5), of 100 104 9]
  by (force simp: one_player_facts item_counts_def)

end
