(* ===== verification/Game_Server.thy ===== *)
theory Game_Server
  imports Server_Common Player_Manager
begin

text \<open>
  The game server of \<open>game_server\<close>: \<open>GlobalData\<close>, the commands of \<open>gm.cpp\<close> and \<open>gm_cmd.cpp\<close>, \<open>ConnGateHandler\<close> and
  \<open>ConnDBHandler\<close>. Both clients come from one \<open>JmyTcpClientMaster\<close>, so their connections are in one store;
  the state of the process is its application state. The generated protobuf classes are the
  parameter \<open>game_codec\<close>, the generated item table is the parameter \<open>max_count\<close>.
\<close>

abbreviation (input) MSGID_S2C_ENTER_GAME_RESPONSE :: i32 where "MSGID_S2C_ENTER_GAME_RESPONSE \<equiv> 10021"
abbreviation (input) MSGID_S2C_ENTER_GAME_COMPLETE_NOTIFY :: i32 where "MSGID_S2C_ENTER_GAME_COMPLETE_NOTIFY \<equiv> 10022"
abbreviation (input) MSGID_C2S_CHAT_REQUEST :: int where "MSGID_C2S_CHAT_REQUEST \<equiv> 10100"
abbreviation (input) MSGID_S2C_CHAT_RESPONSE :: i32 where "MSGID_S2C_CHAT_RESPONSE \<equiv> 10101"
abbreviation (input) MSGID_S2C_CHAT_NOTIFY :: i32 where "MSGID_S2C_CHAT_NOTIFY \<equiv> 10102"
abbreviation (input) MSGID_C2S_SET_ROLE_DATA_REQUEST :: int where "MSGID_C2S_SET_ROLE_DATA_REQUEST \<equiv> 19001"
abbreviation (input) MSGID_GS2GT_CONNECT_GATE_REQUEST :: i32 where "MSGID_GS2GT_CONNECT_GATE_REQUEST \<equiv> 20200"
abbreviation (input) MSGID_GS2GT_GET_ROLE_RESPONSE :: i32 where "MSGID_GS2GT_GET_ROLE_RESPONSE \<equiv> 20203"
abbreviation (input) MSGID_GS2GT_CREATE_ROLE_RESPONSE :: i32 where "MSGID_GS2GT_CREATE_ROLE_RESPONSE \<equiv> 20205"
abbreviation (input) MSGID_GS2DS_CONNECT_DB_REQUEST :: i32 where "MSGID_GS2DS_CONNECT_DB_REQUEST \<equiv> 25000"
abbreviation (input) MSGID_GS2DS_GET_ROLE_REQUEST :: i32 where "MSGID_GS2DS_GET_ROLE_REQUEST \<equiv> 25010"
abbreviation (input) MSGID_GS2DS_CREATE_ROLE_REQUEST :: i32 where "MSGID_GS2DS_CREATE_ROLE_REQUEST \<equiv> 25012"
abbreviation (input) MSGID_GS2DS_SET_ROLE_DATA_REQUEST :: i32 where "MSGID_GS2DS_SET_ROLE_DATA_REQUEST \<equiv> 25100"
abbreviation (input) MSGID_GS2DS_ADD_ITEM_REQUEST :: i32 where "MSGID_GS2DS_ADD_ITEM_REQUEST \<equiv> 25102"
abbreviation (input) MSGID_GS2DS_RM_ITEM_REQUEST :: i32 where "MSGID_GS2DS_RM_ITEM_REQUEST \<equiv> 25104"

text \<open>\<open>MsgC2S_ChatRequest\<close>.\<close>

record chat_request =
  cr_content :: string
  cr_chat_type :: u32
  cr_channel :: u32
  cr_role_id :: u64

record game_codec =
  gp_ConnectGateResponse :: "cell list \<Rightarrow> (int \<times> int) option"
  gp_GetRoleRequest :: "cell list \<Rightarrow> string option"
  gp_CreateRoleRequest :: "cell list \<Rightarrow> (string \<times> string \<times> int \<times> int) option"
  gp_EnterGameRequest :: "cell list \<Rightarrow> u64 option"
  gp_LeaveGameRequest :: "cell list \<Rightarrow> u64 option"
  gp_ChatRequest :: "cell list \<Rightarrow> chat_request option"
  gp_SetRoleDataRequest :: "cell list \<Rightarrow> base_role_data option"
  gp_ConnectDBResponse :: "cell list \<Rightarrow> unit option"
  gp_GetRoleResponse :: "cell list \<Rightarrow> (string \<times> base_role_data) option"
  gp_CreateRoleResponse :: "cell list \<Rightarrow> (string \<times> base_role_data) option"
  gp_AddItemResponse :: "cell list \<Rightarrow> (u64 \<times> u32 \<times> u32) option"
  gw_ConnectGateRequest :: "int \<Rightarrow> u8 list"
  gw_GetRoleRequest :: "string \<Rightarrow> u8 list"
  gw_CreateRoleRequest :: "string \<Rightarrow> string \<Rightarrow> int \<Rightarrow> int \<Rightarrow> u8 list"
  gw_EnterGameResponse :: "u8 list"
  gw_ChatResponse :: "chat_request \<Rightarrow> u8 list"
  gw_ChatNotify :: "u32 \<Rightarrow> u32 \<Rightarrow> u8 list"
  gw_SetRoleDataRequest :: "u64 \<Rightarrow> base_role_data \<Rightarrow> u8 list"
  gw_ConnectDBRequest :: "int \<Rightarrow> u8 list"
  gw_GetRoleResponse :: "string \<Rightarrow> base_role_data \<Rightarrow> u8 list"
  gw_CreateRoleResponse :: "string \<Rightarrow> base_role_data \<Rightarrow> u8 list"
  gw_AddItemRequest :: "u64 \<Rightarrow> u32 \<Rightarrow> u32 \<Rightarrow> u8 list"
  gw_RmItemRequest :: "u64 \<Rightarrow> u32 \<Rightarrow> u32 \<Rightarrow> u8 list"

datatype gm_command_func = gm_add_item_f | gm_rm_item_f | gm_levelup_f | gm_setlevel_f | gm_addexp_f | gm_newmail_f

record game_state =
  gv_players :: PlayerManager
  gv_gate_conn :: nat
  gv_db_conn :: nat
  gv_cmd_map :: "string \<Rightarrow> gm_command_func option"

type_synonym game = "game_state net"

definition upd_game :: "game \<Rightarrow> (game_state \<Rightarrow> game_state) \<Rightarrow> game" where
  "upd_game n f = n\<lparr>nt_app := f (nt_app n)\<rparr>"

abbreviation players_of :: "game \<Rightarrow> PlayerManager" where
  "players_of n \<equiv> gv_players (nt_app n)"

abbreviation set_players :: "game \<Rightarrow> PlayerManager \<Rightarrow> game" where
  "set_players n m \<equiv> upd_game n (\<lambda>g. g\<lparr>gv_players := m\<rparr>)"

section \<open>GlobalData\<close>

definition setGateConn :: "game \<Rightarrow> nat \<Rightarrow> game" where
  "setGateConn n c = upd_game n (\<lambda>g. g\<lparr>gv_gate_conn := c\<rparr>)"

definition setDBConn :: "game \<Rightarrow> nat \<Rightarrow> game" where
  "setDBConn n c = upd_game n (\<lambda>g. g\<lparr>gv_db_conn := c\<rparr>)"

text \<open>The length argument of these is an \<open>unsigned short\<close>.\<close>

definition sendGate :: "game \<Rightarrow> i32 \<Rightarrow> u8 list \<Rightarrow> (int \<times> game) option" where
  "sendGate n msg_id bs =
     (if gv_gate_conn (nt_app n) = 0 then Some (- 1, n)
      else send n (gv_gate_conn (nt_app n)) msg_id (Some (cells bs)) (ucast (of_nat (length bs) :: u16)))"

definition sendGate_user :: "game \<Rightarrow> i32 \<Rightarrow> i32 \<Rightarrow> u8 list \<Rightarrow> (int \<times> game) option" where
  "sendGate_user n user_id msg_id bs =
     (if gv_gate_conn (nt_app n) = 0 then Some (- 1, n)
      else send_user n (gv_gate_conn (nt_app n)) user_id msg_id (Some (cells bs)) (of_nat (length bs)))"

definition sendDB :: "game \<Rightarrow> i32 \<Rightarrow> u8 list \<Rightarrow> (int \<times> game) option" where
  "sendDB n msg_id bs =
     (if gv_db_conn (nt_app n) = 0 then Some (- 1, n)
      else send n (gv_db_conn (nt_app n)) msg_id (Some (cells bs)) (ucast (of_nat (length bs) :: u16)))"

definition sendDB_user :: "game \<Rightarrow> i32 \<Rightarrow> i32 \<Rightarrow> u8 list \<Rightarrow> (int \<times> game) option" where
  "sendDB_user n user_id msg_id bs =
     (if gv_db_conn (nt_app n) = 0 then Some (- 1, n)
      else send_user n (gv_db_conn (nt_app n)) user_id msg_id (Some (cells bs)) (of_nat (length bs)))"

text \<open>\<open>Player::send_gate\<close> returns the truth value of a comparison.\<close>

definition send_gate :: "game \<Rightarrow> Player \<Rightarrow> i32 \<Rightarrow> u8 list \<Rightarrow> (int \<times> game) option" where
  "send_gate n p msg_id bs =
     (if pl_user_id p = 0 then Some (0, n)
      else do {
        (r, n) \<leftarrow> sendGate_user n (word_of_int (pl_user_id p)) msg_id bs;
        Some (if r < 0 then 1 else 0, n)
      })"

section \<open>GM commands\<close>

text \<open>\<open>boost::split\<close> at every space, without compressing adjacent ones.\<close>

fun split_on :: "char \<Rightarrow> string \<Rightarrow> string list" where
  "split_on c [] = [[]]"
| "split_on c (x # xs) =
     (if x = c then [] # split_on c xs
      else case split_on c xs of [] \<Rightarrow> [[x]] | t # ts \<Rightarrow> (x # t) # ts)"

text \<open>\<open>strtoul\<close> in base 10 on a 64 bit \<open>unsigned long\<close>: space, sign, digits; a value out of range gives the largest one.\<close>

definition isspace :: "char \<Rightarrow> bool" where
  "isspace c \<longleftrightarrow> (let k = of_char c :: nat in k = 32 \<or> 9 \<le> k \<and> k \<le> 13)"

definition isdigit :: "char \<Rightarrow> bool" where
  "isdigit c \<longleftrightarrow> (let k = of_char c :: nat in 48 \<le> k \<and> k \<le> 57)"

definition digits_value :: "string \<Rightarrow> nat" where
  "digits_value s = foldl (\<lambda>v c. 10 * v + (of_char c - 48)) 0 (takeWhile isdigit s)"

definition strtoul :: "string \<Rightarrow> u64" where
  "strtoul s =
     (let s = dropWhile isspace (takeWhile (\<lambda>c. of_char c \<noteq> (0 :: nat)) s);
          neg = (s \<noteq> [] \<and> hd s = CHR ''-'');
          s = (if s \<noteq> [] \<and> (hd s = CHR ''-'' \<or> hd s = CHR ''+'') then tl s else s);
          v = digits_value s
      in if v \<ge> 2 ^ 64 then - 1 else if neg then - of_nat v else of_nat v)"

definition gm_cmds :: "(string \<times> gm_command_func) list" where
  "gm_cmds = [(''additem'', gm_add_item_f), (''rmitem'', gm_rm_item_f), (''levelup'', gm_levelup_f),
     (''setlevel'', gm_setlevel_f), (''addexp'', gm_addexp_f), (''newmail'', gm_newmail_f)]"

fun load_cmds :: "(string \<Rightarrow> gm_command_func option) \<Rightarrow> (string \<times> gm_command_func) list \<Rightarrow> string \<Rightarrow> gm_command_func option" where
  "load_cmds m [] = m"
| "load_cmds m ((k, f) # cs) = load_cmds (map_insert m k f) cs"

definition parse_command :: "string \<Rightarrow> bool \<times> string list" where
  "parse_command command =
     (let results = split_on CHR '' '' command
      in if length results \<le> 1 then (False, results)
         else if results ! 0 \<noteq> ''/gm'' then (False, results)
         else (True, results))"

text \<open>The shared part of the two item commands: read the arguments, change the items, tell the database.\<close>

definition gm_item :: "(ItemMgr \<Rightarrow> u32 \<Rightarrow> u32 \<Rightarrow> bool \<times> ItemMgr) \<Rightarrow> (u64 \<Rightarrow> u32 \<Rightarrow> u32 \<Rightarrow> u8 list) \<Rightarrow> i32 \<Rightarrow>
    game \<Rightarrow> u64 \<Rightarrow> string list \<Rightarrow> (int \<times> game) option" where
  "gm_item change ser msg_id n role_id params = do {
     require (3 < length params);
     let type_id = ucast (strtoul (params ! 2));
     let item_num = ucast (strtoul (params ! 3));
     let a = getByRoleId (players_of n) role_id;
     if a = 0 then Some (- 1, n)
     else do {
       p \<leftarrow> pm_player (players_of n) a;
       let (ok, items) = change (pl_items p) type_id item_num;
       if \<not> ok then Some (- 1, n)
       else do {
         m \<leftarrow> pm_update (players_of n) a (\<lambda>p. p\<lparr>pl_items := items\<rparr>);
         let n = set_players n m;
         let bs = ser role_id type_id item_num;
         if 128 < length bs then Some (- 1, n)
         else do {
           (r, n) \<leftarrow> sendDB n msg_id bs;
           if r < 0 then Some (- 1, n) else Some (0, n)
         }
       }
     }
   }"

definition gm_add_item :: "(u32 \<Rightarrow> i32 option) \<Rightarrow> game_codec \<Rightarrow> game \<Rightarrow> u64 \<Rightarrow> string list \<Rightarrow> (int \<times> game) option" where
  "gm_add_item max_count P = gm_item (add_item max_count) (gw_AddItemRequest P) MSGID_GS2DS_ADD_ITEM_REQUEST"

definition gm_rm_item :: "game_codec \<Rightarrow> game \<Rightarrow> u64 \<Rightarrow> string list \<Rightarrow> (int \<times> game) option" where
  "gm_rm_item P = gm_item rm_item (gw_RmItemRequest P) MSGID_GS2DS_RM_ITEM_REQUEST"

definition gm_levelup :: "game \<Rightarrow> u64 \<Rightarrow> string list \<Rightarrow> (int \<times> game) option" where
  "gm_levelup n role_id params = do {
     require (2 < length params);
     let level = (ucast (strtoul (params ! 2)) :: i32);
     let a = getByRoleId (players_of n) role_id;
     if a = 0 then Some (- 1, n)
     else do {
       p \<leftarrow> pm_player (players_of n) a;
       old \<leftarrow> pl_level p;
       if level \<noteq> old then do {
         m \<leftarrow> pm_update (players_of n) a (\<lambda>p. p\<lparr>pl_level := Some level\<rparr>);
         Some (0, set_players n m)
       } else Some (0, n)
     }
   }"

definition gm_setlevel :: "game \<Rightarrow> u64 \<Rightarrow> string list \<Rightarrow> (int \<times> game) option" where
  "gm_setlevel n role_id params = Some (0, n)"

definition gm_addexp :: "game \<Rightarrow> u64 \<Rightarrow> string list \<Rightarrow> (int \<times> game) option" where
  "gm_addexp n role_id params = Some (0, n)"

definition gm_newmail :: "game \<Rightarrow> u64 \<Rightarrow> string list \<Rightarrow> (int \<times> game) option" where
  "gm_newmail n role_id params = Some (0, n)"

fun gm_call :: "(u32 \<Rightarrow> i32 option) \<Rightarrow> game_codec \<Rightarrow> gm_command_func \<Rightarrow> game \<Rightarrow> u64 \<Rightarrow> string list \<Rightarrow> (int \<times> game) option" where
  "gm_call max_count P gm_add_item_f = gm_add_item max_count P"
| "gm_call max_count P gm_rm_item_f = gm_rm_item P"
| "gm_call max_count P gm_levelup_f = gm_levelup"
| "gm_call max_count P gm_setlevel_f = gm_setlevel"
| "gm_call max_count P gm_addexp_f = gm_addexp"
| "gm_call max_count P gm_newmail_f = gm_newmail"

definition execute_command :: "(u32 \<Rightarrow> i32 option) \<Rightarrow> game_codec \<Rightarrow> game \<Rightarrow> u64 \<Rightarrow> string list \<Rightarrow> (bool \<times> game) option" where
  "execute_command max_count P n role_id results = do {
     require (0 < length results);
     if results ! 0 \<noteq> ''/gm'' then Some (False, n)
     else do {
       require (1 < length results);
       case gv_cmd_map (nt_app n) (results ! 1) of
         None \<Rightarrow> Some (False, n)
       | Some f \<Rightarrow> do {
           (r, n) \<leftarrow> gm_call max_count P f n role_id results;
           Some (0 \<le> r, n)
         }
     }
   }"

section \<open>ConnGateHandler\<close>

definition gs_gate_onConnect :: "game_codec \<Rightarrow> int \<Rightarrow> game \<Rightarrow> JmyEventInfo \<Rightarrow> (int \<times> game) option" where
  "gs_gate_onConnect P server_id n i =
     (case event_connection n i of
        None \<Rightarrow> Some (- 1, n)
      | Some conn \<Rightarrow>
          (case serialize (gw_ConnectGateRequest P server_id) of
             None \<Rightarrow> Some (- 1, n)
           | Some bs \<Rightarrow> do {
               (r, n) \<leftarrow> conn_send n conn MSGID_GS2GT_CONNECT_GATE_REQUEST bs;
               if r < 0 then Some (- 1, n) else Some (0, n)
             }))"

definition gs_gate_onDisconnect :: "game \<Rightarrow> JmyEventInfo \<Rightarrow> (int \<times> game) option" where
  "gs_gate_onDisconnect n i = Some (0, setGateConn n 0)"

definition gs_gate_onTick :: "game \<Rightarrow> JmyEventInfo \<Rightarrow> (int \<times> game) option" where
  "gs_gate_onTick n i = Some (0, n)"

definition processConnectGateResponse :: "game_codec \<Rightarrow> game \<Rightarrow> JmyMsgInfo \<Rightarrow> (int \<times> game) option" where
  "processConnectGateResponse P n i =
     (case msg_connection n i of
        None \<Rightarrow> Some (- 1, n)
      | Some conn \<Rightarrow>
          (case gp_ConnectGateResponse P (mi_data i) of
             None \<Rightarrow> Some (- 1, n)
           | Some (start_user_id, max_user_count) \<Rightarrow>
               let (ok, m) = pm_init (players_of n) start_user_id max_user_count; n = set_players n m
               in if \<not> ok then Some (- 1, n) else Some (sint (mi_len i), setGateConn n conn)))"

definition gs_processGetRole :: "game_codec \<Rightarrow> game \<Rightarrow> JmyMsgInfo \<Rightarrow> (int \<times> game) option" where
  "gs_processGetRole P n i =
     (case gp_GetRoleRequest P (mi_data i) of
        None \<Rightarrow> Some (- 1, n)
      | Some account \<Rightarrow>
          (case serialize (gw_GetRoleRequest P account) of
             None \<Rightarrow> Some (- 1, n)
           | Some bs \<Rightarrow> do {
               (r, n) \<leftarrow> sendDB n MSGID_GS2DS_GET_ROLE_REQUEST bs;
               if r < 0 then Some (- 1, n) else Some (sint (mi_len i), n)
             }))"

definition gs_processCreateRole :: "game_codec \<Rightarrow> game \<Rightarrow> JmyMsgInfo \<Rightarrow> (int \<times> game) option" where
  "gs_processCreateRole P n i =
     (case gp_CreateRoleRequest P (mi_data i) of
        None \<Rightarrow> Some (- 1, n)
      | Some (account, nick_name, sex, race) \<Rightarrow>
          (case serialize (gw_CreateRoleRequest P account nick_name sex race) of
             None \<Rightarrow> Some (- 1, n)
           | Some bs \<Rightarrow> do {
               (r, n) \<leftarrow> sendDB n MSGID_GS2DS_CREATE_ROLE_REQUEST bs;
               if r < 0 then Some (- 1, n) else Some (sint (mi_len i), n)
             }))"

text \<open>The part of \<open>processEnterGame\<close> that looks up or seats the player; the pointer is not looked at.\<close>

definition enter_player :: "PlayerManager \<Rightarrow> int \<Rightarrow> u64 \<Rightarrow> PlayerManager option" where
  "enter_player m user_id role_id = do {
     p \<leftarrow> pm_get m user_id;
     if p = 0 then do { (p, m) \<leftarrow> pm_malloc m user_id role_id; Some m } else Some m
   }"

text \<open>Both messages are serialised from the first response.\<close>

definition processEnterGame :: "game_codec \<Rightarrow> game \<Rightarrow> JmyMsgInfo \<Rightarrow> (int \<times> game) option" where
  "processEnterGame P n i =
     (case gp_EnterGameRequest P (mi_data i) of
        None \<Rightarrow> Some (- 1, n)
      | Some role_id \<Rightarrow>
          let user_id = sint (mi_user_id i)
          in if user_id \<le> 0 then Some (- 1, n)
             else do {
               m \<leftarrow> enter_player (players_of n) user_id role_id;
               let n = set_players n m;
               case serialize (gw_EnterGameResponse P) of
                 None \<Rightarrow> Some (- 1, n)
               | Some bs \<Rightarrow> do {
                   (r, n) \<leftarrow> sendGate_user n (mi_user_id i) MSGID_S2C_ENTER_GAME_RESPONSE bs;
                   if r < 0 then Some (- 1, n)
                   else do {
                     (r, n) \<leftarrow> sendGate_user n (mi_user_id i) MSGID_S2C_ENTER_GAME_COMPLETE_NOTIFY bs;
                     if r < 0 then Some (- 1, n) else Some (sint (mi_len i), n)
                   }
                 }
             })"

text \<open>\<open>PLAYER_MGR->free(request.role_id())\<close> is \<open>free(int)\<close>: the low 32 bits of the role id are taken for a user id.\<close>

definition leave_player :: "PlayerManager \<Rightarrow> int \<Rightarrow> u64 \<Rightarrow> (bool \<times> PlayerManager) option" where
  "leave_player m user_id role_id = do {
     p \<leftarrow> pm_get m user_id;
     if p = 0 then Some (False, m)
     else do { (r, m) \<leftarrow> pm_free m (sint (ucast role_id :: i32)); Some (True, m) }
   }"

definition processLeaveGame :: "game_codec \<Rightarrow> game \<Rightarrow> JmyMsgInfo \<Rightarrow> (int \<times> game) option" where
  "processLeaveGame P n i =
     (case gp_LeaveGameRequest P (mi_data i) of
        None \<Rightarrow> Some (- 1, n)
      | Some role_id \<Rightarrow> do {
          (found, m) \<leftarrow> leave_player (players_of n) (sint (mi_user_id i)) role_id;
          if \<not> found then Some (- 1, n) else Some (sint (mi_len i), set_players n m)
        })"

definition processChat :: "(u32 \<Rightarrow> i32 option) \<Rightarrow> game_codec \<Rightarrow> game \<Rightarrow> JmyMsgInfo \<Rightarrow> (int \<times> game) option" where
  "processChat max_count P n i =
     (case msg_connection n i of
        None \<Rightarrow> Some (- 1, n)
      | Some conn \<Rightarrow>
          (case gp_ChatRequest P (mi_data i) of
             None \<Rightarrow> Some (- 1, n)
           | Some request \<Rightarrow>
               let (is_cmd, results) = parse_command (cr_content request)
               in if is_cmd then do {
                    a \<leftarrow> pm_get (players_of n) (sint (mi_user_id i));
                    if a = 0 then Some (0, n)
                    else do {
                      p \<leftarrow> pm_player (players_of n) a;
                      (ok, n) \<leftarrow> execute_command max_count P n (pl_role_id p) results;
                      Some (if ok then sint (mi_len i) else 0, n)
                    }
                  }
                  else
                    (case serialize (gw_ChatResponse P request) of
                       None \<Rightarrow> Some (- 1, n)
                     | Some bs \<Rightarrow> do {
                         (r, n) \<leftarrow> send_user n conn (mi_user_id i) MSGID_S2C_CHAT_RESPONSE (Some (cells bs)) (of_nat (length bs));
                         if r < 0 then Some (- 1, n)
                         else
                           let a = getByRoleId (players_of n) (cr_role_id request)
                           in if a = 0 then Some (0, n)
                              else
                                (case serialize (gw_ChatNotify P (cr_chat_type request) (cr_channel request)) of
                                   None \<Rightarrow> Some (- 1, n)
                                 | Some bs \<Rightarrow> do {
                                     p \<leftarrow> pm_player (players_of n) a;
                                     (r, n) \<leftarrow> send_gate n p MSGID_S2C_CHAT_NOTIFY bs;
                                     if r < 0 then Some (- 1, n) else Some (sint (mi_len i), n)
                                   })
                       })))"

definition gs_processSetRoleData :: "game_codec \<Rightarrow> game \<Rightarrow> JmyMsgInfo \<Rightarrow> (int \<times> game) option" where
  "gs_processSetRoleData P n i =
     (case gp_SetRoleDataRequest P (mi_data i) of
        None \<Rightarrow> Some (- 1, n)
      | Some d \<Rightarrow> do {
          role_id \<leftarrow> getRoleIdByUserId (players_of n) (sint (mi_user_id i));
          let role_data = no_role_data\<lparr>rd_hp := rd_hp d, rd_sex := rd_sex d, rd_race := rd_race d, rd_level := rd_level d\<rparr>;
          case serialize (gw_SetRoleDataRequest P role_id role_data) of
            None \<Rightarrow> Some (- 1, n)
          | Some bs \<Rightarrow> do {
              (r, n) \<leftarrow> sendDB n MSGID_GS2DS_SET_ROLE_DATA_REQUEST bs;
              if r < 0 then Some (- 1, n) else Some (sint (mi_len i), n)
            }
        })"

definition gs_gate_processDefault :: "(u32 \<Rightarrow> i32 option) \<Rightarrow> game_codec \<Rightarrow> game \<Rightarrow> JmyMsgInfo \<Rightarrow> (int \<times> game) option" where
  "gs_gate_processDefault max_count P n i =
     (if mi_msg_id i = MSGID_C2S_CHAT_REQUEST then processChat max_count P n i
      else if mi_msg_id i = MSGID_C2S_SET_ROLE_DATA_REQUEST then gs_processSetRoleData P n i
      else Some (sint (mi_len i), n))"

section \<open>ConnDBHandler\<close>

definition gs_db_onConnect :: "game_codec \<Rightarrow> int \<Rightarrow> game \<Rightarrow> JmyEventInfo \<Rightarrow> (int \<times> game) option" where
  "gs_db_onConnect P server_id n i =
     (case event_connection n i of
        None \<Rightarrow> Some (- 1, n)
      | Some conn \<Rightarrow>
          (case serialize (gw_ConnectDBRequest P server_id) of
             None \<Rightarrow> Some (- 1, n)
           | Some bs \<Rightarrow> do {
               (r, n) \<leftarrow> conn_send n conn MSGID_GS2DS_CONNECT_DB_REQUEST bs;
               if r < 0 then Some (- 1, n) else Some (0, n)
             }))"

definition gs_db_onDisconnect :: "game \<Rightarrow> JmyEventInfo \<Rightarrow> (int \<times> game) option" where
  "gs_db_onDisconnect n i = Some (0, setDBConn n 0)"

definition gs_db_onTick :: "game \<Rightarrow> JmyEventInfo \<Rightarrow> (int \<times> game) option" where
  "gs_db_onTick n i = Some (0, n)"

definition processConnectDBResponse :: "game_codec \<Rightarrow> game \<Rightarrow> JmyMsgInfo \<Rightarrow> (int \<times> game) option" where
  "processConnectDBResponse P n i =
     (if gp_ConnectDBResponse P (mi_data i) = None then Some (- 1, n)
      else case msg_connection n i of
        None \<Rightarrow> Some (- 1, n)
      | Some conn \<Rightarrow> Some (sint (mi_len i), setDBConn n conn))"

text \<open>What the two role responses pass on of the role: not its hit points and not its level.\<close>

definition forwarded_role :: "base_role_data \<Rightarrow> base_role_data" where
  "forwarded_role d = no_role_data\<lparr>rd_sex := rd_sex d, rd_race := rd_race d, rd_role_id := rd_role_id d, rd_nick_name := rd_nick_name d\<rparr>"

definition gs_processGetRoleResponse :: "game_codec \<Rightarrow> game \<Rightarrow> JmyMsgInfo \<Rightarrow> (int \<times> game) option" where
  "gs_processGetRoleResponse P n i =
     (case gp_GetRoleResponse P (mi_data i) of
        None \<Rightarrow> Some (- 1, n)
      | Some (account, d) \<Rightarrow>
          (case serialize (gw_GetRoleResponse P account (forwarded_role d)) of
             None \<Rightarrow> Some (- 1, n)
           | Some bs \<Rightarrow> do {
               (r, n) \<leftarrow> sendGate n MSGID_GS2GT_GET_ROLE_RESPONSE bs;
               if r < 0 then Some (- 1, n) else Some (sint (mi_len i), n)
             }))"

definition gs_processCreateRoleResponse :: "game_codec \<Rightarrow> game \<Rightarrow> JmyMsgInfo \<Rightarrow> (int \<times> game) option" where
  "gs_processCreateRoleResponse P n i =
     (case gp_CreateRoleResponse P (mi_data i) of
        None \<Rightarrow> Some (- 1, n)
      | Some (account, d) \<Rightarrow>
          (case serialize (gw_CreateRoleResponse P account (forwarded_role d)) of
             None \<Rightarrow> Some (- 1, n)
           | Some bs \<Rightarrow> do {
               (r, n) \<leftarrow> sendGate n MSGID_GS2GT_CREATE_ROLE_RESPONSE bs;
               if r < 0 then Some (- 1, n) else Some (sint (mi_len i), n)
             }))"

definition processEnterGameResponse :: "game \<Rightarrow> JmyMsgInfo \<Rightarrow> (int \<times> game) option" where
  "processEnterGameResponse n i = Some (sint (mi_len i), n)"

definition processAddItemResponse :: "game_codec \<Rightarrow> game \<Rightarrow> JmyMsgInfo \<Rightarrow> (int \<times> game) option" where
  "processAddItemResponse P n i = (if gp_AddItemResponse P (mi_data i) = None then Some (- 1, n) else Some (sint (mi_len i), n))"

definition gs_db_processDefault :: "game \<Rightarrow> JmyMsgInfo \<Rightarrow> (int \<times> game) option" where
  "gs_db_processDefault n i = Some (sint (mi_len i), n)"

section \<open>What the handlers send\<close>

lemma send_msg_sent:
  assumes "sender_ready n c" "msg_fits x"
  shows "\<exists>n'. send_msg n c x = Some (int (length (payload x)), n') \<and> sent n c (packet x) n'"
proof -
  from send_msg_ok [OF assms] obtain n' where
    n': "send_msg n c x = Some (int (length (payload x)), n')" "sender_ready n' c" "queued n' c = queued n c @ cells (packet x)" by auto
  then obtain l where l: "n' = upd_buf n c (\<lambda>b. b\<lparr>cb_send_buff_list := l\<rparr>)"
    using assms(1) by (cases x) (auto simp: send_def send_user_def write_to_send_buffer_def sender_ready_def split: if_splits bind_splits)
  have "sender_ready n e \<Longrightarrow> sender_ready n' e" for e
    using n'(2) unfolding l sender_ready_def upd_buf_def buf_of_def conn_of_def by auto
  moreover have "tc_buffer (conn_of n e) \<noteq> tc_buffer (conn_of n c) \<Longrightarrow> queued n' e = queued n e" for e
    unfolding l queued_def upd_buf_def buf_of_def conn_of_def by simp
  ultimately show ?thesis using n' by (auto simp: sent_def l upd_buf_def)
qed

lemma sendGate_user_sent:
  assumes "gv_gate_conn (nt_app n) = c" "c \<noteq> 0" "sender_ready n c" "length bs < 65527"
  shows "\<exists>n'. sendGate_user n u m bs = Some (int (length bs), n') \<and> sent n c (packet (UserMsg u m bs)) n'"
  using send_msg_sent [OF assms(3), of "UserMsg u m bs"] assms by (simp add: sendGate_user_def)

lemma ucast_len: "k < 65536 \<Longrightarrow> (ucast (of_nat k :: u16) :: u32) = of_nat k"
  by (simp add: word_unat_eq_iff unat_of_nat_fits)

lemma sendDB_sent:
  assumes "gv_db_conn (nt_app n) = c" "c \<noteq> 0" "sender_ready n c" "length bs < 65531"
  shows "\<exists>n'. sendDB n m bs = Some (int (length bs), n') \<and> sent n c (packet (Msg m bs)) n'"
  using send_msg_sent [OF assms(3), of "Msg m bs"] assms by (simp add: sendDB_def ucast_len)

section \<open>Entering and leaving refine the table of seats\<close>

datatype player_op = Enter int u64 | Leave int u64

fun player_step :: "PlayerManager \<Rightarrow> player_op \<Rightarrow> PlayerManager option" where
  "player_step m (Enter u r) = enter_player m u r"
| "player_step m (Leave u r) = map_option snd (leave_player m u r)"

fun player_run :: "PlayerManager \<Rightarrow> player_op list \<Rightarrow> PlayerManager option" where
  "player_run m [] = Some m"
| "player_run m (x # xs) = do { m \<leftarrow> player_step m x; player_run m xs }"

text \<open>
  The specification: which role sits where, and which roles have a player. \<open>lo\<close> and \<open>hi\<close> bound the user ids.
\<close>

fun seat_step :: "int \<Rightarrow> int \<Rightarrow> (int \<Rightarrow> u64) \<times> u64 set \<Rightarrow> player_op \<Rightarrow> (int \<Rightarrow> u64) \<times> u64 set" where
  "seat_step lo hi (s, R) (Enter u r) = (if u \<in> {lo..<hi} \<and> s u \<notin> R then (s(u := r), insert r R) else (s, R))"
| "seat_step lo hi (s, R) (Leave u r) =
     (let v = sint (ucast r :: i32)
      in if u \<in> {lo..<hi} \<and> s u \<in> R \<and> v \<in> {lo..<hi} \<and> s v \<in> R then (s(v := 0), R - {s v}) else (s, R))"

fun op_ids_ok :: "int \<Rightarrow> player_op \<Rightarrow> bool" where
  "op_ids_ok lo (Enter u r) \<longleftrightarrow> - (2 ^ 31) \<le> u - lo"
| "op_ids_ok lo (Leave u r) \<longleftrightarrow> - (2 ^ 31) \<le> u - lo \<and> - (2 ^ 31) \<le> sint (ucast r :: i32) - lo"

definition seats_of :: "PlayerManager \<Rightarrow> (int \<Rightarrow> u64) \<times> u64 set" where
  "seats_of m = (seat m, dom (pm_all_players m))"

definition same_range :: "PlayerManager \<Rightarrow> PlayerManager \<Rightarrow> bool" where
  "same_range m m' \<longleftrightarrow> pm_start_player_id m' = pm_start_player_id m \<and> pm_max_player_size m' = pm_max_player_size m"

lemma in_range_iff: "in_range m u \<longleftrightarrow> u \<in> {pm_start_player_id m..<pm_start_player_id m + pm_max_player_size m}"
  by (simp add: in_range_def)

lemma enter_refines:
  assumes "pm_ok m" "id_ok m u"
  shows "\<exists>m'. enter_player m u r = Some m' \<and> pm_ok m' \<and> same_range m m' \<and>
    seats_of m' = seat_step (pm_start_player_id m) (pm_start_player_id m + pm_max_player_size m) (seats_of m) (Enter u r)"
proof (cases "in_range m u \<and> pm_all_players m (seat m u) = None")
  case True
  with pm_malloc_seated [OF assms(1), of u r] obtain a m' where m': "pm_malloc m u r = Some (a, m')" "seated m u r a m'" by blast
  moreover have "dom (map_insert (pm_all_players m) r a) = insert r (dom (pm_all_players m))" by (auto simp: map_insert_def)
  ultimately show ?thesis
    using True pm_get_seat [OF assms] getByRoleId_iff [OF assms(1), of "seat m u"]
    by (auto simp: enter_player_def seats_of_def seated_def same_range_def in_range_iff)
next
  case False
  then have "enter_player m u r = Some m"
    using pm_get_seat [OF assms] getByRoleId_iff [OF assms(1), of "seat m u"] assms range_index [of u m]
    by (cases "in_range m u") (auto simp: enter_player_def pm_malloc_def)
  with False assms(1) show ?thesis by (auto simp: seats_of_def same_range_def in_range_iff domIff)
qed

lemma leave_refines:
  assumes "pm_ok m" "id_ok m u" "id_ok m (sint (ucast r :: i32))"
  shows "\<exists>b m'. leave_player m u r = Some (b, m') \<and> pm_ok m' \<and> same_range m m' \<and>
    seats_of m' = seat_step (pm_start_player_id m) (pm_start_player_id m + pm_max_player_size m) (seats_of m) (Leave u r)"
proof (cases "in_range m u \<and> pm_all_players m (seat m u) \<noteq> None")
  case True
  from pm_free_eq [OF assms(1,3)] obtain b m' where m': "pm_free m (sint (ucast r :: i32)) = Some (b, m')"
    "if in_range m (sint (ucast r :: i32)) \<and> pm_all_players m (seat m (sint (ucast r :: i32))) \<noteq> None then vacated m (sint (ucast r :: i32)) m' else m' = m"
    by blast
  with True pm_get_seat [OF assms(1,2)] getByRoleId_iff [OF assms(1), of "seat m u"] assms(1) show ?thesis
    by (auto simp: leave_player_def seats_of_def same_range_def vacated_def in_range_iff Let_def domIff split: if_splits)
next
  case False
  then have "leave_player m u r = Some (False, m)"
    using pm_get_seat [OF assms(1,2)] getByRoleId_iff [OF assms(1), of "seat m u"]
    by (cases "in_range m u") (auto simp: leave_player_def)
  with False assms(1) show ?thesis by (auto simp: seats_of_def same_range_def in_range_iff domIff Let_def)
qed

lemma player_run_refines:
  assumes "pm_ok m" "list_all (op_ids_ok (pm_start_player_id m)) xs"
  shows "\<exists>m'. player_run m xs = Some m' \<and> pm_ok m' \<and> same_range m m' \<and>
    seats_of m' = foldl (seat_step (pm_start_player_id m) (pm_start_player_id m + pm_max_player_size m)) (seats_of m) xs"
  using assms
proof (induction xs arbitrary: m)
  case (Cons x xs)
  let ?step = "seat_step (pm_start_player_id m) (pm_start_player_id m + pm_max_player_size m)"
  from Cons.prems have x: "op_ids_ok (pm_start_player_id m) x" by simp
  have "\<exists>m1. player_step m x = Some m1 \<and> pm_ok m1 \<and> same_range m m1 \<and> seats_of m1 = ?step (seats_of m) x"
    using x enter_refines [OF Cons.prems(1)] leave_refines [OF Cons.prems(1)] by (cases x) (fastforce simp: id_ok_def)+
  then obtain m1 where m1: "player_step m x = Some m1" "pm_ok m1" "same_range m m1" "seats_of m1 = ?step (seats_of m) x" by blast
  with Cons.IH [OF m1(2)] Cons.prems(2) show ?case by (auto simp: same_range_def)
qed (simp add: same_range_def)

text \<open>
  C13. The players of the game server refine a table of seats. After any history of enter and leave
  requests on a freshly initialised server, whatever the user and role ids, every operation has had a result and the user
  ids with a player, and the role each of them plays, are those of the specification: a request to
  enter takes an unoccupied seat and leaves an occupied one as it is, and a request to leave vacates the seat whose number is the low half of the role
  id. The hypothesis excludes ids so far below the first user id that the difference is no \<open>int\<close>.
\<close>

theorem players_refine_seats:
  assumes "0 < lo" "0 < k" "list_all (op_ids_ok lo) xs"
  shows "\<exists>m. player_run (snd (pm_init new_player_manager lo k)) xs = Some m \<and>
    (let (s, R) = foldl (seat_step lo (lo + k)) (\<lambda>_. 0, {}) xs in
      \<forall>u. lo \<le> u \<and> u < lo + k \<longrightarrow> (\<exists>a. pm_get m u = Some a \<and>
        (if s u \<in> R then \<exists>x. pm_player m a = Some x \<and> pl_role_id x = s u else a = 0)))"
proof -
  let ?m = "snd (pm_init new_player_manager lo k)"
  have m: "pm_ok ?m" "pm_start_player_id ?m = lo" "pm_max_player_size ?m = k" using assms(1,2) pm_init_ok by (simp_all add: pm_init_def new_player_manager_def)
  have "seats_of ?m = (\<lambda>_. 0, {})"
    using assms(1,2) by (auto simp: pm_init_def new_player_manager_def seats_of_def seat_def in_range_def fun_eq_iff)
  with player_run_refines [OF m(1), of xs] assms(3) m(2,3) obtain m' where
    m': "player_run ?m xs = Some m'" "pm_ok m'" "same_range ?m m'" "seats_of m' = foldl (seat_step lo (lo + k)) (\<lambda>_. 0, {}) xs" by auto
  have "\<exists>a. pm_get m' u = Some a \<and> (if seat m' u \<in> dom (pm_all_players m') then \<exists>x. pm_player m' a = Some x \<and> pl_role_id x = seat m' u else a = 0)"
    if "lo \<le> u" "u < lo + k" for u
  proof -
    have u: "in_range m' u" using that m'(3) m(2,3) by (simp add: in_range_def same_range_def)
    have "pm_all_players m' r = Some b \<Longrightarrow> \<exists>x. pm_player m' b = Some x \<and> pl_role_id x = r" for r b
      using m'(2) by (auto simp: pm_ok_def)
    with pm_get_seat [OF m'(2) in_range_id_ok [OF u]] u show ?thesis by (auto simp: getByRoleId_def domIff split: option.split)
  qed
  then show ?thesis using m'(1) by (intro exI [of _ m'] conjI) (simp_all add: m'(4) [symmetric] seats_of_def)
qed

theorem players_refine_seats_witness:
  "\<exists>m a x. player_run (snd (pm_init new_player_manager 100 10)) [Enter 100 5, Leave 100 5, Enter 100 6] = Some m \<and>
    pm_get m 100 = Some a \<and> pm_player m a = Some x \<and> pl_role_id x = 5"
proof -
  let ?xs = "[Enter 100 5, Leave 100 5, Enter 100 6]"
  from players_refine_seats [of 100 10 ?xs] obtain m where
    "player_run (snd (pm_init new_player_manager 100 10)) ?xs = Some m"
    "let (s, R) = foldl (seat_step 100 (100 + 10)) (\<lambda>_. 0, {}) ?xs in
      \<forall>u. 100 \<le> u \<and> u < 100 + 10 \<longrightarrow> (\<exists>a. pm_get m u = Some a \<and>
        (if s u \<in> R then \<exists>x. pm_player m a = Some x \<and> pl_role_id x = s u else a = 0))" by auto
  moreover have "foldl (seat_step 100 (100 + 10)) (\<lambda>_. 0, {}) ?xs = ((\<lambda>_. 0)(100 := 5), {5})" by (simp add: Let_def)
  ultimately show ?thesis by auto
qed

section \<open>Leaving and entering again\<close>

lemma set_players_same [simp]: "set_players n (players_of n) = n"
  by (simp add: upd_game_def)

lemma upd_game_sel [simp]:
  "nt_app (upd_game n f) = f (nt_app n)" "sender_ready (upd_game n f) c \<longleftrightarrow> sender_ready n c" "queued (upd_game n f) c = queued n c"
  by (simp_all add: upd_game_def)

text \<open>
  A client that enters plays the role of the one before it at the same user id. A player leaves with a
  role id whose low half is no user id of the gate, as every request of the gate does, which sets no role id;
  the request succeeds and frees nothing. When a new client is then given the user id and enters with a
  role of its own, it is told twice that it has entered, and the player of its user id is still the one
  of the role before.
\<close>

theorem next_client_plays_previous_role:
  assumes players: "pm_ok (players_of n)" "in_range (players_of n) (sint (mi_user_id i))" "0 < sint (mi_user_id i)"
      "pm_all_players (players_of n) (seat (players_of n) (sint (mi_user_id i))) = Some a"
    and leave: "gp_LeaveGameRequest P (mi_data i) = Some r" "\<not> in_range (players_of n) (sint (ucast r :: i32))" "id_ok (players_of n) (sint (ucast r :: i32))"
    and enter: "gp_EnterGameRequest P (mi_data j) = Some r'" "mi_user_id j = mi_user_id i" "length (gw_EnterGameResponse P) < 65527"
    and gate: "gv_gate_conn (nt_app n) = c" "c \<noteq> 0" "sender_ready n c"
  shows "\<exists>n'. processLeaveGame P n i = Some (sint (mi_len i), n) \<and> processEnterGame P n j = Some (sint (mi_len j), n') \<and>
    queued n' c = queued n c @ cells (packet (UserMsg (mi_user_id j) 10021 (gw_EnterGameResponse P))) @
      cells (packet (UserMsg (mi_user_id j) 10022 (gw_EnterGameResponse P))) \<and>
    players_of n' = players_of n \<and> pm_get (players_of n') (sint (mi_user_id j)) = Some a"
proof -
  let ?m = "players_of n" and ?u = "sint (mi_user_id i)" and ?bs = "gw_EnterGameResponse P"
  have get: "pm_get ?m ?u = Some a"
    using pm_get_seat [OF players(1) in_range_id_ok [OF players(2)]] players(2,4) by (simp add: getByRoleId_def)
  have a: "a \<noteq> 0" using getByRoleId_iff [OF players(1)] players(4) by (metis getByRoleId_def option.simps(5) option.distinct(1))
  from pm_free_eq [OF players(1) leave(3)] leave(2) have "pm_free ?m (sint (ucast r :: i32)) = Some (False, ?m)" by auto
  then have 1: "processLeaveGame P n i = Some (sint (mi_len i), n)"
    using get a leave(1) by (simp add: processLeaveGame_def leave_player_def)
  have "enter_player ?m ?u r' = Some ?m" using get a by (simp add: enter_player_def)
  moreover from sendGate_user_sent [OF gate enter(3)] obtain n1 where
    n1: "sendGate_user n (mi_user_id i) 10021 ?bs = Some (int (length ?bs), n1)" "sent n c (packet (UserMsg (mi_user_id i) 10021 ?bs)) n1" by blast
  moreover from sendGate_user_sent [of n1 c ?bs "mi_user_id i" 10022] sentD(2,6) [OF n1(2)] gate enter(3) obtain n2 where
    n2: "sendGate_user n1 (mi_user_id i) 10022 ?bs = Some (int (length ?bs), n2)" "sent n1 c (packet (UserMsg (mi_user_id i) 10022 ?bs)) n2" by auto
  ultimately have "processEnterGame P n j = Some (sint (mi_len j), n2)"
    using enter players(3) by (simp add: processEnterGame_def Let_def serialize_def)
  moreover have "nt_app n2 = nt_app n" using sentD(2) [OF n1(2)] sentD(2) [OF n2(2)] by simp
  ultimately show ?thesis using 1 sentD(1) [OF n1(2)] sentD(1) [OF n2(2)] get enter(2) by auto
qed

text \<open>A game server with the players of \<open>one_player\<close>, whose connections to the gate and the database are objects 1 and 2.\<close>

definition live_game :: game where
  "live_game = two_lines \<lparr>gv_players = one_player, gv_gate_conn = 1, gv_db_conn = 2, gv_cmd_map = load_cmds Map.empty gm_cmds\<rparr>"

lemma live_game_facts:
  "players_of live_game = one_player" "gv_gate_conn (nt_app live_game) = 1" "gv_db_conn (nt_app live_game) = 2" "sender_ready live_game c"
  "gv_cmd_map (nt_app live_game) = load_cmds Map.empty gm_cmds" "mgr_get live_game 3 = Some 1"
  by (simp_all add: live_game_def two_lines_facts)

text \<open>A codec for the examples.\<close>

definition sample_game_codec :: game_codec where
  "sample_game_codec = \<lparr>gp_ConnectGateResponse = (\<lambda>_. Some (100, 10)), gp_GetRoleRequest = (\<lambda>_. Some ''joe''), gp_CreateRoleRequest = (\<lambda>_. None),
     gp_EnterGameRequest = (\<lambda>_. Some 6), gp_LeaveGameRequest = (\<lambda>_. Some 0),
     gp_ChatRequest = (\<lambda>d. Some \<lparr>cr_content = ''hi'', cr_chat_type = 1, cr_channel = 2, cr_role_id = 5\<rparr>),
     gp_SetRoleDataRequest = (\<lambda>_. None), gp_ConnectDBResponse = (\<lambda>_. Some ()), gp_GetRoleResponse = (\<lambda>_. None), gp_CreateRoleResponse = (\<lambda>_. None),
     gp_AddItemResponse = (\<lambda>_. None), gw_ConnectGateRequest = (\<lambda>_. []), gw_GetRoleRequest = (\<lambda>_. [10, 3, 106, 111, 101]), gw_CreateRoleRequest = (\<lambda>_ _ _ _. []),
     gw_EnterGameResponse = [], gw_ChatResponse = (\<lambda>_. [104, 105]), gw_ChatNotify = (\<lambda>_ _. [16, 1, 24, 2]), gw_SetRoleDataRequest = (\<lambda>_ _. []),
     gw_ConnectDBRequest = (\<lambda>_. []), gw_GetRoleResponse = (\<lambda>_ _. []), gw_CreateRoleResponse = (\<lambda>_ _. []),
     gw_AddItemRequest = (\<lambda>_ _ _. [8]), gw_RmItemRequest = (\<lambda>_ _ _. [8])\<rparr>"

theorem next_client_plays_previous_role_witness:
  "\<exists>n'. processLeaveGame sample_game_codec live_game (received_msg 100 20212 [] 3 1) = Some (0, live_game) \<and>
    processEnterGame sample_game_codec live_game (received_msg 100 20210 [8, 6] 3 1) = Some (2, n') \<and>
    pm_get (players_of n') 100 = Some 1 \<and> pm_player (players_of n') 1 = pm_player one_player 1"
proof -
  have P: "gp_LeaveGameRequest sample_game_codec d = Some 0" "gp_EnterGameRequest sample_game_codec d = Some 6" "gw_EnterGameResponse sample_game_codec = []" for d
    by (simp_all add: sample_game_codec_def)
  have "id_ok one_player 0" by (simp add: id_ok_def one_player_def)
  with next_client_plays_previous_role [of live_game "received_msg 100 20212 [] 3 1" 1 sample_game_codec 0 "received_msg 100 20210 [8, 6] 3 1" 6 1]
  show ?thesis by (auto simp: P live_game_facts one_player_facts)
qed

section \<open>Commands in the chat\<close>

fun join_with :: "char \<Rightarrow> string list \<Rightarrow> string" where
  "join_with c [] = []"
| "join_with c [t] = t"
| "join_with c (t # ts) = t @ c # join_with c ts"

lemma split_on_nonempty [simp]: "split_on c s \<noteq> []"
  by (induction s) (auto split: list.split)

lemma split_on_pieces: "join_with c (split_on c s) = s \<and> (\<forall>t \<in> set (split_on c s). c \<notin> set t)"
proof (induction s)
  case (Cons x s)
  obtain t ts where ts: "split_on c s = t # ts" by (cases "split_on c s") auto
  with Cons show ?case by (cases ts) auto
qed simp

lemma split_on_head: "hd (split_on c s) = takeWhile (\<lambda>x. x \<noteq> c) s"
proof (induction s)
  case (Cons x s)
  then show ?case by (cases "split_on c s") auto
qed simp

lemma split_on_one: "length (split_on c s) \<le> 1 \<longleftrightarrow> c \<notin> set s"
proof (induction s)
  case (Cons x s)
  then show ?case by (cases "split_on c s") auto
qed simp

lemma takeWhile_prefix:
  "c \<notin> set t \<Longrightarrow> takeWhile (\<lambda>x. x \<noteq> c) s = t \<and> c \<in> set s \<longleftrightarrow> take (length t + 1) s = t @ [c]"
proof (induction t arbitrary: s)
  case Nil
  then show ?case by (cases s) auto
next
  case (Cons y t)
  then show ?case by (cases s) auto
qed

lemma gm_line_iff: "fst (parse_command line) = (take 4 line = ''/gm '')"
proof -
  have "split_on CHR '' '' line ! 0 = takeWhile (\<lambda>x. x \<noteq> CHR '' '') line"
    by (simp add: split_on_head [symmetric] hd_conv_nth)
  then have "fst (parse_command line) = (takeWhile (\<lambda>x. x \<noteq> CHR '' '') line = ''/gm'' \<and> CHR '' '' \<in> set line)"
    using split_on_one [of "CHR '' ''" line] by (auto simp: parse_command_def Let_def)
  also have "\<dots> = (take 4 line = ''/gm '')"
    using takeWhile_prefix [of "CHR '' ''" "''/gm''" line] by (simp add: eval_nat_numeral)
  finally show ?thesis .
qed

text \<open>
  Which chat lines are commands. A line is taken for a command exactly when it begins with \<open>/gm\<close> and a
  space. Its words are what stands between the spaces: no word has a space, and joined by single spaces they
  give the line back; two adjacent spaces have an empty word between them.
\<close>

theorem gm_line_recognised:
  "fst (parse_command line) = (take 4 line = ''/gm '') \<and> join_with CHR '' '' (snd (parse_command line)) = line \<and>
   filter (\<lambda>t. CHR '' '' \<in> set t) (snd (parse_command line)) = []"
  using gm_line_iff [of line] split_on_pieces [of "CHR '' ''" line] by (auto simp: parse_command_def Let_def filter_empty_conv)

lemma loaded_commands: "load_cmds Map.empty gm_cmds = map_of gm_cmds"
  by (auto simp: gm_cmds_def map_insert_def fun_eq_iff)

lemma pm_ok_deref: "pm_ok m \<Longrightarrow> getByRoleId m r \<noteq> 0 \<Longrightarrow> \<exists>x. pm_player m (getByRoleId m r) = Some x \<and> pl_role_id x = r"
  by (auto simp: pm_ok_def getByRoleId_def split: option.splits)

lemma sendDB_defined:
  assumes "gv_db_conn (nt_app n) = 0 \<or> sender_ready n (gv_db_conn (nt_app n))" "length bs \<le> 128"
  shows "\<exists>r n'. sendDB n m bs = Some (r, n')"
  using sendDB_sent [of n _ bs m] assms by (cases "gv_db_conn (nt_app n) = 0") (auto simp: sendDB_def)

lemma gm_item_defined:
  assumes "pm_ok (players_of n)" "gv_db_conn (nt_app n) = 0 \<or> sender_ready n (gv_db_conn (nt_app n))"
  shows "gm_item change ser msg_id n role_id params = None \<longleftrightarrow> length params < 4"
proof (cases "length params < 4")
  case False
  let ?a = "getByRoleId (players_of n) role_id"
  show ?thesis
  proof (cases "?a = 0")
    case False
    let ?t = "ucast (strtoul (params ! 2)) :: u32" and ?k = "ucast (strtoul (params ! 3)) :: u32"
    from pm_ok_deref [OF assms(1) False] obtain x where x: "pm_player (players_of n) ?a = Some x" by blast
    obtain ok items where c: "change (pl_items x) ?t ?k = (ok, items)" by force
    from x obtain m where m: "pm_update (players_of n) ?a (\<lambda>p. p\<lparr>pl_items := items\<rparr>) = Some m" by (simp add: pm_update_def)
    have "\<not> 128 < length bs \<Longrightarrow> \<exists>r n'. sendDB (set_players n m) msg_id bs = Some (r, n')" for bs
      using sendDB_defined [of "set_players n m" bs] assms(2) by simp
    from this [of "ser role_id ?t ?k"] \<open>\<not> length params < 4\<close> False x c m show ?thesis
      by (auto simp: gm_item_def Let_def)
  qed (use False in \<open>simp add: gm_item_def Let_def\<close>)
qed (simp add: gm_item_def)

text \<open>
  When a command has a defined effect. A line that was taken for a command runs into undefined behaviour exactly if
  it is \<open>additem\<close> or \<open>rmitem\<close> with fewer than two arguments, or \<open>levelup\<close> without an argument or for a player
  whose level was never set: the arguments are read without looking at their number, and
  \<open>Player\<close> does not initialise the level. Any client can send such a line.
\<close>

theorem gm_command_undefined_iff:
  assumes "pm_ok (players_of n)" "gv_cmd_map (nt_app n) = load_cmds Map.empty gm_cmds"
    and "gv_db_conn (nt_app n) = 0 \<or> sender_ready n (gv_db_conn (nt_app n))" "parse_command line = (True, ts)"
  shows "execute_command max_count P n role_id ts = None \<longleftrightarrow>
    (ts ! 1 = ''additem'' \<or> ts ! 1 = ''rmitem'') \<and> length ts < 4 \<or>
    ts ! 1 = ''levelup'' \<and> (length ts < 3 \<or>
      (\<exists>a x. pm_all_players (players_of n) role_id = Some a \<and> pm_player (players_of n) a = Some x \<and> pl_level x = None))"
proof -
  have ts: "1 < length ts" "ts ! 0 = ''/gm''" using assms(4) by (auto simp: parse_command_def Let_def split: if_splits)
  have lv: "gm_levelup n role_id ts = None \<longleftrightarrow> length ts < 3 \<or>
      (\<exists>a x. pm_all_players (players_of n) role_id = Some a \<and> pm_player (players_of n) a = Some x \<and> pl_level x = None)"
    using pm_ok_deref [OF assms(1), of role_id] getByRoleId_iff [OF assms(1), of role_id]
    by (auto simp: gm_levelup_def Let_def pm_update_def getByRoleId_def split: option.splits bind_splits if_splits)
  have call: "execute_command max_count P n role_id ts = None \<longleftrightarrow>
      (\<exists>f. map_of gm_cmds (ts ! 1) = Some f \<and> gm_call max_count P f n role_id ts = None)"
    using ts assms(2) by (auto simp: execute_command_def loaded_commands split: option.splits bind_splits)
  show ?thesis
    unfolding call using lv
    by (auto simp: gm_cmds_def gm_add_item_def gm_rm_item_def gm_setlevel_def gm_addexp_def gm_newmail_def gm_item_defined [OF assms(1,3)])
qed

theorem gm_command_undefined_iff_witness:
  "execute_command [7 \<mapsto> 99] sample_game_codec live_game 5 [''/gm'', ''additem'', ''7''] = None \<and>
   execute_command [7 \<mapsto> 99] sample_game_codec live_game 5 [''/gm'', ''additem'', ''7'', ''80''] \<noteq> None"
  using gm_command_undefined_iff [of live_game "''/gm additem 7''" "[''/gm'', ''additem'', ''7'']" "[7 \<mapsto> 99]" sample_game_codec 5]
    gm_command_undefined_iff [of live_game "''/gm additem 7 80''" "[''/gm'', ''additem'', ''7'', ''80'']" "[7 \<mapsto> 99]" sample_game_codec 5]
  by (simp add: live_game_facts one_player_facts parse_command_def)

text \<open>
  An item command that fails has still changed the items. Without a connection to the database
  \<open>additem\<close> reports failure, after the items were added to the player; nothing takes them back, and the database is never told.
\<close>

theorem failed_item_command_keeps_items:
  assumes "pm_ok (players_of n)" "pm_all_players (players_of n) role_id = Some a" "pm_player (players_of n) a = Some x"
    and "3 < length params" "add_item max_count (pl_items x) (ucast (strtoul (params ! 2))) (ucast (strtoul (params ! 3))) = (True, items)"
    and "gv_db_conn (nt_app n) = 0"
  shows "\<exists>n'. gm_add_item max_count P n role_id params = Some (- 1, n') \<and>
    pm_player (players_of n') a = Some (x\<lparr>pl_items := items\<rparr>) \<and> (\<forall>c. queued n' c = queued n c)"
proof -
  have "a \<noteq> 0" using getByRoleId_iff [OF assms(1), of role_id] assms(2) by (simp add: getByRoleId_def)
  then show ?thesis
    using assms(2-6) by (auto simp: gm_add_item_def gm_item_def getByRoleId_def pm_update_def pm_player_def Let_def sendDB_def)
qed

theorem failed_item_command_keeps_items_witness:
  "\<exists>n'. gm_add_item [1 \<mapsto> 99] sample_game_codec (setDBConn live_game 0) 5 [''/gm'', ''additem'', ''1'', ''30''] = Some (- 1, n') \<and>
    map_option (\<lambda>x. item_counts (pl_items x) 1) (pm_player (players_of n') 1) = Some (Some 37)"
proof -
  let ?n = "setDBConn live_game 0"
  have n: "players_of ?n = one_player" "gv_db_conn (nt_app ?n) = 0" by (simp_all add: setDBConn_def live_game_facts)
  have v: "strtoul ''1'' = 1" "strtoul ''30'' = 30"
    by (simp_all add: strtoul_def isspace_def isdigit_def digits_value_def)
  have "add_item [1 \<mapsto> 99] [1 \<mapsto> \<lparr>it_type_id = 1, it_item_num = 7, it_unique_id = 0\<rparr>] 1 30 =
    (True, [1 \<mapsto> \<lparr>it_type_id = 1, it_item_num = 37, it_unique_id = 0\<rparr>])" by (simp add: add_item_def)
  with failed_item_command_keeps_items [of ?n 5 1 _ "[''/gm'', ''additem'', ''1'', ''30'']" "[1 \<mapsto> 99]", unfolded n, OF one_player_facts(1) _ one_player_facts(6)]
  show ?thesis by (fastforce simp: v one_player_facts(4) item_counts_def)
qed

text \<open>
  A chat message reaches its receiver without its text. For a line that is no command, sent to a role that
  is online, the sender gets its message back, and to the user of the role goes a notification that is
  made from the type and the channel of the message only.
\<close>

theorem chat_delivered_without_text:
  assumes "msg_connection n i = Some c" "gp_ChatRequest P (mi_data i) = Some q" "take 4 (cr_content q) \<noteq> ''/gm ''"
    and "gv_gate_conn (nt_app n) = c" "c \<noteq> 0" "sender_ready n c"
    and "pm_all_players (players_of n) (cr_role_id q) = Some a" "pm_player (players_of n) a = Some x" "a \<noteq> 0" "pl_user_id x \<noteq> 0"
    and "length (gw_ChatResponse P q) < 65527" "length (gw_ChatNotify P (cr_chat_type q) (cr_channel q)) < 65527"
  shows "\<exists>n'. processChat max_count P n i = Some (sint (mi_len i), n') \<and>
    queued n' c = queued n c @ cells (packet (UserMsg (mi_user_id i) 10101 (gw_ChatResponse P q))) @
      cells (packet (UserMsg (word_of_int (pl_user_id x)) 10102 (gw_ChatNotify P (cr_chat_type q) (cr_channel q))))"
proof -
  let ?u = "word_of_int (pl_user_id x) :: i32" and ?resp = "gw_ChatResponse P q" and ?note = "gw_ChatNotify P (cr_chat_type q) (cr_channel q)"
  have "\<not> fst (parse_command (cr_content q))" using gm_line_iff assms(3) by simp
  then obtain ts where ts: "parse_command (cr_content q) = (False, ts)" by (cases "parse_command (cr_content q)") auto
  from send_msg_sent [OF assms(6), of "UserMsg (mi_user_id i) 10101 ?resp"] assms(11) obtain n1 where
    n1: "send_user n c (mi_user_id i) 10101 (Some (cells ?resp)) (of_nat (length ?resp)) = Some (int (length ?resp), n1)"
      "sent n c (packet (UserMsg (mi_user_id i) 10101 ?resp)) n1" by auto
  from sendGate_user_sent [of n1 c ?note ?u 10102] sentD(2,6) [OF n1(2)] assms(4-6,12) obtain n2 where
    n2: "sendGate_user n1 ?u 10102 ?note = Some (int (length ?note), n2)" "sent n1 c (packet (UserMsg ?u 10102 ?note)) n2" by auto
  have "send_gate n1 x 10102 ?note = Some (0, n2)" using assms(10) n2(1) by (simp add: send_gate_def)
  then have "processChat max_count P n i = Some (sint (mi_len i), n2)"
    using assms(1,2,7-9,11,12) ts n1(1) sentD(2) [OF n1(2)] by (simp add: processChat_def getByRoleId_def serialize_def)
  then show ?thesis using sentD(1) [OF n1(2)] sentD(1) [OF n2(2)] by auto
qed

theorem chat_delivered_without_text_witness:
  "\<exists>n'. processChat Map.empty sample_game_codec live_game (received_msg 103 10100 [104, 105] 3 1) = Some (2, n') \<and>
    queued n' 1 = queued live_game 1 @ cells (packet (UserMsg 103 10101 [104, 105])) @ cells (packet (UserMsg 100 10102 [16, 1, 24, 2]))"
proof -
  have P: "gp_ChatRequest sample_game_codec d = Some \<lparr>cr_content = ''hi'', cr_chat_type = 1, cr_channel = 2, cr_role_id = 5\<rparr>"
    "gw_ChatResponse sample_game_codec \<lparr>cr_content = ''hi'', cr_chat_type = 1, cr_channel = 2, cr_role_id = 5\<rparr> = [104, 105]"
    "gw_ChatNotify sample_game_codec k l = [16, 1, 24, 2]" for k l d
    by (simp_all add: sample_game_codec_def)
  have "msg_connection live_game (received_msg 103 10100 [104, 105] 3 1) = Some 1"
    by (simp add: msg_connection_def get_connection_def live_game_facts)
  from chat_delivered_without_text [OF this P(1), of 1 _ Map.empty, unfolded live_game_facts(1), OF _ _ _ _ _ one_player_facts(6)]
  show ?thesis by (auto simp: P live_game_facts one_player_facts)
qed

end
