(* ===== verification/Records_Manager.thy ===== *)
theory Records_Manager
  imports Bi_Map
begin

text \<open>
  The templates of \<open>mysql/mysql_records_manager.h\<close>, which collect what has to be written to the database:
  \<open>mysql_record_state_manager\<close> with the pending request of every record, the managers that find records by one
  key, by two keys, and by a key and a key of second order.

  A record is known by its address, a number that is never null; the address that \<open>jmy_mem_malloc\<close> gives for a
  new record is an argument, and the addresses in use are part of the state. The order in which an unordered
  map is walked through is an argument as well. \<open>insert_request\<close>, \<open>delete_request\<close> and \<open>update_request\<close> of a record are
  generated code, given as \<open>record_ops\<close> on a database manager of type \<open>'d\<close>.
\<close>

section \<open>Pending requests\<close>

datatype MysqlTableRecordState =
    MYSQL_TABLE_RECORD_STATE_NONE | MYSQL_TABLE_RECORD_STATE_INSERT | MYSQL_TABLE_RECORD_STATE_DELETE | MYSQL_TABLE_RECORD_STATE_UPDATE

type_synonym TableRecord = nat

type_synonym record_states = "TableRecord \<Rightarrow> MysqlTableRecordState option"

definition get_state :: "record_states \<Rightarrow> TableRecord \<Rightarrow> MysqlTableRecordState option" where
  "get_state st t = st t"

definition commit_insert :: "record_states \<Rightarrow> TableRecord \<Rightarrow> bool \<times> record_states" where
  "commit_insert st r =
     (case get_state st r of
        Some MYSQL_TABLE_RECORD_STATE_NONE \<Rightarrow> (True, st(r \<mapsto> MYSQL_TABLE_RECORD_STATE_INSERT))
      | Some MYSQL_TABLE_RECORD_STATE_DELETE \<Rightarrow> (True, st(r \<mapsto> MYSQL_TABLE_RECORD_STATE_NONE))
      | Some MYSQL_TABLE_RECORD_STATE_INSERT \<Rightarrow> (True, st)
      | Some MYSQL_TABLE_RECORD_STATE_UPDATE \<Rightarrow> (True, st)
      | None \<Rightarrow> (True, st(r \<mapsto> MYSQL_TABLE_RECORD_STATE_INSERT)))"

definition commit_delete :: "record_states \<Rightarrow> TableRecord \<Rightarrow> bool \<times> record_states" where
  "commit_delete st r =
     (case get_state st r of
        None \<Rightarrow> (True, st(r \<mapsto> MYSQL_TABLE_RECORD_STATE_DELETE))
      | Some MYSQL_TABLE_RECORD_STATE_NONE \<Rightarrow> (True, st(r \<mapsto> MYSQL_TABLE_RECORD_STATE_DELETE))
      | Some MYSQL_TABLE_RECORD_STATE_INSERT \<Rightarrow> (True, st(r \<mapsto> MYSQL_TABLE_RECORD_STATE_NONE))
      | Some MYSQL_TABLE_RECORD_STATE_DELETE \<Rightarrow> (True, st)
      | Some MYSQL_TABLE_RECORD_STATE_UPDATE \<Rightarrow> (True, st(r \<mapsto> MYSQL_TABLE_RECORD_STATE_DELETE)))"

definition commit_update :: "record_states \<Rightarrow> TableRecord \<Rightarrow> bool \<times> record_states" where
  "commit_update st r =
     (case get_state st r of
        None \<Rightarrow> (True, st(r \<mapsto> MYSQL_TABLE_RECORD_STATE_UPDATE))
      | Some MYSQL_TABLE_RECORD_STATE_NONE \<Rightarrow> (True, st(r \<mapsto> MYSQL_TABLE_RECORD_STATE_UPDATE))
      | Some MYSQL_TABLE_RECORD_STATE_INSERT \<Rightarrow> (True, st)
      | Some MYSQL_TABLE_RECORD_STATE_DELETE \<Rightarrow> (True, st)
      | Some MYSQL_TABLE_RECORD_STATE_UPDATE \<Rightarrow> (True, st))"

section \<open>The walk through the requests\<close>

record 'd record_ops =
  insert_request :: "'d \<Rightarrow> TableRecord \<Rightarrow> bool \<times> 'd"
  delete_request :: "'d \<Rightarrow> TableRecord \<Rightarrow> bool \<times> 'd"
  update_request :: "'d \<Rightarrow> TableRecord \<Rightarrow> bool \<times> 'd"

text \<open>\<open>curr_iter_\<close> is the list of the records from the current one on.\<close>

type_synonym record_iter = "TableRecord list"

definition start_update :: "TableRecord list \<Rightarrow> record_iter" where
  "start_update order = order"

definition get_update_record :: "record_iter \<Rightarrow> TableRecord option" where
  "get_update_record it = (case it of [] \<Rightarrow> None | r # _ \<Rightarrow> Some r)"

definition next_update_record :: "record_iter \<Rightarrow> bool \<times> record_iter" where
  "next_update_record it = (case it of [] \<Rightarrow> (False, it) | _ # rs \<Rightarrow> (True, rs))"

text \<open>The result is 0 for a failure, 2 for a deletion, 1 otherwise; a record that is not in the map has no state to read.\<close>

definition update_one_record :: "'d record_ops \<Rightarrow> record_states \<Rightarrow> TableRecord \<Rightarrow> 'd \<Rightarrow> (nat \<times> 'd) option" where
  "update_one_record R st r d = do {
     s \<leftarrow> st r;
     Some (case s of
        MYSQL_TABLE_RECORD_STATE_INSERT \<Rightarrow> (let (ok, d) = insert_request R d r in (if ok then 1 else 0, d))
      | MYSQL_TABLE_RECORD_STATE_DELETE \<Rightarrow> (let (ok, d) = delete_request R d r in (if ok then 2 else 0, d))
      | MYSQL_TABLE_RECORD_STATE_UPDATE \<Rightarrow> (let (ok, d) = update_request R d r in (if ok then 1 else 0, d))
      | MYSQL_TABLE_RECORD_STATE_NONE \<Rightarrow> (1, d))
   }"

text \<open>The loop of \<open>update\<close>, the same in both managers but for the function that removes a deleted record.\<close>

function update_loop :: "'d record_ops \<Rightarrow> ('m \<Rightarrow> TableRecord \<Rightarrow> (bool \<times> 'm) option) \<Rightarrow> record_states \<Rightarrow> record_iter \<Rightarrow> 'm \<Rightarrow> 'd \<Rightarrow> ('m \<times> 'd) option" where
  "update_loop R rem st it m d =
     (case get_update_record it of
        None \<Rightarrow> Some (m, d)
      | Some r \<Rightarrow> do {
          (res, d) \<leftarrow> update_one_record R st r d;
          m \<leftarrow> (if res = 2 then do { (_, m) \<leftarrow> rem m r; Some m } else Some m);
          let (more, it) = next_update_record it;
          if \<not> more then Some (m, d) else update_loop R rem st it m d
        })"
  by pat_completeness auto
termination
  by (relation "measure (\<lambda>(R, rem, st, it, m, d). length it)") (auto simp: get_update_record_def next_update_record_def split: list.splits)

declare update_loop.simps [simp del]

section \<open>Records by one key\<close>

record 'k records_manager =
  rm_key_record_map :: "('k, TableRecord) BiMap"
  rm_state_mgr :: record_states
  rm_alive :: "TableRecord set"

definition new_records_manager :: "'k records_manager" where
  "new_records_manager = \<lparr>rm_key_record_map = new_bimap, rm_state_mgr = Map.empty, rm_alive = {}\<rparr>"

text \<open>\<open>clear\<close> frees the records and leaves their pending requests.\<close>

definition rm_clear :: "'k records_manager \<Rightarrow> 'k records_manager" where
  "rm_clear m = m\<lparr>rm_alive := rm_alive m - ran (one_map (rm_key_record_map m)), rm_key_record_map := bimap_clear (rm_key_record_map m)\<rparr>"

definition get_new_no_insert :: "'k records_manager \<Rightarrow> TableRecord \<Rightarrow> 'k records_manager" where
  "get_new_no_insert m p = m\<lparr>rm_alive := insert p (rm_alive m)\<rparr>"

definition insert_new :: "'k records_manager \<Rightarrow> 'k \<Rightarrow> TableRecord \<Rightarrow> bool \<times> 'k records_manager" where
  "insert_new m key r =
     (if find_1 (rm_key_record_map m) key \<noteq> None then (False, m)
      else (True, m\<lparr>rm_key_record_map := snd (bimap_insert (rm_key_record_map m) key r)\<rparr>))"

definition rm_get :: "'k records_manager \<Rightarrow> 'k \<Rightarrow> TableRecord option" where
  "rm_get m key = find_1 (rm_key_record_map m) key"

definition rm_get_new :: "'k records_manager \<Rightarrow> 'k \<Rightarrow> TableRecord \<Rightarrow> TableRecord \<times> 'k records_manager" where
  "rm_get_new m key p = (p, m\<lparr>rm_alive := insert p (rm_alive m), rm_key_record_map := snd (bimap_insert (rm_key_record_map m) key p)\<rparr>)"

definition rm_remove_key :: "'k records_manager \<Rightarrow> 'k \<Rightarrow> (bool \<times> 'k records_manager) option" where
  "rm_remove_key m key =
     (case find_1 (rm_key_record_map m) key of
        None \<Rightarrow> Some (False, m)
      | Some r \<Rightarrow> do {
          (_, b) \<leftarrow> remove_1 (rm_key_record_map m) key;
          Some (True, m\<lparr>rm_alive := rm_alive m - {r}, rm_key_record_map := b\<rparr>)
        })"

definition rm_remove :: "'k records_manager \<Rightarrow> TableRecord \<Rightarrow> (bool \<times> 'k records_manager) option" where
  "rm_remove m r =
     (if find_2 (rm_key_record_map m) r = None then Some (False, m)
      else do {
        (_, b) \<leftarrow> remove_2 (rm_key_record_map m) r;
        Some (True, m\<lparr>rm_alive := rm_alive m - {r}, rm_key_record_map := b\<rparr>)
      })"

definition rm_commit :: "(record_states \<Rightarrow> TableRecord \<Rightarrow> bool \<times> record_states) \<Rightarrow> 'k records_manager \<Rightarrow> TableRecord \<Rightarrow> bool \<times> 'k records_manager" where
  "rm_commit f m r = (let (ok, st) = f (rm_state_mgr m) r in (ok, m\<lparr>rm_state_mgr := st\<rparr>))"

definition commit_insert_request_key :: "'k records_manager \<Rightarrow> 'k \<Rightarrow> TableRecord \<Rightarrow> bool \<times> 'k records_manager" where
  "commit_insert_request_key m key p =
     (let (r, m) = (case rm_get m key of None \<Rightarrow> rm_get_new m key p | Some r \<Rightarrow> (r, m)) in rm_commit commit_insert m r)"

definition commit_insert_request :: "'k records_manager \<Rightarrow> TableRecord \<Rightarrow> bool \<times> 'k records_manager" where
  "commit_insert_request m r = rm_commit commit_insert m r"

definition commit_delete_request_key :: "'k records_manager \<Rightarrow> 'k \<Rightarrow> bool \<times> 'k records_manager" where
  "commit_delete_request_key m key = (case rm_get m key of None \<Rightarrow> (False, m) | Some r \<Rightarrow> rm_commit commit_delete m r)"

definition commit_delete_request :: "'k records_manager \<Rightarrow> TableRecord \<Rightarrow> bool \<times> 'k records_manager" where
  "commit_delete_request m r = rm_commit commit_delete m r"

definition commit_update_request_key :: "'k records_manager \<Rightarrow> 'k \<Rightarrow> bool \<times> 'k records_manager" where
  "commit_update_request_key m key = (case rm_get m key of None \<Rightarrow> (False, m) | Some r \<Rightarrow> rm_commit commit_update m r)"

definition commit_update_request :: "'k records_manager \<Rightarrow> TableRecord \<Rightarrow> bool \<times> 'k records_manager" where
  "commit_update_request m r = rm_commit commit_update m r"

text \<open>\<open>update\<close>: the results of the requests are never negative, so that the requests are always forgotten at the end.\<close>

definition rm_update :: "'d record_ops \<Rightarrow> 'k records_manager \<Rightarrow> TableRecord list \<Rightarrow> 'd \<Rightarrow> ('k records_manager \<times> 'd) option" where
  "rm_update R m order d = do {
     (m, d) \<leftarrow> update_loop R rm_remove (rm_state_mgr m) (start_update order) m d;
     Some (m\<lparr>rm_state_mgr := Map.empty\<rparr>, d)
   }"

section \<open>Records by two keys\<close>

record ('k, 'l) records_manager2 =
  r2_key_record_map :: "('k, TableRecord) BiMap"
  r2_key2_record_map :: "('l, TableRecord) BiMap"
  r2_state_mgr :: record_states
  r2_alive :: "TableRecord set"

definition new_records_manager2 :: "('k, 'l) records_manager2" where
  "new_records_manager2 = \<lparr>r2_key_record_map = new_bimap, r2_key2_record_map = new_bimap, r2_state_mgr = Map.empty, r2_alive = {}\<rparr>"

definition get_by_key :: "('k, 'l) records_manager2 \<Rightarrow> 'k \<Rightarrow> TableRecord option" where
  "get_by_key m key = find_1 (r2_key_record_map m) key"

definition get_by_key2 :: "('k, 'l) records_manager2 \<Rightarrow> 'l \<Rightarrow> TableRecord option" where
  "get_by_key2 m key2 = find_1 (r2_key2_record_map m) key2"

definition get_new_by_key :: "('k, 'l) records_manager2 \<Rightarrow> 'k \<Rightarrow> TableRecord \<Rightarrow> TableRecord \<times> ('k, 'l) records_manager2" where
  "get_new_by_key m key p = (p, m\<lparr>r2_alive := insert p (r2_alive m), r2_key_record_map := snd (bimap_insert (r2_key_record_map m) key p)\<rparr>)"

definition get_new_by_key2 :: "('k, 'l) records_manager2 \<Rightarrow> 'l \<Rightarrow> TableRecord \<Rightarrow> TableRecord \<times> ('k, 'l) records_manager2" where
  "get_new_by_key2 m key2 p = (p, m\<lparr>r2_alive := insert p (r2_alive m), r2_key2_record_map := snd (bimap_insert (r2_key2_record_map m) key2 p)\<rparr>)"

definition get_new_by_key_and_key2 :: "('k, 'l) records_manager2 \<Rightarrow> 'k \<Rightarrow> 'l \<Rightarrow> TableRecord \<Rightarrow> TableRecord \<times> ('k, 'l) records_manager2" where
  "get_new_by_key_and_key2 m key key2 p = (p, m\<lparr>r2_alive := insert p (r2_alive m),
     r2_key_record_map := snd (bimap_insert (r2_key_record_map m) key p),
     r2_key2_record_map := snd (bimap_insert (r2_key2_record_map m) key2 p)\<rparr>)"

definition insert_key_record :: "('k, 'l) records_manager2 \<Rightarrow> 'k \<Rightarrow> TableRecord \<Rightarrow> bool \<times> ('k, 'l) records_manager2" where
  "insert_key_record m key r =
     (if find_2 (r2_key2_record_map m) r = None then (False, m)
      else if find_1 (r2_key_record_map m) key = None
      then (True, m\<lparr>r2_key_record_map := snd (bimap_insert (r2_key_record_map m) key r)\<rparr>)
      else (True, m))"

definition insert_key2_record :: "('k, 'l) records_manager2 \<Rightarrow> 'l \<Rightarrow> TableRecord \<Rightarrow> bool \<times> ('k, 'l) records_manager2" where
  "insert_key2_record m key2 r =
     (if find_2 (r2_key_record_map m) r = None then (False, m)
      else if find_1 (r2_key2_record_map m) key2 = None
      then (True, m\<lparr>r2_key2_record_map := snd (bimap_insert (r2_key2_record_map m) key2 r)\<rparr>)
      else (True, m))"

definition remove_by_key :: "('k, 'l) records_manager2 \<Rightarrow> 'k \<Rightarrow> (bool \<times> ('k, 'l) records_manager2) option" where
  "remove_by_key m key =
     (case find_1 (r2_key_record_map m) key of
        None \<Rightarrow> Some (False, m)
      | Some r \<Rightarrow> do {
          (ok, b2) \<leftarrow> remove_2 (r2_key2_record_map m) r;
          if \<not> ok then Some (False, m)
          else do {
            (_, b) \<leftarrow> remove_1 (r2_key_record_map m) key;
            Some (True, m\<lparr>r2_key2_record_map := b2, r2_key_record_map := b, r2_alive := r2_alive m - {r}\<rparr>)
          }
        })"

definition remove_by_key2 :: "('k, 'l) records_manager2 \<Rightarrow> 'l \<Rightarrow> (bool \<times> ('k, 'l) records_manager2) option" where
  "remove_by_key2 m key2 =
     (case find_1 (r2_key2_record_map m) key2 of
        None \<Rightarrow> Some (False, m)
      | Some r \<Rightarrow> do {
          (ok, b) \<leftarrow> remove_2 (r2_key_record_map m) r;
          if \<not> ok then Some (False, m)
          else do {
            (_, b2) \<leftarrow> remove_1 (r2_key2_record_map m) key2;
            Some (True, m\<lparr>r2_key_record_map := b, r2_key2_record_map := b2, r2_alive := r2_alive m - {r}\<rparr>)
          }
        })"

definition remove_record :: "('k, 'l) records_manager2 \<Rightarrow> TableRecord \<Rightarrow> (bool \<times> ('k, 'l) records_manager2) option" where
  "remove_record m r =
     (if find_2 (r2_key_record_map m) r = None then Some (False, m)
      else do {
        (_, b) \<leftarrow> remove_2 (r2_key_record_map m) r;
        let m = m\<lparr>r2_key_record_map := b\<rparr>;
        if find_2 (r2_key2_record_map m) r = None then Some (False, m)
        else Some (True, m\<lparr>r2_alive := r2_alive m - {r}\<rparr>)
      })"

definition r2_commit :: "(record_states \<Rightarrow> TableRecord \<Rightarrow> bool \<times> record_states) \<Rightarrow> ('k, 'l) records_manager2 \<Rightarrow> TableRecord \<Rightarrow> bool \<times> ('k, 'l) records_manager2" where
  "r2_commit f m r = (let (ok, st) = f (r2_state_mgr m) r in (ok, m\<lparr>r2_state_mgr := st\<rparr>))"

text \<open>The first key is handed to \<open>get_new_by_key2\<close>, which needs a conversion to the type of the second key.\<close>

definition commit_insert_request_by_key :: "('k \<Rightarrow> 'l) \<Rightarrow> ('k, 'l) records_manager2 \<Rightarrow> 'k \<Rightarrow> TableRecord \<Rightarrow> bool \<times> ('k, 'l) records_manager2" where
  "commit_insert_request_by_key conv m key p =
     (let (r, m) = (case get_by_key m key of None \<Rightarrow> get_new_by_key2 m (conv key) p | Some r \<Rightarrow> (r, m)) in r2_commit commit_insert m r)"

definition commit_insert_request_by_key2 :: "('k, 'l) records_manager2 \<Rightarrow> 'l \<Rightarrow> TableRecord \<Rightarrow> bool \<times> ('k, 'l) records_manager2" where
  "commit_insert_request_by_key2 m key2 p =
     (let (r, m) = (case get_by_key2 m key2 of None \<Rightarrow> get_new_by_key2 m key2 p | Some r \<Rightarrow> (r, m)) in r2_commit commit_insert m r)"

definition r2_commit_insert_request :: "('k, 'l) records_manager2 \<Rightarrow> TableRecord \<Rightarrow> bool \<times> ('k, 'l) records_manager2" where
  "r2_commit_insert_request m r = r2_commit commit_insert m r"

definition commit_delete_request_by_key :: "('k, 'l) records_manager2 \<Rightarrow> 'k \<Rightarrow> bool \<times> ('k, 'l) records_manager2" where
  "commit_delete_request_by_key m key = (case get_by_key m key of None \<Rightarrow> (False, m) | Some r \<Rightarrow> r2_commit commit_delete m r)"

definition commit_delete_request_by_key2 :: "('k, 'l) records_manager2 \<Rightarrow> 'l \<Rightarrow> bool \<times> ('k, 'l) records_manager2" where
  "commit_delete_request_by_key2 m key2 = (case get_by_key2 m key2 of None \<Rightarrow> (False, m) | Some r \<Rightarrow> r2_commit commit_delete m r)"

definition r2_commit_delete_request :: "('k, 'l) records_manager2 \<Rightarrow> TableRecord \<Rightarrow> bool \<times> ('k, 'l) records_manager2" where
  "r2_commit_delete_request m r = r2_commit commit_delete m r"

definition commit_update_request_by_key :: "('k, 'l) records_manager2 \<Rightarrow> 'k \<Rightarrow> bool \<times> ('k, 'l) records_manager2" where
  "commit_update_request_by_key m key = (case get_by_key m key of None \<Rightarrow> (False, m) | Some r \<Rightarrow> r2_commit commit_update m r)"

definition commit_update_request_by_key2 :: "('k, 'l) records_manager2 \<Rightarrow> 'l \<Rightarrow> bool \<times> ('k, 'l) records_manager2" where
  "commit_update_request_by_key2 m key2 = (case get_by_key2 m key2 of None \<Rightarrow> (False, m) | Some r \<Rightarrow> r2_commit commit_update m r)"

definition r2_commit_update_request :: "('k, 'l) records_manager2 \<Rightarrow> TableRecord \<Rightarrow> bool \<times> ('k, 'l) records_manager2" where
  "r2_commit_update_request m r = r2_commit commit_update m r"

definition r2_update :: "'d record_ops \<Rightarrow> ('k, 'l) records_manager2 \<Rightarrow> TableRecord list \<Rightarrow> 'd \<Rightarrow> (('k, 'l) records_manager2 \<times> 'd) option" where
  "r2_update R m order d =
     (if order = [] then Some (m, d)
      else do {
        (m, d) \<leftarrow> update_loop R remove_record (r2_state_mgr m) (start_update order) m d;
        Some (m\<lparr>r2_state_mgr := Map.empty\<rparr>, d)
      })"

section \<open>Managers by a key\<close>

record ('k, 's) records_manager_map =
  mm_key2recordlist :: "'k \<Rightarrow> 's records_manager option"
  mm_key_set_committed :: "'k list"

definition mm_get :: "('k, 's) records_manager_map \<Rightarrow> 'k \<Rightarrow> 's records_manager option" where
  "mm_get m key = mm_key2recordlist m key"

text \<open>An insert of a key that is there changes nothing, and the new manager is returned without being in the map.\<close>

definition mm_get_new :: "('k, 's) records_manager_map \<Rightarrow> 'k \<Rightarrow> 's records_manager \<times> ('k, 's) records_manager_map" where
  "mm_get_new m key = (new_records_manager, m\<lparr>mm_key2recordlist := map_insert (mm_key2recordlist m) key new_records_manager\<rparr>)"

definition mm_remove :: "('k, 's) records_manager_map \<Rightarrow> 'k \<Rightarrow> bool \<times> ('k, 's) records_manager_map" where
  "mm_remove m key =
     (if mm_key2recordlist m key = None then (False, m) else (True, m\<lparr>mm_key2recordlist := (mm_key2recordlist m)(key := None)\<rparr>))"

definition commit_changed :: "('k :: linorder, 's) records_manager_map \<Rightarrow> 'k \<Rightarrow> ('k, 's) records_manager_map" where
  "commit_changed m key =
     (if key \<in> set (mm_key_set_committed m) then m else m\<lparr>mm_key_set_committed := insort key (mm_key_set_committed m)\<rparr>)"

fun update_keys :: "'d record_ops \<Rightarrow> ('k \<Rightarrow> TableRecord list) \<Rightarrow> 'k list \<Rightarrow> ('k \<Rightarrow> 's records_manager option) \<Rightarrow> 'd \<Rightarrow> (('k \<Rightarrow> 's records_manager option) \<times> 'd) option" where
  "update_keys R order [] rl d = Some (rl, d)"
| "update_keys R order (k # ks) rl d =
     (case rl k of
        None \<Rightarrow> update_keys R order ks rl d
      | Some v \<Rightarrow> do {
          (v, d) \<leftarrow> rm_update R v (order k) d;
          update_keys R order ks (rl(k \<mapsto> v)) d
        })"

definition mm_update :: "'d record_ops \<Rightarrow> ('k \<Rightarrow> TableRecord list) \<Rightarrow> ('k, 's) records_manager_map \<Rightarrow> 'd \<Rightarrow> (('k, 's) records_manager_map \<times> 'd) option" where
  "mm_update R order m d =
     (if mm_key_set_committed m = [] then Some (m, d)
      else do {
        (rl, d) \<leftarrow> update_keys R order (mm_key_set_committed m) (mm_key2recordlist m) d;
        Some (m\<lparr>mm_key2recordlist := rl, mm_key_set_committed := []\<rparr>, d)
      })"

section \<open>Requests that come together\<close>

datatype request = Ins | Del | Upd

fun committed :: "record_states \<Rightarrow> TableRecord \<Rightarrow> request list \<Rightarrow> record_states" where
  "committed st r [] = st"
| "committed st r (Ins # qs) = committed (snd (commit_insert st r)) r qs"
| "committed st r (Del # qs) = committed (snd (commit_delete st r)) r qs"
| "committed st r (Upd # qs) = committed (snd (commit_update st r)) r qs"

text \<open>A row is inserted where there is none and deleted or updated where there is one; the row after a sequence of requests, \<open>None\<close> if one is out of place.\<close>

fun row_after :: "bool \<Rightarrow> request list \<Rightarrow> bool option" where
  "row_after b [] = Some b"
| "row_after b (Ins # qs) = (if b then None else row_after True qs)"
| "row_after b (Del # qs) = (if b then row_after False qs else None)"
| "row_after b (Upd # qs) = (if b then row_after True qs else None)"

text \<open>What a pending request makes of a row.\<close>

fun row_flushed :: "bool \<Rightarrow> MysqlTableRecordState option \<Rightarrow> bool" where
  "row_flushed b (Some MYSQL_TABLE_RECORD_STATE_INSERT) = True"
| "row_flushed b (Some MYSQL_TABLE_RECORD_STATE_DELETE) = False"
| "row_flushed b s = b"

text \<open>The states a record can have when the row was there at first, and when it was not, with the row expected now.\<close>

fun coalesced :: "bool \<Rightarrow> bool \<Rightarrow> MysqlTableRecordState option \<Rightarrow> bool" where
  "coalesced True now s \<longleftrightarrow> (if now then s \<in> {None, Some MYSQL_TABLE_RECORD_STATE_NONE, Some MYSQL_TABLE_RECORD_STATE_UPDATE} else s = Some MYSQL_TABLE_RECORD_STATE_DELETE)"
| "coalesced False now s \<longleftrightarrow> (if now then s = Some MYSQL_TABLE_RECORD_STATE_INSERT else s \<in> {None, Some MYSQL_TABLE_RECORD_STATE_NONE})"

lemma committed_snoc: "committed st r (qs @ [q]) = committed (committed st r qs) r [q]"
  by (induction st r qs rule: committed.induct) simp_all

lemma row_after_snoc: "row_after b (qs @ [q]) = Option.bind (row_after b qs) (\<lambda>b. row_after b [q])"
  by (induction b qs rule: row_after.induct) simp_all

lemma committed_coalesced:
  assumes "row_after b qs = Some now" "st r = None"
  shows "coalesced b now (committed st r qs r) \<and>
    (now \<and> b \<and> qs \<noteq> [] \<longrightarrow> committed st r qs r = (if last qs = Ins then Some MYSQL_TABLE_RECORD_STATE_NONE else Some MYSQL_TABLE_RECORD_STATE_UPDATE))"
  using assms(1)
proof (induction qs arbitrary: now rule: rev_induct)
  case Nil
  with assms(2) show ?case by (cases b) auto
next
  case (snoc q qs)
  then obtain b' where b': "row_after b qs = Some b'" "row_after b' [q] = Some now" by (auto simp: row_after_snoc bind_eq_Some_conv)
  with snoc.IH [OF b'(1)] show ?case unfolding committed_snoc
    by (cases b; cases b'; cases q) (auto simp: commit_insert_def commit_delete_def commit_update_def get_state_def split: if_splits)
qed



section \<open>What a walk sends\<close>

definition send_request :: "'d record_ops \<Rightarrow> record_states \<Rightarrow> TableRecord \<Rightarrow> 'd \<Rightarrow> 'd" where
  "send_request R st r d =
     (case st r of
        Some MYSQL_TABLE_RECORD_STATE_INSERT \<Rightarrow> snd (insert_request R d r)
      | Some MYSQL_TABLE_RECORD_STATE_DELETE \<Rightarrow> snd (delete_request R d r)
      | Some MYSQL_TABLE_RECORD_STATE_UPDATE \<Rightarrow> snd (update_request R d r)
      | _ \<Rightarrow> d)"

lemma update_loop_Nil [simp]: "update_loop R rem st [] m d = Some (m, d)"
  by (subst update_loop.simps) (simp add: get_update_record_def)

lemma update_loop_Cons:
  "update_loop R rem st (r # rs) m d = do {
     (res, d) \<leftarrow> update_one_record R st r d;
     m \<leftarrow> (if res = 2 then do { (_, m) \<leftarrow> rem m r; Some m } else Some m);
     update_loop R rem st rs m d
   }"
  by (subst update_loop.simps) (simp add: get_update_record_def next_update_record_def)

lemma update_one_record_sends:
  assumes "st r = Some s"
  shows "\<exists>res. update_one_record R st r d = Some (res, send_request R st r d) \<and>
    (res = 2 \<longleftrightarrow> s = MYSQL_TABLE_RECORD_STATE_DELETE \<and> fst (delete_request R d r))"
  using assms by (cases s) (auto simp: update_one_record_def send_request_def split: prod.splits)

text \<open>A removal that is undefined for a record the manager knows, and does nothing for others, as both managers have it.\<close>

locale removal =
  fixes rem :: "'m \<Rightarrow> TableRecord \<Rightarrow> (bool \<times> 'm) option"
    and known :: "'m \<Rightarrow> TableRecord \<Rightarrow> bool"
  assumes unknown: "\<not> known m r \<Longrightarrow> rem m r = Some (False, m)"
    and undefined: "known m r \<Longrightarrow> rem m r = None"
begin

lemma walk_sends:
  assumes "\<forall>r \<in> set order. st r \<noteq> None" "\<forall>r \<in> set order. st r = Some MYSQL_TABLE_RECORD_STATE_DELETE \<longrightarrow> \<not> known m r"
  shows "update_loop R rem st order m d = Some (m, fold (send_request R st) order d)"
  using assms
proof (induction order arbitrary: d)
  case (Cons r rs)
  then obtain s where s: "st r = Some s" by auto
  from update_one_record_sends [of st, OF s] obtain res where
    res: "update_one_record R st r d = Some (res, send_request R st r d)" "res = 2 \<Longrightarrow> s = MYSQL_TABLE_RECORD_STATE_DELETE" by metis
  have rs: "update_loop R rem st rs m d' = Some (m, fold (send_request R st) rs d')" for d' using Cons by simp
  have "res = 2 \<Longrightarrow> rem m r = Some (False, m)" using Cons.prems(2) s res(2) by (simp add: unknown)
  then show ?case by (simp add: update_loop_Cons res(1) rs)
qed simp

lemma walk_undefined:
  assumes "\<forall>r \<in> set order. st r \<noteq> None" "r \<in> set order" "st r = Some MYSQL_TABLE_RECORD_STATE_DELETE" "known m r" "\<forall>d. fst (delete_request R d r)"
  shows "update_loop R rem st order m d = None"
  using assms
proof (induction order arbitrary: d)
  case (Cons q qs)
  then obtain s where s: "st q = Some s" by auto
  from update_one_record_sends [of st, OF s] obtain res where
    res: "update_one_record R st q d = Some (res, send_request R st q d)" "res = 2 \<longleftrightarrow> s = MYSQL_TABLE_RECORD_STATE_DELETE \<and> fst (delete_request R d q)" by metis
  show ?case
  proof (cases "q = r")
    case True
    with Cons.prems(3-5) s res show ?thesis by (simp add: update_loop_Cons undefined)
  next
    case False
    with Cons have "update_loop R rem st qs m d' = None" for d' by simp
    then show ?thesis by (cases "known m q") (simp_all add: update_loop_Cons res(1) unknown undefined)
  qed
qed simp

end

interpretation rm1: removal rm_remove "\<lambda>m r. find_2 (rm_key_record_map m) r \<noteq> None"
  by unfold_locales (auto simp: rm_remove_def remove_2_def read_iterator_def find_2_def)

interpretation rm2: removal remove_record "\<lambda>m r. find_2 (r2_key_record_map m) r \<noteq> None"
  by unfold_locales (auto simp: remove_record_def remove_2_def read_iterator_def find_2_def)


text \<open>A database that keeps a log of the requests and refuses all of them, or none.\<close>

definition log_ops :: "bool \<Rightarrow> (request \<times> TableRecord) list record_ops" where
  "log_ops ok = \<lparr>insert_request = (\<lambda>d r. (ok, d @ [(Ins, r)])), delete_request = (\<lambda>d r. (ok, d @ [(Del, r)])), update_request = (\<lambda>d r. (ok, d @ [(Upd, r)]))\<rparr>"

definition test_records :: "(int, string) records_manager2" where
  "test_records = snd (commit_update_request_by_key2 (snd (r2_commit_insert_request (snd (get_new_by_key_and_key2
     (snd (get_new_by_key_and_key2 new_records_manager2 1 ''a'' 10)) 2 ''b'' 20)) 10)) ''b'')"

lemma test_records_state: "r2_state_mgr test_records = [10 \<mapsto> MYSQL_TABLE_RECORD_STATE_INSERT, 20 \<mapsto> MYSQL_TABLE_RECORD_STATE_UPDATE]"
  by (simp add: test_records_def commit_update_request_by_key2_def r2_commit_insert_request_def r2_commit_def get_new_by_key_and_key2_def
      new_records_manager2_def commit_insert_def commit_update_def get_state_def get_by_key2_def find_1_def bimap_insert_def new_bimap_def map_insert_def)


text \<open>
  Deleting a record of the table is undefined. When the deletion of a record that the manager knows by its first key has
  been requested and the request succeeds, the update erases the record from the map of keys and reads the
  erased element, whatever the other requests and the order are.
\<close>

theorem deletion_of_known_record_undefined:
  assumes "set order = dom (r2_state_mgr m)" "r2_state_mgr m r = Some MYSQL_TABLE_RECORD_STATE_DELETE"
    and "find_2 (r2_key_record_map m) r = Some k" "\<forall>d. fst (delete_request R d r)"
  shows "r2_update R m order d = None"
proof -
  have "r \<in> set order" "\<forall>r \<in> set order. r2_state_mgr m r \<noteq> None" using assms(1,2) by auto
  then show ?thesis using rm2.walk_undefined [of order "r2_state_mgr m" r m R d] assms(2-4) by (auto simp: r2_update_def start_update_def)
qed

theorem deletion_of_known_record_undefined_witness:
  "r2_update (log_ops True) (snd (r2_commit_delete_request test_records 20)) [10, 20] [] = None"
proof -
  have s: "r2_state_mgr (snd (r2_commit_delete_request test_records 20)) = [10 \<mapsto> MYSQL_TABLE_RECORD_STATE_INSERT, 20 \<mapsto> MYSQL_TABLE_RECORD_STATE_DELETE]"
    by (auto simp: r2_commit_delete_request_def r2_commit_def commit_delete_def get_state_def test_records_state)
  have "find_2 (r2_key_record_map (snd (r2_commit_delete_request test_records 20))) 20 = Some 2"
    by (simp add: r2_commit_delete_request_def r2_commit_def commit_delete_def get_state_def test_records_state)
      (simp add: test_records_def commit_update_request_by_key2_def r2_commit_insert_request_def r2_commit_def get_new_by_key_and_key2_def
      new_records_manager2_def commit_insert_def commit_update_def get_state_def get_by_key2_def find_1_def find_2_def bimap_insert_def new_bimap_def map_insert_def)
  from deletion_of_known_record_undefined [OF _ _ this, of "[10, 20]" "log_ops True" "[]"] s show ?thesis by (auto simp: log_ops_def)
qed

section \<open>Updates by key\<close>

lemma update_keys_other:
  "update_keys R order ks rl d = Some (rl', d') \<Longrightarrow> k \<notin> set ks \<Longrightarrow> rl' k = rl k"
  by (induction R order ks rl d rule: update_keys.induct) (auto split: option.splits bind_splits)

lemma rm_update_state: "rm_update R m order d = Some (m', d') \<Longrightarrow> rm_state_mgr m' = Map.empty"
  by (auto simp: rm_update_def split: bind_splits)

lemma update_keys_flushed:
  "update_keys R order ks rl d = Some (rl', d') \<Longrightarrow> k \<in> set ks \<Longrightarrow> rl' k = Some v \<Longrightarrow> rm_state_mgr v = Map.empty"
proof (induction ks arbitrary: rl d)
  case (Cons q ks)
  show ?case
  proof (cases "k \<in> set ks")
    case True
    with Cons show ?thesis by (fastforce split: option.splits bind_splits)
  next
    case False
    with Cons.prems show ?thesis by (auto split: option.splits bind_splits dest!: update_keys_other [of _ _ ks _ _ _ _ k] rm_update_state)
  qed
qed simp

text \<open>An update by key touches only the managers whose key was committed, and leaves them without pending requests.\<close>

lemma mm_update_changed:
  assumes "mm_update R order m d = Some (m', d')"
  shows "(k \<notin> set (mm_key_set_committed m) \<longrightarrow> mm_get m' k = mm_get m k) \<and>
    (k \<in> set (mm_key_set_committed m) \<longrightarrow> (\<forall>v. mm_get m' k = Some v \<longrightarrow> rm_state_mgr v = Map.empty)) \<and> mm_key_set_committed m' = []"
  using assms update_keys_other [of R order "mm_key_set_committed m" "mm_key2recordlist m" d _ d' k]
    update_keys_flushed [of R order "mm_key_set_committed m" "mm_key2recordlist m" d _ d' k]
  by (auto simp: mm_update_def mm_get_def split: if_splits bind_splits)

end
