(* ===== verification/Connector_Pool.thy ===== *)
theory Connector_Pool
  imports Prelude
begin

text \<open>
  \<open>MysqlConnectorPool\<close> of \<open>mysql/mysql_connector_pool.h\<close> and \<open>.cpp\<close> with the queries of \<open>mysql/mysql_connector.cpp\<close>:
  queues of SQL commands that a thread per connector takes from, and queues of results that the main
  thread hands to the callbacks. One round of the loop of a thread is an operation; a lock makes each access
  to a queue atomic, so that an execution is a sequence of pushes, rounds and runs in any order.

  The MySQL client library is the parameter \<open>mysql_api\<close>: the effect of a query on the database \<open>'d\<close> with its
  error number, and the result set of the last query. A callback is a \<open>std::function\<close>, a value of type \<open>'c\<close>.
\<close>

section \<open>Results and the connector\<close>

record Result =
  rs_res :: "string list list option"
  rs_nfields :: nat
  rs_err :: int

definition new_result :: Result where
  "new_result = \<lparr>rs_res = None, rs_nfields = 0, rs_err = 0\<rparr>"

record 'd mysql_api =
  mysql_real_query :: "'d \<Rightarrow> string \<Rightarrow> int \<times> 'd"
  mysql_store_result :: "'d \<Rightarrow> (nat \<times> string list list) option"

definition result_clear :: "Result \<Rightarrow> Result" where
  "result_clear r = r\<lparr>rs_res := None\<rparr>"

definition result_init_err :: "Result \<Rightarrow> int \<Rightarrow> Result" where
  "result_init_err r err = (result_clear r)\<lparr>rs_nfields := 0, rs_err := err\<rparr>"

text \<open>\<open>init\<close> with a result set leaves the error number as it was.\<close>

definition result_init_res :: "Result \<Rightarrow> nat \<times> string list list \<Rightarrow> Result" where
  "result_init_res r s = (result_clear r)\<lparr>rs_res := Some (snd s), rs_nfields := fst s\<rparr>"

definition result_is_empty :: "Result \<Rightarrow> bool" where
  "result_is_empty r \<longleftrightarrow> rs_res r = None"

definition real_query :: "'d mysql_api \<Rightarrow> 'd \<Rightarrow> Result \<Rightarrow> string \<Rightarrow> bool \<times> 'd \<times> Result" where
  "real_query A d r sql =
     (let (err, d) = mysql_real_query A d sql
      in if err \<noteq> 0 then (False, d, result_init_err r err) else (True, d, r))"

definition store_result :: "'d mysql_api \<Rightarrow> 'd \<Rightarrow> Result \<Rightarrow> bool \<times> Result" where
  "store_result A d r =
     (case mysql_store_result A d of None \<Rightarrow> (False, r) | Some s \<Rightarrow> (True, result_init_res r s))"

definition real_read_query :: "'d mysql_api \<Rightarrow> 'd \<Rightarrow> Result \<Rightarrow> string \<Rightarrow> bool \<times> 'd \<times> Result" where
  "real_read_query A d r sql =
     (let (ok, d, r) = real_query A d r sql
      in if \<not> ok then (False, d, r) else let (ok, r) = store_result A d r in (ok, d, r))"

section \<open>Commands and queues\<close>

record 'c CmdInfo =
  cmd_sql :: string
  cmd_callback_func :: "'c option"
  cmd_write_cmd :: bool

text \<open>The constructor takes the length as an \<open>unsigned short\<close> and copies that many bytes.\<close>

definition new_cmd :: "string \<Rightarrow> u32 \<Rightarrow> 'c CmdInfo" where
  "new_cmd sql len = \<lparr>cmd_sql = take (unat (ucast len :: u16)) sql, cmd_callback_func = None, cmd_write_cmd = False\<rparr>"

record 'c ResultInfo =
  ri_res :: Result
  ri_cb_func :: "'c option"

record 'c ConnectorInfo =
  co_res :: Result
  co_cmd_list :: "'c CmdInfo list"
  co_res_list :: "'c ResultInfo list"

definition new_connector :: "'c ConnectorInfo" where
  "new_connector = \<lparr>co_res = new_result, co_cmd_list = [], co_res_list = []\<rparr>"

definition co_clear :: "'c ConnectorInfo \<Rightarrow> 'c ConnectorInfo" where
  "co_clear c = c\<lparr>co_res_list := [], co_cmd_list := []\<rparr>"

definition co_push :: "'c ConnectorInfo \<Rightarrow> 'c CmdInfo \<Rightarrow> 'c ConnectorInfo" where
  "co_push c i = c\<lparr>co_cmd_list := co_cmd_list c @ [i]\<rparr>"

definition co_pop :: "'c ConnectorInfo \<Rightarrow> ('c CmdInfo \<times> 'c ConnectorInfo) option" where
  "co_pop c = (case co_cmd_list c of [] \<Rightarrow> None | i # is \<Rightarrow> Some (i, c\<lparr>co_cmd_list := is\<rparr>))"

definition co_push_res :: "'c ConnectorInfo \<Rightarrow> 'c ResultInfo \<Rightarrow> 'c ConnectorInfo" where
  "co_push_res c r = c\<lparr>co_res_list := co_res_list c @ [r]\<rparr>"

definition co_pop_res :: "'c ConnectorInfo \<Rightarrow> ('c ResultInfo \<times> 'c ConnectorInfo) option" where
  "co_pop_res c = (case co_res_list c of [] \<Rightarrow> None | r # rs \<Rightarrow> Some (r, c\<lparr>co_res_list := rs\<rparr>))"

text \<open>A \<open>ResultInfo\<close> takes the result out of the connector, which is left as new.\<close>

definition take_result :: "'c ConnectorInfo \<Rightarrow> 'c CmdInfo \<Rightarrow> 'c ConnectorInfo" where
  "take_result c i = co_push_res (c\<lparr>co_res := new_result\<rparr>) \<lparr>ri_res = co_res c, ri_cb_func = cmd_callback_func i\<rparr>"

section \<open>One round of a thread\<close>

definition connector_read_func :: "'d mysql_api \<Rightarrow> 'd \<Rightarrow> 'c ConnectorInfo \<Rightarrow> 'd \<times> 'c ConnectorInfo" where
  "connector_read_func A d c =
     (case co_pop c of
        None \<Rightarrow> (d, c)
      | Some (i, c) \<Rightarrow>
          let (_, d, r) = real_read_query A d (co_res c) (cmd_sql i); c = c\<lparr>co_res := r\<rparr>
          in if cmd_write_cmd i then (d, c\<lparr>co_res := result_clear r\<rparr>)
             else if result_is_empty r then (d, c\<lparr>co_res := result_clear r\<rparr>)
             else (d, take_result c i))"

definition connector_write_func :: "'d mysql_api \<Rightarrow> 'd \<Rightarrow> 'c ConnectorInfo \<Rightarrow> 'd \<times> 'c ConnectorInfo" where
  "connector_write_func A d c =
     (case co_pop c of
        None \<Rightarrow> (d, c)
      | Some (i, c) \<Rightarrow>
          if \<not> cmd_write_cmd i then
            let (_, d, r) = real_read_query A d (co_res c) (cmd_sql i)
            in (d, take_result (c\<lparr>co_res := r\<rparr>) i)
          else
            let (_, d, r) = real_query A d (co_res c) (cmd_sql i) in (d, c\<lparr>co_res := r\<rparr>))"

section \<open>The pool\<close>

record 'c MysqlConnectorPool =
  mp_write_connectors :: "'c ConnectorInfo list"
  mp_read_connectors :: "'c ConnectorInfo list"
  mp_curr_read_index :: nat
  mp_curr_write_index :: nat

definition new_connector_pool :: "'c MysqlConnectorPool" where
  "new_connector_pool = \<lparr>mp_write_connectors = [], mp_read_connectors = [], mp_curr_read_index = 0, mp_curr_write_index = 0\<rparr>"

text \<open>\<open>init\<close>, when every connection can be made.\<close>

definition mp_init :: "'c MysqlConnectorPool \<Rightarrow> nat \<Rightarrow> nat \<Rightarrow> 'c MysqlConnectorPool" where
  "mp_init p writers readers =
     p\<lparr>mp_write_connectors := mp_write_connectors p @ replicate writers new_connector,
       mp_read_connectors := mp_read_connectors p @ replicate readers new_connector\<rparr>"

definition mp_push_read_cmd :: "'c MysqlConnectorPool \<Rightarrow> 'c CmdInfo \<Rightarrow> (bool \<times> 'c MysqlConnectorPool) option" where
  "mp_push_read_cmd p i =
     (let k = (if int (mp_curr_read_index p) \<ge> int (length (mp_read_connectors p)) - 1 then 0 else mp_curr_read_index p + 1)
      in do {
        require (k < length (mp_read_connectors p));
        Some (True, p\<lparr>mp_curr_read_index := k, mp_read_connectors := (mp_read_connectors p)[k := co_push (mp_read_connectors p ! k) i]\<rparr>)
      })"

text \<open>A write moves the read index.\<close>

definition mp_push_write_cmd :: "'c MysqlConnectorPool \<Rightarrow> 'c CmdInfo \<Rightarrow> (bool \<times> 'c MysqlConnectorPool) option" where
  "mp_push_write_cmd p i =
     (let k = mp_curr_write_index p;
          r = (if int k \<ge> int (length (mp_write_connectors p)) - 1 then 0 else mp_curr_read_index p + 1)
      in do {
        require (k < length (mp_write_connectors p));
        Some (True, p\<lparr>mp_curr_read_index := r, mp_write_connectors := (mp_write_connectors p)[k := co_push (mp_write_connectors p ! k) i]\<rparr>)
      })"

text \<open>\<open>run\<close> takes at most one result from every connector; the calls it makes are returned in order.\<close>

fun run_connectors :: "'c ConnectorInfo list \<Rightarrow> ('c \<times> Result) list \<times> 'c ConnectorInfo list" where
  "run_connectors [] = ([], [])"
| "run_connectors (c # cs) =
     (let (calls, c) = (case co_pop_res c of
            None \<Rightarrow> ([], c)
          | Some (r, c) \<Rightarrow> (case ri_cb_func r of None \<Rightarrow> ([], c) | Some f \<Rightarrow> ([(f, ri_res r)], c)));
          (rest, cs) = run_connectors cs
      in (calls @ rest, c # cs))"

definition mp_run :: "'c MysqlConnectorPool \<Rightarrow> ('c \<times> Result) list \<times> 'c MysqlConnectorPool" where
  "mp_run p =
     (let (calls, rs) = run_connectors (mp_read_connectors p);
          (calls', ws) = run_connectors (mp_write_connectors p)
      in (calls @ calls', p\<lparr>mp_read_connectors := rs, mp_write_connectors := ws\<rparr>))"

text \<open>\<open>close\<close>, once the threads have ended: the second loop goes on counting where the first stopped.\<close>

definition mp_close :: "'c MysqlConnectorPool \<Rightarrow> nat \<times> 'c MysqlConnectorPool" where
  "mp_close p =
     (length (mp_read_connectors p) + (length (mp_write_connectors p) - length (mp_read_connectors p)),
      p\<lparr>mp_read_connectors := [], mp_curr_read_index := 0, mp_write_connectors := [], mp_curr_write_index := 0\<rparr>)"

section \<open>Every callback once and in order\<close>

text \<open>
  A read connector in use: the database, the connector, the commands pushed so far and the calls made so
  far. The steps are those of the main thread and of the thread of the connector, in any order.
\<close>

record ('c, 'd) reader =
  rd_db :: 'd
  rd_conn :: "'c ConnectorInfo"
  rd_pushed :: "'c CmdInfo list"
  rd_calls :: "('c \<times> Result) list"

inductive reader_step :: "'d mysql_api \<Rightarrow> ('c, 'd) reader \<Rightarrow> ('c, 'd) reader \<Rightarrow> bool" for A where
  push: "\<not> cmd_write_cmd i \<Longrightarrow> cmd_callback_func i \<noteq> None \<Longrightarrow>
    reader_step A s (s\<lparr>rd_conn := co_push (rd_conn s) i, rd_pushed := rd_pushed s @ [i]\<rparr>)"
| round: "connector_read_func A (rd_db s) (rd_conn s) = (d, c) \<Longrightarrow> reader_step A s (s\<lparr>rd_db := d, rd_conn := c\<rparr>)"
| run: "run_connectors [rd_conn s] = (calls, [c]) \<Longrightarrow> reader_step A s (s\<lparr>rd_conn := c, rd_calls := rd_calls s @ calls\<rparr>)"

inductive_cases reader_stepE: "reader_step A s s'"

text \<open>The calls that executing commands one after the other on a database gives, and the database after it.\<close>

fun executed :: "'d mysql_api \<Rightarrow> 'd \<Rightarrow> Result \<Rightarrow> 'c CmdInfo list \<Rightarrow> ('c \<times> Result) list \<times> 'd \<times> Result" where
  "executed A d r [] = ([], d, r)"
| "executed A d r (i # is) =
     (let (_, d, r) = real_read_query A d r (cmd_sql i)
      in if result_is_empty r then executed A d r is
         else let (cs, d, r') = executed A d new_result is in ((the (cmd_callback_func i), r) # cs, d, r'))"

lemma executed_append:
  "executed A d r (is @ js) = (let (cs, d, r) = executed A d r is; (cs', d, r) = executed A d r js in (cs @ cs', d, r))"
  by (induction "is" arbitrary: d r) (simp_all add: Let_def split: prod.split)

definition results_of :: "'c ResultInfo list \<Rightarrow> ('c \<times> Result) list" where
  "results_of rs = map (\<lambda>r. (the (ri_cb_func r), ri_res r)) rs"

definition reader_inv :: "'d mysql_api \<Rightarrow> 'd \<Rightarrow> ('c, 'd) reader \<Rightarrow> bool" where
  "reader_inv A d0 s \<longleftrightarrow> (\<exists>is. rd_pushed s = is @ co_cmd_list (rd_conn s) \<and>
     executed A d0 new_result is = (rd_calls s @ results_of (co_res_list (rd_conn s)), rd_db s, co_res (rd_conn s))) \<and>
     list_all (\<lambda>r. ri_cb_func r \<noteq> None) (co_res_list (rd_conn s)) \<and>
     list_all (\<lambda>i. \<not> cmd_write_cmd i \<and> cmd_callback_func i \<noteq> None) (co_cmd_list (rd_conn s))"

lemma round_inv:
  assumes "reader_inv A d0 s" "connector_read_func A (rd_db s) (rd_conn s) = (d, c)"
  shows "reader_inv A d0 (s\<lparr>rd_db := d, rd_conn := c\<rparr>)"
proof (cases "co_cmd_list (rd_conn s)")
  case Nil
  then show ?thesis using assms by (auto simp: connector_read_func_def co_pop_def)
next
  case (Cons i js)
  from assms(1) obtain "is" where "is": "rd_pushed s = is @ i # js"
    "executed A d0 new_result is = (rd_calls s @ results_of (co_res_list (rd_conn s)), rd_db s, co_res (rd_conn s))"
    by (auto simp: reader_inv_def Cons)
  obtain ok d' r where q: "real_read_query A (rd_db s) (co_res (rd_conn s)) (cmd_sql i) = (ok, d', r)" by (metis prod_cases3)
  have i: "\<not> cmd_write_cmd i" "cmd_callback_func i \<noteq> None" using assms(1) by (simp_all add: reader_inv_def Cons)
  have e: "executed A d0 new_result (is @ [i]) = (if result_is_empty r then (rd_calls s @ results_of (co_res_list (rd_conn s)), d', r)
      else (rd_calls s @ results_of (co_res_list (rd_conn s)) @ [(the (cmd_callback_func i), r)], d', new_result))"
    by (simp add: executed_append "is"(2) q)
  have "result_is_empty r \<Longrightarrow> result_clear r = r" by (simp add: result_is_empty_def result_clear_def)
  then have c: "d = d'" "c = (if result_is_empty r then (rd_conn s)\<lparr>co_cmd_list := js, co_res := r\<rparr>
      else take_result ((rd_conn s)\<lparr>co_cmd_list := js, co_res := r\<rparr>) i)"
    using assms(2) i(1) by (auto simp: connector_read_func_def co_pop_def Cons q Let_def split: if_splits)
  show ?thesis
    using assms(1) i(2) "is"(1) e unfolding reader_inv_def c
    by (intro conjI exI [of _ "is @ [i]"]) (auto simp: Cons take_result_def co_push_res_def results_of_def)
qed

lemma run_reader_inv:
  assumes "reader_inv A d0 s" "run_connectors [rd_conn s] = (calls, [c])"
  shows "reader_inv A d0 (s\<lparr>rd_conn := c, rd_calls := rd_calls s @ calls\<rparr>)"
  using assms by (cases "co_res_list (rd_conn s)") (auto simp: reader_inv_def co_pop_res_def results_of_def)

lemma reader_step_inv: "reader_step A s s' \<Longrightarrow> reader_inv A d0 s \<Longrightarrow> reader_inv A d0 s'"
  by (erule reader_stepE) (auto simp: round_inv run_reader_inv, auto simp: reader_inv_def co_push_def)

lemma reader_steps_inv: "(reader_step A)\<^sup>*\<^sup>* s s' \<Longrightarrow> reader_inv A d0 s \<Longrightarrow> reader_inv A d0 s'"
  by (induction rule: rtranclp_induct) (auto intro: reader_step_inv)

definition new_reader :: "'d \<Rightarrow> ('c, 'd) reader" where
  "new_reader d = \<lparr>rd_db = d, rd_conn = new_connector, rd_pushed = [], rd_calls = []\<rparr>"


text \<open>A database that answers a query with the text of the query, and refuses the empty one.\<close>

definition echo_api :: "string mysql_api" where
  "echo_api = \<lparr>mysql_real_query = (\<lambda>d sql. if sql = [] then (1065, d) else (0, sql)), mysql_store_result = (\<lambda>d. Some (1, [[d]]))\<rparr>"

definition query_cmd :: "string \<Rightarrow> nat \<Rightarrow> nat CmdInfo" where
  "query_cmd sql f = (new_cmd sql (of_nat (length sql)))\<lparr>cmd_callback_func := Some f\<rparr>"

lemma query_cmd_sel [simp]:
  "cmd_callback_func (query_cmd sql f) = Some f" "\<not> cmd_write_cmd (query_cmd sql f)" "length sql < 65536 \<Longrightarrow> cmd_sql (query_cmd sql f) = sql"
  by (simp_all add: query_cmd_def new_cmd_def unsigned_ucast_eq unat_of_nat take_bit_nat_eq_self)


text \<open>
  An error number outlives its query. After a query failed, the next query of the connector, which succeeds, is
  handed to its callback with the error number of the one before, because taking over a result set does not
  reset it; the failed query itself calls nothing.
\<close>

theorem error_outlives_query:
  assumes "mysql_real_query A d (cmd_sql i) = (e, d1)" "e \<noteq> 0"
    and "mysql_real_query A d1 (cmd_sql j) = (0, d2)" "mysql_store_result A d2 = Some (k, rows)"
  shows "executed A d new_result [i, j] = ([(the (cmd_callback_func j), \<lparr>rs_res = Some rows, rs_nfields = k, rs_err = e\<rparr>)], d2, new_result)"
  using assms by (simp add: real_read_query_def real_query_def store_result_def result_init_err_def result_init_res_def
      result_clear_def result_is_empty_def new_result_def)

theorem error_outlives_query_witness:
  "executed echo_api [] new_result [query_cmd [] 1, query_cmd ''b'' 2] = ([(2, \<lparr>rs_res = Some [[''b'']], rs_nfields = 1, rs_err = 1065\<rparr>)], ''b'', new_result)"
  using error_outlives_query [of echo_api "[]" "query_cmd [] 1" 1065 "[]" "query_cmd ''b'' 2" "''b''" 1 "[[''b'']]"]
  by (simp add: echo_api_def)

end
