(* ===== verification/Mysql_Statements.thy ===== *)
theory Mysql_Statements
  imports Connector_Pool
begin

text \<open>
  \<open>MysqlDBConfigManager\<close> (\<open>mysql/mysql_db_config_manager.cpp\<close>), the formats of values (\<open>mysql/mysql_util.h\<close>) and
  \<open>MysqlDBManager\<close> (\<open>mysql/mysql_db_manager.h\<close> and \<open>.cpp\<close>), which puts SQL statements together. The texts are built
  in two rings of three buffers each; a pointer to a text is the number of its ring and its place in the
  ring, so that overwriting a text that is still used, and printing a buffer into itself, which is undefined, are visible.

  \<open>mysql_real_escape_string\<close> is the parameter \<open>escape\<close>. The variants of \<open>selectRecord\<close> that pass a
  \<open>std::string\<close> to \<open>snprintf\<close> and the format of \<open>double\<close> are left out: nothing instantiates them.
\<close>

section \<open>Table descriptions\<close>

datatype MysqlTableFieldType =
    MYSQL_FIELD_TYPE_NONE | MYSQL_FIELD_TYPE_TINYINT | MYSQL_FIELD_TYPE_SMALLINT | MYSQL_FIELD_TYPE_MEDIUMINT
  | MYSQL_FIELD_TYPE_INT | MYSQL_FIELD_TYPE_BIGINT | MYSQL_FIELD_TYPE_FLOAT | MYSQL_FIELD_TYPE_DOUBLE
  | MYSQL_FIELD_TYPE_DATE | MYSQL_FIELD_TYPE_DATETIME | MYSQL_FIELD_TYPE_TIMESTAMP | MYSQL_FIELD_TYPE_TIME
  | MYSQL_FIELD_TYPE_YEAR | MYSQL_FIELD_TYPE_CHAR | MYSQL_FIELD_TYPE_BINARY | MYSQL_FIELD_TYPE_VARBINARY
  | MYSQL_FIELD_TYPE_VARCHAR | MYSQL_FIELD_TYPE_TINYBLOB | MYSQL_FIELD_TYPE_TINYTEXT | MYSQL_FIELD_TYPE_BLOB
  | MYSQL_FIELD_TYPE_TEXT | MYSQL_FIELD_TYPE_MEDIUMBLOB | MYSQL_FIELD_TYPE_MEDIUMTEXT | MYSQL_FIELD_TYPE_LONGBLOB
  | MYSQL_FIELD_TYPE_LONGTEXT | MYSQL_FIELD_TYPE_ENUM | MYSQL_FIELD_TYPE_SET

abbreviation (input) MYSQL_TABLE_CREATE_UNSIGNED :: i32 where "MYSQL_TABLE_CREATE_UNSIGNED \<equiv> 2"

record MysqlTableFieldInfo =
  fi_name :: string
  fi_field_type :: MysqlTableFieldType
  fi_type_length :: int
  fi_index_type :: int
  fi_create_flags :: i32

datatype MysqlEngineType = MYSQL_ENGINE_MYISAM | MYSQL_ENGINE_INNODB

record MysqlTableInfo =
  ti_name :: string
  ti_primary_key_index :: int
  ti_primary_key :: string
  ti_fields_info :: "MysqlTableFieldInfo list"
  ti_engine_type :: MysqlEngineType

record MysqlDatabaseConfig =
  dc_dbname :: string
  dc_tables_info :: "MysqlTableInfo list"

record MysqlDBConfigManager =
  cm_db_name :: string
  cm_table_name2index :: "string \<Rightarrow> nat option"
  cm_table_array :: "MysqlTableInfo list"
  cm_fields_name2index_array :: "(string \<Rightarrow> nat option) list"

definition new_config_manager :: MysqlDBConfigManager where
  "new_config_manager = \<lparr>cm_db_name = [], cm_table_name2index = Map.empty, cm_table_array = [], cm_fields_name2index_array = []\<rparr>"

text \<open>\<open>insert\<close> of the names with their positions, an earlier name winning.\<close>

fun insert_names :: "(string \<Rightarrow> nat option) \<Rightarrow> nat \<Rightarrow> string list \<Rightarrow> string \<Rightarrow> nat option" where
  "insert_names m k [] = m"
| "insert_names m k (n # ns) = insert_names (if m n = None then m(n \<mapsto> k) else m) (k + 1) ns"

text \<open>\<open>resize\<close> of the vector of maps keeps the maps that are there.\<close>

definition cm_init :: "MysqlDBConfigManager \<Rightarrow> MysqlDatabaseConfig \<Rightarrow> bool \<times> MysqlDBConfigManager" where
  "cm_init c conf =
     (let ts = dc_tables_info conf
      in if ts = [] then (False, c)
         else (True, c\<lparr>cm_table_name2index := insert_names (cm_table_name2index c) 0 (map ti_name ts), cm_table_array := ts,
           cm_fields_name2index_array := map (\<lambda>i. insert_names
             (if i < length (cm_fields_name2index_array c) then cm_fields_name2index_array c ! i else Map.empty) 0
             (map fi_name (ti_fields_info (ts ! i)))) [0..<length ts],
           cm_db_name := dc_dbname conf\<rparr>))"

definition cm_clear :: "MysqlDBConfigManager \<Rightarrow> MysqlDBConfigManager" where
  "cm_clear c = c\<lparr>cm_table_name2index := Map.empty, cm_table_array := [], cm_fields_name2index_array := []\<rparr>"

definition get_table_index :: "MysqlDBConfigManager \<Rightarrow> string \<Rightarrow> int" where
  "get_table_index c table_name = (case cm_table_name2index c table_name of None \<Rightarrow> - 1 | Some i \<Rightarrow> int i)"

definition get_table_field_index :: "MysqlDBConfigManager \<Rightarrow> int \<Rightarrow> string \<Rightarrow> int option" where
  "get_table_field_index c table_index field_name = do {
     require (0 \<le> table_index \<and> nat table_index < length (cm_fields_name2index_array c));
     Some (case (cm_fields_name2index_array c ! nat table_index) field_name of None \<Rightarrow> - 1 | Some i \<Rightarrow> int i)
   }"

definition get_table_info :: "MysqlDBConfigManager \<Rightarrow> int \<Rightarrow> MysqlTableInfo option" where
  "get_table_info c table_index =
     (if table_index < 0 \<or> table_index \<ge> int (length (cm_table_array c)) \<or> table_index \<ge> int (length (cm_fields_name2index_array c)) then None
      else Some (cm_table_array c ! nat table_index))"

definition get_field_info :: "MysqlDBConfigManager \<Rightarrow> int \<Rightarrow> string \<Rightarrow> MysqlTableFieldInfo option" where
  "get_field_info c table_index field_name =
     (case get_table_info c table_index of
        None \<Rightarrow> None
      | Some ti \<Rightarrow>
          (case (cm_fields_name2index_array c ! nat table_index) field_name of
             None \<Rightarrow> None
           | Some i \<Rightarrow> Some (ti_fields_info ti ! i)))"

section \<open>Formats of values\<close>

datatype field_value = IntV i32 | UIntV u32 | Int64V u64 | UInt64V u64 | StringV string | MessageV string

definition is_text_type :: "MysqlTableFieldType \<Rightarrow> bool" where
  "is_text_type t \<longleftrightarrow> t \<in> {MYSQL_FIELD_TYPE_CHAR, MYSQL_FIELD_TYPE_VARCHAR, MYSQL_FIELD_TYPE_TEXT, MYSQL_FIELD_TYPE_TINYTEXT,
     MYSQL_FIELD_TYPE_MEDIUMTEXT, MYSQL_FIELD_TYPE_LONGTEXT}"

definition is_binary_type :: "MysqlTableFieldType \<Rightarrow> bool" where
  "is_binary_type t \<longleftrightarrow> t \<in> {MYSQL_FIELD_TYPE_BINARY, MYSQL_FIELD_TYPE_VARBINARY}"

definition is_blob_type :: "MysqlTableFieldType \<Rightarrow> bool" where
  "is_blob_type t \<longleftrightarrow> t \<in> {MYSQL_FIELD_TYPE_TINYBLOB, MYSQL_FIELD_TYPE_MEDIUMBLOB, MYSQL_FIELD_TYPE_BLOB, MYSQL_FIELD_TYPE_LONGBLOB}"

definition is_int32_type :: "MysqlTableFieldType \<Rightarrow> bool" where
  "is_int32_type t \<longleftrightarrow> t \<in> {MYSQL_FIELD_TYPE_TINYINT, MYSQL_FIELD_TYPE_SMALLINT, MYSQL_FIELD_TYPE_MEDIUMINT, MYSQL_FIELD_TYPE_INT}"

definition is_unsigned :: "i32 \<Rightarrow> bool" where
  "is_unsigned flags \<longleftrightarrow> and flags MYSQL_TABLE_CREATE_UNSIGNED \<noteq> 0"

fun decimal :: "nat \<Rightarrow> string" where
  "decimal n = (if n < 10 then [char_of (48 + n)] else decimal (n div 10) @ [char_of (48 + n mod 10)])"

declare decimal.simps [simp del]

definition decimal_int :: "int \<Rightarrow> string" where
  "decimal_int i = (if i < 0 then CHR ''-'' # decimal (nat (- i)) else decimal (nat i))"

text \<open>What \<open>snprintf\<close> leaves in a buffer of a length; \<open>%s\<close> prints the C string \<^const>\<open>cstr\<close>.\<close>

definition snprintf :: "nat \<Rightarrow> string \<Rightarrow> string" where
  "snprintf len s = take (len - 1) s"

definition quoted :: "string \<Rightarrow> string" where
  "quoted s = CHR 0x27 # s @ [CHR 0x27]"

text \<open>
  \<open>mysql_get_field_value_format\<close> for the types of values. \<open>tmp\<close> is the length of the buffer for escaping, if there is
  one. The result is the text, or \<open>Some None\<close> where the function returns false; writing past the buffer for escaping is undefined.
\<close>

definition escape_into :: "(string \<Rightarrow> string) \<Rightarrow> nat \<Rightarrow> string \<Rightarrow> string option" where
  "escape_into escape tmp_len s = (if length (escape s) < tmp_len then Some (cstr (escape s)) else None)"

fun mysql_get_field_value_format :: "(string \<Rightarrow> string) \<Rightarrow> MysqlTableFieldType \<Rightarrow> i32 \<Rightarrow> field_value \<Rightarrow> nat \<Rightarrow> nat option \<Rightarrow> string option option" where
  "mysql_get_field_value_format escape ft flags (IntV v) len tmp =
     Some (if is_int32_type ft then Some (snprintf len (if is_unsigned flags then decimal (unat v) else decimal_int (sint v))) else None)"
| "mysql_get_field_value_format escape ft flags (UIntV v) len tmp =
     Some (if is_int32_type ft \<and> is_unsigned flags then Some (snprintf len (decimal (unat v))) else None)"
| "mysql_get_field_value_format escape ft flags (UInt64V v) len tmp =
     Some (if ft = MYSQL_FIELD_TYPE_BIGINT then Some (snprintf len (if is_unsigned flags then decimal (unat v) else decimal_int (sint v))) else None)"
| "mysql_get_field_value_format escape ft flags (Int64V v) len tmp =
     Some (if ft = MYSQL_FIELD_TYPE_BIGINT then Some (snprintf len (if is_unsigned flags then decimal (unat v) else decimal_int (sint v))) else None)"
| "mysql_get_field_value_format escape ft flags (StringV v) len tmp =
     (if is_text_type ft \<or> is_binary_type ft then
        (case tmp of
           None \<Rightarrow> Some (Some (snprintf len (quoted (cstr v))))
         | Some tmp_len \<Rightarrow> do { e \<leftarrow> escape_into escape tmp_len v; Some (Some (snprintf len (quoted e))) })
      else Some None)"
| "mysql_get_field_value_format escape ft flags (MessageV v) len tmp =
     (if is_binary_type ft \<or> is_blob_type ft then
        if v = [] then Some (Some (snprintf len (quoted [])))
        else if length v \<le> len then
          do { tmp_len \<leftarrow> tmp; e \<leftarrow> escape_into escape tmp_len v; Some (Some (snprintf len (quoted e))) }
        else Some None
      else Some None)"

text \<open>\<open>MysqlDBConfigManager::get_field_type_format\<close> has no buffer for escaping.\<close>

definition get_field_type_format :: "MysqlDBConfigManager \<Rightarrow> (string \<Rightarrow> string) \<Rightarrow> int \<Rightarrow> string \<Rightarrow> field_value \<Rightarrow> nat \<Rightarrow> string option option" where
  "get_field_type_format c escape table_index field_name value len =
     (case get_field_info c table_index field_name of
        None \<Rightarrow> Some None
      | Some fi \<Rightarrow> mysql_get_field_value_format escape (fi_field_type fi) (fi_create_flags fi) value len None)"

section \<open>The rings of buffers\<close>

abbreviation (input) BUF_LEN :: nat where "BUF_LEN \<equiv> 131072"
abbreviation (input) BIG_BUF_LEN :: nat where "BIG_BUF_LEN \<equiv> 1048576"

record 'c MysqlDBManager =
  db_config_mgr :: MysqlDBConfigManager
  db_conn_pool :: "'c MysqlConnectorPool"
  db_buf :: "string list"
  db_buf2 :: "string list"
  db_index :: nat
  db_index2 :: "nat option"

text \<open>The constructor does not initialise \<open>index2_\<close>.\<close>

definition new_db_manager :: "'c MysqlDBManager" where
  "new_db_manager = \<lparr>db_config_mgr = new_config_manager, db_conn_pool = new_connector_pool, db_buf = [[], [], []], db_buf2 = [[], [], []],
     db_index = 0, db_index2 = None\<rparr>"

type_synonym text_ptr = "nat \<times> nat"

definition next_index :: "'c MysqlDBManager \<Rightarrow> 'c MysqlDBManager" where
  "next_index m = m\<lparr>db_index := (if db_index m + 1 \<ge> 3 then 0 else db_index m + 1)\<rparr>"

definition next_index2 :: "'c MysqlDBManager \<Rightarrow> 'c MysqlDBManager option" where
  "next_index2 m = do { k \<leftarrow> db_index2 m; Some (m\<lparr>db_index2 := Some (if k + 1 \<ge> 3 then 0 else k + 1)\<rparr>) }"

text \<open>The current buffer of a ring. The ring is always given as 0 or 1 in the sources; the index must be one of the ring.\<close>

definition get_buf_info :: "'c MysqlDBManager \<Rightarrow> nat \<Rightarrow> text_ptr option option" where
  "get_buf_info m buf_num =
     (if buf_num = 0 then do { require (db_index m < 3); Some (Some (0, db_index m)) }
      else if buf_num = 1 then do { k \<leftarrow> db_index2 m; require (k < 3); Some (Some (1, k)) }
      else Some None)"

definition to_next_index :: "'c MysqlDBManager \<Rightarrow> nat \<Rightarrow> (bool \<times> 'c MysqlDBManager) option" where
  "to_next_index m buf_num =
     (if buf_num = 0 then Some (True, next_index m)
      else if buf_num = 1 then do { m \<leftarrow> next_index2 m; Some (True, m) }
      else Some (False, m))"

definition text_at :: "'c MysqlDBManager \<Rightarrow> text_ptr \<Rightarrow> string" where
  "text_at m p = (if fst p = 0 then db_buf m ! snd p else db_buf2 m ! snd p)"

definition put_text :: "'c MysqlDBManager \<Rightarrow> text_ptr \<Rightarrow> string \<Rightarrow> 'c MysqlDBManager" where
  "put_text m p s = (if fst p = 0 then m\<lparr>db_buf := (db_buf m)[snd p := s]\<rparr> else m\<lparr>db_buf2 := (db_buf2 m)[snd p := s]\<rparr>)"

text \<open>\<open>snprintf(dst, BUF_LEN, "%s, %s", head, s)\<close>; printing a buffer into itself is undefined.\<close>

definition print_joined :: "'c MysqlDBManager \<Rightarrow> text_ptr \<Rightarrow> text_ptr \<Rightarrow> text_ptr option \<Rightarrow> string \<Rightarrow> 'c MysqlDBManager option" where
  "print_joined m dst head src s = do {
     require (dst \<noteq> head \<and> Some dst \<noteq> src);
     Some (put_text m dst (snprintf BUF_LEN (text_at m head @ '', '' @ s)))
   }"

section \<open>Lists of names and values\<close>

record field_arg =
  fa_field_name :: "string option"
  fa_field_value :: field_value

definition format_insert_field_name :: "'c MysqlDBManager \<Rightarrow> text_ptr option \<Rightarrow> nat \<Rightarrow> field_arg \<Rightarrow> (text_ptr option \<times> 'c MysqlDBManager) option" where
  "format_insert_field_name m head buf_num arg = do {
     buf \<leftarrow> get_buf_info m buf_num;
     case buf of
       None \<Rightarrow> Some (None, m)
     | Some buf \<Rightarrow> do {
         name \<leftarrow> fa_field_name arg;
         case head of
           None \<Rightarrow> Some (Some buf, put_text m buf (snprintf BUF_LEN name))
         | Some h \<Rightarrow> do { m \<leftarrow> print_joined m buf h None name; Some (Some buf, m) }
       }
   }"

fun format_insert_field_name_str :: "'c MysqlDBManager \<Rightarrow> text_ptr option \<Rightarrow> nat \<Rightarrow> field_arg list \<Rightarrow> (text_ptr option \<times> 'c MysqlDBManager) option" where
  "format_insert_field_name_str m head buf_num [] = None"
| "format_insert_field_name_str m head buf_num [arg] = format_insert_field_name m head buf_num arg"
| "format_insert_field_name_str m head buf_num (first # rest) = do {
     (t, m) \<leftarrow> format_insert_field_name m head buf_num first;
     if t = None then Some (None, m)
     else do {
       (ok, m) \<leftarrow> to_next_index m buf_num;
       if \<not> ok then Some (None, m) else format_insert_field_name_str m t buf_num rest
     }
   }"

text \<open>The part that insert and update share: put the text behind the head, in the next buffer of the ring.\<close>

definition append_to_head :: "'c MysqlDBManager \<Rightarrow> text_ptr option \<Rightarrow> nat \<Rightarrow> text_ptr \<Rightarrow> (text_ptr option \<times> 'c MysqlDBManager) option" where
  "append_to_head m head buf_num prev =
     (case head of
        None \<Rightarrow> Some (Some prev, m)
      | Some h \<Rightarrow> do {
          (ok, m) \<leftarrow> to_next_index m buf_num;
          if \<not> ok then Some (None, m)
          else do {
            buf \<leftarrow> get_buf_info m buf_num;
            case buf of
              None \<Rightarrow> Some (None, m)
            | Some buf \<Rightarrow> do { m \<leftarrow> print_joined m buf h (Some prev) (text_at m prev); Some (Some buf, m) }
          }
        })"

definition format_insert_field_value :: "(string \<Rightarrow> string) \<Rightarrow> 'c MysqlDBManager \<Rightarrow> int \<Rightarrow> text_ptr option \<Rightarrow> nat \<Rightarrow> field_arg \<Rightarrow> (text_ptr option \<times> 'c MysqlDBManager) option" where
  "format_insert_field_value escape m table_index head buf_num arg = do {
     buf \<leftarrow> get_buf_info m buf_num;
     case buf of
       None \<Rightarrow> Some (None, m)
     | Some buf \<Rightarrow> do {
         name \<leftarrow> fa_field_name arg;
         case get_field_info (db_config_mgr m) table_index name of
           None \<Rightarrow> Some (None, m)
         | Some fi \<Rightarrow> do {
             v \<leftarrow> mysql_get_field_value_format escape (fi_field_type fi) (fi_create_flags fi) (fa_field_value arg) BUF_LEN (Some BUF_LEN);
             case v of
               None \<Rightarrow> Some (None, m)
             | Some s \<Rightarrow> append_to_head (put_text m buf s) head buf_num buf
           }
       }
   }"

fun format_insert_field_value_str :: "(string \<Rightarrow> string) \<Rightarrow> 'c MysqlDBManager \<Rightarrow> int \<Rightarrow> text_ptr option \<Rightarrow> nat \<Rightarrow> field_arg list \<Rightarrow> (text_ptr option \<times> 'c MysqlDBManager) option" where
  "format_insert_field_value_str escape m table_index head buf_num [] = None"
| "format_insert_field_value_str escape m table_index head buf_num [arg] = format_insert_field_value escape m table_index head buf_num arg"
| "format_insert_field_value_str escape m table_index head buf_num (first # rest) = do {
     (t, m) \<leftarrow> format_insert_field_value escape m table_index head buf_num first;
     if t = None then Some (None, m)
     else do {
       (ok, m) \<leftarrow> to_next_index m buf_num;
       if \<not> ok then Some (None, m) else format_insert_field_value_str escape m table_index t buf_num rest
     }
   }"

text \<open>A field that did not change has no name and is skipped. The value is formatted in \<open>tmp_buf_\<close>, escaped in the ring.\<close>

definition format_update_field_value :: "(string \<Rightarrow> string) \<Rightarrow> 'c MysqlDBManager \<Rightarrow> int \<Rightarrow> text_ptr option \<Rightarrow> nat \<Rightarrow> field_arg \<Rightarrow> (text_ptr option \<times> 'c MysqlDBManager) option" where
  "format_update_field_value escape m table_index head buf_num arg =
     (case fa_field_name arg of
        None \<Rightarrow> Some (head, m)
      | Some name \<Rightarrow>
          (case get_field_info (db_config_mgr m) table_index name of
             None \<Rightarrow> Some (None, m)
           | Some fi \<Rightarrow> do {
               buf \<leftarrow> get_buf_info m buf_num;
               case buf of
                 None \<Rightarrow> Some (None, m)
               | Some buf \<Rightarrow> do {
                   v \<leftarrow> mysql_get_field_value_format escape (fi_field_type fi) (fi_create_flags fi) (fa_field_value arg) BUF_LEN (Some BUF_LEN);
                   case v of
                     None \<Rightarrow> Some (None, m)
                   | Some s \<Rightarrow> append_to_head (put_text m buf (snprintf BUF_LEN (name @ ''='' @ s))) head buf_num buf
                 }
             }))"

fun format_update_field_value_str :: "(string \<Rightarrow> string) \<Rightarrow> 'c MysqlDBManager \<Rightarrow> int \<Rightarrow> text_ptr option \<Rightarrow> nat \<Rightarrow> field_arg list \<Rightarrow> (text_ptr option \<times> 'c MysqlDBManager) option" where
  "format_update_field_value_str escape m table_index head buf_num [] = None"
| "format_update_field_value_str escape m table_index head buf_num [arg] = format_update_field_value escape m table_index head buf_num arg"
| "format_update_field_value_str escape m table_index head buf_num (first # rest) = do {
     (t, m) \<leftarrow> format_update_field_value escape m table_index head buf_num first;
     (ok, m) \<leftarrow> to_next_index m buf_num;
     if \<not> ok then Some (None, m) else format_update_field_value_str escape m table_index t buf_num rest
   }"

section \<open>Statements\<close>

definition push_write_cmd :: "'c MysqlDBManager \<Rightarrow> string \<Rightarrow> (bool \<times> 'c MysqlDBManager) option" where
  "push_write_cmd m sql = do {
     (r, p) \<leftarrow> mp_push_write_cmd (db_conn_pool m) ((new_cmd sql (of_nat (length sql)))\<lparr>cmd_write_cmd := True\<rparr>);
     Some (r, m\<lparr>db_conn_pool := p\<rparr>)
   }"

definition push_insert_cmd :: "'c MysqlDBManager \<Rightarrow> string \<Rightarrow> (bool \<times> 'c MysqlDBManager) option" where
  "push_insert_cmd m sql = push_write_cmd m sql"

definition push_read_cmd :: "'c MysqlDBManager \<Rightarrow> string \<Rightarrow> 'c option \<Rightarrow> (bool \<times> 'c MysqlDBManager) option" where
  "push_read_cmd m sql f = do {
     (r, p) \<leftarrow> mp_push_read_cmd (db_conn_pool m) ((new_cmd sql (of_nat (length sql)))\<lparr>cmd_callback_func := f\<rparr>);
     Some (r, m\<lparr>db_conn_pool := p\<rparr>)
   }"

text \<open>The functions that take a table name look up its index first.\<close>

definition with_table :: "'c MysqlDBManager \<Rightarrow> string \<Rightarrow> (int \<Rightarrow> (bool \<times> 'c MysqlDBManager) option) \<Rightarrow> (bool \<times> 'c MysqlDBManager) option" where
  "with_table m table_name f =
     (let idx = get_table_index (db_config_mgr m) table_name in if idx < 0 then Some (False, m) else f idx)"

definition insertRecord_empty :: "'c MysqlDBManager \<Rightarrow> int \<Rightarrow> (bool \<times> 'c MysqlDBManager) option" where
  "insertRecord_empty m table_index =
     (case get_table_info (db_config_mgr m) table_index of
        None \<Rightarrow> Some (False, m)
      | Some ti \<Rightarrow>
          let sql = snprintf BUF_LEN (''INSERT INTO '' @ ti_name ti)
          in push_insert_cmd (put_text m (0, 0) sql) sql)"

text \<open>The two texts are printed without looking whether they are null, which is undefined if one is.\<close>

definition insertRecord :: "(string \<Rightarrow> string) \<Rightarrow> 'c MysqlDBManager \<Rightarrow> int \<Rightarrow> field_arg list \<Rightarrow> (bool \<times> 'c MysqlDBManager) option" where
  "insertRecord escape m table_index args =
     (case get_table_info (db_config_mgr m) table_index of
        None \<Rightarrow> Some (False, m)
      | Some ti \<Rightarrow> do {
          (names, m) \<leftarrow> format_insert_field_name_str m None 0 args;
          (vals, m) \<leftarrow> format_insert_field_value_str escape m table_index None 1 args;
          names \<leftarrow> names;
          vals \<leftarrow> vals;
          push_insert_cmd m (snprintf BIG_BUF_LEN
            (''INSERT INTO '' @ ti_name ti @ '' ('' @ text_at m names @ '') VALUES ('' @ text_at m vals @ '')''))
        })"

text \<open>\<open>key=value\<close> for one to three keys, each value in a buffer of 64 bytes, joined by \<open>AND\<close>; \<open>Some None\<close> where one has no format.\<close>

fun key_conditions :: "'c MysqlDBManager \<Rightarrow> (string \<Rightarrow> string) \<Rightarrow> int \<Rightarrow> (string \<times> field_value) list \<Rightarrow> string list option option" where
  "key_conditions m escape table_index [] = Some (Some [])"
| "key_conditions m escape table_index ((key, v) # ks) = do {
     f \<leftarrow> get_field_type_format (db_config_mgr m) escape table_index key v 64;
     case f of
       None \<Rightarrow> Some None
     | Some f \<Rightarrow> do {
         rest \<leftarrow> key_conditions m escape table_index ks;
         Some (map_option ((#) (key @ ''='' @ f)) rest)
       }
   }"

fun joined :: "string \<Rightarrow> string list \<Rightarrow> string" where
  "joined sep [] = []"
| "joined sep [s] = s"
| "joined sep (s # ss) = s @ sep @ joined sep ss"

definition updateRecord :: "(string \<Rightarrow> string) \<Rightarrow> 'c MysqlDBManager \<Rightarrow> int \<Rightarrow> (string \<times> field_value) list \<Rightarrow> field_arg list \<Rightarrow> (bool \<times> 'c MysqlDBManager) option" where
  "updateRecord escape m table_index keys args =
     (case get_table_info (db_config_mgr m) table_index of
        None \<Rightarrow> Some (False, m)
      | Some ti \<Rightarrow> do {
          (format, m) \<leftarrow> format_update_field_value_str escape m table_index None 0 args;
          case format of
            None \<Rightarrow> Some (False, m)
          | Some format \<Rightarrow> do {
              conds \<leftarrow> key_conditions m escape table_index keys;
              case conds of
                None \<Rightarrow> Some (False, m)
              | Some conds \<Rightarrow>
                  push_write_cmd m (snprintf BIG_BUF_LEN
                    (''UPDATE '' @ ti_name ti @ '' SET '' @ text_at m format @ '' WHERE '' @ joined '' AND '' conds))
            }
        })"

definition deleteRecord :: "(string \<Rightarrow> string) \<Rightarrow> 'c MysqlDBManager \<Rightarrow> int \<Rightarrow> string \<Rightarrow> field_value \<Rightarrow> (bool \<times> 'c MysqlDBManager) option" where
  "deleteRecord escape m table_index key v =
     (case get_table_info (db_config_mgr m) table_index of
        None \<Rightarrow> Some (False, m)
      | Some ti \<Rightarrow> do {
          f \<leftarrow> get_field_type_format (db_config_mgr m) escape table_index key v BUF_LEN;
          case f of
            None \<Rightarrow> Some (False, m)
          | Some f \<Rightarrow>
              push_write_cmd (put_text m (0, db_index m) f) (snprintf BIG_BUF_LEN (''DELETE FROM '' @ ti_name ti @ '' WHERE '' @ key @ ''='' @ f))
        })"

definition selectRecord_key :: "(string \<Rightarrow> string) \<Rightarrow> 'c MysqlDBManager \<Rightarrow> int \<Rightarrow> string \<Rightarrow> field_value \<Rightarrow> 'c option \<Rightarrow> (bool \<times> 'c MysqlDBManager) option" where
  "selectRecord_key escape m table_index key v cb =
     (case get_table_info (db_config_mgr m) table_index of
        None \<Rightarrow> Some (False, m)
      | Some ti \<Rightarrow> do {
          f \<leftarrow> get_field_type_format (db_config_mgr m) escape table_index key v BUF_LEN;
          case f of
            None \<Rightarrow> Some (False, m)
          | Some f \<Rightarrow>
              push_read_cmd (put_text m (0, db_index m) f) (snprintf BIG_BUF_LEN (''SELECT * FROM '' @ ti_name ti @ '' WHERE '' @ key @ ''='' @ f)) cb
        })"

definition selectRecord_key2 :: "(string \<Rightarrow> string) \<Rightarrow> 'c MysqlDBManager \<Rightarrow> int \<Rightarrow> int \<Rightarrow> string \<Rightarrow> field_value \<Rightarrow> string \<Rightarrow> field_value \<Rightarrow> 'c option \<Rightarrow> (bool \<times> 'c MysqlDBManager) option" where
  "selectRecord_key2 escape m table_index key_relation key v key2 v2 cb =
     (case get_table_info (db_config_mgr m) table_index of
        None \<Rightarrow> Some (False, m)
      | Some ti \<Rightarrow> do {
          f \<leftarrow> get_field_type_format (db_config_mgr m) escape table_index key v BUF_LEN;
          case f of
            None \<Rightarrow> Some (False, m)
          | Some f \<Rightarrow> do {
              let m = put_text m (0, db_index m) f;
              k \<leftarrow> db_index2 m;
              f2 \<leftarrow> get_field_type_format (db_config_mgr m) escape table_index key2 v2 BUF_LEN;
              case f2 of
                None \<Rightarrow> Some (False, m)
              | Some f2 \<Rightarrow>
                  push_read_cmd (put_text m (1, k) f2) (snprintf BIG_BUF_LEN (''SELECT * FROM '' @ ti_name ti @ '' WHERE '' @ key @ ''='' @ f @
                    '' '' @ (if key_relation = 0 then ''AND'' else ''OR'') @ '' '' @ key2 @ ''='' @ f2)) cb
            }
        })"

text \<open>
  The loop of the selections without a key: \<open>prev\<close> is set at the first name only. It returns the buffer of the last name.
\<close>

fun select_names :: "'c MysqlDBManager \<Rightarrow> text_ptr \<Rightarrow> text_ptr option \<Rightarrow> string list \<Rightarrow> (text_ptr \<times> 'c MysqlDBManager) option" where
  "select_names m buf prev [] = Some (buf, m)"
| "select_names m buf None (n # ns) = select_names (put_text m buf (snprintf BUF_LEN n)) buf (Some buf) ns"
| "select_names m buf (Some prev) (n # ns) = do {
     (ok, m) \<leftarrow> to_next_index m 0;
     b \<leftarrow> get_buf_info m 0;
     buf \<leftarrow> b;
     m \<leftarrow> print_joined m buf prev None n;
     select_names m buf (Some prev) ns
   }"

definition selectRecord_fields :: "'c MysqlDBManager \<Rightarrow> int \<Rightarrow> string list \<Rightarrow> 'c option \<Rightarrow> (bool \<times> 'c MysqlDBManager) option" where
  "selectRecord_fields m table_index names cb =
     (case get_table_info (db_config_mgr m) table_index of
        None \<Rightarrow> Some (False, m)
      | Some ti \<Rightarrow> do {
          b \<leftarrow> get_buf_info m 0;
          case b of
            None \<Rightarrow> Some (False, m)
          | Some buf \<Rightarrow> do {
              (buf, m) \<leftarrow> select_names m buf None names;
              push_read_cmd m (snprintf BIG_BUF_LEN (''SELECT '' @ text_at m buf @ '' FROM '' @ ti_name ti)) cb
            }
        })"

text \<open>The loop of the selection with a key and an array of names, which does keep the text before.\<close>

fun key_select_names :: "'c MysqlDBManager \<Rightarrow> text_ptr option \<Rightarrow> string list \<Rightarrow> (text_ptr option \<times> 'c MysqlDBManager) option" where
  "key_select_names m prev [] = Some (prev, m)"
| "key_select_names m prev (n # ns) = do {
     b \<leftarrow> get_buf_info m 1;
     buf \<leftarrow> b;
     m \<leftarrow> (case prev of None \<Rightarrow> Some (put_text m buf (snprintf BUF_LEN n)) | Some p \<Rightarrow> print_joined m buf p None n);
     (ok, m) \<leftarrow> to_next_index m 1;
     key_select_names m (Some buf) ns
   }"

definition selectRecord_key_fields :: "(string \<Rightarrow> string) \<Rightarrow> 'c MysqlDBManager \<Rightarrow> string \<Rightarrow> string \<Rightarrow> field_value \<Rightarrow> string list \<Rightarrow> 'c option \<Rightarrow> (bool \<times> 'c MysqlDBManager) option" where
  "selectRecord_key_fields escape m table_name key v ns cb = with_table m table_name (\<lambda>table_index.
     if ns = [] then selectRecord_key escape m table_index key v cb
     else case get_table_info (db_config_mgr m) table_index of
        None \<Rightarrow> Some (False, m)
      | Some ti \<Rightarrow> do {
          b \<leftarrow> get_buf_info m 0;
          case b of
            None \<Rightarrow> Some (False, m)
          | Some buf \<Rightarrow> do {
              f \<leftarrow> get_field_type_format (db_config_mgr m) escape table_index key v BUF_LEN;
              case f of
                None \<Rightarrow> Some (False, m)
              | Some f \<Rightarrow> do {
                  (names, m) \<leftarrow> key_select_names (put_text m buf f) None ns;
                  names \<leftarrow> names;
                  push_read_cmd m (snprintf BIG_BUF_LEN
                    (''SELECT '' @ text_at m names @ '' FROM '' @ ti_name ti @ '' WHERE '' @ key @ ''='' @ f)) cb
                }
            }
        })"

text \<open>The overloads that take the name of the table.\<close>

definition insertRecord_empty_name :: "'c MysqlDBManager \<Rightarrow> string \<Rightarrow> (bool \<times> 'c MysqlDBManager) option" where
  "insertRecord_empty_name m table_name = with_table m table_name (insertRecord_empty m)"

definition insertRecord_name :: "(string \<Rightarrow> string) \<Rightarrow> 'c MysqlDBManager \<Rightarrow> string \<Rightarrow> field_arg list \<Rightarrow> (bool \<times> 'c MysqlDBManager) option" where
  "insertRecord_name escape m table_name args = with_table m table_name (\<lambda>idx. insertRecord escape m idx args)"

definition updateRecord_name :: "(string \<Rightarrow> string) \<Rightarrow> 'c MysqlDBManager \<Rightarrow> string \<Rightarrow> (string \<times> field_value) list \<Rightarrow> field_arg list \<Rightarrow> (bool \<times> 'c MysqlDBManager) option" where
  "updateRecord_name escape m table_name keys args = with_table m table_name (\<lambda>idx. updateRecord escape m idx keys args)"

definition deleteRecord_name :: "(string \<Rightarrow> string) \<Rightarrow> 'c MysqlDBManager \<Rightarrow> string \<Rightarrow> string \<Rightarrow> field_value \<Rightarrow> (bool \<times> 'c MysqlDBManager) option" where
  "deleteRecord_name escape m table_name key v = with_table m table_name (\<lambda>idx. deleteRecord escape m idx key v)"

definition selectRecord_key_name :: "(string \<Rightarrow> string) \<Rightarrow> 'c MysqlDBManager \<Rightarrow> string \<Rightarrow> string \<Rightarrow> field_value \<Rightarrow> 'c option \<Rightarrow> (bool \<times> 'c MysqlDBManager) option" where
  "selectRecord_key_name escape m table_name key v cb = with_table m table_name (\<lambda>idx. selectRecord_key escape m idx key v cb)"

definition selectRecord_key2_name :: "(string \<Rightarrow> string) \<Rightarrow> 'c MysqlDBManager \<Rightarrow> string \<Rightarrow> int \<Rightarrow> string \<Rightarrow> field_value \<Rightarrow> string \<Rightarrow> field_value \<Rightarrow> 'c option \<Rightarrow> (bool \<times> 'c MysqlDBManager) option" where
  "selectRecord_key2_name escape m table_name key_relation key v key2 v2 cb =
     with_table m table_name (\<lambda>idx. selectRecord_key2 escape m idx key_relation key v key2 v2 cb)"

definition selectRecord_fields_name :: "'c MysqlDBManager \<Rightarrow> string \<Rightarrow> string list \<Rightarrow> 'c option \<Rightarrow> (bool \<times> 'c MysqlDBManager) option" where
  "selectRecord_fields_name m table_name names cb = with_table m table_name (\<lambda>idx. selectRecord_fields m idx names cb)"

text \<open>A read command on a write connector, behind the writes; nothing calls it.\<close>

definition push_get_last_insert_id_cmd :: "'c MysqlDBManager \<Rightarrow> 'c option \<Rightarrow> (bool \<times> 'c MysqlDBManager) option" where
  "push_get_last_insert_id_cmd m f = do {
     (r, p) \<leftarrow> mp_push_write_cmd (db_conn_pool m) \<lparr>cmd_sql = ''SELECT LAST_INSERT_ID()'', cmd_callback_func = f, cmd_write_cmd = False\<rparr>;
     Some (r, m\<lparr>db_conn_pool := p\<rparr>)
   }"

section \<open>Life of the manager\<close>

text \<open>\<open>init\<close>, when the connections can be made; the pool is left initialised where the tables are missing.\<close>

definition db_init :: "'c MysqlDBManager \<Rightarrow> nat \<Rightarrow> nat \<Rightarrow> MysqlDatabaseConfig \<Rightarrow> bool \<times> 'c MysqlDBManager" where
  "db_init m writers readers config =
     (let m = m\<lparr>db_conn_pool := mp_init (db_conn_pool m) writers readers\<rparr>;
          (ok, c) = cm_init (db_config_mgr m) config
      in (ok, m\<lparr>db_config_mgr := c\<rparr>))"

definition db_clear :: "'c MysqlDBManager \<Rightarrow> 'c MysqlDBManager" where
  "db_clear m = m\<lparr>db_config_mgr := cm_clear (db_config_mgr m), db_conn_pool := snd (mp_close (db_conn_pool m))\<rparr>"

definition db_run :: "'c MysqlDBManager \<Rightarrow> ('c \<times> Result) list \<times> 'c MysqlDBManager" where
  "db_run m = (let (calls, p) = mp_run (db_conn_pool m) in (calls, m\<lparr>db_conn_pool := p\<rparr>))"

section \<open>Putting texts together in a ring\<close>

lemma joined_snoc: "ss \<noteq> [] \<Longrightarrow> joined sep (ss @ [s]) = joined sep ss @ sep @ s"
  by (induction sep ss rule: joined.induct) auto

text \<open>A ring in use with its current place, and what building a text in one ring leaves alone.\<close>

definition ring_at :: "'c MysqlDBManager \<Rightarrow> nat \<Rightarrow> nat \<Rightarrow> bool" where
  "ring_at m n k \<longleftrightarrow> k < 3 \<and> (n = 0 \<and> db_index m = k \<and> length (db_buf m) = 3 \<or> n = 1 \<and> db_index2 m = Some k \<and> length (db_buf2 m) = 3)"

definition ring_frame :: "nat \<Rightarrow> 'c MysqlDBManager \<Rightarrow> 'c MysqlDBManager \<Rightarrow> bool" where
  "ring_frame n m m' \<longleftrightarrow> db_config_mgr m' = db_config_mgr m \<and> db_conn_pool m' = db_conn_pool m \<and>
     (n = 0 \<longrightarrow> db_buf2 m' = db_buf2 m \<and> db_index2 m' = db_index2 m) \<and> (n \<noteq> 0 \<longrightarrow> db_buf m' = db_buf m \<and> db_index m' = db_index m)"

definition after :: "nat \<Rightarrow> nat" where
  "after k = (if k + 1 \<ge> 3 then 0 else k + 1)"

lemma after_cyc [simp]: "k < 3 \<Longrightarrow> after k < 3" "after k \<noteq> k" "k < 3 \<Longrightarrow> after (after k) \<noteq> k"
  by (auto simp: after_def)

lemma ring_frame_refl [simp]: "ring_frame n m m"
  by (simp add: ring_frame_def)

lemma ring_frame_trans [trans]: "ring_frame n m m' \<Longrightarrow> ring_frame n m' m'' \<Longrightarrow> ring_frame n m m''"
  by (auto simp: ring_frame_def)

lemma ring_frame_config: "ring_frame n m m' \<Longrightarrow> db_config_mgr m' = db_config_mgr m \<and> db_conn_pool m' = db_conn_pool m"
  by (simp add: ring_frame_def)

lemma ring_at_buf: "ring_at m n k \<Longrightarrow> get_buf_info m n = Some (Some (n, k))"
  by (auto simp: ring_at_def get_buf_info_def)

lemma ring_at_less: "ring_at m n k \<Longrightarrow> k < 3"
  by (simp add: ring_at_def)

lemma ring_at_next:
  assumes "ring_at m n k"
  obtains m' where "to_next_index m n = Some (True, m')" "ring_at m' n (after k)" "ring_frame n m m'" "\<forall>p. text_at m' p = text_at m p"
  using assms that [of "next_index m"] that [of "m\<lparr>db_index2 := Some (after k)\<rparr>"]
  by (auto simp: ring_at_def to_next_index_def next_index_def next_index2_def after_def ring_frame_def text_at_def)

lemma ring_at_put [simp]: "ring_at (put_text m (n, j) s) n k \<longleftrightarrow> ring_at m n k"
  by (auto simp: ring_at_def put_text_def)

lemma ring_frame_put [simp]: "ring_frame n m (put_text m (n, j) s)"
  by (auto simp: ring_frame_def put_text_def)

lemma text_at_put: "ring_at m n k \<Longrightarrow> j < 3 \<Longrightarrow> text_at (put_text m (n, j) s) (n, i) = (if i = j then s else text_at m (n, i))"
  by (auto simp: ring_at_def put_text_def text_at_def)

lemma pool_put: "db_conn_pool (put_text m p s) = db_conn_pool m"
  by (simp add: put_text_def)

lemma config_put [simp]: "db_config_mgr (put_text m p s) = db_config_mgr m"
  by (simp add: put_text_def)

text \<open>The text before, at the place the ring has just left, with a text behind it.\<close>

fun head_text :: "'c MysqlDBManager \<Rightarrow> text_ptr option \<Rightarrow> string \<Rightarrow> string" where
  "head_text m None s = s"
| "head_text m (Some h) s = text_at m h @ '', '' @ s"

fun head_at :: "nat \<Rightarrow> nat \<Rightarrow> text_ptr option \<Rightarrow> bool" where
  "head_at n k None = True"
| "head_at n k (Some h) = (\<exists>j. h = (n, j) \<and> j < 3 \<and> k = after j)"

lemma snprintf_fits: "length s < len \<Longrightarrow> snprintf len s = s"
  by (simp add: snprintf_def)

lemma append_to_head_text:
  assumes "ring_at m n k" "head_at n k head" "length (head_text m head s) < BUF_LEN"
  obtains j m' where "append_to_head (put_text m (n, k) s) head n (n, k) = Some (Some (n, j), m')" "ring_at m' n j" "ring_frame n m m'"
    "text_at m' (n, j) = head_text m head s"
proof (cases head)
  case None
  with assms that [of k "put_text m (n, k) s"] show thesis by (simp add: append_to_head_def text_at_put ring_at_less)
next
  case (Some h)
  with assms(2) obtain j where h: "h = (n, j)" "j < 3" "k = after j" by auto
  from assms(1) have "ring_at (put_text m (n, k) s) n k" by simp
  then obtain m' where m': "to_next_index (put_text m (n, k) s) n = Some (True, m')" "ring_at m' n (after k)"
    "ring_frame n (put_text m (n, k) s) m'" "\<forall>p. text_at m' p = text_at (put_text m (n, k) s) p"
    by (rule ring_at_next) blast
  let ?m = "put_text m' (n, after k) (head_text m head s)"
  have "append_to_head (put_text m (n, k) s) head n (n, k) = Some (Some (n, after k), ?m)"
    using assms(3) m'(1,2,4) h Some text_at_put [OF assms(1), of k s]
    by (simp add: append_to_head_def print_joined_def ring_at_buf snprintf_fits after_cyc(2) [symmetric])
  moreover have "ring_frame n m ?m" using m'(3) by (meson ring_frame_put ring_frame_trans)
  moreover have "text_at ?m (n, after k) = head_text m head s" using m'(2) h(2) by (simp add: text_at_put h(3))
  ultimately show thesis using m'(2) by (intro that [of "after k" ?m]) simp_all
qed

text \<open>
  What the three formatters share: one field is put behind the head, in the place after it; a list goes field by field.
\<close>

locale ring_formatter =
  fixes fmt :: "'c MysqlDBManager \<Rightarrow> text_ptr option \<Rightarrow> nat \<Rightarrow> field_arg \<Rightarrow> (text_ptr option \<times> 'c MysqlDBManager) option"
    and fmt_str :: "'c MysqlDBManager \<Rightarrow> text_ptr option \<Rightarrow> nat \<Rightarrow> field_arg list \<Rightarrow> (text_ptr option \<times> 'c MysqlDBManager) option"
    and field_text :: "MysqlDBConfigManager \<Rightarrow> field_arg \<Rightarrow> string option"
  assumes one: "ring_at m n k \<Longrightarrow> head_at n k head \<Longrightarrow> field_text (db_config_mgr m) a = Some s \<Longrightarrow> length (head_text m head s) < BUF_LEN \<Longrightarrow>
      \<exists>j m'. fmt m head n a = Some (Some (n, j), m') \<and> ring_at m' n j \<and> ring_frame n m m' \<and> text_at m' (n, j) = head_text m head s"
    and last: "fmt_str m head n [a] = fmt m head n a"
    and step: "fmt m head n a = Some (Some t, m1) \<Longrightarrow> to_next_index m1 n = Some (True, m2) \<Longrightarrow> bs \<noteq> [] \<Longrightarrow>
      fmt_str m head n (a # bs) = fmt_str m2 (Some t) n bs"
begin

lemma first_field:
  assumes "ring_at m n k" "head_at n k head" "field_text (db_config_mgr m) a = Some s" "length (head_text m head s) < BUF_LEN" "bs \<noteq> []"
  obtains j m' where "fmt_str m head n (a # bs) = fmt_str m' (Some (n, j)) n bs" "ring_at m' n (after j)" "j < 3" "ring_frame n m m'"
    "text_at m' (n, j) = head_text m head s"
proof -
  from one [OF assms(1-4)] obtain j m1 where m1: "fmt m head n a = Some (Some (n, j), m1)" "ring_at m1 n j" "ring_frame n m m1"
    "text_at m1 (n, j) = head_text m head s" by blast
  from m1(2) obtain m2 where m2: "to_next_index m1 n = Some (True, m2)" "ring_at m2 n (after j)" "ring_frame n m1 m2" "\<forall>p. text_at m2 p = text_at m1 p"
    by (rule ring_at_next) blast
  show thesis
    by (rule that [OF step [OF m1(1) m2(1) assms(5)] m2(2)]) (use m1 m2 in \<open>auto simp: ring_at_less intro: ring_frame_trans\<close>)
qed

lemma fields_then:
  assumes "ring_at m n k" "head_at n k head" "map (field_text (db_config_mgr m)) as = map Some ss" "as \<noteq> []" "bs \<noteq> []"
    and "length (head_text m head (joined '', '' ss)) < BUF_LEN"
  shows "\<exists>j m'. fmt_str m head n (as @ bs) = fmt_str m' (Some (n, j)) n bs \<and> ring_at m' n (after j) \<and> j < 3 \<and> ring_frame n m m' \<and>
    text_at m' (n, j) = head_text m head (joined '', '' ss)"
  using assms
proof (induction as arbitrary: m k head ss)
  case (Cons a as)
  then obtain s ss' where ss: "ss = s # ss'" "field_text (db_config_mgr m) a = Some s" "map (field_text (db_config_mgr m)) as = map Some ss'"
    by (cases ss) auto
  have "length (head_text m head s) < BUF_LEN" using Cons.prems(6) by (cases head; cases ss') (auto simp: ss)
  from first_field [OF Cons.prems(1,2) ss(2) this, of "as @ bs"] Cons.prems(5) obtain j m' where
    m': "fmt_str m head n (a # as @ bs) = fmt_str m' (Some (n, j)) n (as @ bs)" "ring_at m' n (after j)" "j < 3" "ring_frame n m m'"
      "text_at m' (n, j) = head_text m head s" by blast
  show ?case
  proof (cases "as = []")
    case True
    with m' ss show ?thesis by auto
  next
    case False
    have j: "joined '', '' ss = s @ '', '' @ joined '', '' ss'" using False ss by (cases ss') auto
    then have h: "head_text m' (Some (n, j)) (joined '', '' ss') = head_text m head (joined '', '' ss)" using m'(5) by (cases head) auto
    have "\<exists>i m''. fmt_str m' (Some (n, j)) n (as @ bs) = fmt_str m'' (Some (n, i)) n bs \<and> ring_at m'' n (after i) \<and> i < 3 \<and> ring_frame n m' m'' \<and>
        text_at m'' (n, i) = head_text m' (Some (n, j)) (joined '', '' ss')"
      by (rule Cons.IH) (use False Cons.prems(5,6) ss(3) m' in \<open>simp_all only: h, simp_all add: ring_frame_def\<close>)
    with m' show ?thesis by (auto simp: h simp del: head_text.simps intro: ring_frame_trans)
  qed
qed simp

lemma all_fields:
  assumes "ring_at m n k" "map (field_text (db_config_mgr m)) as = map Some ss" "as \<noteq> []" "length (joined '', '' ss) < BUF_LEN"
  obtains j m' where "fmt_str m None n as = Some (Some (n, j), m')" "ring_at m' n j" "ring_frame n m m'" "text_at m' (n, j) = joined '', '' ss"
proof (cases "as" rule: rev_cases)
  case (snoc bs a)
  then obtain ts s where ss: "ss = ts @ [s]" "field_text (db_config_mgr m) a = Some s" "map (field_text (db_config_mgr m)) bs = map Some ts"
    using assms(2) by (cases ss rule: rev_cases) auto
  show thesis
  proof (cases "bs = []")
    case True
    with one [OF assms(1), of None a s] assms(4) ss snoc show thesis by (auto simp: last intro: that)
  next
    case False
    have j: "joined '', '' ss = joined '', '' ts @ '', '' @ s" using False ss(3) unfolding ss(1) by (subst joined_snoc) auto
    from fields_then [OF assms(1) _ ss(3) False, of None "[a]"] assms(4) j obtain i m' where
      m': "fmt_str m None n (bs @ [a]) = fmt_str m' (Some (n, i)) n [a]" "ring_at m' n (after i)" "i < 3" "ring_frame n m m'"
        "text_at m' (n, i) = joined '', '' ts" by auto
    have "\<exists>j m''. fmt m' (Some (n, i)) n a = Some (Some (n, j), m'') \<and> ring_at m'' n j \<and> ring_frame n m' m'' \<and>
        text_at m'' (n, j) = head_text m' (Some (n, i)) s"
      by (rule one [OF m'(2)]) (use m' ss(2) assms(4) j in \<open>auto simp: ring_frame_def\<close>)
    with m' snoc j show thesis by (auto simp: last intro: that ring_frame_trans)
  qed
qed (use assms(3) in simp)

end

text \<open>The text of a name, of a value and of an assignment.\<close>

definition value_text :: "(string \<Rightarrow> string) \<Rightarrow> int \<Rightarrow> MysqlDBConfigManager \<Rightarrow> field_arg \<Rightarrow> string option" where
  "value_text escape table_index c a = do {
     name \<leftarrow> fa_field_name a;
     fi \<leftarrow> get_field_info c table_index name;
     v \<leftarrow> mysql_get_field_value_format escape (fi_field_type fi) (fi_create_flags fi) (fa_field_value a) BUF_LEN (Some BUF_LEN);
     v
   }"

definition assign_text :: "(string \<Rightarrow> string) \<Rightarrow> int \<Rightarrow> MysqlDBConfigManager \<Rightarrow> field_arg \<Rightarrow> string option" where
  "assign_text escape table_index c a = do {
     name \<leftarrow> fa_field_name a;
     v \<leftarrow> value_text escape table_index c a;
     require (length (name @ ''='' @ v) < BUF_LEN);
     Some (name @ ''='' @ v)
   }"

interpretation names: ring_formatter format_insert_field_name format_insert_field_name_str "\<lambda>_. fa_field_name"
proof (unfold_locales, goal_cases)
  case (1 m n k head a s)
  then show ?case
  proof (cases head)
    case None
    with 1 show ?thesis
      by (intro exI [of _ k] exI [of _ "put_text m (n, k) s"])
        (auto simp: format_insert_field_name_def ring_at_buf text_at_put ring_at_less snprintf_fits)
  next
    case (Some h)
    with 1 show ?thesis
      by (intro exI [of _ k] exI [of _ "put_text m (n, k) (text_at m h @ '', '' @ s)"])
        (auto simp: format_insert_field_name_def ring_at_buf text_at_put ring_at_less snprintf_fits print_joined_def)
  qed
next
  case (3 m head n a t m1 m2 bs)
  then show ?case by (cases bs) auto
qed simp

interpretation vals: ring_formatter "\<lambda>m. format_insert_field_value escape m table_index" "\<lambda>m. format_insert_field_value_str escape m table_index" "value_text escape table_index"
  for escape table_index
proof (unfold_locales, goal_cases)
  case (1 m n k head a s)
  then have "format_insert_field_value escape m table_index head n a = append_to_head (put_text m (n, k) s) head n (n, k)"
    by (auto simp: format_insert_field_value_def ring_at_buf value_text_def split: bind_splits)
  then show ?case using append_to_head_text [OF 1(1,2,4)] by metis
next
  case (3 m head n a t m1 m2 bs)
  then show ?case by (cases bs) auto
qed simp

interpretation assigns: ring_formatter "\<lambda>m. format_update_field_value escape m table_index" "\<lambda>m. format_update_field_value_str escape m table_index" "assign_text escape table_index"
  for escape table_index
proof (unfold_locales, goal_cases)
  case (1 m n k head a s)
  then have "format_update_field_value escape m table_index head n a = append_to_head (put_text m (n, k) s) head n (n, k)"
    by (auto simp: format_update_field_value_def ring_at_buf value_text_def assign_text_def snprintf_fits split: bind_splits if_splits)
  then show ?case using append_to_head_text [OF 1(1,2,4)] by metis
next
  case (3 m head n a t m1 m2 bs)
  then show ?case by (cases bs) auto
qed simp

section \<open>The statements that reach the pool\<close>

abbreviation (input) write_cmd :: "string \<Rightarrow> 'c CmdInfo" where
  "write_cmd sql \<equiv> \<lparr>cmd_sql = sql, cmd_callback_func = None, cmd_write_cmd = True\<rparr>"

abbreviation (input) read_cmd :: "string \<Rightarrow> 'c option \<Rightarrow> 'c CmdInfo" where
  "read_cmd sql cb \<equiv> \<lparr>cmd_sql = sql, cmd_callback_func = cb, cmd_write_cmd = False\<rparr>"

lemma new_cmd_text: "new_cmd sql (of_nat (length sql)) = \<lparr>cmd_sql = take (length sql mod 65536) sql, cmd_callback_func = None, cmd_write_cmd = False\<rparr>"
  by (simp add: new_cmd_def unsigned_ucast_eq unat_of_nat take_bit_eq_mod mod_mod_cancel)

lemma push_write_cmd_text:
  "length sql < 65536 \<Longrightarrow> mp_push_write_cmd (db_conn_pool m) (write_cmd sql) = Some (r, p) \<Longrightarrow> push_write_cmd m sql = Some (r, m\<lparr>db_conn_pool := p\<rparr>)"
  by (simp add: push_write_cmd_def new_cmd_text)

lemma push_read_cmd_text:
  "length sql < 65536 \<Longrightarrow> mp_push_read_cmd (db_conn_pool m) (read_cmd sql cb) = Some (r, p) \<Longrightarrow> push_read_cmd m sql cb = Some (r, m\<lparr>db_conn_pool := p\<rparr>)"
  by (simp add: push_read_cmd_def new_cmd_text)

lemma ring_at_pool [simp]: "ring_at (m\<lparr>db_conn_pool := p\<rparr>) n k \<longleftrightarrow> ring_at m n k"
  by (simp add: ring_at_def)

lemma ring_at_other: "ring_frame n m m' \<Longrightarrow> n \<noteq> n' \<Longrightarrow> n < 2 \<Longrightarrow> ring_at m n' k \<Longrightarrow> ring_at m' n' k"
  by (auto simp: ring_at_def ring_frame_def)

lemma text_at_other: "ring_frame n m m' \<Longrightarrow> n \<noteq> n' \<Longrightarrow> n < 2 \<Longrightarrow> n' < 2 \<Longrightarrow> text_at m' (n', k) = text_at m (n', k)"
  by (auto simp: text_at_def ring_frame_def less_2_cases_iff)

definition insert_sql :: "string \<Rightarrow> string list \<Rightarrow> string list \<Rightarrow> string" where
  "insert_sql t ns vs = ''INSERT INTO '' @ t @ '' ('' @ joined '', '' ns @ '') VALUES ('' @ joined '', '' vs @ '')''"

definition update_sql :: "string \<Rightarrow> string list \<Rightarrow> string list \<Rightarrow> string" where
  "update_sql t as conds = ''UPDATE '' @ t @ '' SET '' @ joined '', '' as @ '' WHERE '' @ joined '' AND '' conds"


lemma skipped_first:
  assumes "ring_at m n k" "list_all (\<lambda>a. fa_field_name a = None) zs" "as \<noteq> []"
  shows "\<exists>m'. format_update_field_value_str escape m table_index head n (zs @ as) = format_update_field_value_str escape m' table_index head n as \<and>
    ring_at m' n ((k + length zs) mod 3) \<and> ring_frame n m m' \<and> (\<forall>p. text_at m' p = text_at m p)"
  using assms
proof (induction zs arbitrary: m k)
  case Nil
  then show ?case by (auto simp: ring_at_less intro!: exI [of _ m])
next
  case (Cons z zs)
  obtain m' where m': "to_next_index m n = Some (True, m')" "ring_at m' n (after k)" "ring_frame n m m'" "\<forall>p. text_at m' p = text_at m p"
    using ring_at_next [OF Cons.prems(1)] by metis
  have "format_update_field_value_str escape m table_index head n ((z # zs) @ as) = format_update_field_value_str escape m' table_index head n (zs @ as)"
    using Cons.prems(2,3) m'(1) by (cases "zs @ as") (auto simp: format_update_field_value_def)
  moreover have "(after k + length zs) mod 3 = (k + length (z # zs)) mod 3" using ring_at_less [OF Cons.prems(1)]
    by (cases "k = 2") (auto simp: after_def mod_Suc)
  ultimately show ?case using Cons.IH [OF m'(2)] Cons.prems(2,3) m'(3,4) by (auto intro: ring_frame_trans)
qed

lemma skipped_last:
  assumes "ring_at m n k" "list_all (\<lambda>a. fa_field_name a = None) zs" "zs \<noteq> []"
  shows "\<exists>k' m'. format_update_field_value_str escape m table_index (Some h) n zs = Some (Some h, m') \<and> ring_at m' n k' \<and> ring_frame n m m' \<and>
    (\<forall>p. text_at m' p = text_at m p)"
  using assms
proof (induction zs arbitrary: m k)
  case (Cons z zs)
  obtain m' where m': "to_next_index m n = Some (True, m')" "ring_at m' n (after k)" "ring_frame n m m'" "\<forall>p. text_at m' p = text_at m p"
    using ring_at_next [OF Cons.prems(1)] by metis
  show ?case
  proof (cases zs)
    case Nil
    with Cons.prems show ?thesis by (auto simp: format_update_field_value_def)
  next
    case (Cons y ys)
    then show ?thesis using Cons.IH [OF m'(2)] Cons.prems(2) m' by (auto simp: format_update_field_value_def intro: ring_frame_trans)
  qed
qed simp

lemma changed_block:
  assumes "ring_at m n k" "list_all (\<lambda>a. fa_field_name a = None) (before @ behind)" "as \<noteq> []"
    and "map (assign_text escape table_index (db_config_mgr m)) as = map Some ss" "length (joined '', '' ss) < BUF_LEN"
  shows "\<exists>j k' m'. format_update_field_value_str escape m table_index None n (before @ as @ behind) = Some (Some (n, j), m') \<and>
    ring_at m' n k' \<and> ring_frame n m m' \<and> text_at m' (n, j) = joined '', '' ss"
proof -
  obtain k1 m1 where m1: "format_update_field_value_str escape m table_index None n (before @ as @ behind) =
      format_update_field_value_str escape m1 table_index None n (as @ behind)" "ring_at m1 n k1" "ring_frame n m m1"
    using skipped_first [OF assms(1), of before "as @ behind" escape table_index None] assms(2,3) by auto
  have c: "map (assign_text escape table_index (db_config_mgr m1)) as = map Some ss" using m1(3) assms(4) by (simp add: ring_frame_def)
  show ?thesis
  proof (cases "behind = []")
    case True
    with assigns.all_fields [OF m1(2) c assms(3,5)] m1 show ?thesis by (metis append_Nil2 ring_frame_trans)
  next
    case False
    from assigns.fields_then [OF m1(2) _ c assms(3) False, of None] assms(5) obtain j m2 where
      m2: "format_update_field_value_str escape m1 table_index None n (as @ behind) = format_update_field_value_str escape m2 table_index (Some (n, j)) n behind"
        "ring_at m2 n (after j)" "ring_frame n m1 m2" "text_at m2 (n, j) = joined '', '' ss" by auto
    from skipped_last [OF m2(2) _ False] assms(2) m1 m2 show ?thesis by (metis list_all_append ring_frame_trans)
  qed
qed

lemma key_conditions_frame: "db_config_mgr m' = db_config_mgr m \<Longrightarrow> key_conditions m' escape table_index ks = key_conditions m escape table_index ks"
  by (induction ks) (simp, case_tac a, simp)


lemma ring_place:
  assumes "j < 3"
  shows "after ((after j + g) mod 3) = j \<longleftrightarrow> g mod 3 = 1" "(after j + g) mod 3 = j \<longleftrightarrow> g mod 3 = 2"
proof -
  have "g mod 3 \<in> {0, 1, 2}" "j \<in> {0, 1, 2}" using assms by auto
  moreover have "(after j + g) mod 3 = (after j + g mod 3) mod 3" by (simp add: mod_add_right_eq)
  ultimately show "after ((after j + g) mod 3) = j \<longleftrightarrow> g mod 3 = 1" "(after j + g) mod 3 = j \<longleftrightarrow> g mod 3 = 2"
    by (auto simp: after_def) presburger+
qed

text \<open>Putting a text behind a head that need not be the place before.\<close>

lemma append_over_head:
  assumes "ring_at m n k" "j < 3" "length (text_at m (n, j)) + 2 + length t < BUF_LEN" "length t + 2 + length t < BUF_LEN"
  shows "if after k = j then append_to_head (put_text m (n, k) t) (Some (n, j)) n (n, k) = None
    else \<exists>m'. append_to_head (put_text m (n, k) t) (Some (n, j)) n (n, k) = Some (Some (n, after k), m') \<and> ring_frame n m m' \<and> ring_at m' n (after k) \<and>
      text_at m' (n, after k) = (if k = j then t else text_at m (n, j)) @ '', '' @ t"
proof -
  obtain m' where m': "to_next_index (put_text m (n, k) t) n = Some (True, m')" "ring_at m' n (after k)" "ring_frame n (put_text m (n, k) t) m'"
      "\<forall>p. text_at m' p = text_at (put_text m (n, k) t) p"
    using ring_at_next [of "put_text m (n, k) t" n k] assms(1) by (metis ring_at_put)
  let ?t = "(if k = j then t else text_at m (n, j)) @ '', '' @ t"
  have k: "k < 3" "after k < 3" using assms(1) by (simp_all add: ring_at_less)
  have t: "text_at m' (n, i) = (if i = k then t else text_at m (n, i))" for i using m'(4) text_at_put [OF assms(1) k(1)] by simp
  show ?thesis
  proof (cases "after k = j")
    case True
    with m'(1,2) show ?thesis by (simp add: append_to_head_def print_joined_def ring_at_buf)
  next
    case False
    have "append_to_head (put_text m (n, k) t) (Some (n, j)) n (n, k) = Some (Some (n, after k), put_text m' (n, after k) ?t)"
      using False m'(1,2) assms(3,4) by (simp add: append_to_head_def print_joined_def ring_at_buf t snprintf_fits)
    moreover have "ring_frame n m (put_text m' (n, after k) ?t)" using m'(3) by (meson ring_frame_put ring_frame_trans)
    ultimately show ?thesis using False m'(2) text_at_put [OF m'(2) k(2)] by simp
  qed
qed

text \<open>The text of a block of changed fields, some unchanged ones, and one more changed field.\<close>

lemma changed_gap:
  assumes "ring_at m n i" "list_all (\<lambda>a. fa_field_name a = None) (before @ zs @ behind)" "as \<noteq> []"
    and "map (assign_text escape table_index (db_config_mgr m)) as = map Some ss" "assign_text escape table_index (db_config_mgr m) b = Some t"
    and "length (joined '', '' ss) + 2 + length t < BUF_LEN" "length t + 2 + length t < BUF_LEN"
  shows "if length zs mod 3 = 1 then format_update_field_value_str escape m table_index None n (before @ as @ zs @ b # behind) = None
    else \<exists>j m'. format_update_field_value_str escape m table_index None n (before @ as @ zs @ b # behind) = Some (Some (n, j), m') \<and>
      ring_frame n m m' \<and> text_at m' (n, j) = (if length zs mod 3 = 2 then t else joined '', '' ss) @ '', '' @ t"
proof -
  obtain m0 k0 where m0: "format_update_field_value_str escape m table_index None n (before @ as @ zs @ b # behind) =
      format_update_field_value_str escape m0 table_index None n (as @ zs @ b # behind)" "ring_at m0 n k0" "ring_frame n m m0"
    using skipped_first [OF assms(1), of before "as @ zs @ b # behind" escape table_index None] assms(2) by auto
  have c0: "map (assign_text escape table_index (db_config_mgr m0)) as = map Some ss" using ring_frame_config [OF m0(3)] assms(4) by simp
  from assigns.fields_then [OF m0(2) _ c0 assms(3), of None "zs @ b # behind"] assms(6) obtain j m1 where
    m1: "format_update_field_value_str escape m0 table_index None n (as @ zs @ b # behind) =
      format_update_field_value_str escape m1 table_index (Some (n, j)) n (zs @ b # behind)" "ring_at m1 n (after j)" "j < 3" "ring_frame n m0 m1"
      "text_at m1 (n, j) = joined '', '' ss" by auto
  obtain m2 where m2: "format_update_field_value_str escape m1 table_index (Some (n, j)) n (zs @ b # behind) =
      format_update_field_value_str escape m2 table_index (Some (n, j)) n (b # behind)"
      "ring_at m2 n ((after j + length zs) mod 3)" "ring_frame n m1 m2" "text_at m2 (n, j) = joined '', '' ss"
    using skipped_first [OF m1(2), of zs "b # behind" escape table_index "Some (n, j)"] m1(5) assms(2) by auto
  have fr: "ring_frame n m m2" using m0(3) m1(4) m2(3) by (meson ring_frame_trans)
  let ?k = "(after j + length zs) mod 3"
  have v: "format_update_field_value escape m2 table_index (Some (n, j)) n b = append_to_head (put_text m2 (n, ?k) t) (Some (n, j)) n (n, ?k)"
    using assms(5) ring_at_buf [OF m2(2)] ring_frame_config [OF fr]
    by (auto simp: format_update_field_value_def assign_text_def value_text_def snprintf_fits split: bind_splits if_splits)
  note over = append_over_head [OF m2(2) m1(3), of t] and k = ring_place [OF m1(3), of "length zs"]
  show ?thesis
  proof (cases "length zs mod 3 = 1")
    case True
    then have "append_to_head (put_text m2 (n, ?k) t) (Some (n, j)) n (n, ?k) = None" using over assms(6,7) m2(4) k(1) by simp
    then have "format_update_field_value_str escape m2 table_index (Some (n, j)) n (b # behind) = None" using v by (cases behind) simp_all
    then show ?thesis using True m0(1) m1(1) m2(1) by simp
  next
    case False
    with over assms(6,7) m2(4) k obtain m3 where
      m3: "format_update_field_value escape m2 table_index (Some (n, j)) n b = Some (Some (n, after ?k), m3)" "ring_frame n m2 m3"
        "text_at m3 (n, after ?k) = (if length zs mod 3 = 2 then t else joined '', '' ss) @ '', '' @ t" "ring_at m3 n (after ?k)" by (auto simp: v)
    show ?thesis
    proof (cases "behind = []")
      case True
      with m3 False m0(1) m1(1) m2(1) fr show ?thesis by (auto intro: ring_frame_trans)
    next
      case ne: False
      obtain m4 where m4: "to_next_index m3 n = Some (True, m4)" "ring_at m4 n (after (after ?k))" "ring_frame n m3 m4" "\<forall>p. text_at m4 p = text_at m3 p"
        using ring_at_next [OF m3(4)] by metis
      have "format_update_field_value_str escape m2 table_index (Some (n, j)) n (b # behind) =
          format_update_field_value_str escape m4 table_index (Some (n, after ?k)) n behind"
        by (rule assigns.step [OF m3(1) m4(1) ne])
      with skipped_last [OF m4(2) _ ne, of escape table_index "(n, after ?k)"] assms(2) m4(4) m3(3) False m0(1) m1(1) m2(1)
        ring_frame_trans [OF ring_frame_trans [OF ring_frame_trans [OF fr m3(2)] m4(3)]] show ?thesis
        by (auto intro!: exI [of _ "after ?k"])
    qed
  qed
qed

text \<open>
  Unchanged fields between changed ones break the update. The places of the ring move on for every field, but the text built so far
  stays where it is: with one unchanged field between (or four, or seven) a buffer is printed into itself, which is undefined; with
  two between (or five) the text built so far is overwritten by the next assignment, which is sent twice, and all assignments before
  it are lost without a trace; only with a multiple of three between is the statement the right one.
\<close>

theorem update_gap_breaks_statement:
  assumes "ring_at m 0 i" "get_table_info (db_config_mgr m) table_index = Some ti"
    and "list_all (\<lambda>a. fa_field_name a = None) (before @ zs @ behind)" "as \<noteq> []"
    and "map (assign_text escape table_index (db_config_mgr m)) as = map Some ss" "assign_text escape table_index (db_config_mgr m) b = Some t"
    and "key_conditions m escape table_index keys = Some (Some conds)"
    and "length (update_sql (ti_name ti) [joined '', '' ss, t, t] conds) < 65536"
    and "mp_curr_write_index (db_conn_pool m) < length (mp_write_connectors (db_conn_pool m))"
  shows "map_option (\<lambda>(r, m'). (r, db_conn_pool m')) (updateRecord escape m table_index keys (before @ as @ zs @ b # behind)) =
    (if length zs mod 3 = 1 then None
     else mp_push_write_cmd (db_conn_pool m) (write_cmd (update_sql (ti_name ti) (if length zs mod 3 = 2 then [t, t] else ss @ [t]) conds)))"
proof -
  have len: "length (joined '', '' ss) + 2 + length t < BUF_LEN" "length t + 2 + length t < BUF_LEN" using assms(8) by (simp_all add: update_sql_def)
  note gap = changed_gap [OF assms(1,3-6) len]
  show ?thesis
  proof (cases "length zs mod 3 = 1")
    case True
    with gap assms(2) show ?thesis by (simp add: updateRecord_def)
  next
    case False
    let ?r = "if length zs mod 3 = 2 then [t, t] else ss @ [t]"
    have "ss \<noteq> []" using assms(4,5) by auto
    then have r: "joined '', '' ?r = (if length zs mod 3 = 2 then t else joined '', '' ss) @ '', '' @ t" by (simp add: joined_snoc)
    from gap False obtain j m' where
      m': "format_update_field_value_str escape m table_index None 0 (before @ as @ zs @ b # behind) = Some (Some (0, j), m')" "ring_frame 0 m m'"
        "text_at m' (0, j) = joined '', '' ?r" unfolding r by auto
    have sql: "length (update_sql (ti_name ti) ?r conds) < 65536" using assms(8) r by (simp add: update_sql_def)
    have c: "db_config_mgr m' = db_config_mgr m" "db_conn_pool m' = db_conn_pool m" using ring_frame_config [OF m'(2)] by simp_all
    have "updateRecord escape m table_index keys (before @ as @ zs @ b # behind) = push_write_cmd m' (update_sql (ti_name ti) ?r conds)"
      using sql assms(2,7) m'(1,3) key_conditions_frame [OF c(1)] by (simp add: updateRecord_def update_sql_def snprintf_fits)
    with push_write_cmd_text [OF sql, of m'] False assms(9) c(2) show ?thesis by (simp add: mp_push_write_cmd_def Let_def)
  qed
qed

text \<open>A manager of one table with one writer and one reader, for examples; escaping puts a backslash before quotes and backslashes.\<close>

definition test_escape :: "string \<Rightarrow> string" where
  "test_escape s = concat (map (\<lambda>c. if c = CHR 0x27 \<or> c = CHR 0x5C then [CHR 0x5C, c] else [c]) s)"

definition test_field :: "string \<Rightarrow> MysqlTableFieldType \<Rightarrow> MysqlTableFieldInfo" where
  "test_field n t = \<lparr>fi_name = n, fi_field_type = t, fi_type_length = 0, fi_index_type = 0, fi_create_flags = 0\<rparr>"

definition test_table :: MysqlTableInfo where
  "test_table = \<lparr>ti_name = ''t'', ti_primary_key_index = 0, ti_primary_key = ''id'', ti_fields_info = [test_field ''id'' MYSQL_FIELD_TYPE_INT, test_field ''name'' MYSQL_FIELD_TYPE_VARCHAR,
     test_field ''sex'' MYSQL_FIELD_TYPE_TINYINT, test_field ''exp'' MYSQL_FIELD_TYPE_INT],
     ti_engine_type = MYSQL_ENGINE_INNODB\<rparr>"

definition test_db_manager :: "nat MysqlDBManager" where
  "test_db_manager = new_db_manager\<lparr>db_config_mgr := snd (cm_init new_config_manager \<lparr>dc_dbname = ''d'', dc_tables_info = [test_table]\<rparr>),
     db_conn_pool := mp_init new_connector_pool 1 1, db_index2 := Some 0\<rparr>"

abbreviation (input) changed :: "string \<Rightarrow> field_value \<Rightarrow> field_arg" where
  "changed n v \<equiv> \<lparr>fa_field_name = Some n, fa_field_value = v\<rparr>"

abbreviation (input) unchanged :: "field_value \<Rightarrow> field_arg" where
  "unchanged v \<equiv> \<lparr>fa_field_name = None, fa_field_value = v\<rparr>"

lemma test_ring: "ring_at test_db_manager 0 0" "ring_at test_db_manager 1 0"
  by (simp_all add: ring_at_def test_db_manager_def new_db_manager_def)

lemma test_table_info: "get_table_info (db_config_mgr test_db_manager) 0 = Some test_table"
  by (simp add: test_db_manager_def cm_init_def get_table_info_def new_config_manager_def)

lemma test_field_info:
  "get_field_info (db_config_mgr test_db_manager) 0 ''id'' = Some (test_field ''id'' MYSQL_FIELD_TYPE_INT)"
  "get_field_info (db_config_mgr test_db_manager) 0 ''name'' = Some (test_field ''name'' MYSQL_FIELD_TYPE_VARCHAR)"
  "get_field_info (db_config_mgr test_db_manager) 0 ''sex'' = Some (test_field ''sex'' MYSQL_FIELD_TYPE_TINYINT)"
  "get_field_info (db_config_mgr test_db_manager) 0 ''exp'' = Some (test_field ''exp'' MYSQL_FIELD_TYPE_INT)"
  unfolding get_field_info_def test_table_info
  by (simp_all add: test_db_manager_def cm_init_def new_config_manager_def test_table_def test_field_def)

lemma test_pool:
  "mp_push_write_cmd (db_conn_pool test_db_manager) i =
    Some (True, (mp_init new_connector_pool 1 1)\<lparr>mp_write_connectors := [co_push new_connector i]\<rparr>)"
  by (simp add: test_db_manager_def mp_push_write_cmd_def mp_init_def new_connector_pool_def Let_def)

lemma test_digits: "char_of (49 :: nat) = CHR ''1''" "char_of (53 :: nat) = CHR ''5''" "char_of (55 :: nat) = CHR ''7''" "char_of (56 :: nat) = CHR ''8''"
  by code_simp+

lemmas test_format = test_field_info test_digits test_field_def value_text_def assign_text_def is_int32_type_def is_text_type_def is_unsigned_def
  decimal_int_def decimal.simps snprintf_def quoted_def escape_into_def test_escape_def cstr_def get_field_type_format_def



theorem update_gap_breaks_statement_witness:
  "updateRecord test_escape test_db_manager 0 [(''id'', IntV 7)]
      [changed ''name'' (StringV ''a''), unchanged (IntV 1), changed ''exp'' (IntV 5)] = None \<and>
   map_option (\<lambda>(r, m'). (r, db_conn_pool m')) (updateRecord test_escape test_db_manager 0 [(''id'', IntV 7)]
      [changed ''id'' (IntV 8), unchanged (StringV ''a''), unchanged (IntV 1), changed ''exp'' (IntV 5)]) =
   Some (True, (mp_init new_connector_pool 1 1)\<lparr>mp_write_connectors := [co_push new_connector (write_cmd ''UPDATE t SET exp=5, exp=5 WHERE id=7'')]\<rparr>)"
  using update_gap_breaks_statement [OF test_ring(1) test_table_info, of "[]" "[unchanged (IntV 1)]" "[]" "[changed ''name'' (StringV ''a'')]" test_escape
      "[''name='' @ [CHR 0x27, CHR ''a'', CHR 0x27]]" "changed ''exp'' (IntV 5)" "''exp=5''" "[(''id'', IntV 7)]" "[''id=7'']"]
    update_gap_breaks_statement [OF test_ring(1) test_table_info, of "[]" "[unchanged (StringV ''a''), unchanged (IntV 1)]" "[]" "[changed ''id'' (IntV 8)]" test_escape
      "[''id=8'']" "changed ''exp'' (IntV 5)" "''exp=5''" "[(''id'', IntV 7)]" "[''id=7'']"]
  by (simp add: test_format update_sql_def test_pool) (simp add: test_table_def test_db_manager_def mp_init_def new_connector_pool_def)

text \<open>
  Key values are not escaped. A selection by a text key puts the value between quotes as it is, so that the statement
  a client's account gives rise to is whatever the account makes of it; values of fields in insertions and updates are escaped.
\<close>

theorem selection_key_is_verbatim:
  assumes "get_table_info (db_config_mgr m) table_index = Some ti" "get_field_info (db_config_mgr m) table_index key = Some fi"
    and "is_text_type (fi_field_type fi)" "CHR 0x00 \<notin> set v"
    and "length (''SELECT * FROM '' @ ti_name ti @ '' WHERE '' @ key @ ''='' @ quoted v) < 65536"
    and "mp_push_read_cmd (db_conn_pool m) (read_cmd (''SELECT * FROM '' @ ti_name ti @ '' WHERE '' @ key @ ''='' @ quoted v) cb) = Some (True, p)"
  shows "\<exists>m'. selectRecord_key escape m table_index key (StringV v) cb = Some (True, m') \<and> db_conn_pool m' = p"
proof -
  have v: "cstr v = v" using assms(4) by (simp add: cstr_def takeWhile_eq_all_conv) metis
  have "length (quoted v) < BUF_LEN" using assms(5) by simp
  then have f: "get_field_type_format (db_config_mgr m) escape table_index key (StringV v) BUF_LEN = Some (Some (quoted v))"
    using assms(2,3) v by (simp add: get_field_type_format_def snprintf_fits)
  then have "selectRecord_key escape m table_index key (StringV v) cb =
      push_read_cmd (put_text m (0, db_index m) (quoted v)) (''SELECT * FROM '' @ ti_name ti @ '' WHERE '' @ key @ ''='' @ quoted v) cb"
    using assms(1,5) by (simp add: selectRecord_key_def snprintf_fits)
  also have "\<dots> = Some (True, (put_text m (0, db_index m) (quoted v))\<lparr>db_conn_pool := p\<rparr>)"
    by (rule push_read_cmd_text [OF assms(5)]) (simp only: assms(6) pool_put)
  finally show ?thesis by simp
qed

theorem selection_key_is_verbatim_witness:
  "\<exists>m'. selectRecord_key test_escape test_db_manager 0 ''name'' (StringV ([CHR 0x27] @ '' OR 1=1 -- '')) (Some 3) = Some (True, m') \<and>
    db_conn_pool m' = (mp_init new_connector_pool 1 1)\<lparr>mp_read_connectors := [co_push new_connector (read_cmd
      (''SELECT * FROM t WHERE name='' @ [CHR 0x27, CHR 0x27] @ '' OR 1=1 -- '' @ [CHR 0x27]) (Some 3))]\<rparr>"
  using selection_key_is_verbatim [OF test_table_info test_field_info(2), of "[CHR 0x27] @ '' OR 1=1 -- ''" "Some 3" _ test_escape]
  by (simp add: test_field_def is_text_type_def quoted_def)
    (simp add: test_table_def test_db_manager_def mp_init_def new_connector_pool_def mp_push_read_cmd_def Let_def)

lemma select_step:
  assumes "ring_at m 0 k" "j < 3"
  shows "if after k = j then select_names m buf (Some (0, j)) (n # ns) = None
    else \<exists>m'. select_names m buf (Some (0, j)) (n # ns) = select_names m' (0, after k) (Some (0, j)) ns \<and> ring_at m' 0 (after k) \<and>
      ring_frame 0 m m' \<and> text_at m' (0, j) = text_at m (0, j) \<and> text_at m' (0, after k) = snprintf BUF_LEN (text_at m (0, j) @ '', '' @ n)"
proof -
  obtain m1 where m1: "to_next_index m 0 = Some (True, m1)" "ring_at m1 0 (after k)" "ring_frame 0 m m1" "\<forall>p. text_at m1 p = text_at m p"
    using ring_at_next [OF assms(1)] by metis
  let ?m = "put_text m1 (0, after k) (snprintf BUF_LEN (text_at m (0, j) @ '', '' @ n))"
  have "ring_frame 0 m ?m" using m1(3) by (meson ring_frame_put ring_frame_trans)
  moreover have "text_at ?m (0, i) = (if i = after k then snprintf BUF_LEN (text_at m (0, j) @ '', '' @ n) else text_at m (0, i))" for i
    using text_at_put [OF m1(2) ring_at_less [OF m1(2)]] m1(4) by simp
  moreover have "ring_at ?m 0 (after k)" using m1(2) by simp
  moreover have "after k \<noteq> j \<Longrightarrow> select_names m buf (Some (0, j)) (n # ns) = select_names ?m (0, after k) (Some (0, j)) ns"
    using m1(1,2,4) by (simp add: ring_at_buf print_joined_def)
  moreover have "after k = j \<Longrightarrow> select_names m buf (Some (0, j)) (n # ns) = None"
    using m1(1,2) by (auto simp: ring_at_buf print_joined_def)
  ultimately show ?thesis by (auto simp del: select_names.simps)
qed

lemma select_names_first:
  assumes "ring_at m 0 i" "length first < BUF_LEN"
  shows "\<exists>m'. select_names m (0, i) None (first # ns) = select_names m' (0, i) (Some (0, i)) ns \<and> ring_at m' 0 i \<and> ring_frame 0 m m' \<and> text_at m' (0, i) = first"
  using assms by (intro exI [of _ "put_text m (0, i) first"]) (simp add: snprintf_fits text_at_put ring_at_less)

text \<open>
  A selection of fields without a key keeps only the first and the last of them: two names are right, of three the one in the middle is
  lost, and from four on a buffer is printed into itself, which is undefined.
\<close>

theorem selection_keeps_first_and_last:
  assumes "ring_at m 0 i" "get_table_info (db_config_mgr m) table_index = Some ti"
    and "length (''SELECT '' @ first @ '', '' @ final @ '' FROM '' @ ti_name ti) < 65536"
    and "mp_push_read_cmd (db_conn_pool m) (read_cmd (''SELECT '' @ first @ '', '' @ final @ '' FROM '' @ ti_name ti) cb) = Some (True, p)"
  shows "map_option (\<lambda>(r, m'). (r, db_conn_pool m')) (selectRecord_fields m table_index (first # mid @ [final]) cb) =
    (if length mid < 2 then Some (True, p) else None)"
proof -
  have len: "length first < BUF_LEN" "length (first @ '', '' @ final) < BUF_LEN" using assms(3) by simp_all
  have i: "i < 3" "after i \<noteq> i" "after (after i) \<noteq> i" "after (after (after i)) = i" using ring_at_less [OF assms(1)] by (auto simp: after_def)
  from select_names_first [OF assms(1) len(1)] obtain m1 where
    m1: "select_names m (0, i) None (first # mid @ [final]) = select_names m1 (0, i) (Some (0, i)) (mid @ [final])" "ring_at m1 0 i" "ring_frame 0 m m1"
      "text_at m1 (0, i) = first" by blast
  have sent: ?thesis if "select_names m (0, i) None (first # mid @ [final]) = Some ((0, j), m')" "ring_frame 0 m m'"
      "text_at m' (0, j) = first @ '', '' @ final" "length mid < 2" for j m'
    using that assms push_read_cmd_text [OF assms(3), of m' cb True p]
    by (simp add: selectRecord_fields_def ring_at_buf snprintf_fits ring_frame_config del: select_names.simps)
  show ?thesis
  proof (cases mid)
    case Nil
    from select_step [OF m1(2) i(1), of "(0, i)" final "[]"] i(2) m1(4) len(2) obtain m' where
      "select_names m1 (0, i) (Some (0, i)) [final] = Some ((0, after i), m')" "ring_frame 0 m1 m'" "text_at m' (0, after i) = first @ '', '' @ final"
      by (auto simp: snprintf_fits)
    with Nil m1(1) ring_frame_trans [OF m1(3)] show ?thesis by (intro sent) (simp_all del: select_names.simps)
  next
    case (Cons n ns)
    from select_step [OF m1(2) i(1), of "(0, i)" n "ns @ [final]"] i(2) m1(4) obtain m2 where
      m2: "select_names m1 (0, i) (Some (0, i)) (mid @ [final]) = select_names m2 (0, after i) (Some (0, i)) (ns @ [final])" "ring_at m2 0 (after i)"
        "ring_frame 0 m1 m2" "text_at m2 (0, i) = first" by (auto simp: Cons simp del: select_names.simps)
    show ?thesis
    proof (cases ns)
      case Nil
      from select_step [OF m2(2) i(1), of "(0, after i)" final "[]"] i(3) m2(4) len(2) obtain m' where
        "select_names m2 (0, after i) (Some (0, i)) [final] = Some ((0, after (after i)), m')" "ring_frame 0 m2 m'"
          "text_at m' (0, after (after i)) = first @ '', '' @ final"
        by (auto simp: snprintf_fits)
      with Nil m1(1) m2(1) ring_frame_trans [OF ring_frame_trans [OF m1(3) m2(3)]] \<open>mid = _\<close> show ?thesis
        by (intro sent) (simp_all del: select_names.simps)
    next
      case (Cons n' ns')
      from select_step [OF m2(2) i(1), of "(0, after i)" n' "ns' @ [final]"] i(3) obtain m3 where
        m3: "select_names m2 (0, after i) (Some (0, i)) (ns @ [final]) = select_names m3 (0, after (after i)) (Some (0, i)) (ns' @ [final])"
          "ring_at m3 0 (after (after i))" by (auto simp: Cons simp del: select_names.simps)
      obtain n'' ns'' where "ns' @ [final] = n'' # ns''" by (cases ns') auto
      with select_step [OF m3(2) i(1), of "(0, after (after i))" n'' ns''] i(4) m3(1) m2(1) m1(1) assms(1,2) \<open>mid = _\<close> Cons
      show ?thesis by (simp add: selectRecord_fields_def ring_at_buf del: select_names.simps)
    qed
  qed
qed

theorem selection_keeps_first_and_last_witness:
  "map_option (\<lambda>(r, m'). (r, db_conn_pool m')) (selectRecord_fields test_db_manager 0 [''id'', ''name'', ''exp''] None) =
    Some (True, (mp_init new_connector_pool 1 1)\<lparr>mp_read_connectors := [co_push new_connector (read_cmd ''SELECT id, exp FROM t'' None)]\<rparr>) \<and>
   map_option (\<lambda>(r, m'). (r, db_conn_pool m')) (selectRecord_fields test_db_manager 0 [''id'', ''name'', ''sex'', ''exp''] None) = None"
  using selection_keeps_first_and_last [OF test_ring(1) test_table_info, of "''id''" "''exp''" None _ "[''name'']"]
    selection_keeps_first_and_last [OF test_ring(1) test_table_info, of "''id''" "''exp''" None _ "[''name'', ''sex'']"]
  by (simp add: test_table_def)
    (simp add: test_db_manager_def mp_init_def new_connector_pool_def mp_push_read_cmd_def Let_def)

end
