(* ===== verification/Db_Server.thy ===== *)
theory Db_Server
  imports Server_Common Records_Manager Mysql_Statements
begin

text \<open>
  The database server of \<open>db_server\<close>: \<open>GameServerManager\<close>, \<open>GlobalData\<close>, \<open>GameHandler\<close> with the messages of the
  game servers, and the answers of \<open>DBResCBFuncs\<close>. It keeps the players it has read or created in a
  \<open>mysql_records_manager2\<close> by role id and by account and reaches the database through \<open>MysqlDBManager\<close>.

  Generated code is a parameter: the messages (\<open>db_codec\<close>), the class \<open>t_player\<close> with its getters, setters and
  the functions that select a player and read a row (\<open>t_player_ops\<close>). The lambda that waits for the row of an account
  is the constructor \<open>PlayerInfo\<close> with what it captured. The address of a new record and the time are arguments.
\<close>

abbreviation (input) MSGID_DS2GS_CONNECT_DB_RESPONSE :: i32 where "MSGID_DS2GS_CONNECT_DB_RESPONSE \<equiv> 25001"
abbreviation (input) MSGID_DS2GS_GET_ROLE_RESPONSE :: i32 where "MSGID_DS2GS_GET_ROLE_RESPONSE \<equiv> 25011"
abbreviation (input) MSGID_DS2GS_CREATE_ROLE_RESPONSE :: i32 where "MSGID_DS2GS_CREATE_ROLE_RESPONSE \<equiv> 25013"
abbreviation (input) MSGID_DS2GS_SET_ROLE_DATA_RESPONSE :: i32 where "MSGID_DS2GS_SET_ROLE_DATA_RESPONSE \<equiv> 25101"
abbreviation (input) MSGID_DS2GS_ADD_ITEM_RESPONSE :: i32 where "MSGID_DS2GS_ADD_ITEM_RESPONSE \<equiv> 25103"

record DBItemData =
  di_type_id :: i32
  di_num :: i32

type_synonym item_list = "i32 \<Rightarrow> DBItemData option"

record create_role_request =
  cq_account :: string
  cq_nick_name :: string
  cq_sex :: int
  cq_race :: int

record db_codec =
  dp_ConnectDBRequest :: "cell list \<Rightarrow> int option"
  dp_GetRoleRequest :: "cell list \<Rightarrow> string option"
  dp_CreateRoleRequest :: "cell list \<Rightarrow> create_role_request option"
  dp_SetRoleDataRequest :: "cell list \<Rightarrow> (u64 \<times> base_role_data) option"
  dp_AddItemRequest :: "cell list \<Rightarrow> (u64 \<times> u32 \<times> u32) option"
  dw_ConnectDBResponse :: "u8 list"
  dw_GetRoleResponse :: "string \<Rightarrow> base_role_data \<Rightarrow> u8 list"
  dw_CreateRoleResponse :: "string \<Rightarrow> base_role_data \<Rightarrow> u8 list"
  dw_SetRoleDataResponse :: "base_role_data \<Rightarrow> u8 list"
  dw_AddItemResponse :: "u64 \<Rightarrow> u32 \<Rightarrow> u32 \<Rightarrow> u8 list"

datatype db_callback = AllAccounts | PlayerInfo string int

type_synonym db_manager = "db_callback MysqlDBManager"

record 'p t_player_ops =
  tp_new :: 'p
  get_role_id :: "'p \<Rightarrow> u64"
  set_role_id :: "'p \<Rightarrow> u64 \<Rightarrow> 'p"
  get_account :: "'p \<Rightarrow> string"
  set_account :: "'p \<Rightarrow> string \<Rightarrow> 'p"
  get_nick_name :: "'p \<Rightarrow> string"
  set_nick_name :: "'p \<Rightarrow> string \<Rightarrow> 'p"
  get_sex :: "'p \<Rightarrow> int"
  set_sex :: "'p \<Rightarrow> int \<Rightarrow> 'p"
  get_level :: "'p \<Rightarrow> int"
  set_level :: "'p \<Rightarrow> int \<Rightarrow> 'p"
  get_items :: "'p \<Rightarrow> item_list"
  put_items :: "'p \<Rightarrow> item_list \<Rightarrow> 'p"
  commit_items_changed :: "'p \<Rightarrow> 'p"
  db_select_t_player_fields_by_account :: "db_manager \<Rightarrow> string \<Rightarrow> db_callback \<Rightarrow> (bool \<times> db_manager) option"
  db_get_result_of_select_t_player_by_account :: "Result \<Rightarrow> 'p \<Rightarrow> int \<times> 'p"

type_synonym player_table = "(u64, string) records_manager2"

record 'p db_state =
  ds_game_mgr :: "int AgentManagerPerf"
  ds_players :: player_table
  ds_player :: "TableRecord \<Rightarrow> 'p"
  ds_db_mgr :: db_manager
  ds_db_accounts :: "string set"
  ds_userid2accounts :: "string \<Rightarrow> i32 option"
  ds_counter :: u16

type_synonym 'p db = "'p db_state net"

definition upd_db :: "'p db \<Rightarrow> ('p db_state \<Rightarrow> 'p db_state) \<Rightarrow> 'p db" where
  "upd_db n f = n\<lparr>nt_app := f (nt_app n)\<rparr>"

section \<open>GameServerManager\<close>

definition gm_newAgent :: "'p db \<Rightarrow> int \<Rightarrow> nat \<Rightarrow> int \<Rightarrow> int Agent option \<times> 'p db" where
  "gm_newAgent n game_id mgr cid =
     (let (a, m) = ap_newAgent 0 (ds_game_mgr (nt_app n)) game_id mgr cid in (a, upd_db n (\<lambda>s. s\<lparr>ds_game_mgr := m\<rparr>)))"

definition gm_get :: "'p db \<Rightarrow> int \<Rightarrow> int Agent option" where
  "gm_get n game_id = ap_getAgent (ds_game_mgr (nt_app n)) game_id"

definition gm_getByConnId :: "'p db \<Rightarrow> int \<Rightarrow> int Agent option" where
  "gm_getByConnId n cid = ap_getAgentByConnId (ds_game_mgr (nt_app n)) cid"

definition gm_remove :: "'p db \<Rightarrow> int \<Rightarrow> (bool \<times> 'p db) option" where
  "gm_remove n game_id = do {
     (ok, m) \<leftarrow> ap_deleteAgent (ds_game_mgr (nt_app n)) game_id;
     Some (ok, upd_db n (\<lambda>s. s\<lparr>ds_game_mgr := m\<rparr>))
   }"

definition gm_removeByConnId :: "'p db \<Rightarrow> int \<Rightarrow> (bool \<times> 'p db) option" where
  "gm_removeByConnId n cid = do {
     (ok, m) \<leftarrow> ap_deleteAgentByConnId (ds_game_mgr (nt_app n)) cid;
     Some (ok, upd_db n (\<lambda>s. s\<lparr>ds_game_mgr := m\<rparr>))
   }"

definition gm_getIdByConnId :: "'p db \<Rightarrow> int \<Rightarrow> int" where
  "gm_getIdByConnId n cid = (case ap_getIdByConnId (ds_game_mgr (nt_app n)) cid of None \<Rightarrow> 0 | Some i \<Rightarrow> i)"

section \<open>GlobalData\<close>

definition findDBAccount :: "'p db_state \<Rightarrow> string \<Rightarrow> bool" where
  "findDBAccount s account \<longleftrightarrow> account \<in> ds_db_accounts s"

definition insertDBAccount :: "'p db_state \<Rightarrow> string \<Rightarrow> bool \<times> 'p db_state" where
  "insertDBAccount s account = (if findDBAccount s account then (False, s) else (True, s\<lparr>ds_db_accounts := insert account (ds_db_accounts s)\<rparr>))"

definition gd_clear :: "'p db_state \<Rightarrow> 'p db_state" where
  "gd_clear s = s\<lparr>ds_db_accounts := {}\<rparr>"

definition setAccount2UserId :: "'p db_state \<Rightarrow> string \<Rightarrow> i32 \<Rightarrow> 'p db_state" where
  "setAccount2UserId s account user_id = s\<lparr>ds_userid2accounts := (ds_userid2accounts s)(account \<mapsto> user_id)\<rparr>"

definition getUserIdByAccount :: "'p db_state \<Rightarrow> string \<Rightarrow> i32" where
  "getUserIdByAccount s account = (case ds_userid2accounts s account of None \<Rightarrow> 0 | Some u \<Rightarrow> u)"

definition deleteUserIdByAccount :: "'p db_state \<Rightarrow> string \<Rightarrow> bool \<times> 'p db_state" where
  "deleteUserIdByAccount s account =
     (if ds_userid2accounts s account = None then (False, s) else (True, s\<lparr>ds_userid2accounts := (ds_userid2accounts s)(account := None)\<rparr>))"

definition gd_init :: "'p db \<Rightarrow> (bool \<times> 'p db) option" where
  "gd_init n = do {
     (ok, m) \<leftarrow> selectRecord_fields_name (ds_db_mgr (nt_app n)) ''t_player'' [''account''] (Some AllAccounts);
     Some (ok, upd_db n (\<lambda>s. s\<lparr>ds_db_mgr := m\<rparr>))
   }"

text \<open>The rows of all accounts: a row is a list of columns, of which the first is read if there is one.\<close>

fun insert_accounts :: "'p db_state \<Rightarrow> nat \<Rightarrow> string list list \<Rightarrow> (int \<times> 'p db_state) option" where
  "insert_accounts s nfields [] = Some (0, s)"
| "insert_accounts s nfields (row # rows) =
     (if nfields < 1 then Some (- 1, s)
      else case row of [] \<Rightarrow> None | a # _ \<Rightarrow> insert_accounts (snd (insertDBAccount s (cstr a))) nfields rows)"

definition getAllAccounts :: "'p db \<Rightarrow> Result \<Rightarrow> (int \<times> 'p db) option" where
  "getAllAccounts n res =
     (if rs_err res \<noteq> 0 then Some (- 1, n)
      else case rs_res res of
        None \<Rightarrow> Some (0, n)
      | Some rows \<Rightarrow> do {
          (r, s) \<leftarrow> insert_accounts (nt_app n) (rs_nfields res) rows;
          Some (r, upd_db n (\<lambda>_. s))
        })"

section \<open>DBResCBFuncs\<close>

text \<open>The buffer of these functions is larger than that of the handlers.\<close>

definition db_serialize :: "u8 list \<Rightarrow> u8 list option" where
  "db_serialize bs = (if length bs \<le> 524288 then Some bs else None)"

definition send_role_response :: "db_codec \<Rightarrow> 'p db \<Rightarrow> int \<Rightarrow> string \<Rightarrow> base_role_data \<Rightarrow> (int \<times> 'p db) option" where
  "send_role_response P n cid account d =
     (case gm_getByConnId n cid of
        None \<Rightarrow> Some (- 1, n)
      | Some agent \<Rightarrow>
          (case db_serialize (dw_GetRoleResponse P account d) of
             None \<Rightarrow> Some (- 1, n)
           | Some bs \<Rightarrow> do {
               (r, n) \<leftarrow> agent_conn_send n agent MSGID_DS2GS_GET_ROLE_RESPONSE bs;
               Some (if r < 0 then - 1 else 0, n)
             }))"

definition sendGetRoleResponse :: "db_codec \<Rightarrow> 'p t_player_ops \<Rightarrow> 'p db \<Rightarrow> 'p \<Rightarrow> int \<Rightarrow> (int \<times> 'p db) option" where
  "sendGetRoleResponse P T n user cid =
     send_role_response P n cid (get_account T user)
       (no_role_data\<lparr>rd_nick_name := get_nick_name T user, rd_sex := get_sex T user, rd_level := get_level T user, rd_role_id := get_role_id T user\<rparr>)"

definition sendGetRoleEmptyResponse :: "db_codec \<Rightarrow> 'p db \<Rightarrow> string \<Rightarrow> int \<Rightarrow> (int \<times> 'p db) option" where
  "sendGetRoleEmptyResponse P n account cid =
     send_role_response P n cid account (no_role_data\<lparr>rd_nick_name := [], rd_sex := 0, rd_level := 0, rd_role_id := 0\<rparr>)"

text \<open>What the lambda and the unused \<open>getPlayerInfo\<close> do once the row is read into the player.\<close>

definition upd_player :: "'p db \<Rightarrow> TableRecord \<Rightarrow> ('p \<Rightarrow> 'p) \<Rightarrow> 'p db" where
  "upd_player n u f = upd_db n (\<lambda>s. s\<lparr>ds_player := (ds_player s)(u := f (ds_player s u))\<rparr>)"

definition player_read :: "db_codec \<Rightarrow> 'p t_player_ops \<Rightarrow> 'p db \<Rightarrow> TableRecord \<Rightarrow> int \<Rightarrow> (int \<times> 'p db) option" where
  "player_read P T n u cid =
     (let role_id = get_role_id T (ds_player (nt_app n) u);
          (ok, m) = (if 0 < role_id then insert_key_record (ds_players (nt_app n)) role_id u else (True, ds_players (nt_app n)));
          n = upd_db n (\<lambda>s. s\<lparr>ds_players := m\<rparr>)
      in if \<not> ok then Some (- 1, n)
         else do {
           (r, n) \<leftarrow> sendGetRoleResponse P T n (ds_player (nt_app n) u) cid;
           Some (if r < 0 then - 1 else 0, n)
         })"

definition getPlayerInfo :: "db_codec \<Rightarrow> 'p t_player_ops \<Rightarrow> 'p db \<Rightarrow> Result \<Rightarrow> string \<Rightarrow> int \<Rightarrow> (int \<times> 'p db) option" where
  "getPlayerInfo P T n res account cid =
     (case get_by_key2 (ds_players (nt_app n)) account of
        None \<Rightarrow> Some (- 1, n)
      | Some u \<Rightarrow>
          let (r, x) = db_get_result_of_select_t_player_by_account T res (ds_player (nt_app n) u); n = upd_player n u (\<lambda>_. x)
          in if r < 0 then Some (- 1, n) else player_read P T n u cid)"

section \<open>GameHandler\<close>

definition gh_onConnect :: "'p db \<Rightarrow> JmyEventInfo \<Rightarrow> (int \<times> 'p db) option" where
  "gh_onConnect n i = Some (0, n)"

definition gh_onDisconnect :: "'p db \<Rightarrow> JmyEventInfo \<Rightarrow> (int \<times> 'p db) option" where
  "gh_onDisconnect n i = do {
     n \<leftarrow> (if gm_getByConnId n (ei_conn_id i) = None then Some n else do { (_, n) \<leftarrow> gm_removeByConnId n (ei_conn_id i); Some n });
     Some (0, n)
   }"

definition gh_onTick :: "'p db \<Rightarrow> JmyEventInfo \<Rightarrow> (int \<times> 'p db) option" where
  "gh_onTick n i = Some (0, n)"

definition processConnectDBRequest :: "db_codec \<Rightarrow> 'p db \<Rightarrow> JmyMsgInfo \<Rightarrow> (int \<times> 'p db) option" where
  "processConnectDBRequest P n i =
     (if gm_getByConnId n (mi_conn_id i) \<noteq> None then Some (- 1, n)
      else case dp_ConnectDBRequest P (mi_data i) of
        None \<Rightarrow> Some (- 1, n)
      | Some game_id \<Rightarrow>
          let (agent, n) = (case gm_get n game_id of None \<Rightarrow> gm_newAgent n game_id (mi_param i) (mi_conn_id i) | Some a \<Rightarrow> (Some a, n))
          in case agent of
               None \<Rightarrow> Some (- 1, n)
             | Some agent \<Rightarrow>
                 (case serialize (dw_ConnectDBResponse P) of
                    None \<Rightarrow> Some (- 1, n)
                  | Some bs \<Rightarrow> do {
                      (r, n) \<leftarrow> agent_conn_send n agent MSGID_DS2GS_CONNECT_DB_RESPONSE bs;
                      Some (if r < 0 then - 1 else sint (mi_len i), n)
                    }))"

text \<open>
  The lambda of \<open>processGetRole\<close>, run with the result of its query. \<open>set_account\<close> comes before the row is read; a failed read
  asks for the removal of a record that is not in the map of role ids.
\<close>

definition getRole_callback :: "db_codec \<Rightarrow> 'p t_player_ops \<Rightarrow> TableRecord \<Rightarrow> 'p db \<Rightarrow> string \<Rightarrow> int \<Rightarrow> Result \<Rightarrow> (int \<times> 'p db) option" where
  "getRole_callback P T p n account cid res =
     (if (case rs_res res of None \<Rightarrow> False | Some rows \<Rightarrow> rows \<noteq> []) then
        let (u, m) = get_new_by_key2 (ds_players (nt_app n)) account p;
            n = upd_player (upd_db n (\<lambda>s. s\<lparr>ds_players := m\<rparr>)) u (\<lambda>_. set_account T (tp_new T) account);
            (r, x) = db_get_result_of_select_t_player_by_account T res (ds_player (nt_app n) u);
            n = upd_player n u (\<lambda>_. x)
        in if r < 0 then do {
             (_, m) \<leftarrow> remove_record (ds_players (nt_app n)) u;
             Some (- 1, upd_db n (\<lambda>s. s\<lparr>ds_players := m\<rparr>))
           }
           else player_read P T n u cid
      else do {
        (r, n) \<leftarrow> sendGetRoleEmptyResponse P n account cid;
        Some (if r < 0 then - 1 else 0, n)
      })"

definition db_processGetRole :: "db_codec \<Rightarrow> 'p t_player_ops \<Rightarrow> 'p db \<Rightarrow> JmyMsgInfo \<Rightarrow> (int \<times> 'p db) option" where
  "db_processGetRole P T n i =
     (case dp_GetRoleRequest P (mi_data i) of
        None \<Rightarrow> Some (- 1, n)
      | Some account \<Rightarrow>
          (case get_by_key2 (ds_players (nt_app n)) account of
             None \<Rightarrow> do {
               (ok, m) \<leftarrow> db_select_t_player_fields_by_account T (ds_db_mgr (nt_app n)) account (PlayerInfo account (mi_conn_id i));
               Some (if ok then sint (mi_len i) else - 1, upd_db n (\<lambda>s. s\<lparr>ds_db_mgr := m\<rparr>))
             }
           | Some u \<Rightarrow> do {
               (r, n) \<leftarrow> sendGetRoleResponse P T n (ds_player (nt_app n) u) (mi_conn_id i);
               Some (if r < 0 then - 1 else sint (mi_len i), n)
             }))"

text \<open>A role id: 16 bits of the server's id, 16 bits of the time in seconds, and a counter of 16 bits.\<close>

definition gen_unique_role_id :: "int \<Rightarrow> int \<Rightarrow> u16 \<Rightarrow> u64 \<times> u16" where
  "gen_unique_role_id server_id time counter =
     (let i = and (push_bit 48 (word_of_int server_id :: u64)) 0xffff000000000000;
          i = i + word_of_int (and (push_bit 16 time) 0xffff0000);
          i = i + ucast counter
      in (i, counter + 1))"

definition db_processCreateRole :: "db_codec \<Rightarrow> 'p t_player_ops \<Rightarrow> TableRecord \<Rightarrow> int \<Rightarrow> 'p db \<Rightarrow> JmyMsgInfo \<Rightarrow> (int \<times> 'p db) option" where
  "db_processCreateRole P T p time n i =
     (case msg_connection n i of
        None \<Rightarrow> Some (- 1, n)
      | Some conn \<Rightarrow>
     (case dp_CreateRoleRequest P (mi_data i) of
        None \<Rightarrow> Some (- 1, n)
      | Some q \<Rightarrow>
          if get_by_key2 (ds_players (nt_app n)) (cq_account q) \<noteq> None then Some (0, n)
          else
            let game_id = gm_getIdByConnId n (mi_conn_id i);
                (role_id, c) = gen_unique_role_id game_id time (ds_counter (nt_app n));
                (u, m) = get_new_by_key_and_key2 (ds_players (nt_app n)) role_id (cq_account q) p;
                n = upd_player (upd_db n (\<lambda>s. s\<lparr>ds_counter := c, ds_players := m\<rparr>)) u (\<lambda>_. tp_new T)
            in if get_by_key m role_id = None then Some (- 1, n)
               else
                 let n = upd_player n u (\<lambda>x. set_nick_name T (set_sex T (set_account T (set_role_id T x role_id) (cq_account q)) (cq_sex q)) (cq_nick_name q));
                     n = upd_db n (\<lambda>s. setAccount2UserId s (get_account T (ds_player s u)) (ucast role_id));
                     (ok, m) = r2_commit_insert_request m u;
                     n = upd_db n (\<lambda>s. s\<lparr>ds_players := m\<rparr>)
                 in if \<not> ok then Some (- 1, n)
                    else case serialize (dw_CreateRoleResponse P (cq_account q)
                           (no_role_data\<lparr>rd_nick_name := cq_nick_name q, rd_sex := cq_sex q, rd_race := cq_race q, rd_role_id := role_id\<rparr>)) of
                        None \<Rightarrow> Some (- 1, n)
                      | Some bs \<Rightarrow> do {
                          (r, n) \<leftarrow> conn_send n conn MSGID_DS2GS_CREATE_ROLE_RESPONSE bs;
                          Some (if r < 0 then - 1 else sint (mi_len i), n)
                        }))"

definition db_processSetRoleData :: "db_codec \<Rightarrow> 'p t_player_ops \<Rightarrow> 'p db \<Rightarrow> JmyMsgInfo \<Rightarrow> (int \<times> 'p db) option" where
  "db_processSetRoleData P T n i =
     (case msg_connection n i of
        None \<Rightarrow> Some (- 1, n)
      | Some conn \<Rightarrow>
     (case dp_SetRoleDataRequest P (mi_data i) of
        None \<Rightarrow> Some (- 1, n)
      | Some (role_id, d) \<Rightarrow>
     (case get_by_key (ds_players (nt_app n)) role_id of
        None \<Rightarrow> Some (- 1, n)
      | Some u \<Rightarrow>
          let n = upd_player n u (\<lambda>x. set_level T (set_sex T x (rd_sex d)) (rd_level d));
              (ok, m) = commit_update_request_by_key (ds_players (nt_app n)) role_id;
              n = upd_db n (\<lambda>s. s\<lparr>ds_players := m\<rparr>)
          in case serialize (dw_SetRoleDataResponse P (no_role_data\<lparr>rd_sex := rd_sex d, rd_level := rd_level d\<rparr>)) of
               None \<Rightarrow> Some (- 1, n)
             | Some bs \<Rightarrow> do {
                 (r, n) \<leftarrow> conn_send n conn MSGID_DS2GS_SET_ROLE_DATA_RESPONSE bs;
                 Some (if r < 0 then - 1 else sint (mi_len i), n)
               })))"

text \<open>The key of the protobuf map is signed, and so is the number of an item.\<close>

definition add_db_item :: "item_list \<Rightarrow> u32 \<Rightarrow> u32 \<Rightarrow> item_list" where
  "add_db_item l type_id item_num =
     (case l type_id of
        None \<Rightarrow> l(type_id \<mapsto> \<lparr>di_type_id = type_id, di_num = item_num\<rparr>)
      | Some d \<Rightarrow> l(type_id \<mapsto> d\<lparr>di_num := di_num d + item_num\<rparr>))"

definition processAddItem :: "db_codec \<Rightarrow> 'p t_player_ops \<Rightarrow> 'p db \<Rightarrow> JmyMsgInfo \<Rightarrow> (int \<times> 'p db) option" where
  "processAddItem P T n i =
     (case msg_connection n i of
        None \<Rightarrow> Some (- 1, n)
      | Some conn \<Rightarrow>
     (case dp_AddItemRequest P (mi_data i) of
        None \<Rightarrow> Some (- 1, n)
      | Some (role_id, type_id, item_num) \<Rightarrow>
     (case get_by_key (ds_players (nt_app n)) role_id of
        None \<Rightarrow> Some (- 1, n)
      | Some u \<Rightarrow>
          let n = upd_player n u (\<lambda>x. commit_items_changed T (put_items T x (add_db_item (get_items T x) type_id item_num)));
              (ok, m) = r2_commit_update_request (ds_players (nt_app n)) u;
              n = upd_db n (\<lambda>s. s\<lparr>ds_players := m\<rparr>)
          in case serialize (dw_AddItemResponse P role_id type_id item_num) of
               None \<Rightarrow> Some (- 1, n)
             | Some bs \<Rightarrow> do {
                 (r, n) \<leftarrow> conn_send n conn MSGID_DS2GS_ADD_ITEM_RESPONSE bs;
                 Some (if r < 0 then - 1 else sint (mi_len i), n)
               })))"

definition processRmItem :: "'p db \<Rightarrow> JmyMsgInfo \<Rightarrow> (int \<times> 'p db) option" where
  "processRmItem n i = Some (sint (mi_len i), n)"

text \<open>Requests to remove an item are not dispatched.\<close>

definition db_processDefault :: "db_codec \<Rightarrow> 'p t_player_ops \<Rightarrow> 'p db \<Rightarrow> JmyMsgInfo \<Rightarrow> (int \<times> 'p db) option" where
  "db_processDefault P T n i =
     (if mi_msg_id i = 25100 then db_processSetRoleData P T n i
      else if mi_msg_id i = 25102 then processAddItem P T n i
      else Some (sint (mi_len i), n))"

section \<open>Role ids\<close>

lemma masked_shift: "and (push_bit k t) (push_bit k (mask 16)) = t mod 65536 * 2 ^ k" for t :: int
  unfolding push_bit_and [symmetric] take_bit_eq_mask [symmetric] by (simp add: push_bit_eq_mult take_bit_eq_mod)

lemma masked_time: "and (push_bit 16 t) (0xffff0000 :: int) = t mod 65536 * 2 ^ 16"
  using masked_shift [of 16 t] by (simp add: mask_eq_exp_minus_1 push_bit_eq_mult)

lemma masked_server: "and (push_bit 48 (word_of_int s :: u64)) 0xffff000000000000 = word_of_int (s mod 65536 * 2 ^ 48)"
proof -
  have "and (push_bit 48 s) (0xffff000000000000 :: int) = s mod 65536 * 2 ^ 48"
    using masked_shift [of 48 s] by (simp add: mask_eq_exp_minus_1 push_bit_eq_mult)
  moreover have "and (push_bit 48 (word_of_int s :: u64)) 0xffff000000000000 = word_of_int (and (push_bit 48 s) 0xffff000000000000)"
    by transfer simp
  ultimately show ?thesis by simp
qed

lemma role_id_value:
  "uint (fst (gen_unique_role_id s t c)) = s mod 65536 * 2 ^ 48 + t mod 65536 * 2 ^ 16 + uint c"
proof -
  let ?v = "s mod 65536 * 2 ^ 48 + t mod 65536 * 2 ^ 16 + uint c"
  have "fst (gen_unique_role_id s t c) = word_of_int ?v"
    by (simp add: gen_unique_role_id_def masked_time masked_server Let_def)
  moreover have "0 \<le> ?v" "?v < 2 ^ 64"
    using uint_lt2p [of c] pos_mod_bound [of 65536 s] pos_mod_bound [of 65536 t] by (auto simp: add_nonneg_nonneg)
  then have "uint (word_of_int ?v :: u64) = ?v" unfolding uint_word_of_int by (intro mod_pos_pos_trivial) simp_all
  ultimately show ?thesis by metis
qed

lemma digit_eq:
  fixes x :: int
  assumes "x * k + c = y * k + d" "0 \<le> c" "c < k" "0 \<le> d" "d < k"
  shows "x = y \<and> c = d"
proof -
  have "(x * k + c) div k = x" "(x * k + c) mod k = c" "(y * k + d) div k = y" "(y * k + d) mod k = d" using assms(2-5) by simp_all
  then show ?thesis using assms(1) by metis
qed

lemma digits_eq:
  fixes a b c :: int
  assumes "0 \<le> b" "b < 65536" "0 \<le> c" "c < 65536" "0 \<le> b'" "b' < 65536" "0 \<le> c'" "c' < 65536"
  shows "a * 2 ^ 48 + b * 2 ^ 16 + c = a' * 2 ^ 48 + b' * 2 ^ 16 + c' \<longleftrightarrow> a = a' \<and> b = b' \<and> c = c'"
proof
  assume eq: "a * 2 ^ 48 + b * 2 ^ 16 + c = a' * 2 ^ 48 + b' * 2 ^ 16 + c'"
  have "(a * 2 ^ 32 + b) * 65536 + c = (a' * 2 ^ 32 + b') * 65536 + c'" using eq by simp
  from digit_eq [OF this] have "c = c'" "a * 2 ^ 32 + b = a' * 2 ^ 32 + b'" using assms(3,4,7,8) by simp_all
  with digit_eq [of a "2 ^ 32" b a' b'] show "a = a' \<and> b = b' \<and> c = c'" using assms(1,2,5,6) by simp
qed simp

text \<open>
  When role ids collide. Two role ids are the same exactly when the game servers' ids, the times in seconds and the
  counters agree in their lowest 16 bits. Within a run the counter keeps 65536 roles apart; across restarts, at
  which it starts again, ids repeat when the times are a multiple of 65536 seconds apart, 18 hours and 12 minutes.
\<close>

theorem role_ids_collide_iff:
  "fst (gen_unique_role_id s t c) = fst (gen_unique_role_id s' t' c') \<longleftrightarrow> s mod 65536 = s' mod 65536 \<and> t mod 65536 = t' mod 65536 \<and> c = c'"
  unfolding word_uint_eq_iff role_id_value using uint_lt2p [of c] uint_lt2p [of c']
  by (intro digits_eq) simp_all

section \<open>Players\<close>

text \<open>What is relied on of the generated class: a getter returns what its setter stored, and setters of other fields leave it.\<close>

definition t_player_laws :: "'p t_player_ops \<Rightarrow> bool" where
  "t_player_laws T \<longleftrightarrow>
     (\<forall>x v. get_role_id T (set_role_id T x v) = v \<and> get_account T (set_role_id T x v) = get_account T x \<and> get_nick_name T (set_role_id T x v) = get_nick_name T x \<and>
        get_sex T (set_role_id T x v) = get_sex T x \<and> get_level T (set_role_id T x v) = get_level T x) \<and>
     (\<forall>x v. get_account T (set_account T x v) = v \<and> get_role_id T (set_account T x v) = get_role_id T x \<and> get_nick_name T (set_account T x v) = get_nick_name T x \<and>
        get_sex T (set_account T x v) = get_sex T x \<and> get_level T (set_account T x v) = get_level T x) \<and>
     (\<forall>x v. get_sex T (set_sex T x v) = v \<and> get_role_id T (set_sex T x v) = get_role_id T x \<and> get_account T (set_sex T x v) = get_account T x \<and>
        get_nick_name T (set_sex T x v) = get_nick_name T x \<and> get_level T (set_sex T x v) = get_level T x) \<and>
     (\<forall>x v. get_nick_name T (set_nick_name T x v) = v \<and> get_role_id T (set_nick_name T x v) = get_role_id T x \<and> get_account T (set_nick_name T x v) = get_account T x \<and>
        get_sex T (set_nick_name T x v) = get_sex T x \<and> get_level T (set_nick_name T x v) = get_level T x)"

lemma upd_db_net [simp]:
  "nt_app (upd_db n f) = f (nt_app n)" "mgr_get (upd_db n f) c = mgr_get n c" "sender_ready (upd_db n f) d = sender_ready n d"
  "queued (upd_db n f) d = queued n d" "msg_connection (upd_db n f) i = msg_connection n i"
  by (simp_all add: upd_db_def mgr_get_def sender_ready_def queued_def msg_connection_def get_connection_def conn_of_def buf_of_def)

lemma upd_player_net [simp]:
  "nt_app (upd_player n u f) = (nt_app n)\<lparr>ds_player := (ds_player (nt_app n))(u := f (ds_player (nt_app n) u))\<rparr>"
  "mgr_get (upd_player n u f) c = mgr_get n c" "sender_ready (upd_player n u f) d = sender_ready n d"
  "queued (upd_player n u f) d = queued n d"
  by (simp_all add: upd_player_def)

text \<open>The player a creation stores, and the role data an answer is made of.\<close>

definition created_player :: "'p t_player_ops \<Rightarrow> create_role_request \<Rightarrow> u64 \<Rightarrow> 'p" where
  "created_player T q role_id = set_nick_name T (set_sex T (set_account T (set_role_id T (tp_new T) role_id) (cq_account q)) (cq_sex q)) (cq_nick_name q)"

lemma created_player_sel:
  assumes "t_player_laws T"
  shows "get_account T (created_player T q r) = cq_account q" "get_role_id T (created_player T q r) = r"
    "get_nick_name T (created_player T q r) = cq_nick_name q" "get_sex T (created_player T q r) = cq_sex q" "get_level T (created_player T q r) = get_level T (tp_new T)"
  using assms by (simp_all add: t_player_laws_def created_player_def)

lemma create_role_stored:
  assumes "t_player_laws T" "msg_connection n i = Some c" "sender_ready n c" "dp_CreateRoleRequest P (mi_data i) = Some q"
    and "get_by_key2 (ds_players (nt_app n)) (cq_account q) = None"
    and "gen_unique_role_id (gm_getIdByConnId n (mi_conn_id i)) time (ds_counter (nt_app n)) = (role_id, k)"
    and "get_by_key (ds_players (nt_app n)) role_id = None"
    and "find_2 (r2_key_record_map (ds_players (nt_app n))) p = None" "find_2 (r2_key2_record_map (ds_players (nt_app n))) p = None"
    and "r2_state_mgr (ds_players (nt_app n)) p = None"
    and "resp = dw_CreateRoleResponse P (cq_account q)
      (no_role_data\<lparr>rd_nick_name := cq_nick_name q, rd_sex := cq_sex q, rd_race := cq_race q, rd_role_id := role_id\<rparr>)" "length resp < 65531"
  shows "\<exists>n'. db_processCreateRole P T p time n i = Some (sint (mi_len i), n') \<and>
    (\<exists>s. sent (n\<lparr>nt_app := s\<rparr>) c (packet (Msg 25013 resp)) n' \<and> ds_game_mgr s = ds_game_mgr (nt_app n)) \<and>
    get_by_key (ds_players (nt_app n')) role_id = Some p \<and> get_by_key2 (ds_players (nt_app n')) (cq_account q) = Some p \<and>
    get_state (r2_state_mgr (ds_players (nt_app n'))) p = Some MYSQL_TABLE_RECORD_STATE_INSERT \<and>
    ds_player (nt_app n') p = created_player T q role_id"
proof -
  obtain u m where m: "get_new_by_key_and_key2 (ds_players (nt_app n)) role_id (cq_account q) p = (u, m)" by fastforce
  have u: "u = p" "get_by_key m role_id = Some p" "get_by_key2 m (cq_account q) = Some p" "r2_state_mgr m p = None"
    using m assms(5,7-10) by (auto simp: get_new_by_key_and_key2_def bimap_insert_def map_insert_def get_by_key_def get_by_key2_def find_1_def find_2_def)
  obtain m' where m': "r2_commit_insert_request m p = (True, m')" "get_by_key m' = get_by_key m" "get_by_key2 m' = get_by_key2 m"
      "r2_state_mgr m' p = Some MYSQL_TABLE_RECORD_STATE_INSERT"
    using u(4) by (auto simp: r2_commit_insert_request_def r2_commit_def commit_insert_def get_state_def get_by_key_def [abs_def] get_by_key2_def [abs_def])
  define s where "s = (setAccount2UserId ((nt_app n)\<lparr>ds_counter := k, ds_players := m, ds_player := (ds_player (nt_app n))(p := created_player T q role_id)\<rparr>)
    (cq_account q) (ucast role_id))\<lparr>ds_players := m'\<rparr>"
  have sr: "sender_ready (n\<lparr>nt_app := s\<rparr>) c" using assms(3) upd_db_net(3) [of n "\<lambda>_. s"] by (simp add: upd_db_def)
  from send_sent [OF sr assms(12), of 25013] obtain n' where
    n': "conn_send (n\<lparr>nt_app := s\<rparr>) c 25013 resp = Some (int (length resp), n')" "sent (n\<lparr>nt_app := s\<rparr>) c (packet (Msg 25013 resp)) n'" by auto
  have "db_processCreateRole P T p time n i = Some (sint (mi_len i), n')"
    using assms(2,4-6) m u(1,2) m'(1) n'(1) assms(12) created_player_sel(1) [OF assms(1), of q role_id]
    unfolding assms(11)
    by (simp add: db_processCreateRole_def serialize_def upd_player_def upd_db_def s_def setAccount2UserId_def created_player_def)
  moreover have "nt_app n' = s" "ds_players s = m'" "ds_player s p = created_player T q role_id" "ds_game_mgr s = ds_game_mgr (nt_app n)"
    using sentD(2) [OF n'(2)] by (simp_all add: s_def setAccount2UserId_def)
  ultimately show ?thesis using n'(2) m' u(2,3) by (auto simp: get_state_def)
qed

text \<open>
  C18. A created role is found again. A creation for an account that is not in memory stores the player under its new role id and
  under its account, leaves its insertion pending and answers; from then on a request for the role of the
  account, from whatever game server, is answered from memory with the name, the sex and the role id of the creation. Nothing looks whether
  the account has a row in the database already.
\<close>

theorem created_role_is_answered:
  assumes "t_player_laws T" "msg_connection n i = Some c" "sender_ready n c" "dp_CreateRoleRequest P (mi_data i) = Some q"
    and "get_by_key2 (ds_players (nt_app n)) (cq_account q) = None"
    and "gen_unique_role_id (gm_getIdByConnId n (mi_conn_id i)) time (ds_counter (nt_app n)) = (role_id, k)"
    and "get_by_key (ds_players (nt_app n)) role_id = None"
    and "find_2 (r2_key_record_map (ds_players (nt_app n))) p = None" "find_2 (r2_key2_record_map (ds_players (nt_app n))) p = None"
    and "r2_state_mgr (ds_players (nt_app n)) p = None"
    and "length (dw_CreateRoleResponse P (cq_account q)
      (no_role_data\<lparr>rd_nick_name := cq_nick_name q, rd_sex := cq_sex q, rd_race := cq_race q, rd_role_id := role_id\<rparr>)) < 65531"
    and "dp_GetRoleRequest P (mi_data j) = Some (cq_account q)" "gm_getByConnId n (mi_conn_id j) = Some a" "ag_state a = AGENT_STATE_VERIFIED" "ag_mgr a \<noteq> 0"
    and "mgr_get n (ag_conn_id a) = Some d" "sender_ready n d"
    and "answer = dw_GetRoleResponse P (cq_account q)
      (no_role_data\<lparr>rd_nick_name := cq_nick_name q, rd_sex := cq_sex q, rd_level := get_level T (tp_new T), rd_role_id := role_id\<rparr>)" "length answer < 65531"
  shows "\<exists>n1 n2. db_processCreateRole P T p time n i = Some (sint (mi_len i), n1) \<and>
    get_state (r2_state_mgr (ds_players (nt_app n1))) p = Some MYSQL_TABLE_RECORD_STATE_INSERT \<and>
    db_processGetRole P T n1 j = Some (sint (mi_len j), n2) \<and> queued n2 d = queued n1 d @ cells (packet (Msg 25011 answer))"
proof -
  from create_role_stored [OF assms(1-10) HOL.refl assms(11)] obtain n1 s where
    n1: "db_processCreateRole P T p time n i = Some (sint (mi_len i), n1)" "get_by_key2 (ds_players (nt_app n1)) (cq_account q) = Some p"
      "get_state (r2_state_mgr (ds_players (nt_app n1))) p = Some MYSQL_TABLE_RECORD_STATE_INSERT" "ds_player (nt_app n1) p = created_player T q role_id"
    and sent: "sent (n\<lparr>nt_app := s\<rparr>) c (packet (Msg 25013 (dw_CreateRoleResponse P (cq_account q)
      (no_role_data\<lparr>rd_nick_name := cq_nick_name q, rd_sex := cq_sex q, rd_race := cq_race q, rd_role_id := role_id\<rparr>)))) n1" "ds_game_mgr s = ds_game_mgr (nt_app n)"
    by blast
  have a: "gm_getByConnId n1 (mi_conn_id j) = Some a" using assms(13) sentD(2) [OF sent(1)] sent(2) by (simp add: gm_getByConnId_def)
  have d: "mgr_get n1 (ag_conn_id a) = Some d" "sender_ready n1 d"
    using assms(16,17) sentD(6,7) [OF sent(1)] upd_db_net(2,3) [of n "\<lambda>_. s"] by (simp_all add: upd_db_def)
  from agent_send_sent [OF assms(14,15) d assms(19), of 25011] obtain n2 where
    n2: "agent_conn_send n1 a 25011 answer = Some (0, n2)" "sent n1 d (packet (Msg 25011 answer)) n2" by blast
  have "db_processGetRole P T n1 j = Some (sint (mi_len j), n2)"
    using assms(12,19) n1(2,4) a n2(1) created_player_sel [OF assms(1)] unfolding assms(18)
    by (simp add: db_processGetRole_def sendGetRoleResponse_def send_role_response_def db_serialize_def)
  then show ?thesis using n1(1,3) sentD(1) [OF n2(2)] by auto
qed

text \<open>
  Of two requests for an account that is not in memory, the second is not answered. When the row for it arrives and the account has been read
  in the meantime, the new player cannot be entered under the account, so that entering it under its role id fails: nothing
  is sent, and the player stays allocated without being in the table.
\<close>

theorem late_row_is_not_answered:
  assumes "rs_res res = Some (row # rows)" "get_by_key2 (ds_players (nt_app n)) account = Some u" "find_2 (r2_key2_record_map (ds_players (nt_app n))) p = None"
    and "db_get_result_of_select_t_player_by_account T res (set_account T (tp_new T) account) = (r, x)" "0 \<le> r" "0 < get_role_id T x"
  shows "\<exists>n'. getRole_callback P T p n account cid res = Some (- 1, n') \<and> n'\<lparr>nt_app := nt_app n\<rparr> = n \<and>
    ds_players (nt_app n') = (ds_players (nt_app n))\<lparr>r2_alive := insert p (r2_alive (ds_players (nt_app n)))\<rparr>"
  using assms
  by (simp add: getRole_callback_def get_new_by_key2_def bimap_insert_def get_by_key2_def find_1_def find_2_def Let_def player_read_def
      insert_key_record_def upd_player_def upd_db_def)

text \<open>
  A player that could not be read is kept. When reading the row fails, the removal looks for the record under a role id, where
  it is not, and does nothing: the half-read player stays under its account, and the next request for the account
  is answered with it.
\<close>

theorem unreadable_player_is_kept:
  assumes "rs_res res = Some (row # rows)" "get_by_key2 (ds_players (nt_app n)) account = None"
    and "find_2 (r2_key2_record_map (ds_players (nt_app n))) p = None" "find_2 (r2_key_record_map (ds_players (nt_app n))) p = None"
    and "db_get_result_of_select_t_player_by_account T res (set_account T (tp_new T) account) = (r, x)" "r < 0"
    and "dp_GetRoleRequest P (mi_data j) = Some account"
  shows "\<exists>n'. getRole_callback P T p n account cid res = Some (- 1, n') \<and> get_by_key2 (ds_players (nt_app n')) account = Some p \<and>
    db_processGetRole P T n' j = do {
      (r, n') \<leftarrow> sendGetRoleResponse P T n' x (mi_conn_id j);
      Some (if r < 0 then - 1 else sint (mi_len j), n')
    }"
  using assms
  by (simp add: getRole_callback_def get_new_by_key2_def bimap_insert_def map_insert_def get_by_key2_def find_1_def find_2_def Let_def
      remove_record_def upd_player_def upd_db_def db_processGetRole_def)

section \<open>A database server at work\<close>

text \<open>A player as plain data for the examples; selections fail, and a row has the name and the role id of the player.\<close>

record sample_player =
  sp_role_id :: u64
  sp_account :: string
  sp_nick_name :: string
  sp_sex :: int
  sp_level :: int
  sp_items :: item_list

definition sample_ops :: "sample_player t_player_ops" where
  "sample_ops = \<lparr>tp_new = \<lparr>sp_role_id = 0, sp_account = [], sp_nick_name = [], sp_sex = 0, sp_level = 0, sp_items = Map.empty\<rparr>,
     get_role_id = sp_role_id, set_role_id = (\<lambda>x v. x\<lparr>sp_role_id := v\<rparr>), get_account = sp_account, set_account = (\<lambda>x v. x\<lparr>sp_account := v\<rparr>),
     get_nick_name = sp_nick_name, set_nick_name = (\<lambda>x v. x\<lparr>sp_nick_name := v\<rparr>), get_sex = sp_sex, set_sex = (\<lambda>x v. x\<lparr>sp_sex := v\<rparr>),
     get_level = sp_level, set_level = (\<lambda>x v. x\<lparr>sp_level := v\<rparr>), get_items = sp_items, put_items = (\<lambda>x v. x\<lparr>sp_items := v\<rparr>), commit_items_changed = id,
     db_select_t_player_fields_by_account = (\<lambda>m account cb. Some (False, m)),
     db_get_result_of_select_t_player_by_account = (\<lambda>res x. case rs_res res of Some ([nick] # _) \<Rightarrow> (0, x\<lparr>sp_nick_name := nick, sp_role_id := 77\<rparr>) | _ \<Rightarrow> (- 1, x))\<rparr>"

lemma sample_ops_laws: "t_player_laws sample_ops"
  by (simp add: t_player_laws_def sample_ops_def)

definition sample_db_codec :: db_codec where
  "sample_db_codec = \<lparr>dp_ConnectDBRequest = (\<lambda>_. Some 40001), dp_GetRoleRequest = (\<lambda>_. Some ''joe''),
     dp_CreateRoleRequest = (\<lambda>_. Some \<lparr>cq_account = ''joe'', cq_nick_name = ''J'', cq_sex = 1, cq_race = 2\<rparr>), dp_SetRoleDataRequest = (\<lambda>_. None),
     dp_AddItemRequest = (\<lambda>_. None), dw_ConnectDBResponse = [], dw_GetRoleResponse = (\<lambda>a d. [1, word_of_int (rd_sex d)]), dw_CreateRoleResponse = (\<lambda>a d. [2]),
     dw_SetRoleDataResponse = (\<lambda>d. []), dw_AddItemResponse = (\<lambda>_ _ _. [])\<rparr>"

definition sample_db :: "sample_player db" where
  "sample_db = two_lines \<lparr>ds_game_mgr = snd (ap_newAgent 0 (new_agent_manager_perf GAME_SERVER_MAX_ID GAME_SERVER_MIN_ID) 40001 1 3),
     ds_players = new_records_manager2, ds_player = (\<lambda>_. tp_new sample_ops), ds_db_mgr = new_db_manager, ds_db_accounts = {''joe''},
     ds_userid2accounts = Map.empty, ds_counter = 0\<rparr>"

lemma sample_db_facts:
  "ds_players (nt_app sample_db) = new_records_manager2" "sender_ready sample_db c" "mgr_get sample_db 3 = Some 1" "ds_counter (nt_app sample_db) = 0"
  "gm_getIdByConnId sample_db 3 = 40001" "gm_getByConnId sample_db 3 = Some (verified_agent 0 1 3)"
  "msg_connection sample_db (received_msg u m d 3 1) = Some 1"
  by (simp_all add: sample_db_def two_lines_facts msg_connection_def get_connection_def gm_getIdByConnId_def gm_getByConnId_def ap_getIdByConnId_def
      ap_getAgentByConnId_def ap_getAgent_def ap_outside_def new_agent_manager_perf_def ap_newAgent_def map_insert_def Let_def)

lemma sample_table_empty:
  "get_by_key2 new_records_manager2 a = None" "get_by_key new_records_manager2 k = None"
  "find_2 (r2_key_record_map new_records_manager2) p = None" "find_2 (r2_key2_record_map new_records_manager2) p = None"
  "r2_state_mgr new_records_manager2 p = None"
  by (simp_all add: get_by_key_def get_by_key2_def new_records_manager2_def new_bimap_def find_1_def find_2_def)

theorem created_role_is_answered_witness:
  "\<exists>n1 n2. db_processCreateRole sample_db_codec sample_ops 5 0 sample_db (received_msg 0 25012 [9] 3 1) = Some (1, n1) \<and>
    get_state (r2_state_mgr (ds_players (nt_app n1))) 5 = Some MYSQL_TABLE_RECORD_STATE_INSERT \<and>
    db_processGetRole sample_db_codec sample_ops n1 (received_msg 0 25010 [7] 3 1) = Some (1, n2) \<and>
    queued n2 1 = queued n1 1 @ cells (packet (Msg 25011 [1, 1]))"
proof -
  have P: "dp_CreateRoleRequest sample_db_codec d = Some \<lparr>cq_account = ''joe'', cq_nick_name = ''J'', cq_sex = 1, cq_race = 2\<rparr>" "dp_GetRoleRequest sample_db_codec d = Some ''joe''"
    "dw_CreateRoleResponse sample_db_codec a b = [2]" "dw_GetRoleResponse sample_db_codec a b = [1, word_of_int (rd_sex b)]" for d a b
    by (simp_all add: sample_db_codec_def)
  obtain role_id k where g: "gen_unique_role_id 40001 0 0 = (role_id, k)" by fastforce
  from created_role_is_answered [OF sample_ops_laws sample_db_facts(7) [of 0 25012 "[9]"] sample_db_facts(2) P(1), where time = 0 and role_id = role_id and k = k and p = 5 and
      j = "received_msg 0 25010 [7] 3 1" and a = "verified_agent 0 1 3" and d = 1 and answer = "[1, 1]"] g
  show ?thesis by (simp add: P sample_db_facts sample_table_empty)
qed

definition sample_row :: "string list \<Rightarrow> Result" where
  "sample_row row = \<lparr>rs_res = Some [row], rs_nfields = 1, rs_err = 0\<rparr>"

definition sample_db_loaded :: "sample_player db" where
  "sample_db_loaded = upd_db sample_db (\<lambda>s. s\<lparr>ds_players := snd (get_new_by_key2 new_records_manager2 ''joe'' 5)\<rparr>)"

theorem late_row_is_not_answered_witness:
  "\<exists>n'. getRole_callback sample_db_codec sample_ops 6 sample_db_loaded ''joe'' 3 (sample_row [''J'']) = Some (- 1, n') \<and>
    n'\<lparr>nt_app := nt_app sample_db_loaded\<rparr> = sample_db_loaded \<and>
    ds_players (nt_app n') = (ds_players (nt_app sample_db_loaded))\<lparr>r2_alive := insert 6 (r2_alive (ds_players (nt_app sample_db_loaded)))\<rparr>"
  by (rule late_row_is_not_answered [of _ "[''J'']" "[]" _ _ 5 _ _ 0 "(tp_new sample_ops)\<lparr>sp_account := ''joe'', sp_nick_name := ''J'', sp_role_id := 77\<rparr>"])
    (simp_all add: sample_row_def sample_db_loaded_def get_new_by_key2_def new_records_manager2_def new_bimap_def bimap_insert_def map_insert_def
      get_by_key2_def find_1_def find_2_def sample_ops_def)

theorem unreadable_player_is_kept_witness:
  "\<exists>n'. getRole_callback sample_db_codec sample_ops 6 sample_db ''joe'' 3 (sample_row []) = Some (- 1, n') \<and> get_by_key2 (ds_players (nt_app n')) ''joe'' = Some 6"
proof -
  have "db_get_result_of_select_t_player_by_account sample_ops (sample_row []) (set_account sample_ops (tp_new sample_ops) ''joe'') =
      (- 1, set_account sample_ops (tp_new sample_ops) ''joe'')" "rs_res (sample_row []) = Some ([] # [])"
    "dp_GetRoleRequest sample_db_codec (mi_data (received_msg 0 25010 [7] 3 1)) = Some ''joe''"
    by (simp_all add: sample_ops_def sample_row_def sample_db_codec_def)
  from unreadable_player_is_kept [OF this(2) _ _ _ this(1) _ this(3), of sample_db 6 3] show ?thesis by (auto simp: sample_db_facts sample_table_empty)
qed

end
