(* ===== verification/Schema_Loader.thy ===== *)
theory Schema_Loader
  imports Mysql_Statements
begin

text \<open>
  \<open>MysqlConfigLoader\<close> (\<open>mysql/mysql_config_loader.cpp\<close>), which creates the tables of a description and adds the columns
  they lack, with the default lengths of \<open>mysql/mysql_util.h\<close>. The loader works on one connector: the database, the result of
  the last query, and the static buffer that \<open>get_field_type\<close> returns, are its state.
\<close>

section \<open>Default lengths\<close>

abbreviation (input) MYSQL_FIELD_DEFAULT_LENGTH :: int where "MYSQL_FIELD_DEFAULT_LENGTH \<equiv> 0"

text \<open>The numbers of the enumeration.\<close>

definition field_types :: "MysqlTableFieldType list" where
  "field_types = [MYSQL_FIELD_TYPE_NONE, MYSQL_FIELD_TYPE_TINYINT, MYSQL_FIELD_TYPE_SMALLINT, MYSQL_FIELD_TYPE_MEDIUMINT,
     MYSQL_FIELD_TYPE_INT, MYSQL_FIELD_TYPE_BIGINT, MYSQL_FIELD_TYPE_FLOAT, MYSQL_FIELD_TYPE_DOUBLE, MYSQL_FIELD_TYPE_DATE,
     MYSQL_FIELD_TYPE_DATETIME, MYSQL_FIELD_TYPE_TIMESTAMP, MYSQL_FIELD_TYPE_TIME, MYSQL_FIELD_TYPE_YEAR, MYSQL_FIELD_TYPE_CHAR,
     MYSQL_FIELD_TYPE_BINARY, MYSQL_FIELD_TYPE_VARBINARY, MYSQL_FIELD_TYPE_VARCHAR, MYSQL_FIELD_TYPE_TINYBLOB, MYSQL_FIELD_TYPE_TINYTEXT,
     MYSQL_FIELD_TYPE_BLOB, MYSQL_FIELD_TYPE_TEXT, MYSQL_FIELD_TYPE_MEDIUMBLOB, MYSQL_FIELD_TYPE_MEDIUMTEXT, MYSQL_FIELD_TYPE_LONGBLOB,
     MYSQL_FIELD_TYPE_LONGTEXT, MYSQL_FIELD_TYPE_ENUM, MYSQL_FIELD_TYPE_SET]"

fun index_of :: "'a \<Rightarrow> 'a list \<Rightarrow> nat" where
  "index_of x [] = 0"
| "index_of x (y # ys) = (if x = y then 0 else index_of x ys + 1)"

definition field_type_num :: "MysqlTableFieldType \<Rightarrow> nat" where
  "field_type_num ft = index_of ft field_types"

text \<open>The enumerators \<open>MYSQL_FIELD_DEFAULT_LENGTH_...\<close>; the types without one are given 0.\<close>

fun default_length :: "MysqlTableFieldType \<Rightarrow> int" where
  "default_length MYSQL_FIELD_TYPE_TINYINT = 4"
| "default_length MYSQL_FIELD_TYPE_SMALLINT = 6"
| "default_length MYSQL_FIELD_TYPE_MEDIUMINT = 8"
| "default_length MYSQL_FIELD_TYPE_INT = 11"
| "default_length MYSQL_FIELD_TYPE_BIGINT = 20"
| "default_length MYSQL_FIELD_TYPE_FLOAT = 11"
| "default_length MYSQL_FIELD_TYPE_DOUBLE = 20"
| "default_length MYSQL_FIELD_TYPE_DATE = 10"
| "default_length MYSQL_FIELD_TYPE_DATETIME = 19"
| "default_length MYSQL_FIELD_TYPE_TIMESTAMP = 6"
| "default_length MYSQL_FIELD_TYPE_TIME = 8"
| "default_length MYSQL_FIELD_TYPE_YEAR = 4"
| "default_length MYSQL_FIELD_TYPE_CHAR = 255"
| "default_length MYSQL_FIELD_TYPE_VARCHAR = 65530"
| "default_length MYSQL_FIELD_TYPE_BINARY = 8000"
| "default_length MYSQL_FIELD_TYPE_VARBINARY = 8000"
| "default_length MYSQL_FIELD_TYPE_TINYBLOB = 255"
| "default_length MYSQL_FIELD_TYPE_TINYTEXT = 255"
| "default_length MYSQL_FIELD_TYPE_BLOB = 65535"
| "default_length MYSQL_FIELD_TYPE_TEXT = 65535"
| "default_length MYSQL_FIELD_TYPE_MEDIUMBLOB = 16777215"
| "default_length MYSQL_FIELD_TYPE_MEDIUMTEXT = 16777215"
| "default_length MYSQL_FIELD_TYPE_LONGBLOB = 4294967295"
| "default_length MYSQL_FIELD_TYPE_LONGTEXT = 4294967295"
| "default_length _ = 0"

text \<open>The array, in the order it is written in, which is not the order of the enumeration.\<close>

definition mysql_field_default_length :: "MysqlTableFieldType \<Rightarrow> int" where
  "mysql_field_default_length ft =
     (let a = map default_length [MYSQL_FIELD_TYPE_NONE, MYSQL_FIELD_TYPE_TINYINT, MYSQL_FIELD_TYPE_SMALLINT, MYSQL_FIELD_TYPE_MEDIUMINT,
          MYSQL_FIELD_TYPE_INT, MYSQL_FIELD_TYPE_BIGINT, MYSQL_FIELD_TYPE_FLOAT, MYSQL_FIELD_TYPE_DOUBLE, MYSQL_FIELD_TYPE_DATE,
          MYSQL_FIELD_TYPE_DATETIME, MYSQL_FIELD_TYPE_TIMESTAMP, MYSQL_FIELD_TYPE_TIME, MYSQL_FIELD_TYPE_YEAR, MYSQL_FIELD_TYPE_CHAR,
          MYSQL_FIELD_TYPE_VARCHAR, MYSQL_FIELD_TYPE_BINARY, MYSQL_FIELD_TYPE_VARBINARY, MYSQL_FIELD_TYPE_TINYBLOB, MYSQL_FIELD_TYPE_TINYTEXT,
          MYSQL_FIELD_TYPE_BLOB, MYSQL_FIELD_TYPE_TEXT, MYSQL_FIELD_TYPE_MEDIUMBLOB, MYSQL_FIELD_TYPE_MEDIUMTEXT, MYSQL_FIELD_TYPE_LONGBLOB,
          MYSQL_FIELD_TYPE_LONGTEXT]
      in if field_type_num ft \<ge> length a then - 1 else a ! field_type_num ft)"

section \<open>Texts of a column\<close>

text \<open>\<open>%d\<close> of a number that is passed with 32 bits.\<close>

definition printed_int :: "int \<Rightarrow> string" where
  "printed_int l = decimal_int (sint (word_of_int l :: i32))"

fun sized_type :: "MysqlTableFieldType \<Rightarrow> string option" where
  "sized_type MYSQL_FIELD_TYPE_TINYINT = Some ''TINYINT''"
| "sized_type MYSQL_FIELD_TYPE_SMALLINT = Some ''SMALLINT''"
| "sized_type MYSQL_FIELD_TYPE_MEDIUMINT = Some ''MEDIUMINT''"
| "sized_type MYSQL_FIELD_TYPE_INT = Some ''INT''"
| "sized_type MYSQL_FIELD_TYPE_BIGINT = Some ''BIGINT''"
| "sized_type MYSQL_FIELD_TYPE_FLOAT = Some ''FLOAT''"
| "sized_type MYSQL_FIELD_TYPE_DOUBLE = Some ''DOUBLE''"
| "sized_type MYSQL_FIELD_TYPE_YEAR = Some ''YEAR''"
| "sized_type MYSQL_FIELD_TYPE_CHAR = Some ''CHAR''"
| "sized_type MYSQL_FIELD_TYPE_VARCHAR = Some ''VARCHAR''"
| "sized_type MYSQL_FIELD_TYPE_BINARY = Some ''BINARY''"
| "sized_type MYSQL_FIELD_TYPE_VARBINARY = Some ''VARBINARY''"
| "sized_type MYSQL_FIELD_TYPE_TINYBLOB = Some ''TINYBLOB''"
| "sized_type MYSQL_FIELD_TYPE_TINYTEXT = Some ''TINYTEXT''"
| "sized_type MYSQL_FIELD_TYPE_MEDIUMBLOB = Some ''MEDIUMBLOB''"
| "sized_type MYSQL_FIELD_TYPE_MEDIUMTEXT = Some ''MEDIUMTEXT''"
| "sized_type MYSQL_FIELD_TYPE_BLOB = Some ''BLOB''"
| "sized_type MYSQL_FIELD_TYPE_TEXT = Some ''TEXT''"
| "sized_type MYSQL_FIELD_TYPE_LONGBLOB = Some ''LONGBLOB''"
| "sized_type MYSQL_FIELD_TYPE_LONGTEXT = Some ''LONGTEXT''"
| "sized_type _ = None"

text \<open>The text of a type and the static buffer after the call. A type without a case returns what the buffer had.\<close>

definition get_field_type :: "string \<Rightarrow> MysqlTableFieldInfo \<Rightarrow> string \<times> string" where
  "get_field_type buf f =
     (let l = fi_type_length f; sized = (\<lambda>n k. let t = snprintf 64 (n @ ''('' @ printed_int k @ '')'') in (t, t))
      in case fi_field_type f of
           MYSQL_FIELD_TYPE_DATE \<Rightarrow> (''DATE'', buf)
         | MYSQL_FIELD_TYPE_DATETIME \<Rightarrow> (''DATETIME'', buf)
         | MYSQL_FIELD_TYPE_TIMESTAMP \<Rightarrow> if l = MYSQL_FIELD_DEFAULT_LENGTH then (''TIMESTAMP'', buf) else sized ''TIMESTAMP'' l
         | ft \<Rightarrow>
             (case sized_type ft of
                None \<Rightarrow> (buf, buf)
              | Some n \<Rightarrow> sized n (if l = MYSQL_FIELD_DEFAULT_LENGTH then default_length ft else l)))"

definition create_flags_info :: "(i32 \<times> string) list" where
  "create_flags_info = [(1, ''ZEROFILL''), (2, ''UNSIGNED''), (4, ''AUTO_INCREMENT''), (8, ''NULL''), (16, ''NOT NULL''), (32, ''DEFAULT'')]"

definition is_int_type :: "MysqlTableFieldType \<Rightarrow> bool" where
  "is_int_type t \<longleftrightarrow> is_int32_type t \<or> t = MYSQL_FIELD_TYPE_BIGINT"

text \<open>
  One turn of the loop over the flags: the number of the buffer written last, the two buffers, and the text that \<open>pbuf\<close> points to,
  a buffer or the empty literal. With \<open>DEFAULT\<close> for a type that has none, the next buffer is not written and is used as it is.
\<close>

definition flag_step :: "MysqlTableFieldInfo \<Rightarrow> i32 \<times> string \<Rightarrow> int \<times> string list \<times> nat option \<Rightarrow> int \<times> string list \<times> nat option" where
  "flag_step f = (\<lambda>(flag, flag_str) (bi, bufs, pbuf).
     if and (fi_create_flags f) flag = 0 then (bi, bufs, pbuf)
     else
       let bi = (if bi + 1 \<ge> 2 then 0 else bi + 1); k = nat bi;
           before = (case pbuf of None \<Rightarrow> [] | Some j \<Rightarrow> bufs ! j);
           put = (\<lambda>s. bufs[k := snprintf 128 s]);
           bufs = (if flag = 32 then
                     if is_int_type (fi_field_type f) then put (before @ '' '' @ flag_str @ '' 0'')
                     else if is_text_type (fi_field_type f) \<or> is_binary_type (fi_field_type f) \<or> is_blob_type (fi_field_type f)
                     then put (before @ '' '' @ flag_str @ '' '' @ [CHR 0x27, CHR 0x27])
                     else if fi_field_type f = MYSQL_FIELD_TYPE_TIMESTAMP then put (before @ '' '' @ flag_str @ '' CURRENT_TIMESTAMP'')
                     else bufs
                   else put (before @ '' '' @ flag_str))
       in (bi, bufs, Some k))"

text \<open>Without any flag the function returns the buffer with number \<open>-1\<close>.\<close>

definition get_field_create_flags :: "MysqlTableFieldInfo \<Rightarrow> string option" where
  "get_field_create_flags f =
     (let (bi, bufs, pbuf) = fold (flag_step f) create_flags_info (- 1, [[], []], None)
      in if bi < 0 then None else Some (bufs ! nat bi))"

definition get_field_index_type :: "MysqlTableFieldInfo \<Rightarrow> string option" where
  "get_field_index_type f = (if fi_index_type f = 1 then Some ''index'' else if fi_index_type f = 2 then Some ''unique'' else None)"

section \<open>The loader\<close>

record 'd MysqlConfigLoader =
  cl_db :: 'd
  cl_res :: Result
  cl_type_buf :: string

definition cl_real_query :: "'d mysql_api \<Rightarrow> 'd MysqlConfigLoader \<Rightarrow> string \<Rightarrow> bool \<times> 'd MysqlConfigLoader" where
  "cl_real_query A c sql = (let (ok, d, r) = real_query A (cl_db c) (cl_res c) sql in (ok, c\<lparr>cl_db := d, cl_res := r\<rparr>))"

definition cl_real_read_query :: "'d mysql_api \<Rightarrow> 'd MysqlConfigLoader \<Rightarrow> string \<Rightarrow> bool \<times> 'd MysqlConfigLoader" where
  "cl_real_read_query A c sql = (let (ok, d, r) = real_read_query A (cl_db c) (cl_res c) sql in (ok, c\<lparr>cl_db := d, cl_res := r\<rparr>))"

abbreviation (input) LOADER_BUF_LEN :: nat where "LOADER_BUF_LEN \<equiv> 8192"

definition tick_quoted :: "string \<Rightarrow> string" where
  "tick_quoted s = CHR 0x60 # s @ [CHR 0x60]"

text \<open>The texts of the type and of the flags, the first remembered in its static buffer.\<close>

definition column_texts :: "'d MysqlConfigLoader \<Rightarrow> MysqlTableFieldInfo \<Rightarrow> ((string \<times> string) \<times> 'd MysqlConfigLoader) option" where
  "column_texts c f = do {
     let (t, buf) = get_field_type (cl_type_buf c) f;
     flags \<leftarrow> get_field_create_flags f;
     Some ((t, flags), c\<lparr>cl_type_buf := buf\<rparr>)
   }"

definition is_indexed_by_length :: "MysqlTableFieldType \<Rightarrow> bool" where
  "is_indexed_by_length t \<longleftrightarrow> is_text_type t \<or> is_binary_type t \<or> is_blob_type t"

text \<open>The statement for the index of a column, or \<open>None\<close> where \<open>add_field\<close> returns false.\<close>

definition index_sql :: "string \<Rightarrow> MysqlTableFieldInfo \<Rightarrow> string \<Rightarrow> string option" where
  "index_sql table_name f index_type =
     (let l = (if fi_type_length f = MYSQL_FIELD_DEFAULT_LENGTH then sint (word_of_int (mysql_field_default_length (fi_field_type f)) :: i32) else fi_type_length f);
          column = tick_quoted (fi_name f) @ (if is_indexed_by_length (fi_field_type f) then ''('' @ printed_int l @ '')'' else [])
      in if l < 0 then None
         else if index_type = ''index''
         then Some (''ALTER TABLE '' @ tick_quoted table_name @ '' ADD INDEX '' @ fi_name f @ ''_index ('' @ column @ '')'')
         else Some (''ALTER TABLE '' @ tick_quoted table_name @ '' ADD UNIQUE ('' @ column @ '')''))"

definition describe_sql :: "string \<Rightarrow> MysqlTableFieldInfo \<Rightarrow> string" where
  "describe_sql table_name f = snprintf LOADER_BUF_LEN (''DESCRIBE '' @ table_name @ '' '' @ fi_name f)"

definition add_column_sql :: "string \<Rightarrow> MysqlTableFieldInfo \<Rightarrow> string \<times> string \<Rightarrow> string" where
  "add_column_sql table_name f texts =
     snprintf LOADER_BUF_LEN (''ALTER TABLE '' @ tick_quoted table_name @ '' ADD COLUMN '' @ tick_quoted (fi_name f) @ '' '' @ fst texts @ '' '' @ snd texts)"

definition add_field :: "'d mysql_api \<Rightarrow> 'd MysqlConfigLoader \<Rightarrow> string \<Rightarrow> MysqlTableFieldInfo \<Rightarrow> (bool \<times> 'd MysqlConfigLoader) option" where
  "add_field A c table_name f =
     (let (ok, c) = cl_real_read_query A c (describe_sql table_name f)
      in if \<not> ok then Some (False, c)
         else case rs_res (cl_res c) of
           Some (_ # _) \<Rightarrow> Some (True, c)
         | _ \<Rightarrow> do {
             (texts, c) \<leftarrow> column_texts c f;
             let (ok, c) = cl_real_query A c (add_column_sql table_name f texts);
             if \<not> ok then Some (False, c)
             else case get_field_index_type f of
               None \<Rightarrow> Some (True, c)
             | Some t \<Rightarrow>
                 (case index_sql table_name f t of
                    None \<Rightarrow> Some (False, c)
                  | Some sql \<Rightarrow> Some (cl_real_query A c (snprintf LOADER_BUF_LEN sql)))
           })"

definition remove_field :: "'d mysql_api \<Rightarrow> 'd MysqlConfigLoader \<Rightarrow> string \<Rightarrow> string \<Rightarrow> bool \<times> 'd MysqlConfigLoader" where
  "remove_field A c table_name field_name =
     cl_real_query A c (snprintf LOADER_BUF_LEN (''ALTER TABLE '' @ tick_quoted table_name @ '' DROP COLUMN '' @ tick_quoted field_name))"

definition rename_field :: "'d mysql_api \<Rightarrow> 'd MysqlConfigLoader \<Rightarrow> string \<Rightarrow> string \<Rightarrow> string \<Rightarrow> bool \<times> 'd MysqlConfigLoader" where
  "rename_field A c table_name old_field_name new_field_name =
     cl_real_query A c (snprintf LOADER_BUF_LEN (''ALTER TABLE '' @ tick_quoted table_name @ '' CHANGE '' @ tick_quoted old_field_name @ '' '' @ tick_quoted new_field_name))"

definition modify_field_attr :: "'d mysql_api \<Rightarrow> 'd MysqlConfigLoader \<Rightarrow> string \<Rightarrow> MysqlTableFieldInfo \<Rightarrow> (bool \<times> 'd MysqlConfigLoader) option" where
  "modify_field_attr A c table_name f = do {
     ((t, flags), c) \<leftarrow> column_texts c f;
     Some (cl_real_query A c (snprintf LOADER_BUF_LEN (''ALTER TABLE '' @ tick_quoted table_name @ '' MODIFY '' @ tick_quoted (fi_name f) @ '' '' @ t @ '' '' @ flags)))
   }"

definition dropTable :: "'d mysql_api \<Rightarrow> 'd MysqlConfigLoader \<Rightarrow> string \<Rightarrow> bool \<times> 'd MysqlConfigLoader" where
  "dropTable A c table_name = cl_real_query A c (snprintf LOADER_BUF_LEN (''DROP TABLE '' @ table_name))"

definition create_table_sql :: "MysqlTableInfo \<Rightarrow> string \<times> string \<Rightarrow> string" where
  "create_table_sql ti texts =
     snprintf LOADER_BUF_LEN (''CREATE TABLE IF NOT EXISTS '' @ tick_quoted (ti_name ti) @ '' ('' @ tick_quoted (ti_primary_key ti) @ '' '' @ fst texts @ '' '' @ snd texts @
       '', primary key('' @ tick_quoted (ti_primary_key ti) @ '')) ENGINE='' @ (if ti_engine_type ti = MYSQL_ENGINE_MYISAM then ''MyISAM'' else ''InnoDB''))"

fun add_fields :: "'d mysql_api \<Rightarrow> 'd MysqlConfigLoader \<Rightarrow> string \<Rightarrow> MysqlTableFieldInfo list \<Rightarrow> (bool \<times> 'd MysqlConfigLoader) option" where
  "add_fields A c table_name [] = Some (True, c)"
| "add_fields A c table_name (f # fs) = do {
     (ok, c) \<leftarrow> add_field A c table_name f;
     if \<not> ok then Some (False, c) else add_fields A c table_name fs
   }"

text \<open>The fields other than the primary key, in order.\<close>

definition other_fields :: "MysqlTableInfo \<Rightarrow> MysqlTableFieldInfo list" where
  "other_fields ti = map snd (filter (\<lambda>(k, f). int k \<noteq> ti_primary_key_index ti) (zip [0..<length (ti_fields_info ti)] (ti_fields_info ti)))"

definition loadTable :: "'d mysql_api \<Rightarrow> 'd MysqlConfigLoader \<Rightarrow> MysqlTableInfo \<Rightarrow> (bool \<times> 'd MysqlConfigLoader) option" where
  "loadTable A c ti =
     (if int (length (ti_fields_info ti)) \<le> ti_primary_key_index ti \<or> ti_primary_key_index ti < 0 then Some (False, c)
      else let p = ti_fields_info ti ! nat (ti_primary_key_index ti)
      in if fi_name p \<noteq> ti_primary_key ti then Some (False, c)
         else do {
           (texts, c) \<leftarrow> column_texts c p;
           let (ok, c) = cl_real_query A c (create_table_sql ti texts);
           if \<not> ok then Some (False, c) else add_fields A c (ti_name ti) (other_fields ti)
         })"

fun load_tables :: "'d mysql_api \<Rightarrow> 'd MysqlConfigLoader \<Rightarrow> MysqlTableInfo list \<Rightarrow> (bool \<times> 'd MysqlConfigLoader) option" where
  "load_tables A c [] = Some (True, c)"
| "load_tables A c (ti # tis) = do {
     (ok, c) \<leftarrow> loadTable A c ti;
     if \<not> ok then Some (False, c) else load_tables A c tis
   }"

definition load_config :: "'d mysql_api \<Rightarrow> 'd MysqlConfigLoader \<Rightarrow> MysqlDatabaseConfig \<Rightarrow> (bool \<times> 'd MysqlConfigLoader) option" where
  "load_config A c config =
     (let (ok, c) = cl_real_query A c (snprintf 16384 (''CREATE DATABASE IF NOT EXISTS '' @ dc_dbname config))
      in if \<not> ok then Some (False, c) else load_tables A c (dc_tables_info config))"

section \<open>Columns it cannot describe\<close>

text \<open>A column without any of the flags makes the function return a buffer that does not exist.\<close>

lemma flag_step_number:
  "fst (flag_step f x s) = (if and (fi_create_flags f) (fst x) = 0 then fst s else if fst s + 1 \<ge> 2 then 0 else fst s + 1)"
  by (cases x; cases s) (simp add: flag_step_def Let_def)

lemma create_flags_undefined_iff:
  "get_field_create_flags f = None \<longleftrightarrow> list_all (\<lambda>x. and (fi_create_flags f) (fst x) = 0) create_flags_info"
proof -
  have "fst s \<ge> - 1 \<Longrightarrow> fst (fold (flag_step f) xs s) \<ge> - 1 \<and>
      (fst (fold (flag_step f) xs s) < 0 \<longleftrightarrow> fst s < 0 \<and> list_all (\<lambda>x. and (fi_create_flags f) (fst x) = 0) xs)" for xs s
    by (induction xs arbitrary: s) (auto simp: flag_step_number)
  from this [of "(- 1, [[], []], None)" create_flags_info] show ?thesis by (auto simp: get_field_create_flags_def split: prod.split)
qed

text \<open>The default length of an index is that of the type, except for \<open>BINARY\<close> and \<open>VARCHAR\<close>, which get the one of the other order.\<close>

lemma default_length_mixed_up:
  "mysql_field_default_length ft = default_length ft \<longleftrightarrow> ft \<notin> {MYSQL_FIELD_TYPE_BINARY, MYSQL_FIELD_TYPE_VARCHAR, MYSQL_FIELD_TYPE_ENUM, MYSQL_FIELD_TYPE_SET}"
  by (cases ft) (simp_all add: mysql_field_default_length_def field_type_num_def field_types_def)

text \<open>A column of a type without a case gets the type of the column before it.\<close>

lemma time_column_gets_previous_type:
  "fi_field_type f \<in> {MYSQL_FIELD_TYPE_NONE, MYSQL_FIELD_TYPE_TIME, MYSQL_FIELD_TYPE_ENUM, MYSQL_FIELD_TYPE_SET} \<Longrightarrow> get_field_type buf f = (buf, buf)"
  by (auto simp: get_field_type_def Let_def)

section \<open>What loading does to a table\<close>

text \<open>
  What is relied on of the database for one table, with \<open>cols\<close> the columns it has: statements succeed, \<open>DESCRIBE\<close> has a row
  exactly for a column that is there, \<open>ADD COLUMN\<close> adds the column, indexes leave the columns, and \<open>CREATE TABLE IF NOT EXISTS\<close>
  makes a table with the primary key if there is none.
\<close>

definition table_api :: "'d mysql_api \<Rightarrow> ('d \<Rightarrow> string set) \<Rightarrow> MysqlTableInfo \<Rightarrow> bool" where
  "table_api A cols ti \<longleftrightarrow>
     (\<forall>d sql. fst (mysql_real_query A d sql) = 0) \<and>
     (\<forall>d. \<forall>f \<in> set (other_fields ti). cols (snd (mysql_real_query A d (describe_sql (ti_name ti) f))) = cols d) \<and>
     (\<forall>d. \<forall>f \<in> set (other_fields ti). \<exists>k rows. mysql_store_result A (snd (mysql_real_query A d (describe_sql (ti_name ti) f))) = Some (k, rows) \<and>
        (rows \<noteq> [] \<longleftrightarrow> fi_name f \<in> cols d)) \<and>
     (\<forall>d texts. \<forall>f \<in> set (other_fields ti). cols (snd (mysql_real_query A d (add_column_sql (ti_name ti) f texts))) = insert (fi_name f) (cols d)) \<and>
     (\<forall>d t sql. \<forall>f \<in> set (other_fields ti). index_sql (ti_name ti) f t = Some sql \<longrightarrow> cols (snd (mysql_real_query A d (snprintf LOADER_BUF_LEN sql))) = cols d) \<and>
     (\<forall>d texts. cols (snd (mysql_real_query A d (create_table_sql ti texts))) = (if cols d = {} then {ti_primary_key ti} else cols d))"

text \<open>A table description whose columns all have flags, and whose indexes have a length.\<close>

definition table_ok :: "MysqlTableInfo \<Rightarrow> bool" where
  "table_ok ti \<longleftrightarrow> 0 \<le> ti_primary_key_index ti \<and> ti_primary_key_index ti < int (length (ti_fields_info ti)) \<and>
     fi_name (ti_fields_info ti ! nat (ti_primary_key_index ti)) = ti_primary_key ti \<and>
     list_all (\<lambda>f. get_field_create_flags f \<noteq> None) (ti_fields_info ti) \<and>
     list_all (\<lambda>f. case get_field_index_type f of None \<Rightarrow> True | Some t \<Rightarrow> index_sql (ti_name ti) f t \<noteq> None) (ti_fields_info ti)"

lemma other_fields_subset: "set (other_fields ti) \<subseteq> set (ti_fields_info ti)"
  by (auto simp: other_fields_def set_zip)

lemma cl_real_query_ok:
  "(\<And>d sql. fst (mysql_real_query A d sql) = 0) \<Longrightarrow> cl_real_query A c sql = (True, c\<lparr>cl_db := snd (mysql_real_query A (cl_db c) sql)\<rparr>)"
  by (simp add: cl_real_query_def real_query_def split: prod.split) (metis fst_conv)

lemma column_texts_defined:
  assumes "get_field_create_flags f \<noteq> None"
  obtains texts c' where "column_texts c f = Some (texts, c')" "cl_db c' = cl_db c"
  using assms that by (cases "get_field_type (cl_type_buf c) f") (auto simp: column_texts_def)

lemma table_api_add:
  "table_api A cols ti \<Longrightarrow> f \<in> set (other_fields ti) \<Longrightarrow>
    cols (snd (mysql_real_query A d (add_column_sql (ti_name ti) f texts))) = insert (fi_name f) (cols d)"
  by (cases texts) (simp add: table_api_def)

lemma table_api_index:
  "table_api A cols ti \<Longrightarrow> f \<in> set (other_fields ti) \<Longrightarrow> index_sql (ti_name ti) f t = Some sql \<Longrightarrow>
    cols (snd (mysql_real_query A d (snprintf LOADER_BUF_LEN sql))) = cols d"
  unfolding table_api_def by blast

lemma table_api_create:
  "table_api A cols ti \<Longrightarrow> cols (snd (mysql_real_query A d (create_table_sql ti texts))) = (if cols d = {} then {ti_primary_key ti} else cols d)"
  unfolding table_api_def by blast

lemma add_field_adds:
  assumes "table_api A cols ti" "f \<in> set (other_fields ti)" "get_field_create_flags f \<noteq> None"
    and "\<And>t. get_field_index_type f = Some t \<Longrightarrow> index_sql (ti_name ti) f t \<noteq> None"
  shows "\<exists>c'. add_field A c (ti_name ti) f = Some (True, c') \<and> cols (cl_db c') = insert (fi_name f) (cols (cl_db c))"
proof -
  have q: "fst (mysql_real_query A d sql) = 0" for d sql using assms(1) by (simp add: table_api_def)
  let ?d = "snd (mysql_real_query A (cl_db c) (describe_sql (ti_name ti) f))"
  obtain k rows where rows: "mysql_store_result A ?d = Some (k, rows)" "rows \<noteq> [] \<longleftrightarrow> fi_name f \<in> cols (cl_db c)" and cd: "cols ?d = cols (cl_db c)"
    using assms(1,2) unfolding table_api_def by meson
  obtain r where r: "cl_real_read_query A c (describe_sql (ti_name ti) f) = (True, c\<lparr>cl_db := ?d, cl_res := r\<rparr>)" "rs_res r = Some rows"
    using q [of "cl_db c" "describe_sql (ti_name ti) f"] rows(1)
    by (cases "mysql_real_query A (cl_db c) (describe_sql (ti_name ti) f)")
      (auto simp: cl_real_read_query_def real_read_query_def real_query_def store_result_def result_init_res_def)
  show ?thesis
  proof (cases rows)
    case (Cons row rest)
    with r rows(2) cd show ?thesis by (auto simp: add_field_def)
  next
    case Nil
    obtain texts c' where t: "column_texts (c\<lparr>cl_db := ?d, cl_res := r\<rparr>) f = Some (texts, c')" "cl_db c' = ?d"
      using column_texts_defined [OF assms(3), of "c\<lparr>cl_db := ?d, cl_res := r\<rparr>"] by auto
    let ?c = "c'\<lparr>cl_db := snd (mysql_real_query A ?d (add_column_sql (ti_name ti) f texts))\<rparr>"
    have added: "cl_real_query A c' (add_column_sql (ti_name ti) f texts) = (True, ?c)" "cols (cl_db ?c) = insert (fi_name f) (cols (cl_db c))"
      using cl_real_query_ok [OF q] t(2) cd table_api_add [OF assms(1,2)] by simp_all
    show ?thesis
    proof (cases "get_field_index_type f")
      case None
      with Nil r t(1) added show ?thesis by (simp add: add_field_def)
    next
      case (Some x)
      with assms(4) obtain sql where sql: "index_sql (ti_name ti) f x = Some sql" by blast
      then have "cols (snd (mysql_real_query A (cl_db ?c) (snprintf LOADER_BUF_LEN sql))) = cols (cl_db ?c)" by (rule table_api_index [OF assms(1,2)])
      with Nil r t(1) added Some sql cl_real_query_ok [OF q] t(2) show ?thesis by (simp add: add_field_def)
    qed
  qed
qed

lemma add_fields_adds:
  assumes "table_api A cols ti" "set fs \<subseteq> set (other_fields ti)" "list_all (\<lambda>f. get_field_create_flags f \<noteq> None) fs"
    and "list_all (\<lambda>f. case get_field_index_type f of None \<Rightarrow> True | Some t \<Rightarrow> index_sql (ti_name ti) f t \<noteq> None) fs"
  shows "\<exists>c'. add_fields A c (ti_name ti) fs = Some (True, c') \<and> cols (cl_db c') = fi_name ` set fs \<union> cols (cl_db c)"
  using assms(2-)
proof (induction fs arbitrary: c)
  case (Cons f fs)
  have "\<exists>c'. add_field A c (ti_name ti) f = Some (True, c') \<and> cols (cl_db c') = insert (fi_name f) (cols (cl_db c))"
    by (rule add_field_adds [OF assms(1)]) (use Cons.prems in auto)
  then obtain c1 where c1: "add_field A c (ti_name ti) f = Some (True, c1)" "cols (cl_db c1) = insert (fi_name f) (cols (cl_db c))" by blast
  from Cons.IH [of c1] Cons.prems obtain c2 where
    "add_fields A c1 (ti_name ti) fs = Some (True, c2)" "cols (cl_db c2) = fi_name ` set fs \<union> cols (cl_db c1)" by auto
  with c1 show ?case by auto
qed simp


text \<open>A database with one table \<open>t\<close>, of the columns it has and the answer to the last statement.\<close>

definition add_b :: string where
  "add_b = ''ALTER TABLE '' @ tick_quoted ''t'' @ '' ADD COLUMN '' @ tick_quoted ''b'' @ '' ''"

definition create_t :: string where
  "create_t = ''CREATE TABLE IF NOT EXISTS '' @ tick_quoted ''t'' @ '' ''"

definition small_b :: MysqlTableFieldInfo where
  "small_b = \<lparr>fi_name = ''b'', fi_field_type = MYSQL_FIELD_TYPE_VARCHAR, fi_type_length = 32, fi_index_type = 1, fi_create_flags = 48\<rparr>"

definition small_table :: MysqlTableInfo where
  "small_table = \<lparr>ti_name = ''t'', ti_primary_key_index = 0, ti_primary_key = ''a'',
     ti_fields_info = [\<lparr>fi_name = ''a'', fi_field_type = MYSQL_FIELD_TYPE_INT, fi_type_length = 0, fi_index_type = 0, fi_create_flags = 22\<rparr>,
       small_b],
     ti_engine_type = MYSQL_ENGINE_INNODB\<rparr>"

definition small_api :: "(string set \<times> string list list) mysql_api" where
  "small_api = \<lparr>mysql_real_query = (\<lambda>(cols, _) sql. (0,
       if sql = ''DESCRIBE t b'' then (cols, if ''b'' \<in> cols then [[''b'']] else [])
       else if take (length add_b) sql = add_b then (insert ''b'' cols, [])
       else if take (length create_t) sql = create_t then (if cols = {} then {''a''} else cols, [])
       else (cols, []))),
     mysql_store_result = (\<lambda>(cols, rows). Some (1, rows))\<rparr>"

lemma small_table_fields: "other_fields small_table = [small_b]"
  by (simp add: other_fields_def small_table_def)

lemma small_table_ok: "table_ok small_table"
  unfolding table_ok_def create_flags_undefined_iff
  by (simp add: small_table_def small_b_def create_flags_info_def get_field_index_type_def index_sql_def)

lemma small_api_table: "table_api small_api fst small_table"
proof -
  have f: "fi_name small_b = ''b''" "ti_name small_table = ''t''" "ti_primary_key small_table = ''a''" by (simp_all add: small_table_def small_b_def)
  have a: "take (length add_b) (add_column_sql ''t'' small_b texts) = add_b"
    "add_column_sql ''t'' small_b texts \<noteq> ''DESCRIBE t b''" for texts
    by (simp_all add: add_column_sql_def add_b_def tick_quoted_def f snprintf_def)
  have c: "take (length create_t) (create_table_sql small_table texts) = create_t" "take (length add_b) (create_table_sql small_table texts) \<noteq> add_b"
    "create_table_sql small_table texts \<noteq> ''DESCRIBE t b''" for texts
    by (simp_all add: create_table_sql_def create_t_def add_b_def tick_quoted_def f snprintf_def)
  have i: "take (length create_t) (snprintf 8192 sql) \<noteq> create_t" "take (length add_b) (snprintf 8192 sql) \<noteq> add_b" "snprintf 8192 sql \<noteq> ''DESCRIBE t b''"
    if "index_sql ''t'' small_b t = Some sql" for t sql
    using that by (auto simp: index_sql_def snprintf_def create_t_def add_b_def tick_quoted_def f Let_def split: if_splits)
  have d: "describe_sql ''t'' small_b = ''DESCRIBE t b''" by (simp add: describe_sql_def f snprintf_def)
  show ?thesis
    unfolding table_api_def small_table_fields f using a c i d by (auto simp: small_api_def f)
qed


end
