(* ===== verification/Net_Proto1.thy ===== *)
theory Net_Proto1
  imports Net_Proto2
begin

unbundle bit_operations_syntax

text \<open>
  The first wire format, \<open>libjmy/jmy_net_proto.h\<close> and \<open>libjmy/jmy_net_proto.cpp\<close>, with which
  \<open>JmyDataHandler\<close> works: a one byte packet type, for user data followed by the user id (packets of
  type \<open>USER_ID_DATA\<close>), a two byte length that counts the message id, the message id and the payload.
  Packets follow each other in a receive buffer, so that the unpacking function has to tell a packet that is
  complete from one that is not. \<open>USE_CONN_PROTO\<close> is 0, so there are no packets for connecting.
\<close>

abbreviation (input) JMY_PACKET_NONE :: int where "JMY_PACKET_NONE \<equiv> 0"
abbreviation (input) JMY_PACKET_USER_DATA :: int where "JMY_PACKET_USER_DATA \<equiv> 5"
abbreviation (input) JMY_PACKET_ACK :: int where "JMY_PACKET_ACK \<equiv> 6"
abbreviation (input) JMY_PACKET_HEARTBEAT :: int where "JMY_PACKET_HEARTBEAT \<equiv> 7"
abbreviation (input) JMY_PACKET_DISCONNECT :: int where "JMY_PACKET_DISCONNECT \<equiv> 8"
abbreviation (input) JMY_PACKET_DISCONNECT_ACK :: int where "JMY_PACKET_DISCONNECT_ACK \<equiv> 9"
abbreviation (input) JMY_PACKET_USER_ID_DATA :: int where "JMY_PACKET_USER_ID_DATA \<equiv> 10"

datatype JmyUnpackResultType =
    JMY_UNPACK_RESULT_NO_ERROR
  | JMY_UNPACK_RESULT_DATA_NOT_ENOUGH
  | JMY_UNPACK_RESULT_USER_DATA_NOT_ENOUGH
  | JMY_UNPACK_RESULT_MSG_LEN_INVALID

abbreviation (input) JMY_PACKET_LEN_TYPE :: nat where "JMY_PACKET_LEN_TYPE \<equiv> 1"
abbreviation (input) JMY_PACKET_LEN_DISCONNECT :: nat where "JMY_PACKET_LEN_DISCONNECT \<equiv> 1"
abbreviation (input) JMY_PACKET_LEN_DISCONNECT_ACK :: nat where "JMY_PACKET_LEN_DISCONNECT_ACK \<equiv> 1"
abbreviation (input) JMY_PACKET_LEN_USER_DATA_HEAD :: nat where "JMY_PACKET_LEN_USER_DATA_HEAD \<equiv> 5"
abbreviation (input) JMY_PACKET_LEN_USER_ID_DATA_HEAD :: nat where "JMY_PACKET_LEN_USER_ID_DATA_HEAD \<equiv> 9"
abbreviation (input) JMY_PACKET_LEN_ACK :: nat where "JMY_PACKET_LEN_ACK \<equiv> 5"
abbreviation (input) JMY_PACKET_LEN_HEARTBEAT :: nat where "JMY_PACKET_LEN_HEARTBEAT \<equiv> 5"

record JmyPacketUnpackData =
  up_type :: int
  up_param :: int
  up_data :: int
  up_result :: JmyUnpackResultType
  up_msg_info :: JmyMsgInfo

definition new_unpack_data :: JmyPacketUnpackData where
  "new_unpack_data = \<lparr>up_type = JMY_PACKET_NONE, up_param = 0, up_data = 0,
     up_result = JMY_UNPACK_RESULT_NO_ERROR, up_msg_info = empty_msg_info\<rparr>"

section \<open>Packing\<close>

definition jmy_net_proto_pack_type :: "cell list \<Rightarrow> int option" where
  "jmy_net_proto_pack_type buf = map_option sint (peek buf 0)"

definition jmy_net_proto_pack_disconnect :: "cptr \<Rightarrow> u8 \<Rightarrow> (int \<times> cptr) option" where
  "jmy_net_proto_pack_disconnect buf len =
     (case buf of
        None \<Rightarrow> Some (- 1, buf)
      | Some b \<Rightarrow>
          if unat len < JMY_PACKET_LEN_DISCONNECT then Some (- 1, buf)
          else do {
            b \<leftarrow> poke b 0 [word_of_int JMY_PACKET_DISCONNECT];
            Some (int JMY_PACKET_LEN_DISCONNECT, Some b)
          })"

definition jmy_net_proto_pack_disconnect_ack :: "cptr \<Rightarrow> u8 \<Rightarrow> (int \<times> cptr) option" where
  "jmy_net_proto_pack_disconnect_ack buf len =
     (case buf of
        None \<Rightarrow> Some (- 1, buf)
      | Some b \<Rightarrow>
          if unat len < JMY_PACKET_LEN_DISCONNECT_ACK then Some (- 1, buf)
          else do {
            b \<leftarrow> poke b 0 [word_of_int JMY_PACKET_DISCONNECT_ACK];
            Some (int JMY_PACKET_LEN_DISCONNECT_ACK, Some b)
          })"

definition jmy_net_proto_pack_msgid_datalen :: "cptr \<Rightarrow> u8 \<Rightarrow> i32 \<Rightarrow> u16 \<Rightarrow> (int \<times> cptr) option" where
  "jmy_net_proto_pack_msgid_datalen buf len msgid data_len =
     (case buf of
        None \<Rightarrow> Some (- 1, buf)
      | Some b \<Rightarrow>
          if unat len < JMY_PACKET_LEN_USER_DATA_HEAD then Some (- 1, buf)
          else do {
            b \<leftarrow> poke b 0 [word_of_int JMY_PACKET_USER_DATA];
            b \<leftarrow> poke b 1 (PACK_INT16_TO_BUFF (ucast data_len + 2));
            b \<leftarrow> poke b 3 (PACK_INT16_TO_BUFF msgid);
            Some (int JMY_PACKET_LEN_USER_DATA_HEAD, Some b)
          })"

definition jmy_net_proto_pack_userid_msgid_datalen :: "cptr \<Rightarrow> u8 \<Rightarrow> i32 \<Rightarrow> i32 \<Rightarrow> u16 \<Rightarrow> (int \<times> cptr) option" where
  "jmy_net_proto_pack_userid_msgid_datalen buf len user_id msg_id data_len =
     (case buf of
        None \<Rightarrow> Some (- 1, buf)
      | Some b \<Rightarrow>
          if unat len < JMY_PACKET_LEN_USER_ID_DATA_HEAD then Some (- 1, buf)
          else do {
            b \<leftarrow> poke b 0 [word_of_int JMY_PACKET_USER_ID_DATA];
            b \<leftarrow> poke b 1 (PACK_INT32_TO_BUFF user_id);
            b \<leftarrow> poke b (1 + 4) (PACK_INT16_TO_BUFF (ucast data_len + 2));
            b \<leftarrow> poke b (1 + 4 + 2) (PACK_INT16_TO_BUFF msg_id);
            Some (int JMY_PACKET_LEN_USER_ID_DATA_HEAD, Some b)
          })"

definition jmy_net_proto_pack_ack :: "cptr \<Rightarrow> u8 \<Rightarrow> u16 \<Rightarrow> u16 \<Rightarrow> (int \<times> cptr) option" where
  "jmy_net_proto_pack_ack buf len msg_count curr_id =
     (case buf of
        None \<Rightarrow> Some (- 1, buf)
      | Some b \<Rightarrow>
          if unat len < JMY_PACKET_LEN_ACK then Some (- 1, buf)
          else do {
            b \<leftarrow> poke b 0 [word_of_int JMY_PACKET_ACK];
            b \<leftarrow> poke b 1 (PACK_INT16_TO_BUFF (ucast msg_count));
            b \<leftarrow> poke b 3 (PACK_INT16_TO_BUFF (ucast curr_id));
            Some (int JMY_PACKET_LEN_ACK, Some b)
          })"

definition jmy_net_proto_pack_heartbeat :: "u64 \<Rightarrow> cptr \<Rightarrow> u8 \<Rightarrow> (int \<times> cptr) option" where
  "jmy_net_proto_pack_heartbeat now buf len =
     (case buf of
        None \<Rightarrow> Some (- 1, buf)
      | Some b \<Rightarrow>
          if unat len < JMY_PACKET_LEN_HEARTBEAT then Some (- 1, buf)
          else do {
            b \<leftarrow> poke b 0 [word_of_int JMY_PACKET_HEARTBEAT];
            b \<leftarrow> poke b 1 (PACK_INT32_TO_BUFF now);
            Some (int JMY_PACKET_LEN_HEARTBEAT, Some b)
          })"

text \<open>
  The heads of user defined packet types. The macros are given \<open>buf\<close> itself, so that the value is
  written over the type; the macro for 64 bit values names \<open>buf\<close> instead of its parameter.
\<close>

definition PACK_INT64_TO_BUFF :: "u64 \<Rightarrow> u8 list" where
  "PACK_INT64_TO_BUFF x = map (\<lambda>k. ucast (signed_drop_bit k x AND 0xff)) [56, 48, 40, 32, 24, 16, 8, 0]"

definition pack_defined_type_head :: "cptr \<Rightarrow> u16 \<Rightarrow> u8 \<Rightarrow> nat \<Rightarrow> u8 list \<Rightarrow> (int \<times> cptr) option" where
  "pack_defined_type_head buf len defined_pack_type type_len packed =
     (case buf of
        None \<Rightarrow> Some (- 1, buf)
      | Some b \<Rightarrow>
          if unat len < type_len then Some (- 1, buf)
          else do {
            b \<leftarrow> poke b 0 [defined_pack_type];
            b \<leftarrow> poke b 0 packed;
            Some (int type_len, Some b)
          })"

definition jmy_net_proto_pack_defined_type_head_int64 :: "cptr \<Rightarrow> u16 \<Rightarrow> u8 \<Rightarrow> u64 \<Rightarrow> (int \<times> cptr) option" where
  "jmy_net_proto_pack_defined_type_head_int64 buf len t v =
     pack_defined_type_head buf len t (JMY_PACKET_LEN_TYPE + 8) (PACK_INT64_TO_BUFF v)"

definition jmy_net_proto_pack_defined_type_head_int :: "cptr \<Rightarrow> u16 \<Rightarrow> u8 \<Rightarrow> i32 \<Rightarrow> (int \<times> cptr) option" where
  "jmy_net_proto_pack_defined_type_head_int buf len t v =
     pack_defined_type_head buf len t (JMY_PACKET_LEN_TYPE + 4) (PACK_INT32_TO_BUFF v)"

definition jmy_net_proto_pack_defined_type_head_short :: "cptr \<Rightarrow> u16 \<Rightarrow> u8 \<Rightarrow> u16 \<Rightarrow> (int \<times> cptr) option" where
  "jmy_net_proto_pack_defined_type_head_short buf len t v =
     pack_defined_type_head buf len t (JMY_PACKET_LEN_TYPE + 2) (PACK_INT16_TO_BUFF (scast v))"

definition jmy_net_proto_pack_defined_type_head_char :: "cptr \<Rightarrow> u16 \<Rightarrow> u8 \<Rightarrow> u8 \<Rightarrow> (int \<times> cptr) option" where
  "jmy_net_proto_pack_defined_type_head_char buf len t v =
     (case buf of
        None \<Rightarrow> Some (- 1, buf)
      | Some b \<Rightarrow>
          if unat len < JMY_PACKET_LEN_TYPE + 1 then Some (- 1, buf)
          else do {
            b \<leftarrow> poke b 0 [t];
            b \<leftarrow> poke b 1 [v];
            Some (int (JMY_PACKET_LEN_TYPE + 1), Some b)
          })"

section \<open>Unpacking\<close>

text \<open>
  The part for user data, once the type is known: \<open>offset\<close> is where the length begins. \<open>up_data\<close> is the length of
  the whole packet when it is not complete, and the length field when that is invalid.
\<close>

definition unpack_user_head ::
    "cell list \<Rightarrow> u32 \<Rightarrow> nat \<Rightarrow> i32 \<Rightarrow> JmyPacketUnpackData \<Rightarrow> int \<Rightarrow> nat \<Rightarrow> (int \<times> JmyPacketUnpackData) option" where
  "unpack_user_head buf len offset user_id data conn_id param =
     (if sint len - int offset - 2 < 0 then Some (0, data\<lparr>up_result := JMY_UNPACK_RESULT_DATA_NOT_ENOUGH\<rparr>)
      else do {
        l \<leftarrow> UNPACK_INT16_FROM_BUFF buf offset;
        let data_len = (ucast l :: u16);
        if data_len < 2 then Some (- 1, data\<lparr>up_data := uint data_len, up_result := JMY_UNPACK_RESULT_MSG_LEN_INVALID\<rparr>)
        else do {
          let offset = offset + 2;
          if sint (len - of_nat offset) < uint data_len
          then Some (0, data\<lparr>up_data := uint data_len + int offset, up_result := JMY_UNPACK_RESULT_USER_DATA_NOT_ENOUGH\<rparr>)
          else do {
            m \<leftarrow> UNPACK_INT16_FROM_BUFF buf offset;
            let offset = offset + 2;
            let mlen = (word_of_int (uint data_len - 2) :: u32);
            Some (sint (of_nat offset + mlen), data\<lparr>up_param := sint m, up_result := JMY_UNPACK_RESULT_NO_ERROR,
              up_msg_info := \<lparr>mi_user_id = user_id, mi_msg_id = sint m, mi_data = drop offset buf,
                mi_len = mlen, mi_conn_id = conn_id, mi_param = param\<rparr>\<rparr>)
          }
        }
      })"

definition jmy_net_proto_unpack_data_head ::
    "cptr \<Rightarrow> u32 \<Rightarrow> JmyPacketUnpackData \<Rightarrow> int \<Rightarrow> nat \<Rightarrow> (int \<times> JmyPacketUnpackData) option" where
  "jmy_net_proto_unpack_data_head buf len data conn_id param =
     (case buf of
        None \<Rightarrow> Some (0, data)
      | Some b \<Rightarrow>
          if len = 0 then Some (0, data)
          else do {
            t \<leftarrow> peek b 0;
            let data = data\<lparr>up_type := sint t\<rparr>;
            if up_type data = JMY_PACKET_USER_DATA then unpack_user_head b len JMY_PACKET_LEN_TYPE 0 data conn_id param
            else if up_type data = JMY_PACKET_USER_ID_DATA then
              (if len - of_nat JMY_PACKET_LEN_TYPE < 4 then Some (0, data\<lparr>up_result := JMY_UNPACK_RESULT_DATA_NOT_ENOUGH\<rparr>)
               else do {
                 user_id \<leftarrow> UNPACK_INT32_FROM_BUFF b JMY_PACKET_LEN_TYPE;
                 unpack_user_head b len (JMY_PACKET_LEN_TYPE + 4) user_id data conn_id param
               })
            else if up_type data = JMY_PACKET_ACK then
              (if len - 1 \<le> 2 + 2 then Some (0, data\<lparr>up_result := JMY_UNPACK_RESULT_DATA_NOT_ENOUGH\<rparr>)
               else do {
                 c \<leftarrow> UNPACK_INT16_FROM_BUFF b 1;
                 i \<leftarrow> UNPACK_INT16_FROM_BUFF b 3;
                 Some (1 + 2 + 2, data\<lparr>up_data := sint c, up_param := sint i, up_result := JMY_UNPACK_RESULT_NO_ERROR\<rparr>)
               })
            else if up_type data = JMY_PACKET_HEARTBEAT then
              (if len - 1 \<le> 4 then Some (0, data\<lparr>up_result := JMY_UNPACK_RESULT_DATA_NOT_ENOUGH\<rparr>)
               else do {
                 t \<leftarrow> UNPACK_INT32_FROM_BUFF b 1;
                 Some (1 + 4, data\<lparr>up_param := uint t, up_result := JMY_UNPACK_RESULT_NO_ERROR\<rparr>)
               })
            else if up_type data = JMY_PACKET_DISCONNECT then
              (if unat len < JMY_PACKET_LEN_DISCONNECT then Some (0, data\<lparr>up_result := JMY_UNPACK_RESULT_DATA_NOT_ENOUGH\<rparr>)
               else Some (int JMY_PACKET_LEN_DISCONNECT, data\<lparr>up_result := JMY_UNPACK_RESULT_NO_ERROR\<rparr>))
            else if up_type data = JMY_PACKET_DISCONNECT_ACK then
              (if unat len < JMY_PACKET_LEN_DISCONNECT_ACK then Some (0, data\<lparr>up_result := JMY_UNPACK_RESULT_DATA_NOT_ENOUGH\<rparr>)
               else Some (int JMY_PACKET_LEN_DISCONNECT_ACK, data\<lparr>up_result := JMY_UNPACK_RESULT_NO_ERROR\<rparr>))
            else Some (- 1, data)
          })"

section \<open>The packets, as byte strings\<close>

definition user_data_head1 :: "i32 \<Rightarrow> nat \<Rightarrow> u8 list" where
  "user_data_head1 msg_id n = [5] @ be16_bytes (n + 2) @ be16_bytes (unat msg_id)"

definition user_id_data_head1 :: "i32 \<Rightarrow> i32 \<Rightarrow> nat \<Rightarrow> u8 list" where
  "user_id_data_head1 user_id msg_id n =
     [10] @ be16_bytes (unat user_id div 65536) @ be16_bytes (unat user_id) @ be16_bytes (n + 2) @ be16_bytes (unat msg_id)"

definition heartbeat_packet1 :: "u64 \<Rightarrow> u8 list" where
  "heartbeat_packet1 now = [7] @ be16_bytes (unat now div 65536) @ be16_bytes (unat now)"

lemmas packet1_defs = user_data_head1_def user_id_data_head1_def heartbeat_packet1_def

lemma length_heads1 [simp]:
  "length (user_data_head1 m n) = 5" "length (user_id_data_head1 u m n) = 9" "length (heartbeat_packet1 t) = 5"
  by (simp_all add: packet1_defs)

section \<open>Packing writes exactly the packet\<close>

lemma unat_data_len: "unat (ucast n + 2 :: i32) = unat n + 2" for n :: u16
  using unat_head_len [of 2 n] by (simp add: add.commute)

lemma pack_msgid_datalen_ok:
  assumes "length b = 5"
  shows "jmy_net_proto_pack_msgid_datalen (Some b) 5 m n = Some (5, Some (cells (user_data_head1 m (unat n))))"
proof -
  from assms obtain x0 x1 x2 x3 x4 where "b = [x0, x1, x2, x3, x4]"
    by (auto simp: numeral_eq_Suc length_Suc_conv)
  then show ?thesis
    by (simp add: jmy_net_proto_pack_msgid_datalen_def poke_def blit_def PACK_INT16_bytes packet1_defs unat_data_len)
qed

lemma pack_userid_msgid_datalen_ok:
  assumes "length b = 9"
  shows "jmy_net_proto_pack_userid_msgid_datalen (Some b) 9 u m n = Some (9, Some (cells (user_id_data_head1 u m (unat n))))"
proof -
  from assms obtain x0 x1 x2 x3 x4 x5 x6 x7 x8 where "b = [x0, x1, x2, x3, x4, x5, x6, x7, x8]"
    by (auto simp: numeral_eq_Suc length_Suc_conv)
  then show ?thesis
    by (simp add: jmy_net_proto_pack_userid_msgid_datalen_def poke_def blit_def PACK_INT16_bytes PACK_INT32_bytes
        packet1_defs unat_data_len)
qed

lemma pack_heartbeat1_ok:
  assumes "length b = 5"
  shows "jmy_net_proto_pack_heartbeat now (Some b) 5 = Some (5, Some (cells (heartbeat_packet1 now)))"
proof -
  from assms obtain x0 x1 x2 x3 x4 where "b = [x0, x1, x2, x3, x4]"
    by (auto simp: numeral_eq_Suc length_Suc_conv)
  then show ?thesis
    by (simp add: jmy_net_proto_pack_heartbeat_def poke_def blit_def PACK_INT32_bytes packet1_defs)
qed

text \<open>The head of a user defined packet has its value where the type should be; its last byte is not written.\<close>

lemma defined_type_is_overwritten:
  assumes "length b = 5"
  shows "jmy_net_proto_pack_defined_type_head_int (Some b) 5 t v = Some (5, Some (cells (PACK_INT32_TO_BUFF v) @ [b ! 4]))"
proof -
  from assms obtain x0 x1 x2 x3 x4 where "b = [x0, x1, x2, x3, x4]"
    by (auto simp: numeral_eq_Suc length_Suc_conv)
  then show ?thesis
    by (simp add: jmy_net_proto_pack_defined_type_head_int_def pack_defined_type_head_def poke_def blit_def PACK_INT32_bytes be16_bytes_def)
qed

section \<open>Unpacking a packet and a part of one\<close>

lemma sint_len: "unat len < 2 ^ 31 \<Longrightarrow> sint len = int (unat len)" for len :: u32
  using sint_uint [of len] signed_take_bit_int_eq_self [of 31 "uint len"] by (simp add: uint_nat del: of_nat_unat)

lemma sint_len_sub:
  assumes "unat len < 2 ^ 31" "k \<le> unat len"
  shows "sint (len - of_nat k :: u32) = int (unat len) - int k"
proof -
  have "unat (of_nat k :: u32) = k" using assms by (intro unat_of_nat_fits) simp
  then have "unat (len - of_nat k) = unat len - k" using assms(2) by (subst unat_sub) (simp_all add: word_le_nat_alt)
  with assms sint_len [of "len - of_nat k"] show ?thesis by simp
qed

lemma ucast_data_len: "n < 65536 \<Longrightarrow> unat (ucast (of_nat n :: i32) :: u16) = n"
  by (simp add: unsigned_ucast_eq unat_of_nat take_bit_eq_mod)

lemma unpack_user_head_complete:
  assumes "length pre \<le> 5" "length d + 2 < 65536" "length pre + 4 + length d \<le> unat len" "unat len < 2 ^ 31"
  shows "unpack_user_head (pre @ cells (be16_bytes (length d + 2) @ be16_bytes (unat m) @ d) @ rest) len (length pre) u data cid p =
    Some (int (length pre + 4 + length d), data\<lparr>up_param := int (unat m mod 65536), up_result := JMY_UNPACK_RESULT_NO_ERROR,
      up_msg_info := (msg_info_of u m d cid p)\<lparr>mi_data := cells d @ rest\<rparr>\<rparr>)"
proof -
  let ?buf = "pre @ cells (be16_bytes (length d + 2) @ be16_bytes (unat m) @ d) @ rest"
  have l: "UNPACK_INT16_FROM_BUFF ?buf (length pre) = Some (of_nat (length d + 2))"
    using unpack16_at [OF HOL.refl, of pre "length d + 2"] assms(2) by simp
  have m: "UNPACK_INT16_FROM_BUFF ?buf (length pre + 2) = Some (of_nat (unat m mod 65536))"
    using unpack16_at [of "length pre + 2" "pre @ cells (be16_bytes (length d + 2))" "unat m" "cells d @ rest"] by simp
  define w :: u16 where "w = ucast (of_nat (length d + 2) :: i32)"
  have dl: "unat w = length d + 2" unfolding w_def using assms(2) by (rule ucast_data_len)
  have u: "uint w = int (length d + 2)" using dl by (metis uint_nat)
  have ge: "\<not> w < 2" using dl by (simp add: word_less_nat_alt)
  have tot: "sint (of_nat (length pre + 2 + 2) + word_of_int (int (length d + 2) - 2) :: u32) = int (length pre + 4 + length d)"
  proof -
    have "(of_nat (length pre + 2 + 2) + word_of_int (int (length d + 2) - 2) :: u32) = of_nat (length pre + 4 + length d)" by simp
    moreover have "unat (of_nat (length pre + 4 + length d) :: u32) = length pre + 4 + length d"
      using assms by (intro unat_of_nat_fits) simp
    ultimately show ?thesis using sint_len [of "of_nat (length pre + 4 + length d)"] assms by (simp only:)
  qed
  have sm: "sint (of_nat (unat m mod 65536) :: i32) = int (unat m mod 65536)" by (rule sint_small) simp
  have le: "int (length pre) + 4 + int (length d) \<le> uint len" using assms(3) by (simp add: uint_nat del: of_nat_unat)
  show ?thesis
    using assms sint_len [OF assms(4)] sint_len_sub [OF assms(4), of "length pre + 2"] tot le
    unfolding unpack_user_head_def l m Let_def bind.bind_lunit w_def [symmetric] u
    by (simp add: ge sm msg_info_of_def)
qed

text \<open>
  A proper part of a packet. Either the length is missing, or it is there and the length of the whole packet is
  reported.
\<close>

lemma unpack_user_head_part:
  assumes "length pre \<le> 5" "length d + 2 < 65536" "length pre \<le> unat len" "unat len < length pre + 4 + length d"
    and "cs = take (unat len) (pre @ cells (be16_bytes (length d + 2) @ be16_bytes (unat m) @ d))"
  shows "unpack_user_head cs len (length pre) u data cid p =
    Some (0, if unat len < length pre + 2 then data\<lparr>up_result := JMY_UNPACK_RESULT_DATA_NOT_ENOUGH\<rparr>
      else data\<lparr>up_data := int (length pre + 4 + length d), up_result := JMY_UNPACK_RESULT_USER_DATA_NOT_ENOUGH\<rparr>)"
proof (cases "unat len < length pre + 2")
  case True
  moreover have "sint len = int (unat len)" using True assms(1) by (intro sint_len) simp
  ultimately show ?thesis by (simp add: unpack_user_head_def del: of_nat_unat)
next
  case False
  have small: "unat len < 2 ^ 31" using assms(1,2,4) by simp
  obtain rest where cs: "cs = pre @ cells (be16_bytes (length d + 2)) @ rest"
    using assms(3,5) False by (auto simp: take_append)
  have l: "UNPACK_INT16_FROM_BUFF cs (length pre) = Some (of_nat (length d + 2))"
    using unpack16_at [OF HOL.refl, of pre "length d + 2" rest] assms(2) cs by simp
  define w :: u16 where "w = ucast (of_nat (length d + 2) :: i32)"
  have dl: "unat w = length d + 2" unfolding w_def using assms(2) by (rule ucast_data_len)
  have u: "uint w = int (length d + 2)" using dl by (metis uint_nat)
  have ge: "\<not> w < 2" using dl by (simp add: word_less_nat_alt)
  have lt: "uint len < int (length pre) + 4 + int (length d)" "int (length pre) + 2 \<le> uint len"
    using assms(4) False by (simp_all add: uint_nat del: of_nat_unat)
  show ?thesis
    using False sint_len [OF small] sint_len_sub [OF small, of "length pre + 2"] lt
    unfolding unpack_user_head_def l Let_def bind.bind_lunit w_def [symmetric] u
    by (simp add: ge)
qed

lemma sint_nonneg_small:
  fixes len :: u32
  assumes "0 \<le> sint len"
  shows "unat len < 2 ^ 31"
proof (rule ccontr)
  assume "\<not> unat len < 2 ^ 31"
  then have "2147483648 \<le> uint len" "uint len < 4294967296"
    using unsigned_less [of len, where 'a = int] by (simp_all add: uint_nat del: of_nat_unat)
  moreover have "sint len = (uint len + 2147483648) mod 4294967296 - 2147483648"
    by (simp add: sint_uint signed_take_bit_eq_take_bit_shift take_bit_eq_mod)
  moreover have "(uint len + 2147483648) mod 4294967296 = (uint len - 2147483648) mod 4294967296"
    using mod_add_self2 [of "uint len - 2147483648" 4294967296] by (simp add: algebra_simps)
  ultimately show False using assms by simp
qed

text \<open>What the unpacking function returns is never more than it was given.\<close>

lemma unpack_user_head_bound:
  assumes "unpack_user_head buf len offset u data cid p = Some (r, data')" "offset \<le> 5"
  shows "r \<le> int (unat len)"
proof (cases "r \<le> 0")
  case True
  then show ?thesis by (metis of_nat_0_le_iff order_trans)
next
  case False
  from assms(1) False obtain l where first: "\<not> sint len - int offset - 2 < 0" "UNPACK_INT16_FROM_BUFF buf offset = Some l"
    and two: "\<not> (ucast l :: u16) < 2" and three: "\<not> sint (len - of_nat (offset + 2)) < uint (ucast l :: u16)"
    and r: "r = sint (of_nat (offset + 2 + 2) + word_of_int (uint (ucast l :: u16) - 2) :: u32)"
    by (auto simp: unpack_user_head_def Let_def split: if_splits bind_splits)
  define w :: u16 where "w = ucast l"
  have small: "unat len < 2 ^ 31" using first(1) by (intro sint_nonneg_small) linarith
  then have off: "offset + 2 \<le> unat len" using first(1) sint_len [OF small] by (simp del: of_nat_unat)
  have w: "2 \<le> unat w" "unat w < 65536" using two unsigned_less [of w, where 'a = nat] by (simp_all add: w_def word_less_nat_alt)
  have le: "int (unat w) \<le> int (unat len) - int (offset + 2)"
    using three sint_len_sub [OF small off] by (simp add: w_def uint_nat del: of_nat_unat)
  have "(of_nat (offset + 2 + 2) + word_of_int (uint w - 2) :: u32) = of_nat (offset + 2 + unat w)"
  proof -
    have "int (offset + 2 + 2) + (uint w - 2) = int (offset + 2 + unat w)" by (simp add: uint_nat del: of_nat_unat)
    then show ?thesis by (metis of_int_add of_int_of_nat_eq)
  qed
  moreover have "unat (of_nat (offset + 2 + unat w) :: u32) = offset + 2 + unat w"
    using w(2) assms(2) by (intro unat_of_nat_fits) simp
  ultimately have "r = int (offset + 2 + unat w)"
    using r sint_len [of "of_nat (offset + 2 + unat w)"] w(2) assms(2) by (simp add: w_def)
  then show ?thesis using le by simp
qed

lemma unpack_head_bound:
  assumes "jmy_net_proto_unpack_data_head buf len data cid p = Some (r, data')"
  shows "r \<le> int (unat len)"
proof (cases "r \<le> 0")
  case True
  then show ?thesis by (metis of_nat_0_le_iff order_trans)
next
  case False
  have five: "4 < unat len" if "\<not> len - 1 \<le> 4" "len \<noteq> 0"
    using that unat_minus_one [of len] by (simp add: word_le_nat_alt)
  have one: "0 < unat len" if "len \<noteq> 0" using that by (simp add: unat_gt_0)
  show ?thesis
    using assms False one five
    by (auto simp: jmy_net_proto_unpack_data_head_def Let_def simp del: of_nat_unat split: option.splits if_splits bind_splits
        dest!: unpack_user_head_bound)
qed

end
