(* ===== verification/Data_Handler1.thy ===== *)
theory Data_Handler1
  imports Net_Proto1 Message_Delivery
begin

text \<open>
  \<open>JmyDataHandler\<close> of \<open>libjmy/jmy_data_handler.h\<close> and \<open>libjmy/jmy_data_handler.cpp\<close>, the data handler of the first wire
  format. Received bytes are appended to a buffer and \<open>processData\<close> takes the complete packets out of it. The
  buffer belongs to the caller, and is passed and returned; the heap its block lives in, and the connections
  that the handlers reach, are those of the store \<open>net\<close>. The handler object is a value of its own.
\<close>

record JmyDataHandler =
  d1_msg_handler_map :: "int \<Rightarrow> fptr option"
  d1_default_msg_handler :: fptr
  d1_unpack_data :: JmyPacketUnpackData

definition new_data_handler1 :: JmyDataHandler where
  "new_data_handler1 = \<lparr>d1_msg_handler_map = Map.empty, d1_default_msg_handler = nullptr, d1_unpack_data = new_unpack_data\<rparr>"

definition registerMsgHandle1 :: "JmyDataHandler \<Rightarrow> JmyId2MsgHandler \<Rightarrow> (bool \<times> JmyDataHandler) option" where
  "registerMsgHandle1 dh x = do {
     require (JMY_MIN_MESSAGE_ID \<le> ih_msg_id x \<and> ih_msg_id x \<le> JMY_MAX_MESSAGE_ID);
     require (ih_handler x \<noteq> nullptr);
     if d1_msg_handler_map dh (ih_msg_id x) \<noteq> None then Some (False, dh)
     else Some (True, dh\<lparr>d1_msg_handler_map := (d1_msg_handler_map dh)(ih_msg_id x \<mapsto> ih_handler x)\<rparr>)
   }"

definition loadMsgHandle1 :: "JmyDataHandler \<Rightarrow> JmyId2MsgHandler list \<Rightarrow> bool \<times> JmyDataHandler" where
  "loadMsgHandle1 dh xs =
     (if xs = [] then (False, dh)
      else (True, dh\<lparr>d1_msg_handler_map := load_handlers (d1_msg_handler_map dh) xs\<rparr>))"

definition setDefaultMsgHandler1 :: "JmyDataHandler \<Rightarrow> fptr \<Rightarrow> JmyDataHandler" where
  "setDefaultMsgHandler1 dh f = dh\<lparr>d1_default_msg_handler := f\<rparr>"

definition handleMsg1 ::
    "(fptr \<Rightarrow> JmyMsgInfo \<Rightarrow> 'n \<Rightarrow> (int \<times> 'n) option) \<Rightarrow> JmyDataHandler \<Rightarrow> JmyMsgInfo \<Rightarrow> 'n \<Rightarrow> (int \<times> 'n) option" where
  "handleMsg1 call dh i n =
     (case d1_msg_handler_map dh (mi_msg_id i) of
        None \<Rightarrow>
          if d1_default_msg_handler dh \<noteq> nullptr then do {
            (res, n) \<leftarrow> call (d1_default_msg_handler dh) i n;
            if res = 0 then Some (0, n)
            else if res < 0 then Some (- 1, n)
            else Some (sint (mi_len i), n)
          } else Some (0, n)
      | Some f \<Rightarrow> do {
          require (f \<noteq> nullptr);
          (res, n) \<leftarrow> call f i n;
          if res < 0 then Some (- 1, n) else Some (sint (mi_len i), n)
        })"

definition handleHeartbeat1 :: "'a net \<Rightarrow> int \<Rightarrow> (int \<times> 'a net) option" where
  "handleHeartbeat1 n session_id = on_conn_id n session_id handleHeartbeat"

definition handleDisconnect1 :: "'a net \<Rightarrow> int \<Rightarrow> (int \<times> 'a net) option" where
  "handleDisconnect1 n session_id = on_conn_id n session_id handleDisconnect"

definition handleDisconnectAck1 :: "'a env \<Rightarrow> 'a net \<Rightarrow> int \<Rightarrow> (int \<times> 'a net) option" where
  "handleDisconnectAck1 E n session_id = on_conn_id n session_id (handleDisconnectAck E)"

section \<open>Processing received bytes\<close>

text \<open>
  One packet at \<open>offset\<close> of the unread bytes: the number of its bytes, 0 when it is not complete and -1 when it is invalid
  or its handler failed. Nothing is consumed here. An incomplete packet may have the bytes moved to the front
  of the buffer, all that are unread, the packets handled before included.
\<close>

definition moved :: "'a net \<Rightarrow> JmyDataHandler \<Rightarrow> JmySessionBuffer \<Rightarrow> (int \<times> 'a net \<times> JmyDataHandler \<times> JmySessionBuffer) option" where
  "moved n dh b = do {
     (h, b) \<leftarrow> JmySessionBuffer_moveDataToFront (nt_heap n) b;
     Some (0, n\<lparr>nt_heap := h\<rparr>, dh, b)
   }"

definition handleOne1 ::
    "'a env \<Rightarrow> 'a net \<Rightarrow> JmyDataHandler \<Rightarrow> JmySessionBuffer \<Rightarrow> u32 \<Rightarrow> int \<Rightarrow>
     (int \<times> 'a net \<times> JmyDataHandler \<times> JmySessionBuffer) option" where
  "handleOne1 E n dh b offset conn_id = do {
     buff \<leftarrow> JmySessionBuffer_getReadBuff (nt_heap n) b;
     let read_len = JmySessionBuffer_getReadLen b;
     require (unat offset \<le> length buff);
     (r, data) \<leftarrow> jmy_net_proto_unpack_data_head (Some (drop (unat offset) buff)) (read_len - offset) (d1_unpack_data dh) conn_id MGR_PTR;
     let dh = dh\<lparr>d1_unpack_data := data\<rparr>;
     let user = (up_type data = JMY_PACKET_USER_DATA \<or> up_type data = JMY_PACKET_USER_ID_DATA);
     if r < 0 then Some (- 1, n, dh, b)
     else if r = 0 \<and> \<not> user then Some (0, n, dh, b)
     else if user \<and> up_result data = JMY_UNPACK_RESULT_DATA_NOT_ENOUGH then moved n dh b
     else if user \<and> up_result data = JMY_UNPACK_RESULT_USER_DATA_NOT_ENOUGH then
       (if sint (JmySessionBuffer_getWriteLen b + read_len - offset) < up_data data then moved n dh b else Some (0, n, dh, b))
     else do {
       (res, n) \<leftarrow>
         (if user then handleMsg1 (msg_code E) dh (up_msg_info data) n
          else if up_type data = JMY_PACKET_HEARTBEAT then handleHeartbeat1 n conn_id
          else if up_type data = JMY_PACKET_DISCONNECT then handleDisconnect1 n conn_id
          else if up_type data = JMY_PACKET_DISCONNECT_ACK then handleDisconnectAck1 E n conn_id
          else Some (- 1, n));
       if res < 0 then Some (- 1, n, dh, b) else Some (r, n, dh, b)
     }
   }"

lemma getReadBuff_length: "JmySessionBuffer_getReadBuff h b = Some cs \<Longrightarrow> length cs = unat (JmySessionBuffer_getReadLen b)"
  by (auto simp: JmySessionBuffer_getReadBuff_def mem_read_def split: option.splits if_splits)

lemma moved_result: "moved n dh b = Some (r, x) \<Longrightarrow> r = 0"
  by (auto simp: moved_def split: bind_splits)

lemma handleOne1_bound:
  assumes "handleOne1 E n dh b offset cid = Some (r, n', dh', b')" "0 < r"
  shows "b' = b \<and> r \<le> int (unat (JmySessionBuffer_getReadLen b - offset))"
  using assms
  by (auto simp: handleOne1_def Let_def simp del: of_nat_unat split: bind_splits if_splits dest!: moved_result unpack_head_bound)

lemma unread_decreases:
  fixes len k :: u32
  assumes "0 < r" "r \<le> int (unat (len - k))"
  shows "unat (len - (k + word_of_int r)) < unat (len - k)"
proof -
  obtain m where m: "r = int m" using assms(1) by (metis less_imp_le zero_le_imp_eq_int)
  define l where "l = len - k"
  have "unat (of_nat m :: u32) = m" using assms(2) m unsigned_less [of l, where 'a = nat]
    by (intro unat_of_nat_fits) (simp add: l_def del: of_nat_unat)
  then have "unat (l - of_nat m) = unat l - m"
    using assms(2) m by (subst unat_sub) (simp_all add: l_def word_le_nat_alt del: of_nat_unat)
  moreover have "len - (k + word_of_int r) = l - of_nat m" by (simp add: l_def m)
  ultimately show ?thesis using assms m by (simp add: l_def diff_diff_eq del: of_nat_unat)
qed

definition was_user_data :: "JmyDataHandler \<Rightarrow> bool" where
  "was_user_data dh \<longleftrightarrow> up_type (d1_unpack_data dh) = JMY_PACKET_USER_DATA \<or> up_type (d1_unpack_data dh) = JMY_PACKET_USER_ID_DATA"

text \<open>The loop of \<open>processData\<close>; \<open>len\<close> is what was unread at its start.\<close>

function processData1_loop ::
    "'a env \<Rightarrow> 'a net \<Rightarrow> JmyDataHandler \<Rightarrow> JmySessionBuffer \<Rightarrow> int \<Rightarrow> u32 \<Rightarrow> u32 \<Rightarrow> int \<Rightarrow>
     (int \<times> 'a net \<times> JmyDataHandler \<times> JmySessionBuffer) option" where
  "processData1_loop E n dh b conn_id len nhandled cnt =
     (case handleOne1 E n dh b nhandled conn_id of
        None \<Rightarrow> None
      | Some (res, n, dh, b) \<Rightarrow>
          if res < 0 then Some (- 1, n, dh, b)
          else if res = 0 then Some (cnt, n, dh, snd (JmySessionBuffer_readLen b nhandled))
          else
            let nhandled = nhandled + word_of_int res;
                cnt = (if was_user_data dh then cnt + 1 else cnt)
            in if len - nhandled = 0 then Some (cnt, n, dh, snd (JmySessionBuffer_readLen b nhandled))
               else processData1_loop E n dh b conn_id len nhandled cnt)"
  by pat_completeness auto

termination
proof (relation "measure (\<lambda>(E, n, dh, b, cid, len, nhandled, cnt). unat (JmySessionBuffer_getReadLen b - nhandled))", goal_cases)
  case (2 E n dh b cid len nhandled cnt x r y n' z dh' b')
  then have r: "0 < r" "handleOne1 E n dh b nhandled cid = Some (r, n', dh', b')" by auto
  show ?case using unread_decreases [OF r(1)] handleOne1_bound [OF r(2,1)] 2 by simp
qed simp

declare processData1_loop.simps [simp del]

definition processData1 ::
    "'a env \<Rightarrow> 'a net \<Rightarrow> JmyDataHandler \<Rightarrow> JmySessionBuffer \<Rightarrow> int \<Rightarrow> (int \<times> 'a net \<times> JmyDataHandler \<times> JmySessionBuffer) option" where
  "processData1 E n dh b conn_id = processData1_loop E n dh b conn_id (JmySessionBuffer_getReadLen b) 0 0"

text \<open>
  The overload for a double buffer. \<open>buff\<close> is a reference to the buffer that is active at the start, the large one if
  \<open>large\<close>; it stays that buffer when the double buffer switches. Going back to the normal buffer gives the block of the large one away, so
  that a further turn would read through a null pointer.
\<close>

definition db_ref :: "bool \<Rightarrow> JmyDoubleSessionBuffer \<Rightarrow> JmySessionBuffer" where
  "db_ref large d = (if large then db_large_buff d else db_buff d)"

definition db_set_ref :: "bool \<Rightarrow> JmyDoubleSessionBuffer \<Rightarrow> JmySessionBuffer \<Rightarrow> JmyDoubleSessionBuffer" where
  "db_set_ref large d b = (if large then d\<lparr>db_large_buff := b\<rparr> else d\<lparr>db_buff := b\<rparr>)"

definition db_total_len :: "JmyDoubleSessionBuffer \<Rightarrow> int" where
  "db_total_len d = sint (sb_len (db_active d))"

definition switch_for_next ::
    "'a net \<Rightarrow> JmyDataHandler \<Rightarrow> JmyDoubleSessionBuffer \<Rightarrow> (bool \<times> 'a net \<times> JmyDoubleSessionBuffer) option" where
  "switch_for_next n dh d =
     (if \<not> db_use_large d \<and> db_total_len d < up_data (d1_unpack_data dh) then do {
        (ok, h, p, d) \<leftarrow> JmyDoubleSessionBuffer_switchToLarge (nt_heap n, nt_pool n, d);
        Some (ok \<and> \<not> db_total_len d < up_data (d1_unpack_data dh), n\<lparr>nt_heap := h, nt_pool := p\<rparr>, d)
      } else Some (True, n, d))"

definition go_back ::
    "'a net \<Rightarrow> JmyDataHandler \<Rightarrow> JmyDoubleSessionBuffer \<Rightarrow> (bool \<times> bool \<times> 'a net \<times> JmyDoubleSessionBuffer) option" where
  "go_back n dh d =
     (if db_use_large d \<and> up_data (d1_unpack_data dh) \<le> db_total_len d then do {
        (ok, h, p, d) \<leftarrow> JmyDoubleSessionBuffer_backToNormal (nt_heap n, nt_pool n, d);
        Some (True, ok, n\<lparr>nt_heap := h, nt_pool := p\<rparr>, d)
      } else Some (False, True, n, d))"

definition db_ref_readLen :: "bool \<Rightarrow> JmyDoubleSessionBuffer \<Rightarrow> u32 \<Rightarrow> JmyDoubleSessionBuffer" where
  "db_ref_readLen large d k = db_set_ref large d (snd (JmySessionBuffer_readLen (db_ref large d) k))"

lemma db_ref_set [simp]: "db_ref large (db_set_ref large d b) = b"
  by (simp add: db_ref_def db_set_ref_def)

function processData1_double_loop ::
    "'a env \<Rightarrow> 'a net \<Rightarrow> JmyDataHandler \<Rightarrow> bool \<Rightarrow> JmyDoubleSessionBuffer \<Rightarrow> int \<Rightarrow> u32 \<Rightarrow> u32 \<Rightarrow> int \<Rightarrow>
     (int \<times> 'a net \<times> JmyDataHandler \<times> JmyDoubleSessionBuffer) option" where
  "processData1_double_loop E n dh large d conn_id len nhandled cnt =
     (case handleOne1 E n dh (db_ref large d) nhandled conn_id of
        None \<Rightarrow> None
      | Some (res, n, dh, b) \<Rightarrow>
          if res < 0 then Some (- 1, n, dh, db_set_ref large d b)
          else if res = 0 then
            (case switch_for_next n dh (db_set_ref large d b) of
               None \<Rightarrow> None
             | Some (ok, n, d) \<Rightarrow> if \<not> ok then Some (- 1, n, dh, d) else Some (cnt, n, dh, db_ref_readLen large d nhandled))
          else
            (case go_back n dh (db_set_ref large d b) of
               None \<Rightarrow> None
             | Some (back, ok, n, d') \<Rightarrow>
                 if \<not> ok then Some (- 1, n, dh, d')
                 else
                   let nhandled = nhandled + word_of_int res;
                       cnt = (if was_user_data dh then cnt + 1 else cnt)
                   in if len - nhandled = 0 then Some (cnt, n, dh, db_ref_readLen large d' nhandled)
                      else if back then None
                      else processData1_double_loop E n dh large (db_set_ref large d b) conn_id len nhandled cnt))"
  by pat_completeness auto

termination
proof (relation "measure (\<lambda>(E, n, dh, large, d, cid, len, nhandled, cnt). unat (JmySessionBuffer_getReadLen (db_ref large d) - nhandled))", goal_cases)
  case (2 E n dh large d cid len nhandled cnt x r y n' z dh' b)
  then have r: "0 < r" "handleOne1 E n dh (db_ref large d) nhandled cid = Some (r, n', dh', b)" by auto
  show ?case using unread_decreases [OF r(1)] handleOne1_bound [OF r(2,1)] 2 by simp
qed simp

declare processData1_double_loop.simps [simp del]

definition processData1_double ::
    "'a env \<Rightarrow> 'a net \<Rightarrow> JmyDataHandler \<Rightarrow> JmyDoubleSessionBuffer \<Rightarrow> int \<Rightarrow> (int \<times> 'a net \<times> JmyDataHandler \<times> JmyDoubleSessionBuffer) option" where
  "processData1_double E n dh d conn_id =
     processData1_double_loop E n dh (db_use_large d) d conn_id (JmyDoubleSessionBuffer_getReadLen d) 0 0"

section \<open>Writing packets\<close>

definition writeUserData1 ::
    "('s \<Rightarrow> JmyData \<Rightarrow> (bool \<times> 's) option) \<Rightarrow> ('s \<Rightarrow> JmyData list \<Rightarrow> (bool \<times> 's) option) \<Rightarrow>
     's \<Rightarrow> i32 \<Rightarrow> cptr \<Rightarrow> u32 \<Rightarrow> (int \<times> 's) option" where
  "writeUserData1 writeData writeDatas s msg_id data len = do {
     (res, head_buf) \<leftarrow> jmy_net_proto_pack_msgid_datalen (Some (replicate JMY_PACKET_LEN_USER_DATA_HEAD None))
       (of_nat JMY_PACKET_LEN_USER_DATA_HEAD) msg_id (ucast len);
     if res < 0 then Some (- 1, s)
     else if len = 0 then do {
       (ok, s) \<leftarrow> writeData s \<lparr>jd_data = head_buf, jd_len = word_of_int res\<rparr>;
       if \<not> ok then Some (- 1, s) else Some (sint len, s)
     } else do {
       (ok, s) \<leftarrow> writeDatas s [\<lparr>jd_data = head_buf, jd_len = word_of_int res\<rparr>, \<lparr>jd_data = data, jd_len = len\<rparr>];
       if \<not> ok then Some (- 1, s) else Some (sint len, s)
     }
   }"

definition writeUserIdAndData1 ::
    "('s \<Rightarrow> JmyData \<Rightarrow> (bool \<times> 's) option) \<Rightarrow> ('s \<Rightarrow> JmyData list \<Rightarrow> (bool \<times> 's) option) \<Rightarrow>
     's \<Rightarrow> i32 \<Rightarrow> i32 \<Rightarrow> cptr \<Rightarrow> u16 \<Rightarrow> (int \<times> 's) option" where
  "writeUserIdAndData1 writeData writeDatas s user_id msg_id data len = do {
     (res, head_buf) \<leftarrow> jmy_net_proto_pack_userid_msgid_datalen (Some (replicate JMY_PACKET_LEN_USER_ID_DATA_HEAD None))
       (of_nat JMY_PACKET_LEN_USER_ID_DATA_HEAD) user_id msg_id len;
     if len = 0 then do {
       (ok, s) \<leftarrow> writeData s \<lparr>jd_data = head_buf, jd_len = word_of_int res\<rparr>;
       if \<not> ok then Some (- 1, s) else Some (uint len, s)
     } else do {
       (ok, s) \<leftarrow> writeDatas s [\<lparr>jd_data = head_buf, jd_len = word_of_int res\<rparr>, \<lparr>jd_data = data, jd_len = ucast len\<rparr>];
       if \<not> ok then Some (- 1, s) else Some (uint len, s)
     }
   }"

definition write_packet1 ::
    "('s \<Rightarrow> JmyData \<Rightarrow> (bool \<times> 's) option) \<Rightarrow> 's \<Rightarrow> int \<times> cptr \<Rightarrow> u32 \<Rightarrow> (int \<times> 's) option" where
  "write_packet1 writeData s = (\<lambda>(res, buf) size.
     if res < 0 then Some (- 1, s)
     else do {
       (ok, s) \<leftarrow> writeData s \<lparr>jd_data = buf, jd_len = size\<rparr>;
       if \<not> ok then Some (- 1, s) else Some (0, s)
     })"

definition writeHeartbeat1 :: "('s \<Rightarrow> JmyData \<Rightarrow> (bool \<times> 's) option) \<Rightarrow> u64 \<Rightarrow> 's \<Rightarrow> (int \<times> 's) option" where
  "writeHeartbeat1 writeData now s = do {
     r \<leftarrow> jmy_net_proto_pack_heartbeat now (Some (replicate JMY_PACKET_LEN_HEARTBEAT None)) (of_nat JMY_PACKET_LEN_HEARTBEAT);
     write_packet1 writeData s r (of_nat JMY_PACKET_LEN_HEARTBEAT)
   }"

definition writeDisconnect1 :: "('s \<Rightarrow> JmyData \<Rightarrow> (bool \<times> 's) option) \<Rightarrow> 's \<Rightarrow> (int \<times> 's) option" where
  "writeDisconnect1 writeData s = do {
     r \<leftarrow> jmy_net_proto_pack_disconnect (Some (replicate JMY_PACKET_LEN_DISCONNECT None)) (of_nat JMY_PACKET_LEN_DISCONNECT);
     write_packet1 writeData s r (of_nat JMY_PACKET_LEN_DISCONNECT)
   }"

definition writeDisconnectAck1 :: "('s \<Rightarrow> JmyData \<Rightarrow> (bool \<times> 's) option) \<Rightarrow> 's \<Rightarrow> (int \<times> 's) option" where
  "writeDisconnectAck1 writeData s = do {
     r \<leftarrow> jmy_net_proto_pack_disconnect_ack (Some (replicate JMY_PACKET_LEN_DISCONNECT_ACK None)) (of_nat JMY_PACKET_LEN_DISCONNECT_ACK);
     write_packet1 writeData s r (of_nat JMY_PACKET_LEN_DISCONNECT_ACK)
   }"

text \<open>The overloads for the classes of buffers, which make room first.\<close>

definition sb_writeData1 :: "heap \<times> JmySessionBuffer \<Rightarrow> JmyData \<Rightarrow> (bool \<times> heap \<times> JmySessionBuffer) option" where
  "sb_writeData1 = (\<lambda>(h, b). JmySessionBuffer_writeData h b)"

definition sb_writeDatas1 :: "heap \<times> JmySessionBuffer \<Rightarrow> JmyData list \<Rightarrow> (bool \<times> heap \<times> JmySessionBuffer) option" where
  "sb_writeDatas1 = (\<lambda>(h, b). JmySessionBuffer_writeDatas h b)"

definition writeUserData1_buffer :: "heap \<Rightarrow> JmySessionBuffer \<Rightarrow> i32 \<Rightarrow> cptr \<Rightarrow> u32 \<Rightarrow> (int \<times> heap \<times> JmySessionBuffer) option" where
  "writeUserData1_buffer h b msg_id data len =
     (if data = None then Some (0, h, b)
      else do {
        (ok, h, b) \<leftarrow> JmySessionBuffer_checkWriteLen h b (len + of_nat JMY_PACKET_LEN_USER_DATA_HEAD);
        if \<not> ok then Some (- 1, h, b) else writeUserData1 sb_writeData1 sb_writeDatas1 (h, b) msg_id data len
      })"

definition writeUserIdAndData1_buffer ::
    "heap \<Rightarrow> JmySessionBuffer \<Rightarrow> i32 \<Rightarrow> i32 \<Rightarrow> cptr \<Rightarrow> u16 \<Rightarrow> (int \<times> heap \<times> JmySessionBuffer) option" where
  "writeUserIdAndData1_buffer h b user_id msg_id data len =
     (if data = None then Some (0, h, b)
      else do {
        (ok, h, b) \<leftarrow> JmySessionBuffer_checkWriteLen h b (ucast len + of_nat JMY_PACKET_LEN_USER_ID_DATA_HEAD);
        if \<not> ok then Some (- 1, h, b) else writeUserIdAndData1 sb_writeData1 sb_writeDatas1 (h, b) user_id msg_id data len
      })"

text \<open>
  Making room in a double buffer for \<open>need\<close> bytes: the large buffer is taken when the normal one has no room, and given up when
  the packet would fit the normal one.
\<close>

definition make_room :: "dbuf_state \<Rightarrow> u32 \<Rightarrow> (bool \<times> dbuf_state) option" where
  "make_room = (\<lambda>(h, p, d) need. do {
     (ok, h, d) \<leftarrow> JmyDoubleSessionBuffer_checkWriteLen h d need;
     (ok, h, p, d) \<leftarrow>
       (if ok then Some (True, h, p, d)
        else if db_use_large d then Some (False, h, p, d)
        else do {
          (ok, h, p, d) \<leftarrow> JmyDoubleSessionBuffer_switchToLarge (h, p, d);
          if \<not> ok then Some (False, h, p, d)
          else do {
            (ok, h, d) \<leftarrow> JmyDoubleSessionBuffer_checkWriteLen h d need;
            Some (ok, h, p, d)
          }
        });
     if \<not> ok then Some (False, h, p, d)
     else if db_use_large d \<and> need \<le> sb_len (db_buff d) then JmyDoubleSessionBuffer_backToNormal (h, p, d)
     else Some (True, h, p, d)
   })"

definition writeUserData1_double :: "dbuf_state \<Rightarrow> i32 \<Rightarrow> cptr \<Rightarrow> u32 \<Rightarrow> (int \<times> dbuf_state) option" where
  "writeUserData1_double = (\<lambda>(h, p, d) msg_id data len.
     if data = None then Some (0, h, p, d)
     else do {
       (ok, h, p, d) \<leftarrow> make_room (h, p, d) (len + of_nat JMY_PACKET_LEN_USER_DATA_HEAD);
       if \<not> ok then Some (- 1, h, p, d)
       else do {
         (r, h, d) \<leftarrow> writeUserData1 JmyDoubleSessionBuffer_writeData JmyDoubleSessionBuffer_writeDatas (h, d) msg_id data len;
         Some (r, h, p, d)
       }
     })"

definition writeUserIdAndData1_double :: "dbuf_state \<Rightarrow> i32 \<Rightarrow> i32 \<Rightarrow> cptr \<Rightarrow> u16 \<Rightarrow> (int \<times> dbuf_state) option" where
  "writeUserIdAndData1_double = (\<lambda>(h, p, d) user_id msg_id data len.
     if data = None then Some (0, h, p, d)
     else do {
       (ok, h, p, d) \<leftarrow> make_room (h, p, d) (ucast len + of_nat JMY_PACKET_LEN_USER_ID_DATA_HEAD);
       if \<not> ok then Some (- 1, h, p, d)
       else do {
         (r, h, d) \<leftarrow> writeUserIdAndData1 JmyDoubleSessionBuffer_writeData JmyDoubleSessionBuffer_writeDatas (h, d) user_id msg_id data len;
         Some (r, h, p, d)
       }
     })"

definition writeUserData1_list :: "JmySessionBufferList \<Rightarrow> i32 \<Rightarrow> cptr \<Rightarrow> u32 \<Rightarrow> (int \<times> JmySessionBufferList) option" where
  "writeUserData1_list l msg_id data len =
     (if data = None then Some (0, l) else writeUserData1 bl_writeData JmySessionBufferList_writeDatas l msg_id data len)"

definition writeUserIdAndData1_list ::
    "JmySessionBufferList \<Rightarrow> i32 \<Rightarrow> i32 \<Rightarrow> cptr \<Rightarrow> u16 \<Rightarrow> (int \<times> JmySessionBufferList) option" where
  "writeUserIdAndData1_list l user_id msg_id data len =
     (if data = None then Some (0, l) else writeUserIdAndData1 bl_writeData JmySessionBufferList_writeDatas l user_id msg_id data len)"

section \<open>Messages on the wire\<close>

fun packet1 :: "message \<Rightarrow> u8 list" where
  "packet1 (Msg m d) = user_data_head1 m (length d) @ d"
| "packet1 (UserMsg u m d) = user_id_data_head1 u m (length d) @ d"

definition fits1 :: "message \<Rightarrow> bool" where
  "fits1 x \<longleftrightarrow> length (payload x) + 2 < 65536"

lemma packet1_length: "fits1 x \<Longrightarrow> length (packet1 x) < 65547" "packet1 x \<noteq> []"
  by (cases x; simp add: fits1_def packet1_defs)+

text \<open>A handler sees the payload, as long as it reads no more than the length it is given.\<close>

definition trimmed :: "JmyMsgInfo \<Rightarrow> JmyMsgInfo" where
  "trimmed i = i\<lparr>mi_data := take (unat (mi_len i)) (mi_data i)\<rparr>"

definition user_type :: "JmyPacketUnpackData \<Rightarrow> bool" where
  "user_type data \<longleftrightarrow> up_type data = JMY_PACKET_USER_DATA \<or> up_type data = JMY_PACKET_USER_ID_DATA"

lemma trimmed_info: "fits1 (Msg m d) \<Longrightarrow> trimmed ((msg_info_of u m d cid p)\<lparr>mi_data := cells d @ rest\<rparr>) = msg_info_of u m d cid p"
  using unat_of_nat_fits [of "length d", where 'a = 32] by (simp add: trimmed_def msg_info_of_def fits1_def)

lemma unpack_complete:
  assumes "fits1 x" "length (packet1 x) \<le> unat len" "unat len < 2 ^ 31"
  shows "\<exists>data'. jmy_net_proto_unpack_data_head (Some (cells (packet1 x) @ rest)) len data cid MGR_PTR =
      Some (int (length (packet1 x)), data') \<and> user_type data' \<and> up_result data' = JMY_UNPACK_RESULT_NO_ERROR \<and>
      trimmed (up_msg_info data') = info cid x \<and> mi_msg_id (up_msg_info data') = mi_msg_id (info cid x) \<and>
      mi_len (up_msg_info data') = mi_len (info cid x)"
proof (cases x)
  case (Msg m d)
  have nz: "len \<noteq> 0" using assms(2) Msg by auto
  show ?thesis
    using unpack_user_head_complete [where pre = "cells [5]" and d = d and len = len and m = m and rest = rest and u = 0 and data = "data\<lparr>up_type := 5\<rparr>" and cid = cid and p = MGR_PTR] assms nz Msg trimmed_info [where m = m and d = d and u = 0 and cid = cid and p = MGR_PTR and rest = rest]
    by (simp add: jmy_net_proto_unpack_data_head_def peek_def user_data_head1_def fits1_def user_type_def msg_info_of_def)
next
  case (UserMsg u m d)
  let ?pre = "cells ([10] @ be16_bytes (unat u div 65536) @ be16_bytes (unat u))"
  have nz: "len \<noteq> 0" using assms(2) UserMsg by auto
  have "unat (len - 1) = unat len - 1" using nz by (rule unat_minus_one)
  then have four: "\<not> len - 1 < 4" using assms(2) UserMsg by (simp add: word_less_nat_alt)
  have "UNPACK_INT32_FROM_BUFF (cells ([10] @ be16_bytes (unat u div 65536) @ be16_bytes (unat u)) @ r) 1 = Some u" for r
    using unpack32_be16_bytes [of u r] by (simp add: UNPACK_INT32_FROM_BUFF_def peek_def be16_bytes_def)
  then show ?thesis
    using unpack_user_head_complete [where pre = ?pre and d = d and len = len and m = m and rest = rest and u = u and data = "data\<lparr>up_type := 10\<rparr>" and cid = cid and p = MGR_PTR] assms nz four UserMsg
      trimmed_info [where m = m and d = d and u = u and cid = cid and p = MGR_PTR and rest = rest]
    by (simp add: jmy_net_proto_unpack_data_head_def peek_def user_id_data_head1_def fits1_def user_type_def msg_info_of_def)
qed

text \<open>A proper part of a packet, in which at least the type is there.\<close>

definition part_of :: "u8 list \<Rightarrow> message \<Rightarrow> bool" where
  "part_of p x \<longleftrightarrow> length p < length (packet1 x) \<and> p = take (length p) (packet1 x)"

lemma unpack_part:
  assumes "fits1 x" "part_of p x" "p \<noteq> []" "unat len = length p"
  shows "\<exists>data'. jmy_net_proto_unpack_data_head (Some (cells p)) len data cid MGR_PTR = Some (0, data') \<and> user_type data' \<and>
      (up_result data' = JMY_UNPACK_RESULT_DATA_NOT_ENOUGH \<or>
       up_result data' = JMY_UNPACK_RESULT_USER_DATA_NOT_ENOUGH \<and> up_data data' = int (length (packet1 x)))"
proof (cases x)
  case (Msg m d)
  have nz: "len \<noteq> 0" using assms(3,4) by auto
  have cs: "cells p = take (unat len) (cells [5] @ cells (be16_bytes (length d + 2) @ be16_bytes (unat m) @ d))"
    using assms(2,4) Msg by (simp add: part_of_def user_data_head1_def take_map del: take_Cons_numeral)
      (metis append_Cons append_Nil list.simps(9) map_append take_map)
  have hd: "peek (cells p) 0 = Some 5" using cs assms(3,4) by (cases "length p") (simp_all add: peek_def)
  show ?thesis
    using unpack_user_head_part [OF _ _ _ _ cs, where u = 0 and data = "data\<lparr>up_type := 5\<rparr>" and cid = cid and p = MGR_PTR] assms nz Msg hd
    by (cases "unat len < 3") (auto simp: jmy_net_proto_unpack_data_head_def part_of_def fits1_def user_type_def Suc_le_eq)
next
  case (UserMsg u m d)
  let ?pre = "[10] @ be16_bytes (unat u div 65536) @ be16_bytes (unat u)"
  have nz: "len \<noteq> 0" using assms(3,4) by auto
  have cs: "cells p = take (unat len) (cells ?pre @ cells (be16_bytes (length d + 2) @ be16_bytes (unat m) @ d))"
    using assms(2,4) UserMsg by (simp add: part_of_def user_id_data_head1_def take_map del: take_Cons_numeral)
      (metis append_Cons append_Nil append_assoc list.simps(9) map_append take_map)
  have hd: "peek (cells p) 0 = Some 10" using cs assms(3,4) by (cases "length p") (simp_all add: peek_def)
  have "unat (len - 1) = unat len - 1" using nz by (rule unat_minus_one)
  then have four: "len - 1 < 4 \<longleftrightarrow> unat len < 5" using assms(3,4) by (cases "length p") (auto simp: word_less_nat_alt)
  show ?thesis
  proof (cases "unat len < 5")
    case True
    then show ?thesis using nz hd four by (simp add: jmy_net_proto_unpack_data_head_def user_type_def)
  next
    case False
    then have "length (cells ?pre) \<le> unat len" by simp
    with cs obtain r where "cells p = cells ?pre @ r" by (metis take_all take_append)
    then have "UNPACK_INT32_FROM_BUFF (cells p) 1 = Some u"
      using unpack32_be16_bytes [of u r] by (simp add: UNPACK_INT32_FROM_BUFF_def peek_def be16_bytes_def)
    then show ?thesis
      using unpack_user_head_part [OF _ _ _ _ cs, where u = u and data = "data\<lparr>up_type := 10\<rparr>" and cid = cid and p = MGR_PTR] assms nz UserMsg hd False four
      by (cases "unat len < 7") (auto simp: jmy_net_proto_unpack_data_head_def part_of_def fits1_def user_type_def)
  qed
qed

section \<open>Taking messages out of a buffer\<close>

definition app_env1 :: "(fptr \<Rightarrow> JmyMsgInfo \<Rightarrow> 'a \<Rightarrow> 'a) \<Rightarrow> 'a env" where
  "app_env1 act = \<lparr>msg_code = (\<lambda>f i n. Some (1, n\<lparr>nt_app := act f (trimmed i) (nt_app n)\<rparr>)), event_code = (\<lambda>f i n. Some (0, n))\<rparr>"

definition route1 :: "JmyDataHandler \<Rightarrow> int \<Rightarrow> fptr" where
  "route1 dh m = (case d1_msg_handler_map dh m of None \<Rightarrow> d1_default_msg_handler dh | Some f \<Rightarrow> f)"

definition deliver1 :: "(fptr \<Rightarrow> JmyMsgInfo \<Rightarrow> 'a \<Rightarrow> 'a) \<Rightarrow> JmyDataHandler \<Rightarrow> int \<Rightarrow> 'a \<Rightarrow> message \<Rightarrow> 'a" where
  "deliver1 act dh cid a x = act (route1 dh (mi_msg_id (info cid x))) (info cid x) a"

lemma route1_unpack [simp]: "route1 (dh\<lparr>d1_unpack_data := u\<rparr>) = route1 dh"
  by (rule ext) (simp add: route1_def split: option.split)

lemma deliver1_unpack [simp]: "deliver1 act (dh\<lparr>d1_unpack_data := u\<rparr>) = deliver1 act dh"
  by (intro ext) (simp add: deliver1_def)

lemma info_len1: "fits1 x \<Longrightarrow> 0 \<le> sint (mi_len (info cid x))"
  by (cases x) (auto simp: msg_info_of_def sint_small fits1_def)

lemma handleMsg1_app:
  assumes "route1 dh (mi_msg_id (info cid x)) \<noteq> nullptr" "fits1 x"
    and "trimmed i = info cid x" "mi_msg_id i = mi_msg_id (info cid x)" "mi_len i = mi_len (info cid x)"
  shows "\<exists>r. handleMsg1 (msg_code (app_env1 act)) dh i n = Some (r, n\<lparr>nt_app := deliver1 act dh cid (nt_app n) x\<rparr>) \<and> 0 \<le> r"
  using assms info_len1 [of x cid]
  by (auto simp: handleMsg1_def route1_def app_env1_def deliver1_def split: option.splits)

text \<open>The unread bytes of a buffer, and that they are what is read through it.\<close>

definition holds :: "'a net \<Rightarrow> JmySessionBuffer \<Rightarrow> u8 list \<Rightarrow> bool" where
  "holds n b bs \<longleftrightarrow> sb_ok (nt_heap n) b \<and> sb_data (nt_heap n) b = cells bs \<and> unat (sb_len b) < 2 ^ 31"

lemma holds_read:
  assumes "holds n b bs"
  shows "JmySessionBuffer_getReadBuff (nt_heap n) b = Some (cells bs)" "unat (JmySessionBuffer_getReadLen b) = length bs"
    "length bs \<le> unat (sb_len b)"
proof -
  have ok: "sb_ok (nt_heap n) b" "sb_data (nt_heap n) b = cells bs" using assms by (simp_all add: holds_def)
  show "JmySessionBuffer_getReadBuff (nt_heap n) b = Some (cells bs)" using sb_getReadBuff [OF ok(1)] ok(2) by simp
  show "unat (JmySessionBuffer_getReadLen b) = length bs" using sb_getReadLen [OF ok(1)] ok(2) by simp
  from ok(1) obtain blk where "blocks (nt_heap n) (sb_buff b) = Some blk" "length blk = unat (sb_len b)"
    "unat (sb_read_offset b) \<le> unat (sb_write_offset b)" "unat (sb_write_offset b) \<le> unat (sb_len b)" by (rule sb_ok_block)
  then have "length (sb_data (nt_heap n) b) \<le> unat (sb_len b)" by (simp add: sb_data_def)
  then show "length bs \<le> unat (sb_len b)" using ok(2) by simp
qed

lemma unread_len:
  assumes "holds n b (pre @ rest)" "unat k = length pre"
  shows "unat (JmySessionBuffer_getReadLen b - k) = length rest"
  using holds_read(2) [OF assms(1)] assms(2) by (subst unat_sub) (simp_all add: word_le_nat_alt)

text \<open>What the handler object remembers of a message: the next packet that is not looked at finds it there.\<close>

definition last_seen :: "int \<Rightarrow> JmyPacketUnpackData \<Rightarrow> message \<Rightarrow> bool" where
  "last_seen cid u x \<longleftrightarrow> user_type u \<and> up_result u = JMY_UNPACK_RESULT_NO_ERROR \<and> trimmed (up_msg_info u) = info cid x \<and>
     mi_msg_id (up_msg_info u) = mi_msg_id (info cid x) \<and> mi_len (up_msg_info u) = mi_len (info cid x)"

lemma handleOne1_message:
  assumes "holds n b (pre @ packet1 x @ rest)" "unat k = length pre" "fits1 x" "route1 dh (mi_msg_id (info cid x)) \<noteq> nullptr"
  shows "\<exists>u. handleOne1 (app_env1 act) n dh b k cid = Some (int (length (packet1 x)), n\<lparr>nt_app := deliver1 act dh cid (nt_app n) x\<rparr>,
      dh\<lparr>d1_unpack_data := u\<rparr>, b) \<and> last_seen cid u x"
proof -
  have small: "length (pre @ packet1 x @ rest) < 2 ^ 31" using holds_read(3) [OF assms(1)] assms(1) by (simp add: holds_def)
  have len: "unat (JmySessionBuffer_getReadLen b - k) = length (packet1 x @ rest)" using assms(1,2) by (rule unread_len)
  obtain u where u: "jmy_net_proto_unpack_data_head (Some (cells (packet1 x) @ cells rest)) (JmySessionBuffer_getReadLen b - k)
      (d1_unpack_data dh) cid MGR_PTR = Some (int (length (packet1 x)), u)" "user_type u" "up_result u = JMY_UNPACK_RESULT_NO_ERROR"
    "trimmed (up_msg_info u) = info cid x" "mi_msg_id (up_msg_info u) = mi_msg_id (info cid x)" "mi_len (up_msg_info u) = mi_len (info cid x)"
    using unpack_complete [OF assms(3), of "JmySessionBuffer_getReadLen b - k" "cells rest" "d1_unpack_data dh" cid] len small by auto
  obtain r where r: "handleMsg1 (msg_code (app_env1 act)) (dh\<lparr>d1_unpack_data := u\<rparr>) (up_msg_info u) n =
      Some (r, n\<lparr>nt_app := deliver1 act dh cid (nt_app n) x\<rparr>)" "0 \<le> r"
    using handleMsg1_app [of "dh\<lparr>d1_unpack_data := u\<rparr>" cid x "up_msg_info u" act n] assms(3,4) u(4-6) by auto
  have "handleOne1 (app_env1 act) n dh b k cid = Some (int (length (packet1 x)), n\<lparr>nt_app := deliver1 act dh cid (nt_app n) x\<rparr>,
      dh\<lparr>d1_unpack_data := u\<rparr>, b)"
    using holds_read(1) [OF assms(1)] assms(2) u(1-3) r packet1_length(2) [of x]
    by (auto simp: handleOne1_def user_type_def)
  then show ?thesis using u(2-6) by (auto simp: last_seen_def)
qed

lemma handleOne1_part:
  assumes "holds n b (pre @ p)" "unat k = length pre" "fits1 x" "part_of p x" "p \<noteq> []"
  shows "\<exists>h u b'. handleOne1 E n dh b k cid = Some (0, n\<lparr>nt_heap := h\<rparr>, dh\<lparr>d1_unpack_data := u\<rparr>, b') \<and>
      holds (n\<lparr>nt_heap := h\<rparr>) b' (pre @ p) \<and> sb_len b' = sb_len b"
proof -
  have len: "unat (JmySessionBuffer_getReadLen b - k) = length p" using assms(1,2) by (rule unread_len)
  obtain u where u: "jmy_net_proto_unpack_data_head (Some (cells p)) (JmySessionBuffer_getReadLen b - k) (d1_unpack_data dh) cid MGR_PTR = Some (0, u)"
    "user_type u" "up_result u = JMY_UNPACK_RESULT_DATA_NOT_ENOUGH \<or> up_result u = JMY_UNPACK_RESULT_USER_DATA_NOT_ENOUGH"
    using unpack_part [OF assms(3-5) len, of "d1_unpack_data dh" cid] by auto
  obtain h b' where m: "JmySessionBuffer_moveDataToFront (nt_heap n) b = Some (h, b')" "holds (n\<lparr>nt_heap := h\<rparr>) b' (pre @ p)" "sb_len b' = sb_len b"
    using sb_moveDataToFront_ok [of "nt_heap n" b] assms(1) by (auto simp: holds_def)
  have keep: "n = n\<lparr>nt_heap := nt_heap n\<rparr>" by simp
  show ?thesis
  proof (cases "up_result u = JMY_UNPACK_RESULT_DATA_NOT_ENOUGH \<or>
      sint (JmySessionBuffer_getWriteLen b + JmySessionBuffer_getReadLen b - k) < up_data u")
    case True
    then have "handleOne1 E n dh b k cid = Some (0, n\<lparr>nt_heap := h\<rparr>, dh\<lparr>d1_unpack_data := u\<rparr>, b')"
      using holds_read(1) [OF assms(1)] assms(2) u m(1) by (auto simp: handleOne1_def user_type_def moved_def)
    then show ?thesis using m by blast
  next
    case False
    then have "handleOne1 E n dh b k cid = Some (0, n\<lparr>nt_heap := nt_heap n\<rparr>, dh\<lparr>d1_unpack_data := u\<rparr>, b)"
      using holds_read(1) [OF assms(1)] assms(2) u by (auto simp: handleOne1_def user_type_def)
    then show ?thesis using assms(1) by (intro exI [of _ "nt_heap n"] exI [of _ u] exI [of _ b]) simp
  qed
qed

lemma holds_consume:
  assumes "holds n b (pre @ rest)" "unat k = length pre"
  shows "holds n (snd (JmySessionBuffer_readLen b k)) rest \<and> sb_len (snd (JmySessionBuffer_readLen b k)) = sb_len b"
proof -
  have "unat k \<le> length (sb_data (nt_heap n) b)" using assms by (simp add: holds_def)
  from sb_readLen_ok [OF _ this] assms obtain b' where "JmySessionBuffer_readLen b k = (True, b')" "sb_ok (nt_heap n) b'"
    "sb_data (nt_heap n) b' = cells rest" by (auto simp: holds_def)
  then show ?thesis using assms(1) by (auto simp: holds_def JmySessionBuffer_readLen_def split: if_splits)
qed

text \<open>
  What is unread: complete messages and, unless the last of them ends there, a part of one more.
\<close>

definition tail_ok :: "u8 list \<Rightarrow> message list \<Rightarrow> bool" where
  "tail_ok p zs \<longleftrightarrow> (case zs of [] \<Rightarrow> p = [] | z # _ \<Rightarrow> part_of p z)"

lemma processData1_loop_messages:
  assumes "holds n b (pre @ concat (map packet1 ys) @ p)" "unat k = length pre" "unat len = length (pre @ concat (map packet1 ys) @ p)"
    and "ys \<noteq> [] \<or> p \<noteq> []" "list_all fits1 (ys @ zs)" "tail_ok p zs" "\<forall>x \<in> set ys. route1 dh (mi_msg_id (info cid x)) \<noteq> nullptr"
  shows "\<exists>h u b'. processData1_loop (app_env1 act) n dh b cid len k cnt =
      Some (cnt + int (length ys), n\<lparr>nt_heap := h, nt_app := foldl (deliver1 act dh cid) (nt_app n) ys\<rparr>, dh\<lparr>d1_unpack_data := u\<rparr>, b') \<and>
      holds (n\<lparr>nt_heap := h\<rparr>) b' p \<and> sb_len b' = sb_len b \<and>
      (p = [] \<longrightarrow> h = nt_heap n \<and> b' = snd (JmySessionBuffer_readLen b len) \<and> last_seen cid u (last ys))"
  using assms
proof (induction ys arbitrary: n dh pre k cnt)
  case Nil
  then obtain z zs' where "zs = z # zs'" "part_of p z" "fits1 z" by (auto simp: tail_ok_def split: list.splits)
  moreover have "holds n b (pre @ p)" "p \<noteq> []" using Nil.prems by auto
  ultimately obtain h u b' where "handleOne1 (app_env1 act) n dh b k cid = Some (0, n\<lparr>nt_heap := h\<rparr>, dh\<lparr>d1_unpack_data := u\<rparr>, b')"
    "holds (n\<lparr>nt_heap := h\<rparr>) b' (pre @ p)" "sb_len b' = sb_len b"
    using handleOne1_part [of n b pre p k z "app_env1 act" dh cid] Nil.prems(2) by blast
  then show ?case using holds_consume [of "n\<lparr>nt_heap := h\<rparr>" b' pre p k] Nil.prems(2) \<open>p \<noteq> []\<close>
    by (intro exI [of _ h] exI [of _ u] exI [of _ "snd (JmySessionBuffer_readLen b' k)"]) (subst processData1_loop.simps, simp)
next
  case (Cons x ys)
  have x: "fits1 x" "route1 dh (mi_msg_id (info cid x)) \<noteq> nullptr" using Cons.prems(5,7) by auto
  have hx: "holds n b (pre @ packet1 x @ concat (map packet1 ys) @ p)" using Cons.prems(1) by simp
  obtain u where one: "handleOne1 (app_env1 act) n dh b k cid = Some (int (length (packet1 x)),
      n\<lparr>nt_app := deliver1 act dh cid (nt_app n) x\<rparr>, dh\<lparr>d1_unpack_data := u\<rparr>, b)" "last_seen cid u x"
    using handleOne1_message [OF hx Cons.prems(2) x] by blast
  let ?n = "n\<lparr>nt_app := deliver1 act dh cid (nt_app n) x\<rparr>" and ?dh = "dh\<lparr>d1_unpack_data := u\<rparr>"
  let ?k = "k + of_nat (length (packet1 x))" and ?d = "pre @ packet1 x"
  have h: "holds ?n b (?d @ concat (map packet1 ys) @ p)" using hx by (simp add: holds_def)
  have le: "length (?d @ concat (map packet1 ys) @ p) < 2 ^ 31" using holds_read(3) [OF hx] hx by (simp add: holds_def)
  have "k = of_nat (length pre)" using Cons.prems(2) by (metis word_of_unat_eq)
  then have "?k = of_nat (length ?d)" by simp
  moreover have "unat (of_nat (length ?d) :: u32) = length ?d" using le by (intro unat_of_nat_fits) simp
  ultimately have k: "unat ?k = length ?d" by (simp only:)
  have len: "unat len = length (?d @ concat (map packet1 ys) @ p)" using Cons.prems(3) by simp
  have "unat (len - ?k) = length (concat (map packet1 ys) @ p)" using k len by (subst unat_sub) (simp_all add: word_le_nat_alt)
  then have zero: "len - ?k = 0 \<longleftrightarrow> ys = [] \<and> p = []"
    using packet1_length(2) by (cases ys) (auto simp: unat_eq_zero [symmetric] simp del: unat_eq_0)
  have pos: "packet1 x \<noteq> []" by (rule packet1_length(2))
  have usr: "was_user_data ?dh" using one(2) by (simp add: was_user_data_def user_type_def last_seen_def)
  show ?case
  proof (cases "ys = [] \<and> p = []")
    case True
    then have "processData1_loop (app_env1 act) n dh b cid len k cnt = Some (cnt + 1, ?n, ?dh, snd (JmySessionBuffer_readLen b ?k))"
      using one(1) pos usr zero by (subst processData1_loop.simps) simp
    moreover have "holds ?n b (?d @ [])" using h True by simp
    note holds_consume [OF this k]
    moreover have "len = ?k" using zero True by simp
    ultimately show ?thesis using True one(2) by (intro exI [of _ "nt_heap n"] exI [of _ u] exI) (auto simp: holds_def)
  next
    case False
    then have step: "processData1_loop (app_env1 act) n dh b cid len k cnt = processData1_loop (app_env1 act) ?n ?dh b cid len ?k (cnt + 1)"
      using one(1) pos usr zero by (subst processData1_loop.simps) (auto simp: Let_def)
    have "\<exists>h' u b'. processData1_loop (app_env1 act) ?n ?dh b cid len ?k (cnt + 1) =
        Some (cnt + 1 + int (length ys), ?n\<lparr>nt_heap := h', nt_app := foldl (deliver1 act ?dh cid) (nt_app ?n) ys\<rparr>, ?dh\<lparr>d1_unpack_data := u\<rparr>, b') \<and>
        holds (?n\<lparr>nt_heap := h'\<rparr>) b' p \<and> sb_len b' = sb_len b \<and>
        (p = [] \<longrightarrow> h' = nt_heap ?n \<and> b' = snd (JmySessionBuffer_readLen b len) \<and> last_seen cid u (last ys))"
      by (rule Cons.IH [OF h k len]) (use False Cons.prems in auto)
    then obtain h' u' b' where "processData1_loop (app_env1 act) ?n ?dh b cid len ?k (cnt + 1) =
        Some (cnt + 1 + int (length ys), ?n\<lparr>nt_heap := h', nt_app := foldl (deliver1 act ?dh cid) (nt_app ?n) ys\<rparr>, ?dh\<lparr>d1_unpack_data := u'\<rparr>, b')"
      "holds (?n\<lparr>nt_heap := h'\<rparr>) b' p" "sb_len b' = sb_len b"
      "p = [] \<longrightarrow> h' = nt_heap ?n \<and> b' = snd (JmySessionBuffer_readLen b len) \<and> last_seen cid u' (last ys)" by blast
    then show ?thesis unfolding step using False by (intro exI [of _ h'] exI [of _ u'] exI [of _ b']) (simp add: holds_def)
  qed
qed

section \<open>Reading from a socket\<close>

text \<open>
  The reading side: a read puts some of the bytes that are on the wire into the room of the buffer, at
  most \<open>k\<close>, and the buffer is processed. A read without room, or when there is nothing on the wire, does not happen.
\<close>

fun feed ::
    "'a env \<Rightarrow> 'a net \<Rightarrow> JmyDataHandler \<Rightarrow> JmySessionBuffer \<Rightarrow> int \<Rightarrow> u8 list \<Rightarrow> nat list \<Rightarrow>
     (int \<times> 'a net \<times> JmyDataHandler \<times> JmySessionBuffer \<times> u8 list) option" where
  "feed E n dh b cid wire [] = Some (0, n, dh, b, wire)"
| "feed E n dh b cid wire (k # ks) =
     (let bs = take (min k (unat (JmySessionBuffer_getWriteLen b))) wire
      in if bs = [] then feed E n dh b cid wire ks
         else do {
           (ok, h, b) \<leftarrow> JmySessionBuffer_writeData (nt_heap n) b (data_of bs);
           (c, n, dh, b) \<leftarrow> processData1 E (n\<lparr>nt_heap := h\<rparr>) dh b cid;
           (c', r) \<leftarrow> feed E n dh b cid (drop (length bs) wire) ks;
           Some (c + c', r)
         })"

lemma split_messages:
  assumes "p @ w = concat (map packet1 xs)"
  shows "\<exists>ys zs q. xs = ys @ zs \<and> p = concat (map packet1 ys) @ q \<and> tail_ok q zs \<and> q @ w = concat (map packet1 zs)"
  using assms
proof (induction xs arbitrary: p)
  case Nil
  then show ?case by (intro exI [of _ "[]"]) (simp add: tail_ok_def)
next
  case (Cons x xs)
  show ?case
  proof (cases "length p < length (packet1 x)")
    case True
    then have "p = take (length p) (packet1 x)" using Cons.prems by (metis append_eq_append_conv_if list.simps(9) concat.simps(2) order_less_imp_le)
    with True Cons.prems show ?thesis
      by (intro exI [of _ "[]"] exI [of _ "x # xs"] exI [of _ p]) (simp add: tail_ok_def part_of_def)
  next
    case False
    let ?p = "drop (length (packet1 x)) p"
    have "packet1 x = take (length (packet1 x)) p" "?p @ w = concat (map packet1 xs)"
      using False Cons.prems by (auto simp: append_eq_append_conv_if split: if_splits)
    then obtain p' where p': "p = packet1 x @ p'" "p' @ w = concat (map packet1 xs)" by (metis append_take_drop_id)
    from Cons.IH [OF p'(2)] obtain ys zs q where "xs = ys @ zs" "p' = concat (map packet1 ys) @ q" "tail_ok q zs" "q @ w = concat (map packet1 zs)"
      by blast
    then show ?thesis using p'(1) by (intro exI [of _ "x # ys"] exI [of _ zs] exI [of _ q]) simp
  qed
qed

lemma take_then_drop: "take j w @ drop (length (take j w)) w = w"
  by (cases "j \<le> length w") simp_all

lemma holds_write:
  assumes "holds n b p" "length bs \<le> unat (JmySessionBuffer_getWriteLen b)"
  shows "\<exists>h b'. JmySessionBuffer_writeData (nt_heap n) b (data_of bs) = Some (True, h, b') \<and> holds (n\<lparr>nt_heap := h\<rparr>) b' (p @ bs) \<and> sb_len b' = sb_len b"
proof -
  have small: "length bs < 2 ^ 32" using assms(2) unsigned_less [of "JmySessionBuffer_getWriteLen b", where 'a = nat] by simp
  have "unat (of_nat (length bs) :: u32) = length bs" using small by (intro unat_of_nat_fits) simp
  then have "\<not> JmySessionBuffer_getWriteLen b < jd_len (data_of bs)" using assms(2) by (simp add: word_less_nat_alt data_of_def)
  moreover have "sb_ok (nt_heap n) b" using assms(1) by (simp add: holds_def)
  ultimately obtain h b' where w: "JmySessionBuffer_writeData (nt_heap n) b (data_of bs) = Some (True, h, b')" "sb_ok h b'"
    "sb_data h b' = sb_data (nt_heap n) b @ cells bs"
    using sb_writeData_ok [OF _ data_of_cells [OF small]] by metis
  moreover have "sb_len b' = sb_len b" using w(1) by (auto simp: JmySessionBuffer_writeData_def split: if_splits bind_splits)
  ultimately show ?thesis using assms(1) by (auto simp: holds_def)
qed

lemma feed_messages:
  assumes "holds n b p" "p @ w = concat (map packet1 zs)" "tail_ok p zs" "list_all fits1 zs"
    and "\<forall>x \<in> set zs. route1 dh (mi_msg_id (info cid x)) \<noteq> nullptr"
  shows "\<exists>ys xs h u b' q w'. feed (app_env1 act) n dh b cid w ks =
      Some (int (length ys), n\<lparr>nt_heap := h, nt_app := foldl (deliver1 act dh cid) (nt_app n) ys\<rparr>, dh\<lparr>d1_unpack_data := u\<rparr>, b', w') \<and>
      zs = ys @ xs \<and> holds (n\<lparr>nt_heap := h\<rparr>) b' q \<and> q @ w' = concat (map packet1 xs) \<and> tail_ok q xs"
  using assms
proof (induction ks arbitrary: n dh b p w zs)
  case Nil
  then show ?case
    by (intro exI [of _ "[]"] exI [of _ zs] exI [of _ "nt_heap n"] exI [of _ "d1_unpack_data dh"] exI [of _ b] exI [of _ p] exI [of _ w]) simp
next
  case (Cons k ks)
  let ?bs = "take (min k (unat (JmySessionBuffer_getWriteLen b))) w"
  show ?case
  proof (cases "?bs = []")
    case True
    then show ?thesis using Cons.IH [OF Cons.prems] by (simp add: Let_def)
  next
    case False
    have "length ?bs \<le> unat (JmySessionBuffer_getWriteLen b)" by simp
    from holds_write [OF Cons.prems(1) this] obtain h b1 where
      w: "JmySessionBuffer_writeData (nt_heap n) b (data_of ?bs) = Some (True, h, b1)" "holds (n\<lparr>nt_heap := h\<rparr>) b1 (p @ ?bs)" by blast
    have "(p @ ?bs) @ drop (length ?bs) w = concat (map packet1 zs)" using Cons.prems(2) by (simp only: append_assoc take_then_drop)
    from split_messages [OF this] obtain ys xs q where sp: "zs = ys @ xs" "p @ ?bs = concat (map packet1 ys) @ q" "tail_ok q xs"
      "q @ drop (length ?bs) w = concat (map packet1 xs)" by blast
    have "\<exists>h' u b2. processData1_loop (app_env1 act) (n\<lparr>nt_heap := h\<rparr>) dh b1 cid (JmySessionBuffer_getReadLen b1) 0 0 =
      Some (0 + int (length ys), n\<lparr>nt_heap := h\<rparr>\<lparr>nt_heap := h', nt_app := foldl (deliver1 act dh cid) (nt_app (n\<lparr>nt_heap := h\<rparr>)) ys\<rparr>, dh\<lparr>d1_unpack_data := u\<rparr>, b2) \<and>
      holds (n\<lparr>nt_heap := h\<rparr>\<lparr>nt_heap := h'\<rparr>) b2 q \<and> sb_len b2 = sb_len b1 \<and>
      (q = [] \<longrightarrow> h' = nt_heap (n\<lparr>nt_heap := h\<rparr>) \<and> b2 = snd (JmySessionBuffer_readLen b1 (JmySessionBuffer_getReadLen b1)) \<and> last_seen cid u (last ys))"
    proof (rule processData1_loop_messages [where pre = "[]" and zs = xs])
      show "holds (n\<lparr>nt_heap := h\<rparr>) b1 ([] @ concat (map packet1 ys) @ q)" using w(2) sp(2) by simp
      show "unat (JmySessionBuffer_getReadLen b1) = length ([] @ concat (map packet1 ys) @ q)" using holds_read(2) [OF w(2)] sp(2) by simp
      show "ys \<noteq> [] \<or> q \<noteq> []" using False sp(2) by auto
    qed (use Cons.prems(4,5) sp in auto)
    then obtain h' u b2 where pr: "processData1 (app_env1 act) (n\<lparr>nt_heap := h\<rparr>) dh b1 cid =
      Some (int (length ys), n\<lparr>nt_heap := h', nt_app := foldl (deliver1 act dh cid) (nt_app n) ys\<rparr>, dh\<lparr>d1_unpack_data := u\<rparr>, b2)"
      "holds (n\<lparr>nt_heap := h'\<rparr>) b2 q" by (auto simp: processData1_def)
    let ?n = "n\<lparr>nt_heap := h', nt_app := foldl (deliver1 act dh cid) (nt_app n) ys\<rparr>" and ?dh = "dh\<lparr>d1_unpack_data := u\<rparr>"
    have "holds ?n b2 q" using pr(2) by (simp add: holds_def)
    from Cons.IH [OF this sp(4,3), of ?dh] Cons.prems(4,5) sp(1) obtain vs ws h2 u2 b3 q2 w2 where
      "feed (app_env1 act) ?n ?dh b2 cid (drop (length ?bs) w) ks =
        Some (int (length vs), ?n\<lparr>nt_heap := h2, nt_app := foldl (deliver1 act ?dh cid) (nt_app ?n) vs\<rparr>, ?dh\<lparr>d1_unpack_data := u2\<rparr>, b3, w2)"
      "xs = vs @ ws" "holds (?n\<lparr>nt_heap := h2\<rparr>) b3 q2" "q2 @ w2 = concat (map packet1 ws)" "tail_ok q2 ws" by auto
    then show ?thesis using w(1) pr(1) False sp(1)
      by (intro exI [of _ "ys @ vs"] exI [of _ ws] exI [of _ h2] exI [of _ u2] exI [of _ b3] exI [of _ q2] exI [of _ w2])
        (auto simp: Let_def holds_def)
  qed
qed

section \<open>From the writers to the handlers\<close>

lemma heads1_nonempty [simp]: "user_data_head1 m n \<noteq> []" "user_id_data_head1 u m n \<noteq> []"
  by (simp_all add: packet1_defs)

context send_buffer
begin

lemma writeUserData1_ok:
  assumes "inv s" "5 + length d < 2 ^ 16"
  shows "wrote s (writeUserData1 writeData writeDatas s m (Some (cells d)) (of_nat (length d))) (cells (packet1 (Msg m d))) (int (length d))"
proof -
  let ?hd = "\<lparr>jd_data = Some (cells (user_data_head1 m (length d))), jd_len = 5\<rparr>"
  let ?d = "\<lparr>jd_data = Some (cells d), jd_len = of_nat (length d)\<rparr>"
  have u: "unat (ucast (of_nat (length d) :: u32) :: u16) = length d" using assms(2) by (simp add: cast_len unat_of_nat_fits)
  have pack: "jmy_net_proto_pack_msgid_datalen (Some (replicate 5 None)) 5 m (ucast (of_nat (length d) :: u32)) =
      Some (5, Some (cells (user_data_head1 m (length d))))"
    using pack_msgid_datalen_ok [of "replicate 5 None" m "ucast (of_nat (length d) :: u32)"] u by simp
  have hd: "JmyData_cells ?hd = Some (cells (user_data_head1 m (length d)))" by (rule packet_cells) simp_all
  have l: "unat (of_nat (length d) :: u32) = length d" "sint (of_nat (length d) :: u32) = int (length d)"
    using assms(2) by (simp_all add: unat_of_nat_fits sint_small)
  show ?thesis
  proof (cases "d = []")
    case True
    from write_ok [OF assms(1) hd] obtain r s' where "writeData s ?hd = Some (r, s')" "inv s'"
      "stream s' = (if r then stream s @ cells (user_data_head1 m (length d)) else stream s)"
      "r \<longleftrightarrow> accepts s 5" using True by auto
    with pack True show ?thesis by (simp add: writeUserData1_def wrote_def)
  next
    case False
    have "those (map JmyData_cells [?hd, ?d]) = Some [cells (user_data_head1 m (length d)), cells d]"
      using hd l by (simp add: JmyData_cells_def char_cells_def)
    from writes_ok [OF assms(1) _ this] False assms(2)
    obtain r s' where "writeDatas s [?hd, ?d] = Some (r, s')" "inv s'"
      "stream s' = (if r then stream s @ cells (user_data_head1 m (length d)) @ cells d else stream s)" "r \<longleftrightarrow> accepts s (5 + length d)"
      by auto
    moreover have "(of_nat (length d) :: u32) \<noteq> 0" using False l(1) by fastforce
    ultimately show ?thesis using pack l(2) by (simp add: writeUserData1_def wrote_def)
  qed
qed

lemma writeUserIdAndData1_ok:
  assumes "inv s" "9 + length d < 2 ^ 16"
  shows "wrote s (writeUserIdAndData1 writeData writeDatas s u m (Some (cells d)) (of_nat (length d))) (cells (packet1 (UserMsg u m d))) (int (length d))"
proof -
  let ?hd = "\<lparr>jd_data = Some (cells (user_id_data_head1 u m (length d))), jd_len = 9\<rparr>"
  let ?d = "\<lparr>jd_data = Some (cells d), jd_len = ucast (of_nat (length d) :: u16)\<rparr>"
  have l: "unat (of_nat (length d) :: u16) = length d" "uint (of_nat (length d) :: u16) = int (length d)"
    using assms(2) by (simp_all add: unat_of_nat_fits uint_of_nat_fits)
  have pack: "jmy_net_proto_pack_userid_msgid_datalen (Some (replicate 9 None)) 9 u m (of_nat (length d)) =
      Some (9, Some (cells (user_id_data_head1 u m (length d))))"
    using pack_userid_msgid_datalen_ok [of "replicate 9 None" u m "of_nat (length d)"] l(1) by simp
  have hd: "JmyData_cells ?hd = Some (cells (user_id_data_head1 u m (length d)))" by (rule packet_cells) simp_all
  show ?thesis
  proof (cases "d = []")
    case True
    from write_ok [OF assms(1) hd] obtain r s' where "writeData s ?hd = Some (r, s')" "inv s'"
      "stream s' = (if r then stream s @ cells (user_id_data_head1 u m (length d)) else stream s)"
      "r \<longleftrightarrow> accepts s 9" using True by auto
    with pack True show ?thesis by (simp add: writeUserIdAndData1_def wrote_def)
  next
    case False
    have "those (map JmyData_cells [?hd, ?d]) = Some [cells (user_id_data_head1 u m (length d)), cells d]"
      using hd l by (simp add: JmyData_cells_def char_cells_def)
    from writes_ok [OF assms(1) _ this] False assms(2)
    obtain r s' where "writeDatas s [?hd, ?d] = Some (r, s')" "inv s'"
      "stream s' = (if r then stream s @ cells (user_id_data_head1 u m (length d)) @ cells d else stream s)" "r \<longleftrightarrow> accepts s (9 + length d)"
      by auto
    moreover have "(of_nat (length d) :: u16) \<noteq> 0" using False l(1) by fastforce
    ultimately show ?thesis using pack l(2) by (simp add: writeUserIdAndData1_def wrote_def)
  qed
qed

end

fun write_msg1 :: "JmySessionBufferList \<Rightarrow> message \<Rightarrow> (int \<times> JmySessionBufferList) option" where
  "write_msg1 l (Msg m d) = writeUserData1_list l m (Some (cells d)) (of_nat (length d))"
| "write_msg1 l (UserMsg u m d) = writeUserIdAndData1_list l u m (Some (cells d)) (of_nat (length d))"

fun write_all1 :: "JmySessionBufferList \<Rightarrow> message list \<Rightarrow> (int list \<times> JmySessionBufferList) option" where
  "write_all1 l [] = Some ([], l)"
| "write_all1 l (x # xs) = do {
     (r, l) \<leftarrow> write_msg1 l x;
     (rs, l) \<leftarrow> write_all1 l xs;
     Some (r # rs, l)
   }"

definition sendable1 :: "message \<Rightarrow> bool" where
  "sendable1 x \<longleftrightarrow> length (packet1 x) < 65536"

lemma sendable1_fits: "sendable1 x \<Longrightarrow> fits1 x"
  by (cases x) (auto simp: sendable1_def fits1_def)

lemma write_msg1_ok:
  assumes "bl_ok l \<and> unlimited l" "sendable1 x"
  shows "\<exists>l'. write_msg1 l x = Some (int (length (payload x)), l') \<and> (bl_ok l' \<and> unlimited l') \<and> bl_stream l' = bl_stream l @ cells (packet1 x)"
proof (cases x)
  case (Msg m d)
  then show ?thesis using ubl.writeUserData1_ok [OF assms(1), of d m] assms(2)
    by (auto simp: ubl.wrote_def writeUserData1_list_def sendable1_def)
next
  case (UserMsg u m d)
  then show ?thesis using ubl.writeUserIdAndData1_ok [OF assms(1), of d u m] assms(2)
    by (auto simp: ubl.wrote_def writeUserIdAndData1_list_def sendable1_def)
qed

lemma write_all1_ok:
  assumes "bl_ok l \<and> unlimited l" "list_all sendable1 xs"
  shows "\<exists>l'. write_all1 l xs = Some (map (int \<circ> length \<circ> payload) xs, l') \<and> bl_stream l' = bl_stream l @ cells (concat (map packet1 xs))"
  using assms
proof (induction xs arbitrary: l)
  case (Cons x xs)
  then obtain l1 where "write_msg1 l x = Some (int (length (payload x)), l1)" "bl_ok l1 \<and> unlimited l1" "bl_stream l1 = bl_stream l @ cells (packet1 x)"
    using write_msg1_ok [of l x] by auto
  with Cons.IH [of l1] Cons.prems(2) show ?case by auto
qed simp


section \<open>A buffer without unread bytes\<close>

lemma empty_turn:
  assumes "holds n b []" "last_seen cid (d1_unpack_data dh) x" "fits1 x" "route1 dh (mi_msg_id (info cid x)) \<noteq> nullptr"
  shows "processData1 (app_env1 act) n dh b cid = Some (0, n\<lparr>nt_app := deliver1 act dh cid (nt_app n) x\<rparr>, dh, b)"
proof -
  let ?u = "d1_unpack_data dh"
  have zero: "JmySessionBuffer_getReadLen b = 0" using holds_read(2) [OF assms(1)] by (simp add: unat_eq_zero)
  obtain r where r: "handleMsg1 (msg_code (app_env1 act)) dh (up_msg_info ?u) n = Some (r, n\<lparr>nt_app := deliver1 act dh cid (nt_app n) x\<rparr>)" "0 \<le> r"
    using handleMsg1_app [OF assms(4,3), of "up_msg_info ?u" act n] assms(2) by (auto simp: last_seen_def)
  have "jmy_net_proto_unpack_data_head (Some []) 0 ?u cid MGR_PTR = Some (0, ?u)" by (simp add: jmy_net_proto_unpack_data_head_def)
  then have "handleOne1 (app_env1 act) n dh b 0 cid = Some (0, n\<lparr>nt_app := deliver1 act dh cid (nt_app n) x\<rparr>, dh, b)"
    using holds_read(1) [OF assms(1)] zero r assms(2) by (auto simp: handleOne1_def last_seen_def user_type_def)
  then show ?thesis unfolding processData1_def
    by (subst processData1_loop.simps) (simp add: JmySessionBuffer_readLen_def)
qed

fun idle_turns :: "'a env \<Rightarrow> 'a net \<Rightarrow> JmyDataHandler \<Rightarrow> JmySessionBuffer \<Rightarrow> int \<Rightarrow> nat \<Rightarrow> 'a net option" where
  "idle_turns E n dh b cid 0 = Some n"
| "idle_turns E n dh b cid (Suc k) = do { (c, n, dh, b) \<leftarrow> processData1 E n dh b cid; idle_turns E n dh b cid k }"

lemma idle_turns_repeat:
  assumes "holds n b []" "last_seen cid (d1_unpack_data dh) x" "fits1 x" "route1 dh (mi_msg_id (info cid x)) \<noteq> nullptr"
  shows "\<exists>n'. idle_turns (app_env1 act) n dh b cid k = Some n' \<and> nt_app n' = ((\<lambda>a. deliver1 act dh cid a x) ^^ k) (nt_app n)"
  using assms
proof (induction k arbitrary: n)
  case (Suc k)
  have "holds (n\<lparr>nt_app := deliver1 act dh cid (nt_app n) x\<rparr>) b []" using Suc.prems(1) by (simp add: holds_def)
  from Suc.IH [OF this Suc.prems(2-4)] empty_turn [OF Suc.prems] show ?case
    by (auto simp: funpow_Suc_right simp del: funpow.simps(2))
qed simp

text \<open>
  A receive buffer that messages fill to its end is stuck and repeats the last of them. The messages are
  delivered, but the bytes are only counted as read: no room is made, so that nothing more can be read. A read of no bytes succeeds at once and the
  buffer is processed again; since there is nothing to unpack, the handler object still holds the last message, and each turn calls its handler once more.
\<close>

theorem full_buffer_repeats_last_message:
  assumes "holds n b []" "sb_write_offset b = 0" "list_all fits1 xs" "xs \<noteq> []" "length (concat (map packet1 xs)) = unat (sb_len b)"
    and "\<forall>x \<in> set xs. route1 dh (mi_msg_id (info cid x)) \<noteq> nullptr"
  shows "\<exists>n1 dh1 b1. feed (app_env1 act) n dh b cid (concat (map packet1 xs)) [unat (sb_len b)] = Some (int (length xs), n1, dh1, b1, []) \<and>
    JmySessionBuffer_getWriteLen b1 = 0 \<and>
    (\<forall>k. \<exists>n2. idle_turns (app_env1 act) n1 dh1 b1 cid k = Some n2 \<and>
       nt_app n2 = ((\<lambda>a. deliver1 act dh cid a (last xs)) ^^ k) (nt_app n1))"
proof -
  let ?w = "concat (map packet1 xs)"
  have room: "JmySessionBuffer_getWriteLen b = sb_len b" using assms(2) by (simp add: JmySessionBuffer_getWriteLen_def)
  have ne: "?w \<noteq> []" using assms(4) packet1_length(2) by (cases xs) auto
  obtain h b1 where w: "JmySessionBuffer_writeData (nt_heap n) b (data_of ?w) = Some (True, h, b1)" "holds (n\<lparr>nt_heap := h\<rparr>) b1 ([] @ ?w)"
    using holds_write [OF assms(1), of ?w] assms(5) room by auto
  have full: "JmySessionBuffer_getWriteLen b1 = 0"
    using w(1) assms(2,5) by (auto simp: JmySessionBuffer_writeData_def JmySessionBuffer_getWriteLen_def data_of_def word_of_unat_eq split: if_splits bind_splits)
  have "\<exists>h' u b2. processData1_loop (app_env1 act) (n\<lparr>nt_heap := h\<rparr>) dh b1 cid (JmySessionBuffer_getReadLen b1) 0 0 =
      Some (0 + int (length xs), n\<lparr>nt_heap := h\<rparr>\<lparr>nt_heap := h', nt_app := foldl (deliver1 act dh cid) (nt_app (n\<lparr>nt_heap := h\<rparr>)) xs\<rparr>, dh\<lparr>d1_unpack_data := u\<rparr>, b2) \<and>
      holds (n\<lparr>nt_heap := h\<rparr>\<lparr>nt_heap := h'\<rparr>) b2 [] \<and> sb_len b2 = sb_len b1 \<and>
      (([] :: u8 list) = [] \<longrightarrow> h' = nt_heap (n\<lparr>nt_heap := h\<rparr>) \<and> b2 = snd (JmySessionBuffer_readLen b1 (JmySessionBuffer_getReadLen b1)) \<and> last_seen cid u (last xs))"
    by (rule processData1_loop_messages [where pre = "[]" and zs = "[]"]) (use w(2) holds_read(2) [OF w(2)] assms in \<open>auto simp: tail_ok_def\<close>)
  then obtain u b2 where p: "processData1 (app_env1 act) (n\<lparr>nt_heap := h\<rparr>) dh b1 cid =
      Some (int (length xs), n\<lparr>nt_heap := h, nt_app := foldl (deliver1 act dh cid) (nt_app n) xs\<rparr>, dh\<lparr>d1_unpack_data := u\<rparr>, b2)"
      "holds (n\<lparr>nt_heap := h\<rparr>) b2 []" "b2 = snd (JmySessionBuffer_readLen b1 (JmySessionBuffer_getReadLen b1))" "last_seen cid u (last xs)"
    by (auto simp: processData1_def)
  let ?n1 = "n\<lparr>nt_heap := h, nt_app := foldl (deliver1 act dh cid) (nt_app n) xs\<rparr>" and ?dh = "dh\<lparr>d1_unpack_data := u\<rparr>"
  have "feed (app_env1 act) n dh b cid ?w [unat (sb_len b)] = Some (int (length xs), ?n1, ?dh, b2, [])"
    using w(1) p(1) ne assms(5) room by (simp add: Let_def del: concat_eq_Nil_conv)
  moreover have "JmySessionBuffer_getWriteLen b2 = 0" using full p(3) by (simp add: JmySessionBuffer_getWriteLen_def JmySessionBuffer_readLen_def)
  moreover have "\<exists>n2. idle_turns (app_env1 act) ?n1 ?dh b2 cid k = Some n2 \<and> nt_app n2 = ((\<lambda>a. deliver1 act ?dh cid a (last xs)) ^^ k) (nt_app ?n1)" for k
    by (rule idle_turns_repeat) (use p(2,4) assms(3,4,6) in \<open>auto simp: holds_def list_all_iff\<close>)
  ultimately show ?thesis by auto
qed

text \<open>A buffer of sixteen bytes, and a handler object whose default handler takes everything and records the payloads.\<close>

definition small_buffer :: "u32 \<Rightarrow> JmySessionBuffer" where
  "small_buffer sz = new_session_buffer\<lparr>sb_buff := 1, sb_len := sz, sb_type := SESSION_BUFFER_TYPE_RECV\<rparr>"

definition small_net :: "nat \<Rightarrow> cell list list net" where
  "small_net sz = (connected_net JMY_CONN_TYPE_PASSIVE 7 [])\<lparr>nt_heap := \<lparr>blocks = [1 \<mapsto> replicate sz None], fresh = 2\<rparr>\<rparr>"

definition recording_handler :: JmyDataHandler where
  "recording_handler = new_data_handler1\<lparr>d1_default_msg_handler := 9\<rparr>"

lemma small_holds: "sz < 2 ^ 31 \<Longrightarrow> holds (small_net sz) (small_buffer (of_nat sz)) []"
  using unat_of_nat_fits [of sz, where 'a = 32]
  by (simp add: holds_def small_net_def small_buffer_def new_session_buffer_def sb_ok_def sb_data_def block_of_size_def)

lemma recording_route: "route1 recording_handler m = 9"
  by (simp add: route1_def recording_handler_def new_data_handler1_def)


theorem full_buffer_repeats_last_message_witness:
  "\<exists>n1 dh1 b1. feed (app_env1 (\<lambda>f i a. a @ [mi_data i])) (small_net 16) recording_handler (small_buffer 16) 3
      (concat (map packet1 [Msg 1 [4, 5], UserMsg 2 3 []])) [16] = Some (2, n1, dh1, b1, []) \<and>
    JmySessionBuffer_getWriteLen b1 = 0 \<and>
    (\<forall>k. \<exists>n2. idle_turns (app_env1 (\<lambda>f i a. a @ [mi_data i])) n1 dh1 b1 3 k = Some n2 \<and>
       nt_app n2 = ((\<lambda>a. a @ [[]]) ^^ k) (nt_app n1))"
proof -
  have d: "deliver1 (\<lambda>f i a. a @ [mi_data i]) recording_handler 3 a (UserMsg 2 3 []) = a @ [[]]" for a
    by (simp add: deliver1_def msg_info_of_def)
  have "sb_len (small_buffer 16) = 16" "sb_write_offset (small_buffer 16) = 0" by (simp_all add: small_buffer_def new_session_buffer_def)
  with full_buffer_repeats_last_message [of "small_net 16" "small_buffer 16" "[Msg 1 [4, 5], UserMsg 2 3 []]" recording_handler 3 "\<lambda>f i a. a @ [mi_data i]"]
    small_holds [of 16] recording_route show ?thesis by (simp add: fits1_def d)
qed

section \<open>Packets that are not handled\<close>

text \<open>
  A heartbeat is looked at only when a byte follows it: at the end of the buffer it stays unread. An
  acknowledgement makes processing fail.
\<close>

lemma trailing_heartbeat_waits:
  assumes "holds n b (heartbeat_packet1 t)"
  shows "\<exists>u. processData1 E n dh b cid = Some (0, n, dh\<lparr>d1_unpack_data := u\<rparr>, b)"
proof -
  have len: "unat (JmySessionBuffer_getReadLen b) = 5" using holds_read(2) [OF assms] by simp
  then have "JmySessionBuffer_getReadLen b = 5" by (metis of_nat_numeral word_of_unat_eq)
  then have "handleOne1 E n dh b 0 cid = Some (0, n, dh\<lparr>d1_unpack_data := (d1_unpack_data dh)\<lparr>up_type := 7, up_result := JMY_UNPACK_RESULT_DATA_NOT_ENOUGH\<rparr>\<rparr>, b)"
    using holds_read(1) [OF assms] by (simp add: handleOne1_def jmy_net_proto_unpack_data_head_def heartbeat_packet1_def peek_def)
  then show ?thesis unfolding processData1_def
    by (subst processData1_loop.simps) (auto simp: JmySessionBuffer_readLen_def)
qed

lemma acknowledgement_fails:
  assumes "holds n b (ack @ rest)" "ack = [6, c0, c1, i0, i1]" "rest \<noteq> []"
  shows "\<exists>u. processData1 E n dh b cid = Some (- 1, n, dh\<lparr>d1_unpack_data := u\<rparr>, b)"
proof -
  have len: "unat (JmySessionBuffer_getReadLen b) = 5 + length rest" using holds_read(2) [OF assms(1)] assms(2) by simp
  then have nz: "JmySessionBuffer_getReadLen b \<noteq> 0" by auto
  have "\<not> JmySessionBuffer_getReadLen b - 1 \<le> 4" using len unat_minus_one [OF nz] assms(3) by (cases rest) (simp_all add: word_le_nat_alt)
  then have "\<exists>u. handleOne1 E n dh b 0 cid = Some (- 1, n, dh\<lparr>d1_unpack_data := u\<rparr>, b)"
    using holds_read(1) [OF assms(1)] nz assms(2)
    by (simp add: handleOne1_def jmy_net_proto_unpack_data_head_def peek_def UNPACK_INT16_FROM_BUFF_def) blast
  then show ?thesis unfolding processData1_def by (subst processData1_loop.simps) auto
qed

end
