(* ===== verification/Login_Users.thy ===== *)
theory Login_Users
  imports Server_Common
begin

text \<open>
  The users of the login server, \<open>login_server/user.h\<close> and \<open>login_server/user.cpp\<close>. A user is held by the id of its connection, and
  accounts are mapped to ids. The handlers of the login server do not use it; they keep clients in an \<open>AgentManager\<close>.
\<close>

datatype UserState =
    USER_STATE_IDLE
  | USER_STATE_LOGINING
  | USER_STATE_VERIFIED
  | USER_STATE_ENTERING_GAME
  | USER_STATE_IN_GAME
  | USER_STATE_QUIT_GAME

record User =
  us_id :: int
  us_mgr :: nat
  us_account :: string
  us_state :: UserState

definition User_init :: "int \<Rightarrow> nat \<Rightarrow> string \<Rightarrow> User" where
  "User_init cid mgr account = \<lparr>us_id = cid, us_mgr = mgr, us_account = account, us_state = USER_STATE_IDLE\<rparr>"

definition User_sendMsg :: "'a net \<Rightarrow> User \<Rightarrow> i32 \<Rightarrow> u8 list \<Rightarrow> (int \<times> 'a net) option" where
  "User_sendMsg n u msgid bs =
     (if us_state u \<noteq> USER_STATE_VERIFIED then Some (0, n)
      else do {
        require (us_mgr u \<noteq> 0);
        case mgr_get n (us_id u) of
          None \<Rightarrow> Some (- 1, n)
        | Some c \<Rightarrow> do { (r, n) \<leftarrow> conn_send n c msgid bs; Some (if r < 0 then - 1 else 0, n) }
      })"

record UserManager =
  um_account2id :: "string \<Rightarrow> int option"
  um_id2user :: "int \<Rightarrow> User option"

definition new_user_manager :: UserManager where
  "new_user_manager = \<lparr>um_account2id = Map.empty, um_id2user = Map.empty\<rparr>"

definition newUser :: "UserManager \<Rightarrow> int \<Rightarrow> nat \<Rightarrow> string \<Rightarrow> User option \<times> UserManager" where
  "newUser m cid mgr account =
     (if um_id2user m cid \<noteq> None then (None, m)
      else if um_account2id m account \<noteq> None then (None, m)
      else
        let user = User_init cid mgr account
        in (Some user, m\<lparr>um_id2user := (um_id2user m)(cid \<mapsto> user), um_account2id := (um_account2id m)(account \<mapsto> cid)\<rparr>))"

definition getUserById :: "UserManager \<Rightarrow> int \<Rightarrow> User option" where
  "getUserById m cid = um_id2user m cid"

definition getUser :: "UserManager \<Rightarrow> string \<Rightarrow> User option" where
  "getUser m account = (case um_account2id m account of None \<Rightarrow> None | Some cid \<Rightarrow> getUserById m cid)"

definition deleteUserById :: "UserManager \<Rightarrow> int \<Rightarrow> bool \<times> UserManager" where
  "deleteUserById m cid =
     (if um_id2user m cid = None then (False, m) else (True, m\<lparr>um_id2user := (um_id2user m)(cid := None)\<rparr>))"

definition deleteUser :: "UserManager \<Rightarrow> string \<Rightarrow> bool \<times> UserManager" where
  "deleteUser m account =
     (case um_account2id m account of
        None \<Rightarrow> (False, m)
      | Some cid \<Rightarrow>
          let (ok, m) = deleteUserById m cid
          in if \<not> ok then (False, m) else (True, m\<lparr>um_account2id := (um_account2id m)(account := None)\<rparr>))"

definition setUserStateById :: "UserManager \<Rightarrow> int \<Rightarrow> UserState \<Rightarrow> bool \<times> UserManager" where
  "setUserStateById m cid state =
     (case um_id2user m cid of
        None \<Rightarrow> (False, m)
      | Some user \<Rightarrow> (True, m\<lparr>um_id2user := (um_id2user m)(cid \<mapsto> user\<lparr>us_state := state\<rparr>)\<rparr>))"

definition setUserState :: "UserManager \<Rightarrow> string \<Rightarrow> UserState \<Rightarrow> bool \<times> UserManager" where
  "setUserState m account state =
     (case um_account2id m account of None \<Rightarrow> (False, m) | Some cid \<Rightarrow> setUserStateById m cid state)"

section \<open>Users by account\<close>

definition um_ok :: "UserManager \<Rightarrow> bool" where
  "um_ok m \<longleftrightarrow> (\<forall>a i. um_account2id m a = Some i \<longrightarrow> (\<exists>u. um_id2user m i = Some u \<and> us_account u = a)) \<and>
     (\<forall>i u. um_id2user m i = Some u \<longrightarrow> us_id u = i \<and> um_account2id m (us_account u) = Some i)"

lemma um_okD:
  assumes "um_ok m"
  shows "um_account2id m a = Some i \<Longrightarrow> \<exists>u. um_id2user m i = Some u \<and> us_account u = a"
    and "um_id2user m i = Some u \<Longrightarrow> us_id u = i" and "um_id2user m i = Some u \<Longrightarrow> um_account2id m (us_account u) = Some i"
  using assms by (auto simp: um_ok_def)

datatype user_op = NewUser int nat string | DeleteUser string | SetState string UserState

fun user_step :: "user_op \<Rightarrow> UserManager \<Rightarrow> bool \<times> UserManager" where
  "user_step (NewUser i mgr a) m = (let (u, m) = newUser m i mgr a in (u \<noteq> None, m))"
| "user_step (DeleteUser a) m = deleteUser m a"
| "user_step (SetState a s) m = setUserState m a s"

fun spec_user_step :: "user_op \<Rightarrow> (string \<Rightarrow> User option) \<Rightarrow> bool \<times> (string \<Rightarrow> User option)" where
  "spec_user_step (NewUser i mgr a) f =
     (if a \<in> dom f \<or> i \<in> us_id ` ran f then (False, f) else (True, f(a \<mapsto> User_init i mgr a)))"
| "spec_user_step (DeleteUser a) f = (if a \<in> dom f then (True, f(a := None)) else (False, f))"
| "spec_user_step (SetState a s) f = (case f a of None \<Rightarrow> (False, f) | Some u \<Rightarrow> (True, f(a \<mapsto> u\<lparr>us_state := s\<rparr>)))"

lemma getUser_eq: "um_account2id m a = Some i \<Longrightarrow> getUser m a = um_id2user m i" "um_account2id m a = None \<Longrightarrow> getUser m a = None"
  by (simp_all add: getUser_def getUserById_def)

lemma getUser_dom: "um_ok m \<Longrightarrow> a \<in> dom (getUser m) \<longleftrightarrow> um_account2id m a \<noteq> None"
  by (cases "um_account2id m a") (auto simp: getUser_eq dest: um_okD(1))

lemma getUser_ids: "um_ok m \<Longrightarrow> i \<in> us_id ` ran (getUser m) \<longleftrightarrow> um_id2user m i \<noteq> None"
proof
  assume ok: "um_ok m" and "i \<in> us_id ` ran (getUser m)"
  then obtain a u where u: "getUser m a = Some u" "us_id u = i" by (auto simp: ran_def)
  then obtain j where "um_account2id m a = Some j" by (cases "um_account2id m a") (simp_all add: getUser_eq)
  with u ok show "um_id2user m i \<noteq> None" by (auto simp: getUser_eq dest: um_okD(2))
next
  assume ok: "um_ok m" and "um_id2user m i \<noteq> None"
  then obtain u where u: "um_id2user m i = Some u" by auto
  then have "getUser m (us_account u) = Some u" "us_id u = i" using um_okD [OF ok] by (simp_all add: getUser_eq)
  then show "i \<in> us_id ` ran (getUser m)" by (force simp: ran_def)
qed

lemma newUser_ok:
  assumes ok: "um_ok m"
  shows "um_ok (snd (newUser m i mgr a)) \<and> getUser (snd (newUser m i mgr a)) = snd (spec_user_step (NewUser i mgr a) (getUser m)) \<and>
    (fst (newUser m i mgr a) \<noteq> None) = fst (spec_user_step (NewUser i mgr a) (getUser m))"
proof (cases "um_id2user m i = None \<and> um_account2id m a = None")
  case True
  let ?m = "m\<lparr>um_id2user := (um_id2user m)(i \<mapsto> User_init i mgr a), um_account2id := (um_account2id m)(a \<mapsto> i)\<rparr>"
  have "um_ok ?m" using True um_okD [OF ok] unfolding um_ok_def by (force simp: User_init_def)
  moreover have "getUser ?m = (getUser m)(a \<mapsto> User_init i mgr a)"
    using True um_okD(1) [OF ok] by (fastforce simp: getUser_def getUserById_def split: option.splits)
  ultimately show ?thesis using True getUser_dom [OF ok] getUser_ids [OF ok] by (simp add: newUser_def Let_def)
next
  case False
  then show ?thesis using ok getUser_dom [OF ok] getUser_ids [OF ok] by (auto simp: newUser_def)
qed

lemma deleteUser_ok:
  assumes ok: "um_ok m"
  shows "um_ok (snd (deleteUser m a)) \<and> getUser (snd (deleteUser m a)) = snd (spec_user_step (DeleteUser a) (getUser m)) \<and>
    fst (deleteUser m a) = fst (spec_user_step (DeleteUser a) (getUser m))"
proof (cases "um_account2id m a")
  case None
  then show ?thesis using ok getUser_dom [OF ok] by (simp add: deleteUser_def)
next
  case (Some i)
  then obtain u where u: "um_id2user m i = Some u" "us_account u = a" using um_okD(1) [OF ok] by blast
  let ?m = "m\<lparr>um_id2user := (um_id2user m)(i := None), um_account2id := (um_account2id m)(a := None)\<rparr>"
  have other: "j = i" if "um_id2user m j = Some v" "us_account v = a" for j v
    using um_okD(3) [OF ok that(1)] that(2) Some by simp
  have uniq: "x = a" if "um_account2id m x = Some i" for x using um_okD(1) [OF ok that] u by auto
  have "um_ok ?m"
    unfolding um_ok_def
  proof (intro conjI allI impI)
    fix x j
    assume "um_account2id ?m x = Some j"
    then have x: "x \<noteq> a" "um_account2id m x = Some j" by (simp_all split: if_splits)
    then have "j \<noteq> i" using uniq by blast
    then show "\<exists>v. um_id2user ?m j = Some v \<and> us_account v = x" using um_okD(1) [OF ok x(2)] by simp
  next
    fix j v
    assume "um_id2user ?m j = Some v"
    then have v: "j \<noteq> i" "um_id2user m j = Some v" by (simp_all split: if_splits)
    then show "us_id v = j" "um_account2id ?m (us_account v) = Some j" using um_okD(2,3) [OF ok v(2)] other by auto
  qed
  moreover have "getUser ?m = (getUser m)(a := None)"
    using um_okD(1) [OF ok] Some u by (fastforce simp: getUser_def getUserById_def split: option.splits)
  ultimately show ?thesis using Some u getUser_dom [OF ok] by (simp add: deleteUser_def deleteUserById_def)
qed

lemma setUserState_ok:
  assumes ok: "um_ok m"
  shows "um_ok (snd (setUserState m a s)) \<and> getUser (snd (setUserState m a s)) = snd (spec_user_step (SetState a s) (getUser m)) \<and>
    fst (setUserState m a s) = fst (spec_user_step (SetState a s) (getUser m))"
proof (cases "um_account2id m a")
  case None
  then show ?thesis using ok by (simp add: setUserState_def getUser_eq)
next
  case (Some i)
  then obtain u where u: "um_id2user m i = Some u" "us_account u = a" using um_okD(1) [OF ok] by blast
  let ?m = "m\<lparr>um_id2user := (um_id2user m)(i \<mapsto> u\<lparr>us_state := s\<rparr>)\<rparr>"
  have uniq: "x = a" if "um_account2id m x = Some i" for x using um_okD(1) [OF ok that] u by auto
  have "um_ok ?m"
    unfolding um_ok_def
  proof (intro conjI allI impI)
    fix x j
    assume "um_account2id ?m x = Some j"
    then have x: "um_account2id m x = Some j" by simp
    then show "\<exists>v. um_id2user ?m j = Some v \<and> us_account v = x"
      using um_okD(1) [OF ok x] uniq [of x] u(2) x by (cases "j = i") auto
  next
    fix j v
    assume "um_id2user ?m j = Some v"
    then obtain w where "um_id2user m j = Some w" "us_id v = us_id w" "us_account v = us_account w"
      using u(1) by (cases "j = i") auto
    then show "us_id v = j" "um_account2id ?m (us_account v) = Some j" using um_okD(2,3) [OF ok, of j w] by simp_all
  qed
  moreover have "getUser ?m = (getUser m)(a \<mapsto> u\<lparr>us_state := s\<rparr>)"
  proof
    fix x
    show "getUser ?m x = ((getUser m)(a \<mapsto> u\<lparr>us_state := s\<rparr>)) x"
    proof (cases "um_account2id m x")
      case None
      then show ?thesis using Some by (auto simp: getUser_def)
    next
      case (Some j)
      then have "j = i \<longleftrightarrow> x = a" using uniq [of x] \<open>um_account2id m a = Some i\<close> by auto
      then show ?thesis using Some by (auto simp: getUser_def getUserById_def)
    qed
  qed
  ultimately show ?thesis using Some u by (simp add: setUserState_def setUserStateById_def getUser_eq)
qed

lemma user_step_ok:
  assumes "um_ok m"
  shows "um_ok (snd (user_step x m)) \<and> getUser (snd (user_step x m)) = snd (spec_user_step x (getUser m)) \<and>
    fst (user_step x m) = fst (spec_user_step x (getUser m))"
  using newUser_ok [OF assms] deleteUser_ok [OF assms] setUserState_ok [OF assms]
  by (cases x) (simp_all del: spec_user_step.simps add: case_prod_beta Let_def)

fun user_run :: "(user_op \<Rightarrow> 's \<Rightarrow> bool \<times> 's) \<Rightarrow> user_op list \<Rightarrow> 's \<Rightarrow> bool list \<times> 's" where
  "user_run f [] s = ([], s)"
| "user_run f (x # xs) s = (let (r, s) = f x s; (rs, s) = user_run f xs s in (r # rs, s))"

lemma user_run_ok:
  "um_ok m \<Longrightarrow> um_ok (snd (user_run user_step xs m)) \<and>
    (fst (user_run user_step xs m), getUser (snd (user_run user_step xs m))) = user_run spec_user_step xs (getUser m)"
proof (induction xs arbitrary: m)
  case (Cons x xs)
  from user_step_ok [OF Cons.prems, of x] Cons.IH [of "snd (user_step x m)"] show ?case
    by (simp add: case_prod_beta Let_def del: user_step.simps spec_user_step.simps) (metis fst_conv snd_conv)
qed simp


section \<open>Deletion by id\<close>

text \<open>
  A user that is deleted by its id leaves its account behind: the account can neither log in again nor be deleted, and once
  the id is used again, a lookup of the account gives the user of another.
\<close>

theorem deletion_by_id_keeps_account:
  assumes "um_ok m" "getUserById m i = Some u"
  shows "\<exists>m'. deleteUserById m i = (True, m') \<and> (\<forall>j mgr. fst (newUser m' j mgr (us_account u)) = None) \<and> deleteUser m' (us_account u) = (False, m') \<and>
    (\<forall>a mgr. um_account2id m a = None \<longrightarrow> getUser (snd (newUser m' i mgr a)) (us_account u) = Some (User_init i mgr a))"
proof -
  have u: "um_id2user m i = Some u" using assms(2) by (simp add: getUserById_def)
  have acc: "um_account2id m (us_account u) = Some i" using um_okD(3) [OF assms(1) u] .
  let ?m = "m\<lparr>um_id2user := (um_id2user m)(i := None)\<rparr>"
  have "deleteUserById m i = (True, ?m)" using u by (simp add: deleteUserById_def)
  moreover have "fst (newUser ?m j mgr (us_account u)) = None" for j mgr using acc by (simp add: newUser_def)
  moreover have "deleteUser ?m (us_account u) = (False, ?m)" using acc by (simp add: deleteUser_def deleteUserById_def)
  moreover have "getUser (snd (newUser ?m i mgr a)) (us_account u) = Some (User_init i mgr a)" if "um_account2id m a = None" for a mgr
    using acc that by (auto simp: newUser_def getUser_def getUserById_def Let_def)
  ultimately show ?thesis by (intro exI [of _ ?m]) simp
qed

end
