(* ===== verification/Server_Config.thy ===== *)
theory Server_Config
  imports Json_Value Server_Common
begin

text \<open>
  The configuration files of the servers: the five classes \<open>ConfigLoader\<close> of \<open>gate_server\<close>, \<open>login_server\<close>, \<open>config_server\<close>,
  \<open>game_server\<close> and \<open>db_server\<close>, and \<open>ServerConfigReader\<close> of \<open>common\<close>. A loader reads the members of a JSON document one after
  the other into the fields of its configuration. The loaders differ in what an absent member means, so a member is read under one of
  four rules. Files and rapidjson are parameters.
\<close>

section \<open>Reading members\<close>

text \<open>
  An absent member makes the loader return false (\<open>Checked\<close>), fails an assertion because it is read without a test (\<open>Asserted\<close>), or is
  passed over (\<open>Optional\<close>, and \<open>Lenient\<close> when a member of another type is passed over as well).
\<close>

datatype presence = Checked | Asserted | Optional | Lenient

type_synonym 'c field = "json_value \<Rightarrow> 'c \<Rightarrow> (bool \<times> 'c) option"

definition read_member :: "presence \<Rightarrow> string \<Rightarrow> (json_value \<Rightarrow> 'v option) \<Rightarrow> ('v \<Rightarrow> 'c \<Rightarrow> bool \<times> 'c) \<Rightarrow> 'c field" where
  "read_member p key get put doc c = do {
     m \<leftarrow> find_member doc key;
     case m of
       None \<Rightarrow> (case p of Checked \<Rightarrow> Some (False, c) | Asserted \<Rightarrow> None | _ \<Rightarrow> Some (True, c))
     | Some v \<Rightarrow> (case get v of None \<Rightarrow> Some (p = Lenient, c) | Some x \<Rightarrow> Some (put x c))
   }"

definition read_string :: "presence \<Rightarrow> string \<Rightarrow> (string \<Rightarrow> 'c \<Rightarrow> 'c) \<Rightarrow> 'c field" where
  "read_string p key put = read_member p key get_string (\<lambda>x c. (True, put x c))"

definition read_int :: "presence \<Rightarrow> string \<Rightarrow> (int \<Rightarrow> 'c \<Rightarrow> 'c) \<Rightarrow> 'c field" where
  "read_int p key put = read_member p key get_int (\<lambda>x c. (True, put x c))"

definition read_bool :: "presence \<Rightarrow> string \<Rightarrow> (bool \<Rightarrow> 'c \<Rightarrow> 'c) \<Rightarrow> 'c field" where
  "read_bool p key put = read_member p key get_bool (\<lambda>x c. (True, put x c))"

text \<open>The id is stored before its type is looked at.\<close>

definition read_id :: "presence \<Rightarrow> string \<Rightarrow> int \<Rightarrow> (int \<Rightarrow> 'c \<Rightarrow> 'c) \<Rightarrow> 'c field" where
  "read_id p key server_type put = read_member p key get_int (\<lambda>x c. (get_server_type x = server_type, put x c))"

text \<open>The members in the order of the source, up to the first that makes the loader return.\<close>

fun load_fields :: "'c field list \<Rightarrow> json_value \<Rightarrow> 'c \<Rightarrow> (bool \<times> 'c) option" where
  "load_fields [] doc c = Some (True, c)"
| "load_fields (f # fs) doc c = do { (ok, c) \<leftarrow> f doc c; if ok then load_fields fs doc c else Some (False, c) }"

record 'c config_loader =
  cf_config :: 'c
  cf_jsonpath :: string

text \<open>
  \<open>loadJson\<close> up to the members is the same text in the five loaders: open the file, read it by lines, parse it. The path is
  remembered only when everything was read.
\<close>

definition load_file :: "'c field list \<Rightarrow> (string \<Rightarrow> json_value option) \<Rightarrow> (string \<Rightarrow> string option) \<Rightarrow> 'c config_loader \<Rightarrow> string \<Rightarrow> (bool \<times> 'c config_loader) option" where
  "load_file fs parse files L path =
     (case files path of
        None \<Rightarrow> Some (False, L)
      | Some text \<Rightarrow>
          (case parse (cstr (read_lines text)) of
             None \<Rightarrow> Some (False, L)
           | Some doc \<Rightarrow> do {
               (ok, c) \<leftarrow> load_fields fs doc (cf_config L);
               if ok then Some (True, \<lparr>cf_config = c, cf_jsonpath = path\<rparr>) else Some (False, L\<lparr>cf_config := c\<rparr>)
             }))"

section \<open>The five configurations\<close>

abbreviation (input) SERVER_TYPE_GATE :: int where "SERVER_TYPE_GATE \<equiv> 2"
abbreviation (input) SERVER_TYPE_CONFIG :: int where "SERVER_TYPE_CONFIG \<equiv> 3"
abbreviation (input) SERVER_TYPE_GAME :: int where "SERVER_TYPE_GAME \<equiv> 4"
abbreviation (input) SERVER_TYPE_DB :: int where "SERVER_TYPE_DB \<equiv> 5"

record gate_server_config =
  gcf_name :: string
  gcf_id :: int
  gcf_ip :: string
  gcf_port :: u16
  gcf_max_conn :: int
  gcf_enable_reconnect :: bool
  gcf_listen_game_ip :: string
  gcf_listen_game_port :: u16
  gcf_listen_game_max_conn :: int
  gcf_listen_game_enable_reconnect :: bool
  gcf_connect_config_ip :: string
  gcf_connect_config_port :: u16
  gcf_connect_config_enable_reconnect :: bool
  gcf_log_conf_path :: string

definition gate_fields :: "gate_server_config field list" where
  "gate_fields = [
     read_string Checked ''server_name'' (\<lambda>x c. c\<lparr>gcf_name := x\<rparr>),
     read_id Checked ''server_id'' SERVER_TYPE_GATE (\<lambda>x c. c\<lparr>gcf_id := x\<rparr>),
     read_string Checked ''server_ip'' (\<lambda>x c. c\<lparr>gcf_ip := x\<rparr>),
     read_int Checked ''server_port'' (\<lambda>x c. c\<lparr>gcf_port := word_of_int x\<rparr>),
     read_int Checked ''max_conn'' (\<lambda>x c. c\<lparr>gcf_max_conn := x\<rparr>),
     read_bool Checked ''enable_reconnect'' (\<lambda>x c. c\<lparr>gcf_enable_reconnect := x\<rparr>),
     read_string Checked ''listen_game_ip'' (\<lambda>x c. c\<lparr>gcf_listen_game_ip := x\<rparr>),
     read_int Checked ''listen_game_port'' (\<lambda>x c. c\<lparr>gcf_listen_game_port := word_of_int x\<rparr>),
     read_int Checked ''listen_game_max_conn'' (\<lambda>x c. c\<lparr>gcf_listen_game_max_conn := x\<rparr>),
     read_string Checked ''connect_config_ip'' (\<lambda>x c. c\<lparr>gcf_connect_config_ip := x\<rparr>),
     read_int Checked ''connect_config_port'' (\<lambda>x c. c\<lparr>gcf_connect_config_port := word_of_int x\<rparr>),
     read_bool Checked ''connect_config_enable_reconnect'' (\<lambda>x c. c\<lparr>gcf_connect_config_enable_reconnect := x\<rparr>),
     read_string Lenient ''log_conf_path'' (\<lambda>x c. c\<lparr>gcf_log_conf_path := x\<rparr>)]"

record login_server_config =
  lcf_name :: string
  lcf_id :: int
  lcf_ip :: string
  lcf_port :: u16
  lcf_max_conn :: int
  lcf_enable_reconnect :: bool
  lcf_listen_gate_ip :: string
  lcf_listen_gate_port :: u16
  lcf_listen_gate_max_conn :: int
  lcf_listen_gate_enable_reconnect :: bool
  lcf_connect_config_ip :: string
  lcf_connect_config_port :: u16
  lcf_connect_config_enable_reconnect :: bool
  lcf_log_conf_path :: string

definition login_fields :: "login_server_config field list" where
  "login_fields = [
     read_string Asserted ''server_name'' (\<lambda>x c. c\<lparr>lcf_name := x\<rparr>),
     read_id Asserted ''server_id'' SERVER_TYPE_LOGIN (\<lambda>x c. c\<lparr>lcf_id := x\<rparr>),
     read_string Asserted ''server_ip'' (\<lambda>x c. c\<lparr>lcf_ip := x\<rparr>),
     read_int Asserted ''server_port'' (\<lambda>x c. c\<lparr>lcf_port := word_of_int x\<rparr>),
     read_int Asserted ''max_conn'' (\<lambda>x c. c\<lparr>lcf_max_conn := x\<rparr>),
     read_bool Asserted ''enable_reconnect'' (\<lambda>x c. c\<lparr>lcf_enable_reconnect := x\<rparr>),
     read_string Asserted ''listen_gate_ip'' (\<lambda>x c. c\<lparr>lcf_listen_gate_ip := x\<rparr>),
     read_int Asserted ''listen_gate_port'' (\<lambda>x c. c\<lparr>lcf_listen_gate_port := word_of_int x\<rparr>),
     read_int Asserted ''listen_gate_max_conn'' (\<lambda>x c. c\<lparr>lcf_listen_gate_max_conn := x\<rparr>),
     read_bool Asserted ''listen_gate_enable_reconnect'' (\<lambda>x c. c\<lparr>lcf_listen_gate_enable_reconnect := x\<rparr>),
     read_string Asserted ''connect_config_ip'' (\<lambda>x c. c\<lparr>lcf_connect_config_ip := x\<rparr>),
     read_int Asserted ''connect_config_port'' (\<lambda>x c. c\<lparr>lcf_connect_config_port := word_of_int x\<rparr>),
     read_bool Asserted ''connect_config_enable_reconnect'' (\<lambda>x c. c\<lparr>lcf_connect_config_enable_reconnect := x\<rparr>),
     read_string Asserted ''log_conf_path'' (\<lambda>x c. c\<lparr>lcf_log_conf_path := x\<rparr>)]"

record config_server_config =
  ccf_name :: string
  ccf_id :: int
  ccf_ip :: string
  ccf_port :: u16
  ccf_max_conn :: int
  ccf_enable_reconnect :: bool
  ccf_gate_list_conf_path_type :: u8
  ccf_gate_list_conf_local_path :: string
  ccf_gate_list_conf_remote_path :: string
  ccf_log_conf_path :: string

definition config_fields :: "config_server_config field list" where
  "config_fields = [
     read_string Asserted ''server_name'' (\<lambda>x c. c\<lparr>ccf_name := x\<rparr>),
     read_id Asserted ''server_id'' SERVER_TYPE_CONFIG (\<lambda>x c. c\<lparr>ccf_id := x\<rparr>),
     read_string Asserted ''server_ip'' (\<lambda>x c. c\<lparr>ccf_ip := x\<rparr>),
     read_int Asserted ''server_port'' (\<lambda>x c. c\<lparr>ccf_port := word_of_int x\<rparr>),
     read_int Asserted ''max_conn'' (\<lambda>x c. c\<lparr>ccf_max_conn := x\<rparr>),
     read_bool Asserted ''enable_reconnect'' (\<lambda>x c. c\<lparr>ccf_enable_reconnect := x\<rparr>),
     read_int Asserted ''gate_list_conf_path_type'' (\<lambda>x c. c\<lparr>ccf_gate_list_conf_path_type := word_of_int x\<rparr>),
     read_string Asserted ''gate_list_conf_local_path'' (\<lambda>x c. c\<lparr>ccf_gate_list_conf_local_path := x\<rparr>),
     read_string Asserted ''gate_list_conf_remote_path'' (\<lambda>x c. c\<lparr>ccf_gate_list_conf_remote_path := x\<rparr>),
     read_string Asserted ''log_conf_path'' (\<lambda>x c. c\<lparr>ccf_log_conf_path := x\<rparr>)]"

record game_server_config =
  mcf_name :: string
  mcf_id :: int
  mcf_ip :: string
  mcf_port :: u16
  mcf_max_conn :: int
  mcf_enable_reconnect :: bool
  mcf_connect_gate_ip :: string
  mcf_connect_gate_port :: u16
  mcf_connect_gate_enable_reconnect :: bool
  mcf_connect_db_ip :: string
  mcf_connect_db_port :: u16
  mcf_connect_db_enable_reconnect :: bool
  mcf_log_conf_path :: string

definition game_fields :: "game_server_config field list" where
  "game_fields = [
     read_string Optional ''name'' (\<lambda>x c. c\<lparr>mcf_name := x\<rparr>),
     read_id Optional ''id'' SERVER_TYPE_GAME (\<lambda>x c. c\<lparr>mcf_id := x\<rparr>),
     read_string Optional ''ip'' (\<lambda>x c. c\<lparr>mcf_ip := x\<rparr>),
     read_int Optional ''port'' (\<lambda>x c. c\<lparr>mcf_port := word_of_int x\<rparr>),
     read_int Optional ''max_conn'' (\<lambda>x c. c\<lparr>mcf_max_conn := x\<rparr>),
     read_bool Optional ''enable_reconnect'' (\<lambda>x c. c\<lparr>mcf_enable_reconnect := x\<rparr>),
     read_string Optional ''connect_gate_ip'' (\<lambda>x c. c\<lparr>mcf_connect_gate_ip := x\<rparr>),
     read_int Optional ''connect_gate_port'' (\<lambda>x c. c\<lparr>mcf_connect_gate_port := word_of_int x\<rparr>),
     read_bool Optional ''connect_gate_enable_reconnect'' (\<lambda>x c. c\<lparr>mcf_connect_gate_enable_reconnect := x\<rparr>),
     read_string Optional ''connect_db_ip'' (\<lambda>x c. c\<lparr>mcf_connect_db_ip := x\<rparr>),
     read_int Optional ''connect_db_port'' (\<lambda>x c. c\<lparr>mcf_connect_db_port := word_of_int x\<rparr>),
     read_bool Optional ''connect_db_enable_reconnect'' (\<lambda>x c. c\<lparr>mcf_connect_db_enable_reconnect := x\<rparr>),
     read_string Optional ''log_conf_path'' (\<lambda>x c. c\<lparr>mcf_log_conf_path := x\<rparr>)]"

record db_server_config =
  dcf_name :: string
  dcf_id :: int
  dcf_ip :: string
  dcf_port :: u16
  dcf_max_conn :: int
  dcf_enable_reconnect :: bool
  dcf_log_conf_path :: string
  dcf_mysql_host :: string
  dcf_mysql_port :: u16
  dcf_mysql_user :: string
  dcf_mysql_password :: string
  dcf_mysql_dbname :: string

definition db_fields :: "db_server_config field list" where
  "db_fields = [
     read_string Checked ''name'' (\<lambda>x c. c\<lparr>dcf_name := x\<rparr>),
     read_id Checked ''id'' SERVER_TYPE_DB (\<lambda>x c. c\<lparr>dcf_id := x\<rparr>),
     read_string Checked ''ip'' (\<lambda>x c. c\<lparr>dcf_ip := x\<rparr>),
     read_int Checked ''port'' (\<lambda>x c. c\<lparr>dcf_port := word_of_int x\<rparr>),
     read_int Checked ''max_conn'' (\<lambda>x c. c\<lparr>dcf_max_conn := x\<rparr>),
     read_bool Checked ''enable_reconnect'' (\<lambda>x c. c\<lparr>dcf_enable_reconnect := x\<rparr>),
     read_string Checked ''log_conf_path'' (\<lambda>x c. c\<lparr>dcf_log_conf_path := x\<rparr>),
     read_string Checked ''mysql_host'' (\<lambda>x c. c\<lparr>dcf_mysql_host := x\<rparr>),
     read_int Checked ''mysql_port'' (\<lambda>x c. c\<lparr>dcf_mysql_port := word_of_int x\<rparr>),
     read_string Checked ''mysql_user'' (\<lambda>x c. c\<lparr>dcf_mysql_user := x\<rparr>),
     read_string Checked ''mysql_password'' (\<lambda>x c. c\<lparr>dcf_mysql_password := x\<rparr>),
     read_string Checked ''mysql_dbname'' (\<lambda>x c. c\<lparr>dcf_mysql_dbname := x\<rparr>)]"

definition gate_loadJson :: "(string \<Rightarrow> json_value option) \<Rightarrow> (string \<Rightarrow> string option) \<Rightarrow> gate_server_config config_loader \<Rightarrow> string \<Rightarrow> (bool \<times> gate_server_config config_loader) option" where
  "gate_loadJson = load_file gate_fields"

definition login_loadJson :: "(string \<Rightarrow> json_value option) \<Rightarrow> (string \<Rightarrow> string option) \<Rightarrow> login_server_config config_loader \<Rightarrow> string \<Rightarrow> (bool \<times> login_server_config config_loader) option" where
  "login_loadJson = load_file login_fields"

definition config_loadJson :: "(string \<Rightarrow> json_value option) \<Rightarrow> (string \<Rightarrow> string option) \<Rightarrow> config_server_config config_loader \<Rightarrow> string \<Rightarrow> (bool \<times> config_server_config config_loader) option" where
  "config_loadJson = load_file config_fields"

definition game_loadJson :: "(string \<Rightarrow> json_value option) \<Rightarrow> (string \<Rightarrow> string option) \<Rightarrow> game_server_config config_loader \<Rightarrow> string \<Rightarrow> (bool \<times> game_server_config config_loader) option" where
  "game_loadJson = load_file game_fields"

definition db_loadJson :: "(string \<Rightarrow> json_value option) \<Rightarrow> (string \<Rightarrow> string option) \<Rightarrow> db_server_config config_loader \<Rightarrow> string \<Rightarrow> (bool \<times> db_server_config config_loader) option" where
  "db_loadJson = load_file db_fields"

text \<open>\<open>reload\<close> loads the remembered path again; \<open>clear\<close> and \<open>close\<close> have empty bodies.\<close>

definition reload :: "((string \<Rightarrow> string option) \<Rightarrow> 'c config_loader \<Rightarrow> string \<Rightarrow> (bool \<times> 'c config_loader) option) \<Rightarrow> (string \<Rightarrow> string option) \<Rightarrow> 'c config_loader \<Rightarrow> (bool \<times> 'c config_loader) option" where
  "reload load files L = load files L (cf_jsonpath L)"

section \<open>ServerConfigReader\<close>

record ServerNode =
  sn_name :: string
  sn_id :: int
  sn_ip :: string
  sn_port :: u16
  sn_max_conn :: int
  sn_support_reconnect :: bool

record ClientNode =
  cn_name :: string
  cn_id :: int
  cn_ip :: string
  cn_port :: u16

abbreviation (input) MaxClientNodeNum :: nat where "MaxClientNodeNum \<equiv> 32"

record ServerConfigReader =
  cr_server_node :: ServerNode
  cr_client_nodes :: "ClientNode list"

text \<open>Both node arrays hold \<open>MaxClientNodeNum\<close> places; ports are \<open>short\<close>.\<close>

definition server_node_fields :: "ServerNode field list" where
  "server_node_fields = [
     read_string Asserted ''name'' (\<lambda>x c. c\<lparr>sn_name := x\<rparr>),
     read_int Asserted ''id'' (\<lambda>x c. c\<lparr>sn_id := x\<rparr>),
     read_string Asserted ''ip'' (\<lambda>x c. c\<lparr>sn_ip := x\<rparr>),
     read_int Asserted ''port'' (\<lambda>x c. c\<lparr>sn_port := word_of_int x\<rparr>),
     read_int Asserted ''max_conn'' (\<lambda>x c. c\<lparr>sn_max_conn := x\<rparr>),
     read_bool Asserted ''enable_reconnect'' (\<lambda>x c. c\<lparr>sn_support_reconnect := x\<rparr>)]"

definition parseServerNode :: "json_value \<Rightarrow> ServerConfigReader \<Rightarrow> (bool \<times> ServerConfigReader) option" where
  "parseServerNode doc R = do {
     m \<leftarrow> find_member doc ''server'';
     v \<leftarrow> m;
     if v = JNull then Some (False, R)
     else do {
       (ok, c) \<leftarrow> load_fields server_node_fields v (cr_server_node R);
       Some (ok, R\<lparr>cr_server_node := c\<rparr>)
     }
   }"

definition client_node_fields :: "ClientNode field list" where
  "client_node_fields = [
     read_string Asserted ''name'' (\<lambda>x c. c\<lparr>cn_name := x\<rparr>),
     read_int Asserted ''id'' (\<lambda>x c. c\<lparr>cn_id := x\<rparr>),
     read_string Asserted ''ip'' (\<lambda>x c. c\<lparr>cn_ip := x\<rparr>),
     read_int Asserted ''port'' (\<lambda>x c. c\<lparr>cn_port := word_of_int x\<rparr>)]"

fun parse_nodes :: "nat \<Rightarrow> json_value list \<Rightarrow> ClientNode list \<Rightarrow> (bool \<times> ClientNode list) option" where
  "parse_nodes i [] ns = Some (True, ns)"
| "parse_nodes i (v # vs) ns =
     (if MaxClientNodeNum - 1 \<le> i then Some (True, ns)
      else case v of
        JObject _ \<Rightarrow> do {
          require (i < length ns);
          (ok, c) \<leftarrow> load_fields client_node_fields v (ns ! i);
          if ok then parse_nodes (Suc i) vs (ns[i := c]) else Some (False, ns[i := c])
        }
      | _ \<Rightarrow> Some (False, ns))"

definition parseClientNodes :: "json_value \<Rightarrow> ServerConfigReader \<Rightarrow> (bool \<times> ServerConfigReader) option" where
  "parseClientNodes doc R = do {
     m \<leftarrow> find_member doc ''clients'';
     v \<leftarrow> m;
     case v of
       JNull \<Rightarrow> Some (True, R)
     | JArray vs \<Rightarrow> do { (ok, ns) \<leftarrow> parse_nodes 0 vs (cr_client_nodes R); Some (ok, R\<lparr>cr_client_nodes := ns\<rparr>) }
     | _ \<Rightarrow> Some (False, R)
   }"

definition reader_loadJson :: "(string \<Rightarrow> json_value option) \<Rightarrow> (string \<Rightarrow> string option) \<Rightarrow> ServerConfigReader \<Rightarrow> string \<Rightarrow> (bool \<times> ServerConfigReader) option" where
  "reader_loadJson parse files R path =
     (case files path of
        None \<Rightarrow> Some (False, R)
      | Some text \<Rightarrow>
          (case parse (cstr (read_lines text)) of
             None \<Rightarrow> Some (False, R)
           | Some doc \<Rightarrow> do {
               (ok, R) \<leftarrow> parseServerNode doc R;
               if \<not> ok then Some (False, R) else parseClientNodes doc R
             }))"

text \<open>A negative index is out of bounds; the last place of the array is never handed out.\<close>

definition getClientNode :: "ServerConfigReader \<Rightarrow> int \<Rightarrow> ClientNode option option" where
  "getClientNode R index =
     (if index \<ge> int MaxClientNodeNum - 1 then Some None
      else do { require (0 \<le> index \<and> nat index < length (cr_client_nodes R)); Some (Some (cr_client_nodes R ! nat index)) })"

section \<open>Reading what a file says\<close>

lemmas member_readers = read_member_def read_string_def read_int_def read_bool_def read_id_def

lemma load_fields_append:
  "load_fields (fs @ gs) doc c = do { (ok, c) \<leftarrow> load_fields fs doc c; if ok then load_fields gs doc c else Some (False, c) }"
  by (induction fs arbitrary: c) (auto split: Option.bind_splits)

text \<open>
  A format of configurations: the members that describe a configuration, and what a configuration becomes by reading them. A file that
  describes a configuration is read to it, whatever was there before, and reloading follows the file.
\<close>

definition describes :: "(string \<Rightarrow> json_value option) \<Rightarrow> (string \<Rightarrow> string option) \<Rightarrow> string \<Rightarrow> json_object \<Rightarrow> bool" where
  "describes parse files path ms \<longleftrightarrow> (\<exists>text. files path = Some text \<and> parse (cstr (read_lines text)) = Some (JObject ms))"

locale config_format =
  fixes readers :: "'c field list" and members :: "'c \<Rightarrow> json_object" and plain :: "'c \<Rightarrow> bool" and over :: "'c \<Rightarrow> 'c \<Rightarrow> 'c"
  assumes reads_all: "plain c \<Longrightarrow> load_fields readers (JObject (members c)) old = Some (True, over old c)"
    and over_over: "over (over old c) d = over old d"
begin

lemma load_file_reads:
  assumes "plain c" "describes parse files path (members c)"
  shows "load_file readers parse files L path = Some (True, \<lparr>cf_config = over (cf_config L) c, cf_jsonpath = path\<rparr>)"
  using assms by (auto simp: load_file_def describes_def reads_all)

lemma load_then_reload:
  assumes "plain c" "describes parse files path (members c)" "plain d" "describes parse files' path (members d)"
  shows "do { (ok, L) \<leftarrow> load_file readers parse files L path; reload (load_file readers parse) files' L } =
    Some (True, \<lparr>cf_config = over (cf_config L) d, cf_jsonpath = path\<rparr>)"
  by (simp add: load_file_reads [OF assms(1,2)] load_file_reads [OF assms(3,4)] reload_def over_over)

end

text \<open>The members that describe a configuration, in the order of the loader.\<close>

definition no_null :: "string \<Rightarrow> bool" where
  "no_null s \<longleftrightarrow> CHR 0x00 \<notin> set s"

lemma no_null_cstr [simp]: "no_null s \<Longrightarrow> cstr s = s"
  by (simp add: no_null_def cstr_plain)

definition gate_members :: "gate_server_config \<Rightarrow> json_object" where
  "gate_members c = [(''server_name'', JString (gcf_name c)), (''server_id'', JInt (gcf_id c)), (''server_ip'', JString (gcf_ip c)),
     (''server_port'', JInt (uint (gcf_port c))), (''max_conn'', JInt (gcf_max_conn c)), (''enable_reconnect'', JBool (gcf_enable_reconnect c)),
     (''listen_game_ip'', JString (gcf_listen_game_ip c)), (''listen_game_port'', JInt (uint (gcf_listen_game_port c))),
     (''listen_game_max_conn'', JInt (gcf_listen_game_max_conn c)), (''connect_config_ip'', JString (gcf_connect_config_ip c)),
     (''connect_config_port'', JInt (uint (gcf_connect_config_port c))),
     (''connect_config_enable_reconnect'', JBool (gcf_connect_config_enable_reconnect c)), (''log_conf_path'', JString (gcf_log_conf_path c))]"

definition gate_plain :: "gate_server_config \<Rightarrow> bool" where
  "gate_plain c \<longleftrightarrow> get_server_type (gcf_id c) = SERVER_TYPE_GATE \<and>
     list_all no_null [gcf_name c, gcf_ip c, gcf_listen_game_ip c, gcf_connect_config_ip c, gcf_log_conf_path c]"

definition login_members :: "login_server_config \<Rightarrow> json_object" where
  "login_members c = [(''server_name'', JString (lcf_name c)), (''server_id'', JInt (lcf_id c)), (''server_ip'', JString (lcf_ip c)),
     (''server_port'', JInt (uint (lcf_port c))), (''max_conn'', JInt (lcf_max_conn c)), (''enable_reconnect'', JBool (lcf_enable_reconnect c)),
     (''listen_gate_ip'', JString (lcf_listen_gate_ip c)), (''listen_gate_port'', JInt (uint (lcf_listen_gate_port c))),
     (''listen_gate_max_conn'', JInt (lcf_listen_gate_max_conn c)), (''listen_gate_enable_reconnect'', JBool (lcf_listen_gate_enable_reconnect c)),
     (''connect_config_ip'', JString (lcf_connect_config_ip c)), (''connect_config_port'', JInt (uint (lcf_connect_config_port c))),
     (''connect_config_enable_reconnect'', JBool (lcf_connect_config_enable_reconnect c)), (''log_conf_path'', JString (lcf_log_conf_path c))]"

definition login_plain :: "login_server_config \<Rightarrow> bool" where
  "login_plain c \<longleftrightarrow> get_server_type (lcf_id c) = SERVER_TYPE_LOGIN \<and>
     list_all no_null [lcf_name c, lcf_ip c, lcf_listen_gate_ip c, lcf_connect_config_ip c, lcf_log_conf_path c]"

definition config_members :: "config_server_config \<Rightarrow> json_object" where
  "config_members c = [(''server_name'', JString (ccf_name c)), (''server_id'', JInt (ccf_id c)), (''server_ip'', JString (ccf_ip c)),
     (''server_port'', JInt (uint (ccf_port c))), (''max_conn'', JInt (ccf_max_conn c)), (''enable_reconnect'', JBool (ccf_enable_reconnect c)),
     (''gate_list_conf_path_type'', JInt (uint (ccf_gate_list_conf_path_type c))),
     (''gate_list_conf_local_path'', JString (ccf_gate_list_conf_local_path c)),
     (''gate_list_conf_remote_path'', JString (ccf_gate_list_conf_remote_path c)), (''log_conf_path'', JString (ccf_log_conf_path c))]"

definition config_plain :: "config_server_config \<Rightarrow> bool" where
  "config_plain c \<longleftrightarrow> get_server_type (ccf_id c) = SERVER_TYPE_CONFIG \<and>
     list_all no_null [ccf_name c, ccf_ip c, ccf_gate_list_conf_local_path c, ccf_gate_list_conf_remote_path c, ccf_log_conf_path c]"

definition game_members :: "game_server_config \<Rightarrow> json_object" where
  "game_members c = [(''name'', JString (mcf_name c)), (''id'', JInt (mcf_id c)), (''ip'', JString (mcf_ip c)),
     (''port'', JInt (uint (mcf_port c))), (''max_conn'', JInt (mcf_max_conn c)), (''enable_reconnect'', JBool (mcf_enable_reconnect c)),
     (''connect_gate_ip'', JString (mcf_connect_gate_ip c)), (''connect_gate_port'', JInt (uint (mcf_connect_gate_port c))),
     (''connect_gate_enable_reconnect'', JBool (mcf_connect_gate_enable_reconnect c)),
     (''connect_db_ip'', JString (mcf_connect_db_ip c)), (''connect_db_port'', JInt (uint (mcf_connect_db_port c))),
     (''connect_db_enable_reconnect'', JBool (mcf_connect_db_enable_reconnect c)), (''log_conf_path'', JString (mcf_log_conf_path c))]"

definition game_plain :: "game_server_config \<Rightarrow> bool" where
  "game_plain c \<longleftrightarrow> get_server_type (mcf_id c) = SERVER_TYPE_GAME \<and>
     list_all no_null [mcf_name c, mcf_ip c, mcf_connect_gate_ip c, mcf_connect_db_ip c, mcf_log_conf_path c]"

definition db_members :: "db_server_config \<Rightarrow> json_object" where
  "db_members c = [(''name'', JString (dcf_name c)), (''id'', JInt (dcf_id c)), (''ip'', JString (dcf_ip c)),
     (''port'', JInt (uint (dcf_port c))), (''max_conn'', JInt (dcf_max_conn c)), (''enable_reconnect'', JBool (dcf_enable_reconnect c)),
     (''log_conf_path'', JString (dcf_log_conf_path c)), (''mysql_host'', JString (dcf_mysql_host c)),
     (''mysql_port'', JInt (uint (dcf_mysql_port c))), (''mysql_user'', JString (dcf_mysql_user c)),
     (''mysql_password'', JString (dcf_mysql_password c)), (''mysql_dbname'', JString (dcf_mysql_dbname c))]"

definition db_plain :: "db_server_config \<Rightarrow> bool" where
  "db_plain c \<longleftrightarrow> get_server_type (dcf_id c) = SERVER_TYPE_DB \<and>
     list_all no_null [dcf_name c, dcf_ip c, dcf_log_conf_path c, dcf_mysql_host c, dcf_mysql_user c, dcf_mysql_password c, dcf_mysql_dbname c]"

text \<open>The gate never reads \<open>listen_game_enable_reconnect\<close>: it keeps the value it had.\<close>

interpretation gate_format: config_format gate_fields gate_members gate_plain
    "\<lambda>old c. c\<lparr>gcf_listen_game_enable_reconnect := gcf_listen_game_enable_reconnect old\<rparr>"
  by unfold_locales (simp_all add: gate_fields_def gate_members_def gate_plain_def member_readers)

interpretation login_format: config_format login_fields login_members login_plain "\<lambda>old c. c"
  by unfold_locales (simp_all add: login_fields_def login_members_def login_plain_def member_readers)

interpretation center_format: config_format config_fields config_members config_plain "\<lambda>old c. c"
  by unfold_locales (simp_all add: config_fields_def config_members_def config_plain_def member_readers)

interpretation game_format: config_format game_fields game_members game_plain "\<lambda>old c. c"
  by unfold_locales (simp_all add: game_fields_def game_members_def game_plain_def member_readers)

interpretation db_format: config_format db_fields db_members db_plain "\<lambda>old c. c"
  by unfold_locales (simp_all add: db_fields_def db_members_def db_plain_def member_readers)

definition describe_both :: "(string \<Rightarrow> json_value option) \<Rightarrow> (string \<Rightarrow> string option) \<Rightarrow> (string \<Rightarrow> string option) \<Rightarrow> string \<Rightarrow> json_object \<Rightarrow> json_object \<Rightarrow> bool" where
  "describe_both parse files files' path ms ms' \<longleftrightarrow> describes parse files path ms \<and> describes parse files' path ms'"


text \<open>
  A load that fails has already changed the configuration: when the file lacks the address of the config server, the gate returns false
  with the fields of its own and of the game server taken from the file and the others as they were.
\<close>

theorem failed_load_mixes_configs:
  assumes "gate_plain c" "describes parse files path (filter (\<lambda>(key, _). key \<noteq> ''connect_config_ip'') (gate_members c))"
  shows "gate_loadJson parse files L path = Some (False, L\<lparr>cf_config :=
    c\<lparr>gcf_listen_game_enable_reconnect := gcf_listen_game_enable_reconnect (cf_config L),
      gcf_connect_config_ip := gcf_connect_config_ip (cf_config L), gcf_connect_config_port := gcf_connect_config_port (cf_config L),
      gcf_connect_config_enable_reconnect := gcf_connect_config_enable_reconnect (cf_config L),
      gcf_log_conf_path := gcf_log_conf_path (cf_config L)\<rparr>\<rparr>)"
proof -
  obtain t where "files path = Some t"
    "parse (cstr (read_lines t)) = Some (JObject (filter (\<lambda>(key, _). key \<noteq> ''connect_config_ip'') (gate_members c)))"
    using assms(2) by (auto simp: describes_def)
  then show ?thesis using assms(1)
    by (simp add: gate_loadJson_def load_file_def gate_fields_def gate_members_def gate_plain_def member_readers)
qed

definition sample_gate :: "int \<Rightarrow> gate_server_config" where
  "sample_gate i = \<lparr>gcf_name = ''gate'', gcf_id = 20000 + i, gcf_ip = ''ip'', gcf_port = 7, gcf_max_conn = 5, gcf_enable_reconnect = True,
     gcf_listen_game_ip = ''gip'', gcf_listen_game_port = 8, gcf_listen_game_max_conn = 2, gcf_listen_game_enable_reconnect = False,
     gcf_connect_config_ip = ''cip'', gcf_connect_config_port = 9, gcf_connect_config_enable_reconnect = True, gcf_log_conf_path = ''log''\<rparr>"


section \<open>Client nodes\<close>

definition node_members :: "ClientNode \<Rightarrow> json_object" where
  "node_members c = [(''name'', JString (cn_name c)), (''id'', JInt (cn_id c)), (''ip'', JString (cn_ip c)), (''port'', JInt (uint (cn_port c)))]"

definition node_plain :: "ClientNode \<Rightarrow> bool" where
  "node_plain c \<longleftrightarrow> no_null (cn_name c) \<and> no_null (cn_ip c)"

interpretation node_format: config_format client_node_fields node_members node_plain "\<lambda>old c. c"
  by unfold_locales (simp_all add: client_node_fields_def node_members_def node_plain_def member_readers)

lemma parse_nodes_reads:
  assumes "list_all node_plain cs" "length ns = 32" "i \<le> 31"
  shows "parse_nodes i (map (\<lambda>c. JObject (node_members c)) cs) ns = Some (True, take i ns @ take (31 - i) cs @ drop (i + min (31 - i) (length cs)) ns)"
  using assms
proof (induction cs arbitrary: i ns)
  case (Cons c cs)
  show ?case
  proof (cases "i = 31")
    case False
    with Cons.prems have i: "i < 31" by simp
    then have "parse_nodes (Suc i) (map (\<lambda>c. JObject (node_members c)) cs) (ns[i := c]) =
        Some (True, take (Suc i) (ns[i := c]) @ take (31 - Suc i) cs @ drop (Suc i + min (31 - Suc i) (length cs)) (ns[i := c]))"
      using Cons.prems by (intro Cons.IH) simp_all
    moreover have "take (Suc i) (ns[i := c]) = take i ns @ [c]" using i Cons.prems(2) by (simp add: take_Suc_conv_app_nth)
    moreover have "take (31 - i) (c # cs) = c # take (31 - Suc i) cs" using i by (simp add: Suc_diff_Suc take_Cons')
    moreover have "i + min (31 - i) (length (c # cs)) = Suc i + min (31 - Suc i) (length cs)" using i by simp
    ultimately show ?thesis using i Cons.prems by (simp add: node_format.reads_all)
  qed simp
qed simp

text \<open>Of the client nodes of a file the first 31 are read; the array has 32 places and is never left.\<close>

theorem client_nodes_loaded:
  assumes "list_all node_plain cs" "length (cr_client_nodes R) = 32"
    and "find_member doc ''clients'' = Some (Some (JArray (map (\<lambda>c. JObject (node_members c)) cs)))"
  shows "\<exists>R'. parseClientNodes doc R = Some (True, R') \<and> length (cr_client_nodes R') = 32 \<and>
    (\<forall>i\<ge>0. getClientNode R' i =
      Some (if 31 \<le> i then None else Some (if nat i < length cs then cs ! nat i else cr_client_nodes R ! nat i)))"
  using assms parse_nodes_reads [OF assms(1,2), of 0]
  by (auto simp: parseClientNodes_def getClientNode_def nth_append min_def)

end
