(* ===== verification/Http_Request.thy ===== *)
theory Http_Request
  imports Datatypes "HOL-Library.Multiset"
begin

text \<open>
  The HTTP client of \<open>curl/\<close>: \<open>HttpRequest\<close> (\<open>http_request.cpp\<close>), the pool and the list of \<open>http_request_common.hpp\<close>,
  \<open>HttpRequestProcessor\<close> (\<open>http_request_processor.cpp\<close>) and \<open>HttpRequestMgr\<close> (\<open>http_request_mgr.cpp\<close>). libcurl is outside the sources: what its
  functions return is an argument of the operations, and a call that would use a handle after its \<open>curl_easy_cleanup\<close> is undefined.
  \<open>boost::lockfree::queue\<close> is an unbounded queue. Calls of callbacks are recorded in \<open>ht_calls\<close>; calling a null function is undefined.
  Requests and handles are addresses; 0 is the null pointer.
\<close>

section \<open>State\<close>

record HttpResponse =
  rs_error_code :: int
  rs_data :: "u8 list option"
  rs_len :: nat
  rs_user_data :: nat

text \<open>What was set on an easy handle.\<close>

record easy_options =
  eo_url :: string
  eo_get :: bool
  eo_post :: bool
  eo_postfields :: string
  eo_private :: nat

record http =
  ht_eh :: "nat \<Rightarrow> nat"
  ht_func_map :: "nat \<Rightarrow> (fptr \<times> nat) option"
  ht_easy :: "nat \<Rightarrow> easy_options option"
  ht_calls :: "(fptr \<times> HttpResponse) list"
  ht_free_queue :: "nat list"
  ht_max_size :: int
  ht_list :: "nat list"
  ht_handle :: nat
  ht_curr_nprocess :: int
  ht_max_nprocess :: int
  ht_reqs_map :: "nat \<Rightarrow> nat option"
  ht_do_statistics :: bool
  ht_msg_processed :: int
  ht_msg_failed :: int
  ht_msg_last_processed :: int
  ht_msg_last_failed :: int

abbreviation (input) DEFAULT_MAX_PROCESS_COUNT :: int where "DEFAULT_MAX_PROCESS_COUNT \<equiv> 2000"
abbreviation (input) DEFAULT_MAX_REQUEST_COUNT :: int where "DEFAULT_MAX_REQUEST_COUNT \<equiv> 5000"

definition new_http :: http where
  "new_http = \<lparr>ht_eh = (\<lambda>_. 0), ht_func_map = Map.empty, ht_easy = Map.empty, ht_calls = [], ht_free_queue = [], ht_max_size = 0, ht_list = [],
     ht_handle = 0, ht_curr_nprocess = 0, ht_max_nprocess = 0, ht_reqs_map = Map.empty, ht_do_statistics = False, ht_msg_processed = 0,
     ht_msg_failed = 0, ht_msg_last_processed = 0, ht_msg_last_failed = 0\<rparr>"

section \<open>HttpRequest\<close>

definition no_options :: easy_options where
  "no_options = \<lparr>eo_url = [], eo_get = False, eo_post = False, eo_postfields = [], eo_private = 0\<rparr>"

text \<open>\<open>init\<close>; \<open>h\<close> is what \<open>curl_easy_init\<close> returns.\<close>

definition req_init :: "nat \<Rightarrow> nat \<Rightarrow> http \<Rightarrow> bool \<times> http" where
  "req_init h r s =
     (let s = s\<lparr>ht_eh := (ht_eh s)(r := h)\<rparr>
      in if h = 0 then (False, s) else (True, s\<lparr>ht_easy := (ht_easy s)(h \<mapsto> no_options)\<rparr>))"

text \<open>\<open>eh_\<close> keeps the handle that was cleaned up.\<close>

definition req_close :: "nat \<Rightarrow> http \<Rightarrow> http option" where
  "req_close r s =
     (if ht_eh s r = 0 then Some s
      else do {
        let m = (case ht_func_map s r of None \<Rightarrow> ht_func_map s | Some _ \<Rightarrow> (ht_func_map s)(r \<mapsto> (nullptr, 0)));
        require (ht_easy s (ht_eh s r) \<noteq> None);
        Some (s\<lparr>ht_func_map := m, ht_easy := (ht_easy s)(ht_eh s r := None)\<rparr>)
      })"

definition easy_setopt :: "(easy_options \<Rightarrow> easy_options) \<Rightarrow> nat \<Rightarrow> http \<Rightarrow> http option" where
  "easy_setopt f r s =
     (if ht_eh s r = 0 then Some s
      else do { o1 \<leftarrow> ht_easy s (ht_eh s r); Some (s\<lparr>ht_easy := (ht_easy s)(ht_eh s r \<mapsto> f o1)\<rparr>) })"

definition setGet :: "bool \<Rightarrow> nat \<Rightarrow> http \<Rightarrow> http option" where
  "setGet enable = easy_setopt (\<lambda>o1. o1\<lparr>eo_get := enable\<rparr>)"

definition setPost :: "bool \<Rightarrow> nat \<Rightarrow> http \<Rightarrow> http option" where
  "setPost enable = easy_setopt (\<lambda>o1. o1\<lparr>eo_post := enable\<rparr>)"

definition setPostContent :: "string \<Rightarrow> nat \<Rightarrow> http \<Rightarrow> http option" where
  "setPostContent content = easy_setopt (\<lambda>o1. o1\<lparr>eo_postfields := content\<rparr>)"

definition req_setUrl :: "string \<Rightarrow> nat \<Rightarrow> http \<Rightarrow> http option" where
  "req_setUrl url = easy_setopt (\<lambda>o1. o1\<lparr>eo_url := url\<rparr>)"

definition setPrivate :: "nat \<Rightarrow> nat \<Rightarrow> http \<Rightarrow> http option" where
  "setPrivate p = easy_setopt (\<lambda>o1. o1\<lparr>eo_private := p\<rparr>)"

definition set_resp_func :: "nat \<Rightarrow> fptr \<Rightarrow> nat \<Rightarrow> http \<Rightarrow> http" where
  "set_resp_func r func userdata s =
     (case ht_func_map s r of None \<Rightarrow> s | Some _ \<Rightarrow> s\<lparr>ht_func_map := (ht_func_map s)(r \<mapsto> (func, userdata))\<rparr>)"

definition storeInMap :: "nat \<Rightarrow> http \<Rightarrow> http" where
  "storeInMap r s = (if ht_func_map s r = None then s\<lparr>ht_func_map := (ht_func_map s)(r \<mapsto> (nullptr, 0))\<rparr> else s)"

definition removeFromMap :: "nat \<Rightarrow> http \<Rightarrow> http" where
  "removeFromMap r s = s\<lparr>ht_func_map := (ht_func_map s)(r := None)\<rparr>"

definition call_func :: "fptr \<Rightarrow> HttpResponse \<Rightarrow> http \<Rightarrow> http option" where
  "call_func func response s = do { require (func \<noteq> nullptr); Some (s\<lparr>ht_calls := ht_calls s @ [(func, response)]\<rparr>) }"

text \<open>
  A piece of a response arrives: \<open>code\<close> is the HTTP status that libcurl gives. With another status than 200 the callback gets the
  status and no data.
\<close>

definition default_resp_func :: "nat \<Rightarrow> int \<Rightarrow> u8 list \<Rightarrow> http \<Rightarrow> (nat \<times> http) option" where
  "default_resp_func r code bytes s =
     (case ht_func_map s r of
        None \<Rightarrow> Some (length bytes, s)
      | Some (func, param) \<Rightarrow> do {
          s \<leftarrow> call_func func
            (if code \<noteq> 200 then \<lparr>rs_error_code = code, rs_data = None, rs_len = 0, rs_user_data = param\<rparr>
             else \<lparr>rs_error_code = 0, rs_data = Some bytes, rs_len = length bytes, rs_user_data = param\<rparr>) s;
          Some (length bytes, s)
        })"

definition call_error_func :: "nat \<Rightarrow> int \<Rightarrow> http \<Rightarrow> http option" where
  "call_error_func r error s =
     (case ht_func_map s r of
        None \<Rightarrow> Some s
      | Some (func, param) \<Rightarrow> call_func func \<lparr>rs_error_code = error, rs_data = None, rs_len = 0, rs_user_data = 0\<rparr> s)"

section \<open>Pool and list\<close>

definition lockfree_push :: "'a \<Rightarrow> 'a list \<Rightarrow> bool \<times> 'a list" where
  "lockfree_push x q = (True, q @ [x])"

fun lockfree_pop :: "'a list \<Rightarrow> ('a \<times> 'a list) option" where
  "lockfree_pop [] = None"
| "lockfree_pop (x # q) = Some (x, q)"

text \<open>\<open>ThreadSafeObjPool::init\<close>; \<open>objs\<close> are the addresses that \<open>new\<close> gives, one for each turn.\<close>

fun obj_pool_fill :: "nat list \<Rightarrow> http \<Rightarrow> http" where
  "obj_pool_fill [] s = s"
| "obj_pool_fill (p # ps) s = obj_pool_fill ps (storeInMap p (s\<lparr>ht_eh := (ht_eh s)(p := 0), ht_free_queue := snd (lockfree_push p (ht_free_queue s))\<rparr>))"

definition http_pool_init :: "(nat \<Rightarrow> nat) \<Rightarrow> int \<Rightarrow> http \<Rightarrow> bool \<times> http" where
  "http_pool_init objs max_size s =
     (if max_size \<le> 0 then (False, s) else (True, (obj_pool_fill (map objs [0..<nat max_size]) s)\<lparr>ht_max_size := max_size\<rparr>))"

text \<open>\<open>clear\<close> calls \<open>removeFromMap\<close> on the request it has deleted.\<close>

definition pool_clear :: "http \<Rightarrow> http option" where
  "pool_clear s = (case lockfree_pop (ht_free_queue s) of None \<Rightarrow> Some s | Some _ \<Rightarrow> None)"

definition pool_malloc :: "http \<Rightarrow> nat \<times> http" where
  "pool_malloc s = (case lockfree_pop (ht_free_queue s) of None \<Rightarrow> (0, s) | Some (p, q) \<Rightarrow> (p, s\<lparr>ht_free_queue := q\<rparr>))"

definition pool_free :: "nat \<Rightarrow> http \<Rightarrow> bool \<times> http" where
  "pool_free p s = (let (ok, q) = lockfree_push p (ht_free_queue s) in (ok, s\<lparr>ht_free_queue := q\<rparr>))"

definition pool_notEmpty :: "http \<Rightarrow> bool" where
  "pool_notEmpty s \<longleftrightarrow> ht_free_queue s \<noteq> []"

section \<open>HttpRequestProcessor\<close>

definition processor_init :: "nat \<Rightarrow> int \<Rightarrow> http \<Rightarrow> bool \<times> http" where
  "processor_init m max_nprocess s =
     (let s = s\<lparr>ht_handle := m\<rparr>
      in if m = 0 then (False, s) else (True, s\<lparr>ht_max_nprocess := (if max_nprocess \<le> 0 then DEFAULT_MAX_PROCESS_COUNT else max_nprocess)\<rparr>))"

definition checkMaxProcess :: "http \<Rightarrow> bool" where
  "checkMaxProcess s \<longleftrightarrow> ht_max_nprocess s \<le> ht_curr_nprocess s"

text \<open>
  The map has handles as keys and is searched for the request. \<open>add_ok\<close> tells for which handles \<open>curl_multi_add_handle\<close> succeeds.
\<close>

definition processor_addReq :: "(nat \<Rightarrow> bool) \<Rightarrow> nat \<Rightarrow> http \<Rightarrow> (bool \<times> http) option" where
  "processor_addReq add_ok r s =
     (if ht_handle s = 0 then Some (False, s)
      else if ht_reqs_map s r \<noteq> None then Some (False, s)
      else if checkMaxProcess s then Some (False, s)
      else do {
        require (ht_easy s (ht_eh s r) \<noteq> None);
        if \<not> add_ok (ht_eh s r) then Some (False, s)
        else
          let m = (if ht_reqs_map s (ht_eh s r) = None then (ht_reqs_map s)(ht_eh s r \<mapsto> r) else ht_reqs_map s)
          in Some (True, s\<lparr>ht_reqs_map := m, ht_curr_nprocess := ht_curr_nprocess s + 1\<rparr>)
      })"

definition removeReq :: "(nat \<Rightarrow> bool) \<Rightarrow> nat \<Rightarrow> http \<Rightarrow> bool \<times> http" where
  "removeReq remove_ok h s =
     (if h = 0 then (False, s)
      else if ht_reqs_map s h = None then (False, s)
      else if \<not> remove_ok h then (False, s)
      else (True, s\<lparr>ht_reqs_map := (ht_reqs_map s)(h := None),
        ht_curr_nprocess := (if ht_curr_nprocess s > 0 then ht_curr_nprocess s - 1 else ht_curr_nprocess s)\<rparr>))"

text \<open>\<open>HttpRequestMgr::freeReq\<close>.\<close>

definition freeReq :: "nat \<Rightarrow> http \<Rightarrow> http option" where
  "freeReq r s = do { s \<leftarrow> req_close r s; Some (snd (pool_free r s)) }"

definition count_failed :: "http \<Rightarrow> http" where
  "count_failed s = (if ht_do_statistics s then s\<lparr>ht_msg_failed := ht_msg_failed s + 1, ht_msg_last_failed := ht_msg_last_failed s + 1\<rparr> else s)"

definition count_processed :: "http \<Rightarrow> http" where
  "count_processed s = (if ht_do_statistics s then s\<lparr>ht_msg_processed := ht_msg_processed s + 1\<rparr> else s)"

text \<open>
  A message of \<open>curl_multi_info_read\<close>: the handle, whether it is \<open>CURLMSG_DONE\<close>, and the result. The request is read from the map
  before the test that the handle is there.
\<close>

definition handle_message :: "(nat \<Rightarrow> bool) \<Rightarrow> nat \<times> bool \<times> int \<Rightarrow> int \<times> http \<Rightarrow> (int \<times> http) option" where
  "handle_message remove_ok = (\<lambda>(h, is_done, code) (ndone, s). do {
     let s = count_processed s;
     r \<leftarrow> ht_reqs_map s h;
     (ndone, s) \<leftarrow>
       (if is_done \<and> code = 0 then Some (ndone + 1, s)
        else do { s \<leftarrow> call_error_func r (if is_done then code else - 1) s; Some (ndone, count_failed s) });
     let (ok, s) = removeReq remove_ok h s;
     let s = (if ok then s else count_failed s);
     s \<leftarrow> freeReq r s;
     Some (ndone, s)
   })"

fun handle_messages :: "(nat \<Rightarrow> bool) \<Rightarrow> (nat \<times> bool \<times> int) list \<Rightarrow> int \<times> http \<Rightarrow> (int \<times> http) option" where
  "handle_messages remove_ok [] x = Some x"
| "handle_messages remove_ok (m # ms) x = do { x \<leftarrow> handle_message remove_ok m x; handle_messages remove_ok ms x }"

text \<open>
  The loop of waiting: each turn is the result of \<open>curl_multi_wait\<close>, the number of descriptors and the number of running transfers after
  \<open>curl_multi_perform\<close>. It yields the number of descriptors, or -1 when waiting failed; without a further turn it does not return.
\<close>

fun wait_loop :: "int \<Rightarrow> int \<Rightarrow> int \<Rightarrow> (bool \<times> int \<times> int) list \<Rightarrow> int option" where
  "wait_loop old_running new_running numfds turns =
     (if new_running < old_running then Some numfds
      else case turns of
        [] \<Rightarrow> None
      | (ok, fds, running) # turns \<Rightarrow>
          if \<not> ok then Some (- 1) else if fds = 0 then Some 0 else wait_loop old_running running fds turns)"

declare wait_loop.simps [simp del]

fun deliver_all :: "(nat \<times> int \<times> u8 list) list \<Rightarrow> http \<Rightarrow> http option" where
  "deliver_all [] s = Some s"
| "deliver_all ((r, code, bytes) # ds) s = do { (_, s) \<leftarrow> default_resp_func r code bytes s; deliver_all ds s }"

text \<open>What libcurl does during one \<open>waitResponse\<close>.\<close>

record curl_turn =
  ct_running :: int
  ct_turns :: "(bool \<times> int \<times> int) list"
  ct_data :: "(nat \<times> int \<times> u8 list) list"
  ct_messages :: "(nat \<times> bool \<times> int) list"
  ct_second_over :: bool

definition count_second :: "curl_turn \<Rightarrow> http \<Rightarrow> http" where
  "count_second t s =
     (if ht_do_statistics s \<and> ht_msg_processed s > 0 \<and> ct_second_over t
      then s\<lparr>ht_msg_last_processed := ht_msg_processed s, ht_msg_last_failed := ht_msg_failed s\<rparr> else s)"

definition waitResponse :: "(nat \<Rightarrow> bool) \<Rightarrow> curl_turn \<Rightarrow> http \<Rightarrow> (int \<times> http) option" where
  "waitResponse remove_ok t s =
     (if ht_handle s = 0 then Some (- 1, s)
      else do {
        s \<leftarrow> deliver_all (ct_data t) s;
        numfds \<leftarrow> wait_loop (ct_running t) (ct_running t) 0 (ct_turns t);
        if numfds < 0 then Some (- 1, s)
        else do {
          (ndone, s) \<leftarrow> (if numfds > 0 then handle_messages remove_ok (ct_messages t) (0, s) else Some (0, s));
          Some (ndone, count_second t s)
        }
      })"

section \<open>HttpRequestMgr\<close>

definition http_init :: "(nat \<Rightarrow> nat) \<Rightarrow> nat \<Rightarrow> int \<Rightarrow> http \<Rightarrow> bool \<times> http" where
  "http_init objs m max_nreq s =
     (let max_nreq = (if max_nreq \<le> 0 then DEFAULT_MAX_REQUEST_COUNT else max_nreq);
          (ok, s) = processor_init m DEFAULT_MAX_PROCESS_COUNT s
      in if \<not> ok then (False, s) else http_pool_init objs max_nreq s)"

definition hasReq :: "http \<Rightarrow> bool" where
  "hasReq s = pool_notEmpty s"

definition newReq :: "nat \<Rightarrow> http \<Rightarrow> nat \<times> http" where
  "newReq h s =
     (let (r, s) = pool_malloc s
      in if r = 0 then (0, s) else let (ok, s) = req_init h r s in if \<not> ok then (0, s) else (r, s))"

definition http_addReq :: "nat \<Rightarrow> http \<Rightarrow> bool \<times> http" where
  "http_addReq r s = (if r = 0 then (False, s) else let (ok, q) = lockfree_push r (ht_list s) in (ok, s\<lparr>ht_list := q\<rparr>))"

definition http_get :: "nat \<Rightarrow> string \<Rightarrow> fptr \<Rightarrow> nat \<Rightarrow> http \<Rightarrow> (int \<times> http) option" where
  "http_get h url cb_func func_param s = do {
     let (r, s) = newReq h s;
     if r = 0 then Some (0, s)
     else do {
       s \<leftarrow> req_setUrl url r s;
       s \<leftarrow> setGet True r s;
       let s = set_resp_func r cb_func func_param s;
       let (ok, s) = http_addReq r s;
       if \<not> ok then do { s \<leftarrow> freeReq r s; Some (- 1, s) } else Some (1, s)
     }
   }"

definition http_post :: "nat \<Rightarrow> string \<Rightarrow> string \<Rightarrow> fptr \<Rightarrow> nat \<Rightarrow> http \<Rightarrow> (int \<times> http) option" where
  "http_post h url content cb_func func_param s = do {
     let (r, s) = newReq h s;
     if r = 0 then Some (0, s)
     else do {
       s \<leftarrow> req_setUrl url r s;
       s \<leftarrow> setPost True r s;
       s \<leftarrow> setPostContent content r s;
       let s = set_resp_func r cb_func func_param s;
       let (ok, s) = http_addReq r s;
       if \<not> ok then do { s \<leftarrow> freeReq r s; Some (- 1, s) } else Some (1, s)
     }
   }"

text \<open>Moving requests from the list to the processor; \<open>list\<close> is what is in the list.\<close>

fun add_loop :: "(nat \<Rightarrow> bool) \<Rightarrow> nat list \<Rightarrow> http \<Rightarrow> http option" where
  "add_loop add_ok queue s =
     (if checkMaxProcess s then Some (s\<lparr>ht_list := queue\<rparr>)
      else case queue of
        [] \<Rightarrow> Some (s\<lparr>ht_list := []\<rparr>)
      | r # queue \<Rightarrow> do {
          (ok, s) \<leftarrow> processor_addReq add_ok r s;
          if \<not> ok then Some (s\<lparr>ht_list := queue\<rparr>) else add_loop add_ok queue s
        })"

declare add_loop.simps [simp del]

definition one_loop :: "(nat \<Rightarrow> bool) \<Rightarrow> (nat \<Rightarrow> bool) \<Rightarrow> curl_turn \<Rightarrow> http \<Rightarrow> (int \<times> http) option" where
  "one_loop add_ok remove_ok t s = do {
     s \<leftarrow> add_loop add_ok (ht_list s) s;
     (n, s) \<leftarrow> waitResponse remove_ok t s;
     Some (if n < 0 then - 1 else 0, s)
   }"

definition http_close :: "http \<Rightarrow> http option" where
  "http_close s = pool_clear s"

section \<open>No request is lost or shared\<close>

text \<open>
  A request is in the pool, in the list or with the processor. \<open>ps\<close> are the handles of the processor with their requests. A request
  that is in use has a handle of its own and a callback.
\<close>

definition in_use :: "http \<Rightarrow> nat \<Rightarrow> bool" where
  "in_use s r \<longleftrightarrow> ht_eh s r \<noteq> 0 \<and> ht_easy s (ht_eh s r) \<noteq> None \<and> (\<exists>f p. ht_func_map s r = Some (f, p) \<and> f \<noteq> nullptr)"

definition http_inv :: "nat list \<Rightarrow> (nat \<times> nat) list \<Rightarrow> http \<Rightarrow> bool" where
  "http_inv objs ps s \<longleftrightarrow>
     distinct objs \<and> 0 \<notin> set objs \<and> ht_handle s \<noteq> 0 \<and> 0 < ht_max_nprocess s \<and>
     mset (ht_free_queue s) + mset (ht_list s) + mset (map snd ps) = mset objs \<and>
     distinct (map fst ps) \<and> map_of ps = ht_reqs_map s \<and> ht_curr_nprocess s = int (length ps) \<and> ht_curr_nprocess s \<le> ht_max_nprocess s \<and>
     (\<forall>r \<in> set (ht_list s) \<union> snd ` set ps. in_use s r) \<and> (\<forall>(h, r) \<in> set ps. ht_eh s r = h) \<and>
     inj_on (ht_eh s) (set (ht_list s) \<union> snd ` set ps) \<and> (\<forall>r \<in> set objs. ht_func_map s r \<noteq> None \<and> ht_easy s r = None)"

definition accepted_request :: "nat \<Rightarrow> nat \<Rightarrow> easy_options \<Rightarrow> fptr \<Rightarrow> nat \<Rightarrow> http \<Rightarrow> http" where
  "accepted_request r h o1 f p s = s\<lparr>ht_free_queue := tl (ht_free_queue s), ht_eh := (ht_eh s)(r := h), ht_easy := (ht_easy s)(h \<mapsto> o1),
     ht_func_map := (ht_func_map s)(r \<mapsto> (f, p)), ht_list := ht_list s @ [r]\<rparr>"

lemma http_get_accepted:
  assumes "ht_free_queue s = r # q" "r \<noteq> 0" "h \<noteq> 0" "ht_func_map s r \<noteq> None"
  shows "http_get h url f p s = Some (1, accepted_request r h (no_options\<lparr>eo_url := url, eo_get := True\<rparr>) f p s)"
  using assms by (auto simp: http_get_def newReq_def pool_malloc_def req_init_def req_setUrl_def setGet_def easy_setopt_def set_resp_func_def
    http_addReq_def lockfree_push_def accepted_request_def)

lemma http_post_accepted:
  assumes "ht_free_queue s = r # q" "r \<noteq> 0" "h \<noteq> 0" "ht_func_map s r \<noteq> None"
  shows "http_post h url content f p s =
    Some (1, accepted_request r h (no_options\<lparr>eo_url := url, eo_post := True, eo_postfields := content\<rparr>) f p s)"
  using assms by (auto simp: http_post_def newReq_def pool_malloc_def req_init_def req_setUrl_def setPost_def setPostContent_def easy_setopt_def
    set_resp_func_def http_addReq_def lockfree_push_def accepted_request_def)

lemma http_empty_refuses: "ht_free_queue s = [] \<Longrightarrow> http_get h url f p s = Some (0, s) \<and> http_post h url content f p s = Some (0, s)"
  by (simp add: http_get_def http_post_def newReq_def pool_malloc_def)

lemma http_inv_objs:
  assumes "http_inv objs ps s"
  shows "set (ht_free_queue s) \<union> set (ht_list s) \<union> snd ` set ps = set objs"
    and "distinct (ht_free_queue s @ ht_list s @ map snd ps)"
proof -
  have m: "mset (ht_free_queue s @ ht_list s @ map snd ps) = mset objs" using assms by (simp add: http_inv_def add.assoc)
  show "set (ht_free_queue s) \<union> set (ht_list s) \<union> snd ` set ps = set objs" using mset_eq_setD [OF m] by (simp add: Un_assoc)
  show "distinct (ht_free_queue s @ ht_list s @ map snd ps)" using mset_eq_imp_distinct_iff [OF m] assms by (simp add: http_inv_def)
qed

lemma http_inv_in_use: "http_inv objs ps s \<Longrightarrow> x \<in> set (ht_list s) \<union> snd ` set ps \<Longrightarrow> in_use s x"
  unfolding http_inv_def by blast

lemma accepted_request_inv:
  assumes inv: "http_inv objs ps s" and r: "ht_free_queue s = r # q" and h: "h \<noteq> 0" "ht_easy s h = None" "h \<notin> set objs" and f: "f \<noteq> nullptr"
  shows "http_inv objs ps (accepted_request r h o1 f p s)"
proof -
  let ?s = "accepted_request r h o1 f p s"
  have fresh: "r \<notin> set (ht_list s) \<union> snd ` set ps" "r \<in> set objs" using http_inv_objs [OF inv] r by auto
  have eh: "ht_eh s x \<noteq> h" "x \<noteq> r" if "x \<in> set (ht_list s) \<union> snd ` set ps" for x
    using http_inv_in_use [OF inv that] that h(2) fresh(1) by (auto simp: in_use_def)
  have "in_use ?s x" if "x \<in> set (ht_list ?s) \<union> snd ` set ps" for x
    using that http_inv_in_use [OF inv, of x] eh [of x] h(1) f by (cases "x = r") (auto simp: accepted_request_def in_use_def)
  moreover have "inj_on (ht_eh ?s) (set (ht_list ?s) \<union> snd ` set ps)"
  proof -
    have "inj_on (ht_eh s) (set (ht_list s) \<union> snd ` set ps)" using inv by (simp add: http_inv_def)
    then show ?thesis using eh fresh(1) by (auto simp: accepted_request_def inj_on_def)
  qed
  moreover have "\<forall>(h', x) \<in> set ps. ht_eh ?s x = h'" using inv eh(2) by (fastforce simp: accepted_request_def http_inv_def)
  ultimately show ?thesis using inv r h(3) unfolding http_inv_def by (auto simp: accepted_request_def)
qed

lemma http_inv_process:
  assumes inv: "http_inv objs ps (s\<lparr>ht_list := r # q\<rparr>)" and room: "\<not> checkMaxProcess s"
  shows "\<exists>s'. processor_addReq (\<lambda>_. True) r s = Some (True, s') \<and> http_inv objs ((ht_eh s r, r) # ps) (s'\<lparr>ht_list := q\<rparr>)"
proof -
  let ?s = "s\<lparr>ht_reqs_map := (ht_reqs_map s)(ht_eh s r \<mapsto> r), ht_curr_nprocess := ht_curr_nprocess s + 1\<rparr>"
  note objs = http_inv_objs [OF inv, simplified]
  have used: "in_use s x" if "x \<in> set (r # q) \<union> snd ` set ps" for x using http_inv_in_use [OF inv, of x] that by (simp add: in_use_def)
  have inj: "inj_on (ht_eh s) (set (r # q) \<union> snd ` set ps)" and keys: "\<forall>(h, x) \<in> set ps. ht_eh s x = h" and m: "map_of ps = ht_reqs_map s"
    using inv by (simp_all add: http_inv_def)
  have "r \<notin> fst ` set ps"
  proof
    assume "r \<in> fst ` set ps"
    then obtain x where "(r, x) \<in> set ps" by auto
    then have "x \<in> snd ` set ps" "ht_eh s x = r" using keys by force+
    then have "ht_easy s r \<noteq> None" using used [of x] by (auto simp: in_use_def)
    moreover have "r \<in> set objs" "\<forall>x \<in> set objs. ht_easy s x = None" using inv objs(1) by (auto simp: http_inv_def)
    ultimately show False by simp
  qed
  moreover have new: "ht_eh s r \<notin> fst ` set ps"
  proof
    assume "ht_eh s r \<in> fst ` set ps"
    then obtain x where "(ht_eh s r, x) \<in> set ps" by auto
    then have "x \<in> snd ` set ps" "ht_eh s x = ht_eh s r" using keys by force+
    then have "x = r" using inj by (auto simp: inj_on_def)
    with \<open>x \<in> snd ` set ps\<close> show False using objs(2) by auto
  qed
  ultimately have "ht_reqs_map s r = None" "ht_reqs_map s (ht_eh s r) = None" using m by (auto simp: map_of_eq_None_iff simp flip: m)
  then have "processor_addReq (\<lambda>_. True) r s = Some (True, ?s)"
    using room used [of r] inv by (simp add: processor_addReq_def in_use_def http_inv_def Let_def)
  moreover have "http_inv objs ((ht_eh s r, r) # ps) (?s\<lparr>ht_list := q\<rparr>)"
  proof -
    have "(set q \<union> snd ` set ((ht_eh s r, r) # ps)) = set (r # q) \<union> snd ` set ps" by auto
    moreover have "in_use (?s\<lparr>ht_list := q\<rparr>) x" if "x \<in> set (r # q) \<union> snd ` set ps" for x using used [OF that] by (simp add: in_use_def)
    ultimately show ?thesis using inv room inj new unfolding http_inv_def checkMaxProcess_def by (simp add: fun_upd_def)
  qed
  ultimately show ?thesis by blast
qed

lemma add_loop_inv:
  "http_inv objs ps (s\<lparr>ht_list := q\<rparr>) \<Longrightarrow> \<exists>s' ps'. add_loop (\<lambda>_. True) q s = Some s' \<and> http_inv objs ps' s'"
proof (induction q arbitrary: ps s)
  case Nil
  then show ?case by (auto simp: add_loop.simps)
next
  case (Cons r q)
  show ?case
  proof (cases "checkMaxProcess s")
    case True
    then show ?thesis using Cons.prems by (auto simp: add_loop.simps)
  next
    case False
    then obtain s' where "processor_addReq (\<lambda>_. True) r s = Some (True, s')" "http_inv objs ((ht_eh s r, r) # ps) (s'\<lparr>ht_list := q\<rparr>)"
      using http_inv_process [OF Cons.prems] by blast
    then show ?thesis using Cons.IH [of "(ht_eh s r, r) # ps" s'] False by (simp add: add_loop.simps [of _ "r # q"])
  qed
qed

lemma deliver_inv:
  assumes "http_inv objs ps s" "r \<in> snd ` set ps"
  shows "\<exists>s'. default_resp_func r code bytes s = Some (length bytes, s') \<and> http_inv objs ps s' \<and> ht_reqs_map s' = ht_reqs_map s"
proof -
  obtain f p where "ht_func_map s r = Some (f, p)" "f \<noteq> nullptr"
    using http_inv_in_use [OF assms(1), of r] assms(2) unfolding in_use_def by blast
  moreover have "http_inv objs ps (s\<lparr>ht_calls := c\<rparr>)" for c using assms(1) by (simp add: http_inv_def in_use_def)
  ultimately show ?thesis by (simp add: default_resp_func_def call_func_def)
qed

lemma deliver_all_inv:
  "http_inv objs ps s \<Longrightarrow> fst ` set ds \<subseteq> snd ` set ps \<Longrightarrow> \<exists>s'. deliver_all ds s = Some s' \<and> http_inv objs ps s' \<and> ht_reqs_map s' = ht_reqs_map s"
proof (induction ds arbitrary: s)
  case (Cons d ds)
  obtain r code bytes where d: "d = (r, code, bytes)" by (cases d)
  with Cons.prems obtain s' where s': "default_resp_func r code bytes s = Some (length bytes, s')" "http_inv objs ps s'" "ht_reqs_map s' = ht_reqs_map s"
    using deliver_inv [of objs ps s r code bytes] by auto
  then show ?case using Cons.IH [OF s'(2)] Cons.prems(2) d by auto
qed auto

text \<open>The calls and the counters do not matter to the invariant.\<close>

definition same_requests :: "http \<Rightarrow> http \<Rightarrow> bool" where
  "same_requests s s' \<longleftrightarrow> ht_eh s' = ht_eh s \<and> ht_func_map s' = ht_func_map s \<and> ht_easy s' = ht_easy s \<and> ht_free_queue s' = ht_free_queue s \<and>
     ht_list s' = ht_list s \<and> ht_handle s' = ht_handle s \<and> ht_curr_nprocess s' = ht_curr_nprocess s \<and> ht_max_nprocess s' = ht_max_nprocess s \<and>
     ht_reqs_map s' = ht_reqs_map s"

lemma http_inv_cong: "same_requests s s' \<Longrightarrow> http_inv objs ps s' \<longleftrightarrow> http_inv objs ps s"
  by (simp add: same_requests_def http_inv_def in_use_def)

text \<open>A message for a handle gives its request back to the pool.\<close>

definition freed_request :: "nat \<Rightarrow> nat \<Rightarrow> http \<Rightarrow> http" where
  "freed_request h r s = s\<lparr>ht_reqs_map := (ht_reqs_map s)(h := None), ht_curr_nprocess := ht_curr_nprocess s - 1,
     ht_func_map := (ht_func_map s)(r \<mapsto> (nullptr, 0)), ht_easy := (ht_easy s)(h := None), ht_free_queue := ht_free_queue s @ [r]\<rparr>"

lemma handle_message_frees:
  assumes "ht_reqs_map s h = Some r" "ht_eh s r = h" "h \<noteq> 0" "ht_easy s h \<noteq> None" "ht_func_map s r = Some (f, p)" "f \<noteq> nullptr" "0 < ht_curr_nprocess s"
  shows "\<exists>k s'. handle_message (\<lambda>_. True) (h, is_done, code) (n, s) = Some (k, s') \<and> same_requests (freed_request h r s) s'"
  using assms
  by (cases "ht_do_statistics s"; cases "is_done \<and> code = 0")
    (simp_all add: handle_message_def count_processed_def count_failed_def call_error_func_def call_func_def removeReq_def freeReq_def req_close_def
      pool_free_def lockfree_push_def same_requests_def freed_request_def Let_def)

lemma filter_key:
  assumes "distinct (map fst ps)" "(h, r) \<in> set ps"
  obtains as bs where "ps = as @ (h, r) # bs" "filter (\<lambda>x. fst x \<noteq> h) ps = as @ bs" "h \<notin> fst ` set as" "h \<notin> fst ` set bs"
proof -
  from split_list [OF assms(2)] obtain as bs where ps: "ps = as @ (h, r) # bs" by blast
  then have "h \<notin> fst ` set as" "h \<notin> fst ` set bs" using assms(1) by auto
  moreover from this have "filter (\<lambda>x. fst x \<noteq> h) as = as" "filter (\<lambda>x. fst x \<noteq> h) bs = bs" by (auto simp: filter_id_conv)
  ultimately show thesis using ps that [of as bs] by simp
qed

lemma freed_request_inv:
  assumes inv: "http_inv objs ps s" and h: "(h, r) \<in> set ps"
  shows "http_inv objs (filter (\<lambda>x. fst x \<noteq> h) ps) (freed_request h r s)"
proof -
  let ?ps = "filter (\<lambda>x. fst x \<noteq> h) ps" and ?s = "freed_request h r s"
  have d: "distinct (map fst ps)" using inv by (simp add: http_inv_def)
  from filter_key [OF d h] obtain as bs where ps: "ps = as @ (h, r) # bs" "?ps = as @ bs" "h \<notin> fst ` set as" "h \<notin> fst ` set bs" .
  have r: "r \<notin> set (ht_list s) \<union> snd ` set ?ps" "snd ` set ?ps \<subseteq> snd ` set ps"
    using http_inv_objs(2) [OF inv] unfolding ps(1,2) by auto
  have eh: "ht_eh s r = h" using inv h by (auto simp: http_inv_def)
  have inj: "inj_on (ht_eh s) (set (ht_list s) \<union> snd ` set ps)" using inv by (simp add: http_inv_def)
  have other: "ht_eh s x \<noteq> h" "x \<noteq> r" if x: "x \<in> set (ht_list s) \<union> snd ` set ?ps" for x
  proof -
    show "x \<noteq> r" using r(1) x by auto
    moreover have "r \<in> snd ` set ps" using h by force
    ultimately show "ht_eh s x \<noteq> h" using inj x r(2) eh by (auto simp: inj_on_def)
  qed
  have "in_use ?s x" if x: "x \<in> set (ht_list s) \<union> snd ` set ?ps" for x
    using http_inv_in_use [OF inv, of x] x r(2) other [OF x] by (auto simp: in_use_def freed_request_def)
  moreover have "inj_on (ht_eh s) (set (ht_list s) \<union> snd ` set ?ps)" by (rule inj_on_subset [OF inj]) (use r(2) in auto)
  moreover have "map_of ?ps = (ht_reqs_map s)(h := None)"
  proof -
    have "map_of as h = None" "map_of bs h = None" using ps(3,4) by (auto simp: map_of_eq_None_iff)
    moreover have "ht_reqs_map s = map_of (as @ (h, r) # bs)" using inv by (simp add: http_inv_def ps(1))
    ultimately have "map_of (as @ bs) x = ((ht_reqs_map s)(h := None)) x" for x
      by (cases "x = h") (auto simp: map_add_def fun_upd_def split: option.splits)
    then show ?thesis unfolding ps(2) by (rule ext)
  qed
  moreover have "mset (ht_free_queue s) + mset (ht_list s) + (add_mset r (mset (map snd ?ps))) = mset objs"
  proof -
    have "mset (ht_free_queue s) + mset (ht_list s) + mset (map snd ps) = mset objs" using inv by (simp add: http_inv_def)
    then show ?thesis unfolding ps(2) by (simp add: ps(1))
  qed
  moreover have "length ps = Suc (length ?ps)" unfolding ps(2) by (simp add: ps(1))
  moreover have "distinct (map fst ?ps)" using d by (simp add: distinct_map_filter)
  ultimately show ?thesis using inv unfolding http_inv_def by (auto simp: freed_request_def)
qed

lemma handle_message_inv:
  assumes inv: "http_inv objs ps s" and h: "(h, r) \<in> set ps"
  shows "\<exists>k s'. handle_message (\<lambda>_. True) (h, is_done, code) (n, s) = Some (k, s') \<and> http_inv objs (filter (\<lambda>x. fst x \<noteq> h) ps) s'"
proof -
  have d: "distinct (map fst ps)" "map_of ps = ht_reqs_map s" "ht_curr_nprocess s = int (length ps)" using inv by (simp_all add: http_inv_def)
  have m: "ht_reqs_map s h = Some r" using d(1) h by (simp flip: d(2))
  have eh: "ht_eh s r = h" using inv h by (auto simp: http_inv_def)
  have "in_use s r" using http_inv_in_use [OF inv, of r] h by force
  then obtain f p where f: "ht_func_map s r = Some (f, p)" "f \<noteq> nullptr" "h \<noteq> 0" "ht_easy s h \<noteq> None" by (auto simp: in_use_def eh)
  have pos: "0 < ht_curr_nprocess s" using d(3) h by (cases ps) auto
  from handle_message_frees [OF m eh f(3,4,1,2) pos, of is_done code n] http_inv_cong freed_request_inv [OF inv h] show ?thesis by blast
qed

lemma handle_messages_inv:
  "http_inv objs ps s \<Longrightarrow> distinct (map fst ms) \<Longrightarrow> fst ` set ms \<subseteq> fst ` set ps \<Longrightarrow>
   \<exists>k s' ps'. handle_messages (\<lambda>_. True) ms (n, s) = Some (k, s') \<and> http_inv objs ps' s'"
proof (induction ms arbitrary: ps s n)
  case (Cons m ms)
  obtain h is_done code where m: "m = (h, is_done, code)" by (cases m)
  then obtain r where r: "(h, r) \<in> set ps" using Cons.prems(3) by auto
  obtain k s' where s': "handle_message (\<lambda>_. True) m (n, s) = Some (k, s')" "http_inv objs (filter (\<lambda>x. fst x \<noteq> h) ps) s'"
    using handle_message_inv [OF Cons.prems(1) r, of is_done code n] m by blast
  have "fst ` set ms \<subseteq> fst ` set (filter (\<lambda>x. fst x \<noteq> h) ps)" using Cons.prems(2,3) m by force
  then obtain k' s2 ps' where "handle_messages (\<lambda>_. True) ms (k, s') = Some (k', s2)" "http_inv objs ps' s2"
    using Cons.IH [OF s'(2)] Cons.prems(2) by force
  then show ?case using s'(1) by auto
qed auto

text \<open>
  What libcurl documents: messages are about handles that were added and not removed, one for each, and data arrives for requests in
  progress.
\<close>

definition curl_says :: "http \<Rightarrow> curl_turn \<Rightarrow> bool" where
  "curl_says s t \<longleftrightarrow> distinct (map fst (ct_messages t)) \<and> fst ` set (ct_messages t) \<subseteq> dom (ht_reqs_map s) \<and> fst ` set (ct_data t) \<subseteq> ran (ht_reqs_map s)"

lemma waitResponse_inv:
  assumes inv: "http_inv objs ps s" and t: "curl_says s t" and "wait_loop (ct_running t) (ct_running t) 0 (ct_turns t) = Some k"
  shows "\<exists>n s' ps'. waitResponse (\<lambda>_. True) t s = Some (n, s') \<and> http_inv objs ps' s'"
proof -
  have d: "distinct (map fst ps)" "map_of ps = ht_reqs_map s" "ht_handle s \<noteq> 0" using inv by (simp_all add: http_inv_def)
  have "ran (ht_reqs_map s) = snd ` set ps" "dom (ht_reqs_map s) = fst ` set ps" by (simp_all add: ran_distinct d(1) dom_map_of_conv_image_fst flip: d(2))
  with t have data: "fst ` set (ct_data t) \<subseteq> snd ` set ps" and msgs: "distinct (map fst (ct_messages t))" "fst ` set (ct_messages t) \<subseteq> fst ` set ps"
    by (simp_all add: curl_says_def)
  from deliver_all_inv [OF inv data] obtain s1 where s1: "deliver_all (ct_data t) s = Some s1" "http_inv objs ps s1" by blast
  from handle_messages_inv [OF s1(2) msgs, of 0] obtain n s2 ps2 where
    s2: "handle_messages (\<lambda>_. True) (ct_messages t) (0, s1) = Some (n, s2)" "http_inv objs ps2 s2" by blast
  have "http_inv objs qs (count_second t u) = http_inv objs qs u" for qs u
    by (rule http_inv_cong) (simp add: same_requests_def count_second_def)
  then show ?thesis using d(3) s1 s2 assms(3) by (auto simp: waitResponse_def)
qed

lemma obj_pool_fill_inv:
  assumes "distinct ps" "0 \<notin> set ps" "ht_easy s = Map.empty" "ht_list s = []" "ht_reqs_map s = Map.empty"
  shows "ht_free_queue (obj_pool_fill ps s) = ht_free_queue s @ ps \<and> (\<forall>r \<in> set ps. ht_func_map (obj_pool_fill ps s) r \<noteq> None) \<and>
    (\<forall>r. ht_func_map s r \<noteq> None \<longrightarrow> ht_func_map (obj_pool_fill ps s) r \<noteq> None) \<and> ht_easy (obj_pool_fill ps s) = Map.empty \<and>
    ht_list (obj_pool_fill ps s) = [] \<and> ht_reqs_map (obj_pool_fill ps s) = Map.empty \<and> ht_handle (obj_pool_fill ps s) = ht_handle s \<and>
    ht_curr_nprocess (obj_pool_fill ps s) = ht_curr_nprocess s \<and> ht_max_nprocess (obj_pool_fill ps s) = ht_max_nprocess s"
  using assms by (induction ps arbitrary: s) (auto simp: storeInMap_def lockfree_push_def)

lemma http_init_inv:
  assumes "http_init objs m k new_http = (True, s)" "inj objs" "0 \<notin> range objs"
  shows "http_inv (ht_free_queue s) [] s"
proof -
  let ?k = "if k \<le> 0 then DEFAULT_MAX_REQUEST_COUNT else k" and ?s = "new_http\<lparr>ht_handle := m, ht_max_nprocess := DEFAULT_MAX_PROCESS_COUNT\<rparr>"
  let ?ps = "map objs [0..<nat ?k]"
  have m: "m \<noteq> 0" "s = (obj_pool_fill ?ps ?s)\<lparr>ht_max_size := ?k\<rparr>"
    using assms(1) by (auto simp: http_init_def processor_init_def http_pool_init_def Let_def split: if_splits)
  have "distinct ?ps" "0 \<notin> set ?ps" using assms(2,3) by (auto simp: distinct_map inj_on_def)
  from obj_pool_fill_inv [OF this, of ?s] show ?thesis unfolding m(2) using m(1) \<open>distinct ?ps\<close> \<open>0 \<notin> set ?ps\<close>
    by (simp add: http_inv_def new_http_def)
qed

text \<open>
  The states a manager can be in when no handle is refused: it is initialised, requests are made with a handle of their own and a
  callback, and the loop is run with what libcurl says.
\<close>

inductive http_reach :: "nat list \<Rightarrow> http \<Rightarrow> bool" where
  http_start: "http_init objs m k new_http = (True, s) \<Longrightarrow> inj objs \<Longrightarrow> 0 \<notin> range objs \<Longrightarrow> http_reach (ht_free_queue s) s"
| http_got: "http_reach rs s \<Longrightarrow> h \<noteq> 0 \<Longrightarrow> ht_easy s h = None \<Longrightarrow> h \<notin> set rs \<Longrightarrow> f \<noteq> nullptr \<Longrightarrow>
    http_get h url f p s = Some (n, s') \<Longrightarrow> http_reach rs s'"
| http_posted: "http_reach rs s \<Longrightarrow> h \<noteq> 0 \<Longrightarrow> ht_easy s h = None \<Longrightarrow> h \<notin> set rs \<Longrightarrow> f \<noteq> nullptr \<Longrightarrow>
    http_post h url content f p s = Some (n, s') \<Longrightarrow> http_reach rs s'"
| http_looped: "http_reach rs s \<Longrightarrow> add_loop (\<lambda>_. True) (ht_list s) s = Some s1 \<Longrightarrow> curl_says s1 t \<Longrightarrow>
    one_loop (\<lambda>_. True) (\<lambda>_. True) t s = Some (n, s') \<Longrightarrow> http_reach rs s'"

lemma http_inv_get:
  assumes "http_inv rs ps s" "h \<noteq> 0" "ht_easy s h = None" "h \<notin> set rs" "f \<noteq> nullptr"
  shows "\<exists>s'. http_get h url f p s = Some (if hasReq s then 1 else 0, s') \<and> http_inv rs ps s'"
    and "\<exists>s'. http_post h url content f p s = Some (if hasReq s then 1 else 0, s') \<and> http_inv rs ps s'"
proof -
  have "(\<exists>s'. http_get h url f p s = Some (if hasReq s then 1 else 0, s') \<and> http_inv rs ps s') \<and>
      (\<exists>s'. http_post h url content f p s = Some (if hasReq s then 1 else 0, s') \<and> http_inv rs ps s')"
  proof (cases "ht_free_queue s")
    case Nil
    then show ?thesis using assms(1) http_empty_refuses [OF Nil] by (simp add: hasReq_def pool_notEmpty_def)
  next
    case (Cons r q)
    have "r \<in> set rs" using http_inv_objs(1) [OF assms(1)] Cons by auto
    then have r: "r \<noteq> 0" "ht_func_map s r \<noteq> None" using assms(1) unfolding http_inv_def by (metis, blast)
    show ?thesis using http_get_accepted [OF Cons r(1) assms(2) r(2)] http_post_accepted [OF Cons r(1) assms(2) r(2)] accepted_request_inv [OF assms(1) Cons assms(2-5)] Cons
      by (simp add: hasReq_def pool_notEmpty_def)
  qed
  then show "\<exists>s'. http_get h url f p s = Some (if hasReq s then 1 else 0, s') \<and> http_inv rs ps s'"
    "\<exists>s'. http_post h url content f p s = Some (if hasReq s then 1 else 0, s') \<and> http_inv rs ps s'" by blast+
qed

lemma one_loop_eq:
  "add_loop (\<lambda>_. True) (ht_list s) s = Some s1 \<Longrightarrow> one_loop (\<lambda>_. True) (\<lambda>_. True) t s = do { (n, s) \<leftarrow> waitResponse (\<lambda>_. True) t s1; Some (if n < 0 then - 1 else 0, s) }"
  by (simp add: one_loop_def)

lemma http_inv_loop:
  assumes inv: "http_inv rs ps s" and t: "add_loop (\<lambda>_. True) (ht_list s) s = Some s1" "curl_says s1 t"
  shows "wait_loop (ct_running t) (ct_running t) 0 (ct_turns t) = Some k \<Longrightarrow> \<exists>n s' ps'. one_loop (\<lambda>_. True) (\<lambda>_. True) t s = Some (n, s') \<and> http_inv rs ps' s'"
    and "one_loop (\<lambda>_. True) (\<lambda>_. True) t s = Some (n, s') \<Longrightarrow> \<exists>k. wait_loop (ct_running t) (ct_running t) 0 (ct_turns t) = Some k"
proof -
  obtain ps1 where s1: "http_inv rs ps1 s1" using add_loop_inv [where objs = rs and ps = ps and s = s and q = "ht_list s"] inv t(1) by auto
  note eq = one_loop_eq [OF t(1), of t]
  show "\<exists>n s' ps'. one_loop (\<lambda>_. True) (\<lambda>_. True) t s = Some (n, s') \<and> http_inv rs ps' s'"
    if "wait_loop (ct_running t) (ct_running t) 0 (ct_turns t) = Some k"
  proof -
    from waitResponse_inv [OF s1 t(2) that] obtain n s' ps' where "waitResponse (\<lambda>_. True) t s1 = Some (n, s')" "http_inv rs ps' s'" by blast
    then show ?thesis unfolding eq by auto
  qed
  show "\<exists>k. wait_loop (ct_running t) (ct_running t) 0 (ct_turns t) = Some k" if "one_loop (\<lambda>_. True) (\<lambda>_. True) t s = Some (n, s')"
  proof -
    have "ht_handle s1 \<noteq> 0" using s1 by (simp add: http_inv_def)
    moreover have "waitResponse (\<lambda>_. True) t s1 \<noteq> None" using that unfolding eq by (cases "waitResponse (\<lambda>_. True) t s1") simp_all
    ultimately show ?thesis
      by (cases "wait_loop (ct_running t) (ct_running t) 0 (ct_turns t)"; cases "deliver_all (ct_data t) s1") (simp_all add: waitResponse_def)
  qed
qed

lemma http_reach_inv: "http_reach rs s \<Longrightarrow> \<exists>ps. http_inv rs ps s"
proof (induction rule: http_reach.induct)
  case (http_start objs m k s)
  show ?case using http_init_inv [OF http_start] by blast
next
  case (http_got rs s h f url p n s')
  then obtain ps where ps: "http_inv rs ps s" by blast
  from http_inv_get(1) [OF ps http_got.hyps(2-5), of url p] http_got.hyps(6) show ?case by auto
next
  case (http_posted rs s h f url content p n s')
  then obtain ps where ps: "http_inv rs ps s" by blast
  from http_inv_get(2) [OF ps http_posted.hyps(2-5), of url content p] http_posted.hyps(6) show ?case by auto
next
  case (http_looped rs s s1 t n s')
  then obtain ps where ps: "http_inv rs ps s" by blast
  from http_inv_loop(2) [OF ps http_looped.hyps(2-4)] obtain k where "wait_loop (ct_running t) (ct_running t) 0 (ct_turns t) = Some k" by blast
  from http_inv_loop(1) [OF ps http_looped.hyps(2,3) this] http_looped.hyps(4) show ?case by auto
qed


definition small_manager :: http where
  "small_manager = snd (http_init (\<lambda>i. i + 10) 1 2 new_http)"


text \<open>
  Without these conditions requests do get lost, and calls are undefined: a request whose handle can not be made is in no list any more;
  one that libcurl refuses to add is lost with its handle; and a request without a callback makes the first data that arrives a
  call of a null function.
\<close>

theorem requests_leak:
  assumes "http_inv rs ps s" "ht_free_queue s = r # q"
  shows "\<exists>s'. http_get 0 url f p s = Some (0, s') \<and> ht_free_queue s' = q \<and> ht_list s' = ht_list s \<and> ht_reqs_map s' = ht_reqs_map s"
  using http_inv_objs(1) [OF assms(1)] assms
  by (auto simp: http_get_def newReq_def pool_malloc_def req_init_def http_inv_def)

theorem response_without_callback_undefined:
  assumes "ht_free_queue s = r # q" "r \<noteq> 0" "h \<noteq> 0" "ht_func_map s r \<noteq> None"
  shows "\<exists>s'. http_post h url content nullptr p s = Some (1, s') \<and> default_resp_func r code bytes s' = None"
  using http_post_accepted [OF assms] by (simp add: default_resp_func_def call_func_def accepted_request_def)

end
