(* ===== verification/Post_Log.thy ===== *)
theory Post_Log
  imports Http_Request Json_Value "HOL-Library.Char_ord" "HOL-Library.List_Lexorder"
begin

text \<open>
  \<open>HttpPostLogMgr\<close> of \<open>curl/http_postlog_mgr.cpp\<close>: log records are put together from keys and values, kept in a list and posted through
  an HTTP manager. The JSON library and the MD5 function are outside the sources: an object is a map from keys to values, and
  \<open>writer\<close> and \<open>md5\<close> are arguments. A \<open>std::set\<close> ordered by key is the list of its elements in this order.
\<close>

type_synonym json_map = "string \<Rightarrow> json_value option"

record PostLogRecord =
  pr_operation :: string
  pr_value :: json_map

record HttpPostLogMgr =
  pl_push_data :: "(string \<times> string) list"
  pl_record_list :: "PostLogRecord list"
  pl_current_json :: json_map
  pl_request_mgr :: http
  pl_max_log_size :: int
  pl_post_url :: string
  pl_post_count_once :: u16

abbreviation (input) DEFAULT_POST_COUNT_ONCE :: u16 where "DEFAULT_POST_COUNT_ONCE \<equiv> 128"

definition new_post_log :: HttpPostLogMgr where
  "new_post_log = \<lparr>pl_push_data = [], pl_record_list = [], pl_current_json = Map.empty, pl_request_mgr = new_http, pl_max_log_size = 0,
     pl_post_url = [], pl_post_count_once = DEFAULT_POST_COUNT_ONCE\<rparr>"

definition pl_init :: "(nat \<Rightarrow> nat) \<Rightarrow> nat \<Rightarrow> int \<Rightarrow> HttpPostLogMgr \<Rightarrow> bool \<times> HttpPostLogMgr" where
  "pl_init objs m max_log_size M =
     (let size = (if max_log_size \<le> 0 then 5000 else max_log_size);
          (ok, s) = http_init objs m size (pl_request_mgr M)
      in (ok, M\<lparr>pl_max_log_size := size, pl_request_mgr := s\<rparr>))"

text \<open>\<open>at\<close> raises an exception for an empty url.\<close>

definition pl_setUrl :: "string \<Rightarrow> HttpPostLogMgr \<Rightarrow> HttpPostLogMgr option" where
  "pl_setUrl url M = do {
     require (url \<noteq> []);
     Some (M\<lparr>pl_post_url := (if last url \<noteq> CHR ''/'' then url @ ''/'' else url)\<rparr>)
   }"

definition setPostCountOnce :: "u16 \<Rightarrow> HttpPostLogMgr \<Rightarrow> HttpPostLogMgr" where
  "setPostCountOnce n M =
     M\<lparr>pl_post_count_once := (if n = 0 then DEFAULT_POST_COUNT_ONCE else if uint n > pl_max_log_size M then word_of_int (pl_max_log_size M) else n)\<rparr>"

fun set_insert :: "string \<times> string \<Rightarrow> (string \<times> string) list \<Rightarrow> (string \<times> string) list" where
  "set_insert d [] = [d]"
| "set_insert d (e # ds) = (if fst d < fst e then d # e # ds else if fst d = fst e then e # ds else e # set_insert d ds)"

text \<open>An element with the key is erased first.\<close>

definition insertLogData :: "string \<Rightarrow> string \<Rightarrow> HttpPostLogMgr \<Rightarrow> HttpPostLogMgr" where
  "insertLogData key val M =
     M\<lparr>pl_push_data := set_insert (key, val) (filter (\<lambda>d. fst d \<noteq> key) (pl_push_data M))\<rparr>"

definition pushLogData_string :: "string \<Rightarrow> string \<Rightarrow> HttpPostLogMgr \<Rightarrow> HttpPostLogMgr" where
  "pushLogData_string key val M = insertLogData key val (M\<lparr>pl_current_json := (pl_current_json M)(key \<mapsto> JString val)\<rparr>)"

text \<open>\<open>std::to_string\<close> is an argument.\<close>

definition pushLogData_int :: "(int \<Rightarrow> string) \<Rightarrow> string \<Rightarrow> int \<Rightarrow> HttpPostLogMgr \<Rightarrow> HttpPostLogMgr" where
  "pushLogData_int to_string key val M = insertLogData key (to_string val) (M\<lparr>pl_current_json := (pl_current_json M)(key \<mapsto> JInt val)\<rparr>)"

definition pushLogDataAsString :: "(int \<Rightarrow> string) \<Rightarrow> string \<Rightarrow> int \<Rightarrow> HttpPostLogMgr \<Rightarrow> HttpPostLogMgr" where
  "pushLogDataAsString to_string key val M = pushLogData_string key (to_string val) (M\<lparr>pl_current_json := (pl_current_json M)(key \<mapsto> JInt val)\<rparr>)"

definition pushLogData_time :: "(int \<Rightarrow> string) \<Rightarrow> string \<Rightarrow> u64 \<Rightarrow> HttpPostLogMgr \<Rightarrow> HttpPostLogMgr" where
  "pushLogData_time to_string key val = pushLogData_int to_string key (sint (ucast val :: i32))"

text \<open>The broken down local time that the C library delivers.\<close>

record tm =
  tm_year :: int
  tm_mon :: int
  tm_mday :: int
  tm_hour :: int
  tm_min :: int
  tm_yday :: int

definition pushDate :: "(int \<Rightarrow> string) \<Rightarrow> tm \<Rightarrow> HttpPostLogMgr \<Rightarrow> HttpPostLogMgr" where
  "pushDate to_string ct M =
     (let push = pushLogData_int to_string
      in push ''week'' ((tm_yday ct + 6) div 7) (push ''minute'' (tm_min ct) (push ''hour'' (tm_hour ct) (push ''day'' (tm_mday ct)
        (push ''month'' (tm_mon ct) (push ''year'' (tm_year ct) (push ''log_ym'' (tm_year ct * 100 + tm_mon ct)
          (push ''log_ymd'' (tm_year ct * 10000 + tm_mon ct * 100 + tm_mday ct) M))))))))"

definition log_begin :: "(int \<Rightarrow> string) \<Rightarrow> tm \<Rightarrow> HttpPostLogMgr \<Rightarrow> HttpPostLogMgr" where
  "log_begin to_string ct M = pushDate to_string ct (M\<lparr>pl_current_json := Map.empty, pl_push_data := []\<rparr>)"

definition log_end :: "(string \<Rightarrow> string) \<Rightarrow> string \<Rightarrow> HttpPostLogMgr \<Rightarrow> HttpPostLogMgr" where
  "log_end md5 operation M =
     (let val_str = concat (map snd (pl_push_data M));
          json = (pl_current_json M)(''md5data'' \<mapsto> JString (md5 val_str))
      in M\<lparr>pl_current_json := json, pl_record_list := pl_record_list M @ [\<lparr>pr_operation = operation, pr_value = json\<rparr>]\<rparr>)"

text \<open>
  \<open>run\<close>: the loop of posting, with the last result and the number \<open>c\<close> of records posted, a 16 bit integer. \<open>easy\<close> gives the handle that
  \<open>curl_easy_init\<close> returns. A negative result ends \<open>run\<close> before anything is removed.
\<close>

fun post_loop :: "(http \<Rightarrow> nat) \<Rightarrow> (json_map \<Rightarrow> string) \<Rightarrow> string \<Rightarrow> u16 \<Rightarrow> int \<Rightarrow> u16 \<Rightarrow> PostLogRecord list \<Rightarrow> http \<Rightarrow> (int \<times> u16 \<times> http) option" where
  "post_loop easy writer url once res c [] s = Some (res, c, s)"
| "post_loop easy writer url once res c (r # rs) s = do {
     (res, s) \<leftarrow> http_post (easy s) (url @ pr_operation r) (writer (pr_value r)) nullptr 0 s;
     if res < 0 \<or> res = 0 then Some (res, c, s)
     else let c = c + 1 in if sint c \<ge> uint once then Some (res, c, s) else post_loop easy writer url once res c rs s
   }"

definition pl_run :: "(http \<Rightarrow> nat) \<Rightarrow> (json_map \<Rightarrow> string) \<Rightarrow> HttpPostLogMgr \<Rightarrow> (int \<times> HttpPostLogMgr) option" where
  "pl_run easy writer M =
     (if pl_post_url M = [] then Some (0, M)
      else do {
        (res, c, s) \<leftarrow> post_loop easy writer (pl_post_url M) (pl_post_count_once M) 0 0 (pl_record_list M) (pl_request_mgr M);
        if res < 0 then Some (- 1, M\<lparr>pl_request_mgr := s\<rparr>)
        else Some (res, M\<lparr>pl_request_mgr := s, pl_record_list := drop (nat (sint c)) (pl_record_list M)\<rparr>)
      })"

section \<open>What is posted\<close>

definition posted :: "(json_map \<Rightarrow> string) \<Rightarrow> string \<Rightarrow> PostLogRecord \<Rightarrow> easy_options" where
  "posted writer url r = no_options\<lparr>eo_url := url @ pr_operation r, eo_post := True, eo_postfields := writer (pr_value r)\<rparr>"

definition ready_pool :: "http \<Rightarrow> bool" where
  "ready_pool s \<longleftrightarrow> finite (dom (ht_easy s)) \<and> distinct (ht_free_queue s) \<and> (\<forall>r \<in> set (ht_free_queue s). r \<noteq> 0 \<and> ht_func_map s r \<noteq> None)"

text \<open>Handles are new, and what was set on one stays.\<close>

definition fresh_handles :: "(http \<Rightarrow> nat) \<Rightarrow> bool" where
  "fresh_handles easy \<longleftrightarrow> (\<forall>s. finite (dom (ht_easy s)) \<longrightarrow> easy s \<noteq> 0 \<and> ht_easy s (easy s) = None)"

definition keeps_posts :: "nat list \<Rightarrow> http \<Rightarrow> http \<Rightarrow> bool" where
  "keeps_posts rs s s' \<longleftrightarrow> (\<forall>x. x \<notin> set rs \<longrightarrow> ht_eh s' x = ht_eh s x) \<and> (\<forall>h. ht_easy s h \<noteq> None \<longrightarrow> ht_easy s' h = ht_easy s h)"

lemma small_count:
  fixes c n :: u16
  assumes "0 \<le> sint c" "sint c < uint n" "uint n \<le> 32767"
  shows "sint (c + 1) = sint c + 1"
  using assms by (simp add: sint_word_ariths signed_take_bit_int_eq_self)

lemma sint_small_nat: "int k \<le> 32767 \<Longrightarrow> sint (of_nat k :: u16) = int k"
  by (simp add: signed_of_nat signed_take_bit_int_eq_self)

lemma post_loop_posts:
  assumes "fresh_handles easy" "uint once \<le> 32767" "ready_pool s" "0 \<le> sint c" "sint c < uint once"
  shows "\<exists>res' s' k. post_loop easy writer url once res c rs s = Some (res', c + of_nat k, s') \<and>
    k = min (nat (uint once - sint c)) (min (length rs) (length (ht_free_queue s))) \<and> (res \<ge> 0 \<longrightarrow> res' \<ge> 0) \<and>
    ht_free_queue s' = drop k (ht_free_queue s) \<and> ht_list s' = ht_list s @ take k (ht_free_queue s) \<and> keeps_posts (take k (ht_free_queue s)) s s' \<and>
    map (\<lambda>r. ht_easy s' (ht_eh s' r)) (take k (ht_free_queue s)) = map (\<lambda>r. Some (posted writer url r)) (take k rs)"
  using assms(3-5)
proof (induction rs arbitrary: s c res)
  case Nil
  then show ?case by (auto simp: keeps_posts_def)
next
  case (Cons r rs)
  show ?case
  proof (cases "ht_free_queue s")
    case Nil
    then show ?thesis using http_empty_refuses [OF Nil] by (auto simp: keeps_posts_def)
  next
    case free: (Cons x q)
    let ?s = "accepted_request x (easy s) (posted writer url r) nullptr 0 s"
    have x: "x \<noteq> 0" "ht_func_map s x \<noteq> None" "x \<notin> set q" using Cons.prems(1) free by (auto simp: ready_pool_def)
    have h: "easy s \<noteq> 0" "ht_easy s (easy s) = None" using assms(1) Cons.prems(1) by (auto simp: fresh_handles_def ready_pool_def)
    have post: "http_post (easy s) (url @ pr_operation r) (writer (pr_value r)) nullptr 0 s = Some (1, ?s)"
      using http_post_accepted [OF free x(1) h(1) x(2)] by (simp add: posted_def)
    have s: "ht_free_queue ?s = q" "ht_list ?s = ht_list s @ [x]" "ht_eh ?s x = easy s" "ht_easy ?s (easy s) = Some (posted writer url r)" "ready_pool ?s"
      using free Cons.prems(1) by (auto simp: accepted_request_def ready_pool_def)
    have k0: "keeps_posts [x] s ?s" using h(2) by (auto simp: keeps_posts_def accepted_request_def)
    have c: "sint (c + 1) = sint c + 1" using Cons.prems(2,3) assms(2) by (intro small_count)
    show ?thesis
    proof (cases "sint (c + 1) \<ge> uint once")
      case True
      then have "nat (uint once - sint c) = 1" using c Cons.prems(3) by simp
      then show ?thesis using True post s k0 free by (intro exI [of _ 1] exI [of _ ?s]) simp
    next
      case False
      from Cons.IH [OF s(5), of "c + 1" 1] False c Cons.prems(2) obtain res' s' k where
        ih: "post_loop easy writer url once 1 (c + 1) rs ?s = Some (res', c + 1 + of_nat k, s')"
          "k = min (nat (uint once - sint (c + 1))) (min (length rs) (length q))" "res' \<ge> 0"
          "ht_free_queue s' = drop k q" "ht_list s' = ht_list s @ x # take k q" "keeps_posts (take k q) ?s s'"
          "map (\<lambda>r. ht_easy s' (ht_eh s' r)) (take k q) = map (\<lambda>r. Some (posted writer url r)) (take k rs)"
        by (auto simp: s(1,2))
      have "x \<notin> set (take k q)" using x(3) by (meson in_set_takeD)
      then have "ht_easy s' (ht_eh s' x) = Some (posted writer url r)" "keeps_posts (x # take k q) s s'"
        using ih(6) k0 s(3,4) by (auto simp: keeps_posts_def)
      moreover have "min (nat (uint once - sint c)) (min (length (r # rs)) (length (ht_free_queue s))) = Suc k"
        using ih(2) c Cons.prems(3) free by (simp add: nat_diff_distrib)
      ultimately show ?thesis using False post free ih(1,3-7) by (intro exI [of _ res'] exI [of _ s'] exI [of _ "Suc k"]) (simp add: add_ac)
    qed
  qed
qed


definition next_handle :: "http \<Rightarrow> nat" where
  "next_handle s = Suc (Max (insert 0 (dom (ht_easy s))))"

lemma next_handle_fresh: "fresh_handles next_handle"
proof -
  have "ht_easy s (next_handle s) = None" if fin: "finite (dom (ht_easy s))" for s
  proof (rule ccontr)
    assume "ht_easy s (next_handle s) \<noteq> None"
    then have "next_handle s \<in> insert 0 (dom (ht_easy s))" by auto
    then have "next_handle s \<le> Max (insert 0 (dom (ht_easy s)))" using fin by (intro Max_ge) auto
    then show False by (simp add: next_handle_def)
  qed
  then show ?thesis by (simp add: fresh_handles_def next_handle_def)
qed

definition two_logs :: HttpPostLogMgr where
  "two_logs = new_post_log\<lparr>pl_request_mgr := small_manager, pl_post_url := ''u/'', pl_post_count_once := 1,
     pl_record_list := [\<lparr>pr_operation = ''a'', pr_value = Map.empty\<rparr>, \<lparr>pr_operation = ''b'', pr_value = Map.empty\<rparr>]\<rparr>"


section \<open>What is signed\<close>

text \<open>The values of a record are kept by key, in the order of the keys, the last value of each.\<close>

lemma set_insert_fst: "fst ` set (set_insert d ds) = insert (fst d) (fst ` set ds)"
  by (induction ds) auto

lemma set_insert_sorted: "sorted_wrt (<) (map fst ds) \<Longrightarrow> sorted_wrt (<) (map fst (set_insert d ds))"
proof (induction ds)
  case (Cons e ds)
  have "\<forall>k \<in> fst ` set (set_insert d ds). fst e < k" if "fst e < fst d" using Cons.prems that by (auto simp: set_insert_fst)
  then show ?case using Cons by (fastforce simp: image_iff dest: less_trans)
qed simp

lemma set_insert_map: "fst d \<notin> fst ` set ds \<Longrightarrow> map_of (set_insert d ds) = (map_of ds)(fst d \<mapsto> snd d)"
  by (induction ds) (auto simp: fun_eq_iff)

lemma map_of_filter_key: "map_of (filter (\<lambda>d. fst d \<noteq> k) ds) = (map_of ds)(k := None)"
  by (induction ds) (auto simp: fun_eq_iff)

lemma sorted_keys_filter: "sorted_wrt (<) (map fst ds) \<Longrightarrow> sorted_wrt (<) (map fst (filter P ds))"
  by (induction ds) auto

lemma insertLogData_sorted: "sorted_wrt (<) (map fst (pl_push_data M)) \<Longrightarrow> sorted_wrt (<) (map fst (pl_push_data (insertLogData k v M)))"
  by (simp add: insertLogData_def set_insert_sorted sorted_keys_filter)

lemma insertLogData_map: "map_of (pl_push_data (insertLogData k v M)) = (map_of (pl_push_data M))(k \<mapsto> v)"
  using set_insert_map [of "(k, v)" "filter (\<lambda>d. fst d \<noteq> k) (pl_push_data M)"] by (auto simp: insertLogData_def map_of_filter_key)

lemma log_begin_sorted: "sorted_wrt (<) (map fst (pl_push_data (log_begin to_string ct M)))"
  unfolding log_begin_def pushDate_def pushLogData_int_def Let_def by (intro insertLogData_sorted) (simp add: insertLogData_sorted)

definition push_all :: "(string \<times> string) list \<Rightarrow> HttpPostLogMgr \<Rightarrow> HttpPostLogMgr" where
  "push_all kvs M = foldl (\<lambda>M (k, v). pushLogData_string k v M) M kvs"

lemma push_all_data:
  assumes "sorted_wrt (<) (map fst (pl_push_data M))"
  shows "sorted_wrt (<) (map fst (pl_push_data (push_all kvs M))) \<and> map_of (pl_push_data (push_all kvs M)) = map_of (pl_push_data M) ++ map_of (rev kvs)"
  using assms
proof (induction kvs arbitrary: M)
  case (Cons kv kvs)
  obtain k v where kv: "kv = (k, v)" by (cases kv)
  let ?M = "pushLogData_string k v M"
  have "sorted_wrt (<) (map fst (pl_push_data ?M))" "map_of (pl_push_data ?M) = (map_of (pl_push_data M))(k \<mapsto> v)"
    using Cons.prems by (simp_all add: pushLogData_string_def insertLogData_map insertLogData_sorted)
  moreover have "push_all (kv # kvs) M = push_all kvs ?M" using kv by (simp add: push_all_def)
  moreover have "map_of (pl_push_data M) ++ map_of (rev (kv # kvs)) = (map_of (pl_push_data M))(k \<mapsto> v) ++ map_of (rev kvs)"
    using kv by (simp add: map_add_upd)
  ultimately show ?case using Cons.IH [of ?M] by metis
qed (simp add: push_all_def)

lemma sorted_map_unique:
  fixes xs ys :: "(string \<times> string) list"
  assumes "sorted_wrt (<) (map fst xs)" "sorted_wrt (<) (map fst ys)" "map_of xs = map_of ys"
  shows "xs = ys"
proof -
  have keys: "map fst xs = map fst ys"
    using assms by (intro sorted_distinct_set_unique) (auto simp: strict_sorted_iff simp flip: dom_map_of_conv_image_fst)
  have pairs: "zs = map (\<lambda>k. (k, the (map_of zs k))) (map fst zs)" if "distinct (map fst zs)" for zs :: "(string \<times> string) list"
  proof (intro nth_equalityI)
    fix i assume i: "i < length zs"
    then have "map_of zs (fst (zs ! i)) = Some (snd (zs ! i))" using that by (simp add: map_of_eq_Some_iff)
    then show "zs ! i = map (\<lambda>k. (k, the (map_of zs k))) (map fst zs) ! i" using i by simp
  qed simp
  show ?thesis using pairs [of xs] pairs [of ys] assms keys by (simp add: strict_sorted_iff)
qed

text \<open>
  The signature is that of the last values in the order of their keys: a record that is given the same values in another order gets the
  same one.
\<close>

theorem signature_ignores_order:
  assumes "map_of (rev kvs) = map_of (rev kvs')"
  shows "pr_value (last (pl_record_list (log_end md5 oper (push_all kvs (log_begin to_string ct M))))) ''md5data'' =
    pr_value (last (pl_record_list (log_end md5 oper (push_all kvs' (log_begin to_string ct M))))) ''md5data''"
proof -
  let ?B = "log_begin to_string ct M"
  have "pl_push_data (push_all kvs ?B) = pl_push_data (push_all kvs' ?B)"
    using push_all_data [OF log_begin_sorted, of kvs] push_all_data [OF log_begin_sorted, of kvs'] assms by (intro sorted_map_unique) simp_all
  then show ?thesis by (simp add: log_end_def Let_def)
qed

end
