(* ===== verification/Thread_Pool.thy ===== *)
theory Thread_Pool
  imports Main "HOL-Library.Multiset" "HOL-Library.Monad_Syntax"
begin

text \<open>
  The thread pool of \<open>threadpool/threadpool\<close>: \<open>SafeQueue\<close> (\<open>safe_queue.h\<close>) and \<open>ThreadPool\<close> (\<open>thread_pool.h\<close>). Operations of the
  queue are atomic under its own mutex. A worker is a program counter in \<open>ThreadWorker::operator()\<close>; its critical section is under the mutex of
  the condition variable, which \<open>submit\<close> and \<open>shutdown\<close> do not take. \<open>submit\<close> is two steps, entering the task and notifying;
  \<open>shutdown\<close> is the flag, the notification and one step for each thread that is joined. Any of the threads may make the next step, and a waiting
  worker may wake up without a notification. The flag \<open>m_shutdown\<close> is a plain \<open>bool\<close> in the source; reading and writing it are single steps
  here. A task is a value, and what the pool did with tasks is recorded in three lists.
\<close>

section \<open>SafeQueue\<close>

definition SafeQueue_empty :: "'t list \<Rightarrow> bool" where
  "SafeQueue_empty q \<longleftrightarrow> q = []"

definition SafeQueue_size :: "'t list \<Rightarrow> nat" where
  "SafeQueue_size q = length q"

definition SafeQueue_enqueue :: "'t \<Rightarrow> 't list \<Rightarrow> 't list" where
  "SafeQueue_enqueue t q = q @ [t]"

fun SafeQueue_dequeue :: "'t list \<Rightarrow> ('t \<times> 't list) option" where
  "SafeQueue_dequeue [] = None"
| "SafeQueue_dequeue (t # q) = Some (t, q)"

section \<open>ThreadPool\<close>

text \<open>
  The places of a worker: the test of the flag, taking the mutex, the test of the queue, the call of \<open>wait\<close>, waiting, woken
  up and taking the mutex again, \<open>dequeue\<close> with the end of the critical section, running a task, and having returned.
\<close>

datatype 't worker = Check | Lock | Test | Sleep | Waiting | Woken | Take | Run 't | Finished

text \<open>The thread that calls \<open>shutdown\<close>: before it, before \<open>notify_all\<close>, joining thread \<open>i\<close>, and after it.\<close>

datatype main_thread = Open | Notifying | Joining nat | Closed

record 't thread_pool =
  tp_shutdown :: bool
  tp_queue :: "'t list"
  tp_workers :: "'t worker list"
  tp_owner :: "nat option"
  tp_pending :: nat
  tp_main :: main_thread
  tp_submitted :: "'t list"
  tp_started :: "'t list"
  tp_completed :: "'t list"

text \<open>The constructor with \<open>n\<close> threads, followed by \<open>init\<close>, which starts them.\<close>

definition tp_init :: "nat \<Rightarrow> 't thread_pool" where
  "tp_init n = \<lparr>tp_shutdown = False, tp_queue = [], tp_workers = replicate n Check, tp_owner = None, tp_pending = 0, tp_main = Open,
     tp_submitted = [], tp_started = [], tp_completed = []\<rparr>"

abbreviation set_worker :: "nat \<Rightarrow> 't worker \<Rightarrow> 't thread_pool \<Rightarrow> 't thread_pool" where
  "set_worker i w s \<equiv> s\<lparr>tp_workers := (tp_workers s)[i := w]\<rparr>"

definition worker_step :: "nat \<Rightarrow> 't thread_pool \<Rightarrow> 't thread_pool option" where
  "worker_step i s =
     (if length (tp_workers s) \<le> i then None
      else case tp_workers s ! i of
        Check \<Rightarrow> Some (set_worker i (if tp_shutdown s then Finished else Lock) s)
      | Lock \<Rightarrow> if tp_owner s = None then Some (set_worker i Test (s\<lparr>tp_owner := Some i\<rparr>)) else None
      | Test \<Rightarrow> Some (set_worker i (if SafeQueue_empty (tp_queue s) then Sleep else Take) s)
      | Sleep \<Rightarrow> Some (set_worker i Waiting (s\<lparr>tp_owner := None\<rparr>))
      | Waiting \<Rightarrow> None
      | Woken \<Rightarrow> if tp_owner s = None then Some (set_worker i Take (s\<lparr>tp_owner := Some i\<rparr>)) else None
      | Take \<Rightarrow>
          (case SafeQueue_dequeue (tp_queue s) of
             None \<Rightarrow> Some (set_worker i Check (s\<lparr>tp_owner := None\<rparr>))
           | Some (t, q) \<Rightarrow> Some (set_worker i (Run t) (s\<lparr>tp_owner := None, tp_queue := q, tp_started := tp_started s @ [t]\<rparr>)))
      | Run t \<Rightarrow> Some (set_worker i Check (s\<lparr>tp_completed := tp_completed s @ [t]\<rparr>))
      | Finished \<Rightarrow> None)"

definition submit_task :: "'t \<Rightarrow> 't thread_pool \<Rightarrow> 't thread_pool" where
  "submit_task t s = s\<lparr>tp_queue := SafeQueue_enqueue t (tp_queue s), tp_pending := tp_pending s + 1, tp_submitted := tp_submitted s @ [t]\<rparr>"

text \<open>\<open>notify_one\<close> wakes up one of the waiting workers, any of them, and does nothing when none waits.\<close>

definition notify_one :: "nat \<Rightarrow> 't thread_pool \<Rightarrow> 't thread_pool option" where
  "notify_one i s =
     (if tp_pending s = 0 then None
      else if Waiting \<in> set (tp_workers s) then
        (if i < length (tp_workers s) \<and> tp_workers s ! i = Waiting then Some (set_worker i Woken (s\<lparr>tp_pending := tp_pending s - 1\<rparr>)) else None)
      else Some (s\<lparr>tp_pending := tp_pending s - 1\<rparr>))"

definition spurious :: "nat \<Rightarrow> 't thread_pool \<Rightarrow> 't thread_pool option" where
  "spurious i s = (if i < length (tp_workers s) \<and> tp_workers s ! i = Waiting then Some (set_worker i Woken s) else None)"

definition wake :: "'t worker \<Rightarrow> 't worker" where
  "wake w = (case w of Waiting \<Rightarrow> Woken | _ \<Rightarrow> w)"

definition shutdown_step :: "'t thread_pool \<Rightarrow> 't thread_pool option" where
  "shutdown_step s =
     (case tp_main s of
        Open \<Rightarrow> Some (s\<lparr>tp_shutdown := True, tp_main := Notifying\<rparr>)
      | Notifying \<Rightarrow> Some (s\<lparr>tp_workers := map wake (tp_workers s), tp_main := Joining 0\<rparr>)
      | Joining i \<Rightarrow>
          if length (tp_workers s) \<le> i then Some (s\<lparr>tp_main := Closed\<rparr>)
          else case tp_workers s ! i of Finished \<Rightarrow> Some (s\<lparr>tp_main := Joining (i + 1)\<rparr>) | _ \<Rightarrow> None
      | Closed \<Rightarrow> None)"

datatype 't event = Work nat | Submit 't | Notify nat | Spurious nat | Shutdown

fun tp_do :: "'t event \<Rightarrow> 't thread_pool \<Rightarrow> 't thread_pool option" where
  "tp_do (Work i) s = worker_step i s"
| "tp_do (Submit t) s = Some (submit_task t s)"
| "tp_do (Notify i) s = notify_one i s"
| "tp_do (Spurious i) s = spurious i s"
| "tp_do Shutdown s = shutdown_step s"

inductive tp_reach :: "nat \<Rightarrow> 't thread_pool \<Rightarrow> bool" for n where
  reach_init: "tp_reach n (tp_init n)"
| reach_do: "tp_reach n s \<Longrightarrow> tp_do e s = Some s' \<Longrightarrow> tp_reach n s'"

fun tp_run :: "'t event list \<Rightarrow> 't thread_pool \<Rightarrow> 't thread_pool option" where
  "tp_run [] s = Some s"
| "tp_run (e # es) s = do { s \<leftarrow> tp_do e s; tp_run es s }"

lemma tp_run_reach: "tp_run es s = Some s' \<Longrightarrow> tp_reach n s \<Longrightarrow> tp_reach n s'"
  by (induction es arbitrary: s) (auto split: Option.bind_splits dest: reach_do)

section \<open>Tasks and the mutex\<close>

fun worker_task :: "'t worker \<Rightarrow> 't multiset" where
  "worker_task (Run t) = {#t#}"
| "worker_task _ = {#}"

definition running :: "'t thread_pool \<Rightarrow> 't multiset" where
  "running s = sum_list (map worker_task (tp_workers s))"

lemma sum_list_upd:
  "i < length xs \<Longrightarrow> sum_list (map f (xs[i := x])) + f (xs ! i) = sum_list (map f xs) + (f x :: 'b multiset)"
  by (induction xs arbitrary: i) (auto simp: ac_simps nth_Cons split: nat.split)

definition holds_mutex :: "'t worker \<Rightarrow> bool" where
  "holds_mutex w \<longleftrightarrow> w = Test \<or> w = Sleep \<or> w = Take"

definition mutex_ok :: "'t thread_pool \<Rightarrow> bool" where
  "mutex_ok s \<longleftrightarrow> (\<forall>i < length (tp_workers s). holds_mutex (tp_workers s ! i) \<longleftrightarrow> tp_owner s = Some i) \<and>
     (\<forall>i. tp_owner s = Some i \<longrightarrow> i < length (tp_workers s))"

definition tasks_ok :: "'t thread_pool \<Rightarrow> bool" where
  "tasks_ok s \<longleftrightarrow> tp_submitted s = tp_started s @ tp_queue s \<and> mset (tp_started s) = mset (tp_completed s) + running s"

text \<open>A worker is awake when it will look at the queue again without being notified.\<close>

definition awake :: "'t worker \<Rightarrow> bool" where
  "awake w \<longleftrightarrow> w \<noteq> Sleep \<and> w \<noteq> Waiting \<and> w \<noteq> Finished"

definition attended :: "'t thread_pool \<Rightarrow> bool" where
  "attended s \<longleftrightarrow> (2 \<le> length (tp_workers s) \<and> \<not> tp_shutdown s \<and> tp_queue s \<noteq> [] \<and> tp_pending s = 0 \<longrightarrow> (\<exists>w \<in> set (tp_workers s). awake w))"

definition none_finished :: "'t thread_pool \<Rightarrow> bool" where
  "none_finished s \<longleftrightarrow> (Finished \<in> set (tp_workers s) \<longrightarrow> tp_shutdown s)"

definition tp_inv :: "nat \<Rightarrow> 't thread_pool \<Rightarrow> bool" where
  "tp_inv n s \<longleftrightarrow> length (tp_workers s) = n \<and> mutex_ok s \<and> tasks_ok s \<and> attended s \<and> none_finished s"

lemmas tp_defs = tp_inv_def mutex_ok_def tasks_ok_def attended_def none_finished_def running_def

text \<open>One worker moves from \<open>v\<close> to \<open>w\<close>: what the parts of the invariant need of the move.\<close>

lemma mutex_ok_upd:
  assumes "mutex_ok s" "i < length (tp_workers s)"
    and "if holds_mutex w then own = Some i \<and> (tp_owner s = None \<or> tp_owner s = Some i)
         else own = (if tp_owner s = Some i then None else tp_owner s)"
  shows "mutex_ok (set_worker i w (s\<lparr>tp_owner := own\<rparr>))"
  using assms by (auto simp: mutex_ok_def nth_list_update split: if_splits)

lemma tp_inv_init: "tp_inv n (tp_init n)"
  by (simp add: tp_defs tp_init_def holds_mutex_def sum_list_replicate) (induction n; simp)

lemma owner_iff: "tp_inv n s \<Longrightarrow> i < n \<Longrightarrow> tp_owner s = Some i \<longleftrightarrow> holds_mutex (tp_workers s ! i)"
  by (simp add: tp_inv_def mutex_ok_def)

lemma same_owner: "tp_owner s = own \<Longrightarrow> s\<lparr>tp_owner := own\<rparr> = s"
  by auto

lemma tp_inv_sleeps:
  assumes inv: "tp_inv n s" and i: "i < n" "\<not> awake w" "worker_task (tp_workers s ! i) = {#}" "worker_task w = {#}"
    and own: "if holds_mutex w then own = Some i \<and> (tp_owner s = None \<or> tp_owner s = Some i)
         else own = (if tp_owner s = Some i then None else tp_owner s)"
    and quiet: "tp_shutdown s \<or> tp_queue s = [] \<and> w \<noteq> Finished \<or> \<not> awake (tp_workers s ! i) \<and> w \<noteq> Finished"
  shows "tp_inv n (set_worker i w (s\<lparr>tp_owner := own\<rparr>))"
proof -
  let ?ws = "tp_workers s"
  have len: "i < length ?ws" using inv i by (simp add: tp_inv_def)
  have "mutex_ok (set_worker i w (s\<lparr>tp_owner := own\<rparr>))" using inv len own by (intro mutex_ok_upd) (auto simp: tp_inv_def)
  moreover have "sum_list (map worker_task (?ws[i := w])) = sum_list (map worker_task ?ws)"
    using sum_list_upd [OF len, of worker_task w] i by simp
  moreover have "v \<in> set (?ws[i := w])" if v: "v \<in> set ?ws" "awake v" "\<not> awake (?ws ! i)" for v
  proof -
    obtain j where j: "j < length ?ws" "?ws ! j = v" using v(1) by (auto simp: in_set_conv_nth)
    with v have "j \<noteq> i" by auto
    with j show ?thesis by (metis length_list_update nth_list_update_neq nth_mem)
  qed
  moreover have "set (?ws[i := w]) \<subseteq> insert w (set ?ws)" by (rule set_update_subset_insert)
  ultimately show ?thesis using inv quiet unfolding tp_inv_def tasks_ok_def attended_def none_finished_def running_def by auto
qed

lemma mutex_ok_cong: "tp_owner s = tp_owner s' \<Longrightarrow> tp_workers s = tp_workers s' \<Longrightarrow> mutex_ok s \<longleftrightarrow> mutex_ok s'"
  by (simp add: mutex_ok_def)

text \<open>A worker that moves to a place where it is awake, with the queue and the lists of tasks changed on the way.\<close>

lemma tp_inv_moved:
  assumes inv: "tp_inv n s" and i: "i < n" "awake w" and own: "if holds_mutex w then own = Some i \<and> (tp_owner s = None \<or> tp_owner s = Some i)
         else own = (if tp_owner s = Some i then None else tp_owner s)"
    and s': "tp_workers s' = (tp_workers s)[i := w]" "tp_owner s' = own" "tasks_ok s'" "tp_shutdown s' = tp_shutdown s"
  shows "tp_inv n s'"
proof -
  have len: "i < length (tp_workers s)" using inv i by (simp add: tp_inv_def)
  have "mutex_ok (set_worker i w (s\<lparr>tp_owner := own\<rparr>))" using inv len own by (intro mutex_ok_upd) (auto simp: tp_inv_def)
  then have "mutex_ok s'" using s'(1,2) by (subst mutex_ok_cong [where s' = "set_worker i w (s\<lparr>tp_owner := own\<rparr>)"]) simp_all
  moreover have "attended s'" using set_update_memI [OF len, of w] i(2) s'(1) by (auto simp: attended_def)
  moreover have "none_finished s'" using inv i(2) s' set_update_subset_insert [of "tp_workers s" i w]
    by (auto simp: none_finished_def tp_inv_def awake_def)
  ultimately show ?thesis using inv s' by (simp add: tp_inv_def)
qed

lemma take_step_inv:
  assumes inv: "tp_inv n s" and i: "i < n" "tp_workers s ! i = Take" "tp_queue s = t # q"
  shows "tp_inv n (set_worker i (Run t) (s\<lparr>tp_owner := None, tp_queue := q, tp_started := tp_started s @ [t]\<rparr>))"
proof (rule tp_inv_moved [OF inv i(1), of "Run t" None])
  show "tasks_ok (set_worker i (Run t) (s\<lparr>tp_owner := None, tp_queue := q, tp_started := tp_started s @ [t]\<rparr>))"
    using inv i sum_list_upd [of i "tp_workers s" worker_task "Run t"] by (simp add: tp_inv_def tasks_ok_def running_def)
qed (use owner_iff [OF inv i(1)] i(2) in \<open>simp_all add: holds_mutex_def awake_def\<close>)

lemma run_step_inv:
  assumes inv: "tp_inv n s" and i: "i < n" "tp_workers s ! i = Run t"
  shows "tp_inv n (set_worker i Check (s\<lparr>tp_completed := tp_completed s @ [t]\<rparr>))"
proof (rule tp_inv_moved [OF inv i(1), of Check "tp_owner s"])
  show "tasks_ok (set_worker i Check (s\<lparr>tp_completed := tp_completed s @ [t]\<rparr>))"
    using inv i sum_list_upd [of i "tp_workers s" worker_task Check] by (simp add: tp_inv_def tasks_ok_def running_def ac_simps)
qed (use owner_iff [OF inv i(1)] i(2) in \<open>simp_all add: holds_mutex_def awake_def\<close>)

lemma tp_inv_move:
  assumes inv: "tp_inv n s" and i: "i < n" "awake w" and own: "if holds_mutex w then own = Some i \<and> (tp_owner s = None \<or> tp_owner s = Some i)
         else own = (if tp_owner s = Some i then None else tp_owner s)"
    and "worker_task (tp_workers s ! i) = {#}" "worker_task w = {#}"
  shows "tp_inv n (set_worker i w (s\<lparr>tp_owner := own\<rparr>))"
  using assms sum_list_upd [of i "tp_workers s" worker_task w]
  by (intro tp_inv_moved [OF inv i own]) (simp_all add: tp_inv_def tasks_ok_def running_def)

lemma worker_step_inv:
  assumes inv: "tp_inv n s" and step: "worker_step i s = Some s'"
  shows "tp_inv n s'"
proof -
  have i: "i < n" using step inv by (auto simp: worker_step_def tp_inv_def split: if_splits)
  have len: "\<not> length (tp_workers s) \<le> i" using i inv by (simp add: tp_inv_def)
  note own = owner_iff [OF inv i] and move = tp_inv_move [OF inv i] and sleeps = tp_inv_sleeps [OF inv i]
  show ?thesis
  proof (cases "tp_workers s ! i")
    case Check
    then show ?thesis using step len own move [of Lock "tp_owner s"] sleeps [of Finished "tp_owner s"]
      by (auto simp: worker_step_def holds_mutex_def awake_def split: if_splits)
  next
    case Lock
    then show ?thesis using step len move [of Test "Some i"] by (auto simp: worker_step_def holds_mutex_def awake_def split: if_splits)
  next
    case Test
    then show ?thesis using step len own move [of Take "tp_owner s"] sleeps [of Sleep "tp_owner s"]
      by (auto simp: worker_step_def holds_mutex_def awake_def SafeQueue_empty_def same_owner split: if_splits)
  next
    case Sleep
    then show ?thesis using step len own sleeps [of Waiting None] by (auto simp: worker_step_def holds_mutex_def awake_def)
  next
    case Woken
    then show ?thesis using step len move [of Take "Some i"] by (auto simp: worker_step_def holds_mutex_def awake_def split: if_splits)
  next
    case Take
    then show ?thesis using step len own move [of Check None] take_step_inv [OF inv i Take]
      by (cases "tp_queue s") (auto simp: worker_step_def holds_mutex_def awake_def)
  next
    case (Run t)
    then show ?thesis using step len run_step_inv [OF inv i Run] by (auto simp: worker_step_def)
  qed (use step len in \<open>simp_all add: worker_step_def\<close>)
qed

lemma wake_sel [simp]:
  "holds_mutex (wake w) = holds_mutex w" "worker_task (wake w) = worker_task w" "awake w \<Longrightarrow> awake (wake w)" "wake w = Finished \<longleftrightarrow> w = Finished" "Finished = wake w \<longleftrightarrow> w = Finished"
  by (cases w; simp add: wake_def holds_mutex_def awake_def)+

lemma spurious_inv: "tp_inv n s \<Longrightarrow> spurious i s = Some s' \<Longrightarrow> tp_inv n s'"
  using tp_inv_move [of n s i Woken "tp_owner s"] owner_iff [of n s i]
  by (auto simp: spurious_def tp_inv_def [of n s] awake_def holds_mutex_def split: if_splits)

text \<open>A notification finds nobody waiting only when all are awake but one that is about to wait: it holds the mutex, so there is no second one.\<close>

lemma somebody_awake:
  assumes inv: "tp_inv n s" and "2 \<le> n" "Waiting \<notin> set (tp_workers s)" "\<not> tp_shutdown s"
  shows "\<exists>w \<in> set (tp_workers s). awake w"
proof (rule ccontr)
  assume none: "\<not> ?thesis"
  have len: "length (tp_workers s) = n" using inv by (simp add: tp_inv_def)
  have "tp_workers s ! i = Sleep" if "i < n" for i
  proof -
    have "tp_workers s ! i \<in> set (tp_workers s)" using len that by simp
    then show ?thesis using none assms unfolding awake_def tp_inv_def none_finished_def by metis
  qed
  then have "tp_owner s = Some 0" "tp_owner s = Some 1"
    using owner_iff [OF inv, of 0] owner_iff [OF inv, of 1] assms(2) by (simp_all add: holds_mutex_def)
  then show False by simp
qed

lemma notify_one_inv:
  assumes inv: "tp_inv n s" and step: "notify_one i s = Some s'"
  shows "tp_inv n s'"
proof (cases "Waiting \<in> set (tp_workers s)")
  case True
  then have i: "i < length (tp_workers s)" "tp_workers s ! i = Waiting" and s': "s' = set_worker i Woken (s\<lparr>tp_pending := tp_pending s - 1\<rparr>)"
    using step by (auto simp: notify_one_def split: if_splits)
  then have "tp_inv n (set_worker i Woken s)" using spurious_inv [OF inv, of i] by (simp add: spurious_def)
  moreover have "Woken \<in> set ((tp_workers s)[i := Woken])" using i(1) by (rule set_update_memI)
  ultimately show ?thesis unfolding s' tp_inv_def tasks_ok_def mutex_ok_def attended_def none_finished_def running_def
    by (auto simp: awake_def)
next
  case False
  then have "s' = s\<lparr>tp_pending := tp_pending s - 1\<rparr>" using step by (auto simp: notify_one_def split: if_splits)
  then show ?thesis using inv somebody_awake [OF inv _ False]
    unfolding tp_inv_def tasks_ok_def mutex_ok_def attended_def none_finished_def running_def by auto
qed

lemma shutdown_step_inv:
  assumes inv: "tp_inv n s" and step: "shutdown_step s = Some s'"
  shows "tp_inv n s'"
proof -
  have flag: "tp_inv n (s\<lparr>tp_main := m\<rparr>)" "tp_inv n (s\<lparr>tp_shutdown := True, tp_main := m\<rparr>)" for m
    using inv unfolding tp_inv_def tasks_ok_def mutex_ok_def attended_def none_finished_def running_def by auto
  have all: "tp_inv n (s\<lparr>tp_workers := map wake (tp_workers s), tp_main := m\<rparr>)" for m
  proof -
    have "mutex_ok (s\<lparr>tp_workers := map wake (tp_workers s), tp_main := m\<rparr>)" using inv by (auto simp: tp_inv_def mutex_ok_def)
    moreover have "tasks_ok (s\<lparr>tp_workers := map wake (tp_workers s), tp_main := m\<rparr>)"
      using inv by (simp add: tp_inv_def tasks_ok_def running_def comp_def)
    moreover have "attended (s\<lparr>tp_workers := map wake (tp_workers s), tp_main := m\<rparr>)"
      using inv wake_sel(3) by (fastforce simp: tp_inv_def attended_def)
    moreover have "none_finished (s\<lparr>tp_workers := map wake (tp_workers s), tp_main := m\<rparr>)"
      using inv by (auto simp: tp_inv_def none_finished_def)
    ultimately show ?thesis using inv by (simp add: tp_inv_def)
  qed
  show ?thesis using step flag all by (auto simp: shutdown_step_def split: main_thread.splits if_splits worker.splits)
qed

lemma submit_task_inv:
  assumes "tp_inv n s"
  shows "tp_inv n (submit_task t s)"
proof -
  have "mutex_ok (submit_task t s)" using assms by (auto simp: tp_inv_def mutex_ok_def submit_task_def)
  moreover have "tasks_ok (submit_task t s)" using assms by (simp add: tp_inv_def tasks_ok_def running_def submit_task_def SafeQueue_enqueue_def)
  ultimately show ?thesis using assms by (simp add: tp_inv_def attended_def none_finished_def submit_task_def)
qed

lemma tp_do_inv:
  assumes inv: "tp_inv n s" and "tp_do e s = Some s'"
  shows "tp_inv n s'"
  using assms(2) worker_step_inv [OF inv] submit_task_inv [OF inv] notify_one_inv [OF inv] spurious_inv [OF inv] shutdown_step_inv [OF inv]
  by (cases e) auto

lemma tp_reach_inv: "tp_reach n s \<Longrightarrow> tp_inv n s"
  by (induction rule: tp_reach.induct) (auto intro: tp_inv_init tp_do_inv)

text \<open>
  C36. The pool runs every task at most once and in the order of submission. In every state that the threads can bring about, the tasks
  that were taken from the queue and those still in it are, in this order, the tasks submitted; a task that was taken is either
  being run by one worker or was run, once. At most one worker is between taking and leaving the mutex.
\<close>

theorem tasks_run_once_in_order:
  assumes "tp_reach n s"
  shows "tp_submitted s = tp_started s @ tp_queue s \<and> mset (tp_started s) = mset (tp_completed s) + running s \<and>
    (\<forall>i j. i < n \<and> j < n \<and> holds_mutex (tp_workers s ! i) \<and> holds_mutex (tp_workers s ! j) \<longrightarrow> i = j)"
proof (intro conjI allI impI)
  fix i j assume "i < n \<and> j < n \<and> holds_mutex (tp_workers s ! i) \<and> holds_mutex (tp_workers s ! j)"
  then have "tp_owner s = Some i" "tp_owner s = Some j" using owner_iff [OF tp_reach_inv [OF assms]] by blast+
  then show "i = j" by simp
qed (use tp_reach_inv [OF assms] in \<open>simp_all add: tp_inv_def tasks_ok_def\<close>)


definition asleep_for_good :: "'t thread_pool \<Rightarrow> bool" where
  "asleep_for_good s \<longleftrightarrow> tp_workers s = [Waiting] \<and> tp_pending s = 0 \<and>
     (\<forall>e s'. tp_do e s = Some s' \<longrightarrow> (\<exists>t. e = Submit t) \<or> (\<exists>i. e = Spurious i) \<or> e = Shutdown \<and> tp_main s = Open)"

lemma asleepI:
  assumes "tp_workers s = [Waiting]" "tp_pending s = 0" "tp_main s = Open \<or> tp_main s = Joining 0"
  shows "asleep_for_good s"
proof -
  have "worker_step i s = None" for i using assms(1) by (cases i) (simp_all add: worker_step_def)
  moreover have "notify_one i s = None" for i using assms(2) by (simp add: notify_one_def)
  ultimately have "(\<exists>t. e = Submit t) \<or> (\<exists>i. e = Spurious i) \<or> e = Shutdown \<and> tp_main s = Open" if "tp_do e s = Some s'" for e s'
    using that assms by (cases e) (auto simp: shutdown_step_def)
  then show ?thesis using assms by (auto simp: asleep_for_good_def)
qed

definition two_workers :: "nat thread_pool" where
  "two_workers = (tp_init 2)\<lparr>tp_workers := [Waiting, Check], tp_queue := [7], tp_submitted := [7], tp_pending := 1\<rparr>"

lemma two_workers_reach: "tp_reach 2 two_workers"
proof -
  have "tp_run [Work 0, Work 0, Work 0, Work 0, Submit 7] (tp_init 2) = Some two_workers"
    by (simp add: two_workers_def tp_init_def worker_step_def submit_task_def SafeQueue_empty_def SafeQueue_enqueue_def eval_nat_numeral)
  then show ?thesis using reach_init by (rule tp_run_reach)
qed

theorem tasks_run_once_in_order_witness:
  "tp_submitted two_workers = tp_started two_workers @ tp_queue two_workers \<and>
   mset (tp_started two_workers) = mset (tp_completed two_workers) + running two_workers"
  using tasks_run_once_in_order [OF two_workers_reach] by blast


text \<open>
  A pool of one thread can lose a notification: when a task is submitted between the test of the queue and the call of \<open>wait\<close>, the
  notification finds nobody waiting, and the worker goes to sleep with the task in the queue. No thread but a further \<open>submit\<close> moves the
  pool, except for a wake-up without a notification. The same happens to a shutdown, which then never returns from joining the thread.
\<close>

theorem notification_lost:
  "(\<exists>s. tp_reach 1 s \<and> asleep_for_good s \<and> tp_queue s = [t] \<and> tp_main s = Open) \<and>
   (\<exists>s :: 'a thread_pool. tp_reach 1 s \<and> asleep_for_good s \<and> tp_main s = Joining 0)" for t :: 'a
proof (rule conjI)
  let ?s = "(tp_init 1)\<lparr>tp_workers := [Waiting], tp_queue := [t], tp_submitted := [t]\<rparr>"
  have "tp_run [Work 0, Work 0, Work 0, Submit t, Notify 0, Work 0] (tp_init 1) = Some ?s"
    by (simp add: tp_init_def worker_step_def submit_task_def notify_one_def SafeQueue_empty_def SafeQueue_enqueue_def)
  then have "tp_reach 1 ?s" using reach_init by (rule tp_run_reach)
  moreover have "asleep_for_good ?s" by (rule asleepI) (simp_all add: tp_init_def)
  ultimately show "\<exists>s. tp_reach 1 s \<and> asleep_for_good s \<and> tp_queue s = [t] \<and> tp_main s = Open" by (intro exI [of _ ?s]) (simp add: tp_init_def)
next
  let ?s = "(tp_init 1 :: 'a thread_pool)\<lparr>tp_workers := [Waiting], tp_shutdown := True, tp_main := Joining 0\<rparr>"
  have "tp_run [Work 0, Work 0, Work 0, Shutdown, Shutdown, Work 0] (tp_init 1) = Some ?s"
    by (simp add: tp_init_def worker_step_def shutdown_step_def wake_def SafeQueue_empty_def)
  then have "tp_reach 1 ?s" using reach_init by (rule tp_run_reach)
  moreover have "asleep_for_good ?s" by (rule asleepI) (simp_all add: tp_init_def)
  ultimately show "\<exists>s. tp_reach 1 (s :: 'a thread_pool) \<and> asleep_for_good s \<and> tp_main s = Joining 0" by (intro exI [of _ ?s]) simp
qed

text \<open>What a shutdown leaves in the queue is never run: the workers return without looking at it.\<close>

theorem shutdown_abandons_tasks:
  "\<exists>s. tp_reach 1 s \<and> tp_main s = Closed \<and> tp_queue s = [t] \<and> tp_started s = []"
proof -
  let ?s = "(tp_init 1)\<lparr>tp_workers := [Finished], tp_shutdown := True, tp_main := Closed, tp_queue := [t], tp_submitted := [t], tp_pending := 1\<rparr>"
  have "tp_run [Submit t, Shutdown, Shutdown, Work 0, Shutdown, Shutdown] (tp_init 1) = Some ?s"
    by (simp add: tp_init_def worker_step_def shutdown_step_def wake_def submit_task_def SafeQueue_enqueue_def)
  then have "tp_reach 1 ?s" using reach_init by (rule tp_run_reach)
  then show ?thesis by (intro exI [of _ ?s]) (simp add: tp_init_def)
qed

end
