(* ===== verification/Db_Config.thy ===== *)
theory Db_Config
  imports Server_Config Mysql_Statements
begin

text \<open>
  The descriptions that \<open>db_generator\<close> reads: \<open>DBConfigParser::load\<close> with \<open>parse_table_fields\<close> (\<open>db_config_parser.cpp\<close>) for a database, and
  \<open>DBFieldConfigParser\<close> (\<open>db_field_config_parser.cpp\<close>) for the messages kept in blob fields, with the \<open>.proto\<close> file it writes. Members are
  read with the readers of the server configurations; where the source calls \<open>GetString\<close> or \<open>GetInt\<close> without looking at the type, another type fails
  an assertion of rapidjson. Files and parsing are parameters, and a file that is written is a pair of its name and its text.
\<close>

section \<open>Readers\<close>

fun get_array :: "json_value \<Rightarrow> json_value list option" where
  "get_array (JArray vs) = Some vs"
| "get_array _ = None"

definition read_forced :: "string \<Rightarrow> (json_value \<Rightarrow> 'v option) \<Rightarrow> ('v \<Rightarrow> 'c \<Rightarrow> 'c) \<Rightarrow> 'c field" where
  "read_forced key get put doc c = do {
     m \<leftarrow> find_member doc key;
     case m of None \<Rightarrow> Some (False, c) | Some v \<Rightarrow> do { x \<leftarrow> get v; Some (True, put x c) }
   }"

definition resize :: "nat \<Rightarrow> 'a \<Rightarrow> 'a list \<Rightarrow> 'a list" where
  "resize n d xs = take n xs @ replicate (n - length xs) d"

lemma length_resize [simp]: "length (resize n d xs) = n"
  by (simp add: resize_def)

definition ln :: "string \<Rightarrow> string" where
  "ln s = s @ [CHR 0x0A]"

section \<open>Messages in blob fields\<close>

record FieldMemberInfo =
  fm_name :: string
  fm_index :: int
  fm_type :: string
  fm_repeated :: bool

record FieldStructInfo =
  fs_name :: string
  fs_members :: "FieldMemberInfo list"

record DBFieldConfigParser =
  fp_config_path :: string
  fp_field_list :: "FieldStructInfo list"

definition new_field_parser :: DBFieldConfigParser where
  "new_field_parser = \<lparr>fp_config_path = [], fp_field_list = []\<rparr>"

definition getFieldInfo :: "DBFieldConfigParser \<Rightarrow> string \<Rightarrow> FieldStructInfo option" where
  "getFieldInfo P field_name = find (\<lambda>f. fs_name f = field_name) (fp_field_list P)"

definition read_repeated :: "FieldMemberInfo field" where
  "read_repeated doc c = do {
     m \<leftarrow> find_member doc ''repeated'';
     case m of
       None \<Rightarrow> Some (True, c\<lparr>fm_repeated := False\<rparr>)
     | Some v \<Rightarrow> (case get_bool v of None \<Rightarrow> Some (False, c) | Some b \<Rightarrow> Some (True, c\<lparr>fm_repeated := b\<rparr>))
   }"

definition parse_field_member :: "json_value \<Rightarrow> string \<Rightarrow> FieldMemberInfo \<Rightarrow> (bool \<times> FieldMemberInfo) option" where
  "parse_field_member v mem_name m = do {
     (ok, m) \<leftarrow> load_fields
       [read_int Checked ''index'' (\<lambda>x m. m\<lparr>fm_index := x\<rparr>), read_string Checked ''type'' (\<lambda>x m. m\<lparr>fm_type := x\<rparr>), read_repeated] v m;
     Some (if ok then (True, m\<lparr>fm_name := mem_name\<rparr>) else (False, m))
   }"

text \<open>The members share one \<open>mem_info\<close>; the name of the message is set with each member.\<close>

fun parse_members :: "string \<Rightarrow> json_object \<Rightarrow> FieldMemberInfo \<Rightarrow> FieldStructInfo \<Rightarrow> (bool \<times> FieldStructInfo) option" where
  "parse_members field_name [] m f = Some (True, f)"
| "parse_members field_name ((name, v) # ms) m f = do {
     (ok, m) \<leftarrow> parse_field_member v (cstr name) m;
     if ok then parse_members field_name ms m \<lparr>fs_name = field_name, fs_members = fs_members f @ [m]\<rparr> else Some (False, f)
   }"

definition new_member :: FieldMemberInfo where
  "new_member = \<lparr>fm_name = [], fm_index = 0, fm_type = [], fm_repeated = False\<rparr>"

definition parse_field :: "string \<Rightarrow> json_value \<Rightarrow> FieldStructInfo \<Rightarrow> (bool \<times> FieldStructInfo) option" where
  "parse_field field_name v f = (case v of JObject ms \<Rightarrow> parse_members field_name ms new_member f | _ \<Rightarrow> None)"

fun load_structs :: "json_object \<Rightarrow> DBFieldConfigParser \<Rightarrow> (bool \<times> DBFieldConfigParser) option" where
  "load_structs [] P = Some (True, P)"
| "load_structs ((name, v) # ms) P = do {
     (ok, f) \<leftarrow> parse_field (cstr name) v \<lparr>fs_name = [], fs_members = []\<rparr>;
     if ok then load_structs ms (P\<lparr>fp_field_list := fp_field_list P @ [f]\<rparr>) else Some (False, P)
   }"

definition field_load :: "(string \<Rightarrow> json_value option) \<Rightarrow> (string \<Rightarrow> string option) \<Rightarrow> DBFieldConfigParser \<Rightarrow> string \<Rightarrow> (bool \<times> DBFieldConfigParser) option" where
  "field_load parse files P config_path =
     (case files config_path of
        None \<Rightarrow> Some (False, P)
      | Some contents \<Rightarrow>
          (case parse (cstr (read_lines contents)) of
             None \<Rightarrow> Some (False, P)
           | Some doc \<Rightarrow>
               (case doc of
                  JObject ms \<Rightarrow> do {
                    (ok, P) \<leftarrow> load_structs ms P;
                    Some (if ok then (True, P\<lparr>fp_config_path := config_path\<rparr>) else (False, P))
                  }
                | _ \<Rightarrow> None)))"

text \<open>The part of a path after the last slash, and the part of that before the first point, unless the point comes first.\<close>

definition after_slash :: "string \<Rightarrow> string" where
  "after_slash path = rev (takeWhile (\<lambda>c. c \<noteq> CHR ''/'') (rev path))"

definition before_point :: "string \<Rightarrow> string" where
  "before_point name = (if CHR ''.'' \<in> set name \<and> hd name \<noteq> CHR ''.'' then takeWhile (\<lambda>c. c \<noteq> CHR ''.'') name else name)"

definition proto_member :: "FieldMemberInfo \<Rightarrow> string" where
  "proto_member m = ''  '' @ (if fm_repeated m then ''repeated '' else []) @ ln (fm_type m @ '' '' @ fm_name m @ '' = '' @ decimal_int (fm_index m) @ '';'')"

definition proto_message :: "FieldStructInfo \<Rightarrow> string" where
  "proto_message f = ln (''message '' @ fs_name f @ '' {'') @ concat (map proto_member (fs_members f)) @ ln ''}'' @ ln []"

definition field_generate :: "DBFieldConfigParser \<Rightarrow> string \<times> string" where
  "field_generate P =
     (let file_name = before_point (after_slash (fp_config_path P))
      in (file_name @ ''.proto'',
          ln ''// Generated by the db_generator.  DO NOT EDIT!'' @ ln (''// source: '' @ file_name) @
          ln (''syntax='' @ [CHR 0x22] @ ''proto3'' @ [CHR 0x22] @ '';'') @ ln [] @ concat (map proto_message (fp_field_list P))))"

section \<open>The description of a database\<close>

record SelKeyInfo =
  sk_key :: string
  sk_result_type :: string
  sk_result_key :: string

record TableInfo =
  tb_name :: string
  tb_primary_key :: string
  tb_primary_key_index :: int
  tb_db_engine :: string
  tb_select_keys_info :: "SelKeyInfo list"
  tb_update_key :: string
  tb_delete_key :: string

record FieldInfo =
  df_name :: string
  df_field_type :: string
  df_field_length :: int
  df_index_type :: string
  df_create_flags :: string

record DBConfig =
  dc_db_name :: string
  dc_struct_includes :: "string list"
  dc_define_includes :: "string list"
  dc_func_includes :: "string list"
  dc_tables :: "TableInfo list"
  dc_tables_fields :: "FieldInfo list list"

record DBConfigParser =
  dp_config :: DBConfig
  dp_jsonpath :: string

definition new_table :: TableInfo where
  "new_table = \<lparr>tb_name = [], tb_primary_key = [], tb_primary_key_index = 0, tb_db_engine = [], tb_select_keys_info = [], tb_update_key = [], tb_delete_key = []\<rparr>"

definition new_field :: FieldInfo where
  "new_field = \<lparr>df_name = [], df_field_type = [], df_field_length = 0, df_index_type = [], df_create_flags = []\<rparr>"

definition new_db_config_parser :: DBConfigParser where
  "new_db_config_parser = \<lparr>dp_config = \<lparr>dc_db_name = [], dc_struct_includes = [], dc_define_includes = [], dc_func_includes = [], dc_tables = [],
     dc_tables_fields = []\<rparr>, dp_jsonpath = []\<rparr>"

fun push_strings :: "json_value list \<Rightarrow> string list \<Rightarrow> bool \<times> string list" where
  "push_strings [] ss = (True, ss)"
| "push_strings (v # vs) ss = (case get_string v of None \<Rightarrow> (False, ss) | Some s \<Rightarrow> push_strings vs (ss @ [s]))"

definition read_includes :: "string \<Rightarrow> (DBConfig \<Rightarrow> string list) \<Rightarrow> (string list \<Rightarrow> DBConfig \<Rightarrow> DBConfig) \<Rightarrow> DBConfig field" where
  "read_includes key sel put = read_member Checked key get_array (\<lambda>vs c. let (ok, ss) = push_strings vs (sel c) in (ok, put ss c))"

definition field_readers :: "FieldInfo field list" where
  "field_readers =
     [read_forced ''name'' get_string (\<lambda>x f. f\<lparr>df_name := x\<rparr>),
      read_forced ''field_type'' get_string (\<lambda>x f. f\<lparr>df_field_type := x\<rparr>),
      read_forced ''field_length'' get_int (\<lambda>x f. f\<lparr>df_field_length := x\<rparr>),
      read_forced ''index_type'' get_string (\<lambda>x f. f\<lparr>df_index_type := x\<rparr>),
      read_forced ''create_flags'' get_string (\<lambda>x f. f\<lparr>df_create_flags := x\<rparr>)]"

fun parse_rows :: "json_value list \<Rightarrow> nat \<Rightarrow> FieldInfo list \<Rightarrow> (bool \<times> FieldInfo list) option" where
  "parse_rows [] i fis = Some (True, fis)"
| "parse_rows (v # vs) i fis = do {
     (ok, f) \<leftarrow> load_fields field_readers v (fis ! i);
     if ok then parse_rows vs (i + 1) (fis[i := f]) else Some (False, fis[i := f])
   }"

definition parse_table_fields :: "json_value \<Rightarrow> string \<Rightarrow> FieldInfo list \<Rightarrow> (bool \<times> FieldInfo list) option" where
  "parse_table_fields doc table_name fis = do {
     m \<leftarrow> find_member doc table_name;
     case m of
       None \<Rightarrow> Some (False, fis)
     | Some v \<Rightarrow> (case get_array v of None \<Rightarrow> Some (False, fis) | Some vs \<Rightarrow> parse_rows vs 0 (resize (length vs) new_field fis))
   }"

definition table_readers :: "json_value \<Rightarrow> (TableInfo \<times> FieldInfo list) field list" where
  "table_readers doc =
     [read_forced ''name'' get_string (\<lambda>x (t, fs). (t\<lparr>tb_name := x\<rparr>, fs)),
      (\<lambda>v (t, fs). do { (ok, fs) \<leftarrow> parse_table_fields doc (tb_name t) fs; Some (ok, (t, fs)) }),
      read_forced ''primary_key'' get_string (\<lambda>x (t, fs). (t\<lparr>tb_primary_key := x\<rparr>, fs)),
      read_forced ''primary_key_index'' get_int (\<lambda>x (t, fs). (t\<lparr>tb_primary_key_index := x\<rparr>, fs)),
      read_forced ''engine'' get_string (\<lambda>x (t, fs). (t\<lparr>tb_db_engine := x\<rparr>, fs))]"

fun load_table_rows :: "json_value \<Rightarrow> json_value list \<Rightarrow> nat \<Rightarrow> DBConfig \<Rightarrow> (bool \<times> DBConfig) option" where
  "load_table_rows doc [] i c = Some (True, c)"
| "load_table_rows doc (v # vs) i c = do {
     (ok, (t, fs)) \<leftarrow> load_fields (table_readers doc) v (dc_tables c ! i, dc_tables_fields c ! i);
     let c = c\<lparr>dc_tables := (dc_tables c)[i := t], dc_tables_fields := (dc_tables_fields c)[i := fs]\<rparr>;
     if ok then load_table_rows doc vs (i + 1) c else Some (False, c)
   }"

definition read_tables :: "DBConfig field" where
  "read_tables doc c = do {
     m \<leftarrow> find_member doc ''tables'';
     case m of
       None \<Rightarrow> Some (False, c)
     | Some v \<Rightarrow> (case get_array v of
         None \<Rightarrow> Some (False, c)
       | Some vs \<Rightarrow> load_table_rows doc vs 0
           (c\<lparr>dc_tables := resize (length vs) new_table (dc_tables c), dc_tables_fields := resize (length vs) [] (dc_tables_fields c)\<rparr>))
   }"

text \<open>The keys of a table are stored in the table of the same position; there need not be one.\<close>

definition select_readers :: "SelKeyInfo field list" where
  "select_readers =
     [read_forced ''key'' get_string (\<lambda>x k. k\<lparr>sk_key := x\<rparr>),
      read_forced ''result_type'' get_string (\<lambda>x k. k\<lparr>sk_result_type := x\<rparr>),
      read_forced ''result_key'' get_string (\<lambda>x k. k\<lparr>sk_result_key := x\<rparr>)]"

fun push_selects :: "json_value list \<Rightarrow> nat \<Rightarrow> TableInfo list \<Rightarrow> (bool \<times> TableInfo list) option" where
  "push_selects [] i ts = Some (True, ts)"
| "push_selects (v # vs) i ts = do {
     (ok, k) \<leftarrow> load_fields select_readers v \<lparr>sk_key = [], sk_result_type = [], sk_result_key = []\<rparr>;
     if \<not> ok then Some (False, ts)
     else do {
       require (i < length ts);
       push_selects vs i (ts[i := (ts ! i)\<lparr>tb_select_keys_info := tb_select_keys_info (ts ! i) @ [k]\<rparr>])
     }
   }"

definition read_select :: "nat \<Rightarrow> TableInfo list field" where
  "read_select i v ts = do {
     m \<leftarrow> find_member v ''select'';
     case m of
       None \<Rightarrow> Some (False, ts)
     | Some a \<Rightarrow> (case get_array a of None \<Rightarrow> Some (False, ts) | Some vs \<Rightarrow> push_selects vs i ts)
   }"

definition read_key :: "string \<Rightarrow> nat \<Rightarrow> (string \<Rightarrow> TableInfo \<Rightarrow> TableInfo) \<Rightarrow> TableInfo list field" where
  "read_key key i put v ts = do {
     m \<leftarrow> find_member v key;
     case m of
       None \<Rightarrow> Some (False, ts)
     | Some a \<Rightarrow> (case get_string a of
         None \<Rightarrow> Some (False, ts)
       | Some s \<Rightarrow> do { require (i < length ts); Some (True, ts[i := put s (ts ! i)]) })
   }"

fun load_operate_keys :: "json_value list \<Rightarrow> nat \<Rightarrow> TableInfo list \<Rightarrow> (bool \<times> TableInfo list) option" where
  "load_operate_keys [] i ts = Some (True, ts)"
| "load_operate_keys (v # vs) i ts = do {
     (ok, ts) \<leftarrow> load_fields
       [read_select i, read_key ''update'' i (\<lambda>s t. t\<lparr>tb_update_key := s\<rparr>), read_key ''delete'' i (\<lambda>s t. t\<lparr>tb_delete_key := s\<rparr>)] v ts;
     if ok then load_operate_keys vs (i + 1) ts else Some (False, ts)
   }"

definition read_operate_keys :: "DBConfig field" where
  "read_operate_keys doc c = do {
     m \<leftarrow> find_member doc ''tables_operate_keys'';
     case m of
       None \<Rightarrow> Some (False, c)
     | Some v \<Rightarrow> (case get_array v of
         None \<Rightarrow> Some (False, c)
       | Some vs \<Rightarrow> do { (ok, ts) \<leftarrow> load_operate_keys vs 0 (dc_tables c); Some (ok, c\<lparr>dc_tables := ts\<rparr>) })
   }"

definition config_readers :: "DBConfig field list" where
  "config_readers =
     [read_string Checked ''db_name'' (\<lambda>x c. c\<lparr>dc_db_name := x\<rparr>),
      read_includes ''struct_include'' dc_struct_includes (\<lambda>x c. c\<lparr>dc_struct_includes := x\<rparr>),
      read_includes ''define_include'' dc_define_includes (\<lambda>x c. c\<lparr>dc_define_includes := x\<rparr>),
      read_includes ''func_include'' dc_func_includes (\<lambda>x c. c\<lparr>dc_func_includes := x\<rparr>),
      read_tables, read_operate_keys]"

text \<open>The last member names the file of the messages, which is loaded and printed at once.\<close>

definition load_field_structs ::
  "(string \<Rightarrow> json_value option) \<Rightarrow> (string \<Rightarrow> string option) \<Rightarrow> json_value \<Rightarrow> (bool \<times> (string \<times> string) list) option" where
  "load_field_structs parse files doc = do {
     m \<leftarrow> find_member doc ''field_structs_file'';
     case m of
       None \<Rightarrow> Some (False, [])
     | Some v \<Rightarrow> do {
         field_config_path \<leftarrow> get_string v;
         (ok, P) \<leftarrow> field_load parse files new_field_parser field_config_path;
         Some (if ok then (True, [field_generate P]) else (False, []))
       }
   }"

definition db_load ::
  "(string \<Rightarrow> json_value option) \<Rightarrow> (string \<Rightarrow> string option) \<Rightarrow> DBConfigParser \<Rightarrow> string \<Rightarrow> (bool \<times> DBConfigParser \<times> (string \<times> string) list) option" where
  "db_load parse files D jsonpath =
     (case files jsonpath of
        None \<Rightarrow> Some (False, D, [])
      | Some contents \<Rightarrow>
          (case parse (cstr (read_lines contents)) of
             None \<Rightarrow> Some (False, D, [])
           | Some doc \<Rightarrow> do {
               (ok, c) \<leftarrow> load_fields config_readers doc (dp_config D);
               if \<not> ok then Some (False, D\<lparr>dp_config := c\<rparr>, [])
               else do {
                 (ok, out) \<leftarrow> load_field_structs parse files doc;
                 Some (if ok then (True, \<lparr>dp_config = c, dp_jsonpath = jsonpath\<rparr>, out) else (False, D\<lparr>dp_config := c\<rparr>, out))
               }
             }))"


section \<open>Reading back a description\<close>

abbreviation plain_str :: "string \<Rightarrow> bool" where
  "plain_str s \<equiv> CHR 0x00 \<notin> set s"

definition member_doc :: "FieldMemberInfo \<Rightarrow> json_value" where
  "member_doc m = JObject ([(''index'', JInt (fm_index m)), (''type'', JString (fm_type m))] @ (if fm_repeated m then [(''repeated'', JBool True)] else []))"

definition struct_doc :: "FieldStructInfo \<Rightarrow> string \<times> json_value" where
  "struct_doc f = (fs_name f, JObject (map (\<lambda>m. (fm_name m, member_doc m)) (fs_members f)))"

definition plain_struct :: "FieldStructInfo \<Rightarrow> bool" where
  "plain_struct f \<longleftrightarrow> plain_str (fs_name f) \<and> fs_members f \<noteq> [] \<and> (\<forall>m\<in>set (fs_members f). plain_str (fm_name m) \<and> plain_str (fm_type m))"

lemma parse_member_doc:
  "plain_str (fm_type m) \<Longrightarrow> parse_field_member (member_doc m) (fm_name m) old = Some (True, m)"
  by (cases m; cases old) (auto simp: parse_field_member_def member_doc_def read_int_def read_string_def read_member_def read_repeated_def cstr_plain)

lemma parse_members_doc:
  "\<forall>m\<in>set ms. plain_str (fm_name m) \<and> plain_str (fm_type m) \<Longrightarrow>
     parse_members name (map (\<lambda>m. (fm_name m, member_doc m)) ms) old f =
     Some (True, if ms = [] then f else \<lparr>fs_name = name, fs_members = fs_members f @ ms\<rparr>)"
  by (induction ms arbitrary: old f) (simp_all add: cstr_plain parse_member_doc)

lemma load_structs_doc:
  "\<forall>f\<in>set fs. plain_struct f \<Longrightarrow> load_structs (map struct_doc fs) P = Some (True, P\<lparr>fp_field_list := fp_field_list P @ fs\<rparr>)"
proof (induction fs arbitrary: P)
  case (Cons f fs)
  have "parse_field (cstr (fs_name f)) (snd (struct_doc f)) \<lparr>fs_name = [], fs_members = []\<rparr> = Some (True, f)"
    using Cons.prems by (simp add: parse_field_def struct_doc_def parse_members_doc plain_struct_def cstr_plain)
  then show ?case using Cons by (simp add: struct_doc_def)
qed simp

text \<open>A message without members keeps an empty name.\<close>

theorem empty_message_loses_name:
  "load_structs [(''Item'', JObject [])] new_field_parser = Some (True, new_field_parser\<lparr>fp_field_list := [\<lparr>fs_name = [], fs_members = []\<rparr>]\<rparr>)"
  by (simp add: parse_field_def new_field_parser_def)

definition field_doc :: "FieldInfo \<Rightarrow> json_value" where
  "field_doc f = JObject [(''name'', JString (df_name f)), (''field_type'', JString (df_field_type f)), (''field_length'', JInt (df_field_length f)),
     (''index_type'', JString (df_index_type f)), (''create_flags'', JString (df_create_flags f))]"

definition plain_field_info :: "FieldInfo \<Rightarrow> bool" where
  "plain_field_info f \<longleftrightarrow> plain_str (df_name f) \<and> plain_str (df_field_type f) \<and> plain_str (df_index_type f) \<and> plain_str (df_create_flags f)"

lemma read_field_doc: "plain_field_info f \<Longrightarrow> load_fields field_readers (field_doc f) old = Some (True, f)"
  by (cases f; cases old) (simp add: field_readers_def field_doc_def read_forced_def plain_field_info_def cstr_plain)

lemma parse_rows_doc:
  "\<forall>f\<in>set fs. plain_field_info f \<Longrightarrow> length gs = i + length fs \<Longrightarrow> parse_rows (map field_doc fs) i gs = Some (True, take i gs @ fs)"
proof (induction fs arbitrary: i gs)
  case (Cons f fs)
  then show ?case by (simp add: read_field_doc take_Suc_conv_app_nth)
qed simp

definition table_doc :: "TableInfo \<Rightarrow> json_value" where
  "table_doc t = JObject [(''name'', JString (tb_name t)), (''primary_key'', JString (tb_primary_key t)),
     (''primary_key_index'', JInt (tb_primary_key_index t)), (''engine'', JString (tb_db_engine t))]"

definition plain_table :: "TableInfo \<Rightarrow> bool" where
  "plain_table t \<longleftrightarrow> plain_str (tb_name t) \<and> plain_str (tb_primary_key t) \<and> plain_str (tb_db_engine t) \<and> plain_str (tb_update_key t) \<and>
     plain_str (tb_delete_key t) \<and> (\<forall>k\<in>set (tb_select_keys_info t). plain_str (sk_key k) \<and> plain_str (sk_result_type k) \<and> plain_str (sk_result_key k))"

definition bare :: "TableInfo \<Rightarrow> TableInfo" where
  "bare t = t\<lparr>tb_select_keys_info := [], tb_update_key := [], tb_delete_key := []\<rparr>"

definition sel_doc :: "SelKeyInfo \<Rightarrow> json_value" where
  "sel_doc k = JObject [(''key'', JString (sk_key k)), (''result_type'', JString (sk_result_type k)), (''result_key'', JString (sk_result_key k))]"

definition keys_doc :: "TableInfo \<Rightarrow> json_value" where
  "keys_doc t = JObject [(''select'', JArray (map sel_doc (tb_select_keys_info t))), (''update'', JString (tb_update_key t)),
     (''delete'', JString (tb_delete_key t))]"

lemma read_table_doc:
  assumes "plain_table t" "\<forall>f\<in>set fs. plain_field_info f" "map_of ms (tb_name t) = Some (JArray (map field_doc fs))"
  shows "load_fields (table_readers (JObject ms)) (table_doc t) (new_table, []) = Some (True, (bare t, fs))"
proof -
  have "parse_table_fields (JObject ms) (tb_name t) [] = Some (True, fs)"
    using assms(2,3) by (simp add: parse_table_fields_def parse_rows_doc)
  then show ?thesis using assms(1)
    by (cases t) (simp add: table_readers_def table_doc_def read_forced_def plain_table_def cstr_plain bare_def new_table_def)
qed

lemma load_table_rows_doc:
  assumes "\<forall>(t, fs)\<in>set rows. plain_table t \<and> (\<forall>f\<in>set fs. plain_field_info f) \<and> map_of ms (tb_name t) = Some (JArray (map field_doc fs))"
    and "drop i (dc_tables c) = replicate (length rows) new_table" "drop i (dc_tables_fields c) = replicate (length rows) []"
    and "length (dc_tables c) = i + length rows" "length (dc_tables_fields c) = i + length rows"
  shows "load_table_rows (JObject ms) (map (table_doc \<circ> fst) rows) i c =
    Some (True, c\<lparr>dc_tables := take i (dc_tables c) @ map (bare \<circ> fst) rows, dc_tables_fields := take i (dc_tables_fields c) @ map snd rows\<rparr>)"
  using assms
proof (induction rows arbitrary: i c)
  case (Cons row rows)
  obtain t fs where row: "row = (t, fs)" by (cases row)
  have i: "i < length (dc_tables c)" "i < length (dc_tables_fields c)" using Cons.prems(4,5) by simp_all
  have d: "dc_tables c ! i = new_table" "drop (Suc i) (dc_tables c) = replicate (length rows) new_table"
    "dc_tables_fields c ! i = []" "drop (Suc i) (dc_tables_fields c) = replicate (length rows) []"
    using Cons.prems(2,3) Cons_nth_drop_Suc [OF i(1)] Cons_nth_drop_Suc [OF i(2)] by auto
  have r: "load_fields (table_readers (JObject ms)) (table_doc t) (new_table, []) = Some (True, (bare t, fs))"
    using Cons.prems(1) by (intro read_table_doc) (auto simp: row)
  let ?c = "c\<lparr>dc_tables := (dc_tables c)[i := bare t], dc_tables_fields := (dc_tables_fields c)[i := fs]\<rparr>"
  have "load_table_rows (JObject ms) (map (table_doc \<circ> fst) rows) (Suc i) ?c =
    Some (True, ?c\<lparr>dc_tables := take (Suc i) (dc_tables ?c) @ map (bare \<circ> fst) rows,
      dc_tables_fields := take (Suc i) (dc_tables_fields ?c) @ map snd rows\<rparr>)"
    using Cons.prems d by (intro Cons.IH) auto
  then show ?case using i by (simp add: row r d take_Suc_conv_app_nth Let_def comp_def)
qed simp

lemma push_selects_doc:
  "\<forall>k\<in>set ks. plain_str (sk_key k) \<and> plain_str (sk_result_type k) \<and> plain_str (sk_result_key k) \<Longrightarrow> i < length ts \<Longrightarrow>
     push_selects (map sel_doc ks) i ts = Some (True, ts[i := (ts ! i)\<lparr>tb_select_keys_info := tb_select_keys_info (ts ! i) @ ks\<rparr>])"
proof (induction ks arbitrary: ts)
  case (Cons k ks)
  have "load_fields select_readers (sel_doc k) \<lparr>sk_key = [], sk_result_type = [], sk_result_key = []\<rparr> = Some (True, k)"
    using Cons.prems(1) by (cases k) (simp add: select_readers_def sel_doc_def read_forced_def cstr_plain)
  then show ?case using Cons by simp
qed simp

lemma read_keys_doc:
  "plain_table t \<Longrightarrow> i < length us \<Longrightarrow> us ! i = bare t \<Longrightarrow> load_fields
     [read_select i, read_key ''update'' i (\<lambda>s t. t\<lparr>tb_update_key := s\<rparr>), read_key ''delete'' i (\<lambda>s t. t\<lparr>tb_delete_key := s\<rparr>)] (keys_doc t) us
     = Some (True, us[i := t])"
  by (cases t) (simp add: keys_doc_def read_select_def read_key_def push_selects_doc plain_table_def cstr_plain bare_def)

lemma load_keys_doc:
  "\<forall>t\<in>set ts. plain_table t \<Longrightarrow> drop i us = map bare ts \<Longrightarrow> length us = i + length ts \<Longrightarrow>
     load_operate_keys (map keys_doc ts) i us = Some (True, take i us @ ts)"
proof (induction ts arbitrary: i us)
  case (Cons t ts)
  have i: "i < length us" using Cons.prems(3) by simp
  have d: "us ! i = bare t" "drop (Suc i) us = map bare ts" using Cons.prems(2) Cons_nth_drop_Suc [OF i] by auto
  have "load_operate_keys (map keys_doc ts) (Suc i) (us[i := t]) = Some (True, take (Suc i) (us[i := t]) @ ts)"
    using Cons.prems d by (intro Cons.IH) auto
  then show ?case using i Cons.prems(1)
    by (simp add: read_keys_doc d take_Suc_conv_app_nth del: load_fields.simps)
qed simp


lemma push_strings_doc: "\<forall>x\<in>set xs. plain_str x \<Longrightarrow> push_strings (map JString xs) ss = (True, ss @ xs)"
  by (induction xs arbitrary: ss) (simp_all add: cstr_plain)

lemma read_includes_doc:
  "map_of ms key = Some (JArray (map JString xs)) \<Longrightarrow> \<forall>x\<in>set xs. plain_str x \<Longrightarrow>
     read_includes key sel put (JObject ms) c = Some (True, put (sel c @ xs) c)"
  by (simp add: read_includes_def read_member_def push_strings_doc)

definition config_keys :: "string list" where
  "config_keys = [''db_name'', ''struct_include'', ''define_include'', ''func_include'', ''tables'', ''tables_operate_keys'', ''field_structs_file'']"

definition table_rows :: "DBConfig \<Rightarrow> (TableInfo \<times> FieldInfo list) list" where
  "table_rows c = zip (dc_tables c) (dc_tables_fields c)"

definition description_members :: "DBConfig \<Rightarrow> string \<Rightarrow> json_object" where
  "description_members c field_file =
     [(''db_name'', JString (dc_db_name c)), (''struct_include'', JArray (map JString (dc_struct_includes c))),
      (''define_include'', JArray (map JString (dc_define_includes c))), (''func_include'', JArray (map JString (dc_func_includes c))),
      (''tables'', JArray (map table_doc (dc_tables c))), (''tables_operate_keys'', JArray (map keys_doc (dc_tables c))),
      (''field_structs_file'', JString field_file)]
     @ map (\<lambda>(t, fs). (tb_name t, JArray (map field_doc fs))) (table_rows c)"

definition plain_config :: "DBConfig \<Rightarrow> bool" where
  "plain_config c \<longleftrightarrow> plain_str (dc_db_name c) \<and>
     (\<forall>x\<in>set (dc_struct_includes c @ dc_define_includes c @ dc_func_includes c). plain_str x) \<and>
     (\<forall>t\<in>set (dc_tables c). plain_table t \<and> tb_name t \<notin> set config_keys) \<and> distinct (map tb_name (dc_tables c)) \<and>
     length (dc_tables_fields c) = length (dc_tables c) \<and> (\<forall>fs\<in>set (dc_tables_fields c). \<forall>f\<in>set fs. plain_field_info f)"

lemma table_members:
  assumes "plain_config c" "(t, fs) \<in> set (table_rows c)"
  shows "map_of (description_members c field_file) (tb_name t) = Some (JArray (map field_doc fs))"
proof -
  let ?rows = "map (\<lambda>(t, fs). (tb_name t, JArray (map field_doc fs))) (table_rows c)"
  have "map fst ?rows = map tb_name (map fst (table_rows c))" by (simp add: case_prod_beta comp_def)
  moreover have "map fst (table_rows c) = dc_tables c" using assms(1) by (simp add: table_rows_def plain_config_def)
  ultimately have "distinct (map fst ?rows)" using assms(1) by (simp add: plain_config_def del: map_map)
  then have "map_of ?rows (tb_name t) = Some (JArray (map field_doc fs))" using assms(2) by (intro map_of_is_SomeI) auto
  moreover have "t \<in> set (dc_tables c)" using assms(2) by (auto simp: table_rows_def dest: set_zip_leftD)
  then have "tb_name t \<notin> set config_keys" using assms(1) by (simp add: plain_config_def)
  ultimately show ?thesis by (auto simp: description_members_def config_keys_def)
qed

lemma read_tables_doc:
  assumes "plain_config c" "dc_tables d = []" "dc_tables_fields d = []"
  shows "read_tables (JObject (description_members c field_file)) d =
    Some (True, d\<lparr>dc_tables := map bare (dc_tables c), dc_tables_fields := dc_tables_fields c\<rparr>)"
proof -
  have l: "length (dc_tables_fields c) = length (dc_tables c)" using assms(1) by (simp add: plain_config_def)
  then have z: "map (table_doc \<circ> fst) (table_rows c) = map table_doc (dc_tables c)" "map (bare \<circ> fst) (table_rows c) = map bare (dc_tables c)"
    "map snd (table_rows c) = dc_tables_fields c" "length (table_rows c) = length (dc_tables c)"
    by (simp_all add: table_rows_def map_map [symmetric] del: map_map)
  have "\<forall>(t, fs)\<in>set (table_rows c). plain_table t \<and> (\<forall>f\<in>set fs. plain_field_info f)
      \<and> map_of (description_members c field_file) (tb_name t) = Some (JArray (map field_doc fs))"
    using assms(1) table_members [OF assms(1)]
    by (auto simp: plain_config_def table_rows_def dest: set_zip_leftD set_zip_rightD)
  note L = load_table_rows_doc [OF this, of 0, unfolded z]
  have m: "map_of (description_members c field_file) ''tables'' = Some (JArray (map table_doc (dc_tables c)))" by (simp add: description_members_def)
  show ?thesis using assms(2,3) by (simp add: read_tables_def m L resize_def)
qed

lemma read_operate_keys_doc:
  assumes "plain_config c" "dc_tables d = map bare (dc_tables c)"
  shows "read_operate_keys (JObject (description_members c field_file)) d = Some (True, d\<lparr>dc_tables := dc_tables c\<rparr>)"
proof -
  have m: "map_of (description_members c field_file) ''tables_operate_keys'' = Some (JArray (map keys_doc (dc_tables c)))" by (simp add: description_members_def)
  have "load_operate_keys (map keys_doc (dc_tables c)) 0 (dc_tables d) = Some (True, dc_tables c)"
    using assms load_keys_doc [of "dc_tables c" 0 "dc_tables d"] by (simp add: plain_config_def)
  then show ?thesis by (simp add: read_operate_keys_def m)
qed

lemma read_config_doc:
  assumes "plain_config c"
  shows "load_fields config_readers (JObject (description_members c field_file)) (dp_config new_db_config_parser) = Some (True, c)"
proof -
  have I: "read_includes key sel put (JObject (description_members c field_file)) d = Some (True, put (sel d @ xs) d)"
    if "map_of (description_members c field_file) key = Some (JArray (map JString xs))"
      "set xs \<subseteq> set (dc_struct_includes c @ dc_define_includes c @ dc_func_includes c)" for key xs sel put d
    using that assms by (intro read_includes_doc) (auto simp: plain_config_def)
  have m: "map_of (description_members c field_file) ''db_name'' = Some (JString (dc_db_name c))"
    "map_of (description_members c field_file) ''struct_include'' = Some (JArray (map JString (dc_struct_includes c)))"
    "map_of (description_members c field_file) ''define_include'' = Some (JArray (map JString (dc_define_includes c)))"
    "map_of (description_members c field_file) ''func_include'' = Some (JArray (map JString (dc_func_includes c)))"
    by (simp_all add: description_members_def)
  have J: "read_includes ''struct_include'' sel put (JObject (description_members c field_file)) d = Some (True, put (sel d @ dc_struct_includes c) d)"
    "read_includes ''define_include'' sel put (JObject (description_members c field_file)) d = Some (True, put (sel d @ dc_define_includes c) d)"
    "read_includes ''func_include'' sel put (JObject (description_members c field_file)) d = Some (True, put (sel d @ dc_func_includes c) d)" for sel put d
    by (intro I m; auto)+
  have "cstr (dc_db_name c) = dc_db_name c" using assms by (simp add: plain_config_def cstr_plain)
  then show ?thesis using assms
    by (simp add: config_readers_def read_string_def read_member_def m J read_tables_doc read_operate_keys_doc
        new_db_config_parser_def)
qed


definition sample_config :: DBConfig where
  "sample_config = \<lparr>dc_db_name = ''db'', dc_struct_includes = [], dc_define_includes = [''d.h''], dc_func_includes = [],
     dc_tables = [new_table\<lparr>tb_name := ''t'', tb_select_keys_info := [\<lparr>sk_key = ''id'', sk_result_type = ''single'', sk_result_key = []\<rparr>], tb_update_key := ''id''\<rparr>],
     dc_tables_fields = [[new_field\<lparr>df_name := ''id'', df_field_type := ''int''\<rparr>]]\<rparr>"

definition sample_struct :: FieldStructInfo where
  "sample_struct = \<lparr>fs_name = ''Item'', fs_members = [\<lparr>fm_name = ''n'', fm_index = 1, fm_type = ''int32'', fm_repeated = True\<rparr>]\<rparr>"


text \<open>Keys for a table that is not there are stored past the end of the vector.\<close>

theorem keys_without_table_undefined:
  assumes "length ts \<le> i"
  shows "load_operate_keys [JObject [(''select'', JArray []), (''update'', JString u), (''delete'', JString d)]] i ts = None"
  using assms by (simp add: read_select_def read_key_def)

end
