(* ===== verification/Lib_Helpers.thy ===== *)
theory Lib_Helpers
  imports Prelude
begin

text \<open>
  The helpers of \<open>libjmy\<close> that generated code and tools use: \<open>JmyCsvParser\<close> (\<open>jmy_csv_parser.h\<close>), \<open>JmyObjectSet\<close> (\<open>jmy_object_set.hpp\<close>) and
  \<open>JmyNetTool\<close> (\<open>jmy_net_tool.h\<close>, \<open>jmy_net_tool.cpp\<close>). The file system is a map from paths to texts, the clock an argument, and objects are
  addresses that are live or not. What a CSV file gives is compared with a reference that splits the text at every separator; the rates of the
  network tool are compared with the bytes counted, which shows where its 32 bit totals stop being enough.
\<close>

section \<open>Splitting\<close>

text \<open>The reference: the pieces of a text between characters that satisfy a predicate, empty pieces included.\<close>

fun split_at :: "('a \<Rightarrow> bool) \<Rightarrow> 'a list \<Rightarrow> 'a list list" where
  "split_at P [] = [[]]"
| "split_at P (c # s) = (if P c then [] # split_at P s else (case split_at P s of [] \<Rightarrow> [[c]] | p # ps \<Rightarrow> (c # p) # ps))"

fun join_by :: "'a \<Rightarrow> 'a list list \<Rightarrow> 'a list" where
  "join_by c [] = []"
| "join_by c [p] = p"
| "join_by c (p # ps) = p @ c # join_by c ps"

lemma split_at_not_Nil [simp]: "split_at P s \<noteq> []"
  by (cases s) (auto split: list.splits)

lemma split_at_plain: "\<forall>c\<in>set s. \<not> P c \<Longrightarrow> split_at P s = [s]"
  by (induction s) auto

lemma split_at_append: "\<forall>c\<in>set s. \<not> P c \<Longrightarrow> P d \<Longrightarrow> split_at P (s @ d # r) = s # split_at P r"
  by (induction s) auto

lemma first_separator:
  obtains (none) "\<forall>c\<in>set s. \<not> P c" | (piece) p d r where "s = p @ d # r" "\<forall>c\<in>set p. \<not> P c" "P d"
  using split_list_first_prop [of s P] by blast

lemma split_at_join:
  "ps \<noteq> [] \<Longrightarrow> \<forall>p\<in>set ps. \<forall>c\<in>set p. \<not> P c \<Longrightarrow> P d \<Longrightarrow> split_at P (join_by d ps) = ps"
  by (induction d ps rule: join_by.induct) (auto simp: split_at_plain split_at_append)

lemma split_at_join_append:
  "ps \<noteq> [] \<Longrightarrow> \<forall>p\<in>set ps. \<forall>c\<in>set p. \<not> P c \<Longrightarrow> P d \<Longrightarrow> P e \<Longrightarrow> split_at P (join_by d ps @ e # r) = ps @ split_at P r"
  by (induction d ps rule: join_by.induct) (auto simp: split_at_append)

lemma set_join_by: "set (join_by c ps) \<subseteq> insert c (\<Union>p\<in>set ps. set p)"
  by (induction c ps rule: join_by.induct) auto

section \<open>CSV files\<close>

record JmyCsvParser =
  csv_lines :: "string list list"

definition csv_new :: JmyCsvParser where
  "csv_new = \<lparr>csv_lines = []\<rparr>"

definition csv_close :: "JmyCsvParser \<Rightarrow> JmyCsvParser" where
  "csv_close P = P\<lparr>csv_lines := []\<rparr>"

definition getLines :: "JmyCsvParser \<Rightarrow> string list list" where
  "getLines P = csv_lines P"

definition csv_delim :: "char \<Rightarrow> bool" where
  "csv_delim c \<longleftrightarrow> c = CHR 0x2C \<or> c = CHR 0x0D"

definition newline :: "char \<Rightarrow> bool" where
  "newline c \<longleftrightarrow> c = CHR 0x0A"

text \<open>\<open>strtok\<close> skips separators, gives the characters up to the next one and goes on after it.\<close>

definition strtok :: "string \<Rightarrow> (string \<times> string) option" where
  "strtok s = (let t = dropWhile csv_delim s
     in if t = [] then None else Some (takeWhile (\<lambda>c. \<not> csv_delim c) t, drop 1 (dropWhile (\<lambda>c. \<not> csv_delim c) t)))"

lemma strtok_shorter: "strtok s = Some (t, r) \<Longrightarrow> length r < length s"
proof -
  assume A: "strtok s = Some (t, r)"
  let ?d = "dropWhile csv_delim s"
  have "?d \<noteq> []" "r = drop 1 (dropWhile (\<lambda>c. \<not> csv_delim c) ?d)"
    using A by (auto simp: strtok_def Let_def split: if_splits)
  moreover have "length (dropWhile (\<lambda>c. \<not> csv_delim c) ?d) \<le> length ?d" "length ?d \<le> length s"
    by (rule length_dropWhile_le)+
  ultimately show ?thesis by (cases ?d) auto
qed

function parse_tokens :: "string \<Rightarrow> string list" where
  "parse_tokens s = (case strtok s of
     None \<Rightarrow> []
   | Some (t, r) \<Rightarrow> (if t \<noteq> [] then [t] else []) @ parse_tokens r)"
  by pat_completeness auto
termination by (relation "measure length") (auto dest: strtok_shorter)

declare parse_tokens.simps [simp del]

definition parseLine :: "string \<Rightarrow> string list" where
  "parseLine line = parse_tokens (cstr line)"

text \<open>
  One round of the loop of \<open>load\<close>: \<open>getline\<close> takes the text up to a newline; when there is none it takes the rest and the stream is no longer good.
\<close>

function load_loop :: "string \<Rightarrow> nat \<Rightarrow> nat \<Rightarrow> JmyCsvParser \<Rightarrow> bool \<times> JmyCsvParser" where
  "load_loop s item_num n P =
     (let item_vec = parseLine (takeWhile (\<lambda>c. \<not> newline c) s);
          r = dropWhile (\<lambda>c. \<not> newline c) s;
          item_num = (if n = 0 then length item_vec else item_num)
      in if length item_vec > 0 \<and> item_num \<noteq> length item_vec then (False, csv_close P)
         else (let P = (if length item_vec > 0 then P\<lparr>csv_lines := csv_lines P @ [item_vec]\<rparr> else P)
               in if r = [] then (True, P) else load_loop (tl r) item_num (n + 1) P))"
  by pat_completeness auto
termination
  by (relation "measure (\<lambda>(s, _). length s)") (auto intro!: le_less_trans [OF diff_le_mono [OF length_dropWhile_le]] diff_less length_pos_if_in_set)

declare load_loop.simps [simp del]

definition csv_load :: "(string \<Rightarrow> string option) \<Rightarrow> JmyCsvParser \<Rightarrow> string \<Rightarrow> bool \<times> JmyCsvParser" where
  "csv_load files P file_path = (case files file_path of None \<Rightarrow> (True, P) | Some s \<Rightarrow> load_loop s 0 0 P)"


text \<open>\<open>strtok\<close> never gives an empty field, so that the fields of a line are the pieces between separators that are not empty.\<close>

lemma parse_tokens_delim: "csv_delim c \<Longrightarrow> parse_tokens (c # r) = parse_tokens r"
  by (subst parse_tokens.simps, subst (2) parse_tokens.simps) (simp add: strtok_def Let_def)

lemma strtok_plain: "\<forall>c\<in>set p. \<not> csv_delim c \<Longrightarrow> p \<noteq> [] \<Longrightarrow> strtok p = Some (p, [])"
  by (cases p) (auto simp: strtok_def Let_def takeWhile_eq_all_conv dropWhile_eq_Nil_conv [THEN iffD2])

lemma strtok_piece: "\<forall>c\<in>set p. \<not> csv_delim c \<Longrightarrow> p \<noteq> [] \<Longrightarrow> csv_delim d \<Longrightarrow> strtok (p @ d # r) = Some (p, r)"
  by (cases p) (auto simp: strtok_def Let_def)

lemma parse_tokens_eq: "parse_tokens s = filter (\<lambda>p. p \<noteq> []) (split_at csv_delim s)"
proof (induction s rule: length_induct)
  case (1 s)
  show ?case
  proof (cases rule: first_separator [of s csv_delim])
    case none
    have E: "parse_tokens [] = []" by (simp add: parse_tokens.simps strtok_def)
    show ?thesis
    proof (cases "s = []")
      case False
      then show ?thesis using none by (simp add: parse_tokens.simps [of s] strtok_plain split_at_plain E)
    qed (simp add: E)
  next
    case (piece p d r)
    then have "parse_tokens r = filter (\<lambda>p. p \<noteq> []) (split_at csv_delim r)" using 1 by simp
    moreover have "parse_tokens s = (if p = [] then [] else [p]) @ parse_tokens r"
      using piece by (cases "p = []") (simp_all add: parse_tokens_delim parse_tokens.simps [of "p @ d # r"] strtok_piece)
    ultimately show ?thesis using split_at_append [of p csv_delim d r] piece by simp
  qed
qed

abbreviation csv_rows :: "string \<Rightarrow> string list list" where
  "csv_rows s \<equiv> map parseLine (split_at newline s)"

definition uniform :: "nat \<Rightarrow> string list list \<Rightarrow> bool" where
  "uniform k rows \<longleftrightarrow> (\<forall>r\<in>set rows. r = [] \<or> length r = k)"

lemma uniform_Cons: "uniform k (r # rows) \<longleftrightarrow> (r = [] \<or> length r = k) \<and> uniform k rows"
  by (simp add: uniform_def)

definition add_row :: "string list \<Rightarrow> JmyCsvParser \<Rightarrow> JmyCsvParser" where
  "add_row row P = (if row = [] then P else P\<lparr>csv_lines := csv_lines P @ [row]\<rparr>)"

lemma load_loop_last:
  "\<forall>c\<in>set s. \<not> newline c \<Longrightarrow> load_loop s k n P =
     (if parseLine s = [] \<or> n = 0 \<or> length (parseLine s) = k then (True, add_row (parseLine s) P) else (False, csv_close P))"
proof -
  assume A: "\<forall>c\<in>set s. \<not> newline c"
  have T: "takeWhile (\<lambda>c. \<not> newline c) s = s" "dropWhile (\<lambda>c. \<not> newline c) s = []"
    using A by (auto simp: takeWhile_eq_all_conv)
  show ?thesis by (subst load_loop.simps) (simp add: T Let_def add_row_def)
qed

lemma load_loop_next:
  "\<forall>c\<in>set p. \<not> newline c \<Longrightarrow> newline d \<Longrightarrow> load_loop (p @ d # r) k n P =
     (if parseLine p = [] \<or> n = 0 \<or> length (parseLine p) = k
      then load_loop r (if n = 0 then length (parseLine p) else k) (n + 1) (add_row (parseLine p) P) else (False, csv_close P))"
proof -
  assume A: "\<forall>c\<in>set p. \<not> newline c" "newline d"
  then have T: "takeWhile (\<lambda>c. \<not> newline c) (p @ d # r) = p" "dropWhile (\<lambda>c. \<not> newline c) (p @ d # r) = d # r"
    by (simp_all add: takeWhile_eq_all_conv)
  show ?thesis by (subst load_loop.simps) (simp add: T Let_def add_row_def del: takeWhile_append dropWhile_append)
qed

lemma csv_close_add_row [simp]: "csv_close (add_row row P) = csv_close P"
  by (simp add: csv_close_def add_row_def)

lemma csv_lines_add_row [simp]:
  "add_row row P\<lparr>csv_lines := csv_lines (add_row row P) @ rows\<rparr> = P\<lparr>csv_lines := csv_lines P @ filter (\<lambda>r. r \<noteq> []) [row] @ rows\<rparr>"
  by (simp add: add_row_def)

text \<open>The whole loop: every line with fields has the number of fields of the first line, or nothing is kept.\<close>

lemma load_loop_rows:
  "load_loop s k n P = (if uniform (if n = 0 then length (hd (csv_rows s)) else k) (csv_rows s)
     then (True, P\<lparr>csv_lines := csv_lines P @ filter (\<lambda>r. r \<noteq> []) (csv_rows s)\<rparr>) else (False, csv_close P))"
proof (induction s arbitrary: k n P rule: length_induct)
  case (1 s)
  show ?case
  proof (cases rule: first_separator [of s newline])
    case none
    then show ?thesis
      by (simp add: load_loop_last split_at_plain [OF none] uniform_def add_row_def)
  next
    case (piece p d r)
    have IH: "load_loop r k (Suc n) Q = (if uniform k (csv_rows r)
        then (True, Q\<lparr>csv_lines := csv_lines Q @ filter (\<lambda>r. r \<noteq> []) (csv_rows r)\<rparr>) else (False, csv_close Q))" for k n Q
      using 1 piece by simp
    have "csv_rows s = parseLine p # csv_rows r" using split_at_append [of p newline d r] piece by simp
    moreover have "load_loop s k n P = (if parseLine p = [] \<or> n = 0 \<or> length (parseLine p) = k
        then load_loop r (if n = 0 then length (parseLine p) else k) (n + 1) (add_row (parseLine p) P) else (False, csv_close P))"
      using load_loop_next [of p d r k n P] piece by simp
    ultimately show ?thesis by (auto simp: IH uniform_Cons)
  qed
qed

text \<open>A table as text: fields joined by commas, lines ended by a newline or by a carriage return and a newline.\<close>

definition plain_field :: "string \<Rightarrow> bool" where
  "plain_field f \<longleftrightarrow> set f \<inter> {CHR 0x00, CHR 0x0A, CHR 0x0D, CHR 0x2C} = {}"

definition csv_line :: "bool \<Rightarrow> string list \<Rightarrow> string" where
  "csv_line cr row = join_by CHR 0x2C row @ (if cr then [CHR 0x0D] else [])"

fun csv_text :: "(bool \<times> string list) list \<Rightarrow> string" where
  "csv_text [] = []"
| "csv_text ((cr, row) # rows) = csv_line cr row @ CHR 0x0A # csv_text rows"

abbreviation nonempty :: "'a list list \<Rightarrow> 'a list list" where
  "nonempty \<equiv> filter (\<lambda>p. p \<noteq> [])"

lemma split_csv_line:
  "\<forall>f\<in>set row. plain_field f \<Longrightarrow> nonempty (split_at csv_delim (csv_line cr row)) = nonempty row"
proof -
  assume "\<forall>f\<in>set row. plain_field f"
  then have "\<forall>f\<in>set row. \<forall>c\<in>set f. \<not> csv_delim c" by (auto simp: plain_field_def csv_delim_def)
  then show ?thesis
    by (cases "row = []") (simp_all add: csv_line_def split_at_join split_at_join_append csv_delim_def)
qed

lemma csv_line_chars:
  "\<forall>f\<in>set row. plain_field f \<Longrightarrow> c \<in> set (csv_line cr row) \<Longrightarrow> c \<noteq> CHR 0x00 \<and> \<not> newline c"
  using set_join_by [of "CHR 0x2C" row] by (fastforce simp: csv_line_def plain_field_def newline_def split: if_splits)

lemma parseLine_csv_line:
  assumes "\<forall>f\<in>set row. plain_field f"
  shows "parseLine (csv_line cr row) = nonempty row"
proof -
  have "CHR 0x00 \<notin> set (csv_line cr row)" using csv_line_chars [OF assms, of "CHR 0x00" cr] by auto
  then show ?thesis by (simp add: parseLine_def parse_tokens_eq cstr_plain split_csv_line [OF assms])
qed

lemma csv_rows_text:
  "\<forall>row\<in>snd ` set rows. \<forall>f\<in>set row. plain_field f \<Longrightarrow> csv_rows (csv_text rows) = map (nonempty \<circ> snd) rows @ [[]]"
proof (induction rows rule: csv_text.induct)
  case (2 cr row rows)
  then have "split_at newline (csv_line cr row @ CHR 0x0A # csv_text rows) = csv_line cr row # split_at newline (csv_text rows)"
    using csv_line_chars [of row _ cr] by (intro split_at_append) (auto simp: newline_def)
  then show ?case using 2 by (simp add: parseLine_csv_line)
qed (simp add: parseLine_def parse_tokens_eq cstr_def)

lemma csv_table_spec:
  assumes "files path = Some (csv_text rows)" "rows \<noteq> []" "\<forall>row\<in>snd ` set rows. \<forall>f\<in>set row. plain_field f"
  shows "csv_load files P path =
    (let table = map (nonempty \<circ> snd) rows
     in if \<forall>row\<in>set table. row = [] \<or> length row = length (hd table)
        then (True, P\<lparr>csv_lines := getLines P @ nonempty table\<rparr>) else (False, P\<lparr>csv_lines := []\<rparr>))"
proof -
  have "hd (csv_rows (csv_text rows)) = hd (map (nonempty \<circ> snd) rows)"
    using assms(2) by (simp add: csv_rows_text [OF assms(3)])
  then show ?thesis using assms(1)
    by (simp add: csv_load_def load_loop_rows csv_rows_text [OF assms(3)] uniform_def getLines_def csv_close_def Let_def)
qed

text \<open>
  C40. Loading a CSV file. The lines of a table, with empty fields left out, are appended to what the parser holds if every line that
  has fields left has as many as the first; otherwise \<open>load\<close> fails and the parser is empty.
\<close>

theorem csv_table_loaded:
  assumes "files path = Some (csv_text rows)" "rows \<noteq> []" "\<forall>row\<in>snd ` set rows. \<forall>f\<in>set row. plain_field f"
  shows "csv_load files P path =
    (let table = map (nonempty \<circ> snd) rows
     in if \<forall>row\<in>set table. row = [] \<or> length row = length (hd table)
        then (True, P\<lparr>csv_lines := getLines P @ nonempty table\<rparr>) else (False, P\<lparr>csv_lines := []\<rparr>))"
  using assms by (rule csv_table_spec)

theorem csv_table_loaded_witness:
  "csv_load (\<lambda>_. Some (csv_text [(True, [''id'', ''name'']), (False, []), (False, [''1'', ''x''])])) csv_new ''p''
     = (True, \<lparr>csv_lines = [[''id'', ''name''], [''1'', ''x'']]\<rparr>)
   \<and> csv_load (\<lambda>_. Some (csv_text [(True, [''id'', ''name'']), (False, [''1'', []])])) csv_new ''p'' = (False, csv_new)"
  using csv_table_loaded [of "\<lambda>_. Some (csv_text [(True, [''id'', ''name'']), (False, []), (False, [''1'', ''x''])])" "''p''"
      "[(True, [''id'', ''name'']), (False, []), (False, [''1'', ''x''])]" csv_new]
    csv_table_loaded [of "\<lambda>_. Some (csv_text [(True, [''id'', ''name'']), (False, [''1'', []])])" "''p''"
      "[(True, [''id'', ''name'']), (False, [''1'', []])]" csv_new]
  by (simp add: plain_field_def csv_new_def getLines_def Let_def del: csv_text.simps)


section \<open>Object sets\<close>

text \<open>A pointer is \<open>None\<close> if it is null; \<open>live\<close> are the addresses of the objects that were made by \<open>new\<close> and not deleted.\<close>

type_synonym obj_ptr = "nat option"

record 'k JmyObjectSet =
  objs_map :: "'k \<rightharpoonup> obj_ptr"
  objs_vec :: "obj_ptr list"

definition newObject :: "nat list \<Rightarrow> obj_ptr \<times> nat list" where
  "newObject live = (let a = Suc (foldr max live 0) in (Some a, a # live))"

definition delete_obj :: "obj_ptr \<Rightarrow> nat list \<Rightarrow> nat list option" where
  "delete_obj p live = (case p of None \<Rightarrow> Some live | Some a \<Rightarrow> if a \<in> set live then Some (removeAll a live) else None)"

fun delete_objs :: "obj_ptr list \<Rightarrow> nat list \<Rightarrow> nat list option" where
  "delete_objs [] live = Some live"
| "delete_objs (p # ps) live = do { live \<leftarrow> delete_obj p live; delete_objs ps live }"

definition obj_count :: "'k JmyObjectSet \<Rightarrow> nat" where
  "obj_count S = length (objs_vec S)"

definition obj_clear :: "'k JmyObjectSet \<Rightarrow> bool \<Rightarrow> nat list \<Rightarrow> ('k JmyObjectSet \<times> nat list) option" where
  "obj_clear S free_memory live = do {
     live \<leftarrow> (if free_memory then delete_objs (objs_vec S) live else Some live);
     Some (S\<lparr>objs_map := Map.empty, objs_vec := []\<rparr>, live)
   }"

definition insertKeyValue :: "'k JmyObjectSet \<Rightarrow> 'k \<Rightarrow> obj_ptr \<Rightarrow> 'k JmyObjectSet" where
  "insertKeyValue S key v = (case objs_map S key of None \<Rightarrow> S\<lparr>objs_map := (objs_map S)(key \<mapsto> v)\<rparr> | Some _ \<Rightarrow> S)"

definition removeValueByKey :: "'k JmyObjectSet \<Rightarrow> 'k \<Rightarrow> bool \<times> 'k JmyObjectSet" where
  "removeValueByKey S key = (case objs_map S key of None \<Rightarrow> (False, S) | Some _ \<Rightarrow> (True, S\<lparr>objs_map := (objs_map S)(key := None)\<rparr>))"

definition pushValue :: "'k JmyObjectSet \<Rightarrow> obj_ptr \<Rightarrow> 'k JmyObjectSet" where
  "pushValue S v = S\<lparr>objs_vec := objs_vec S @ [v]\<rparr>"

fun erase_first :: "obj_ptr \<Rightarrow> obj_ptr list \<Rightarrow> (obj_ptr list) option" where
  "erase_first v [] = None"
| "erase_first v (p # ps) = (if v = p then Some ps else map_option ((#) p) (erase_first v ps))"

definition removeValue :: "'k JmyObjectSet \<Rightarrow> obj_ptr \<Rightarrow> bool \<times> 'k JmyObjectSet" where
  "removeValue S v = (case erase_first v (objs_vec S) of None \<Rightarrow> (False, S) | Some ps \<Rightarrow> (True, S\<lparr>objs_vec := ps\<rparr>))"

definition removeValueByIndex :: "'k JmyObjectSet \<Rightarrow> u32 \<Rightarrow> bool \<times> 'k JmyObjectSet" where
  "removeValueByIndex S index = (True, S)"

definition getByKey :: "'k JmyObjectSet \<Rightarrow> 'k \<Rightarrow> obj_ptr" where
  "getByKey S key = (case objs_map S key of None \<Rightarrow> None | Some v \<Rightarrow> v)"

definition getByIndex :: "'k JmyObjectSet \<Rightarrow> u32 \<Rightarrow> obj_ptr" where
  "getByIndex S index = (if unat index \<ge> length (objs_vec S) then None else objs_vec S ! unat index)"

abbreviation addresses :: "obj_ptr list \<Rightarrow> nat list" where
  "addresses ps \<equiv> concat (map (\<lambda>p. case p of None \<Rightarrow> [] | Some a \<Rightarrow> [a]) ps)"

lemma delete_objs_eq:
  "delete_objs ps live = (if distinct (addresses ps) \<and> set (addresses ps) \<subseteq> set live
     then Some (filter (\<lambda>a. a \<notin> set (addresses ps)) live) else None)"
proof (induction ps arbitrary: live)
  case (Cons p ps)
  show ?case
  proof (cases p)
    case (Some a)
    have "filter (\<lambda>b. b \<noteq> a \<and> b \<notin> set (addresses ps)) live = filter (\<lambda>b. b \<notin> set (addresses ps)) (removeAll a live)"
      by (induction live) auto
    then show ?thesis using Some Cons [of "removeAll a live"] by (auto simp: delete_obj_def)
  qed (simp add: delete_obj_def Cons)
qed simp

lemma new_not_live: "fst (newObject live) = Some a \<Longrightarrow> a \<notin> set live"
proof -
  have "b \<in> set live \<Longrightarrow> b \<le> foldr max live 0" for b by (induction live) auto
  then show "fst (newObject live) = Some a \<Longrightarrow> a \<notin> set live" by (fastforce simp: newObject_def Let_def)
qed

text \<open>
  \<open>clear(true)\<close> deletes what was pushed, each object once, and is undefined if an object was pushed twice or deleted before;
  objects that are only in the map stay live.
\<close>

theorem obj_clear_deletes_pushed:
  "obj_clear S True live = (if distinct (addresses (objs_vec S)) \<and> set (addresses (objs_vec S)) \<subseteq> set live
     then Some (S\<lparr>objs_map := Map.empty, objs_vec := []\<rparr>, filter (\<lambda>a. a \<notin> set (addresses (objs_vec S))) live) else None)"
  by (simp add: obj_clear_def delete_objs_eq)

lemma erase_first_eq: "erase_first v ps = (if v \<in> set ps then Some (remove1 v ps) else None)"
  by (induction ps) auto

lemma push_remove: "v \<notin> set (objs_vec S) \<Longrightarrow> removeValue (pushValue S v) v = (True, S)"
  by (simp add: removeValue_def pushValue_def erase_first_eq remove1_append)

section \<open>Network tool\<close>

datatype tool_state = STATE_STOP | STATE_START | STATE_PAUSE

text \<open>Time points are nanoseconds since the epoch, and start as the epoch; \<open>start_\<close> is never used and left out.\<close>

record JmyNetTool =
  up_stream :: u64
  down_stream :: u64
  up_last_stream :: u32
  down_last_stream :: u32
  last_stream :: u32
  last_up_bps :: u32
  last_down_bps :: u32
  last_bps :: u32
  pause_tick :: int
  last_up_tick :: int
  last_down_tick :: int
  last_tick :: int
  tool_interval :: u32
  net_state :: tool_state

definition new_net_tool :: JmyNetTool where
  "new_net_tool = \<lparr>up_stream = 0, down_stream = 0, up_last_stream = 0, down_last_stream = 0, last_stream = 0, last_up_bps = 0, last_down_bps = 0,
     last_bps = 0, pause_tick = 0, last_up_tick = 0, last_down_tick = 0, last_tick = 0, tool_interval = 1, net_state = STATE_STOP\<rparr>"

definition tool_reset :: "JmyNetTool \<Rightarrow> JmyNetTool" where
  "tool_reset t = t\<lparr>up_stream := 0, down_stream := 0, net_state := STATE_STOP\<rparr>"

definition tool_start :: "JmyNetTool \<Rightarrow> bool \<times> JmyNetTool" where
  "tool_start t = (if net_state t \<noteq> STATE_STOP then (False, t) else (True, t\<lparr>net_state := STATE_START\<rparr>))"

definition tool_pause :: "JmyNetTool \<Rightarrow> int \<Rightarrow> bool \<times> JmyNetTool" where
  "tool_pause t now = (if net_state t \<noteq> STATE_START then (False, t) else (True, t\<lparr>net_state := STATE_PAUSE, pause_tick := now\<rparr>))"

definition tool_resume :: "JmyNetTool \<Rightarrow> bool \<times> JmyNetTool" where
  "tool_resume t = (if net_state t \<noteq> STATE_PAUSE then (False, t) else (True, t\<lparr>net_state := STATE_START\<rparr>))"

definition tool_stop :: "JmyNetTool \<Rightarrow> bool \<times> JmyNetTool" where
  "tool_stop t = (if net_state t \<noteq> STATE_START then (False, t) else (True, t\<lparr>net_state := STATE_STOP\<rparr>))"

definition addUpStream :: "JmyNetTool \<Rightarrow> u32 \<Rightarrow> JmyNetTool" where
  "addUpStream t count = (if net_state t \<noteq> STATE_START then t else t\<lparr>up_stream := up_stream t + ucast count\<rparr>)"

definition addDownStream :: "JmyNetTool \<Rightarrow> u32 \<Rightarrow> JmyNetTool" where
  "addDownStream t count = (if net_state t \<noteq> STATE_START then t else t\<lparr>down_stream := down_stream t + ucast count\<rparr>)"

definition elapsed_ms :: "int \<Rightarrow> int \<Rightarrow> int" where
  "elapsed_ms now tick = sgn (now - tick) * (\<bar>now - tick\<bar> div 1000000)"

definition rate :: "u64 \<Rightarrow> u32 \<Rightarrow> int \<Rightarrow> u32" where
  "rate amount old d = ucast ((amount - ucast old) * 1000 div word_of_int d)"

definition getSendBps :: "JmyNetTool \<Rightarrow> int \<Rightarrow> u32 \<times> JmyNetTool" where
  "getSendBps t now =
     (let d = elapsed_ms now (last_up_tick t)
      in if d \<ge> uint (tool_interval t * 1000)
         then (let bps = rate (up_stream t) (up_last_stream t) d
               in (bps, t\<lparr>up_last_stream := ucast (up_stream t), last_up_bps := bps, last_up_tick := now\<rparr>))
         else (last_up_bps t, t))"

definition getRecvBps :: "JmyNetTool \<Rightarrow> int \<Rightarrow> u32 \<times> JmyNetTool" where
  "getRecvBps t now =
     (let d = elapsed_ms now (last_down_tick t)
      in if d \<ge> uint (tool_interval t * 1000)
         then (let bps = rate (down_stream t) (down_last_stream t) d
               in (bps, t\<lparr>down_last_stream := ucast (down_stream t), last_down_bps := bps, last_down_tick := now\<rparr>))
         else (last_down_bps t, t))"

definition getBps :: "JmyNetTool \<Rightarrow> int \<Rightarrow> u32 \<times> JmyNetTool" where
  "getBps t now =
     (let d = elapsed_ms now (last_tick t)
      in if d \<ge> uint (tool_interval t * 1000)
         then (let bps = rate (up_stream t + down_stream t) (last_stream t) d
               in (bps, t\<lparr>last_stream := ucast (up_stream t + down_stream t), last_bps := bps, last_tick := now\<rparr>))
         else (last_bps t, t))"


text \<open>What the three rates have in common: when the interval is over, the total of the last measurement is replaced by its low 32 bits.\<close>

locale meter =
  fixes measure_rate :: "JmyNetTool \<Rightarrow> int \<Rightarrow> u32 \<times> JmyNetTool" and amount :: "JmyNetTool \<Rightarrow> u64" and previous :: "JmyNetTool \<Rightarrow> u32"
    and tick :: "JmyNetTool \<Rightarrow> int"
  assumes due: "uint (tool_interval t * 1000) \<le> elapsed_ms now (tick t) \<Longrightarrow>
      fst (measure_rate t now) = rate (amount t) (previous t) (elapsed_ms now (tick t)) \<and> previous (snd (measure_rate t now)) = ucast (amount t)
      \<and> tick (snd (measure_rate t now)) = now"
    and amount_kept: "amount (snd (measure_rate t now)) = amount t"
    and interval_kept: "tool_interval (snd (measure_rate t now)) = tool_interval t"
begin

definition ready :: "JmyNetTool \<Rightarrow> int \<Rightarrow> bool" where
  "ready t now \<longleftrightarrow> uint (tool_interval t * 1000) \<le> elapsed_ms now (tick t)"

lemma next_rate:
  assumes "ready t now" "previous u = previous (snd (measure_rate t now))" "tick u = tick (snd (measure_rate t now))" "ready u now'"
  shows "fst (measure_rate u now') = rate (amount u) (ucast (amount t)) (elapsed_ms now' now)"
  using due [of t now] due [of u now'] assms by (simp add: ready_def)

lemma idle_rate:
  assumes "ready t now" "ready (snd (measure_rate t now)) now'"
  shows "fst (measure_rate (snd (measure_rate t now)) now') = rate (amount t) (ucast (amount t)) (elapsed_ms now' now)"
  using next_rate [OF assms(1) refl refl assms(2)] by (simp add: amount_kept)

end

interpretation send_meter: meter getSendBps up_stream up_last_stream last_up_tick
  by unfold_locales (auto simp: getSendBps_def Let_def)

interpretation recv_meter: meter getRecvBps down_stream down_last_stream last_down_tick
  by unfold_locales (auto simp: getRecvBps_def Let_def)

interpretation both_meter: meter getBps "\<lambda>t. up_stream t + down_stream t" last_stream last_tick
  by unfold_locales (auto simp: getBps_def Let_def)

lemma unat_ucast_u64 [simp]: "unat (ucast w :: u64) = unat w" for w :: u32
proof -
  have "unat w < 2 ^ 64" by (rule less_trans [OF unsigned_less]) simp
  then show ?thesis by (simp add: unsigned_ucast_eq take_bit_nat_eq_self)
qed

lemma unat_ucast_u32: "unat w < 2 ^ 32 \<Longrightarrow> unat (ucast w :: u32) = unat w" for w :: u64
  by (simp add: unsigned_ucast_eq take_bit_nat_eq_self)

lemma rate_exact:
  assumes "unat amount = k + n" "unat old = k" "n * 1000 < 2 ^ 64" "0 < d" "d < 2 ^ 64" "n * 1000 div nat d < 2 ^ 32"
  shows "unat (rate amount old d) = n * 1000 div nat d"
proof -
  have "unat (ucast old :: u64) = k" using assms(2) by simp
  then have "unat (amount - ucast old) = n" using assms(1) by (subst unat_sub) (simp_all add: word_le_nat_alt)
  then have "unat ((amount - ucast old) * 1000) = n * 1000" using assms(3)
    by (simp add: unat_word_ariths(2) del: left_diff_distrib_numeral)
  moreover have "unat (word_of_int d :: u64) = nat d" using assms(4,5) by (simp add: unat_eq_nat_uint uint_word_of_int)
  ultimately have "unat ((amount - ucast old) * 1000 div word_of_int d) = n * 1000 div nat d" by (simp add: unat_div)
  then show ?thesis using assms(6) by (simp add: rate_def unat_ucast_u32)
qed


lemma up_counts:
  "net_state t = STATE_START \<Longrightarrow> foldl addUpStream t counts = t\<lparr>up_stream := up_stream t + (\<Sum>c\<leftarrow>counts. ucast c)\<rparr>"
  by (induction counts arbitrary: t) (simp_all add: addUpStream_def add.assoc)

lemma unat_sum_counts:
  "k + (\<Sum>c\<leftarrow>counts. unat c) < 2 ^ 64 \<Longrightarrow> unat s = k \<Longrightarrow> unat (s + (\<Sum>c\<leftarrow>counts. ucast c) :: u64) = k + (\<Sum>c\<leftarrow>counts. unat c)"
  for counts :: "u32 list"
proof (induction counts arbitrary: s k)
  case (Cons c counts)
  have "unat (s + ucast c) = k + unat c" using Cons.prems by (subst unat_add_lem [THEN iffD1]) simp_all
  then have "unat ((s + ucast c) + (\<Sum>c\<leftarrow>counts. ucast c)) = (k + unat c) + (\<Sum>c\<leftarrow>counts. unat c)"
    using Cons.prems by (intro Cons.IH) simp_all
  then show ?case by (simp add: add.assoc)
qed simp

text \<open>
  The rate of sending is exact while the total of the last measurement is below 4 GB: the bytes sent since then, per second, rounded down.
\<close>

theorem send_rate_exact:
  assumes "net_state t = STATE_START" "tool_interval t = 1" "elapsed_ms now (last_up_tick t) \<ge> 1000" "up_stream t < 2 ^ 32"
    and "1000 \<le> elapsed_ms now' now" "elapsed_ms now' now < 2 ^ 64"
    and "(\<Sum>c\<leftarrow>counts. unat c) * 1000 < 2 ^ 63" "(\<Sum>c\<leftarrow>counts. unat c) * 1000 div nat (elapsed_ms now' now) < 2 ^ 32"
  shows "unat (fst (getSendBps (foldl addUpStream (snd (getSendBps t now)) counts) now'))
    = (\<Sum>c\<leftarrow>counts. unat c) * 1000 div nat (elapsed_ms now' now)"
proof -
  let ?u = "snd (getSendBps t now)" and ?n = "\<Sum>c\<leftarrow>counts. unat c"
  have S: "net_state ?u = STATE_START" using assms(1) by (simp add: getSendBps_def Let_def)
  have k: "unat (up_stream t) < 2 ^ 32" using assms(4) by (simp add: word_less_nat_alt)
  have "unat (up_stream t + (\<Sum>c\<leftarrow>counts. ucast c)) = unat (up_stream t) + ?n" using k assms(7) by (intro unat_sum_counts) simp_all
  moreover have "unat (ucast (up_stream t) :: u32) = unat (up_stream t)" using k by (rule unat_ucast_u32)
  moreover have "fst (getSendBps (foldl addUpStream ?u counts) now')
      = rate (up_stream t + (\<Sum>c\<leftarrow>counts. ucast c)) (ucast (up_stream t)) (elapsed_ms now' now)"
    using assms(2,3,5) send_meter.due [of t now]
    by (subst send_meter.next_rate [of t now])
      (simp_all add: send_meter.ready_def up_counts [OF S] send_meter.amount_kept send_meter.interval_kept)
  ultimately show ?thesis using assms(5-8) by (simp add: rate_exact)
qed

text \<open>
  From 4 GB on it is not: the low 32 bits of the total that are kept make an idle connection report bytes that were sent long before, and
  resetting the tool makes the next rate that of a difference below zero.
\<close>

theorem idle_rate_after_4gb:
  "fst (getSendBps (snd (getSendBps (new_net_tool\<lparr>up_stream := 2 ^ 32\<rparr>) 1000000000)) 3000000000) = 2 ^ 31"
  by (simp add: getSendBps_def new_net_tool_def elapsed_ms_def rate_def Let_def)

theorem rate_after_reset:
  "fst (getSendBps (tool_reset (new_net_tool\<lparr>up_last_stream := 1000\<rparr>)) 1000000000) = 1271309319"
  by (simp add: getSendBps_def tool_reset_def new_net_tool_def elapsed_ms_def rate_def Let_def)

end
