(* ===== verification/Db_Generate.thy ===== *)
theory Db_Generate
  imports Db_Config Lib_Helpers
begin

text \<open>
  What \<open>db_generator\<close> prints for a database (\<open>DBConfigParser::generate\<close>, \<open>db_config_parser.cpp\<close>): the table descriptions that the MySQL configuration
  loader reads at run time (\<open>generate_define_file\<close>), a class for the records of each table and the manager of the tables
  (\<open>generate_struct_file\<close>), and the functions that select records and read the rows of a result (\<open>generate_func_file\<close>). A generator gives the
  texts that it appends to the header and to the source file, and whether it succeeded; a null pointer that is made a string is undefined. In a
  literal written with \<open>quo\<close> a backquote stands for a quotation mark.
\<close>

definition quo :: "string \<Rightarrow> string" where
  "quo s = map (\<lambda>c. if c = CHR 0x60 then CHR 0x22 else c) s"

abbreviation print_lines :: "string list \<Rightarrow> string" where
  "print_lines ls \<equiv> concat (map ln ls)"

text \<open>\<open>find\<close> of a string: the first position of another one.\<close>

fun find_text :: "string \<Rightarrow> string \<Rightarrow> nat option" where
  "find_text p [] = (if p = [] then Some 0 else None)"
| "find_text p (c # s) = (if take (length p) (c # s) = p then Some 0 else map_option Suc (find_text p s))"

definition contains :: "string \<Rightarrow> string \<Rightarrow> bool" where
  "contains s p \<longleftrightarrow> find_text p s \<noteq> None"

section \<open>Types of fields\<close>

definition get_blob_user_define_data :: "string \<Rightarrow> string option" where
  "get_blob_user_define_data field_type =
     (case find_text ''blob:'' field_type of
        Some i \<Rightarrow> Some (drop (i + 5) field_type)
      | None \<Rightarrow> (case find_text ''binary:'' field_type of Some i \<Rightarrow> Some (drop (i + 7) field_type) | None \<Rightarrow> None))"

definition get_field_type_str :: "FieldInfo \<Rightarrow> string option" where
  "get_field_type_str f =
     (let s = df_field_type f; unsigned = contains (df_create_flags f) ''unsigned''
      in case get_blob_user_define_data s of
           Some t \<Rightarrow> Some t
         | None \<Rightarrow>
             if s \<in> {''tinyint'', ''smallint'', ''mediumint'', ''int''} then Some (if unsigned then ''unsigned int'' else ''int'')
             else if s = ''bigint'' then Some (if unsigned then ''uint64_t'' else ''int64_t'')
             else if s = ''float'' then Some ''float''
             else if s = ''double'' then Some ''double''
             else if s \<in> {''varchar'', ''char'', ''tinytext'', ''text'', ''mediumtext'', ''longtext''} then Some ''std::string''
             else None)"

definition get_field_type_str_of :: "FieldInfo list \<Rightarrow> string \<Rightarrow> string option" where
  "get_field_type_str_of fis field_name = (case find (\<lambda>f. df_name f = field_name) fis of None \<Rightarrow> None | Some f \<Rightarrow> get_field_type_str f)"

definition is_basic_field_type :: "string \<Rightarrow> bool" where
  "is_basic_field_type s \<longleftrightarrow> s \<in> {''tinyint'', ''smallint'', ''mediumint'', ''int'', ''bigint'', ''float'', ''double''}"

definition is_field_time_type :: "string \<Rightarrow> bool" where
  "is_field_time_type s \<longleftrightarrow> s \<in> {''timestamp'', ''time'', ''year'', ''date'', ''datetime''}"

definition get_field_type_define_str :: "string \<Rightarrow> string option" where
  "get_field_type_define_str s =
     (if s = ''tinyint'' then Some ''MYSQL_FIELD_TYPE_TINYINT''
      else if s = ''smallint'' then Some ''MYSQL_FIELD_TYPE_SMALLINT''
      else if s = ''mediumint'' then Some ''MYSQL_FIELD_TYPE_MEDIUMINT''
      else if s = ''int'' then Some ''MYSQL_FIELD_TYPE_INT''
      else if s = ''bigint'' then Some ''MYSQL_FIELD_TYPE_BIGINT''
      else if s = ''float'' then Some ''MYSQL_FIELD_TYPE_FLOAT''
      else if s = ''double'' then Some ''MYSQL_FIELD_TYPE_DOUBLE''
      else if s = ''char'' then Some ''MYSQL_FIELD_TYPE_CHAR''
      else if s = ''varchar'' then Some ''MYSQL_FIELD_TYPE_VARCHAR''
      else if contains s ''binary'' then Some ''MYSQL_FIELD_TYPE_BINARY''
      else if contains s ''varbinary'' then Some ''MYSQL_FIELD_TYPE_VARBINARY''
      else if s = ''text'' then Some ''MYSQL_FIELD_TYPE_TEXT''
      else if s = ''tinytext'' then Some ''MYSQL_FIELD_TYPE_TINYTEXT''
      else if s = ''longtext'' then Some ''MYSQL_FIELD_TYPE_LONGTEXT''
      else if s = ''mediumtext'' then Some ''MYSQL_FIELD_TYPE_MEDIUMTEXT''
      else if contains s ''tinyblob'' then Some ''MYSQL_FIELD_TYPE_TINYBLOB''
      else if contains s ''mediumblob'' then Some ''MYSQL_FIELD_TYPE_MEDIUM_BLOB''
      else if contains s ''blob'' then Some ''MYSQL_FIELD_TYPE_BLOB''
      else if contains s ''longblob'' then Some ''MYSQL_FIELD_TYPE_LONGBLOB''
      else if s = ''time'' then Some ''MYSQL_FIELD_TYPE_TIME''
      else if s = ''timestamp'' then Some ''MYSQL_FIELD_TYPE_TIMESTAMP''
      else if s = ''date'' then Some ''MYSQL_FIELD_TYPE_DATE''
      else if s = ''datetime'' then Some ''MYSQL_FIELD_TYPE_DATETIME''
      else if s = ''year'' then Some ''MYSQL_FIELD_TYPE_YEAR''
      else if s = ''enum'' then Some ''MYSQL_FIELD_TYPE_ENUM''
      else if s = ''set'' then Some ''MYSQL_FIELD_TYPE_SET''
      else None)"

definition get_field_length_define_str :: "int \<Rightarrow> string" where
  "get_field_length_define_str l = (if l = 0 then ''MYSQL_FIELD_DEFAULT_LENGTH'' else snprintf 16 (decimal_int l))"

definition get_field_index_type_define_str :: "string \<Rightarrow> string option" where
  "get_field_index_type_define_str s =
     (if s = ''none'' then Some ''MYSQL_INDEX_TYPE_NONE''
      else if s = ''index'' then Some ''MYSQL_INDEX_TYPE_NORMAL''
      else if s = ''unique'' then Some ''MYSQL_INDEX_TYPE_UNIQUE''
      else None)"

definition space_char :: "char \<Rightarrow> bool" where
  "space_char c \<longleftrightarrow> c \<in> {CHR '' '', CHR 0x09, CHR 0x0A, CHR 0x0B, CHR 0x0C, CHR 0x0D}"

definition flag_text :: "string \<Rightarrow> string option" where
  "flag_text s =
     (if s = ''auto_increment'' then Some ''MYSQL_TABLE_CREATE_AUTOINCREMENT''
      else if s = ''unsigned'' then Some ''MYSQL_TABLE_CREATE_UNSIGNED''
      else if s = ''null'' then Some ''MYSQL_TABLE_CREATE_NULL''
      else if s = ''not null'' then Some ''MYSQL_TABLE_CREATE_NOT_NULL''
      else if s = ''current_timestamp'' then Some ''MYSQL_TABLE_CREATE_CURRENTTIMESTAMP''
      else if s = ''current_timestamp_on_update'' then Some ''MYSQL_TABLE_CREATE_CURRENTTIMESTAMP_ON_UPDATE''
      else if s = ''zerofill'' then Some ''MYSQL_TABLE_CREATE_ZEROFILL''
      else if s = ''default'' then Some ''MYSQL_TABLE_CREATE_DEFAULT''
      else if list_all space_char s then Some []
      else None)"

fun flags_text :: "string list \<Rightarrow> nat \<Rightarrow> string \<Rightarrow> string option" where
  "flags_text [] i res = Some res"
| "flags_text (s # ss) i res = (let res = (if i > 0 then res @ ''|'' else res)
     in case flag_text s of None \<Rightarrow> None | Some t \<Rightarrow> flags_text ss (i + 1) (res @ t))"

definition get_create_flags_define_str :: "string \<Rightarrow> string option" where
  "get_create_flags_define_str create_flags = flags_text (split_at (\<lambda>c. c = CHR '','') create_flags) 0 []"

definition can_select_field_type :: "string \<Rightarrow> bool" where
  "can_select_field_type s \<longleftrightarrow> s \<in> {''int'', ''tinyint'', ''smallint'', ''mediumint'', ''bigint'', ''char'', ''varchar'', ''binary'', ''varbinary''} \<or>
     contains s ''blob:'' \<or> contains s ''text''"

definition get_field_type_default_value :: "string \<Rightarrow> string option" where
  "get_field_type_default_value s =
     (if s \<in> {''tinyint'', ''smallint'', ''mediumint'', ''int'', ''bigint''} then Some ''0''
      else if s \<in> {''float'', ''double''} then Some ''0.f'' else None)"

section \<open>Table descriptions\<close>

text \<open>A loop that prints for every element, until one fails.\<close>

fun print_each :: "('a \<Rightarrow> bool \<times> string) \<Rightarrow> 'a list \<Rightarrow> bool \<times> string" where
  "print_each f [] = (True, [])"
| "print_each f (x # xs) = (let (ok, s) = f x in if ok then (let (ok, r) = print_each f xs in (ok, s @ r)) else (False, s))"

definition define_field :: "FieldInfo \<Rightarrow> bool \<times> string" where
  "define_field f =
     (case get_field_type_define_str (df_field_type f) of
        None \<Rightarrow> (False, [])
      | Some type_ds \<Rightarrow>
          (case get_field_index_type_define_str (df_index_type f) of
             None \<Rightarrow> (False, [])
           | Some index_ds \<Rightarrow>
               (case get_create_flags_define_str (df_create_flags f) of
                  None \<Rightarrow> (False, [])
                | Some create_flags_ds \<Rightarrow>
                    (True, ln (quo ''  { `'' @ df_name f @ quo ''`, '' @ type_ds @ '', '' @ get_field_length_define_str (df_field_length f) @ '', '' @
                       index_ds @ '', '' @ create_flags_ds @ '' },'')))))"

definition define_table :: "TableInfo \<times> FieldInfo list \<Rightarrow> bool \<times> string" where
  "define_table = (\<lambda>(t, fis).
     (let fields_name = tb_name t @ ''_table_fields_info'';
          (ok, fields_text) = print_each define_field fis;
          head = ln (''static const MysqlTableFieldInfo '' @ fields_name @ ''[] = {'') @ fields_text
      in if \<not> ok then (False, head)
         else (let body = head @ ln ''};'' @
                 print_lines [''static const MysqlTableInfo '' @ tb_name t @ ''_table_info'' @ '' = {'',
                   quo ''  `'' @ tb_name t @ quo ''`,'', ''  '' @ decimal_int (tb_primary_key_index t) @ '','', quo ''  `'' @ tb_primary_key t @ quo ''`,'',
                   ''  '' @ fields_name @ '','', ''  sizeof('' @ fields_name @ '')/sizeof('' @ fields_name @ ''[0]),'']
               in if tb_db_engine t = ''myisam'' then (True, body @ print_lines [''  MYSQL_ENGINE_MYISAM,'', ''};''])
                  else if tb_db_engine t = ''innodb'' then (True, body @ print_lines [''  MYSQL_ENGINE_INNODB,'', ''};''])
                  else (False, body))))"

definition generate_define_file :: "DBConfigParser \<Rightarrow> string \<Rightarrow> bool \<times> (string \<times> string)" where
  "generate_define_file D file_name =
     (let c = dp_config D;
          name = file_name @ ''_define.h'';
          head = print_lines ([''// Generated by the db_generator.  DO NOT EDIT!'', ''// source: '' @ dp_jsonpath D, ''#pragma once''] @
            map (\<lambda>s. quo ''#include `'' @ s @ quo ''`'') (dc_define_includes c) @ [[]]);
          (ok, tables) = print_each define_table (table_rows c);
          infos = dc_db_name c @ ''_tables''
      in if \<not> ok then (False, (name, head @ tables))
         else (True, (name, head @ tables @
           print_lines ([''static const MysqlTableInfo '' @ infos @ ''[] = {''] @ map (\<lambda>t. ''  '' @ tb_name t @ ''_table_info'' @ '','') (dc_tables c) @
             [''};'', ''static const MysqlDatabaseConfig s_'' @ dc_db_name c @ ''_db_config = {'', quo ''  `'' @ dc_db_name c @ quo ''`,'',
              ''  '' @ infos @ '','', ''  sizeof('' @ infos @ '')/sizeof('' @ infos @ ''[0]),'', ''};'']))))"


section \<open>Classes of records\<close>

definition gen_struct_constructor_func :: "TableInfo \<Rightarrow> FieldInfo list \<Rightarrow> string \<times> string" where
  "gen_struct_constructor_func t fis =
     (ln (''  '' @ tb_name t @ ''();''),
      ln (tb_name t @ ''::'' @ tb_name t @ ''() : '') @
      concat (map (\<lambda>f. case get_field_type_default_value (df_field_type f) of None \<Rightarrow> [] | Some ds \<Rightarrow> ln (''  '' @ df_name f @ ''('' @ ds @ ''),'')) fis) @
      concat (join_by ('','' @ [CHR 0x0A])
        (map (\<lambda>f. [''  '' @ df_name f @ ''_state(MYSQL_TABLE_FIELD_STATE_IDLE)'']) (filter (\<lambda>f. \<not> is_field_time_type (df_field_type f)) fis))) @
      print_lines [[], ''{}'', []])"

definition gen_get_field_func :: "FieldInfo \<Rightarrow> string \<Rightarrow> string" where
  "gen_get_field_func f ty = print_lines [''  '' @ ty @ '' get_'' @ df_name f @ ''() const {'', ''    return '' @ df_name f @ '';'', ''  }'']"

definition gen_get_mutable_field_func :: "FieldInfo \<Rightarrow> string \<Rightarrow> string" where
  "gen_get_mutable_field_func f ty = print_lines [''  '' @ ty @ ''& get_mutable_'' @ df_name f @ ''() {'', ''    return '' @ df_name f @ '';'', ''  }'']"

definition gen_get_const_obj_field_func :: "FieldInfo \<Rightarrow> string \<Rightarrow> string" where
  "gen_get_const_obj_field_func f ty = print_lines [''  const '' @ ty @ ''& get_'' @ df_name f @ ''() const {'', ''    return '' @ df_name f @ '';'', ''  }'']"

definition gen_init_field_func :: "FieldInfo \<Rightarrow> string \<Rightarrow> string" where
  "gen_init_field_func f ty = print_lines [''  void init_'' @ df_name f @ ''('' @ ty @ '' data) {'', ''    '' @ df_name f @ '' = data;'',
     ''    '' @ df_name f @ ''_state = MYSQL_TABLE_FIELD_STATE_INITED;'', ''  }'']"

definition gen_init_const_obj_field_func :: "FieldInfo \<Rightarrow> string \<Rightarrow> string" where
  "gen_init_const_obj_field_func f ty = print_lines [''  void init_'' @ df_name f @ ''(const '' @ ty @ ''& data) {'', ''    '' @ df_name f @ '' = data;'',
     ''    '' @ df_name f @ ''_state = MYSQL_TABLE_FIELD_STATE_INITED;'', ''  }'']"

definition gen_set_field_func :: "FieldInfo \<Rightarrow> string \<Rightarrow> string" where
  "gen_set_field_func f ty = print_lines [''  void set_'' @ df_name f @ ''('' @ ty @ '' data) {'', ''    '' @ df_name f @ '' = data;'',
     ''    '' @ df_name f @ ''_state = MYSQL_TABLE_FIELD_STATE_CHANGED;'', ''  }'']"

definition gen_set_const_obj_field_func :: "FieldInfo \<Rightarrow> string \<Rightarrow> string" where
  "gen_set_const_obj_field_func f ty = print_lines [''  void set_'' @ df_name f @ ''(const '' @ ty @ ''& data) {'', ''    '' @ df_name f @ '' = data;'',
     ''    '' @ df_name f @ ''_state = MYSQL_TABLE_FIELD_STATE_CHANGED;'', ''  }'']"

definition gen_get_field_state_func :: "FieldInfo \<Rightarrow> string" where
  "gen_get_field_state_func f = print_lines [''  MysqlTableFieldValueState get_'' @ df_name f @ ''_state() const {'',
     ''    return '' @ df_name f @ ''_state;'', ''  }'']"

definition gen_set_field_state_func :: "FieldInfo \<Rightarrow> string" where
  "gen_set_field_state_func f = print_lines [''  void set_'' @ df_name f @ ''_state(MysqlTableFieldValueState state) {'',
     ''    '' @ df_name f @ ''_state = state;'', ''  }'']"

definition gen_commit_field_changed_func :: "FieldInfo \<Rightarrow> string" where
  "gen_commit_field_changed_func f = print_lines [''  void commit_'' @ df_name f @ ''_changed() {'',
     ''    '' @ df_name f @ ''_state = MYSQL_TABLE_FIELD_STATE_CHANGED;'', ''  }'']"

text \<open>The fields that requests send: all but the primary key, if their type is known.\<close>

fun sent_fields :: "int \<Rightarrow> FieldInfo list \<Rightarrow> int \<Rightarrow> (FieldInfo \<times> string) list" where
  "sent_fields pk [] i = []"
| "sent_fields pk (f # fis) i =
     (if i = pk then sent_fields pk fis (i + 1)
      else case get_field_type_str f of None \<Rightarrow> sent_fields pk fis (i + 1) | Some ty \<Rightarrow> (f, ty) # sent_fields pk fis (i + 1))"

definition format_params :: "(FieldInfo \<times> string) list \<Rightarrow> string" where
  "format_params fs = foldl (\<lambda>s (f, _). let nv = ''nv_'' @ df_name f in if s = [] then nv else s @ '', '' @ nv) [] fs"

definition gen_struct_insert_func :: "TableInfo \<Rightarrow> FieldInfo list \<Rightarrow> string \<times> string" where
  "gen_struct_insert_func t fis =
     (let func_name = ''insert_request(/*mysql_cmd_callback_func get_last_insert_id_func, void* param, long param_l*/)'';
          fs = sent_fields (tb_primary_key_index t) fis 0
      in (ln (''  bool '' @ func_name @ '';''),
          ln (''bool '' @ tb_name t @ ''::'' @ func_name @ '' {'') @
          concat (map (\<lambda>(f, ty). ln (''  MysqlFieldNameValue<'' @ ty @ ''> nv_'' @ df_name f @ quo ''(`'' @ df_name f @ quo ''`, this->get_'' @ df_name f @ ''());'')) fs) @
          print_lines [quo ''  if (!DB_MGR.insertRecord(`'' @ tb_name t @ quo ''`/*, get_last_insert_id_func, param, param_l*/, '' @ format_params fs @ '')) {'',
            quo ''    std::cout << `insert record failed` << std::endl;'', ''    return false;'', ''  }''] @
          concat (map (\<lambda>(f, _). ln (''  this->set_'' @ df_name f @ ''_state(MYSQL_TABLE_FIELD_STATE_COMMITTING);'')) fs) @
          print_lines [''  return true;'', ''}'', []]))"

definition gen_struct_delete_func :: "TableInfo \<Rightarrow> string \<times> string" where
  "gen_struct_delete_func t =
     (ln ''  bool delete_request();'',
      print_lines [''bool '' @ tb_name t @ ''::delete_request() {'',
        quo ''  if (!DB_MGR.deleteRecord(`'' @ tb_name t @ quo ''`, '' @ quo ''`'' @ tb_delete_key t @ quo ''`, '' @ ''this->get_'' @ tb_delete_key t @ ''())) {'',
        quo ''    std::cout << `delete record failed` << std::endl;'', ''    return false;'', ''  }'', ''  return true;'', ''}'', []])"

definition gen_struct_update_func :: "TableInfo \<Rightarrow> FieldInfo list \<Rightarrow> string \<times> string" where
  "gen_struct_update_func t fis =
     (if tb_update_key t = [] then ([], [])
      else (let fs = sent_fields (tb_primary_key_index t) fis 0
            in (ln ''  bool update_request();'',
                ln (''bool '' @ tb_name t @ ''::update_request() {'') @
                concat (map (\<lambda>(f, ty). ln (''  MysqlFieldNameValue<'' @ ty @ ''> nv_'' @ df_name f @ ''((get_'' @ df_name f @
                  quo ''_state() == MYSQL_TABLE_FIELD_STATE_CHANGED)?`'' @ df_name f @ quo ''`:nullptr, this->get_'' @ df_name f @ ''());'')) fs) @
                print_lines [quo ''  if (!DB_MGR.updateRecord(`'' @ tb_name t @ quo ''`, '' @ quo ''`'' @ tb_update_key t @ quo ''`, '' @ ''this->get_'' @ tb_update_key t @
                    ''()'' @ '', '' @ format_params fs @ '')) {'',
                  quo ''    std::cout << `update record failed` << std::endl;'', ''    return false;'', ''  }''] @
                concat (map (\<lambda>(f, _). print_lines [''  if (this->get_'' @ df_name f @ ''_state() == MYSQL_TABLE_FIELD_STATE_CHANGED) {'',
                  ''    this->set_'' @ df_name f @ ''_state(MYSQL_TABLE_FIELD_STATE_COMMITTING);'', ''  }'']) fs) @
                print_lines [''  return true;'', ''}'', []])))"

definition gen_field_funcs :: "FieldInfo \<Rightarrow> bool \<times> string" where
  "gen_field_funcs f =
     (if is_field_time_type (df_field_type f) then (True, [])
      else case get_field_type_str f of
             None \<Rightarrow> (False, [])
           | Some ty \<Rightarrow>
               (True, (if is_basic_field_type (df_field_type f) then gen_get_field_func f ty @ gen_init_field_func f ty @ gen_set_field_func f ty
                       else gen_get_mutable_field_func f ty @ gen_get_const_obj_field_func f ty @ gen_init_const_obj_field_func f ty @
                         gen_set_const_obj_field_func f ty @ gen_commit_field_changed_func f) @
                      gen_get_field_state_func f @ gen_set_field_state_func f))"

definition gen_field_member :: "FieldInfo \<Rightarrow> bool \<times> string" where
  "gen_field_member f =
     (if is_field_time_type (df_field_type f) then (True, [])
      else case get_field_type_str f of None \<Rightarrow> (False, []) | Some ty \<Rightarrow> (True, ln (''  '' @ ty @ '' '' @ df_name f @ '';'')))"

definition gen_table_class :: "TableInfo \<times> FieldInfo list \<Rightarrow> bool \<times> (string \<times> string)" where
  "gen_table_class = (\<lambda>(t, fis).
     (let (h1, c1) = gen_struct_constructor_func t fis;
          (ok, funcs) = print_each gen_field_funcs fis;
          head = print_lines [[], ''class '' @ tb_name t @ '' {'', ''public:''] @ h1 @ funcs
      in if \<not> ok then (False, (head, c1))
         else (let (h2, c2) = gen_struct_insert_func t fis;
                   (h3, c3) = gen_struct_update_func t fis;
                   (h4, c4) = gen_struct_delete_func t;
                   (ok, members) = print_each gen_field_member fis;
                   body = head @ h2 @ h3 @ h4 @ print_lines [[], ''private:''] @ members;
                   c = c1 @ c2 @ c3 @ c4
               in if \<not> ok then (False, (body, c))
                  else (True, (body @
                    concat (map (\<lambda>f. ln (''  MysqlTableFieldValueState '' @ df_name f @ ''_state;'')) (filter (\<lambda>f. \<not> is_field_time_type (df_field_type f)) fis)) @
                    print_lines [''};'', []], c)))))"

fun gen_table_classes :: "(TableInfo \<times> FieldInfo list) list \<Rightarrow> bool \<times> (string \<times> string)" where
  "gen_table_classes [] = (True, ([], []))"
| "gen_table_classes (row # rows) = (let (ok, (h, c)) = gen_table_class row
     in if ok then (let (ok, (h', c')) = gen_table_classes rows in (ok, (h @ h', c @ c'))) else (False, (h, c)))"

section \<open>The manager of the tables\<close>

text \<open>
  The type of the records manager of a table; joining a null pointer to a string is undefined. The name of a user defined type is kept in a static
  string, so that a second one is undefined while the pointer to the first is still used.
\<close>

definition is_user_type :: "FieldInfo list \<Rightarrow> string \<Rightarrow> bool" where
  "is_user_type fis field_name =
     (case find (\<lambda>f. df_name f = field_name) fis of None \<Rightarrow> False | Some f \<Rightarrow> get_blob_user_define_data (df_field_type f) \<noteq> None)"

definition manager_type :: "TableInfo \<Rightarrow> FieldInfo list \<Rightarrow> string option option" where
  "manager_type t fis =
     (case tb_select_keys_info t of
        [k] \<Rightarrow>
          (if sk_result_type k \<in> {''single'', []} then do {
             ty \<leftarrow> get_field_type_str_of fis (sk_key k);
             Some (Some (''mysql_records_manager<'' @ tb_name t @ '', '' @ ty @ ''>''))
           } else if sk_result_type k = ''multi'' then do {
             require (\<not> (is_user_type fis (sk_key k) \<and> is_user_type fis (sk_result_key k)));
             sub_key \<leftarrow> get_field_type_str_of fis (sk_result_key k);
             Some (Some (case get_field_type_str_of fis (sk_key k) of
                 None \<Rightarrow> ''mysql_records_manager<'' @ tb_name t @ '', '' @ sub_key @ ''>''
               | Some key \<Rightarrow> ''mysql_records_manager_map<'' @ tb_name t @ '', '' @ key @ '', '' @ sub_key @ ''>''))
           } else Some None)
      | [k, k2] \<Rightarrow>
          (if sk_result_type k \<noteq> ''single'' \<or> sk_result_type k2 \<noteq> ''single'' then Some None
           else do {
             key \<leftarrow> get_field_type_str_of fis (sk_key k);
             key2 \<leftarrow> get_field_type_str_of fis (sk_key k2);
             Some (Some (''mysql_records_manager2<'' @ tb_name t @ '', '' @ key @ '', '' @ key2 @ ''>''))
           })
      | _ \<Rightarrow> Some None)"

fun manager_members :: "(TableInfo \<times> FieldInfo list) list \<Rightarrow> (string \<times> string) list option option" where
  "manager_members [] = Some (Some [])"
| "manager_members ((t, fis) # rows) = do {
     mtype \<leftarrow> manager_type t fis;
     case mtype of
       None \<Rightarrow> Some None
     | Some mtype \<Rightarrow> do { ms \<leftarrow> manager_members rows; Some (map_option ((#) (mtype, tb_name t @ ''_table'')) ms) }
   }"

definition gen_db_tables_manager :: "DBConfig \<Rightarrow> (bool \<times> string) option" where
  "gen_db_tables_manager c = (let class_name = dc_db_name c @ ''_tables_manager'';
       head = print_lines [''// '' @ class_name, ''class '' @ class_name @ '' {'', ''public:'', ''  '' @ class_name @ ''() {}'', ''  ~'' @ class_name @ ''() {}'', []]
     in do {
       ms \<leftarrow> manager_members (table_rows c);
       case ms of
         None \<Rightarrow> Some (False, head)
       | Some ms \<Rightarrow> Some (True, head @
           concat (map (\<lambda>(mtype, mem). print_lines [''  '' @ mtype @ ''&'', ''  get_'' @ mem @ ''() { return '' @ mem @ ''; }'', []]) ms) @
           print_lines [''  void'', ''  update() {''] @ concat (map (\<lambda>(_, mem). ln (''    '' @ mem @ ''.update();'')) ms) @
           print_lines [''  }'', [], ''private:''] @ concat (map (\<lambda>(mtype, mem). ln (''  '' @ mtype @ '' '' @ mem @ '';'')) ms) @ ln ''};'')
     })"

definition generate_struct_file :: "DBConfigParser \<Rightarrow> string \<Rightarrow> (bool \<times> (string \<times> string) list) option" where
  "generate_struct_file D file_name =
     (let c = dp_config D;
          h_name = file_name @ ''_struct.h'';
          cpp_name = file_name @ ''_struct.cpp'';
          h_head = print_lines ([''// Generated by the db_generator.  DO NOT EDIT!'', ''// source: '' @ dp_jsonpath D, [], ''#pragma once'', ''#include <string>'',
            ''#include <set>'', ''#include <unordered_map>'', ''#include <list>'', quo ''#include `../mysql/mysql_connector.h`'',
            quo ''#include `../mysql/mysql_records_manager.h`''] @ map (\<lambda>s. quo ''#include `'' @ s @ quo ''`'') (dc_struct_includes c) @ [[]]);
          cpp_head = print_lines [''// Generated by the db_generator.  DO NOT EDIT!'', ''// source: '' @ dp_jsonpath D, [], quo ''#include `'' @ h_name @ quo ''`'',
            ''#include <iostream>'', quo ''#include `../../proto/src/db_field_struct.pb.h`'', quo ''#include `../mysql/mysql_db_manager.h`'',
            quo ''#include `db_server.h`'', []];
          (ok, (h, cpp)) = gen_table_classes (table_rows c)
      in if \<not> ok then Some (False, [(h_name, h_head @ h), (cpp_name, cpp_head @ cpp)])
         else do {
           (ok, manager) \<leftarrow> gen_db_tables_manager c;
           Some (ok, [(h_name, h_head @ h @ manager), (cpp_name, cpp_head @ cpp)])
         })"


section \<open>Functions that select records\<close>

abbreviation (input) MYSQL_MAX_KEYS_COUNT :: nat where "MYSQL_MAX_KEYS_COUNT \<equiv> 3"

definition is_int_name :: "string \<Rightarrow> bool" where
  "is_int_name s \<longleftrightarrow> s \<in> {''tinyint'', ''smallint'', ''mediumint'', ''int''}"

definition is_text_name :: "string \<Rightarrow> bool" where
  "is_text_name s \<longleftrightarrow> contains s ''text'' \<or> s = ''char'' \<or> s = ''varchar''"

definition get_field_format_for_func :: "FieldInfo list \<Rightarrow> string \<Rightarrow> string option" where
  "get_field_format_for_func fis field_name =
     (case find (\<lambda>f. df_name f = field_name) fis of
        None \<Rightarrow> None
      | Some f \<Rightarrow>
          (let unsigned = contains (df_create_flags f) ''unsigned''; s = df_field_type f
           in if is_int_name s then Some (snprintf 32 ((if unsigned then ''unsigned int '' else ''int '') @ cstr field_name))
              else if s = ''bigint'' then Some (snprintf 32 ((if unsigned then ''uint64_t '' else ''int64_t '') @ cstr field_name))
              else if is_text_name s then Some (snprintf 32 (''const std::string& '' @ cstr field_name))
              else None))"

text \<open>
  The formats of the keys are written to one static buffer, so that afterwards every entry of \<open>ff\<close> is the last of them. An empty
  key ends the loop with no keys.
\<close>

fun key_formats :: "FieldInfo list \<Rightarrow> string list \<Rightarrow> nat \<Rightarrow> string \<Rightarrow> (nat \<times> string) option" where
  "key_formats fis [] ks buf = Some (ks, buf)"
| "key_formats fis (key # keys) ks buf =
     (if key = [] then Some (0, buf)
      else case get_field_format_for_func fis key of None \<Rightarrow> None | Some buf \<Rightarrow> key_formats fis keys ks buf)"

definition select_keys :: "SelKeyInfo \<Rightarrow> string list" where
  "select_keys k = split_at (\<lambda>c. c = CHR ''&'') (sk_key k)"

definition select_title :: "string \<Rightarrow> string list \<Rightarrow> nat \<Rightarrow> string \<Rightarrow> string" where
  "select_title table keys ks buf =
     (let tail = ''mysql_cmd_callback_func get_result_func/*, void* param, long param_l*/)''
      in if ks = 0 then ''bool db_select_'' @ table @ ''_fields('' @ tail
         else if ks = 1 then ''bool db_select_'' @ table @ ''_fields_by_'' @ keys ! 0 @ ''('' @ buf @ '', '' @ tail
         else if ks = 2 then ''bool db_select_'' @ table @ ''_fields_by_'' @ keys ! 0 @ ''_and_'' @ keys ! 1 @ ''('' @ buf @ '', '' @ tail
         else ''bool db_select_'' @ table @ ''_fields_by_'' @ keys ! 0 @ ''_and_'' @ keys ! 1 @ ''_and_'' @ ''('' @ buf @ '', '' @ tail)"

definition selected :: "FieldInfo list \<Rightarrow> FieldInfo list" where
  "selected fis = filter (\<lambda>f. can_select_field_type (df_field_type f)) fis"

definition gen_select_record_func :: "TableInfo \<Rightarrow> FieldInfo list \<Rightarrow> SelKeyInfo \<Rightarrow> bool \<times> (string \<times> string)" where
  "gen_select_record_func t fis key_info =
     (let keys = select_keys key_info
      in if length keys = 0 \<or> length keys > MYSQL_MAX_KEYS_COUNT then (False, ([], []))
         else case key_formats fis keys (length keys) [] of
                None \<Rightarrow> (False, ([], []))
              | Some (ks, buf) \<Rightarrow>
                  (let title = select_title (tb_name t) keys ks buf
                   in (True, (ln (title @ '';''),
                     print_lines [title @ '' {'', ''  static const char* s_sel_fields[] = { ''] @
                     concat (map (\<lambda>f. ln (quo ''    `'' @ df_name f @ quo ''`,'')) (selected fis)) @
                     ln ''  };'' @ quo ''  if (!DB_MGR.selectRecord(`'' @ tb_name t @ quo ''`'' @
                     concat (map (\<lambda>key. quo '', `'' @ key @ quo ''`, '' @ key) (take ks keys)) @
                     print_lines ['', s_sel_fields, sizeof(s_sel_fields)/sizeof(s_sel_fields[0]), get_result_func/*, param, param_l*/)) {'',
                       ''    return false;'', ''  }'', ''  return true;'', ''}'', []]))))"

text \<open>
  The statements that store column \<open>m\<close> of a row. The result key is read into a variable first, under which the record is entered in the list.
\<close>

definition row_expr :: "FieldInfo \<Rightarrow> nat \<Rightarrow> (string \<times> string) option" where
  "row_expr f m =
     (let s = df_field_type f; unsigned = contains (df_create_flags f) ''unsigned''; row = ''row['' @ decimal m @ '']''
      in if is_int_name s then
           (if unsigned then Some (''unsigned int'', ''(unsigned int)std::strtoul('' @ row @ '', nullptr, 10)'') else Some (''int'', ''std::atoi('' @ row @ '')''))
         else if s = ''bigint'' then
           (if unsigned then Some (''uint64_t'', ''(uint64_t)std::strtoull('' @ row @ '', nullptr, 10)'')
            else Some (''int64_t'', ''(int64_t)std::strtoull('' @ row @ '', nullptr, 10)''))
         else if contains s ''blob'' \<or> contains s ''binary'' then None
         else if is_text_name s then Some (''string'', row)
         else None)"

definition blob_lines :: "FieldInfo \<Rightarrow> string \<Rightarrow> nat \<Rightarrow> string list" where
  "blob_lines f user_define m =
     [''  if (!data->get_mutable_'' @ df_name f @ ''().ParseFromArray(row['' @ decimal m @ ''], row_len['' @ decimal m @ ''])) {'',
      quo ''    LogError(`user define '' @ user_define @ quo '' parse failed`);'', ''    return -1;'', ''  }'']"

definition column_lines :: "string \<Rightarrow> FieldInfo \<Rightarrow> nat \<Rightarrow> bool \<Rightarrow> (string list \<times> bool) option" where
  "column_lines result_key f m has_blob =
     (case row_expr f m of
        Some (ty, e) \<Rightarrow>
          Some ((if result_key = df_name f then [''  '' @ ty @ '' d = '' @ e @ '';'', ''  data->init_'' @ df_name f @ ''(d);'']
                 else [''  data->init_'' @ df_name f @ ''('' @ e @ '');'']), has_blob)
      | None \<Rightarrow>
          if contains (df_field_type f) ''blob'' \<or> contains (df_field_type f) ''binary''
          then (case get_blob_user_define_data (df_field_type f) of
                  None \<Rightarrow> None
                | Some user_define \<Rightarrow>
                    Some ((if has_blob then [] else [''  const unsigned long* row_len = res.row_lengths();'']) @ blob_lines f user_define m, True))
          else None)"

fun result_columns :: "bool \<Rightarrow> string \<Rightarrow> FieldInfo list \<Rightarrow> nat \<Rightarrow> bool \<Rightarrow> bool \<times> string" where
  "result_columns multi result_key [] m has_blob = (True, [])"
| "result_columns multi result_key (f # fis) m has_blob =
     (if can_select_field_type (df_field_type f)
      then (case column_lines result_key f m has_blob of
              None \<Rightarrow> (False, [])
            | Some (ls, has_blob) \<Rightarrow>
                (let (ok, r) = result_columns multi result_key fis (m + 1) has_blob
                 in (ok, print_lines (map ((@) (if multi then ''  '' else [])) ls) @
                   (if result_key = df_name f \<and> multi then ln ''    result_list.insert_new(d, data);'' else []) @ r)))
      else result_columns multi result_key fis m has_blob)"

definition result_title :: "TableInfo \<Rightarrow> FieldInfo list \<Rightarrow> SelKeyInfo \<Rightarrow> string option option" where
  "result_title t fis k =
     (if sk_result_type k \<in> {[], ''single''}
      then Some (Some (''int db_get_result_of_select_'' @ tb_name t @ ''_by_'' @ sk_key k @ ''(MysqlConnector::Result& res, '' @ tb_name t @ ''* data)''))
      else if sk_result_type k = ''multi''
      then (if sk_result_key k = [] then Some None
            else do {
              ty \<leftarrow> get_field_type_str_of fis (sk_result_key k);
              Some (Some (''int db_get_result_of_select_'' @ tb_name t @ ''(MysqlConnector::Result& res, mysql_records_manager<'' @ tb_name t @ '', '' @ ty @
                ''>& result_list)''))
            })
      else Some None)"

definition gen_get_result_of_select_record_func :: "TableInfo \<Rightarrow> FieldInfo list \<Rightarrow> SelKeyInfo \<Rightarrow> (bool \<times> (string \<times> string)) option" where
  "gen_get_result_of_select_record_func t fis k = do {
     title \<leftarrow> result_title t fis k;
     case title of
       None \<Rightarrow> Some (False, ([], []))
     | Some title \<Rightarrow>
         (let multi = (sk_result_type k = ''multi'');
              head = print_lines ([title @ '' {'', ''  if (res.res_err != 0) {'', quo ''    LogError(`result(%d) is not no error`, res.res_err);'', ''    return -1;'',
                ''  }'', ''  if (res.num_rows()==0 || res.is_empty()) {'', quo ''    LogInfo(`result is empty`);'', ''    return 0;'', ''  }'', ''  MYSQL_ROW row;''] @
                (if multi then [''  while ((row = res.fetch()) != nullptr) {'', ''    '' @ tb_name t @ ''* data = result_list.get_new_no_insert();'']
                 else [''  row = res.fetch();'']));
              (ok, columns) = result_columns multi (sk_result_key k) fis 0 False
          in Some (ok, (ln (title @ '';''), head @ columns @
               (if ok then print_lines ((if multi then [''  }''] else []) @ [''  return res.num_rows();'', ''}'', []]) else []))))
   }"

fun gen_key_funcs :: "TableInfo \<Rightarrow> FieldInfo list \<Rightarrow> SelKeyInfo list \<Rightarrow> (bool \<times> (string \<times> string)) option" where
  "gen_key_funcs t fis [] = Some (True, ([], []))"
| "gen_key_funcs t fis (k # ks) = (let (ok, (h, c)) = gen_select_record_func t fis k
     in if \<not> ok then Some (False, (h, c))
        else do {
          (ok, (h', c')) \<leftarrow> gen_get_result_of_select_record_func t fis k;
          if \<not> ok then Some (False, (h @ h', c @ c'))
          else do { (ok, (h'', c'')) \<leftarrow> gen_key_funcs t fis ks; Some (ok, (h @ h' @ h'', c @ c' @ c'')) }
        })"

fun gen_table_funcs :: "(TableInfo \<times> FieldInfo list) list \<Rightarrow> (bool \<times> (string \<times> string)) option" where
  "gen_table_funcs [] = Some (True, ([], []))"
| "gen_table_funcs ((t, fis) # rows) = do {
     (ok, (h, c)) \<leftarrow> gen_key_funcs t fis (tb_select_keys_info t);
     if \<not> ok then Some (False, (h, c))
     else do { (ok, (h', c')) \<leftarrow> gen_table_funcs rows; Some (ok, (h @ ln [] @ h', c @ c')) }
   }"

definition generate_func_file :: "DBConfigParser \<Rightarrow> string \<Rightarrow> (bool \<times> (string \<times> string) list) option" where
  "generate_func_file D file_name =
     (let c = dp_config D;
          h_name = file_name @ ''_func.h'';
          cpp_name = file_name @ ''_func.cpp'';
          h_head = print_lines ([''// Generated by the db_generator.  DO NOT EDIT!'', ''// source: '' @ dp_jsonpath D, ''#pragma once''] @
            map (\<lambda>s. quo ''#include `'' @ s @ quo ''`'') (dc_func_includes c) @ [[]]);
          cpp_head = print_lines [''// Generated by the db_generator. DO NOT EDIT!'', ''// source: '' @ dp_jsonpath D, quo ''#include `'' @ h_name @ quo ''`'',
            ''#include <cstdlib>'', ''#include <string>'', []]
      in do {
        (ok, (h, cpp)) \<leftarrow> gen_table_funcs (table_rows c);
        Some (ok, [(h_name, h_head @ h), (cpp_name, cpp_head @ cpp)])
      })"

text \<open>A path without a slash is refused.\<close>

definition db_generate :: "DBConfigParser \<Rightarrow> (bool \<times> (string \<times> string) list) option" where
  "db_generate D =
     (if CHR ''/'' \<notin> set (dp_jsonpath D) then Some (False, [])
      else (let file_name = before_point (after_slash (dp_jsonpath D));
                (ok, define_file) = generate_define_file D file_name
            in if \<not> ok then Some (False, [define_file])
               else do {
                 (ok, struct_files) \<leftarrow> generate_struct_file D file_name;
                 if \<not> ok then Some (False, define_file # struct_files)
                 else do { (ok, func_files) \<leftarrow> generate_func_file D file_name; Some (ok, define_file # struct_files @ func_files) }
               }))"


section \<open>When generation succeeds\<close>

lemma print_each_ok: "fst (print_each f xs) \<longleftrightarrow> (\<forall>x\<in>set xs. fst (f x))"
  by (induction xs) (auto simp: Let_def split: prod.splits)

lemma print_each_text: "fst (print_each f xs) \<Longrightarrow> snd (print_each f xs) = concat (map (snd \<circ> f) xs)"
  by (induction xs) (auto simp: Let_def split: prod.splits if_splits)

lemma define_field_ok:
  "fst (define_field f) \<longleftrightarrow> get_field_type_define_str (df_field_type f) \<noteq> None \<and> get_field_index_type_define_str (df_index_type f) \<noteq> None \<and>
     get_create_flags_define_str (df_create_flags f) \<noteq> None"
  by (simp add: define_field_def split: option.splits)

lemma define_table_ok:
  "fst (define_table (t, fis)) \<longleftrightarrow> (\<forall>f\<in>set fis. fst (define_field f)) \<and> tb_db_engine t \<in> {''myisam'', ''innodb''}"
proof -
  obtain ok s where p: "print_each define_field fis = (ok, s)" by (cases "print_each define_field fis")
  then have "ok \<longleftrightarrow> (\<forall>f\<in>set fis. fst (define_field f))" using print_each_ok [of define_field fis] by simp
  then show ?thesis by (simp add: define_table_def p Let_def)
qed

text \<open>
  The table descriptions are generated exactly if every field has a type, an index type and flags that the generator knows and every table an engine.
\<close>

theorem define_file_ok_iff:
  "fst (generate_define_file D n) \<longleftrightarrow> (\<forall>(t, fis)\<in>set (table_rows (dp_config D)). tb_db_engine t \<in> {''myisam'', ''innodb''} \<and>
     (\<forall>f\<in>set fis. get_field_type_define_str (df_field_type f) \<noteq> None \<and> get_field_index_type_define_str (df_index_type f) \<noteq> None \<and>
       get_create_flags_define_str (df_create_flags f) \<noteq> None))"
proof -
  obtain ok s where p: "print_each define_table (table_rows (dp_config D)) = (ok, s)" by (cases "print_each define_table (table_rows (dp_config D))")
  then have "fst (generate_define_file D n) \<longleftrightarrow> ok" by (simp add: generate_define_file_def Let_def)
  also have "\<dots> \<longleftrightarrow> (\<forall>row\<in>set (table_rows (dp_config D)). fst (define_table row))"
    using print_each_ok [of define_table "table_rows (dp_config D)"] p by simp
  finally show ?thesis by (auto simp: define_table_ok define_field_ok)
qed

lemma table_class_ok:
  "fst (gen_table_class (t, fis)) \<longleftrightarrow> (\<forall>f\<in>set fis. is_field_time_type (df_field_type f) \<or> get_field_type_str f \<noteq> None)"
proof -
  let ?P = "\<forall>f\<in>set fis. is_field_time_type (df_field_type f) \<or> get_field_type_str f \<noteq> None"
  obtain ok s ok' s' where p: "print_each gen_field_funcs fis = (ok, s)" "print_each gen_field_member fis = (ok', s')"
    by (meson surj_pair)
  have "fst (gen_field_funcs f) \<longleftrightarrow> is_field_time_type (df_field_type f) \<or> get_field_type_str f \<noteq> None"
    "fst (gen_field_member f) \<longleftrightarrow> is_field_time_type (df_field_type f) \<or> get_field_type_str f \<noteq> None" for f
    by (auto simp: gen_field_funcs_def gen_field_member_def split: option.splits)
  then have "ok \<longleftrightarrow> ?P" "ok' \<longleftrightarrow> ?P" using print_each_ok [of gen_field_funcs fis] print_each_ok [of gen_field_member fis] p by simp_all
  then show ?thesis by (simp add: gen_table_class_def p Let_def split: prod.splits)
qed

text \<open>The classes are generated exactly if every field is a time, which has no member, or has a C++ type.\<close>

theorem classes_ok_iff:
  "fst (gen_table_classes rows) \<longleftrightarrow>
     (\<forall>(t, fis)\<in>set rows. \<forall>f\<in>set fis. is_field_time_type (df_field_type f) \<or> get_field_type_str f \<noteq> None)"
proof (induction rows)
  case (Cons row rows)
  have "fst (gen_table_classes (row # rows)) \<longleftrightarrow> fst (gen_table_class row) \<and> fst (gen_table_classes rows)"
    by (auto simp: Let_def split: prod.splits if_splits)
  then show ?case using Cons.IH by (cases row) (simp add: table_class_ok)
qed simp

section \<open>Requests\<close>

lemma sent_fields_eq:
  "sent_fields pk fis (int i) = map (\<lambda>(_, f). (f, the (get_field_type_str f)))
     (filter (\<lambda>(j, f). int j \<noteq> pk \<and> get_field_type_str f \<noteq> None) (enumerate i fis))"
proof (induction fis arbitrary: i)
  case (Cons f fis)
  have "int i + 1 = int (Suc i)" by simp
  then show ?case using Cons [of "Suc i"] by (auto simp: add.commute split: option.splits)
qed simp

lemma format_params_eq:
  "format_params fs = concat (join_by '', '' (map (\<lambda>(f, _). [''nv_'' @ df_name f]) fs))"
proof -
  have "s \<noteq> [] \<Longrightarrow> foldl (\<lambda>s (f, _). let nv = ''nv_'' @ df_name f in if s = [] then nv else s @ '', '' @ nv) s fs
      = s @ concat (map (\<lambda>(f, _). '', nv_'' @ df_name f) fs)" for s :: string and fs :: "(FieldInfo \<times> string) list"
    by (induction fs arbitrary: s) auto
  moreover have "concat (join_by '', '' (map (\<lambda>(f, _). [''nv_'' @ df_name f]) ((f, ty) # fs)))
      = ''nv_'' @ df_name f @ concat (map (\<lambda>(f, _). '', nv_'' @ df_name f) fs)" for f ty and fs :: "(FieldInfo \<times> string) list"
    by (induction fs arbitrary: f ty) auto
  ultimately show ?thesis by (cases fs) (auto simp: format_params_def)
qed


section \<open>Columns\<close>

definition is_blob_name :: "string \<Rightarrow> bool" where
  "is_blob_name s \<longleftrightarrow> contains s ''blob'' \<or> contains s ''binary''"

text \<open>What is printed for column \<open>i\<close> of a row; the lengths of the row are fetched before the first blob.\<close>

definition column_text :: "bool \<Rightarrow> string \<Rightarrow> FieldInfo \<Rightarrow> nat \<Rightarrow> bool \<Rightarrow> string" where
  "column_text multi result_key f i has_blob =
     print_lines (map ((@) (if multi then ''  '' else [])) (fst (the (column_lines result_key f i has_blob)))) @
     (if result_key = df_name f \<and> multi then ln ''    result_list.insert_new(d, data);'' else [])"

lemma ints_not_blob: "is_int_name s \<or> s = ''bigint'' \<Longrightarrow> \<not> is_blob_name s"
  by (auto simp: is_int_name_def is_blob_name_def contains_def)

lemma column_has_blob:
  "column_lines result_key f m has_blob = Some (ls, b) \<Longrightarrow> b \<longleftrightarrow> has_blob \<or> is_blob_name (df_field_type f)"
  using ints_not_blob [of "df_field_type f"]
  by (auto simp: column_lines_def row_expr_def Let_def is_blob_name_def split: option.splits if_splits)

lemma result_columns_text:
  "result_columns multi result_key fis m has_blob = (True, s) \<Longrightarrow>
     s = concat (map (\<lambda>i. column_text multi result_key (selected fis ! i) (m + i) (has_blob \<or> (\<exists>j<i. is_blob_name (df_field_type (selected fis ! j)))))
           [0..<length (selected fis)])"
proof (induction fis arbitrary: m has_blob s)
  case (Cons f fis)
  show ?case
  proof (cases "can_select_field_type (df_field_type f)")
    case False
    then show ?thesis using Cons by (simp add: selected_def)
  next
    case True
    obtain ls b r where c: "column_lines result_key f m has_blob = Some (ls, b)" "result_columns multi result_key fis (m + 1) b = (True, r)"
      "s = column_text multi result_key f m has_blob @ r"
      using Cons.prems True by (auto simp: column_text_def Let_def split: option.splits prod.splits)
    have sel: "selected (f # fis) = f # selected fis" using True by (simp add: selected_def)
    have u: "[0..<length (selected (f # fis))] = 0 # map Suc [0..<length (selected fis)]" by (simp add: sel upt_conv_Cons map_Suc_upt del: upt_Suc)
    show ?thesis unfolding u using Cons.IH [OF c(2)] column_has_blob [OF c(1)]
      by (simp add: c(3) sel Ex_less_Suc2 comp_def disj_assoc)
  qed
qed (simp add: selected_def)



definition sample_fields :: "FieldInfo list" where
  "sample_fields = [new_field\<lparr>df_name := ''id'', df_field_type := ''int''\<rparr>, new_field\<lparr>df_name := ''at'', df_field_type := ''timestamp''\<rparr>,
     new_field\<lparr>df_name := ''items'', df_field_type := ''blob:Items''\<rparr>]"

definition sample_key :: SelKeyInfo where
  "sample_key = \<lparr>sk_key = ''id'', sk_result_type = ''single'', sk_result_key = []\<rparr>"


section \<open>Where the generator goes wrong\<close>

text \<open>
  A function that selects by two keys has a parameter for the second only, although its body uses both; some types of MySQL get the
  constant of another one, and a medium blob gets one that does not exist.
\<close>

theorem only_last_key_is_a_parameter:
  assumes "select_keys k = [a, b]" "a \<noteq> []" "b \<noteq> []" "get_field_format_for_func fis a = Some fa" "get_field_format_for_func fis b = Some fb"
  shows "\<exists>rest. fst (snd (gen_select_record_func t fis k)) = ''bool db_select_'' @ tb_name t @ ''_fields_by_'' @ a @ ''_and_'' @ b @ ''('' @ fb @
    '', mysql_cmd_callback_func get_result_func'' @ rest"
  using assms by (simp add: gen_select_record_func_def select_title_def ln_def Let_def)

theorem wrong_type_constants:
  "get_field_type_define_str ''varbinary'' = Some ''MYSQL_FIELD_TYPE_BINARY'' \<and> get_field_type_define_str ''longblob'' = Some ''MYSQL_FIELD_TYPE_BLOB'' \<and>
   get_field_type_define_str ''mediumblob'' = Some ''MYSQL_FIELD_TYPE_MEDIUM_BLOB''"
  by (simp add: get_field_type_define_str_def contains_def)

end
