(* ===== verification/Csv_Generate.thy ===== *)
theory Csv_Generate
  imports Db_Generate
begin

text \<open>
  \<open>csv_generator\<close>: \<open>GenerateSource\<close> (\<open>generate_source.cpp\<close>) prints, for the table of a CSV file, a struct with a member for each column and a class that
  loads the table. The first line of the file names the columns, the second gives their types. A line that is not there is undefined.
  \<open>GenerateManager\<close> (\<open>generate_manager.cpp\<close>) prints the class that holds all tables, and \<open>main.cpp\<close> does both for the files of a list.
\<close>

abbreviation (input) KEY_INDEX :: nat where "KEY_INDEX \<equiv> 0"
abbreviation (input) MIN_LINE_COUNT :: nat where "MIN_LINE_COUNT \<equiv> 3"

definition nth_line :: "'a list \<Rightarrow> nat \<Rightarrow> 'a option" where
  "nth_line xs i = (if i < length xs then Some (xs ! i) else None)"

definition member_type :: "string \<Rightarrow> string option" where
  "member_type s =
     (if s = ''int'' then Some ''int'' else if s = ''int64'' then Some ''int64_t'' else if s = ''string'' then Some ''std::string''
      else if s = ''bool'' then Some ''bool'' else None)"

definition struct_member :: "string \<times> string \<Rightarrow> bool \<times> string" where
  "struct_member = (\<lambda>(name, ty). case member_type ty of None \<Rightarrow> (False, []) | Some t \<Rightarrow> (True, ln (''  '' @ t @ '' '' @ name @ '';'')))"

definition struct_head :: "string \<Rightarrow> string" where
  "struct_head file_name = print_lines [[], ''struct '' @ file_name @ '' {'']"

definition writeStruct :: "string \<Rightarrow> string list \<Rightarrow> string list \<Rightarrow> bool \<times> string" where
  "writeStruct file_name names types =
     (if length names = 0 \<or> length names \<noteq> length types then (False, [])
      else (let (ok, members) = print_each struct_member (zip names types);
                head = struct_head file_name @ members
            in if ok then (True, head @ print_lines [''};'', []]) else (False, head)))"

definition column_value :: "string \<Rightarrow> nat \<Rightarrow> string option" where
  "column_value ty i =
     (let cell = ''line['' @ decimal i @ '']''
      in if ty = ''int'' then Some (''std::atoi('' @ cell @ ''.c_str())'')
         else if ty = ''int64'' then Some (''(int64_t)std::strtoull('' @ cell @ ''.c_str(), nullptr, 10)'')
         else if ty = ''string'' then Some cell
         else if ty = ''bool'' then Some (''(bool)std::atoi('' @ cell @ ''.c_str())'')
         else None)"

definition column_assign :: "nat \<times> string \<times> string \<Rightarrow> bool \<times> string" where
  "column_assign = (\<lambda>(i, name, ty). case column_value ty i of None \<Rightarrow> (False, []) | Some e \<Rightarrow> (True, ln (''      data.'' @ name @ '' = '' @ e @ '';'')))"

definition writeCountFunc :: string where
  "writeCountFunc = print_lines [''  size_t count() const {'', ''    return objs_.count();'', ''  }'']"

definition writeLoadFunc :: string where
  "writeLoadFunc = print_lines [''  bool load(const char* file_path) {'', ''    JmyCsvParser parser;'', ''    if (!parser.load(file_path)) {'',
     quo ''      std::cout << `load file` << file_path << ` failed` << std::endl;'', ''      return false;'', ''    }'',
     ''    if (!parseData(parser.getLines())) {'', quo ''      std::cout << `parse file ` << file_path << ` data failed`;'', ''      return false;'', ''    }'',
     ''    parser.close();'', ''    return true;'', ''  }'']"

definition writeCloseFunc :: string where
  "writeCloseFunc = print_lines [''  void close() {'', ''    objs_.clear(true);'', ''  }'']"

definition writeGetFunc :: "string \<Rightarrow> string \<Rightarrow> string" where
  "writeGetFunc file_name key_type = print_lines [''  '' @ file_name @ ''* get(const '' @ key_type @ ''& key) {'', ''    return objs_.getByKey(key);'', ''  }'', [],
     ''  '' @ file_name @ ''* getByIndex(uint32_t index) {'', ''    return objs_.getByIndex(index);'', ''  }'']"

text \<open>
  The number of lines of the table at hand is printed as the bound of the generated loop. The lines of a loaded table have the same length.
\<close>

definition parse_head :: "string \<Rightarrow> nat \<Rightarrow> string" where
  "parse_head file_name n =
     print_lines [''  bool parseData(const JmyCsvParser::lines_type& lines) {'', ''    size_t s = lines.size();'', ''    if (s < '' @ decimal MIN_LINE_COUNT @ '') {'',
       quo ''      std::cout << `line count: ` << s << ` must be not less to '' @ decimal MIN_LINE_COUNT @ quo ''` << std::endl;'', ''      return false;'', ''    }'', [],
       ''    '' @ file_name @ '' data;'', ''    for (size_t i=2; i<'' @ decimal n @ ''; ++i) {'', ''      const std::vector<std::string>& line = lines[i];'']"

definition parse_tail :: "string \<Rightarrow> string \<Rightarrow> string \<Rightarrow> string" where
  "parse_tail file_name key_name key_type =
     print_lines [[], ''      '' @ file_name @ ''* d = JmyObjectSet<'' @ file_name @ '', '' @ key_type @ ''>::newObject();'', ''      *d = data;'',
       ''      objs_.insertKeyValue(data.'' @ key_name @ '', d);'', ''      objs_.pushValue(d);'', ''    }'', ''    return true;'', ''  }'']"

definition writeParseDataFunc :: "string \<Rightarrow> string list list \<Rightarrow> (bool \<times> string) option" where
  "writeParseDataFunc file_name lines = do {
     name_line \<leftarrow> nth_line lines 0;
     type_line \<leftarrow> nth_line lines 1;
     require (length type_line \<le> length name_line);
     let head = parse_head file_name (length lines);
     let (ok, columns) = print_each column_assign (enumerate 0 (zip name_line type_line));
     if \<not> ok then Some (False, head @ columns)
     else do {
       key_name \<leftarrow> nth_line name_line KEY_INDEX;
       key_type \<leftarrow> nth_line type_line KEY_INDEX;
       Some (True, head @ columns @ parse_tail file_name key_name key_type)
     }
   }"

definition class_head :: "string \<Rightarrow> string \<Rightarrow> string" where
  "class_head file_name key_type = (let class_name = file_name @ ''_table''
     in print_lines [''class '' @ class_name @ '' {'', ''public:'', ''  '' @ class_name @ ''() {}'', ''  ~'' @ class_name @ ''() {}'', []] @
       writeCountFunc @ ln [] @ writeLoadFunc @ ln [] @ writeCloseFunc @ ln [] @ writeGetFunc file_name key_type @ print_lines [[], ''private:''])"

definition class_tail :: "string \<Rightarrow> string \<Rightarrow> string" where
  "class_tail file_name key_type = print_lines [[], ''  JmyObjectSet<'' @ file_name @ '', '' @ key_type @ ''> objs_;'', ''};'']"

text \<open>Whether the body of \<open>parseData\<close> could be printed is not looked at.\<close>

definition writeClassBody :: "string \<Rightarrow> string list list \<Rightarrow> (bool \<times> string) option" where
  "writeClassBody file_name lines = do {
     type_line \<leftarrow> nth_line lines 1;
     key_type \<leftarrow> nth_line type_line KEY_INDEX;
     (_, parse_data) \<leftarrow> writeParseDataFunc file_name lines;
     Some (True, class_head file_name key_type @ parse_data @ class_tail file_name key_type)
   }"

definition source_head :: string where
  "source_head = print_lines [''// Generated by the csv_generator.  DO NOT EDIT!'', ''#pragma once'', quo ''#include `../../libjmy/jmy_object_set.hpp`'',
     quo ''#include `../../libjmy/jmy_csv_parser.h`'', ''#include <iostream>'', ''#include <vector>'']"

definition source_init :: "(string \<Rightarrow> string option) \<Rightarrow> JmyCsvParser \<Rightarrow> string \<Rightarrow> (bool \<times> (string \<times> string) option) option" where
  "source_init files P path =
     (let (ok, P) = csv_load files P path
      in if \<not> ok \<or> CHR ''/'' \<notin> set path then Some (False, None)
         else do {
           let file_name = before_point (after_slash path);
           name_line \<leftarrow> nth_line (getLines P) 0;
           type_line \<leftarrow> nth_line (getLines P) 1;
           let (ok, s) = writeStruct file_name name_line type_line;
           if \<not> ok then Some (False, Some (file_name @ ''.h'', source_head @ s))
           else do {
             (ok, b) \<leftarrow> writeClassBody file_name (getLines P);
             Some (ok, Some (file_name @ ''.h'', source_head @ s @ b))
           }
         })"


section \<open>The list of tables\<close>

record CsvInfo =
  ci_file_name :: string
  ci_source_name :: string
  ci_class_name :: string

definition loadOne :: "CsvInfo list \<Rightarrow> string \<Rightarrow> string \<Rightarrow> string \<Rightarrow> CsvInfo list" where
  "loadOne l csv_name source_name class_name = l @ [\<lparr>ci_file_name = csv_name, ci_source_name = source_name, ci_class_name = class_name\<rparr>]"

definition manager_generate :: "CsvInfo list \<Rightarrow> string \<times> string" where
  "manager_generate l =
     (''csv_list_manager.h'',
      print_lines ([''// Generated by the csv_generator.  DO NOT EDIT!'', ''#pragma once''] @ map (\<lambda>c. quo ''#include `csv/'' @ ci_source_name c @ quo ''`'') l @
        [quo ''#include `../libjmy/jmy_singleton.hpp`'', [], ''class CsvListManager : public JmySingleton<CsvListManager>'', ''{'', ''public:'', ''  void close() {''] @
        map (\<lambda>c. ''    '' @ ci_class_name c @ ''_.close();'') l @ [''  }'', ''  bool loadCsv() {'']) @
      concat (map (\<lambda>c. print_lines [''    if (!'' @ ci_class_name c @ quo ''_.load(`csv/'' @ ci_file_name c @ quo ''`)) {'',
        quo ''      std::cout << `load file '' @ ci_file_name c @ quo '' failed` << std::endl;'', ''      return false;'', ''    }'']) l) @
      print_lines [''    return true;'', ''  }''] @
      concat (map (\<lambda>c. print_lines [''  '' @ ci_class_name c @ ''& get_'' @ ci_class_name c @ ''() {'', ''    return '' @ ci_class_name c @ ''_;'', ''  }'']) l) @
      print_lines ([''private:''] @ map (\<lambda>c. ''  '' @ ci_class_name c @ '' '' @ ci_class_name c @ ''_;'') l @
        [''};'', [], ''#define CSV_MGR CsvListManager::getInstance()'']))"

definition load_csv_list :: "(string \<Rightarrow> json_value option) \<Rightarrow> (string \<Rightarrow> string option) \<Rightarrow> string list \<Rightarrow> string \<Rightarrow> (bool \<times> string list) option" where
  "load_csv_list parse files csv_list jsonpath =
     (case files jsonpath of
        None \<Rightarrow> Some (False, csv_list)
      | Some contents \<Rightarrow>
          (case parse (cstr (read_lines contents)) of
             None \<Rightarrow> Some (False, csv_list)
           | Some doc \<Rightarrow> do { vs \<leftarrow> get_array doc; Some (push_strings vs csv_list) }))"

text \<open>The loop of \<open>main\<close>: the files written so far, and whether all tables were generated.\<close>

fun generate_all :: "(string \<Rightarrow> string option) \<Rightarrow> string \<Rightarrow> string list \<Rightarrow> CsvInfo list \<Rightarrow> (string \<times> string) list \<Rightarrow> (int \<times> (string \<times> string) list) option" where
  "generate_all files csv_root [] l out = Some (0, out @ [manager_generate l])"
| "generate_all files csv_root (name # names) l out = do {
     let file_path = csv_root @ ''/'' @ name;
     (ok, written) \<leftarrow> source_init files csv_new file_path;
     let out = (case written of None \<Rightarrow> out | Some f \<Rightarrow> out @ [f]);
     if \<not> ok then Some (- 1, out)
     else (let file_name = before_point (after_slash file_path)
           in generate_all files csv_root names (loadOne l name (file_name @ ''.h'') (file_name @ ''_table'')) out)
   }"

definition csv_main :: "(string \<Rightarrow> json_value option) \<Rightarrow> (string \<Rightarrow> string option) \<Rightarrow> string list \<Rightarrow> (int \<times> (string \<times> string) list) option" where
  "csv_main parse files argv =
     (case argv of
        _ # csv_root # _ \<Rightarrow> do {
          (ok, csv_list) \<leftarrow> load_csv_list parse files [] ''../game_server/csv_list.json'';
          if \<not> ok then Some (- 1, []) else generate_all files csv_root csv_list [] []
        }
      | _ \<Rightarrow> Some (- 1, []))"

section \<open>Generated tables\<close>

definition supported :: "string \<Rightarrow> bool" where
  "supported ty \<longleftrightarrow> ty \<in> {''int'', ''int64'', ''string'', ''bool''}"

lemma supported_types: "supported ty \<Longrightarrow> member_type ty \<noteq> None \<and> column_value ty i \<noteq> None"
  by (auto simp: supported_def member_type_def column_value_def Let_def)

definition members_text :: "string list \<Rightarrow> string list \<Rightarrow> string" where
  "members_text names types = concat (map (\<lambda>(name, ty). ln (''  '' @ the (member_type ty) @ '' '' @ name @ '';'')) (zip names types))"

definition assigns_text :: "string list \<Rightarrow> string list \<Rightarrow> string" where
  "assigns_text names types =
     concat (map (\<lambda>(i, name, ty). ln (''      data.'' @ name @ '' = '' @ the (column_value ty i) @ '';'')) (enumerate 0 (zip names types)))"

lemma print_each_all: "(\<And>x. x \<in> set xs \<Longrightarrow> f x = (True, g x)) \<Longrightarrow> print_each f xs = (True, concat (map g xs))"
  by (induction xs) simp_all

lemma print_members:
  "\<forall>ty\<in>set types. supported ty \<Longrightarrow> print_each struct_member (zip names types) = (True, members_text names types)"
  unfolding members_text_def
proof (rule print_each_all)
  fix x assume "\<forall>ty\<in>set types. supported ty" "x \<in> set (zip names types)"
  then have "member_type (snd x) \<noteq> None" using supported_types set_zip_rightD [of "fst x" "snd x" names types] by simp
  then show "struct_member x = (True, case x of (name, ty) \<Rightarrow> ln (''  '' @ the (member_type ty) @ '' '' @ name @ '';''))"
    by (auto simp: struct_member_def split: option.splits prod.splits)
qed

lemma print_assigns:
  "\<forall>ty\<in>set types. supported ty \<Longrightarrow> print_each column_assign (enumerate 0 (zip names types)) = (True, assigns_text names types)"
  unfolding assigns_text_def
proof (rule print_each_all)
  fix x assume A: "\<forall>ty\<in>set types. supported ty" "x \<in> set (enumerate 0 (zip names types))"
  then have "snd x \<in> set (zip names types)" by (metis image_eqI map_snd_enumerate set_map)
  then have "column_value (snd (snd x)) (fst x) \<noteq> None"
    using A(1) supported_types set_zip_rightD [of "fst (snd x)" "snd (snd x)" names types] by simp
  then show "column_assign x = (True, case x of (i, name, ty) \<Rightarrow> ln (''      data.'' @ name @ '' = '' @ the (column_value ty i) @ '';''))"
    by (auto simp: column_assign_def split: option.splits prod.splits)
qed

lemma csv_load_full:
  assumes "files path = Some (csv_text rows)" "rows \<noteq> []" "snd (hd rows) \<noteq> []"
    and "\<forall>row\<in>snd ` set rows. length row = length (snd (hd rows)) \<and> (\<forall>f\<in>set row. plain_field f \<and> f \<noteq> [])"
  shows "csv_load files csv_new path = (True, \<lparr>csv_lines = map snd rows\<rparr>)"
proof -
  have "\<forall>row\<in>snd ` set rows. \<forall>f\<in>set row. f \<noteq> []" using assms(4) by blast
  then have t: "map (nonempty \<circ> snd) rows = map snd rows" by (auto simp: filter_id_conv)
  have "\<forall>row\<in>snd ` set rows. row \<noteq> []" using assms(3,4) by (metis length_0_conv)
  then have n: "nonempty (map snd rows) = map snd rows" by (auto simp: filter_id_conv)
  have u: "\<forall>row\<in>set (map snd rows). row = [] \<or> length row = length (hd (map snd rows))"
    unfolding set_map hd_map [OF assms(2)] using assms(4) by blast
  have "\<forall>row\<in>snd ` set rows. \<forall>f\<in>set row. plain_field f" using assms(4) by blast
  from csv_table_spec [of files path rows csv_new, OF assms(1,2) this] show ?thesis
    unfolding t Let_def n if_P [OF u] by (simp add: csv_new_def getLines_def)
qed

lemma class_body_text:
  assumes "\<forall>ty\<in>set (kt # ts). supported ty" "length ts = length ns"
  shows "writeClassBody fn ((key # ns) # (kt # ts) # rows) = Some (True, class_head fn kt @ parse_head fn (length rows + 2) @
    assigns_text (key # ns) (kt # ts) @ parse_tail fn key kt @ class_tail fn kt)"
proof -
  have "writeParseDataFunc fn ((key # ns) # (kt # ts) # rows) =
      Some (True, parse_head fn (length rows + 2) @ assigns_text (key # ns) (kt # ts) @ parse_tail fn key kt)"
    using print_assigns [OF assms(1), of "key # ns"] assms(2) by (simp add: writeParseDataFunc_def nth_line_def del: zip_Cons_Cons enumerate_simps)
  then show ?thesis by (simp add: writeClassBody_def nth_line_def)
qed

text \<open>
  A table whose types are supported is generated: the struct has a member of its type for every column, and column \<open>i\<close> of a line is stored
  in the member of that position.
\<close>

theorem table_generated:
  assumes "files path = Some (csv_text ((cr, names) # (cr', types) # rows))" "CHR ''/'' \<in> set path"
    and "\<forall>row\<in>set (names # types # map snd rows). length row = length names \<and> (\<forall>f\<in>set row. plain_field f \<and> f \<noteq> [])"
    and "names \<noteq> []" "\<forall>ty\<in>set types. supported ty"
  shows "\<exists>pre mid post. source_init files csv_new path = Some (True, Some (before_point (after_slash path) @ ''.h'',
    pre @ members_text names types @ mid @ assigns_text names types @ post))"
proof -
  let ?fn = "before_point (after_slash path)"
  have l: "csv_load files csv_new path = (True, \<lparr>csv_lines = names # types # map snd rows\<rparr>)"
    using csv_load_full [of files path "(cr, names) # (cr', types) # rows"] assms(1,3,4)
    by (simp only: list.map list.set image_insert snd_conv list.sel set_map list.distinct not_False_eq_True)
  have k: "length types = length names" using assms(3) by simp
  obtain key kt ns ts where c: "names = key # ns" "types = kt # ts" using assms(4) k by (cases names; cases types) auto
  have w: "writeStruct ?fn names types = (True, struct_head ?fn @ members_text names types @ print_lines [''};'', []])"
    using print_members [OF assms(5), of names] assms(4) k by (simp add: writeStruct_def)
  obtain x y where b: "writeClassBody ?fn (names # types # map snd rows) = Some (True, x @ assigns_text names types @ y)"
    using class_body_text [of kt ts ns ?fn key "map snd rows"] assms(5) k unfolding c by (metis append.assoc length_Cons nat.inject)
  obtain z where "z = print_lines [''};'', []]" by blast
  then have "source_init files csv_new path =
      Some (True, Some (?fn @ ''.h'', (source_head @ struct_head ?fn) @ members_text names types @ (z @ x) @ assigns_text names types @ y))"
    using assms(2) w b by (simp add: source_init_def l getLines_def nth_line_def Let_def)
  then show ?thesis by blast
qed

end
