(* ===== verification/Spec2Isabelle.thy ===== *)
theory Spec2Isabelle
  imports Connection_Lifecycle Tcp_Server Tcp_Client Gate_Handlers Login_Server Config_Server
    Game_Server Db_Server Schema_Loader Data_Handler1 Login_Users Server_Config Post_Log Thread_Pool Csv_Generate
begin

text \<open>
  Verification of the network library and the servers of \<open>jmy_game/servers\<close>.

  \<^bold>\<open>The program.\<close> \<open>libjmy\<close> is a TCP library over asio. A process holds connections; each has a receiving
  and a sending buffer taken from pools, a data handler that packs and unpacks messages, and an event
  handler. A main loop calls \<open>run\<close> on a server or on a set of clients; asio calls the completion handlers.
  On top of it stand the servers. The config server has the list of gate servers and introduces login
  and gate servers to each other. The login server takes the login of a client and, when the client
  selects a gate, tells the gate the account and gives the client the code and the address of the gate. The gate
  admits the client by that code, once, and from then on forwards messages between the client and the
  game server, which has registered with the gate. The game server keeps the players and their items and
  asks the database server for roles. The database server keeps the rows it has read as records, answers from
  them and collects the requests they give rise to; \<open>mysql/\<close> makes statements of the requests and hands
  them to threads that execute them and hand the results back.

  \<^bold>\<open>Conventions.\<close> \<open>None\<close> of the monad means that the source has no defined result there (out of bounds,
  dangling pointer, failed assert, endless loop); error returns are values. Integers have the width of
  the source. Objects that are reached by pointers live in a store by address; values that a single
  owner holds are part of the owner. An asynchronous operation in progress is an entry of the
  connection, and its completion handler is an operation of the model that may be called with any outcome.
  The handlers of an application and the generated protobuf classes are parameters: a record of
  functions, about which a theorem assumes no more than that one side reads what the other wrote, or that a message fits
  a packet. There is no fuel: every loop is structural recursion, or ends by a measure.

  \<^bold>\<open>The library\<close>, under \<open>libjmy/\<close>:
  \<^item> Prelude: words, memory cells, the option monad. Memory: the heap and \<open>jmy_mem.cpp\<close>. Datatypes:
    \<open>jmy_const.h\<close> and \<open>jmy_datatype.h\<close>.
  \<^item> Wire, Net\_Proto2: byte order macros and \<open>jmy_net_proto2.cpp\<close>; what unpacking a body reads.
  \<^item> Free\_List: the locale \<open>free_list_pool\<close>, the contract of a pool with a free list and a set of used
    elements; its client lemma is that no history hands out an element twice. Buffer\_Pool
    (\<open>jmy_session_buffer_pool.cpp\<close>) and Client\_Array interpret it.
  \<^item> Send\_Buffer: the locale \<open>send_buffer\<close>, the contract of the template parameter of the data handler; its
    client lemma is that a history of writes and sends is a byte queue. Session\_Buffer and Buffer\_List
    (both \<open>jmy_session_buffer.cpp\<close>) interpret it.
  \<^item> Data\_Handler2, Connection\_Buffer, Event\_Handler, Id\_Generator: \<open>jmy_data_handler2.cpp\<close>,
    \<open>jmy_connection_buffer.cpp\<close>, \<open>jmy_event_handler.h\<close>, \<open>jmy_util.h\<close>.
  \<^item> Tcp\_Connection: \<open>jmy_tcp_connection.cpp\<close> and the store \<open>net\<close>. Message\_Delivery: what one side
    sends is what the handlers of the other side get, each message once and in order. Connection\_Lifecycle:
    sending as a step relation, its invariant and its progress; closing, disconnect and heartbeat.
  \<^item> Net\_Proto1, Data\_Handler1: the first wire protocol, \<open>jmy_net_proto.cpp\<close> and \<open>jmy_data_handler.cpp\<close>, which reads packets out of
    a receive buffer that is filled piecewise; \<open>USE_NET_PROTO2\<close> chooses between it and the second. A stream of messages is
    delivered however it is cut into pieces, and what the handler does with an empty or full buffer.
  \<^item> Tcp\_Server: \<open>jmy_tcp_server.cpp\<close>; accepting, removing and the balance of connections, buffers and ids.
    Tcp\_Client: \<open>jmy_tcp_client.cpp\<close>, \<open>jmy_tcp_client_set.cpp\<close>, \<open>jmy_tcp_clients.cpp\<close>; reconnection.

  \<^bold>\<open>The servers\<close>, under \<open>common/\<close>, \<open>gate_server/\<close>, \<open>login_server/\<close>, \<open>config_server/\<close>:
  \<^item> Agent\_Manager: \<open>agent.h\<close>. The locale \<open>agent_registry\<close> is the contract of a registry of peers, and its client
    lemma is that a history behaves as on a finite map; the hash registry and the array registry
    interpret it, so that they agree with each other. Bi\_Map: \<open>bi_map.h\<close>. Server\_Common: \<open>util.cpp\<close>, \<open>util.h\<close>.
  \<^item> Client\_Array, Gate\_State, Gate\_Handlers: the clients of a gate (\<open>client_array.cpp\<close>), its registries and
    sessions (\<open>client_manager.cpp\<close>, \<open>global_data.cpp\<close>) and every handler of its four kinds of peers.
  \<^item> Login\_Server: \<open>client_manager.cpp\<close>, \<open>gate_server_list.cpp\<close> and every handler. Login\_Users: \<open>user.cpp\<close>, the users by id and
    account, which refine a table by account.
  \<^item> Config\_Server: \<open>conf_gate_list.cpp\<close> and \<open>conn_handler.cpp\<close>; registration as a reachability relation.
  \<^item> Json\_Value, Server\_Config: the five \<open>config_loader.cpp\<close> and \<open>server_config_reader.cpp\<close>. The locale \<open>config_format\<close> is the contract of a list
    of members that describes a configuration; its client lemma is that loading and reloading follow the file. The five servers and the
    client nodes interpret it.
  \<^item> This theory: the hand over of a client from the login server to a gate.

  \<^bold>\<open>The game server and the database\<close>, under \<open>game_server/\<close>, \<open>mysql/\<close>, \<open>db_server/\<close>:
  \<^item> Player\_Manager: \<open>item.cpp\<close> and \<open>player.cpp\<close>; items as counters with a limit, and the invariant that joins the
    pool of players, the seats by user id and the roles.
  \<^item> Game\_Server: the handlers of the gate and of the database server and the commands of a chat line (\<open>gm.cpp\<close>,
    \<open>gm_cmd.cpp\<close>); the players refine a table of seats, and which commands have a defined effect.
  \<^item> Connector\_Pool: \<open>mysql_connector.cpp\<close> and \<open>mysql_connector_pool.cpp\<close>. Main thread and reading thread are a step relation;
    by rule induction the callbacks come in order, whatever the interleaving.
  \<^item> Mysql\_Statements: \<open>mysql_util.h\<close>, \<open>mysql_db_config_manager.cpp\<close> and \<open>mysql_db_manager.h\<close>. The texts are put together in rings of
    three buffers; the locale \<open>ring_formatter\<close> is the contract of printing one field into a ring, and its client lemma is that a
    list of fields gives the joined texts. Names, values and assignments interpret it.
  \<^item> Records\_Manager: \<open>mysql_records_manager.h\<close>; merging and sending of pending requests. The locale \<open>removal\<close> is what the update loop
    needs of removing a record; the managers by one key and by two keys interpret it.
  \<^item> Schema\_Loader: \<open>mysql_config_loader.cpp\<close>; loading a description completes the table.
  \<^item> Db\_Server: \<open>game_server_manager.cpp\<close>, \<open>global_data.h\<close>, \<open>dbres_callback_funcs.cpp\<close> and \<open>game_handler.cpp\<close>; a role that is created is found again.

  \<^bold>\<open>Programs beside the servers\<close>, under \<open>curl/\<close> and \<open>threadpool/\<close>:
  \<^item> Http\_Request: \<open>http_request.cpp\<close>, \<open>http_request_common.hpp\<close>, \<open>http_request_processor.cpp\<close>, \<open>http_request_mgr.cpp\<close>; requests go between pool, list
    and processor, and by rule induction over what libcurl may say none is lost or shared. Post\_Log: \<open>http_postlog_mgr.cpp\<close>.
  \<^item> Thread\_Pool: \<open>safe_queue.h\<close> and \<open>thread_pool.h\<close>; the threads are a step relation, tasks run once and in order, when the pool can stall
    and when it can not.

  \<^bold>\<open>Helpers and code generators\<close>, under \<open>libjmy/\<close>, \<open>db_generator/\<close>, \<open>csv_generator/\<close>:
  \<^item> Lib\_Helpers: \<open>jmy_csv_parser.h\<close>, \<open>jmy_object_set.hpp\<close>, \<open>jmy_net_tool.cpp\<close>. A CSV file is compared with splitting at every separator; the locale
    \<open>meter\<close> is what the three rates of the network tool have in common, and all three interpret it.
  \<^item> Db\_Config: \<open>DBConfigParser::load\<close> and \<open>db_field_config_parser.cpp\<close>; a description of a database is read back. Db\_Generate: the texts that
    \<open>db_config_parser.cpp\<close> prints, when printing succeeds, and that the functions for selecting and for reading rows agree on the columns.
  \<^item> Csv\_Generate: \<open>generate_source.cpp\<close>, \<open>generate_manager.cpp\<close>, \<open>main.cpp\<close>; a table with supported types is generated.

  \<^bold>\<open>Not modelled.\<close> asio, zlog, rapidjson, protobuf, libcurl, the MySQL client library and the thread of a server are outside the sources. Log
  lines, process start up and the main loops are left out; they call the operations in turn.  \<open>jmy_tcp_connector\<close> and \<open>jmy_tcp_session\<close> are compiled out:
  \<open>jmy_datatype.h\<close> defines \<open>USE_CONNECTOR_AND_SESSION\<close> as 0. The classes that the code generators have
  printed for the servers, \<open>t_player\<close> and the item table among them, are parameters of the servers; the texts are not run. \<open>gen_insert_record_func\<close> and
  \<open>gen_update_record_func\<close> are called under \<open>#if 0\<close> only. The format of a \<open>double\<close> is left out, and so are the overloads of
  \<open>selectRecord\<close> that hand a \<open>std::string\<close> to \<open>snprintf\<close>, which nothing instantiates.
  The parts of the first protocol under \<open>USE_CONN_PROTO\<close> are compiled out as well.
\<close>

section \<open>From the login server to the gate\<close>

lemma selected_server_notify_ok:
  assumes "msg_connection (ms_net (gs_client_master g)) j = Some h" "sender_ready (ms_net (gs_client_master g)) h"
    and "parse_SelectedServerNotify Q (mi_data j) = Some account" "length (ser_SelectedServerResponse Q account code) < 65531"
  shows "\<exists>g' m. processSelectedServerNotify Q g j code t = Some (0, g') \<and>
    g' = upd_login_net (snd (newAccountSession g account code t)) m \<and>
    sent (ms_net (gs_client_master g)) h (packet (Msg MSGID_GT2LS_SELECTED_SERVER_RESPONSE (ser_SelectedServerResponse Q account code))) m"
proof -
  obtain g0 where s: "newAccountSession g account code t = (True, g0)" "gs_client_master g0 = gs_client_master g"
    by (cases "gs_account_session g account") (simp_all add: newAccountSession_def)
  from send_sent [OF assms(2,4), of MSGID_GT2LS_SELECTED_SERVER_RESPONSE] obtain m where
    "conn_send (ms_net (gs_client_master g)) h MSGID_GT2LS_SELECTED_SERVER_RESPONSE (ser_SelectedServerResponse Q account code) =
      Some (int (length (ser_SelectedServerResponse Q account code)), m)"
    "sent (ms_net (gs_client_master g)) h (packet (Msg MSGID_GT2LS_SELECTED_SERVER_RESPONSE (ser_SelectedServerResponse Q account code))) m" by blast
  then show ?thesis
    using assms(1,3,4) s by (auto simp: processSelectedServerNotify_def)
qed

lemma selected_server_response_ok:
  assumes "parse_SelectedServerResponse P (mi_data k) = Some (account, code)" "am_getAgent (clients_of n) account = Some a"
    and "ag_state a = AGENT_STATE_VERIFIED" "ag_mgr a \<noteq> 0" "mgr_get n (ag_conn_id a) = Some c" "sender_ready n c"
    and "ap_getAgent (lg_gate_mgr (nt_app n)) (lcd_gate_id (ag_data a)) \<noteq> None" "gsl_get (lg_gate_conf_list (nt_app n)) (lcd_gate_id (ag_data a)) = Some d"
    and "length (ser_SelectServerResponse P code (gf_ip d) (gf_port d)) < 65531"
  shows "\<exists>n'. processSelectedServerResponse P n k = Some (sint (mi_len k), n') \<and>
    sent n c (packet (Msg MSGID_S2C_SELECT_SERVER_RESPONSE (ser_SelectServerResponse P code (gf_ip d) (gf_port d)))) n'"
  using agent_send_sent [OF assms(3-6,9), of MSGID_S2C_SELECT_SERVER_RESPONSE] assms(1,2,7-9)
  by (auto simp: processSelectedServerResponse_def Let_def)

text \<open>
  C7. The hand over from the login server to a gate. A logged in client selects a gate server that is
  registered and configured. The login server sends the gate the account; the gate opens a session
  with a new code and answers; the login server forwards to the client of that account the code with
  the configured address of the gate. From then on, of all attempts to enter the gate, those of the
  account that succeed are exactly the first with the code that was forwarded, if it comes within 100
  seconds. The two hypotheses on the codecs say that the gate and the login server read what the
  other one wrote.
\<close>

theorem login_hands_over_session:
  assumes select: "parse_SelectServerRequest P (mi_data i) = Some gate_id" "ap_getAgent (lg_gate_mgr (nt_app n)) gate_id = Some gate"
      "ag_state gate = AGENT_STATE_VERIFIED" "ag_mgr gate \<noteq> 0" "mgr_get (lg_gate_net (nt_app n)) (ag_conn_id gate) = Some h"
      "sender_ready (lg_gate_net (nt_app n)) h" "am_getKeyByConnId (clients_of n) (mi_conn_id i) = Some account"
      "length (ser_SelectedServerNotify P account) < 65531"
    and client: "am_getAgent (clients_of n) account = Some a" "ag_state a = AGENT_STATE_VERIFIED" "ag_mgr a \<noteq> 0"
      "mgr_get n (ag_conn_id a) = Some c" "sender_ready n c" "gsl_get (lg_gate_conf_list (nt_app n)) gate_id = Some d"
    and gate: "msg_connection (ms_net (gs_client_master g)) (received_msg 0 20002 (ser_SelectedServerNotify P account) cid mgr) = Some l"
      "sender_ready (ms_net (gs_client_master g)) l"
    and codec: "parse_SelectedServerNotify Q (cells (ser_SelectedServerNotify P account)) = Some account"
      "parse_SelectedServerResponse P (cells (ser_SelectedServerResponse Q account code)) = Some (account, code)"
    and fits: "length (ser_SelectedServerResponse Q account code) < 65531" "length (ser_SelectServerResponse P code (gf_ip d) (gf_port d)) < 65531"
  shows "\<exists>n1 g1 n2. processSelectServer P n i = Some (sint (mi_len i), n1) \<and>
    queued (lg_gate_net (nt_app n1)) h = queued (lg_gate_net (nt_app n)) h @ cells (packet (Msg 20002 (ser_SelectedServerNotify P account))) \<and>
    processSelectedServerNotify Q g (received_msg 0 20002 (ser_SelectedServerNotify P account) cid mgr) code t = Some (0, g1) \<and>
    queued (ms_net (gs_client_master g1)) l = queued (ms_net (gs_client_master g)) l @ cells (packet (Msg 20003 (ser_SelectedServerResponse Q account code))) \<and>
    processSelectedServerResponse P n1 (received_msg 0 20003 (ser_SelectedServerResponse Q account code) cid' mgr') =
      Some (int (length (ser_SelectedServerResponse Q account code)), n2) \<and>
    queued n2 c = queued n c @ cells (packet (Msg 10003 (ser_SelectServerResponse P code (gf_ip d) (gf_port d)))) \<and>
    accepted account xs (fst (check_all xs g1)) = admitted account code t xs"
proof -
  from select_server_ok [OF select] obtain n1 m where n1: "processSelectServer P n i = Some (sint (mi_len i), n1)" "n1 = n\<lparr>nt_app := nt_app n1\<rparr>"
    "nt_app n1 = (nt_app (write_tmp n (ser_SelectedServerNotify P account)))
      \<lparr>lg_gate_net := m, lg_clients := am_setData (clients_of n) account (\<lambda>d. d\<lparr>lcd_gate_id := gate_id\<rparr>)\<rparr>"
    "sent (lg_gate_net (nt_app n)) h (packet (Msg 20002 (ser_SelectedServerNotify P account))) m" by blast
  from selected_server_notify_ok [OF gate _ fits(1), of t] codec(1) obtain g1 m' where
    g1: "processSelectedServerNotify Q g (received_msg 0 20002 (ser_SelectedServerNotify P account) cid mgr) code t = Some (0, g1)"
      "g1 = upd_login_net (snd (newAccountSession g account code t)) m'"
      "sent (ms_net (gs_client_master g)) l (packet (Msg 20003 (ser_SelectedServerResponse Q account code))) m'" by auto
  let ?a = "a\<lparr>ag_data := (ag_data a)\<lparr>lcd_gate_id := gate_id\<rparr>\<rparr>"
  have a: "am_getAgent (clients_of n1) account = Some ?a" using client(1) by (simp add: n1(3) am_setData_get)
  have c: "mgr_get n1 (ag_conn_id a) = Some c" "sender_ready n1 c" "queued n1 c = queued n c"
    using client(4,5) by (subst n1(2), simp)+
  from selected_server_response_ok [OF _ a, of P "received_msg 0 20003 (ser_SelectedServerResponse Q account code) cid' mgr'" code c d]
    codec(2) client(2,3,6) c fits(2) select(2) n1(3) obtain n2 where
    n2: "processSelectedServerResponse P n1 (received_msg 0 20003 (ser_SelectedServerResponse Q account code) cid' mgr') =
        Some (sint (of_nat (length (ser_SelectedServerResponse Q account code)) :: u32), n2)"
      "sent n1 c (packet (Msg 10003 (ser_SelectServerResponse P code (gf_ip d) (gf_port d)))) n2" by auto
  have len: "sint (of_nat (length (ser_SelectedServerResponse Q account code)) :: u32) = int (length (ser_SelectedServerResponse Q account code))"
    using fits(1) by (intro len_casts) simp
  have "gs_account_session g1 account = Some \<lparr>si_session = code, si_get_session_time = t\<rparr>"
    by (cases "gs_account_session g account") (simp_all add: g1(2) upd_login_net_def newAccountSession_def map_insert_def)
  then have "accepted account xs (fst (check_all xs g1)) = admitted account code t xs" using check_all_accepted [of account xs g1] by simp
  moreover have "ms_net (gs_client_master g1) = m'" by (simp add: g1(2) upd_login_net_def)
  moreover have "lg_gate_net (nt_app n1) = m" by (simp add: n1(3))
  ultimately show ?thesis
    using n1(1) sentD(1) [OF n1(4)] g1(1) sentD(1) [OF g1(3)] n2(1) len sentD(1) [OF n2(2)] c(3) by auto
qed

text \<open>A gate with a live connection to the login server of \<open>two_client_login\<close>, which knows its address.\<close>

definition linked_gate :: gate_state where
  "linked_gate = (new_gate 2)\<lparr>gs_client_master := new_master (connected_net JMY_CONN_TYPE_ACTIVE 7 ())\<rparr>"

definition configured_login :: login where
  "configured_login = upd_login two_client_login (\<lambda>g. gsl_push g gate_entry)"

theorem login_hands_over_session_witness:
  "\<exists>n1 g1 n2. processSelectServer sample_login_codec configured_login (received_msg 0 10002 [1] 3 1) = Some (1, n1) \<and>
    processSelectedServerNotify sample_codec linked_gate (received_msg 0 20002 [10, 3, 106, 111, 101] 3 1) ''code'' 7 = Some (0, g1) \<and>
    processSelectedServerResponse sample_login_codec n1 (received_msg 0 20003 [] 3 1) = Some (0, n2) \<and>
    queued n2 1 = queued configured_login 1 @ cells (packet (Msg 10003 [18])) \<and>
    accepted ''joe'' [(''joe'', ''code'', 9), (''joe'', ''code'', 10)] (fst (check_all [(''joe'', ''code'', 9), (''joe'', ''code'', 10)] g1)) =
      [(''joe'', ''code'', 9)]"
proof -
  let ?i = "received_msg 0 10002 [1] 3 1"
  have P: "parse_SelectServerRequest sample_login_codec x = Some 20001" "ser_SelectedServerNotify sample_login_codec y = [10, 3, 106, 111, 101]"
    "parse_SelectedServerResponse sample_login_codec x = Some (''joe'', ''code'')" "ser_SelectServerResponse sample_login_codec y z u = [18]"
    "parse_SelectedServerNotify sample_codec x = Some ''joe''" "ser_SelectedServerResponse sample_codec y z = []" for x y z u
    by (simp_all add: sample_login_codec_def sample_codec_def)
  have L: "lg_gate_mgr (nt_app configured_login) = lg_gate_mgr (nt_app two_client_login)" "clients_of configured_login = clients_of two_client_login"
    "lg_gate_net (nt_app configured_login) = connected_net JMY_CONN_TYPE_PASSIVE 7 ()" "gsl_get (lg_gate_conf_list (nt_app configured_login)) 20001 = Some gate_entry"
    "mgr_get configured_login 3 = Some 1" "sender_ready configured_login 1"
    using two_client_login_facts(2,6,7) by (simp_all add: configured_login_def gsl_push_def gsl_get_def gate_entry_def client_conn_def)
  have G: "msg_connection (ms_net (gs_client_master linked_gate)) (received_msg 0 20002 d 3 1) = Some 1"
    "sender_ready (ms_net (gs_client_master linked_gate)) 1" for d
    by (simp_all add: linked_gate_def new_master_def msg_connection_def get_connection_def connected_net_get connected_sender_ready)
  note R = login_hands_over_session [where P = sample_login_codec and i = ?i and n = configured_login and Q = sample_codec and g = linked_gate
      and gate_id = 20001 and account = "''joe''" and code = "''code''" and cid = 3 and mgr = 1 and cid' = 3 and mgr' = 1 and c = 1 and h = 1 and l = 1
      and d = gate_entry and xs = "[(''joe'', ''code'', 9), (''joe'', ''code'', 10)]" and t = 7
      and gate = "verified_agent \<lparr>gd_id = 0, gd_ip = [], gd_port = 0\<rparr> 1 3" and a = "verified_agent \<lparr>lcd_gate_id = 0\<rparr> 1 3", unfolded P L]
  from R [OF HOL.refl two_client_login_facts(5) _ _ _ _ _ _ joe_agent(2) _ _ _ L(6) HOL.refl G HOL.refl HOL.refl] L(5) joe_agent(3)
  show ?thesis by (auto simp: connected_net_get connected_sender_ready admitted_def)
qed

end
